(* ===== verification/Prelude.thy ===== *)
theory Prelude
  imports Main "HOL-Library.Word"
begin

text \<open>
  Shared vocabulary of the development: the machine integer types of the C++ sources, a
  bit-blasting rule for 32-bit words, C++ bit fields, little-endian byte encodings (the
  \<open>memcpy\<close> of an integer on the simulation host), and the state-and-outcome type in which all
  stateful code is written, with the calculus of preserved invariants used by every component.
\<close>

unbundle bit_operations_syntax

named_theorems bitblast "definitions unfolded when a word equation is proved bit by bit"
named_theorems preserves_intros "rules that show that an action keeps an invariant"
named_theorems keeps_intros "rules that show that an action leaves a projection unchanged"
named_theorems inv_intros "rules for invariants with a separate condition on traps"
named_theorems returns_intros "rules for a property of the values an action returns"

section \<open>Machine integers\<close>

type_synonym u8 = "8 word"
type_synonym u16 = "16 word"
type_synonym u32 = "32 word"
type_synonym u64 = "64 word"

text \<open>
  \<open>int32_t\<close> values are the same 32 bits; comparisons and right shifts of signed operands are the
  signed ones.
\<close>

definition b2w :: "bool \<Rightarrow> u32" where
  "b2w b = (if b then 1 else 0)"

lemma upt_0_32: "[0..<32] = [0,1,2,3,4,5,6,7,8,9,10,11,12,13,14,15,16,17,18,19,20,21,22,23,
  24,25,26,27,28,29,30,31]"
  by (simp add: upt_rec)

lemma less_32_cases:
  assumes "n < (32 :: nat)"
  shows "n \<in> {0,1,2,3,4,5,6,7,8,9,10,11,12,13,14,15,16,17,18,19,20,21,22,23,
    24,25,26,27,28,29,30,31}"
proof -
  from assms have "n \<in> set [0..<32]" by simp
  then show ?thesis unfolding upt_0_32 by simp
qed

text \<open>
  Two 32-bit words are equal if each of their 32 bits is: the premises are at numerals, where
  the simplifier evaluates every mask and shift of the source.
\<close>

lemma u32_eqI:
  fixes x y :: u32
  assumes "bit x 0 = bit y 0" "bit x (Suc 0) = bit y (Suc 0)" "bit x 2 = bit y 2" "bit x 3 = bit y 3"
    "bit x 4 = bit y 4" "bit x 5 = bit y 5" "bit x 6 = bit y 6" "bit x 7 = bit y 7"
    "bit x 8 = bit y 8" "bit x 9 = bit y 9" "bit x 10 = bit y 10" "bit x 11 = bit y 11"
    "bit x 12 = bit y 12" "bit x 13 = bit y 13" "bit x 14 = bit y 14" "bit x 15 = bit y 15"
    "bit x 16 = bit y 16" "bit x 17 = bit y 17" "bit x 18 = bit y 18" "bit x 19 = bit y 19"
    "bit x 20 = bit y 20" "bit x 21 = bit y 21" "bit x 22 = bit y 22" "bit x 23 = bit y 23"
    "bit x 24 = bit y 24" "bit x 25 = bit y 25" "bit x 26 = bit y 26" "bit x 27 = bit y 27"
    "bit x 28 = bit y 28" "bit x 29 = bit y 29" "bit x 30 = bit y 30" "bit x 31 = bit y 31"
  shows "x = y"
proof (rule bit_word_eqI)
  fix n
  assume "n < LENGTH(32)"
  then have "n < 32" by simp
  from less_32_cases [OF this] show "bit x n = bit y n"
    using assms by auto
qed

lemma and_mask_sub:
  fixes w :: "'a::len word"
  assumes "w AND M = E" and "S AND M = S"
  shows "w AND S = E AND S"
proof -
  have "w AND S = (w AND M) AND S"
    using assms(2) by (metis and.assoc and.commute)
  with assms(1) show ?thesis by simp
qed

lemma unat_and_le:
  fixes x :: "'a::len word"
  shows "unat (x AND y) \<le> unat y"
  by (metis and.commute word_and_le1 word_le_nat_alt)

lemma ucast_down_up: "ucast (ucast (w :: u32) :: u64) = w"
  by (rule bit_word_eqI) (auto simp: bit_simps)

section \<open>C++ bit fields\<close>

text \<open>
  The CSR structs of \<open>csr.h\<close> are unions of the raw register and a struct of bit fields. A field
  at bit \<open>lo\<close> of width \<open>w\<close> is read and written on the raw word; assigning to a field keeps the
  low \<open>w\<close> bits of the value.
\<close>

definition bf_get :: "nat \<Rightarrow> nat \<Rightarrow> 'a::len word \<Rightarrow> 'a word" where
  "bf_get lo w r = take_bit w (drop_bit lo r)"

definition bf_set :: "nat \<Rightarrow> nat \<Rightarrow> 'a::len word \<Rightarrow> 'a word \<Rightarrow> 'a word" where
  "bf_set lo w v r = (r AND NOT (push_bit lo (mask w))) OR push_bit lo (take_bit w v)"

lemma bit_bf_get: "bit (bf_get lo w r) n \<longleftrightarrow> n < w \<and> bit r (lo + n)"
  by (simp add: bf_get_def bit_simps)

lemma bit_bf_set:
  "n < LENGTH('a) \<Longrightarrow> bit (bf_set lo w v (r :: 'a::len word)) n \<longleftrightarrow>
     (if lo \<le> n \<and> n < lo + w then bit v (n - lo) else bit r n)"
  by (auto simp: bf_set_def bit_simps)

lemma bf_get_set_same:
  "lo + w \<le> LENGTH('a) \<Longrightarrow> bf_get lo w (bf_set lo w v (r :: 'a::len word)) = take_bit w v"
  by (rule bit_word_eqI) (auto simp: bit_bf_get bit_bf_set bit_simps)

lemma bf_get_set_other:
  "lo + w \<le> lo' \<or> lo' + w' \<le> lo \<Longrightarrow> bf_get lo w (bf_set lo' w' v r) = bf_get lo w r"
  by (rule bit_word_eqI) (auto simp: bf_get_def bf_set_def bit_simps dest: bit_imp_le_length)

lemma bf_set_set_same: "bf_set lo w v (bf_set lo w v' r) = bf_set lo w v r"
  by (rule bit_word_eqI) (auto simp: bf_set_def bit_simps)

lemma take_bit_bf_get: "take_bit w (bf_get lo w r) = bf_get lo w r"
  by (simp add: bf_get_def)

lemmas bf_simps = bf_get_set_same bf_get_set_other bf_set_set_same take_bit_bf_get

section \<open>Little-endian byte encodings\<close>

definition to_bytes :: "nat \<Rightarrow> u64 \<Rightarrow> u8 list" where
  "to_bytes n v = map (\<lambda>i. ucast (drop_bit (8 * i) v)) [0..<n]"

primrec of_bytes :: "u8 list \<Rightarrow> u64" where
  "of_bytes [] = 0"
| "of_bytes (b # bs) = ucast b OR push_bit 8 (of_bytes bs)"

lemma length_to_bytes [simp]: "length (to_bytes n v) = n"
  by (simp add: to_bytes_def)

lemma to_bytes_Suc: "to_bytes (Suc n) v = ucast v # to_bytes n (drop_bit 8 v)"
  unfolding to_bytes_def
  by (simp add: upt_conv_Cons map_Suc_upt [symmetric] add.commute del: upt_Suc)

lemma of_to_bytes: "of_bytes (to_bytes n v) = take_bit (8 * n) v"
proof (induction n arbitrary: v)
  case 0
  then show ?case by (simp add: to_bytes_def)
next
  case (Suc n)
  show ?case
    by (rule bit_word_eqI) (auto simp: to_bytes_Suc Suc.IH bit_simps)
qed

lemma to_of_bytes: "length bs \<le> 8 \<Longrightarrow> to_bytes (length bs) (of_bytes bs) = bs"
proof (induction bs)
  case Nil
  then show ?case by (simp add: to_bytes_def)
next
  case (Cons b bs)
  have low: "ucast (ucast b OR push_bit 8 (of_bytes bs) :: u64) = b"
    by (rule bit_word_eqI) (auto simp: bit_simps)
  have len: "8 * length bs \<le> 56" using Cons.prems by simp
  have top: "\<not> bit (of_bytes bs) n" if "8 * length bs \<le> n" for n
    using that
  proof (induction bs arbitrary: n)
    case Nil
    then show ?case by simp
  next
    case (Cons c cs)
    then show ?case by (auto simp: bit_simps dest: bit_imp_le_length)
  qed
  have high: "drop_bit 8 (ucast b OR push_bit 8 (of_bytes bs) :: u64) = of_bytes bs"
  proof (rule bit_word_eqI)
    fix n
    show "bit (drop_bit 8 (ucast b OR push_bit 8 (of_bytes bs) :: u64)) n = bit (of_bytes bs) n"
      using top [of n] len
      by (auto simp: bit_simps dest: bit_imp_le_length)
  qed
  have "to_bytes (length (b # bs)) (of_bytes (b # bs)) = b # to_bytes (length bs) (of_bytes bs)"
    by (simp only: length_Cons of_bytes.simps to_bytes_Suc low high)
  with Cons show ?case by simp
qed

section \<open>Stateful code: outcomes, sequencing, invariants\<close>

text \<open>
  A member function of the simulator takes the state and ends in one of four ways: it returns
  (\<open>Ok\<close>); it throws a \<open>SimulationTrap\<close> (\<open>raise_trap\<close> of \<open>trap.h\<close>) that the run loop catches; an
  assertion fails or another C++ exception escapes, which ends the simulation (\<open>Fail\<close>); or the
  SystemC thread waits for an event that never comes (\<open>Blocked\<close>). The state reached is kept in
  every case: what the code changed before it threw stays changed.
\<close>

type_synonym ExceptionCode = u32

datatype sim_error =
    AssertionFailed
  | RuntimeError
  | OutOfRange
  | BadLexicalCast
  | NullPointer
  | InvalidArgument
  | SystemError
  | LoadExecutable
  | ProgramExit

datatype 'a outcome =
    Ok 'a
  | Trap ExceptionCode u64
  | Fail sim_error
  | Blocked

type_synonym ('s, 'a) act = "'s \<Rightarrow> 'a outcome \<times> 's"

definition ret :: "'a \<Rightarrow> ('s, 'a) act" where
  "ret x = (\<lambda>s. (Ok x, s))"

definition bindM :: "('s, 'a) act \<Rightarrow> ('a \<Rightarrow> ('s, 'b) act) \<Rightarrow> ('s, 'b) act" where
  "bindM m f = (\<lambda>s. case m s of
       (Ok x, s') \<Rightarrow> f x s'
     | (Trap e v, s') \<Rightarrow> (Trap e v, s')
     | (Fail err, s') \<Rightarrow> (Fail err, s')
     | (Blocked, s') \<Rightarrow> (Blocked, s'))"

definition seqM :: "('s, unit) act \<Rightarrow> ('s, 'b) act \<Rightarrow> ('s, 'b) act" where
  "seqM m k = bindM m (\<lambda>_. k)"

primrec seqs :: "('s, unit) act list \<Rightarrow> ('s, unit) act" where
  "seqs [] = (\<lambda>s. (Ok (), s))"
| "seqs (m # ms) = seqM m (seqs ms)"

definition getsM :: "('s \<Rightarrow> 'a) \<Rightarrow> ('s, 'a) act" where
  "getsM f = (\<lambda>s. (Ok (f s), s))"

definition modifyM :: "('s \<Rightarrow> 's) \<Rightarrow> ('s, unit) act" where
  "modifyM f = (\<lambda>s. (Ok (), f s))"

definition failM :: "sim_error \<Rightarrow> ('s, 'a) act" where
  "failM err = (\<lambda>s. (Fail err, s))"

definition assertM :: "('s \<Rightarrow> bool) \<Rightarrow> ('s, unit) act" where
  "assertM P = (\<lambda>s. if P s then (Ok (), s) else (Fail AssertionFailed, s))"

definition whenM :: "('s \<Rightarrow> bool) \<Rightarrow> ('s, unit) act \<Rightarrow> ('s, unit) act" where
  "whenM P m = (\<lambda>s. if P s then m s else (Ok (), s))"

definition raise_trap :: "ExceptionCode \<Rightarrow> u64 \<Rightarrow> ('s, 'a) act" where
  "raise_trap exc mtval = (\<lambda>s. (Trap exc mtval, s))"

text \<open>A computation on a part of the state, run inside the whole.\<close>

definition zoomM :: "('s \<Rightarrow> 'p) \<Rightarrow> ('p \<Rightarrow> 's \<Rightarrow> 's) \<Rightarrow> ('p, 'a) act \<Rightarrow> ('s, 'a) act" where
  "zoomM get put m = (\<lambda>s. case m (get s) of (r, p) \<Rightarrow> (r, put p s))"

lemmas act_defs = ret_def bindM_def seqM_def getsM_def modifyM_def failM_def assertM_def
  whenM_def raise_trap_def zoomM_def

lemma bindM_ret [simp]: "bindM (ret x) f = f x"
  by (simp add: act_defs)

lemma bindM_assoc: "bindM (bindM m f) g = bindM m (\<lambda>x. bindM (f x) g)"
  by (rule ext) (simp add: bindM_def split: prod.split outcome.split)

lemma act_apply [simp]:
  "ret x s = (Ok x, s)"
  "getsM f s = (Ok (f s), s)"
  "modifyM g s = (Ok (), g s)"
  "failM err s = (Fail err, s)"
  "raise_trap e v s = (Trap e v, s)"
  by (simp_all add: act_defs)

lemma bindM_apply:
  "m s = (Ok x, s') \<Longrightarrow> bindM m f s = f x s'"
  "m s = (Trap e v, s') \<Longrightarrow> bindM m f s = (Trap e v, s')"
  "m s = (Fail err, s') \<Longrightarrow> bindM m f s = (Fail err, s')"
  "m s = (Blocked, s') \<Longrightarrow> bindM m f s = (Blocked, s')"
  by (simp_all add: bindM_def)

lemma bindM_gets_apply [simp]: "bindM (getsM g) f s = f (g s) s"
  by (simp add: act_defs)

lemma bindM_modify_apply [simp]: "bindM (modifyM g) f s = f () (g s)"
  by (simp add: act_defs)

lemma seqM_modify_apply [simp]: "seqM (modifyM g) k s = k (g s)"
  by (simp add: act_defs)

lemma seqM_ret [simp]: "seqM m (Pair (Ok ())) = m"
  by (rule ext) (simp add: seqM_def bindM_def split: prod.split outcome.split)

lemma seqM_apply:
  "m s = (Ok x, s') \<Longrightarrow> seqM m k s = k s'"
  "m s = (Trap e v, s') \<Longrightarrow> seqM m k s = (Trap e v, s')"
  "m s = (Fail err, s') \<Longrightarrow> seqM m k s = (Fail err, s')"
  by (simp_all add: seqM_def bindM_def)

lemma seqM_assert_apply: "P s \<Longrightarrow> seqM (assertM P) k s = k s"
  by (simp add: seqM_def bindM_def assertM_def)

lemma bindM_OkE:
  assumes "bindM m f s = (Ok y, s'')"
  obtains x s' where "m s = (Ok x, s')" and "f x s' = (Ok y, s'')"
  using assms by (auto simp: bindM_def split: prod.splits outcome.splits)

lemma bindM_TrapE:
  assumes "bindM m f s = (Trap e v, s'')"
  obtains "m s = (Trap e v, s'')" | x s' where "m s = (Ok x, s')" and "f x s' = (Trap e v, s'')"
  using assms by (auto simp: bindM_def split: prod.splits outcome.splits)

lemma snd_bindM:
  "snd (bindM m f s) = (case fst (m s) of Ok x \<Rightarrow> snd (f x (snd (m s))) | _ \<Rightarrow> snd (m s))"
  by (auto simp: bindM_def split: prod.split outcome.split)

lemma fst_bindM:
  "fst (bindM m f s) = (case fst (m s) of
      Ok x \<Rightarrow> fst (f x (snd (m s)))
    | Trap e v \<Rightarrow> Trap e v
    | Fail err \<Rightarrow> Fail err
    | Blocked \<Rightarrow> Blocked)"
  by (auto simp: bindM_def split: prod.split outcome.split)

subsection \<open>Invariants kept by an action\<close>

text \<open>\<open>preserves I m\<close>: \<open>m\<close> keeps \<open>I\<close> however it ends.\<close>

definition preserves :: "('s \<Rightarrow> bool) \<Rightarrow> ('s, 'a) act \<Rightarrow> bool" where
  "preserves I m \<longleftrightarrow> (\<forall>s. I s \<longrightarrow> I (snd (m s)))"

lemma preservesD: "preserves I m \<Longrightarrow> I s \<Longrightarrow> m s = (r, s') \<Longrightarrow> I s'"
  unfolding preserves_def by (metis snd_conv)

lemma preserves_ret [preserves_intros]: "preserves I (ret x)"
  by (simp add: preserves_def)

lemma preserves_gets [preserves_intros]: "preserves I (getsM f)"
  by (simp add: preserves_def)

lemma preserves_fail [preserves_intros]: "preserves I (failM err)"
  by (simp add: preserves_def)

lemma preserves_trap [preserves_intros]: "preserves I (raise_trap e v)"
  by (simp add: preserves_def)

lemma preserves_assert [preserves_intros]: "preserves I (assertM P)"
  by (simp add: preserves_def act_defs)

lemma preserves_modify [preserves_intros]:
  "(\<And>s. I s \<Longrightarrow> I (g s)) \<Longrightarrow> preserves I (modifyM g)"
  by (simp add: preserves_def)

lemma preserves_when [preserves_intros]: "preserves I m \<Longrightarrow> preserves I (whenM P m)"
  by (simp add: preserves_def act_defs)

lemma preserves_bind [preserves_intros]:
  "preserves I m \<Longrightarrow> (\<And>x. preserves I (f x)) \<Longrightarrow> preserves I (bindM m f)"
  by (auto simp: preserves_def snd_bindM split: outcome.split)

lemma preserves_seq [preserves_intros]:
  "preserves I m \<Longrightarrow> preserves I k \<Longrightarrow> preserves I (seqM m k)"
  by (simp add: seqM_def preserves_bind)

lemma preserves_seqs [preserves_intros]:
  "preserves I (seqs [])"
  "preserves I m \<Longrightarrow> preserves I (seqs ms) \<Longrightarrow> preserves I (seqs (m # ms))"
  by (simp_all add: preserves_seq) (simp add: preserves_def)

lemma preserves_if [preserves_intros]:
  "(b \<Longrightarrow> preserves I m) \<Longrightarrow> (\<not> b \<Longrightarrow> preserves I m') \<Longrightarrow> preserves I (if b then m else m')"
  by simp

lemma preserves_let [preserves_intros]:
  "(\<And>x. preserves I (f x)) \<Longrightarrow> preserves I (let x = t in f x)"
  by (simp add: Let_def)

lemma preserves_zoom:
  "(\<And>s. I s \<Longrightarrow> J (get s)) \<Longrightarrow> (\<And>s p. I s \<Longrightarrow> J p \<Longrightarrow> I (put p s)) \<Longrightarrow> preserves J m
    \<Longrightarrow> preserves I (zoomM get put m)"
  unfolding preserves_def zoomM_def by (auto split: prod.split) (metis snd_conv)

subsection \<open>Projections an action leaves unchanged\<close>

definition keeps :: "('s \<Rightarrow> 'p) \<Rightarrow> ('s, 'a) act \<Rightarrow> bool" where
  "keeps f m \<longleftrightarrow> (\<forall>s. f (snd (m s)) = f s)"

lemma keepsD: "keeps f m \<Longrightarrow> m s = (r, s') \<Longrightarrow> f s' = f s"
  unfolding keeps_def by (metis snd_conv)

lemma keeps_basic [keeps_intros]:
  "keeps f (ret x)" "keeps f (getsM g)" "keeps f (failM err)" "keeps f (raise_trap e v)"
  "keeps f (assertM P)"
  by (simp_all add: keeps_def act_defs)

lemma keeps_modify [keeps_intros]: "(\<And>s. f (g s) = f s) \<Longrightarrow> keeps f (modifyM g)"
  by (simp add: keeps_def)

lemma keeps_when [keeps_intros]: "keeps f m \<Longrightarrow> keeps f (whenM P m)"
  by (simp add: keeps_def act_defs)

lemma keeps_bind [keeps_intros]:
  "keeps f m \<Longrightarrow> (\<And>x. keeps f (g x)) \<Longrightarrow> keeps f (bindM m g)"
  by (auto simp: keeps_def snd_bindM split: outcome.split)

lemma keeps_seq [keeps_intros]: "keeps f m \<Longrightarrow> keeps f k \<Longrightarrow> keeps f (seqM m k)"
  by (simp add: seqM_def keeps_bind)

lemma keeps_seqs [keeps_intros]:
  "keeps f (seqs [])" "keeps f m \<Longrightarrow> keeps f (seqs ms) \<Longrightarrow> keeps f (seqs (m # ms))"
  by (simp_all add: keeps_seq) (simp add: keeps_def)

lemma keeps_if [keeps_intros]:
  "(b \<Longrightarrow> keeps f m) \<Longrightarrow> (\<not> b \<Longrightarrow> keeps f m') \<Longrightarrow> keeps f (if b then m else m')"
  by simp

lemma keeps_let [keeps_intros]: "(\<And>x. keeps f (g x)) \<Longrightarrow> keeps f (let x = t in g x)"
  by (simp add: Let_def)

lemma keeps_zoom [keeps_intros]:
  "(\<And>s p. f (put p s) = f s) \<Longrightarrow> keeps f (zoomM get put m)"
  unfolding keeps_def zoomM_def by (auto split: prod.split)

subsection \<open>Values an action returns\<close>

definition returns :: "('a \<Rightarrow> bool) \<Rightarrow> ('s, 'a) act \<Rightarrow> bool" where
  "returns P m \<longleftrightarrow> (\<forall>s x s'. m s = (Ok x, s') \<longrightarrow> P x)"

lemma returnsD: "returns P m \<Longrightarrow> m s = (Ok x, s') \<Longrightarrow> P x"
  by (auto simp: returns_def)

lemma returns_ret [returns_intros]: "P x \<Longrightarrow> returns P (ret x)"
  by (simp add: returns_def)

lemma returns_throw [returns_intros]: "returns P (failM err)" "returns P (raise_trap e v)"
  by (simp_all add: returns_def)

lemma returns_bind [returns_intros]: "(\<And>x. returns P (f x)) \<Longrightarrow> returns P (bindM m f)"
  unfolding returns_def by (auto elim!: bindM_OkE)

lemma returns_seq [returns_intros]: "returns P k \<Longrightarrow> returns P (seqM m k)"
  by (simp add: seqM_def returns_bind)

lemma returns_if [returns_intros]:
  "(b \<Longrightarrow> returns P m) \<Longrightarrow> (\<not> b \<Longrightarrow> returns P m') \<Longrightarrow> returns P (if b then m else m')"
  by simp

lemma returns_let [returns_intros]: "returns P (f t) \<Longrightarrow> returns P (let x = t in f x)"
  by (simp add: Let_def)

subsection \<open>Invariants with a separate condition on traps\<close>

text \<open>
  \<open>inv_act I K m\<close>: from \<open>I\<close>, the action ends in \<open>I\<close> if it returns and in \<open>K\<close> if it throws a trap.
\<close>

definition inv_act :: "('s \<Rightarrow> bool) \<Rightarrow> ('s \<Rightarrow> bool) \<Rightarrow> ('s, 'a) act \<Rightarrow> bool" where
  "inv_act I K m \<longleftrightarrow> (\<forall>s. I s \<longrightarrow> (case m s of (Ok _, s') \<Rightarrow> I s' | (Trap _ _, s') \<Rightarrow> K s' | _ \<Rightarrow> True))"

lemma inv_act_Ok: "inv_act I K m \<Longrightarrow> I s \<Longrightarrow> m s = (Ok x, s') \<Longrightarrow> I s'"
  by (fastforce simp: inv_act_def)

lemma inv_act_Trap: "inv_act I K m \<Longrightarrow> I s \<Longrightarrow> m s = (Trap e v, s') \<Longrightarrow> K s'"
  by (fastforce simp: inv_act_def)

lemma inv_actI:
  assumes "\<And>s x s'. I s \<Longrightarrow> m s = (Ok x, s') \<Longrightarrow> I s'"
    and "\<And>s e v s'. I s \<Longrightarrow> m s = (Trap e v, s') \<Longrightarrow> K s'"
  shows "inv_act I K m"
  using assms by (auto simp: inv_act_def split: prod.split outcome.split)

lemma preserves_inv: "preserves I m \<Longrightarrow> (\<And>s. I s \<Longrightarrow> K s) \<Longrightarrow> inv_act I K m"
  by (rule inv_actI) (auto dest: preservesD)

lemma inv_ret [inv_intros]: "inv_act I K (ret x)"
  by (simp add: inv_act_def)

lemma inv_gets [inv_intros]: "inv_act I K (getsM f)"
  by (simp add: inv_act_def)

lemma inv_fail [inv_intros]: "inv_act I K (failM err)"
  by (simp add: inv_act_def)

lemma inv_assert [inv_intros]: "inv_act I K (assertM P)"
  by (simp add: inv_act_def assertM_def)

lemma inv_modify [inv_intros]: "(\<And>s. I s \<Longrightarrow> I (g s)) \<Longrightarrow> inv_act I K (modifyM g)"
  by (simp add: inv_act_def)

lemma inv_when [inv_intros]: "inv_act I K m \<Longrightarrow> inv_act I K (whenM P m)"
  by (simp add: inv_act_def whenM_def)

lemma inv_bind [inv_intros]:
  assumes "inv_act I K m" and "\<And>x. inv_act I K (f x)"
  shows "inv_act I K (bindM m f)"
proof (rule inv_actI)
  fix s y s''
  assume "I s" and "bindM m f s = (Ok y, s'')"
  then obtain x s' where "m s = (Ok x, s')" and "f x s' = (Ok y, s'')" by (elim bindM_OkE)
  with \<open>I s\<close> show "I s''" using inv_act_Ok [OF assms(1)] inv_act_Ok [OF assms(2)] by blast
next
  fix s e v s''
  assume "I s" and tr: "bindM m f s = (Trap e v, s'')"
  from tr show "K s''"
  proof (cases rule: bindM_TrapE)
    case 1
    with \<open>I s\<close> show ?thesis by (rule inv_act_Trap [OF assms(1)])
  next
    case (2 x s')
    from inv_act_Ok [OF assms(1) \<open>I s\<close> 2(1)] 2(2) show ?thesis
      by (rule inv_act_Trap [OF assms(2)])
  qed
qed

lemma inv_seq [inv_intros]: "inv_act I K m \<Longrightarrow> inv_act I K k \<Longrightarrow> inv_act I K (seqM m k)"
  by (simp add: seqM_def inv_bind)

lemma inv_seqs [inv_intros]:
  "inv_act I K (seqs [])"
  "inv_act I K m \<Longrightarrow> inv_act I K (seqs ms) \<Longrightarrow> inv_act I K (seqs (m # ms))"
  by (simp_all add: inv_seq) (simp add: inv_act_def)

lemma inv_if [inv_intros]:
  "(b \<Longrightarrow> inv_act I K m) \<Longrightarrow> (\<not> b \<Longrightarrow> inv_act I K m') \<Longrightarrow> inv_act I K (if b then m else m')"
  by simp

lemma inv_let [inv_intros]: "(\<And>x. inv_act I K (f x)) \<Longrightarrow> inv_act I K (let x = t in f x)"
  by (simp add: Let_def)

lemma inv_case_prod [inv_intros]:
  "(\<And>a b. inv_act I K (g a b)) \<Longrightarrow> inv_act I K (case p of (a, b) \<Rightarrow> g a b)"
  by (cases p) simp

lemma inv_case_option [inv_intros]:
  "inv_act I K m \<Longrightarrow> (\<And>x. inv_act I K (g x)) \<Longrightarrow>
     inv_act I K (case o' of None \<Rightarrow> m | Some x \<Rightarrow> g x)"
  by (cases o') simp_all

lemma inv_state: "(\<And>s. I s \<Longrightarrow> inv_act I K (m s)) \<Longrightarrow> inv_act I K (\<lambda>s. m s s)"
  by (simp add: inv_act_def)

end
