(* ===== verification/Instr.thy ===== *)
theory Instr
  imports Prelude
begin

text \<open>
  \<open>vp/src/core/common/instr.h\<close> and \<open>core_defs.h\<close>: the opcode constants, the decoded instructions
  (\<open>Opcode::Mapping\<close>), the bit-extraction macros and the accessors of \<open>struct Instruction\<close>. An
  \<open>Instruction\<close> is its 32 bits; the C++ member is an \<open>int32_t\<close> (to sign-extend immediates), so
  its right shifts are arithmetic unless the accessor casts to \<open>uint32_t\<close>. An accessor
  \<open>Instruction::f\<close> is \<open>instr_f\<close> here. The lemmas characterise every immediate as a sign
  extension of instruction bits and bound the register numbers.
\<close>

unbundle bit_operations_syntax

datatype Architecture = RV32 | RV64 | RV128

datatype CoreExecStatus = Runnable | HitBreakpoint | Terminated

section \<open>Opcode parts\<close>

text \<open>The constants of \<open>enum Opcode::Parts\<close>, in the order of the source.\<close>

abbreviation (input) OP_LUI :: u32 where "OP_LUI \<equiv> 0b0110111"
abbreviation (input) OP_AUIPC :: u32 where "OP_AUIPC \<equiv> 0b0010111"
abbreviation (input) OP_JAL :: u32 where "OP_JAL \<equiv> 0b1101111"
abbreviation (input) OP_JALR :: u32 where "OP_JALR \<equiv> 0b1100111"
abbreviation (input) F3_JALR :: u32 where "F3_JALR \<equiv> 0b000"
abbreviation (input) OP_LB :: u32 where "OP_LB \<equiv> 0b0000011"
abbreviation (input) F3_LB :: u32 where "F3_LB \<equiv> 0b000"
abbreviation (input) F3_LH :: u32 where "F3_LH \<equiv> 0b001"
abbreviation (input) F3_LW :: u32 where "F3_LW \<equiv> 0b010"
abbreviation (input) F3_LBU :: u32 where "F3_LBU \<equiv> 0b100"
abbreviation (input) F3_LHU :: u32 where "F3_LHU \<equiv> 0b101"
abbreviation (input) F3_LWU :: u32 where "F3_LWU \<equiv> 0b110"
abbreviation (input) F3_LD :: u32 where "F3_LD \<equiv> 0b011"
abbreviation (input) OP_SB :: u32 where "OP_SB \<equiv> 0b0100011"
abbreviation (input) F3_SB :: u32 where "F3_SB \<equiv> 0b000"
abbreviation (input) F3_SH :: u32 where "F3_SH \<equiv> 0b001"
abbreviation (input) F3_SW :: u32 where "F3_SW \<equiv> 0b010"
abbreviation (input) F3_SD :: u32 where "F3_SD \<equiv> 0b011"
abbreviation (input) OP_BEQ :: u32 where "OP_BEQ \<equiv> 0b1100011"
abbreviation (input) F3_BEQ :: u32 where "F3_BEQ \<equiv> 0b000"
abbreviation (input) F3_BNE :: u32 where "F3_BNE \<equiv> 0b001"
abbreviation (input) F3_BLT :: u32 where "F3_BLT \<equiv> 0b100"
abbreviation (input) F3_BGE :: u32 where "F3_BGE \<equiv> 0b101"
abbreviation (input) F3_BLTU :: u32 where "F3_BLTU \<equiv> 0b110"
abbreviation (input) F3_BGEU :: u32 where "F3_BGEU \<equiv> 0b111"
abbreviation (input) OP_ADDI :: u32 where "OP_ADDI \<equiv> 0b0010011"
abbreviation (input) F3_ADDI :: u32 where "F3_ADDI \<equiv> 0b000"
abbreviation (input) F3_SLTI :: u32 where "F3_SLTI \<equiv> 0b010"
abbreviation (input) F3_SLTIU :: u32 where "F3_SLTIU \<equiv> 0b011"
abbreviation (input) F3_XORI :: u32 where "F3_XORI \<equiv> 0b100"
abbreviation (input) F3_ORI :: u32 where "F3_ORI \<equiv> 0b110"
abbreviation (input) F3_ANDI :: u32 where "F3_ANDI \<equiv> 0b111"
abbreviation (input) F3_SLLI :: u32 where "F3_SLLI \<equiv> 0b001"
abbreviation (input) F3_SRLI :: u32 where "F3_SRLI \<equiv> 0b101"
abbreviation (input) F7_SRLI :: u32 where "F7_SRLI \<equiv> 0b0000000"
abbreviation (input) F7_SRAI :: u32 where "F7_SRAI \<equiv> 0b0100000"
abbreviation (input) F6_SRLI :: u32 where "F6_SRLI \<equiv> 0b000000"
abbreviation (input) F6_SRAI :: u32 where "F6_SRAI \<equiv> 0b010000"
abbreviation (input) OP_ADD :: u32 where "OP_ADD \<equiv> 0b0110011"
abbreviation (input) F3_ADD :: u32 where "F3_ADD \<equiv> 0b000"
abbreviation (input) F7_ADD :: u32 where "F7_ADD \<equiv> 0b0000000"
abbreviation (input) F3_SUB :: u32 where "F3_SUB \<equiv> 0b000"
abbreviation (input) F7_SUB :: u32 where "F7_SUB \<equiv> 0b0100000"
abbreviation (input) F3_SLL :: u32 where "F3_SLL \<equiv> 0b001"
abbreviation (input) F3_SLT :: u32 where "F3_SLT \<equiv> 0b010"
abbreviation (input) F3_SLTU :: u32 where "F3_SLTU \<equiv> 0b011"
abbreviation (input) F3_XOR :: u32 where "F3_XOR \<equiv> 0b100"
abbreviation (input) F3_SRL :: u32 where "F3_SRL \<equiv> 0b101"
abbreviation (input) F3_SRA :: u32 where "F3_SRA \<equiv> 0b101"
abbreviation (input) F3_OR :: u32 where "F3_OR \<equiv> 0b110"
abbreviation (input) F3_AND :: u32 where "F3_AND \<equiv> 0b111"
abbreviation (input) F3_MUL :: u32 where "F3_MUL \<equiv> 0b000"
abbreviation (input) F7_MUL :: u32 where "F7_MUL \<equiv> 0b0000001"
abbreviation (input) F3_MULH :: u32 where "F3_MULH \<equiv> 0b001"
abbreviation (input) F3_MULHSU :: u32 where "F3_MULHSU \<equiv> 0b010"
abbreviation (input) F3_MULHU :: u32 where "F3_MULHU \<equiv> 0b011"
abbreviation (input) F3_DIV :: u32 where "F3_DIV \<equiv> 0b100"
abbreviation (input) F3_DIVU :: u32 where "F3_DIVU \<equiv> 0b101"
abbreviation (input) F3_REM :: u32 where "F3_REM \<equiv> 0b110"
abbreviation (input) F3_REMU :: u32 where "F3_REMU \<equiv> 0b111"
abbreviation (input) OP_FENCE :: u32 where "OP_FENCE \<equiv> 0b0001111"
abbreviation (input) F3_FENCE :: u32 where "F3_FENCE \<equiv> 0b000"
abbreviation (input) F3_FENCE_I :: u32 where "F3_FENCE_I \<equiv> 0b001"
abbreviation (input) OP_ECALL :: u32 where "OP_ECALL \<equiv> 0b1110011"
abbreviation (input) F3_SYS :: u32 where "F3_SYS \<equiv> 0b000"
abbreviation (input) F12_ECALL :: u32 where "F12_ECALL \<equiv> 0b000000000000"
abbreviation (input) F12_EBREAK :: u32 where "F12_EBREAK \<equiv> 0b000000000001"
abbreviation (input) F12_URET :: u32 where "F12_URET \<equiv> 0b000000000010"
abbreviation (input) F12_SRET :: u32 where "F12_SRET \<equiv> 0b000100000010"
abbreviation (input) F12_MRET :: u32 where "F12_MRET \<equiv> 0b001100000010"
abbreviation (input) F12_WFI :: u32 where "F12_WFI \<equiv> 0b000100000101"
abbreviation (input) F7_SFENCE_VMA :: u32 where "F7_SFENCE_VMA \<equiv> 0b0001001"
abbreviation (input) F3_CSRRW :: u32 where "F3_CSRRW \<equiv> 0b001"
abbreviation (input) F3_CSRRS :: u32 where "F3_CSRRS \<equiv> 0b010"
abbreviation (input) F3_CSRRC :: u32 where "F3_CSRRC \<equiv> 0b011"
abbreviation (input) F3_CSRRWI :: u32 where "F3_CSRRWI \<equiv> 0b101"
abbreviation (input) F3_CSRRSI :: u32 where "F3_CSRRSI \<equiv> 0b110"
abbreviation (input) F3_CSRRCI :: u32 where "F3_CSRRCI \<equiv> 0b111"
abbreviation (input) OP_AMO :: u32 where "OP_AMO \<equiv> 0b0101111"
abbreviation (input) F5_LR_W :: u32 where "F5_LR_W \<equiv> 0b00010"
abbreviation (input) F5_SC_W :: u32 where "F5_SC_W \<equiv> 0b00011"
abbreviation (input) F5_AMOSWAP_W :: u32 where "F5_AMOSWAP_W \<equiv> 0b00001"
abbreviation (input) F5_AMOADD_W :: u32 where "F5_AMOADD_W \<equiv> 0b00000"
abbreviation (input) F5_AMOXOR_W :: u32 where "F5_AMOXOR_W \<equiv> 0b00100"
abbreviation (input) F5_AMOAND_W :: u32 where "F5_AMOAND_W \<equiv> 0b01100"
abbreviation (input) F5_AMOOR_W :: u32 where "F5_AMOOR_W \<equiv> 0b01000"
abbreviation (input) F5_AMOMIN_W :: u32 where "F5_AMOMIN_W \<equiv> 0b10000"
abbreviation (input) F5_AMOMAX_W :: u32 where "F5_AMOMAX_W \<equiv> 0b10100"
abbreviation (input) F5_AMOMINU_W :: u32 where "F5_AMOMINU_W \<equiv> 0b11000"
abbreviation (input) F5_AMOMAXU_W :: u32 where "F5_AMOMAXU_W \<equiv> 0b11100"
abbreviation (input) F3_AMO_W :: u32 where "F3_AMO_W \<equiv> 0b010"
abbreviation (input) F3_AMO_D :: u32 where "F3_AMO_D \<equiv> 0b011"
abbreviation (input) OP_ADDIW :: u32 where "OP_ADDIW \<equiv> 0b0011011"
abbreviation (input) F3_ADDIW :: u32 where "F3_ADDIW \<equiv> 0b000"
abbreviation (input) F3_SLLIW :: u32 where "F3_SLLIW \<equiv> 0b001"
abbreviation (input) F3_SRLIW :: u32 where "F3_SRLIW \<equiv> 0b101"
abbreviation (input) F7_SRLIW :: u32 where "F7_SRLIW \<equiv> 0b0000000"
abbreviation (input) F7_SRAIW :: u32 where "F7_SRAIW \<equiv> 0b0100000"
abbreviation (input) OP_ADDW :: u32 where "OP_ADDW \<equiv> 0b0111011"
abbreviation (input) F3_ADDW :: u32 where "F3_ADDW \<equiv> 0b000"
abbreviation (input) F7_ADDW :: u32 where "F7_ADDW \<equiv> 0b0000000"
abbreviation (input) F3_SUBW :: u32 where "F3_SUBW \<equiv> 0b000"
abbreviation (input) F7_SUBW :: u32 where "F7_SUBW \<equiv> 0b0100000"
abbreviation (input) F3_SLLW :: u32 where "F3_SLLW \<equiv> 0b001"
abbreviation (input) F3_SRLW :: u32 where "F3_SRLW \<equiv> 0b101"
abbreviation (input) F7_SRLW :: u32 where "F7_SRLW \<equiv> 0b0000000"
abbreviation (input) F3_SRAW :: u32 where "F3_SRAW \<equiv> 0b101"
abbreviation (input) F7_SRAW :: u32 where "F7_SRAW \<equiv> 0b0100000"
abbreviation (input) F7_MULW :: u32 where "F7_MULW \<equiv> 0b0000001"
abbreviation (input) F3_MULW :: u32 where "F3_MULW \<equiv> 0b000"
abbreviation (input) F3_DIVW :: u32 where "F3_DIVW \<equiv> 0b100"
abbreviation (input) F3_DIVUW :: u32 where "F3_DIVUW \<equiv> 0b101"
abbreviation (input) F3_REMW :: u32 where "F3_REMW \<equiv> 0b110"
abbreviation (input) F3_REMUW :: u32 where "F3_REMUW \<equiv> 0b111"
abbreviation (input) OP_FMADD_S :: u32 where "OP_FMADD_S \<equiv> 0b1000011"
abbreviation (input) F2_FMADD_S :: u32 where "F2_FMADD_S \<equiv> 0b00"
abbreviation (input) F2_FMADD_D :: u32 where "F2_FMADD_D \<equiv> 0b01"
abbreviation (input) OP_FADD_S :: u32 where "OP_FADD_S \<equiv> 0b1010011"
abbreviation (input) F7_FADD_S :: u32 where "F7_FADD_S \<equiv> 0b0000000"
abbreviation (input) F7_FADD_D :: u32 where "F7_FADD_D \<equiv> 0b0000001"
abbreviation (input) F7_FSUB_S :: u32 where "F7_FSUB_S \<equiv> 0b0000100"
abbreviation (input) F7_FSUB_D :: u32 where "F7_FSUB_D \<equiv> 0b0000101"
abbreviation (input) F7_FCVT_D_S :: u32 where "F7_FCVT_D_S \<equiv> 0b0100001"
abbreviation (input) F7_FMUL_S :: u32 where "F7_FMUL_S \<equiv> 0b0001000"
abbreviation (input) F7_FMUL_D :: u32 where "F7_FMUL_D \<equiv> 0b0001001"
abbreviation (input) F7_FDIV_S :: u32 where "F7_FDIV_S \<equiv> 0b0001100"
abbreviation (input) F7_FDIV_D :: u32 where "F7_FDIV_D \<equiv> 0b0001101"
abbreviation (input) F7_FLE_S :: u32 where "F7_FLE_S \<equiv> 0b1010000"
abbreviation (input) F3_FLE_S :: u32 where "F3_FLE_S \<equiv> 0b000"
abbreviation (input) F3_FLT_S :: u32 where "F3_FLT_S \<equiv> 0b001"
abbreviation (input) F3_FEQ_S :: u32 where "F3_FEQ_S \<equiv> 0b010"
abbreviation (input) F7_FSGNJ_D :: u32 where "F7_FSGNJ_D \<equiv> 0b0010001"
abbreviation (input) F3_FSGNJ_D :: u32 where "F3_FSGNJ_D \<equiv> 0b000"
abbreviation (input) F3_FSGNJN_D :: u32 where "F3_FSGNJN_D \<equiv> 0b001"
abbreviation (input) F3_FSGNJX_D :: u32 where "F3_FSGNJX_D \<equiv> 0b010"
abbreviation (input) F7_FMIN_S :: u32 where "F7_FMIN_S \<equiv> 0b0010100"
abbreviation (input) F3_FMIN_S :: u32 where "F3_FMIN_S \<equiv> 0b000"
abbreviation (input) F3_FMAX_S :: u32 where "F3_FMAX_S \<equiv> 0b001"
abbreviation (input) F7_FMIN_D :: u32 where "F7_FMIN_D \<equiv> 0b0010101"
abbreviation (input) F3_FMIN_D :: u32 where "F3_FMIN_D \<equiv> 0b000"
abbreviation (input) F3_FMAX_D :: u32 where "F3_FMAX_D \<equiv> 0b001"
abbreviation (input) F7_FCVT_S_D :: u32 where "F7_FCVT_S_D \<equiv> 0b0100000"
abbreviation (input) F7_FSGNJ_S :: u32 where "F7_FSGNJ_S \<equiv> 0b0010000"
abbreviation (input) F3_FSGNJ_S :: u32 where "F3_FSGNJ_S \<equiv> 0b000"
abbreviation (input) F3_FSGNJN_S :: u32 where "F3_FSGNJN_S \<equiv> 0b001"
abbreviation (input) F3_FSGNJX_S :: u32 where "F3_FSGNJX_S \<equiv> 0b010"
abbreviation (input) F7_FLE_D :: u32 where "F7_FLE_D \<equiv> 0b1010001"
abbreviation (input) F3_FLE_D :: u32 where "F3_FLE_D \<equiv> 0b000"
abbreviation (input) F3_FLT_D :: u32 where "F3_FLT_D \<equiv> 0b001"
abbreviation (input) F3_FEQ_D :: u32 where "F3_FEQ_D \<equiv> 0b010"
abbreviation (input) F7_FCVT_S_W :: u32 where "F7_FCVT_S_W \<equiv> 0b1101000"
abbreviation (input) RS2_FCVT_S_W :: u32 where "RS2_FCVT_S_W \<equiv> 0b00000"
abbreviation (input) RS2_FCVT_S_WU :: u32 where "RS2_FCVT_S_WU \<equiv> 0b00001"
abbreviation (input) RS2_FCVT_S_L :: u32 where "RS2_FCVT_S_L \<equiv> 0b00010"
abbreviation (input) RS2_FCVT_S_LU :: u32 where "RS2_FCVT_S_LU \<equiv> 0b00011"
abbreviation (input) F7_FCVT_D_W :: u32 where "F7_FCVT_D_W \<equiv> 0b1101001"
abbreviation (input) RS2_FCVT_D_W :: u32 where "RS2_FCVT_D_W \<equiv> 0b00000"
abbreviation (input) RS2_FCVT_D_WU :: u32 where "RS2_FCVT_D_WU \<equiv> 0b00001"
abbreviation (input) RS2_FCVT_D_L :: u32 where "RS2_FCVT_D_L \<equiv> 0b00010"
abbreviation (input) RS2_FCVT_D_LU :: u32 where "RS2_FCVT_D_LU \<equiv> 0b00011"
abbreviation (input) F7_FCVT_W_D :: u32 where "F7_FCVT_W_D \<equiv> 0b1100001"
abbreviation (input) RS2_FCVT_W_D :: u32 where "RS2_FCVT_W_D \<equiv> 0b00000"
abbreviation (input) RS2_FCVT_WU_D :: u32 where "RS2_FCVT_WU_D \<equiv> 0b00001"
abbreviation (input) RS2_FCVT_L_D :: u32 where "RS2_FCVT_L_D \<equiv> 0b00010"
abbreviation (input) RS2_FCVT_LU_D :: u32 where "RS2_FCVT_LU_D \<equiv> 0b00011"
abbreviation (input) F7_FSQRT_S :: u32 where "F7_FSQRT_S \<equiv> 0b0101100"
abbreviation (input) F7_FSQRT_D :: u32 where "F7_FSQRT_D \<equiv> 0b0101101"
abbreviation (input) F7_FCVT_W_S :: u32 where "F7_FCVT_W_S \<equiv> 0b1100000"
abbreviation (input) RS2_FCVT_W_S :: u32 where "RS2_FCVT_W_S \<equiv> 0b00000"
abbreviation (input) RS2_FCVT_WU_S :: u32 where "RS2_FCVT_WU_S \<equiv> 0b00001"
abbreviation (input) RS2_FCVT_L_S :: u32 where "RS2_FCVT_L_S \<equiv> 0b00010"
abbreviation (input) RS2_FCVT_LU_S :: u32 where "RS2_FCVT_LU_S \<equiv> 0b00011"
abbreviation (input) F7_FMV_X_W :: u32 where "F7_FMV_X_W \<equiv> 0b1110000"
abbreviation (input) F3_FMV_X_W :: u32 where "F3_FMV_X_W \<equiv> 0b000"
abbreviation (input) F3_FCLASS_S :: u32 where "F3_FCLASS_S \<equiv> 0b001"
abbreviation (input) F7_FMV_X_D :: u32 where "F7_FMV_X_D \<equiv> 0b1110001"
abbreviation (input) F3_FMV_X_D :: u32 where "F3_FMV_X_D \<equiv> 0b000"
abbreviation (input) F3_FCLASS_D :: u32 where "F3_FCLASS_D \<equiv> 0b001"
abbreviation (input) F7_FMV_W_X :: u32 where "F7_FMV_W_X \<equiv> 0b1111000"
abbreviation (input) F7_FMV_D_X :: u32 where "F7_FMV_D_X \<equiv> 0b1111001"
abbreviation (input) OP_FLW :: u32 where "OP_FLW \<equiv> 0b0000111"
abbreviation (input) F3_FLW :: u32 where "F3_FLW \<equiv> 0b010"
abbreviation (input) F3_FLD :: u32 where "F3_FLD \<equiv> 0b011"
abbreviation (input) OP_FSW :: u32 where "OP_FSW \<equiv> 0b0100111"
abbreviation (input) F3_FSW :: u32 where "F3_FSW \<equiv> 0b010"
abbreviation (input) F3_FSD :: u32 where "F3_FSD \<equiv> 0b011"
abbreviation (input) OP_FMSUB_S :: u32 where "OP_FMSUB_S \<equiv> 0b1000111"
abbreviation (input) F2_FMSUB_S :: u32 where "F2_FMSUB_S \<equiv> 0b00"
abbreviation (input) F2_FMSUB_D :: u32 where "F2_FMSUB_D \<equiv> 0b01"
abbreviation (input) OP_FNMSUB_S :: u32 where "OP_FNMSUB_S \<equiv> 0b1001011"
abbreviation (input) F2_FNMSUB_S :: u32 where "F2_FNMSUB_S \<equiv> 0b00"
abbreviation (input) F2_FNMSUB_D :: u32 where "F2_FNMSUB_D \<equiv> 0b01"
abbreviation (input) OP_FNMADD_S :: u32 where "OP_FNMADD_S \<equiv> 0b1001111"
abbreviation (input) F2_FNMADD_S :: u32 where "F2_FNMADD_S \<equiv> 0b00"
abbreviation (input) F2_FNMADD_D :: u32 where "F2_FNMADD_D \<equiv> 0b01"
abbreviation (input) OP_CUST1 :: u32 where "OP_CUST1 \<equiv> 0b0101011"
abbreviation (input) OP_CUST0 :: u32 where "OP_CUST0 \<equiv> 0b0001011"

section \<open>Decoded instructions\<close>

text \<open>
  \<open>enum Opcode::Mapping\<close>. The enumeration is grouped the way its comments group it, one datatype
  per extension; the bitwise instructions carry the suffix \<open>_op\<close> because their names are the word
  operators of the logic.
\<close>

datatype rv32i =
    LUI | AUIPC | JAL | JALR | BEQ | BNE | BLT | BGE | BLTU | BGEU | LB | LH | LW | LBU | LHU
  | SB | SH | SW | ADDI | SLTI | SLTIU | XORI | ORI | ANDI | SLLI | SRLI | SRAI | ADD | SUB
  | SLL | SLT | SLTU | XOR_op | SRL | SRA | OR_op | AND_op | FENCE | ECALL | EBREAK

datatype zifencei =
    FENCE_I

datatype zicsr =
    CSRRW | CSRRS | CSRRC | CSRRWI | CSRRSI | CSRRCI

datatype rv32m =
    MUL | MULH | MULHSU | MULHU | DIV | DIVU | REM | REMU

datatype rv32a =
    LR_W | SC_W | AMOSWAP_W | AMOADD_W | AMOXOR_W | AMOAND_W | AMOOR_W | AMOMIN_W | AMOMAX_W
  | AMOMINU_W | AMOMAXU_W

datatype rv64i =
    LWU | LD | SD | ADDIW | SLLIW | SRLIW | SRAIW | ADDW | SUBW | SLLW | SRLW | SRAW

datatype rv64m =
    MULW | DIVW | DIVUW | REMW | REMUW

datatype rv64a =
    LR_D | SC_D | AMOSWAP_D | AMOADD_D | AMOXOR_D | AMOAND_D | AMOOR_D | AMOMIN_D | AMOMAX_D
  | AMOMINU_D | AMOMAXU_D

datatype rv32f =
    FLW | FSW | FMADD_S | FMSUB_S | FNMADD_S | FNMSUB_S | FADD_S | FSUB_S | FMUL_S | FDIV_S
  | FSQRT_S | FSGNJ_S | FSGNJN_S | FSGNJX_S | FMIN_S | FMAX_S | FCVT_W_S | FCVT_WU_S | FMV_X_W
  | FEQ_S | FLT_S | FLE_S | FCLASS_S | FCVT_S_W | FCVT_S_WU | FMV_W_X

datatype rv64f =
    FCVT_L_S | FCVT_LU_S | FCVT_S_L | FCVT_S_LU

datatype rv32d =
    FLD | FSD | FMADD_D | FMSUB_D | FNMSUB_D | FNMADD_D | FADD_D | FSUB_D | FMUL_D | FDIV_D
  | FSQRT_D | FSGNJ_D | FSGNJN_D | FSGNJX_D | FMIN_D | FMAX_D | FCVT_S_D | FCVT_D_S | FEQ_D
  | FLT_D | FLE_D | FCLASS_D | FCVT_W_D | FCVT_WU_D | FCVT_D_W | FCVT_D_WU

datatype rv64d =
    FCVT_L_D | FCVT_LU_D | FMV_X_D | FCVT_D_L | FCVT_D_LU | FMV_D_X

datatype rvpriv =
    URET | SRET | MRET | WFI | SFENCE_VMA

datatype Mapping =
    UNDEF
  | RV32I rv32i
  | ZIFENCEI zifencei
  | ZICSR zicsr
  | RV32M rv32m
  | RV32A rv32a
  | RV64I rv64i
  | RV64M rv64m
  | RV64A rv64a
  | RV32F rv32f
  | RV64F rv64f
  | RV32D rv32d
  | RV64D rv64d
  | PRIV rvpriv

text \<open>\<open>enum class Opcode::Type\<close> and \<open>Opcode::getType\<close>: the format of an instruction.\<close>

datatype Type = Type_UNKNOWN | Type_R | Type_I | Type_S | Type_B | Type_U | Type_J | Type_R4

definition getType :: "Mapping \<Rightarrow> Type" where
  "getType mapping = (case mapping of
     RV32I x \<Rightarrow>
       if x \<in> {SLLI, SRLI, SRAI, ADD, SUB, SLL, SLT, SLTU, XOR_op, SRL, SRA, OR_op, AND_op} then Type_R
       else if x \<in> {JALR, LB, LH, LW, LBU, LHU, ADDI, SLTI, SLTIU, XORI, ORI, ANDI} then Type_I
       else if x \<in> {SB, SH, SW} then Type_S
       else if x \<in> {BEQ, BNE, BLT, BGE, BLTU, BGEU} then Type_B
       else if x \<in> {LUI, AUIPC} then Type_U
       else if x = JAL then Type_J
       else Type_UNKNOWN
   | RV32M x \<Rightarrow> Type_R
   | RV64I x \<Rightarrow>
       if x \<in> {ADDW, SUBW, SLLW, SRLW, SRAW} then Type_R
       else if x \<in> {LD, LWU, ADDIW, SLLIW, SRLIW, SRAIW} then Type_I
       else Type_S
   | RV64M x \<Rightarrow> Type_R
   | RV32A x \<Rightarrow> Type_R
   | RV64A x \<Rightarrow> Type_R
   | RV32F x \<Rightarrow>
       if x = FLW then Type_I
       else if x = FSW then Type_S
       else if x \<in> {FMADD_S, FMSUB_S, FNMSUB_S, FNMADD_S} then Type_R4
       else Type_R
   | RV64F x \<Rightarrow> Type_R
   | RV32D x \<Rightarrow>
       if x = FLD then Type_I
       else if x = FSD then Type_S
       else if x \<in> {FMADD_D, FMSUB_D, FNMSUB_D, FNMADD_D} then Type_R4
       else Type_R
   | RV64D x \<Rightarrow> Type_R
   | _ \<Rightarrow> Type_UNKNOWN)"

section \<open>Bit-extraction macros\<close>

text \<open>
  The macros work on whatever integer type their argument has. \<open>BIT_SLICE\<close> and its kin are the
  \<open>int32_t\<close> instances (arithmetic right shift); the suffix \<open>_U\<close> marks the \<open>uint32_t\<close> instances.
\<close>

definition BIT_RANGE :: "u32 \<Rightarrow> nat \<Rightarrow> nat \<Rightarrow> u32" where
  "BIT_RANGE x upper lower = x AND push_bit lower (push_bit (upper - lower + 1) 1 - 1)"

definition BIT_SLICE :: "u32 \<Rightarrow> nat \<Rightarrow> nat \<Rightarrow> u32" where
  "BIT_SLICE x upper lower = signed_drop_bit lower (BIT_RANGE x upper lower)"

definition BIT_SLICE_U :: "u32 \<Rightarrow> nat \<Rightarrow> nat \<Rightarrow> u32" where
  "BIT_SLICE_U x upper lower = drop_bit lower (BIT_RANGE x upper lower)"

definition BIT_SINGLE :: "u32 \<Rightarrow> nat \<Rightarrow> u32" where
  "BIT_SINGLE x pos = x AND push_bit pos 1"

definition BIT_SINGLE_P1 :: "u32 \<Rightarrow> nat \<Rightarrow> u32" where
  "BIT_SINGLE_P1 x pos = signed_drop_bit pos (BIT_SINGLE x pos)"

definition BIT_SINGLE_P1_U :: "u32 \<Rightarrow> nat \<Rightarrow> u32" where
  "BIT_SINGLE_P1_U x pos = drop_bit pos (BIT_SINGLE x pos)"

definition BIT_SINGLE_PN :: "u32 \<Rightarrow> nat \<Rightarrow> nat \<Rightarrow> u32" where
  "BIT_SINGLE_PN x pos new_pos = push_bit new_pos (signed_drop_bit pos (BIT_SINGLE x pos))"

definition BIT_SINGLE_PN_U :: "u32 \<Rightarrow> nat \<Rightarrow> nat \<Rightarrow> u32" where
  "BIT_SINGLE_PN_U x pos new_pos = push_bit new_pos (drop_bit pos (BIT_SINGLE x pos))"

definition EXTRACT_SIGN_BIT :: "u32 \<Rightarrow> nat \<Rightarrow> nat \<Rightarrow> u32" where
  "EXTRACT_SIGN_BIT x pos new_pos =
     signed_drop_bit (31 - new_pos) (push_bit 31 (BIT_SINGLE_P1 x pos))"

section \<open>Accessors of an instruction\<close>

definition instr_quadrant :: "u32 \<Rightarrow> u32" where
  "instr_quadrant i = i AND 0x3"

definition instr_is_compressed :: "u32 \<Rightarrow> bool" where
  "instr_is_compressed i \<longleftrightarrow> instr_quadrant i < 3"

definition instr_c_format :: "u32 \<Rightarrow> u32" where
  "instr_c_format i = i AND 0xffff"

definition instr_c_opcode :: "u32 \<Rightarrow> u32" where
  "instr_c_opcode i = BIT_SLICE i 15 13"

definition instr_c_b12 :: "u32 \<Rightarrow> u32" where
  "instr_c_b12 i = BIT_SINGLE_P1 i 12"

definition instr_rd :: "u32 \<Rightarrow> u32" where
  "instr_rd i = signed_drop_bit 7 (BIT_RANGE i 11 7)"

definition instr_c_rd :: "u32 \<Rightarrow> u32" where
  "instr_c_rd i = instr_rd i"

definition instr_c_rd_small :: "u32 \<Rightarrow> u32" where
  "instr_c_rd_small i = BIT_SLICE i 9 7 OR 8"

definition instr_c_rs2_small :: "u32 \<Rightarrow> u32" where
  "instr_c_rs2_small i = BIT_SLICE i 4 2 OR 8"

definition instr_c_rs2 :: "u32 \<Rightarrow> u32" where
  "instr_c_rs2 i = BIT_SLICE i 6 2"

definition instr_c_imm :: "u32 \<Rightarrow> u32" where
  "instr_c_imm i = BIT_SLICE i 6 2 OR EXTRACT_SIGN_BIT i 12 5"

definition instr_c_uimm :: "u32 \<Rightarrow> u32" where
  "instr_c_uimm i = BIT_SLICE i 6 2 OR push_bit 5 (BIT_SINGLE_P1 i 12)"

definition instr_c_f2_high :: "u32 \<Rightarrow> u32" where
  "instr_c_f2_high i = BIT_SLICE i 11 10"

definition instr_c_f2_low :: "u32 \<Rightarrow> u32" where
  "instr_c_f2_low i = BIT_SLICE i 6 5"

definition instr_csr :: "u32 \<Rightarrow> u32" where
  "instr_csr i = drop_bit 20 (BIT_RANGE i 31 20)"

definition instr_zimm :: "u32 \<Rightarrow> u32" where
  "instr_zimm i = signed_drop_bit 15 (BIT_RANGE i 19 15)"

definition instr_shamt :: "u32 \<Rightarrow> u32" where
  "instr_shamt i = signed_drop_bit 20 (BIT_RANGE i 25 20)"

definition instr_shamt_w :: "u32 \<Rightarrow> u32" where
  "instr_shamt_w i = signed_drop_bit 20 (BIT_RANGE i 24 20)"

definition instr_funct2 :: "u32 \<Rightarrow> u32" where
  "instr_funct2 i = signed_drop_bit 25 (BIT_RANGE i 26 25)"

definition instr_funct3 :: "u32 \<Rightarrow> u32" where
  "instr_funct3 i = signed_drop_bit 12 (BIT_RANGE i 14 12)"

definition instr_funct12 :: "u32 \<Rightarrow> u32" where
  "instr_funct12 i = drop_bit 20 (BIT_RANGE i 31 20)"

definition instr_funct7 :: "u32 \<Rightarrow> u32" where
  "instr_funct7 i = drop_bit 25 (BIT_RANGE i 31 25)"

definition instr_funct6 :: "u32 \<Rightarrow> u32" where
  "instr_funct6 i = drop_bit 26 (BIT_RANGE i 31 26)"

definition instr_funct5 :: "u32 \<Rightarrow> u32" where
  "instr_funct5 i = drop_bit 27 (BIT_RANGE i 31 27)"

definition instr_frm :: "u32 \<Rightarrow> u32" where
  "instr_frm i = BIT_SLICE i 14 12"

definition instr_opcode :: "u32 \<Rightarrow> u32" where
  "instr_opcode i = BIT_RANGE i 6 0"

definition instr_J_imm :: "u32 \<Rightarrow> u32" where
  "instr_J_imm i = signed_drop_bit 11 (BIT_SINGLE i 31) OR BIT_RANGE i 19 12 OR
     signed_drop_bit 9 (BIT_SINGLE i 20) OR signed_drop_bit 20 (BIT_RANGE i 30 21)"

definition instr_I_imm :: "u32 \<Rightarrow> u32" where
  "instr_I_imm i = signed_drop_bit 20 (BIT_RANGE i 31 20)"

definition instr_S_imm :: "u32 \<Rightarrow> u32" where
  "instr_S_imm i = signed_drop_bit 20 (BIT_RANGE i 31 25) OR signed_drop_bit 7 (BIT_RANGE i 11 7)"

definition instr_B_imm :: "u32 \<Rightarrow> u32" where
  "instr_B_imm i = signed_drop_bit 19 (BIT_SINGLE i 31) OR push_bit 4 (BIT_SINGLE i 7) OR
     signed_drop_bit 20 (BIT_RANGE i 30 25) OR signed_drop_bit 7 (BIT_RANGE i 11 8)"

definition instr_U_imm :: "u32 \<Rightarrow> u32" where
  "instr_U_imm i = BIT_RANGE i 31 12"

definition instr_rs1 :: "u32 \<Rightarrow> u32" where
  "instr_rs1 i = signed_drop_bit 15 (BIT_RANGE i 19 15)"

definition instr_rs2 :: "u32 \<Rightarrow> u32" where
  "instr_rs2 i = signed_drop_bit 20 (BIT_RANGE i 24 20)"

definition instr_rs3 :: "u32 \<Rightarrow> u32" where
  "instr_rs3 i = drop_bit 27 (BIT_RANGE i 31 27)"

section \<open>Facts\<close>

lemma BIT_RANGE_mask [bitblast]:
  "BIT_RANGE x upper lower = x AND push_bit lower (mask (upper - lower + 1))"
  by (simp add: BIT_RANGE_def mask_eq_exp_minus_1 push_bit_eq_mult)

lemmas [bitblast] = BIT_SLICE_def BIT_SLICE_U_def BIT_SINGLE_def BIT_SINGLE_P1_def
  BIT_SINGLE_P1_U_def BIT_SINGLE_PN_def BIT_SINGLE_PN_U_def EXTRACT_SIGN_BIT_def
  instr_quadrant_def instr_c_format_def instr_c_opcode_def instr_c_b12_def instr_rd_def
  instr_c_rd_def instr_c_rd_small_def instr_c_rs2_small_def instr_c_rs2_def instr_c_imm_def
  instr_c_uimm_def instr_c_f2_high_def instr_c_f2_low_def instr_csr_def instr_zimm_def
  instr_shamt_def instr_shamt_w_def instr_funct2_def instr_funct3_def instr_funct12_def
  instr_funct7_def instr_funct6_def instr_funct5_def instr_frm_def instr_opcode_def
  instr_J_imm_def instr_I_imm_def instr_S_imm_def instr_B_imm_def instr_U_imm_def
  instr_rs1_def instr_rs2_def instr_rs3_def

text \<open>
  The selectors of the decoder as masked words: a field equals a constant exactly when the
  corresponding masked bits do.
\<close>

lemma instr_opcode_and: "instr_opcode i = i AND 0x7f"
  by (rule u32_eqI) (simp_all add: bitblast bit_simps)

lemma instr_funct3_and: "push_bit 12 (instr_funct3 i) = i AND 0x7000"
  by (rule u32_eqI) (simp_all add: bitblast bit_simps)

lemma instr_fields_drop:
  "instr_rd i = drop_bit 7 i AND 0x1f"
  "instr_rs1 i = drop_bit 15 i AND 0x1f"
  "instr_rs2 i = drop_bit 20 i AND 0x1f"
  "instr_rs3 i = drop_bit 27 i AND 0x1f"
  by ((rule u32_eqI; simp add: bitblast bit_simps)+)

lemma unat_and_31: "unat ((x :: u32) AND 0x1f) < 32"
  by (rule le_less_trans [OF unat_and_le]) simp

text \<open>Register numbers are below 32: no register access of the ISS is out of bounds.\<close>

lemma instr_reg_bounds [simp]:
  "unat (instr_rd i) < 32"
  "unat (instr_rs1 i) < 32"
  "unat (instr_rs2 i) < 32"
  "unat (instr_rs3 i) < 32"
  by (simp_all add: instr_fields_drop unat_and_31)

text \<open>Immediates are the sign extensions of the encoded bits.\<close>

lemma instr_I_imm_eq: "instr_I_imm i = signed_drop_bit 20 i"
  by (rule u32_eqI) (simp_all add: bitblast bit_simps)

lemma instr_S_imm_eq:
  "instr_S_imm i = (signed_drop_bit 20 i AND NOT 0x1f) OR (drop_bit 7 i AND 0x1f)"
  by (rule u32_eqI) (simp_all add: bitblast bit_simps)

lemma instr_B_imm_even: "\<not> bit (instr_B_imm i) 0"
  by (simp add: bitblast bit_simps)

lemma instr_J_imm_even: "\<not> bit (instr_J_imm i) 0"
  by (simp add: bitblast bit_simps)

lemma instr_B_imm_sext: "instr_B_imm i = signed_take_bit 12 (instr_B_imm i)"
  by (rule u32_eqI) (simp_all add: bitblast bit_simps)

lemma instr_J_imm_sext: "instr_J_imm i = signed_take_bit 20 (instr_J_imm i)"
  by (rule u32_eqI) (simp_all add: bitblast bit_simps)

end
