(* ===== verification/Encoding.thy ===== *)
theory Encoding
  imports Instr
begin

text \<open>
  The mask and encoding constants at the head of \<open>vp/src/core/common/instr.cpp\<close>, as functions of
  the decoded instruction: \<open>X_MASK\<close> and \<open>X_ENCODING\<close> of the source are \<open>MASK (... X)\<close> and
  \<open>ENCODING (... X)\<close> here. RV32 has its own constants for the three immediate shifts.
\<close>

unbundle bit_operations_syntax

primrec rv32i_MASK :: "rv32i \<Rightarrow> u32" where
  "rv32i_MASK LUI = 0b00000000000000000000000001111111"
| "rv32i_MASK AUIPC = 0b00000000000000000000000001111111"
| "rv32i_MASK JAL = 0b00000000000000000000000001111111"
| "rv32i_MASK JALR = 0b00000000000000000111000001111111"
| "rv32i_MASK BEQ = 0b00000000000000000111000001111111"
| "rv32i_MASK BNE = 0b00000000000000000111000001111111"
| "rv32i_MASK BLT = 0b00000000000000000111000001111111"
| "rv32i_MASK BGE = 0b00000000000000000111000001111111"
| "rv32i_MASK BLTU = 0b00000000000000000111000001111111"
| "rv32i_MASK BGEU = 0b00000000000000000111000001111111"
| "rv32i_MASK LB = 0b00000000000000000111000001111111"
| "rv32i_MASK LH = 0b00000000000000000111000001111111"
| "rv32i_MASK LW = 0b00000000000000000111000001111111"
| "rv32i_MASK LBU = 0b00000000000000000111000001111111"
| "rv32i_MASK LHU = 0b00000000000000000111000001111111"
| "rv32i_MASK SB = 0b00000000000000000111000001111111"
| "rv32i_MASK SH = 0b00000000000000000111000001111111"
| "rv32i_MASK SW = 0b00000000000000000111000001111111"
| "rv32i_MASK ADDI = 0b00000000000000000111000001111111"
| "rv32i_MASK SLTI = 0b00000000000000000111000001111111"
| "rv32i_MASK SLTIU = 0b00000000000000000111000001111111"
| "rv32i_MASK XORI = 0b00000000000000000111000001111111"
| "rv32i_MASK ORI = 0b00000000000000000111000001111111"
| "rv32i_MASK ANDI = 0b00000000000000000111000001111111"
| "rv32i_MASK SLLI = 0b11111100000000000111000001111111"
| "rv32i_MASK SRLI = 0b11111100000000000111000001111111"
| "rv32i_MASK SRAI = 0b11111100000000000111000001111111"
| "rv32i_MASK ADD = 0b11111110000000000111000001111111"
| "rv32i_MASK SUB = 0b11111110000000000111000001111111"
| "rv32i_MASK SLL = 0b11111110000000000111000001111111"
| "rv32i_MASK SLT = 0b11111110000000000111000001111111"
| "rv32i_MASK SLTU = 0b11111110000000000111000001111111"
| "rv32i_MASK XOR_op = 0b11111110000000000111000001111111"
| "rv32i_MASK SRL = 0b11111110000000000111000001111111"
| "rv32i_MASK SRA = 0b11111110000000000111000001111111"
| "rv32i_MASK OR_op = 0b11111110000000000111000001111111"
| "rv32i_MASK AND_op = 0b11111110000000000111000001111111"
| "rv32i_MASK FENCE = 0b00000000000000000111000001111111"
| "rv32i_MASK ECALL = 0b11111111111111111111111111111111"
| "rv32i_MASK EBREAK = 0b11111111111111111111111111111111"

primrec rv32i_ENCODING :: "rv32i \<Rightarrow> u32" where
  "rv32i_ENCODING LUI = 0b00000000000000000000000000110111"
| "rv32i_ENCODING AUIPC = 0b00000000000000000000000000010111"
| "rv32i_ENCODING JAL = 0b00000000000000000000000001101111"
| "rv32i_ENCODING JALR = 0b00000000000000000000000001100111"
| "rv32i_ENCODING BEQ = 0b00000000000000000000000001100011"
| "rv32i_ENCODING BNE = 0b00000000000000000001000001100011"
| "rv32i_ENCODING BLT = 0b00000000000000000100000001100011"
| "rv32i_ENCODING BGE = 0b00000000000000000101000001100011"
| "rv32i_ENCODING BLTU = 0b00000000000000000110000001100011"
| "rv32i_ENCODING BGEU = 0b00000000000000000111000001100011"
| "rv32i_ENCODING LB = 0b00000000000000000000000000000011"
| "rv32i_ENCODING LH = 0b00000000000000000001000000000011"
| "rv32i_ENCODING LW = 0b00000000000000000010000000000011"
| "rv32i_ENCODING LBU = 0b00000000000000000100000000000011"
| "rv32i_ENCODING LHU = 0b00000000000000000101000000000011"
| "rv32i_ENCODING SB = 0b00000000000000000000000000100011"
| "rv32i_ENCODING SH = 0b00000000000000000001000000100011"
| "rv32i_ENCODING SW = 0b00000000000000000010000000100011"
| "rv32i_ENCODING ADDI = 0b00000000000000000000000000010011"
| "rv32i_ENCODING SLTI = 0b00000000000000000010000000010011"
| "rv32i_ENCODING SLTIU = 0b00000000000000000011000000010011"
| "rv32i_ENCODING XORI = 0b00000000000000000100000000010011"
| "rv32i_ENCODING ORI = 0b00000000000000000110000000010011"
| "rv32i_ENCODING ANDI = 0b00000000000000000111000000010011"
| "rv32i_ENCODING SLLI = 0b00000000000000000001000000010011"
| "rv32i_ENCODING SRLI = 0b00000000000000000101000000010011"
| "rv32i_ENCODING SRAI = 0b01000000000000000101000000010011"
| "rv32i_ENCODING ADD = 0b00000000000000000000000000110011"
| "rv32i_ENCODING SUB = 0b01000000000000000000000000110011"
| "rv32i_ENCODING SLL = 0b00000000000000000001000000110011"
| "rv32i_ENCODING SLT = 0b00000000000000000010000000110011"
| "rv32i_ENCODING SLTU = 0b00000000000000000011000000110011"
| "rv32i_ENCODING XOR_op = 0b00000000000000000100000000110011"
| "rv32i_ENCODING SRL = 0b00000000000000000101000000110011"
| "rv32i_ENCODING SRA = 0b01000000000000000101000000110011"
| "rv32i_ENCODING OR_op = 0b00000000000000000110000000110011"
| "rv32i_ENCODING AND_op = 0b00000000000000000111000000110011"
| "rv32i_ENCODING FENCE = 0b00000000000000000000000000001111"
| "rv32i_ENCODING ECALL = 0b00000000000000000000000001110011"
| "rv32i_ENCODING EBREAK = 0b00000000000100000000000001110011"

primrec zifencei_MASK :: "zifencei \<Rightarrow> u32" where
  "zifencei_MASK FENCE_I = 0b00000000000000000111000001111111"

primrec zifencei_ENCODING :: "zifencei \<Rightarrow> u32" where
  "zifencei_ENCODING FENCE_I = 0b00000000000000000001000000001111"

primrec zicsr_MASK :: "zicsr \<Rightarrow> u32" where
  "zicsr_MASK CSRRW = 0b00000000000000000111000001111111"
| "zicsr_MASK CSRRS = 0b00000000000000000111000001111111"
| "zicsr_MASK CSRRC = 0b00000000000000000111000001111111"
| "zicsr_MASK CSRRWI = 0b00000000000000000111000001111111"
| "zicsr_MASK CSRRSI = 0b00000000000000000111000001111111"
| "zicsr_MASK CSRRCI = 0b00000000000000000111000001111111"

primrec zicsr_ENCODING :: "zicsr \<Rightarrow> u32" where
  "zicsr_ENCODING CSRRW = 0b00000000000000000001000001110011"
| "zicsr_ENCODING CSRRS = 0b00000000000000000010000001110011"
| "zicsr_ENCODING CSRRC = 0b00000000000000000011000001110011"
| "zicsr_ENCODING CSRRWI = 0b00000000000000000101000001110011"
| "zicsr_ENCODING CSRRSI = 0b00000000000000000110000001110011"
| "zicsr_ENCODING CSRRCI = 0b00000000000000000111000001110011"

primrec rv32m_MASK :: "rv32m \<Rightarrow> u32" where
  "rv32m_MASK MUL = 0b11111110000000000111000001111111"
| "rv32m_MASK MULH = 0b11111110000000000111000001111111"
| "rv32m_MASK MULHSU = 0b11111110000000000111000001111111"
| "rv32m_MASK MULHU = 0b11111110000000000111000001111111"
| "rv32m_MASK DIV = 0b11111110000000000111000001111111"
| "rv32m_MASK DIVU = 0b11111110000000000111000001111111"
| "rv32m_MASK REM = 0b11111110000000000111000001111111"
| "rv32m_MASK REMU = 0b11111110000000000111000001111111"

primrec rv32m_ENCODING :: "rv32m \<Rightarrow> u32" where
  "rv32m_ENCODING MUL = 0b00000010000000000000000000110011"
| "rv32m_ENCODING MULH = 0b00000010000000000001000000110011"
| "rv32m_ENCODING MULHSU = 0b00000010000000000010000000110011"
| "rv32m_ENCODING MULHU = 0b00000010000000000011000000110011"
| "rv32m_ENCODING DIV = 0b00000010000000000100000000110011"
| "rv32m_ENCODING DIVU = 0b00000010000000000101000000110011"
| "rv32m_ENCODING REM = 0b00000010000000000110000000110011"
| "rv32m_ENCODING REMU = 0b00000010000000000111000000110011"

primrec rv32a_MASK :: "rv32a \<Rightarrow> u32" where
  "rv32a_MASK LR_W = 0b11111001111100000111000001111111"
| "rv32a_MASK SC_W = 0b11111000000000000111000001111111"
| "rv32a_MASK AMOSWAP_W = 0b11111000000000000111000001111111"
| "rv32a_MASK AMOADD_W = 0b11111000000000000111000001111111"
| "rv32a_MASK AMOXOR_W = 0b11111000000000000111000001111111"
| "rv32a_MASK AMOAND_W = 0b11111000000000000111000001111111"
| "rv32a_MASK AMOOR_W = 0b11111000000000000111000001111111"
| "rv32a_MASK AMOMIN_W = 0b11111000000000000111000001111111"
| "rv32a_MASK AMOMAX_W = 0b11111000000000000111000001111111"
| "rv32a_MASK AMOMINU_W = 0b11111000000000000111000001111111"
| "rv32a_MASK AMOMAXU_W = 0b11111000000000000111000001111111"

primrec rv32a_ENCODING :: "rv32a \<Rightarrow> u32" where
  "rv32a_ENCODING LR_W = 0b00010000000000000010000000101111"
| "rv32a_ENCODING SC_W = 0b00011000000000000010000000101111"
| "rv32a_ENCODING AMOSWAP_W = 0b00001000000000000010000000101111"
| "rv32a_ENCODING AMOADD_W = 0b00000000000000000010000000101111"
| "rv32a_ENCODING AMOXOR_W = 0b00100000000000000010000000101111"
| "rv32a_ENCODING AMOAND_W = 0b01100000000000000010000000101111"
| "rv32a_ENCODING AMOOR_W = 0b01000000000000000010000000101111"
| "rv32a_ENCODING AMOMIN_W = 0b10000000000000000010000000101111"
| "rv32a_ENCODING AMOMAX_W = 0b10100000000000000010000000101111"
| "rv32a_ENCODING AMOMINU_W = 0b11000000000000000010000000101111"
| "rv32a_ENCODING AMOMAXU_W = 0b11100000000000000010000000101111"

primrec rv64i_MASK :: "rv64i \<Rightarrow> u32" where
  "rv64i_MASK LWU = 0b00000000000000000111000001111111"
| "rv64i_MASK LD = 0b00000000000000000111000001111111"
| "rv64i_MASK SD = 0b00000000000000000111000001111111"
| "rv64i_MASK ADDIW = 0b00000000000000000111000001111111"
| "rv64i_MASK SLLIW = 0b11111110000000000111000001111111"
| "rv64i_MASK SRLIW = 0b11111110000000000111000001111111"
| "rv64i_MASK SRAIW = 0b11111110000000000111000001111111"
| "rv64i_MASK ADDW = 0b11111110000000000111000001111111"
| "rv64i_MASK SUBW = 0b11111110000000000111000001111111"
| "rv64i_MASK SLLW = 0b11111110000000000111000001111111"
| "rv64i_MASK SRLW = 0b11111110000000000111000001111111"
| "rv64i_MASK SRAW = 0b11111110000000000111000001111111"

primrec rv64i_ENCODING :: "rv64i \<Rightarrow> u32" where
  "rv64i_ENCODING LWU = 0b00000000000000000110000000000011"
| "rv64i_ENCODING LD = 0b00000000000000000011000000000011"
| "rv64i_ENCODING SD = 0b00000000000000000011000000100011"
| "rv64i_ENCODING ADDIW = 0b00000000000000000000000000011011"
| "rv64i_ENCODING SLLIW = 0b00000000000000000001000000011011"
| "rv64i_ENCODING SRLIW = 0b00000000000000000101000000011011"
| "rv64i_ENCODING SRAIW = 0b01000000000000000101000000011011"
| "rv64i_ENCODING ADDW = 0b00000000000000000000000000111011"
| "rv64i_ENCODING SUBW = 0b01000000000000000000000000111011"
| "rv64i_ENCODING SLLW = 0b00000000000000000001000000111011"
| "rv64i_ENCODING SRLW = 0b00000000000000000101000000111011"
| "rv64i_ENCODING SRAW = 0b01000000000000000101000000111011"

primrec rv64m_MASK :: "rv64m \<Rightarrow> u32" where
  "rv64m_MASK MULW = 0b11111110000000000111000001111111"
| "rv64m_MASK DIVW = 0b11111110000000000111000001111111"
| "rv64m_MASK DIVUW = 0b11111110000000000111000001111111"
| "rv64m_MASK REMW = 0b11111110000000000111000001111111"
| "rv64m_MASK REMUW = 0b11111110000000000111000001111111"

primrec rv64m_ENCODING :: "rv64m \<Rightarrow> u32" where
  "rv64m_ENCODING MULW = 0b00000010000000000000000000111011"
| "rv64m_ENCODING DIVW = 0b00000010000000000100000000111011"
| "rv64m_ENCODING DIVUW = 0b00000010000000000101000000111011"
| "rv64m_ENCODING REMW = 0b00000010000000000110000000111011"
| "rv64m_ENCODING REMUW = 0b00000010000000000111000000111011"

primrec rv64a_MASK :: "rv64a \<Rightarrow> u32" where
  "rv64a_MASK LR_D = 0b11111001111100000111000001111111"
| "rv64a_MASK SC_D = 0b11111000000000000111000001111111"
| "rv64a_MASK AMOSWAP_D = 0b11111000000000000111000001111111"
| "rv64a_MASK AMOADD_D = 0b11111000000000000111000001111111"
| "rv64a_MASK AMOXOR_D = 0b11111000000000000111000001111111"
| "rv64a_MASK AMOAND_D = 0b11111000000000000111000001111111"
| "rv64a_MASK AMOOR_D = 0b11111000000000000111000001111111"
| "rv64a_MASK AMOMIN_D = 0b11111000000000000111000001111111"
| "rv64a_MASK AMOMAX_D = 0b11111000000000000111000001111111"
| "rv64a_MASK AMOMINU_D = 0b11111000000000000111000001111111"
| "rv64a_MASK AMOMAXU_D = 0b11111000000000000111000001111111"

primrec rv64a_ENCODING :: "rv64a \<Rightarrow> u32" where
  "rv64a_ENCODING LR_D = 0b00010000000000000011000000101111"
| "rv64a_ENCODING SC_D = 0b00011000000000000011000000101111"
| "rv64a_ENCODING AMOSWAP_D = 0b00001000000000000011000000101111"
| "rv64a_ENCODING AMOADD_D = 0b00000000000000000011000000101111"
| "rv64a_ENCODING AMOXOR_D = 0b00100000000000000011000000101111"
| "rv64a_ENCODING AMOAND_D = 0b01100000000000000011000000101111"
| "rv64a_ENCODING AMOOR_D = 0b01000000000000000011000000101111"
| "rv64a_ENCODING AMOMIN_D = 0b10000000000000000011000000101111"
| "rv64a_ENCODING AMOMAX_D = 0b10100000000000000011000000101111"
| "rv64a_ENCODING AMOMINU_D = 0b11000000000000000011000000101111"
| "rv64a_ENCODING AMOMAXU_D = 0b11100000000000000011000000101111"

primrec rv32f_MASK :: "rv32f \<Rightarrow> u32" where
  "rv32f_MASK FLW = 0b00000000000000000111000001111111"
| "rv32f_MASK FSW = 0b00000000000000000111000001111111"
| "rv32f_MASK FMADD_S = 0b00000110000000000000000001111111"
| "rv32f_MASK FMSUB_S = 0b00000110000000000000000001111111"
| "rv32f_MASK FNMADD_S = 0b00000110000000000000000001111111"
| "rv32f_MASK FNMSUB_S = 0b00000110000000000000000001111111"
| "rv32f_MASK FADD_S = 0b11111110000000000000000001111111"
| "rv32f_MASK FSUB_S = 0b11111110000000000000000001111111"
| "rv32f_MASK FMUL_S = 0b11111110000000000000000001111111"
| "rv32f_MASK FDIV_S = 0b11111110000000000000000001111111"
| "rv32f_MASK FSQRT_S = 0b11111111111100000000000001111111"
| "rv32f_MASK FSGNJ_S = 0b11111110000000000111000001111111"
| "rv32f_MASK FSGNJN_S = 0b11111110000000000111000001111111"
| "rv32f_MASK FSGNJX_S = 0b11111110000000000111000001111111"
| "rv32f_MASK FMIN_S = 0b11111110000000000111000001111111"
| "rv32f_MASK FMAX_S = 0b11111110000000000111000001111111"
| "rv32f_MASK FCVT_W_S = 0b11111111111100000000000001111111"
| "rv32f_MASK FCVT_WU_S = 0b11111111111100000000000001111111"
| "rv32f_MASK FMV_X_W = 0b11111111111100000111000001111111"
| "rv32f_MASK FEQ_S = 0b11111110000000000111000001111111"
| "rv32f_MASK FLT_S = 0b11111110000000000111000001111111"
| "rv32f_MASK FLE_S = 0b11111110000000000111000001111111"
| "rv32f_MASK FCLASS_S = 0b11111111111100000111000001111111"
| "rv32f_MASK FCVT_S_W = 0b11111111111100000000000001111111"
| "rv32f_MASK FCVT_S_WU = 0b11111111111100000000000001111111"
| "rv32f_MASK FMV_W_X = 0b11111111111100000111000001111111"

primrec rv32f_ENCODING :: "rv32f \<Rightarrow> u32" where
  "rv32f_ENCODING FLW = 0b00000000000000000010000000000111"
| "rv32f_ENCODING FSW = 0b00000000000000000010000000100111"
| "rv32f_ENCODING FMADD_S = 0b00000000000000000000000001000011"
| "rv32f_ENCODING FMSUB_S = 0b00000000000000000000000001000111"
| "rv32f_ENCODING FNMADD_S = 0b00000000000000000000000001001111"
| "rv32f_ENCODING FNMSUB_S = 0b00000000000000000000000001001011"
| "rv32f_ENCODING FADD_S = 0b00000000000000000000000001010011"
| "rv32f_ENCODING FSUB_S = 0b00001000000000000000000001010011"
| "rv32f_ENCODING FMUL_S = 0b00010000000000000000000001010011"
| "rv32f_ENCODING FDIV_S = 0b00011000000000000000000001010011"
| "rv32f_ENCODING FSQRT_S = 0b01011000000000000000000001010011"
| "rv32f_ENCODING FSGNJ_S = 0b00100000000000000000000001010011"
| "rv32f_ENCODING FSGNJN_S = 0b00100000000000000001000001010011"
| "rv32f_ENCODING FSGNJX_S = 0b00100000000000000010000001010011"
| "rv32f_ENCODING FMIN_S = 0b00101000000000000000000001010011"
| "rv32f_ENCODING FMAX_S = 0b00101000000000000001000001010011"
| "rv32f_ENCODING FCVT_W_S = 0b11000000000000000000000001010011"
| "rv32f_ENCODING FCVT_WU_S = 0b11000000000100000000000001010011"
| "rv32f_ENCODING FMV_X_W = 0b11100000000000000000000001010011"
| "rv32f_ENCODING FEQ_S = 0b10100000000000000010000001010011"
| "rv32f_ENCODING FLT_S = 0b10100000000000000001000001010011"
| "rv32f_ENCODING FLE_S = 0b10100000000000000000000001010011"
| "rv32f_ENCODING FCLASS_S = 0b11100000000000000001000001010011"
| "rv32f_ENCODING FCVT_S_W = 0b11010000000000000000000001010011"
| "rv32f_ENCODING FCVT_S_WU = 0b11010000000100000000000001010011"
| "rv32f_ENCODING FMV_W_X = 0b11110000000000000000000001010011"

primrec rv64f_MASK :: "rv64f \<Rightarrow> u32" where
  "rv64f_MASK FCVT_L_S = 0b11111111111100000000000001111111"
| "rv64f_MASK FCVT_LU_S = 0b11111111111100000000000001111111"
| "rv64f_MASK FCVT_S_L = 0b11111111111100000000000001111111"
| "rv64f_MASK FCVT_S_LU = 0b11111111111100000000000001111111"

primrec rv64f_ENCODING :: "rv64f \<Rightarrow> u32" where
  "rv64f_ENCODING FCVT_L_S = 0b11000000001000000000000001010011"
| "rv64f_ENCODING FCVT_LU_S = 0b11000000001100000000000001010011"
| "rv64f_ENCODING FCVT_S_L = 0b11010000001000000000000001010011"
| "rv64f_ENCODING FCVT_S_LU = 0b11010000001100000000000001010011"

primrec rv32d_MASK :: "rv32d \<Rightarrow> u32" where
  "rv32d_MASK FLD = 0b00000000000000000111000001111111"
| "rv32d_MASK FSD = 0b00000000000000000111000001111111"
| "rv32d_MASK FMADD_D = 0b00000110000000000000000001111111"
| "rv32d_MASK FMSUB_D = 0b00000110000000000000000001111111"
| "rv32d_MASK FNMSUB_D = 0b00000110000000000000000001111111"
| "rv32d_MASK FNMADD_D = 0b00000110000000000000000001111111"
| "rv32d_MASK FADD_D = 0b11111110000000000000000001111111"
| "rv32d_MASK FSUB_D = 0b11111110000000000000000001111111"
| "rv32d_MASK FMUL_D = 0b11111110000000000000000001111111"
| "rv32d_MASK FDIV_D = 0b11111110000000000000000001111111"
| "rv32d_MASK FSQRT_D = 0b11111111111100000000000001111111"
| "rv32d_MASK FSGNJ_D = 0b11111110000000000111000001111111"
| "rv32d_MASK FSGNJN_D = 0b11111110000000000111000001111111"
| "rv32d_MASK FSGNJX_D = 0b11111110000000000111000001111111"
| "rv32d_MASK FMIN_D = 0b11111110000000000111000001111111"
| "rv32d_MASK FMAX_D = 0b11111110000000000111000001111111"
| "rv32d_MASK FCVT_S_D = 0b11111111111100000000000001111111"
| "rv32d_MASK FCVT_D_S = 0b11111111111100000000000001111111"
| "rv32d_MASK FEQ_D = 0b11111110000000000111000001111111"
| "rv32d_MASK FLT_D = 0b11111110000000000111000001111111"
| "rv32d_MASK FLE_D = 0b11111110000000000111000001111111"
| "rv32d_MASK FCLASS_D = 0b11111111111100000111000001111111"
| "rv32d_MASK FCVT_W_D = 0b11111111111100000000000001111111"
| "rv32d_MASK FCVT_WU_D = 0b11111111111100000000000001111111"
| "rv32d_MASK FCVT_D_W = 0b11111111111100000000000001111111"
| "rv32d_MASK FCVT_D_WU = 0b11111111111100000000000001111111"

primrec rv32d_ENCODING :: "rv32d \<Rightarrow> u32" where
  "rv32d_ENCODING FLD = 0b00000000000000000011000000000111"
| "rv32d_ENCODING FSD = 0b00000000000000000011000000100111"
| "rv32d_ENCODING FMADD_D = 0b00000010000000000000000001000011"
| "rv32d_ENCODING FMSUB_D = 0b00000010000000000000000001000111"
| "rv32d_ENCODING FNMSUB_D = 0b00000010000000000000000001001011"
| "rv32d_ENCODING FNMADD_D = 0b00000010000000000000000001001111"
| "rv32d_ENCODING FADD_D = 0b00000010000000000000000001010011"
| "rv32d_ENCODING FSUB_D = 0b00001010000000000000000001010011"
| "rv32d_ENCODING FMUL_D = 0b00010010000000000000000001010011"
| "rv32d_ENCODING FDIV_D = 0b00011010000000000000000001010011"
| "rv32d_ENCODING FSQRT_D = 0b01011010000000000000000001010011"
| "rv32d_ENCODING FSGNJ_D = 0b00100010000000000000000001010011"
| "rv32d_ENCODING FSGNJN_D = 0b00100010000000000001000001010011"
| "rv32d_ENCODING FSGNJX_D = 0b00100010000000000010000001010011"
| "rv32d_ENCODING FMIN_D = 0b00101010000000000000000001010011"
| "rv32d_ENCODING FMAX_D = 0b00101010000000000001000001010011"
| "rv32d_ENCODING FCVT_S_D = 0b01000000000100000000000001010011"
| "rv32d_ENCODING FCVT_D_S = 0b01000010000000000000000001010011"
| "rv32d_ENCODING FEQ_D = 0b10100010000000000010000001010011"
| "rv32d_ENCODING FLT_D = 0b10100010000000000001000001010011"
| "rv32d_ENCODING FLE_D = 0b10100010000000000000000001010011"
| "rv32d_ENCODING FCLASS_D = 0b11100010000000000001000001010011"
| "rv32d_ENCODING FCVT_W_D = 0b11000010000000000000000001010011"
| "rv32d_ENCODING FCVT_WU_D = 0b11000010000100000000000001010011"
| "rv32d_ENCODING FCVT_D_W = 0b11010010000000000000000001010011"
| "rv32d_ENCODING FCVT_D_WU = 0b11010010000100000000000001010011"

primrec rv64d_MASK :: "rv64d \<Rightarrow> u32" where
  "rv64d_MASK FCVT_L_D = 0b11111111111100000000000001111111"
| "rv64d_MASK FCVT_LU_D = 0b11111111111100000000000001111111"
| "rv64d_MASK FMV_X_D = 0b11111111111100000111000001111111"
| "rv64d_MASK FCVT_D_L = 0b11111111111100000000000001111111"
| "rv64d_MASK FCVT_D_LU = 0b11111111111100000000000001111111"
| "rv64d_MASK FMV_D_X = 0b11111111111100000111000001111111"

primrec rv64d_ENCODING :: "rv64d \<Rightarrow> u32" where
  "rv64d_ENCODING FCVT_L_D = 0b11000010001000000000000001010011"
| "rv64d_ENCODING FCVT_LU_D = 0b11000010001100000000000001010011"
| "rv64d_ENCODING FMV_X_D = 0b11100010000000000000000001010011"
| "rv64d_ENCODING FCVT_D_L = 0b11010010001000000000000001010011"
| "rv64d_ENCODING FCVT_D_LU = 0b11010010001100000000000001010011"
| "rv64d_ENCODING FMV_D_X = 0b11110010000000000000000001010011"

primrec rvpriv_MASK :: "rvpriv \<Rightarrow> u32" where
  "rvpriv_MASK URET = 0b11111111111111111111111111111111"
| "rvpriv_MASK SRET = 0b11111111111111111111111111111111"
| "rvpriv_MASK MRET = 0b11111111111111111111111111111111"
| "rvpriv_MASK WFI = 0b11111111111111111111111111111111"
| "rvpriv_MASK SFENCE_VMA = 0b11111110000000000111111111111111"

primrec rvpriv_ENCODING :: "rvpriv \<Rightarrow> u32" where
  "rvpriv_ENCODING URET = 0b00000000001000000000000001110011"
| "rvpriv_ENCODING SRET = 0b00010000001000000000000001110011"
| "rvpriv_ENCODING MRET = 0b00110000001000000000000001110011"
| "rvpriv_ENCODING WFI = 0b00010000010100000000000001110011"
| "rvpriv_ENCODING SFENCE_VMA = 0b00010010000000000000000001110011"

abbreviation SLLI_32_MASK :: u32 where
  "SLLI_32_MASK \<equiv> 0b11111110000000000111000001111111"

abbreviation SLLI_32_ENCODING :: u32 where
  "SLLI_32_ENCODING \<equiv> 0b00000000000000000001000000010011"

abbreviation SRLI_32_MASK :: u32 where
  "SRLI_32_MASK \<equiv> 0b11111110000000000111000001111111"

abbreviation SRLI_32_ENCODING :: u32 where
  "SRLI_32_ENCODING \<equiv> 0b00000000000000000101000000010011"

abbreviation SRAI_32_MASK :: u32 where
  "SRAI_32_MASK \<equiv> 0b11111110000000000111000001111111"

abbreviation SRAI_32_ENCODING :: u32 where
  "SRAI_32_ENCODING \<equiv> 0b01000000000000000101000000010011"

definition MASK :: "Mapping \<Rightarrow> u32" where
  "MASK m = (case m of
     UNDEF \<Rightarrow> 0
   | RV32I x \<Rightarrow> rv32i_MASK x
   | ZIFENCEI x \<Rightarrow> zifencei_MASK x
   | ZICSR x \<Rightarrow> zicsr_MASK x
   | RV32M x \<Rightarrow> rv32m_MASK x
   | RV32A x \<Rightarrow> rv32a_MASK x
   | RV64I x \<Rightarrow> rv64i_MASK x
   | RV64M x \<Rightarrow> rv64m_MASK x
   | RV64A x \<Rightarrow> rv64a_MASK x
   | RV32F x \<Rightarrow> rv32f_MASK x
   | RV64F x \<Rightarrow> rv64f_MASK x
   | RV32D x \<Rightarrow> rv32d_MASK x
   | RV64D x \<Rightarrow> rv64d_MASK x
   | PRIV x \<Rightarrow> rvpriv_MASK x)"

definition ENCODING :: "Mapping \<Rightarrow> u32" where
  "ENCODING m = (case m of
     UNDEF \<Rightarrow> 0
   | RV32I x \<Rightarrow> rv32i_ENCODING x
   | ZIFENCEI x \<Rightarrow> zifencei_ENCODING x
   | ZICSR x \<Rightarrow> zicsr_ENCODING x
   | RV32M x \<Rightarrow> rv32m_ENCODING x
   | RV32A x \<Rightarrow> rv32a_ENCODING x
   | RV64I x \<Rightarrow> rv64i_ENCODING x
   | RV64M x \<Rightarrow> rv64m_ENCODING x
   | RV64A x \<Rightarrow> rv64a_ENCODING x
   | RV32F x \<Rightarrow> rv32f_ENCODING x
   | RV64F x \<Rightarrow> rv64f_ENCODING x
   | RV32D x \<Rightarrow> rv32d_ENCODING x
   | RV64D x \<Rightarrow> rv64d_ENCODING x
   | PRIV x \<Rightarrow> rvpriv_ENCODING x)"

text \<open>
  The reference decoder: an instruction word encodes \<open>m\<close> when its masked bits are the encoding
  of \<open>m\<close>, with the RV32 variants of the immediate shifts (whose shift amount has five bits).
\<close>

definition MASK_for :: "Architecture \<Rightarrow> Mapping \<Rightarrow> u32" where
  "MASK_for arch m = (if arch = RV32 \<and> m = RV32I SLLI then SLLI_32_MASK
     else if arch = RV32 \<and> m = RV32I SRLI then SRLI_32_MASK
     else if arch = RV32 \<and> m = RV32I SRAI then SRAI_32_MASK
     else MASK m)"

definition ENCODING_for :: "Architecture \<Rightarrow> Mapping \<Rightarrow> u32" where
  "ENCODING_for arch m = (if arch = RV32 \<and> m = RV32I SLLI then SLLI_32_ENCODING
     else if arch = RV32 \<and> m = RV32I SRLI then SRLI_32_ENCODING
     else if arch = RV32 \<and> m = RV32I SRAI then SRAI_32_ENCODING
     else ENCODING m)"

definition encodes :: "Architecture \<Rightarrow> Mapping \<Rightarrow> u32 \<Rightarrow> bool" where
  "encodes arch m w \<longleftrightarrow> w AND MASK_for arch m = ENCODING_for arch m"

lemma ENCODING_for_MASK: "ENCODING_for arch m = ENCODING m"
  by (simp add: ENCODING_for_def ENCODING_def)

end
