(* ===== verification/Decoder.thy ===== *)
theory Decoder
  imports Encoding
begin

text \<open>
  \<open>Instruction::decode_normal\<close> of \<open>vp/src/core/common/instr.cpp\<close>: the nested switch statements
  that find the one candidate for an instruction word, and the final comparison with the mask
  and encoding of that candidate (\<open>MATCH_AND_RETURN_INSTR\<close>). Each \<open>case OP_...\<close> of the outer
  switch is a definition of its own; a case that breaks out of the switch yields \<open>UNDEF\<close>. The
  theorem of this theory is that the tree of switches decides the table of masks and encodings.
\<close>

unbundle bit_operations_syntax

named_theorems match_sound_intros "rules for the soundness of a decision tree"

definition MATCH_AND_RETURN_INSTR2 :: "u32 \<Rightarrow> u32 \<Rightarrow> Mapping \<Rightarrow> u32 \<Rightarrow> Mapping" where
  "MATCH_AND_RETURN_INSTR2 instr_MASK instr_ENCODING result w =
     (if w AND instr_MASK \<noteq> instr_ENCODING then UNDEF else result)"

definition MATCH_AND_RETURN_INSTR :: "Mapping \<Rightarrow> u32 \<Rightarrow> Mapping" where
  "MATCH_AND_RETURN_INSTR instr w = MATCH_AND_RETURN_INSTR2 (MASK instr) (ENCODING instr) instr w"

definition decode_OP_BEQ :: "u32 \<Rightarrow> Mapping" where
  "decode_OP_BEQ w = (
     if instr_funct3 w = F3_BEQ then MATCH_AND_RETURN_INSTR (RV32I BEQ) w
     else if instr_funct3 w = F3_BNE then MATCH_AND_RETURN_INSTR (RV32I BNE) w
     else if instr_funct3 w = F3_BLT then MATCH_AND_RETURN_INSTR (RV32I BLT) w
     else if instr_funct3 w = F3_BGE then MATCH_AND_RETURN_INSTR (RV32I BGE) w
     else if instr_funct3 w = F3_BLTU then MATCH_AND_RETURN_INSTR (RV32I BLTU) w
     else if instr_funct3 w = F3_BGEU then MATCH_AND_RETURN_INSTR (RV32I BGEU) w
     else UNDEF)"

definition decode_OP_LB :: "u32 \<Rightarrow> Mapping" where
  "decode_OP_LB w = (
     if instr_funct3 w = F3_LB then MATCH_AND_RETURN_INSTR (RV32I LB) w
     else if instr_funct3 w = F3_LH then MATCH_AND_RETURN_INSTR (RV32I LH) w
     else if instr_funct3 w = F3_LW then MATCH_AND_RETURN_INSTR (RV32I LW) w
     else if instr_funct3 w = F3_LBU then MATCH_AND_RETURN_INSTR (RV32I LBU) w
     else if instr_funct3 w = F3_LHU then MATCH_AND_RETURN_INSTR (RV32I LHU) w
     else if instr_funct3 w = F3_LWU then MATCH_AND_RETURN_INSTR (RV64I LWU) w
     else if instr_funct3 w = F3_LD then MATCH_AND_RETURN_INSTR (RV64I LD) w
     else UNDEF)"

definition decode_OP_SB :: "u32 \<Rightarrow> Mapping" where
  "decode_OP_SB w = (
     if instr_funct3 w = F3_SB then MATCH_AND_RETURN_INSTR (RV32I SB) w
     else if instr_funct3 w = F3_SH then MATCH_AND_RETURN_INSTR (RV32I SH) w
     else if instr_funct3 w = F3_SW then MATCH_AND_RETURN_INSTR (RV32I SW) w
     else if instr_funct3 w = F3_SD then MATCH_AND_RETURN_INSTR (RV64I SD) w
     else UNDEF)"

definition decode_OP_ADDI :: "Architecture \<Rightarrow> u32 \<Rightarrow> Mapping" where
  "decode_OP_ADDI arch w = (
     if instr_funct3 w = F3_ADDI then MATCH_AND_RETURN_INSTR (RV32I ADDI) w
     else if instr_funct3 w = F3_SLTI then MATCH_AND_RETURN_INSTR (RV32I SLTI) w
     else if instr_funct3 w = F3_SLTIU then MATCH_AND_RETURN_INSTR (RV32I SLTIU) w
     else if instr_funct3 w = F3_XORI then MATCH_AND_RETURN_INSTR (RV32I XORI) w
     else if instr_funct3 w = F3_ORI then MATCH_AND_RETURN_INSTR (RV32I ORI) w
     else if instr_funct3 w = F3_ANDI then MATCH_AND_RETURN_INSTR (RV32I ANDI) w
     else if instr_funct3 w = F3_SLLI then (
       if arch = RV32 then MATCH_AND_RETURN_INSTR2 SLLI_32_MASK SLLI_32_ENCODING (RV32I SLLI) w
       else MATCH_AND_RETURN_INSTR (RV32I SLLI) w)
     else if instr_funct3 w = F3_SRLI then (
       if instr_funct6 w = F6_SRLI then (
         if arch = RV32 then MATCH_AND_RETURN_INSTR2 SRLI_32_MASK SRLI_32_ENCODING (RV32I SRLI) w
         else MATCH_AND_RETURN_INSTR (RV32I SRLI) w)
       else if instr_funct6 w = F6_SRAI then (
         if arch = RV32 then MATCH_AND_RETURN_INSTR2 SRAI_32_MASK SRAI_32_ENCODING (RV32I SRAI) w
         else MATCH_AND_RETURN_INSTR (RV32I SRAI) w)
       else UNDEF)
     else UNDEF)"

definition decode_OP_ADDIW :: "u32 \<Rightarrow> Mapping" where
  "decode_OP_ADDIW w = (
     if instr_funct3 w = F3_ADDIW then MATCH_AND_RETURN_INSTR (RV64I ADDIW) w
     else if instr_funct3 w = F3_SLLIW then MATCH_AND_RETURN_INSTR (RV64I SLLIW) w
     else if instr_funct3 w = F3_SRLIW then (
       if instr_funct7 w = F7_SRLIW then MATCH_AND_RETURN_INSTR (RV64I SRLIW) w
       else if instr_funct7 w = F7_SRAIW then MATCH_AND_RETURN_INSTR (RV64I SRAIW) w
       else UNDEF)
     else UNDEF)"

definition decode_OP_ADD :: "u32 \<Rightarrow> Mapping" where
  "decode_OP_ADD w = (
     if instr_funct7 w = F7_ADD then (
       if instr_funct3 w = F3_ADD then MATCH_AND_RETURN_INSTR (RV32I ADD) w
       else if instr_funct3 w = F3_SLL then MATCH_AND_RETURN_INSTR (RV32I SLL) w
       else if instr_funct3 w = F3_SLT then MATCH_AND_RETURN_INSTR (RV32I SLT) w
       else if instr_funct3 w = F3_SLTU then MATCH_AND_RETURN_INSTR (RV32I SLTU) w
       else if instr_funct3 w = F3_XOR then MATCH_AND_RETURN_INSTR (RV32I XOR_op) w
       else if instr_funct3 w = F3_SRL then MATCH_AND_RETURN_INSTR (RV32I SRL) w
       else if instr_funct3 w = F3_OR then MATCH_AND_RETURN_INSTR (RV32I OR_op) w
       else if instr_funct3 w = F3_AND then MATCH_AND_RETURN_INSTR (RV32I AND_op) w
       else UNDEF)
     else if instr_funct7 w = F7_SUB then (
       if instr_funct3 w = F3_SUB then MATCH_AND_RETURN_INSTR (RV32I SUB) w
       else if instr_funct3 w = F3_SRA then MATCH_AND_RETURN_INSTR (RV32I SRA) w
       else UNDEF)
     else if instr_funct7 w = F7_MUL then (
       if instr_funct3 w = F3_MUL then MATCH_AND_RETURN_INSTR (RV32M MUL) w
       else if instr_funct3 w = F3_MULH then MATCH_AND_RETURN_INSTR (RV32M MULH) w
       else if instr_funct3 w = F3_MULHSU then MATCH_AND_RETURN_INSTR (RV32M MULHSU) w
       else if instr_funct3 w = F3_MULHU then MATCH_AND_RETURN_INSTR (RV32M MULHU) w
       else if instr_funct3 w = F3_DIV then MATCH_AND_RETURN_INSTR (RV32M DIV) w
       else if instr_funct3 w = F3_DIVU then MATCH_AND_RETURN_INSTR (RV32M DIVU) w
       else if instr_funct3 w = F3_REM then MATCH_AND_RETURN_INSTR (RV32M REM) w
       else if instr_funct3 w = F3_REMU then MATCH_AND_RETURN_INSTR (RV32M REMU) w
       else UNDEF)
     else UNDEF)"

definition decode_OP_ADDW :: "u32 \<Rightarrow> Mapping" where
  "decode_OP_ADDW w = (
     if instr_funct7 w = F7_ADDW then (
       if instr_funct3 w = F3_ADDW then MATCH_AND_RETURN_INSTR (RV64I ADDW) w
       else if instr_funct3 w = F3_SLLW then MATCH_AND_RETURN_INSTR (RV64I SLLW) w
       else if instr_funct3 w = F3_SRLW then MATCH_AND_RETURN_INSTR (RV64I SRLW) w
       else UNDEF)
     else if instr_funct7 w = F7_SUBW then (
       if instr_funct3 w = F3_SUBW then MATCH_AND_RETURN_INSTR (RV64I SUBW) w
       else if instr_funct3 w = F3_SRAW then MATCH_AND_RETURN_INSTR (RV64I SRAW) w
       else UNDEF)
     else if instr_funct7 w = F7_MULW then (
       if instr_funct3 w = F3_MULW then MATCH_AND_RETURN_INSTR (RV64M MULW) w
       else if instr_funct3 w = F3_DIVW then MATCH_AND_RETURN_INSTR (RV64M DIVW) w
       else if instr_funct3 w = F3_DIVUW then MATCH_AND_RETURN_INSTR (RV64M DIVUW) w
       else if instr_funct3 w = F3_REMW then MATCH_AND_RETURN_INSTR (RV64M REMW) w
       else if instr_funct3 w = F3_REMUW then MATCH_AND_RETURN_INSTR (RV64M REMUW) w
       else UNDEF)
     else UNDEF)"

definition decode_OP_FENCE :: "u32 \<Rightarrow> Mapping" where
  "decode_OP_FENCE w = (
     if instr_funct3 w = F3_FENCE then MATCH_AND_RETURN_INSTR (RV32I FENCE) w
     else if instr_funct3 w = F3_FENCE_I then MATCH_AND_RETURN_INSTR (ZIFENCEI FENCE_I) w
     else UNDEF)"

definition decode_OP_ECALL :: "u32 \<Rightarrow> Mapping" where
  "decode_OP_ECALL w = (
     if instr_funct3 w = F3_SYS then (
       if instr_funct12 w = F12_ECALL then MATCH_AND_RETURN_INSTR (RV32I ECALL) w
       else if instr_funct12 w = F12_EBREAK then MATCH_AND_RETURN_INSTR (RV32I EBREAK) w
       else if instr_funct12 w = F12_URET then MATCH_AND_RETURN_INSTR (PRIV URET) w
       else if instr_funct12 w = F12_SRET then MATCH_AND_RETURN_INSTR (PRIV SRET) w
       else if instr_funct12 w = F12_MRET then MATCH_AND_RETURN_INSTR (PRIV MRET) w
       else if instr_funct12 w = F12_WFI then MATCH_AND_RETURN_INSTR (PRIV WFI) w
       else MATCH_AND_RETURN_INSTR (PRIV SFENCE_VMA) w)
     else if instr_funct3 w = F3_CSRRW then MATCH_AND_RETURN_INSTR (ZICSR CSRRW) w
     else if instr_funct3 w = F3_CSRRS then MATCH_AND_RETURN_INSTR (ZICSR CSRRS) w
     else if instr_funct3 w = F3_CSRRC then MATCH_AND_RETURN_INSTR (ZICSR CSRRC) w
     else if instr_funct3 w = F3_CSRRWI then MATCH_AND_RETURN_INSTR (ZICSR CSRRWI) w
     else if instr_funct3 w = F3_CSRRSI then MATCH_AND_RETURN_INSTR (ZICSR CSRRSI) w
     else if instr_funct3 w = F3_CSRRCI then MATCH_AND_RETURN_INSTR (ZICSR CSRRCI) w
     else UNDEF)"

definition decode_OP_AMO :: "u32 \<Rightarrow> Mapping" where
  "decode_OP_AMO w = (
     if instr_funct5 w = F5_LR_W then (
       if instr_funct3 w = F3_AMO_D then MATCH_AND_RETURN_INSTR (RV64A LR_D) w
       else MATCH_AND_RETURN_INSTR (RV32A LR_W) w)
     else if instr_funct5 w = F5_SC_W then (
       if instr_funct3 w = F3_AMO_D then MATCH_AND_RETURN_INSTR (RV64A SC_D) w
       else MATCH_AND_RETURN_INSTR (RV32A SC_W) w)
     else if instr_funct5 w = F5_AMOSWAP_W then (
       if instr_funct3 w = F3_AMO_D then MATCH_AND_RETURN_INSTR (RV64A AMOSWAP_D) w
       else MATCH_AND_RETURN_INSTR (RV32A AMOSWAP_W) w)
     else if instr_funct5 w = F5_AMOADD_W then (
       if instr_funct3 w = F3_AMO_D then MATCH_AND_RETURN_INSTR (RV64A AMOADD_D) w
       else MATCH_AND_RETURN_INSTR (RV32A AMOADD_W) w)
     else if instr_funct5 w = F5_AMOXOR_W then (
       if instr_funct3 w = F3_AMO_D then MATCH_AND_RETURN_INSTR (RV64A AMOXOR_D) w
       else MATCH_AND_RETURN_INSTR (RV32A AMOXOR_W) w)
     else if instr_funct5 w = F5_AMOAND_W then (
       if instr_funct3 w = F3_AMO_D then MATCH_AND_RETURN_INSTR (RV64A AMOAND_D) w
       else MATCH_AND_RETURN_INSTR (RV32A AMOAND_W) w)
     else if instr_funct5 w = F5_AMOOR_W then (
       if instr_funct3 w = F3_AMO_D then MATCH_AND_RETURN_INSTR (RV64A AMOOR_D) w
       else MATCH_AND_RETURN_INSTR (RV32A AMOOR_W) w)
     else if instr_funct5 w = F5_AMOMIN_W then (
       if instr_funct3 w = F3_AMO_D then MATCH_AND_RETURN_INSTR (RV64A AMOMIN_D) w
       else MATCH_AND_RETURN_INSTR (RV32A AMOMIN_W) w)
     else if instr_funct5 w = F5_AMOMAX_W then (
       if instr_funct3 w = F3_AMO_D then MATCH_AND_RETURN_INSTR (RV64A AMOMAX_D) w
       else MATCH_AND_RETURN_INSTR (RV32A AMOMAX_W) w)
     else if instr_funct5 w = F5_AMOMINU_W then (
       if instr_funct3 w = F3_AMO_D then MATCH_AND_RETURN_INSTR (RV64A AMOMINU_D) w
       else MATCH_AND_RETURN_INSTR (RV32A AMOMINU_W) w)
     else if instr_funct5 w = F5_AMOMAXU_W then (
       if instr_funct3 w = F3_AMO_D then MATCH_AND_RETURN_INSTR (RV64A AMOMAXU_D) w
       else MATCH_AND_RETURN_INSTR (RV32A AMOMAXU_W) w)
     else UNDEF)"

definition decode_OP_FMADD_S :: "u32 \<Rightarrow> Mapping" where
  "decode_OP_FMADD_S w = (
     if instr_funct2 w = F2_FMADD_S then MATCH_AND_RETURN_INSTR (RV32F FMADD_S) w
     else if instr_funct2 w = F2_FMADD_D then MATCH_AND_RETURN_INSTR (RV32D FMADD_D) w
     else UNDEF)"

definition decode_OP_FADD_S :: "u32 \<Rightarrow> Mapping" where
  "decode_OP_FADD_S w = (
     if instr_funct7 w = F7_FADD_S then MATCH_AND_RETURN_INSTR (RV32F FADD_S) w
     else if instr_funct7 w = F7_FADD_D then MATCH_AND_RETURN_INSTR (RV32D FADD_D) w
     else if instr_funct7 w = F7_FSUB_S then MATCH_AND_RETURN_INSTR (RV32F FSUB_S) w
     else if instr_funct7 w = F7_FSUB_D then MATCH_AND_RETURN_INSTR (RV32D FSUB_D) w
     else if instr_funct7 w = F7_FCVT_D_S then MATCH_AND_RETURN_INSTR (RV32D FCVT_D_S) w
     else if instr_funct7 w = F7_FMUL_S then MATCH_AND_RETURN_INSTR (RV32F FMUL_S) w
     else if instr_funct7 w = F7_FMUL_D then MATCH_AND_RETURN_INSTR (RV32D FMUL_D) w
     else if instr_funct7 w = F7_FDIV_S then MATCH_AND_RETURN_INSTR (RV32F FDIV_S) w
     else if instr_funct7 w = F7_FDIV_D then MATCH_AND_RETURN_INSTR (RV32D FDIV_D) w
     else if instr_funct7 w = F7_FLE_S then (
       if instr_funct3 w = F3_FLE_S then MATCH_AND_RETURN_INSTR (RV32F FLE_S) w
       else if instr_funct3 w = F3_FLT_S then MATCH_AND_RETURN_INSTR (RV32F FLT_S) w
       else if instr_funct3 w = F3_FEQ_S then MATCH_AND_RETURN_INSTR (RV32F FEQ_S) w
       else UNDEF)
     else if instr_funct7 w = F7_FSGNJ_D then (
       if instr_funct3 w = F3_FSGNJ_D then MATCH_AND_RETURN_INSTR (RV32D FSGNJ_D) w
       else if instr_funct3 w = F3_FSGNJN_D then MATCH_AND_RETURN_INSTR (RV32D FSGNJN_D) w
       else if instr_funct3 w = F3_FSGNJX_D then MATCH_AND_RETURN_INSTR (RV32D FSGNJX_D) w
       else UNDEF)
     else if instr_funct7 w = F7_FMIN_S then (
       if instr_funct3 w = F3_FMIN_S then MATCH_AND_RETURN_INSTR (RV32F FMIN_S) w
       else if instr_funct3 w = F3_FMAX_S then MATCH_AND_RETURN_INSTR (RV32F FMAX_S) w
       else UNDEF)
     else if instr_funct7 w = F7_FMIN_D then (
       if instr_funct3 w = F3_FMIN_D then MATCH_AND_RETURN_INSTR (RV32D FMIN_D) w
       else if instr_funct3 w = F3_FMAX_D then MATCH_AND_RETURN_INSTR (RV32D FMAX_D) w
       else UNDEF)
     else if instr_funct7 w = F7_FCVT_S_D then MATCH_AND_RETURN_INSTR (RV32D FCVT_S_D) w
     else if instr_funct7 w = F7_FSGNJ_S then (
       if instr_funct3 w = F3_FSGNJ_S then MATCH_AND_RETURN_INSTR (RV32F FSGNJ_S) w
       else if instr_funct3 w = F3_FSGNJN_S then MATCH_AND_RETURN_INSTR (RV32F FSGNJN_S) w
       else if instr_funct3 w = F3_FSGNJX_S then MATCH_AND_RETURN_INSTR (RV32F FSGNJX_S) w
       else UNDEF)
     else if instr_funct7 w = F7_FLE_D then (
       if instr_funct3 w = F3_FLE_D then MATCH_AND_RETURN_INSTR (RV32D FLE_D) w
       else if instr_funct3 w = F3_FLT_D then MATCH_AND_RETURN_INSTR (RV32D FLT_D) w
       else if instr_funct3 w = F3_FEQ_D then MATCH_AND_RETURN_INSTR (RV32D FEQ_D) w
       else UNDEF)
     else if instr_funct7 w = F7_FCVT_S_W then (
       if instr_rs2 w = RS2_FCVT_S_W then MATCH_AND_RETURN_INSTR (RV32F FCVT_S_W) w
       else if instr_rs2 w = RS2_FCVT_S_WU then MATCH_AND_RETURN_INSTR (RV32F FCVT_S_WU) w
       else if instr_rs2 w = RS2_FCVT_S_L then MATCH_AND_RETURN_INSTR (RV64F FCVT_S_L) w
       else if instr_rs2 w = RS2_FCVT_S_LU then MATCH_AND_RETURN_INSTR (RV64F FCVT_S_LU) w
       else UNDEF)
     else if instr_funct7 w = F7_FCVT_D_W then (
       if instr_rs2 w = RS2_FCVT_D_W then MATCH_AND_RETURN_INSTR (RV32D FCVT_D_W) w
       else if instr_rs2 w = RS2_FCVT_D_WU then MATCH_AND_RETURN_INSTR (RV32D FCVT_D_WU) w
       else if instr_rs2 w = RS2_FCVT_D_L then MATCH_AND_RETURN_INSTR (RV64D FCVT_D_L) w
       else if instr_rs2 w = RS2_FCVT_D_LU then MATCH_AND_RETURN_INSTR (RV64D FCVT_D_LU) w
       else UNDEF)
     else if instr_funct7 w = F7_FCVT_W_D then (
       if instr_rs2 w = RS2_FCVT_W_D then MATCH_AND_RETURN_INSTR (RV32D FCVT_W_D) w
       else if instr_rs2 w = RS2_FCVT_WU_D then MATCH_AND_RETURN_INSTR (RV32D FCVT_WU_D) w
       else if instr_rs2 w = RS2_FCVT_L_D then MATCH_AND_RETURN_INSTR (RV64D FCVT_L_D) w
       else if instr_rs2 w = RS2_FCVT_LU_D then MATCH_AND_RETURN_INSTR (RV64D FCVT_LU_D) w
       else UNDEF)
     else if instr_funct7 w = F7_FSQRT_S then MATCH_AND_RETURN_INSTR (RV32F FSQRT_S) w
     else if instr_funct7 w = F7_FSQRT_D then MATCH_AND_RETURN_INSTR (RV32D FSQRT_D) w
     else if instr_funct7 w = F7_FCVT_W_S then (
       if instr_rs2 w = RS2_FCVT_W_S then MATCH_AND_RETURN_INSTR (RV32F FCVT_W_S) w
       else if instr_rs2 w = RS2_FCVT_WU_S then MATCH_AND_RETURN_INSTR (RV32F FCVT_WU_S) w
       else if instr_rs2 w = RS2_FCVT_L_S then MATCH_AND_RETURN_INSTR (RV64F FCVT_L_S) w
       else if instr_rs2 w = RS2_FCVT_LU_S then MATCH_AND_RETURN_INSTR (RV64F FCVT_LU_S) w
       else UNDEF)
     else if instr_funct7 w = F7_FMV_X_W then (
       if instr_funct3 w = F3_FMV_X_W then MATCH_AND_RETURN_INSTR (RV32F FMV_X_W) w
       else if instr_funct3 w = F3_FCLASS_S then MATCH_AND_RETURN_INSTR (RV32F FCLASS_S) w
       else UNDEF)
     else if instr_funct7 w = F7_FMV_X_D then (
       if instr_funct3 w = F3_FMV_X_D then MATCH_AND_RETURN_INSTR (RV64D FMV_X_D) w
       else if instr_funct3 w = F3_FCLASS_D then MATCH_AND_RETURN_INSTR (RV32D FCLASS_D) w
       else UNDEF)
     else if instr_funct7 w = F7_FMV_W_X then MATCH_AND_RETURN_INSTR (RV32F FMV_W_X) w
     else if instr_funct7 w = F7_FMV_D_X then MATCH_AND_RETURN_INSTR (RV64D FMV_D_X) w
     else UNDEF)"

definition decode_OP_FLW :: "u32 \<Rightarrow> Mapping" where
  "decode_OP_FLW w = (
     if instr_funct3 w = F3_FLW then MATCH_AND_RETURN_INSTR (RV32F FLW) w
     else if instr_funct3 w = F3_FLD then MATCH_AND_RETURN_INSTR (RV32D FLD) w
     else UNDEF)"

definition decode_OP_FSW :: "u32 \<Rightarrow> Mapping" where
  "decode_OP_FSW w = (
     if instr_funct3 w = F3_FSW then MATCH_AND_RETURN_INSTR (RV32F FSW) w
     else if instr_funct3 w = F3_FSD then MATCH_AND_RETURN_INSTR (RV32D FSD) w
     else UNDEF)"

definition decode_OP_FMSUB_S :: "u32 \<Rightarrow> Mapping" where
  "decode_OP_FMSUB_S w = (
     if instr_funct2 w = F2_FMSUB_S then MATCH_AND_RETURN_INSTR (RV32F FMSUB_S) w
     else if instr_funct2 w = F2_FMSUB_D then MATCH_AND_RETURN_INSTR (RV32D FMSUB_D) w
     else UNDEF)"

definition decode_OP_FNMSUB_S :: "u32 \<Rightarrow> Mapping" where
  "decode_OP_FNMSUB_S w = (
     if instr_funct2 w = F2_FNMSUB_S then MATCH_AND_RETURN_INSTR (RV32F FNMSUB_S) w
     else if instr_funct2 w = F2_FNMSUB_D then MATCH_AND_RETURN_INSTR (RV32D FNMSUB_D) w
     else UNDEF)"

definition decode_OP_FNMADD_S :: "u32 \<Rightarrow> Mapping" where
  "decode_OP_FNMADD_S w = (
     if instr_funct2 w = F2_FNMADD_S then MATCH_AND_RETURN_INSTR (RV32F FNMADD_S) w
     else if instr_funct2 w = F2_FNMADD_D then MATCH_AND_RETURN_INSTR (RV32D FNMADD_D) w
     else UNDEF)"

definition decode_normal :: "Architecture \<Rightarrow> u32 \<Rightarrow> Mapping" where
  "decode_normal arch w = (
     if instr_opcode w = OP_LUI then MATCH_AND_RETURN_INSTR (RV32I LUI) w
     else if instr_opcode w = OP_AUIPC then MATCH_AND_RETURN_INSTR (RV32I AUIPC) w
     else if instr_opcode w = OP_JAL then MATCH_AND_RETURN_INSTR (RV32I JAL) w
     else if instr_opcode w = OP_JALR then MATCH_AND_RETURN_INSTR (RV32I JALR) w
     else if instr_opcode w = OP_BEQ then decode_OP_BEQ w
     else if instr_opcode w = OP_LB then decode_OP_LB w
     else if instr_opcode w = OP_SB then decode_OP_SB w
     else if instr_opcode w = OP_ADDI then decode_OP_ADDI arch w
     else if instr_opcode w = OP_ADDIW then decode_OP_ADDIW w
     else if instr_opcode w = OP_ADD then decode_OP_ADD w
     else if instr_opcode w = OP_ADDW then decode_OP_ADDW w
     else if instr_opcode w = OP_FENCE then decode_OP_FENCE w
     else if instr_opcode w = OP_ECALL then decode_OP_ECALL w
     else if instr_opcode w = OP_AMO then decode_OP_AMO w
     else if instr_opcode w = OP_FMADD_S then decode_OP_FMADD_S w
     else if instr_opcode w = OP_FADD_S then decode_OP_FADD_S w
     else if instr_opcode w = OP_FLW then decode_OP_FLW w
     else if instr_opcode w = OP_FSW then decode_OP_FSW w
     else if instr_opcode w = OP_FMSUB_S then decode_OP_FMSUB_S w
     else if instr_opcode w = OP_FNMSUB_S then decode_OP_FNMSUB_S w
     else if instr_opcode w = OP_FNMADD_S then decode_OP_FNMADD_S w
     else UNDEF)"

lemmas decode_group_defs = decode_OP_BEQ_def decode_OP_LB_def decode_OP_SB_def decode_OP_ADDIW_def decode_OP_ADD_def decode_OP_ADDW_def decode_OP_FENCE_def decode_OP_ECALL_def decode_OP_AMO_def decode_OP_FMADD_S_def decode_OP_FADD_S_def decode_OP_FLW_def decode_OP_FSW_def decode_OP_FMSUB_S_def decode_OP_FNMSUB_S_def decode_OP_FNMADD_S_def

section \<open>Soundness\<close>

text \<open>A decision tree is sound if what it returns is encoded by the word.\<close>

definition match_sound :: "Architecture \<Rightarrow> u32 \<Rightarrow> Mapping \<Rightarrow> bool" where
  "match_sound arch w m \<longleftrightarrow> m = UNDEF \<or> encodes arch m w"

lemma match_sound_UNDEF [match_sound_intros]: "match_sound arch w UNDEF"
  by (simp add: match_sound_def)

lemma match_sound_if [match_sound_intros]:
  "(b \<Longrightarrow> match_sound arch w m) \<Longrightarrow> (\<not> b \<Longrightarrow> match_sound arch w m')
    \<Longrightarrow> match_sound arch w (if b then m else m')"
  by simp

lemma match_sound_MATCH:
  "MASK_for arch m = MASK m \<Longrightarrow> match_sound arch w (MATCH_AND_RETURN_INSTR m w)"
  by (simp add: match_sound_def MATCH_AND_RETURN_INSTR_def MATCH_AND_RETURN_INSTR2_def encodes_def
      ENCODING_for_MASK)

lemma match_sound_MATCH_other [match_sound_intros]:
  "m \<noteq> RV32I SLLI \<Longrightarrow> m \<noteq> RV32I SRLI \<Longrightarrow> m \<noteq> RV32I SRAI
    \<Longrightarrow> match_sound arch w (MATCH_AND_RETURN_INSTR m w)"
  by (rule match_sound_MATCH) (simp add: MASK_for_def)

lemma match_sound_shift [match_sound_intros]:
  "match_sound RV32 w (MATCH_AND_RETURN_INSTR2 SLLI_32_MASK SLLI_32_ENCODING (RV32I SLLI) w)"
  "match_sound RV32 w (MATCH_AND_RETURN_INSTR2 SRLI_32_MASK SRLI_32_ENCODING (RV32I SRLI) w)"
  "match_sound RV32 w (MATCH_AND_RETURN_INSTR2 SRAI_32_MASK SRAI_32_ENCODING (RV32I SRAI) w)"
  by (simp_all add: match_sound_def MATCH_AND_RETURN_INSTR2_def encodes_def MASK_for_def
      ENCODING_for_def)

lemma decode_OP_ADDI_sound: "match_sound arch w (decode_OP_ADDI arch w)"
proof (cases "arch = RV32")
  case True
  then show ?thesis
    unfolding decode_OP_ADDI_def by (simp only: if_True refl) (intro match_sound_intros; simp)
next
  case False
  then have "MASK_for arch m = MASK m" for m by (simp add: MASK_for_def)
  then show ?thesis
    using False unfolding decode_OP_ADDI_def
    by (simp only: if_False simp_thms)
      (intro match_sound_UNDEF match_sound_if match_sound_MATCH; simp)
qed

lemma decode_OP_BEQ_sound: "match_sound arch w (decode_OP_BEQ w)"
  unfolding decode_OP_BEQ_def by (intro match_sound_intros; simp)

lemma decode_OP_LB_sound: "match_sound arch w (decode_OP_LB w)"
  unfolding decode_OP_LB_def by (intro match_sound_intros; simp)

lemma decode_OP_SB_sound: "match_sound arch w (decode_OP_SB w)"
  unfolding decode_OP_SB_def by (intro match_sound_intros; simp)

lemma decode_OP_ADDIW_sound: "match_sound arch w (decode_OP_ADDIW w)"
  unfolding decode_OP_ADDIW_def by (intro match_sound_intros; simp)

lemma decode_OP_ADD_sound: "match_sound arch w (decode_OP_ADD w)"
  unfolding decode_OP_ADD_def by (intro match_sound_intros; simp)

lemma decode_OP_ADDW_sound: "match_sound arch w (decode_OP_ADDW w)"
  unfolding decode_OP_ADDW_def by (intro match_sound_intros; simp)

lemma decode_OP_FENCE_sound: "match_sound arch w (decode_OP_FENCE w)"
  unfolding decode_OP_FENCE_def by (intro match_sound_intros; simp)

lemma decode_OP_ECALL_sound: "match_sound arch w (decode_OP_ECALL w)"
  unfolding decode_OP_ECALL_def by (intro match_sound_intros; simp)

lemma decode_OP_AMO_sound: "match_sound arch w (decode_OP_AMO w)"
  unfolding decode_OP_AMO_def by (intro match_sound_intros; simp)

lemma decode_OP_FMADD_S_sound: "match_sound arch w (decode_OP_FMADD_S w)"
  unfolding decode_OP_FMADD_S_def by (intro match_sound_intros; simp)

lemma decode_OP_FADD_S_sound: "match_sound arch w (decode_OP_FADD_S w)"
  unfolding decode_OP_FADD_S_def by (intro match_sound_intros; simp)

lemma decode_OP_FLW_sound: "match_sound arch w (decode_OP_FLW w)"
  unfolding decode_OP_FLW_def by (intro match_sound_intros; simp)

lemma decode_OP_FSW_sound: "match_sound arch w (decode_OP_FSW w)"
  unfolding decode_OP_FSW_def by (intro match_sound_intros; simp)

lemma decode_OP_FMSUB_S_sound: "match_sound arch w (decode_OP_FMSUB_S w)"
  unfolding decode_OP_FMSUB_S_def by (intro match_sound_intros; simp)

lemma decode_OP_FNMSUB_S_sound: "match_sound arch w (decode_OP_FNMSUB_S w)"
  unfolding decode_OP_FNMSUB_S_def by (intro match_sound_intros; simp)

lemma decode_OP_FNMADD_S_sound: "match_sound arch w (decode_OP_FNMADD_S w)"
  unfolding decode_OP_FNMADD_S_def by (intro match_sound_intros; simp)

lemmas decode_group_sound = decode_OP_BEQ_sound
  decode_OP_LB_sound
  decode_OP_SB_sound
  decode_OP_ADDI_sound
  decode_OP_ADDIW_sound
  decode_OP_ADD_sound
  decode_OP_ADDW_sound
  decode_OP_FENCE_sound
  decode_OP_ECALL_sound
  decode_OP_AMO_sound
  decode_OP_FMADD_S_sound
  decode_OP_FADD_S_sound
  decode_OP_FLW_sound
  decode_OP_FSW_sound
  decode_OP_FMSUB_S_sound
  decode_OP_FNMSUB_S_sound
  decode_OP_FNMADD_S_sound

lemma decode_normal_sound: "match_sound arch w (decode_normal arch w)"
  unfolding decode_normal_def by (intro match_sound_intros decode_group_sound; simp)

section \<open>Completeness\<close>

text \<open>What a masked word says about the fields the switches look at.\<close>

lemma instr_fields_and:
  "instr_funct3 w = drop_bit 12 (w AND 0x7000)"
  "instr_funct2 w = drop_bit 25 (w AND 0x06000000)"
  "instr_funct5 w = drop_bit 27 (w AND 0xf8000000)"
  "instr_funct6 w = drop_bit 26 (w AND 0xfc000000)"
  "instr_funct7 w = drop_bit 25 (w AND 0xfe000000)"
  "instr_funct12 w = drop_bit 20 (w AND 0xfff00000)"
  "instr_rs2 w = drop_bit 20 (w AND 0x01f00000)"
  by ((rule u32_eqI; simp add: bitblast bit_simps)+)

lemma masked_fieldsE:
  fixes w :: u32
  assumes "w AND M = E"
  obtains "0x7f AND M = 0x7f \<longrightarrow> instr_opcode w = E AND 0x7f"
    and "0x7000 AND M = 0x7000 \<longrightarrow> instr_funct3 w = drop_bit 12 (E AND 0x7000)"
    and "0x06000000 AND M = 0x06000000 \<longrightarrow> instr_funct2 w = drop_bit 25 (E AND 0x06000000)"
    and "0xf8000000 AND M = 0xf8000000 \<longrightarrow> instr_funct5 w = drop_bit 27 (E AND 0xf8000000)"
    and "0xfc000000 AND M = 0xfc000000 \<longrightarrow> instr_funct6 w = drop_bit 26 (E AND 0xfc000000)"
    and "0xfe000000 AND M = 0xfe000000 \<longrightarrow> instr_funct7 w = drop_bit 25 (E AND 0xfe000000)"
    and "0xfff00000 AND M = 0xfff00000 \<longrightarrow> instr_funct12 w = drop_bit 20 (E AND 0xfff00000)"
    and "0x01f00000 AND M = 0x01f00000 \<longrightarrow> instr_rs2 w = drop_bit 20 (E AND 0x01f00000)"
    and "w AND M = E"
proof (rule that)
  note sub = and_mask_sub [OF assms]
  show "0x7f AND M = 0x7f \<longrightarrow> instr_opcode w = E AND 0x7f"
    using sub by (simp add: instr_opcode_and)
qed (use and_mask_sub [OF assms] assms in \<open>simp_all add: instr_fields_and\<close>)

lemma funct12_neqI: "instr_funct7 w \<noteq> drop_bit 5 c \<Longrightarrow> instr_funct12 w \<noteq> c"
  by (auto simp: instr_fields_and drop_bit_and)


lemmas encodes_unfold = encodes_def MASK_for_def ENCODING_for_def MASK_def ENCODING_def

lemmas decode_unfold = decode_normal_def decode_group_defs decode_OP_ADDI_def
  MATCH_AND_RETURN_INSTR_def MATCH_AND_RETURN_INSTR2_def MASK_def ENCODING_def

lemma decode_zifencei_complete: "encodes arch (ZIFENCEI x) w \<Longrightarrow> decode_normal arch w = ZIFENCEI x"
  unfolding encodes_unfold by (cases x; simp; erule masked_fieldsE; simp add: decode_unfold)

lemma decode_zicsr_complete: "encodes arch (ZICSR x) w \<Longrightarrow> decode_normal arch w = ZICSR x"
  unfolding encodes_unfold by (cases x; simp; erule masked_fieldsE; simp add: decode_unfold)

lemma decode_rv32m_complete: "encodes arch (RV32M x) w \<Longrightarrow> decode_normal arch w = RV32M x"
  unfolding encodes_unfold by (cases x; simp; erule masked_fieldsE; simp add: decode_unfold)

lemma decode_rv32a_complete: "encodes arch (RV32A x) w \<Longrightarrow> decode_normal arch w = RV32A x"
  unfolding encodes_unfold by (cases x; simp; erule masked_fieldsE; simp add: decode_unfold)

lemma decode_rv64i_complete: "encodes arch (RV64I x) w \<Longrightarrow> decode_normal arch w = RV64I x"
  unfolding encodes_unfold by (cases x; simp; erule masked_fieldsE; simp add: decode_unfold)

lemma decode_rv64m_complete: "encodes arch (RV64M x) w \<Longrightarrow> decode_normal arch w = RV64M x"
  unfolding encodes_unfold by (cases x; simp; erule masked_fieldsE; simp add: decode_unfold)

lemma decode_rv64a_complete: "encodes arch (RV64A x) w \<Longrightarrow> decode_normal arch w = RV64A x"
  unfolding encodes_unfold by (cases x; simp; erule masked_fieldsE; simp add: decode_unfold)

lemma decode_rv32f_complete: "encodes arch (RV32F x) w \<Longrightarrow> decode_normal arch w = RV32F x"
  unfolding encodes_unfold by (cases x; simp; erule masked_fieldsE; simp add: decode_unfold)

lemma decode_rv64f_complete: "encodes arch (RV64F x) w \<Longrightarrow> decode_normal arch w = RV64F x"
  unfolding encodes_unfold by (cases x; simp; erule masked_fieldsE; simp add: decode_unfold)

lemma decode_rv32d_complete: "encodes arch (RV32D x) w \<Longrightarrow> decode_normal arch w = RV32D x"
  unfolding encodes_unfold by (cases x; simp; erule masked_fieldsE; simp add: decode_unfold)

lemma decode_rv64d_complete: "encodes arch (RV64D x) w \<Longrightarrow> decode_normal arch w = RV64D x"
  unfolding encodes_unfold by (cases x; simp; erule masked_fieldsE; simp add: decode_unfold)

lemma decode_rvpriv_complete: "encodes arch (PRIV x) w \<Longrightarrow> decode_normal arch w = PRIV x"
  unfolding encodes_unfold
  by (cases x; simp; erule masked_fieldsE; simp add: decode_unfold funct12_neqI)

lemma decode_rv32i_complete: "encodes arch (RV32I x) w \<Longrightarrow> decode_normal arch w = RV32I x"
  unfolding encodes_unfold
  by (cases x; cases "arch = RV32"; simp; erule masked_fieldsE; simp add: decode_unfold)

lemmas decode_complete = decode_rv32i_complete decode_zifencei_complete decode_zicsr_complete
  decode_rv32m_complete decode_rv32a_complete decode_rv64i_complete decode_rv64m_complete
  decode_rv64a_complete decode_rv32f_complete decode_rv64f_complete decode_rv32d_complete
  decode_rv64d_complete decode_rvpriv_complete

lemma decode_normal_complete: "m \<noteq> UNDEF \<Longrightarrow> encodes arch m w \<Longrightarrow> decode_normal arch w = m"
  by (cases m) (auto dest: decode_complete)

lemma decode_normal_eq_iff:
  "m \<noteq> UNDEF \<Longrightarrow> decode_normal arch w = m \<longleftrightarrow> encodes arch m w"
  using decode_normal_sound [of arch w] decode_normal_complete by (auto simp: match_sound_def)

text \<open>
  Consequences: encodings of different instructions never overlap, and a word decodes to
  \<open>UNDEF\<close> exactly when it encodes nothing.
\<close>

lemma encodes_unique:
  "m \<noteq> UNDEF \<Longrightarrow> m' \<noteq> UNDEF \<Longrightarrow> encodes arch m w \<Longrightarrow> encodes arch m' w \<Longrightarrow> m = m'"
  by (metis decode_normal_eq_iff)

lemma decode_normal_UNDEF_iff:
  "decode_normal arch w = UNDEF \<longleftrightarrow> (\<forall>m. encodes arch m w \<longrightarrow> m = UNDEF)"
  by (metis decode_normal_eq_iff)

section \<open>Properties\<close>

text \<open>
  C1. The switch tree of \<open>decode_normal\<close> decides the instruction table: a word decodes to an
  instruction exactly when the bits selected by its mask are its encoding.
\<close>

theorem decode_normal_correct:
  "m \<noteq> UNDEF \<Longrightarrow>
     decode_normal arch w = m \<longleftrightarrow> w AND MASK_for arch m = ENCODING_for arch m"
  using decode_normal_eq_iff by (simp add: encodes_def)

theorem decode_normal_correct_witness: "decode_normal RV32 0x00b50533 = RV32I ADD"
  using decode_normal_correct [of "RV32I ADD" RV32 "0x00b50533"]
  by (simp add: MASK_for_def ENCODING_for_def MASK_def ENCODING_def)

end
