(* ===== verification/Compressed.thy ===== *)
theory Compressed
  imports Decoder
begin

text \<open>
  The compressed (16-bit) instructions of \<open>vp/src/core/common/instr.cpp\<close>: the immediate
  extractors, \<open>InstructionFactory\<close>, \<open>decode_compressed\<close>, \<open>expand_compressed\<close> and
  \<open>Instruction::decode_and_expand_compressed\<close>. The C++ functions update the instruction object
  in place; here they return the operation together with the new instruction word. The theorems
  say that every factory function writes an encoding of the instruction it is named after and
  that the expanded word has the operands of the compressed one.
\<close>

unbundle bit_operations_syntax

datatype Compressed_Opcode =
    C_Illegal | C_Reserved | C_ADDI4SPN | C_FLD | C_LQ | C_LW | C_FLW | C_LD | C_FSD | C_SQ
  | C_SW | C_FSW | C_SD | C_NOP | C_ADDI | C_JAL | C_ADDIW | C_LI | C_ADDI16SP | C_LUI
  | C_SRLI | C_SRAI | C_ANDI | C_SUB | C_XOR | C_OR | C_AND | C_SUBW | C_ADDW | C_J | C_BEQZ
  | C_BNEZ | C_SLLI | C_FLDSP | C_LQSP | C_LWSP | C_FLWSP | C_LDSP | C_JR | C_MV | C_EBREAK
  | C_JALR | C_ADD | C_FSDSP | C_SQSP | C_SWSP | C_FSWSP | C_SDSP

section \<open>Immediates\<close>

definition C_ADDI4SPN_NZUIMM :: "u32 \<Rightarrow> u32" where
  "C_ADDI4SPN_NZUIMM n =
     (push_bit 4 (BIT_SLICE_U n 12 11)) OR (push_bit 6 (BIT_SLICE_U n 10 7)) OR
     (push_bit 2 (BIT_SINGLE_P1_U n 6)) OR (push_bit 3 (BIT_SINGLE_P1_U n 5))"

definition C_LW_UIMM :: "u32 \<Rightarrow> u32" where
  "C_LW_UIMM n =
     (push_bit 3 (BIT_SLICE_U n 12 10)) OR (push_bit 2 (BIT_SINGLE_P1_U n 6)) OR
     (push_bit 6 (BIT_SINGLE_P1_U n 5))"

definition C_LD_UIMM :: "u32 \<Rightarrow> u32" where
  "C_LD_UIMM n =
     (push_bit 3 (BIT_SLICE_U n 12 10)) OR (push_bit 6 (BIT_SLICE_U n 6 5))"

definition C_SW_UIMM :: "u32 \<Rightarrow> u32" where
  "C_SW_UIMM n =
     C_LW_UIMM n"

definition C_SD_UIMM :: "u32 \<Rightarrow> u32" where
  "C_SD_UIMM n =
     C_LD_UIMM n"

definition C_JAL_IMM :: "u32 \<Rightarrow> u32" where
  "C_JAL_IMM n =
     EXTRACT_SIGN_BIT n 12 11 OR BIT_SINGLE_PN n 11 4 OR
     (push_bit 8 (BIT_SLICE n 10 9)) OR BIT_SINGLE_PN n 8 10 OR BIT_SINGLE_PN n 7 6 OR
     BIT_SINGLE_PN n 6 7 OR (push_bit 1 (BIT_SLICE n 5 3)) OR BIT_SINGLE_PN n 2 5"

definition C_ADDI16SP_NZIMM :: "u32 \<Rightarrow> u32" where
  "C_ADDI16SP_NZIMM n =
     EXTRACT_SIGN_BIT n 12 9 OR BIT_SINGLE_PN n 6 4 OR BIT_SINGLE_PN n 5 6 OR
     (push_bit 7 (BIT_SLICE n 4 3)) OR BIT_SINGLE_PN n 2 5"

definition C_LUI_NZIMM :: "u32 \<Rightarrow> u32" where
  "C_LUI_NZIMM n =
     EXTRACT_SIGN_BIT n 12 17 OR (push_bit 12 (BIT_SLICE n 6 2))"

definition C_J_IMM :: "u32 \<Rightarrow> u32" where
  "C_J_IMM n =
     C_JAL_IMM n"

definition C_BRANCH_IMM :: "u32 \<Rightarrow> u32" where
  "C_BRANCH_IMM n =
     EXTRACT_SIGN_BIT n 12 8 OR (push_bit 3 (BIT_SLICE n 11 10)) OR
     (push_bit 6 (BIT_SLICE n 6 5)) OR (push_bit 1 (BIT_SLICE n 4 3)) OR
     BIT_SINGLE_PN n 2 5"

definition C_LWSP_UIMM :: "u32 \<Rightarrow> u32" where
  "C_LWSP_UIMM n =
     BIT_SINGLE_PN_U n 12 5 OR (push_bit 2 (BIT_SLICE_U n 6 4)) OR
     (push_bit 6 (BIT_SLICE_U n 3 2))"

definition C_SWSP_UIMM :: "u32 \<Rightarrow> u32" where
  "C_SWSP_UIMM n =
     (push_bit 2 (BIT_SLICE_U n 12 9)) OR (push_bit 6 (BIT_SLICE_U n 8 7))"

definition C_LDSP_UIMM :: "u32 \<Rightarrow> u32" where
  "C_LDSP_UIMM n =
     BIT_SINGLE_PN_U n 12 5 OR (push_bit 3 (BIT_SLICE_U n 6 5)) OR
     (push_bit 6 (BIT_SLICE_U n 4 2))"

definition C_SDSP_UIMM :: "u32 \<Rightarrow> u32" where
  "C_SDSP_UIMM n =
     (push_bit 3 (BIT_SLICE_U n 12 10)) OR (push_bit 6 (BIT_SLICE_U n 9 7))"

lemmas [bitblast] = C_ADDI4SPN_NZUIMM_def C_LW_UIMM_def C_LD_UIMM_def C_SW_UIMM_def
  C_SD_UIMM_def C_JAL_IMM_def C_ADDI16SP_NZIMM_def C_LUI_NZIMM_def
  C_J_IMM_def C_BRANCH_IMM_def C_LWSP_UIMM_def C_SWSP_UIMM_def
  C_LDSP_UIMM_def C_SDSP_UIMM_def

section \<open>\<open>InstructionFactory\<close>\<close>

definition InstructionFactory_ADD :: "u32 \<Rightarrow> u32 \<Rightarrow> u32 \<Rightarrow> u32" where
  "InstructionFactory_ADD rd rs1 rs2 =
     (push_bit 7 (rd AND 0x1f)) OR (push_bit 15 (rs1 AND 0x1f)) OR
     (push_bit 20 (rs2 AND 0x1f)) OR 51 OR (push_bit 12 0) OR (push_bit 25 0)"

definition InstructionFactory_AND :: "u32 \<Rightarrow> u32 \<Rightarrow> u32 \<Rightarrow> u32" where
  "InstructionFactory_AND rd rs1 rs2 =
     (push_bit 7 (rd AND 0x1f)) OR (push_bit 15 (rs1 AND 0x1f)) OR
     (push_bit 20 (rs2 AND 0x1f)) OR 51 OR (push_bit 12 7) OR (push_bit 25 0)"

definition InstructionFactory_OR :: "u32 \<Rightarrow> u32 \<Rightarrow> u32 \<Rightarrow> u32" where
  "InstructionFactory_OR rd rs1 rs2 =
     (push_bit 7 (rd AND 0x1f)) OR (push_bit 15 (rs1 AND 0x1f)) OR
     (push_bit 20 (rs2 AND 0x1f)) OR 51 OR (push_bit 12 6) OR (push_bit 25 0)"

definition InstructionFactory_XOR :: "u32 \<Rightarrow> u32 \<Rightarrow> u32 \<Rightarrow> u32" where
  "InstructionFactory_XOR rd rs1 rs2 =
     (push_bit 7 (rd AND 0x1f)) OR (push_bit 15 (rs1 AND 0x1f)) OR
     (push_bit 20 (rs2 AND 0x1f)) OR 51 OR (push_bit 12 4) OR (push_bit 25 0)"

definition InstructionFactory_SUB :: "u32 \<Rightarrow> u32 \<Rightarrow> u32 \<Rightarrow> u32" where
  "InstructionFactory_SUB rd rs1 rs2 =
     (push_bit 7 (rd AND 0x1f)) OR (push_bit 15 (rs1 AND 0x1f)) OR
     (push_bit 20 (rs2 AND 0x1f)) OR 51 OR (push_bit 12 0) OR (push_bit 25 32)"

definition InstructionFactory_LW :: "u32 \<Rightarrow> u32 \<Rightarrow> u32 \<Rightarrow> u32" where
  "InstructionFactory_LW rd rs1 I_imm =
     (push_bit 20 (I_imm AND 4095)) OR (push_bit 7 (rd AND 0x1f)) OR
     (push_bit 15 (rs1 AND 0x1f)) OR 3 OR (push_bit 12 2)"

definition InstructionFactory_LD :: "u32 \<Rightarrow> u32 \<Rightarrow> u32 \<Rightarrow> u32" where
  "InstructionFactory_LD rd rs1 I_imm =
     (push_bit 20 (I_imm AND 4095)) OR (push_bit 7 (rd AND 0x1f)) OR
     (push_bit 15 (rs1 AND 0x1f)) OR 3 OR (push_bit 12 3)"

definition InstructionFactory_FLW :: "u32 \<Rightarrow> u32 \<Rightarrow> u32 \<Rightarrow> u32" where
  "InstructionFactory_FLW rd rs1 I_imm =
     (push_bit 20 (I_imm AND 4095)) OR (push_bit 7 (rd AND 0x1f)) OR
     (push_bit 15 (rs1 AND 0x1f)) OR 7 OR (push_bit 12 2)"

definition InstructionFactory_FLD :: "u32 \<Rightarrow> u32 \<Rightarrow> u32 \<Rightarrow> u32" where
  "InstructionFactory_FLD rd rs1 I_imm =
     (push_bit 20 (I_imm AND 4095)) OR (push_bit 7 (rd AND 0x1f)) OR
     (push_bit 15 (rs1 AND 0x1f)) OR 7 OR (push_bit 12 3)"

definition InstructionFactory_SW :: "u32 \<Rightarrow> u32 \<Rightarrow> u32 \<Rightarrow> u32" where
  "InstructionFactory_SW rs1 rs2 S_imm =
     ((push_bit 7 (S_imm AND 0b11111)) OR
     (push_bit 20 (S_imm AND (push_bit 5 0b1111111)))) OR
     (push_bit 15 (rs1 AND 0x1f)) OR (push_bit 20 (rs2 AND 0x1f)) OR 35 OR
     (push_bit 12 2)"

definition InstructionFactory_SD :: "u32 \<Rightarrow> u32 \<Rightarrow> u32 \<Rightarrow> u32" where
  "InstructionFactory_SD rs1 rs2 S_imm =
     ((push_bit 7 (S_imm AND 0b11111)) OR
     (push_bit 20 (S_imm AND (push_bit 5 0b1111111)))) OR
     (push_bit 15 (rs1 AND 0x1f)) OR (push_bit 20 (rs2 AND 0x1f)) OR 35 OR
     (push_bit 12 3)"

definition InstructionFactory_FSW :: "u32 \<Rightarrow> u32 \<Rightarrow> u32 \<Rightarrow> u32" where
  "InstructionFactory_FSW rs1 rs2 S_imm =
     ((push_bit 7 (S_imm AND 0b11111)) OR
     (push_bit 20 (S_imm AND (push_bit 5 0b1111111)))) OR
     (push_bit 15 (rs1 AND 0x1f)) OR (push_bit 20 (rs2 AND 0x1f)) OR 39 OR
     (push_bit 12 2)"

definition InstructionFactory_FSD :: "u32 \<Rightarrow> u32 \<Rightarrow> u32 \<Rightarrow> u32" where
  "InstructionFactory_FSD rs1 rs2 S_imm =
     ((push_bit 7 (S_imm AND 0b11111)) OR
     (push_bit 20 (S_imm AND (push_bit 5 0b1111111)))) OR
     (push_bit 15 (rs1 AND 0x1f)) OR (push_bit 20 (rs2 AND 0x1f)) OR 39 OR
     (push_bit 12 3)"

definition InstructionFactory_LUI :: "u32 \<Rightarrow> u32 \<Rightarrow> u32" where
  "InstructionFactory_LUI rd U_imm =
     (U_imm AND (push_bit 12 1048575)) OR (push_bit 7 (rd AND 0x1f)) OR 55"

definition InstructionFactory_ADDI :: "u32 \<Rightarrow> u32 \<Rightarrow> u32 \<Rightarrow> u32" where
  "InstructionFactory_ADDI rd rs1 I_imm =
     (push_bit 20 (I_imm AND 4095)) OR (push_bit 7 (rd AND 0x1f)) OR
     (push_bit 15 (rs1 AND 0x1f)) OR 19 OR (push_bit 12 0)"

definition InstructionFactory_ANDI :: "u32 \<Rightarrow> u32 \<Rightarrow> u32 \<Rightarrow> u32" where
  "InstructionFactory_ANDI rd rs1 I_imm =
     (push_bit 20 (I_imm AND 4095)) OR (push_bit 7 (rd AND 0x1f)) OR
     (push_bit 15 (rs1 AND 0x1f)) OR 19 OR (push_bit 12 7)"

definition InstructionFactory_SRLI :: "u32 \<Rightarrow> u32 \<Rightarrow> u32 \<Rightarrow> u32" where
  "InstructionFactory_SRLI rd rs1 shamt =
     (push_bit 7 (rd AND 0x1f)) OR (push_bit 15 (rs1 AND 0x1f)) OR
     (push_bit 20 (shamt AND 63)) OR 19 OR (push_bit 12 5) OR (push_bit 25 0)"

definition InstructionFactory_SRAI :: "u32 \<Rightarrow> u32 \<Rightarrow> u32 \<Rightarrow> u32" where
  "InstructionFactory_SRAI rd rs1 shamt =
     (push_bit 7 (rd AND 0x1f)) OR (push_bit 15 (rs1 AND 0x1f)) OR
     (push_bit 20 (shamt AND 63)) OR 19 OR (push_bit 12 5) OR (push_bit 25 32)"

definition InstructionFactory_SLLI :: "u32 \<Rightarrow> u32 \<Rightarrow> u32 \<Rightarrow> u32" where
  "InstructionFactory_SLLI rd rs1 shamt =
     (push_bit 7 (rd AND 0x1f)) OR (push_bit 15 (rs1 AND 0x1f)) OR
     (push_bit 20 (shamt AND 63)) OR 19 OR (push_bit 12 1) OR (push_bit 25 0)"

definition InstructionFactory_JAL :: "u32 \<Rightarrow> u32 \<Rightarrow> u32" where
  "InstructionFactory_JAL rd J_imm =
     111 OR (push_bit 7 (rd AND 0x1f)) OR ((J_imm AND (push_bit 12 0b11111111)) OR
     (push_bit 9 (J_imm AND (push_bit 11 1))) OR
     (push_bit 20 (J_imm AND 0b11111111110)) OR
     (push_bit 11 (J_imm AND (push_bit 20 1))))"

definition InstructionFactory_JALR :: "u32 \<Rightarrow> u32 \<Rightarrow> u32 \<Rightarrow> u32" where
  "InstructionFactory_JALR rd rs1 I_imm =
     (push_bit 20 (I_imm AND 4095)) OR (push_bit 7 (rd AND 0x1f)) OR
     (push_bit 15 (rs1 AND 0x1f)) OR 103 OR (push_bit 12 0)"

definition InstructionFactory_BEQ :: "u32 \<Rightarrow> u32 \<Rightarrow> u32 \<Rightarrow> u32" where
  "InstructionFactory_BEQ rs1 rs2 B_imm =
     (((push_bit 7 (B_imm AND 0b11110)) OR
     (signed_drop_bit 4 (B_imm AND (push_bit 11 1)))) OR
     ((push_bit 20 (B_imm AND (push_bit 5 0b111111))) OR
     (push_bit 19 (B_imm AND (push_bit 12 1))))) OR (push_bit 15 (rs1 AND 0x1f)) OR
     (push_bit 20 (rs2 AND 0x1f)) OR 99 OR (push_bit 12 0)"

definition InstructionFactory_BNE :: "u32 \<Rightarrow> u32 \<Rightarrow> u32 \<Rightarrow> u32" where
  "InstructionFactory_BNE rs1 rs2 B_imm =
     (((push_bit 7 (B_imm AND 0b11110)) OR
     (signed_drop_bit 4 (B_imm AND (push_bit 11 1)))) OR
     ((push_bit 20 (B_imm AND (push_bit 5 0b111111))) OR
     (push_bit 19 (B_imm AND (push_bit 12 1))))) OR (push_bit 15 (rs1 AND 0x1f)) OR
     (push_bit 20 (rs2 AND 0x1f)) OR 99 OR (push_bit 12 1)"

definition InstructionFactory_EBREAK :: "u32" where
  "InstructionFactory_EBREAK =
     1048691"

definition InstructionFactory_ADDIW :: "u32 \<Rightarrow> u32 \<Rightarrow> u32 \<Rightarrow> u32" where
  "InstructionFactory_ADDIW rd rs1 I_imm =
     (push_bit 20 (I_imm AND 4095)) OR (push_bit 7 (rd AND 0x1f)) OR
     (push_bit 15 (rs1 AND 0x1f)) OR 0x1b"

definition InstructionFactory_ADDW :: "u32 \<Rightarrow> u32 \<Rightarrow> u32 \<Rightarrow> u32" where
  "InstructionFactory_ADDW rd rs1 rs2 =
     (push_bit 7 (rd AND 0x1f)) OR (push_bit 15 (rs1 AND 0x1f)) OR
     (push_bit 20 (rs2 AND 0x1f)) OR 0x3b"

definition InstructionFactory_SUBW :: "u32 \<Rightarrow> u32 \<Rightarrow> u32 \<Rightarrow> u32" where
  "InstructionFactory_SUBW rd rs1 rs2 =
     (push_bit 7 (rd AND 0x1f)) OR (push_bit 15 (rs1 AND 0x1f)) OR
     (push_bit 20 (rs2 AND 0x1f)) OR 0x3b OR 0x40000000"

lemmas factory_defs =
  InstructionFactory_ADD_def InstructionFactory_AND_def InstructionFactory_OR_def
  InstructionFactory_XOR_def InstructionFactory_SUB_def InstructionFactory_LW_def
  InstructionFactory_LD_def InstructionFactory_FLW_def InstructionFactory_FLD_def
  InstructionFactory_SW_def InstructionFactory_SD_def InstructionFactory_FSW_def
  InstructionFactory_FSD_def InstructionFactory_LUI_def InstructionFactory_ADDI_def
  InstructionFactory_ANDI_def InstructionFactory_SRLI_def InstructionFactory_SRAI_def
  InstructionFactory_SLLI_def InstructionFactory_JAL_def InstructionFactory_JALR_def
  InstructionFactory_BEQ_def InstructionFactory_BNE_def InstructionFactory_EBREAK_def
  InstructionFactory_ADDIW_def InstructionFactory_ADDW_def InstructionFactory_SUBW_def

section \<open>Decoding and expansion\<close>

text \<open>An uncompressed word makes \<open>decode_compressed\<close> throw.\<close>

definition decode_compressed_q0 :: "Architecture \<Rightarrow> u32 \<Rightarrow> Compressed_Opcode" where
  "decode_compressed_q0 arch instr = (
     if instr_c_opcode instr = 0b000 then
       (if instr_c_format instr = 0 then C_Illegal else C_ADDI4SPN)
     else if instr_c_opcode instr = 0b001 then C_FLD
     else if instr_c_opcode instr = 0b010 then C_LW
     else if instr_c_opcode instr = 0b011 then (if arch = RV32 then C_FLW else C_LD)
     else if instr_c_opcode instr = 0b100 then C_Reserved
     else if instr_c_opcode instr = 0b101 then C_FSD
     else if instr_c_opcode instr = 0b110 then C_SW
     else if instr_c_opcode instr = 0b111 then (if arch = RV32 then C_FSW else C_SD)
     else C_Illegal)"

definition decode_compressed_q1 :: "Architecture \<Rightarrow> u32 \<Rightarrow> Compressed_Opcode" where
  "decode_compressed_q1 arch instr = (
     if instr_c_opcode instr = 0b000 then (if instr_c_format instr = 1 then C_NOP else C_ADDI)
     else if instr_c_opcode instr = 0b001 then (if arch = RV32 then C_JAL else C_ADDIW)
     else if instr_c_opcode instr = 0b010 then C_LI
     else if instr_c_opcode instr = 0b011 then
       (if instr_c_rd instr = 2 then C_ADDI16SP else C_LUI)
     else if instr_c_opcode instr = 0b100 then
       (if instr_c_f2_high instr = 0b00 then C_SRLI
        else if instr_c_f2_high instr = 0b01 then C_SRAI
        else if instr_c_f2_high instr = 0b10 then C_ANDI
        else if instr_c_f2_high instr = 0b11 then
          (if instr_c_b12 instr \<noteq> 0 then
             (if instr_c_f2_low instr = 0b00 then C_SUBW
              else if instr_c_f2_low instr = 0b01 then C_ADDW
              else C_Reserved)
           else if instr_c_f2_low instr = 0b00 then C_SUB
           else if instr_c_f2_low instr = 0b01 then C_XOR
           else if instr_c_f2_low instr = 0b10 then C_OR
           else if instr_c_f2_low instr = 0b11 then C_AND
           else C_Illegal)
        else C_Illegal)
     else if instr_c_opcode instr = 0b101 then C_J
     else if instr_c_opcode instr = 0b110 then C_BEQZ
     else if instr_c_opcode instr = 0b111 then C_BNEZ
     else C_Illegal)"

definition decode_compressed_q2 :: "Architecture \<Rightarrow> u32 \<Rightarrow> Compressed_Opcode" where
  "decode_compressed_q2 arch instr = (
     if instr_c_opcode instr = 0b000 then C_SLLI
     else if instr_c_opcode instr = 0b001 then C_FLDSP
     else if instr_c_opcode instr = 0b010 then C_LWSP
     else if instr_c_opcode instr = 0b011 then (if arch = RV32 then C_FLWSP else C_LDSP)
     else if instr_c_opcode instr = 0b100 then
       (if instr_c_b12 instr \<noteq> 0 then
          (if instr_c_rd instr \<noteq> 0 then (if instr_c_rs2 instr \<noteq> 0 then C_ADD else C_JALR)
           else C_EBREAK)
        else if instr_c_rs2 instr \<noteq> 0 then C_MV
        else C_JR)
     else if instr_c_opcode instr = 0b101 then C_FSDSP
     else if instr_c_opcode instr = 0b110 then C_SWSP
     else if instr_c_opcode instr = 0b111 then (if arch = RV32 then C_FSWSP else C_SDSP)
     else C_Illegal)"

definition decode_compressed :: "u32 \<Rightarrow> Architecture \<Rightarrow> sim_error + Compressed_Opcode" where
  "decode_compressed instr arch = (
     if instr_quadrant instr = 0 then Inr (decode_compressed_q0 arch instr)
     else if instr_quadrant instr = 1 then Inr (decode_compressed_q1 arch instr)
     else if instr_quadrant instr = 2 then Inr (decode_compressed_q2 arch instr)
     else if instr_quadrant instr = 3 then Inl RuntimeError
     else Inr C_Illegal)"

text \<open>
  All opcodes have a case, so the final \<open>throw\<close> of \<open>expand_compressed\<close> is not reachable.
\<close>

definition expand_compressed ::
    "u32 \<Rightarrow> Compressed_Opcode \<Rightarrow> Architecture \<Rightarrow> Mapping \<times> u32" where
  "expand_compressed instr op arch = (case op of
     C_Illegal \<Rightarrow> (UNDEF, instr)
   | C_LQ \<Rightarrow> (UNDEF, instr)
   | C_LQSP \<Rightarrow> (UNDEF, instr)
   | C_SQ \<Rightarrow> (UNDEF, instr)
   | C_SQSP \<Rightarrow> (UNDEF, instr)
   | C_Reserved \<Rightarrow> (UNDEF, instr)
   | C_NOP \<Rightarrow> (RV32I ADD, InstructionFactory_ADD 0 0 0)
   | C_ADD \<Rightarrow>
       (RV32I ADD, InstructionFactory_ADD (instr_c_rd instr) (instr_c_rd instr) (instr_c_rs2 instr))
   | C_MV \<Rightarrow>
       (RV32I ADD, InstructionFactory_ADD (instr_c_rd instr) 0 (instr_c_rs2 instr))
   | C_AND \<Rightarrow>
       (RV32I AND_op, InstructionFactory_AND (instr_c_rd_small instr) (instr_c_rd_small instr) (instr_c_rs2_small instr))
   | C_OR \<Rightarrow>
       (RV32I OR_op, InstructionFactory_OR (instr_c_rd_small instr) (instr_c_rd_small instr) (instr_c_rs2_small instr))
   | C_XOR \<Rightarrow>
       (RV32I XOR_op, InstructionFactory_XOR (instr_c_rd_small instr) (instr_c_rd_small instr) (instr_c_rs2_small instr))
   | C_SUB \<Rightarrow>
       (RV32I SUB, InstructionFactory_SUB (instr_c_rd_small instr) (instr_c_rd_small instr) (instr_c_rs2_small instr))
   | C_ADDW \<Rightarrow>
       (RV64I ADDW, InstructionFactory_ADDW (instr_c_rd_small instr) (instr_c_rd_small instr) (instr_c_rs2_small instr))
   | C_SUBW \<Rightarrow>
       (RV64I SUBW, InstructionFactory_SUBW (instr_c_rd_small instr) (instr_c_rd_small instr) (instr_c_rs2_small instr))
   | C_LW \<Rightarrow>
       (RV32I LW, InstructionFactory_LW (instr_c_rs2_small instr) (instr_c_rd_small instr) (C_LW_UIMM instr))
   | C_LD \<Rightarrow>
       (RV64I LD, InstructionFactory_LD (instr_c_rs2_small instr) (instr_c_rd_small instr) (C_LD_UIMM instr))
   | C_FLW \<Rightarrow>
       (RV32F FLW, InstructionFactory_FLW (instr_c_rs2_small instr) (instr_c_rd_small instr) (C_LW_UIMM instr))
   | C_FLD \<Rightarrow>
       (RV32D FLD, InstructionFactory_FLD (instr_c_rs2_small instr) (instr_c_rd_small instr) (C_LD_UIMM instr))
   | C_SW \<Rightarrow>
       (RV32I SW, InstructionFactory_SW (instr_c_rd_small instr) (instr_c_rs2_small instr) (C_SW_UIMM instr))
   | C_SD \<Rightarrow>
       (RV64I SD, InstructionFactory_SD (instr_c_rd_small instr) (instr_c_rs2_small instr) (C_SD_UIMM instr))
   | C_FSW \<Rightarrow>
       (RV32F FSW, InstructionFactory_FSW (instr_c_rd_small instr) (instr_c_rs2_small instr) (C_SW_UIMM instr))
   | C_FSD \<Rightarrow>
       (RV32D FSD, InstructionFactory_FSD (instr_c_rd_small instr) (instr_c_rs2_small instr) (C_SD_UIMM instr))
   | C_ADDI4SPN \<Rightarrow> (let n = C_ADDI4SPN_NZUIMM instr in
       if n = 0 then (UNDEF, instr)
       else (RV32I ADDI, InstructionFactory_ADDI (instr_c_rs2_small instr) 2 n))
   | C_ADDI \<Rightarrow>
       (RV32I ADDI, InstructionFactory_ADDI (instr_c_rd instr) (instr_c_rd instr) (instr_c_imm instr))
   | C_JAL \<Rightarrow> (RV32I JAL, InstructionFactory_JAL 1 (C_JAL_IMM instr))
   | C_ADDIW \<Rightarrow> (if instr_c_rd instr = 0 then (UNDEF, instr)
       else (RV64I ADDIW, InstructionFactory_ADDI (instr_c_rd instr) (instr_c_rd instr) (instr_c_imm instr)))
   | C_LI \<Rightarrow>
       (RV32I ADDI, InstructionFactory_ADDI (instr_c_rd instr) 0 (instr_c_imm instr))
   | C_ADDI16SP \<Rightarrow> (let n = C_ADDI16SP_NZIMM instr in
       if n = 0 then (UNDEF, instr)
       else (RV32I ADDI, InstructionFactory_ADDI 2 2 n))
   | C_LUI \<Rightarrow> (let n = C_LUI_NZIMM instr in
       if n = 0 then (UNDEF, instr)
       else (RV32I LUI, InstructionFactory_LUI (instr_c_rd instr) n))
   | C_SLLI \<Rightarrow> (let n = instr_c_uimm instr in
       if arch = RV32 \<and> 31 < n then (UNDEF, instr)
       else (RV32I SLLI, InstructionFactory_SLLI (instr_c_rd instr) (instr_c_rd instr) n))
   | C_SRLI \<Rightarrow> (let n = instr_c_uimm instr in
       if arch = RV32 \<and> 31 < n then (UNDEF, instr)
       else (RV32I SRLI, InstructionFactory_SRLI (instr_c_rd_small instr) (instr_c_rd_small instr) n))
   | C_SRAI \<Rightarrow> (let n = instr_c_uimm instr in
       if arch = RV32 \<and> 31 < n then (UNDEF, instr)
       else (RV32I SRAI, InstructionFactory_SRAI (instr_c_rd_small instr) (instr_c_rd_small instr) n))
   | C_ANDI \<Rightarrow>
       (RV32I ANDI, InstructionFactory_ANDI (instr_c_rd_small instr) (instr_c_rd_small instr) (instr_c_imm instr))
   | C_J \<Rightarrow> (RV32I JAL, InstructionFactory_JAL 0 (C_J_IMM instr))
   | C_BEQZ \<Rightarrow>
       (RV32I BEQ, InstructionFactory_BEQ (instr_c_rd_small instr) 0 (C_BRANCH_IMM instr))
   | C_BNEZ \<Rightarrow>
       (RV32I BNE, InstructionFactory_BNE (instr_c_rd_small instr) 0 (C_BRANCH_IMM instr))
   | C_LWSP \<Rightarrow> (if instr_c_rd instr = 0 then (UNDEF, instr)
       else (RV32I LW, InstructionFactory_LW (instr_c_rd instr) 2 (C_LWSP_UIMM instr)))
   | C_LDSP \<Rightarrow> (if instr_c_rd instr = 0 then (UNDEF, instr)
       else (RV64I LD, InstructionFactory_LD (instr_c_rd instr) 2 (C_LDSP_UIMM instr)))
   | C_FLWSP \<Rightarrow>
       (RV32F FLW, InstructionFactory_FLW (instr_c_rd instr) 2 (C_LWSP_UIMM instr))
   | C_FLDSP \<Rightarrow>
       (RV32D FLD, InstructionFactory_FLD (instr_c_rd instr) 2 (C_LDSP_UIMM instr))
   | C_SWSP \<Rightarrow>
       (RV32I SW, InstructionFactory_SW 2 (instr_c_rs2 instr) (C_SWSP_UIMM instr))
   | C_SDSP \<Rightarrow>
       (RV64I SD, InstructionFactory_SD 2 (instr_c_rs2 instr) (C_SDSP_UIMM instr))
   | C_FSWSP \<Rightarrow>
       (RV32F FSW, InstructionFactory_FSW 2 (instr_c_rs2 instr) (C_SWSP_UIMM instr))
   | C_FSDSP \<Rightarrow>
       (RV32D FSD, InstructionFactory_FSD 2 (instr_c_rs2 instr) (C_SDSP_UIMM instr))
   | C_EBREAK \<Rightarrow> (RV32I EBREAK, InstructionFactory_EBREAK)
   | C_JR \<Rightarrow> (if instr_c_rd instr = 0 then (UNDEF, instr)
       else (RV32I JALR, InstructionFactory_JALR 0 (instr_c_rd instr) 0))
   | C_JALR \<Rightarrow> (RV32I JALR, InstructionFactory_JALR 1 (instr_c_rd instr) 0))"

definition decode_and_expand_compressed :: "Architecture \<Rightarrow> u32 \<Rightarrow> sim_error + Mapping \<times> u32" where
  "decode_and_expand_compressed arch instr = (case decode_compressed instr arch of
     Inl err \<Rightarrow> Inl err
   | Inr c_op \<Rightarrow> Inr (expand_compressed instr c_op arch))"

section \<open>The factory writes encodings\<close>

lemmas enc_simps = encodes_unfold factory_defs

lemma factory_encodes_R:
  "encodes arch (RV32I ADD) (InstructionFactory_ADD rd rs1 rs2)"
  "encodes arch (RV32I AND_op) (InstructionFactory_AND rd rs1 rs2)"
  "encodes arch (RV32I OR_op) (InstructionFactory_OR rd rs1 rs2)"
  "encodes arch (RV32I XOR_op) (InstructionFactory_XOR rd rs1 rs2)"
  "encodes arch (RV32I SUB) (InstructionFactory_SUB rd rs1 rs2)"
  "encodes arch (RV64I ADDW) (InstructionFactory_ADDW rd rs1 rs2)"
  "encodes arch (RV64I SUBW) (InstructionFactory_SUBW rd rs1 rs2)"
  unfolding enc_simps by ((simp, rule u32_eqI; simp add: bit_simps)+)

lemma factory_encodes_I:
  "encodes arch (RV32I LW) (InstructionFactory_LW rd rs1 I_imm)"
  "encodes arch (RV64I LD) (InstructionFactory_LD rd rs1 I_imm)"
  "encodes arch (RV32F FLW) (InstructionFactory_FLW rd rs1 I_imm)"
  "encodes arch (RV32D FLD) (InstructionFactory_FLD rd rs1 I_imm)"
  "encodes arch (RV32I ADDI) (InstructionFactory_ADDI rd rs1 I_imm)"
  "encodes arch (RV32I ANDI) (InstructionFactory_ANDI rd rs1 I_imm)"
  "encodes arch (RV32I JALR) (InstructionFactory_JALR rd rs1 I_imm)"
  "encodes arch (RV64I ADDIW) (InstructionFactory_ADDIW rd rs1 I_imm)"
  unfolding enc_simps by ((simp, rule u32_eqI; simp add: bit_simps)+)

lemma factory_encodes_S:
  "encodes arch (RV32I SW) (InstructionFactory_SW rs1 rs2 S_imm)"
  "encodes arch (RV64I SD) (InstructionFactory_SD rs1 rs2 S_imm)"
  "encodes arch (RV32F FSW) (InstructionFactory_FSW rs1 rs2 S_imm)"
  "encodes arch (RV32D FSD) (InstructionFactory_FSD rs1 rs2 S_imm)"
  unfolding enc_simps by ((simp, rule u32_eqI; simp add: bit_simps)+)

lemma factory_encodes_B:
  "encodes arch (RV32I BEQ) (InstructionFactory_BEQ rs1 rs2 B_imm)"
  "encodes arch (RV32I BNE) (InstructionFactory_BNE rs1 rs2 B_imm)"
  unfolding enc_simps by ((simp, rule u32_eqI; simp add: bit_simps)+)

lemma factory_encodes_UJ:
  "encodes arch (RV32I LUI) (InstructionFactory_LUI rd U_imm)"
  "encodes arch (RV32I JAL) (InstructionFactory_JAL rd J_imm)"
  unfolding enc_simps by ((simp, rule u32_eqI; simp add: bit_simps)+)

lemma factory_encodes_EBREAK: "encodes arch (RV32I EBREAK) InstructionFactory_EBREAK"
  by (simp add: enc_simps)

lemma factory_encodes_SLLI:
  "arch = RV32 \<longrightarrow> \<not> bit shamt 5 \<Longrightarrow> encodes arch (RV32I SLLI) (InstructionFactory_SLLI rd rs1 shamt)"
  unfolding enc_simps by (cases "arch = RV32"; simp; (rule u32_eqI; simp add: bit_simps))

lemma factory_encodes_SRLI:
  "arch = RV32 \<longrightarrow> \<not> bit shamt 5 \<Longrightarrow> encodes arch (RV32I SRLI) (InstructionFactory_SRLI rd rs1 shamt)"
  unfolding enc_simps by (cases "arch = RV32"; simp; (rule u32_eqI; simp add: bit_simps))

lemma factory_encodes_SRAI:
  "arch = RV32 \<longrightarrow> \<not> bit shamt 5 \<Longrightarrow> encodes arch (RV32I SRAI) (InstructionFactory_SRAI rd rs1 shamt)"
  unfolding enc_simps by (cases "arch = RV32"; simp; (rule u32_eqI; simp add: bit_simps))

lemmas factory_encodes = factory_encodes_R factory_encodes_I factory_encodes_S factory_encodes_B
  factory_encodes_UJ factory_encodes_EBREAK factory_encodes_SLLI factory_encodes_SRLI
  factory_encodes_SRAI

text \<open>
  So decoding a word written by the factory gives the instruction back.
\<close>

lemmas factory_decodes = factory_encodes [THEN decode_normal_complete [rotated]]

section \<open>Operands of an expanded instruction\<close>

datatype operands =
    Op_R u32 u32 u32
  | Op_I u32 u32 u32
  | Op_S u32 u32 u32
  | Op_B u32 u32 u32
  | Op_U u32 u32
  | Op_J u32 u32
  | Op_shift u32 u32 u32
  | Op_none

text \<open>How the instruction simulator reads the operands of an instruction of each format.\<close>

definition instr_operands :: "Mapping \<Rightarrow> u32 \<Rightarrow> operands" where
  "instr_operands m w = (
     if m \<in> {RV32I SLLI, RV32I SRLI, RV32I SRAI} then Op_shift (instr_rd w) (instr_rs1 w) (instr_shamt w)
     else case getType m of
       Type_R \<Rightarrow> Op_R (instr_rd w) (instr_rs1 w) (instr_rs2 w)
     | Type_I \<Rightarrow> Op_I (instr_rd w) (instr_rs1 w) (instr_I_imm w)
     | Type_S \<Rightarrow> Op_S (instr_rs1 w) (instr_rs2 w) (instr_S_imm w)
     | Type_B \<Rightarrow> Op_B (instr_rs1 w) (instr_rs2 w) (instr_B_imm w)
     | Type_U \<Rightarrow> Op_U (instr_rd w) (instr_U_imm w)
     | Type_J \<Rightarrow> Op_J (instr_rd w) (instr_J_imm w)
     | _ \<Rightarrow> Op_none)"

text \<open>
  The tables of the RISC-V C extension, written as in the manual: an immediate is given by the
  places its bits are taken from, and sign-extended from its top bit where it is signed.
\<close>

primrec scatter :: "(nat \<times> nat) list \<Rightarrow> u32 \<Rightarrow> u32" where
  "scatter [] w = 0"
| "scatter (b # bs) w = push_bit (snd b) (of_bool (bit w (fst b))) OR scatter bs w"

definition rvc_reg :: "nat \<Rightarrow> u32 \<Rightarrow> u32" where
  "rvc_reg lo w = drop_bit lo w AND 0x1f"

definition rvc_reg' :: "nat \<Rightarrow> u32 \<Rightarrow> u32" where
  "rvc_reg' lo w = (drop_bit lo w AND 0x7) OR 8"

definition rvc_imm :: "Compressed_Opcode \<Rightarrow> u32 \<Rightarrow> u32" where
  "rvc_imm op w = (
     if op = C_ADDI4SPN then
       scatter [(12,5),(11,4),(10,9),(9,8),(8,7),(7,6),(6,2),(5,3)] w
     else if op \<in> {C_LW, C_SW, C_FLW, C_FSW} then scatter [(12,5),(11,4),(10,3),(6,2),(5,6)] w
     else if op \<in> {C_LD, C_SD, C_FLD, C_FSD} then scatter [(12,5),(11,4),(10,3),(6,7),(5,6)] w
     else if op \<in> {C_ADDI, C_ADDIW, C_LI, C_ANDI} then
       signed_take_bit 5 (scatter [(12,5),(6,4),(5,3),(4,2),(3,1),(2,0)] w)
     else if op \<in> {C_SLLI, C_SRLI, C_SRAI} then scatter [(12,5),(6,4),(5,3),(4,2),(3,1),(2,0)] w
     else if op \<in> {C_JAL, C_J} then signed_take_bit 11
       (scatter [(12,11),(11,4),(10,9),(9,8),(8,10),(7,6),(6,7),(5,3),(4,2),(3,1),(2,5)] w)
     else if op = C_ADDI16SP then
       signed_take_bit 9 (scatter [(12,9),(6,4),(5,6),(4,8),(3,7),(2,5)] w)
     else if op = C_LUI then
       signed_take_bit 17 (scatter [(12,17),(6,16),(5,15),(4,14),(3,13),(2,12)] w)
     else if op \<in> {C_BEQZ, C_BNEZ} then
       signed_take_bit 8 (scatter [(12,8),(11,4),(10,3),(6,7),(5,6),(4,2),(3,1),(2,5)] w)
     else if op \<in> {C_LWSP, C_FLWSP} then scatter [(12,5),(6,4),(5,3),(4,2),(3,7),(2,6)] w
     else if op \<in> {C_LDSP, C_FLDSP} then scatter [(12,5),(6,4),(5,3),(4,8),(3,7),(2,6)] w
     else if op \<in> {C_SWSP, C_FSWSP} then scatter [(12,5),(11,4),(10,3),(9,2),(8,7),(7,6)] w
     else if op \<in> {C_SDSP, C_FSDSP} then scatter [(12,5),(11,4),(10,3),(9,8),(8,7),(7,6)] w
     else 0)"

definition rvc_operands :: "Compressed_Opcode \<Rightarrow> u32 \<Rightarrow> operands" where
  "rvc_operands op w = (
     if op = C_NOP then Op_R 0 0 0
     else if op = C_ADD then Op_R (rvc_reg 7 w) (rvc_reg 7 w) (rvc_reg 2 w)
     else if op = C_MV then Op_R (rvc_reg 7 w) 0 (rvc_reg 2 w)
     else if op \<in> {C_AND, C_OR, C_XOR, C_SUB, C_ADDW, C_SUBW} then
       Op_R (rvc_reg' 7 w) (rvc_reg' 7 w) (rvc_reg' 2 w)
     else if op \<in> {C_LW, C_LD, C_FLW, C_FLD} then Op_I (rvc_reg' 2 w) (rvc_reg' 7 w) (rvc_imm op w)
     else if op \<in> {C_SW, C_SD, C_FSW, C_FSD} then Op_S (rvc_reg' 7 w) (rvc_reg' 2 w) (rvc_imm op w)
     else if op = C_ADDI4SPN then Op_I (rvc_reg' 2 w) 2 (rvc_imm op w)
     else if op \<in> {C_ADDI, C_ADDIW} then Op_I (rvc_reg 7 w) (rvc_reg 7 w) (rvc_imm op w)
     else if op = C_LI then Op_I (rvc_reg 7 w) 0 (rvc_imm op w)
     else if op = C_ADDI16SP then Op_I 2 2 (rvc_imm op w)
     else if op = C_ANDI then Op_I (rvc_reg' 7 w) (rvc_reg' 7 w) (rvc_imm op w)
     else if op = C_LUI then Op_U (rvc_reg 7 w) (rvc_imm op w)
     else if op = C_SLLI then Op_shift (rvc_reg 7 w) (rvc_reg 7 w) (rvc_imm op w)
     else if op \<in> {C_SRLI, C_SRAI} then Op_shift (rvc_reg' 7 w) (rvc_reg' 7 w) (rvc_imm op w)
     else if op = C_JAL then Op_J 1 (rvc_imm op w)
     else if op = C_J then Op_J 0 (rvc_imm op w)
     else if op \<in> {C_BEQZ, C_BNEZ} then Op_B (rvc_reg' 7 w) 0 (rvc_imm op w)
     else if op \<in> {C_LWSP, C_LDSP, C_FLWSP, C_FLDSP} then Op_I (rvc_reg 7 w) 2 (rvc_imm op w)
     else if op \<in> {C_SWSP, C_SDSP, C_FSWSP, C_FSDSP} then Op_S 2 (rvc_reg 2 w) (rvc_imm op w)
     else if op = C_JR then Op_I 0 (rvc_reg 7 w) 0
     else if op = C_JALR then Op_I 1 (rvc_reg 7 w) 0
     else Op_none)"

text \<open>The fields of the words the factory writes.\<close>

lemma factory_fields_R:
  "instr_rd (InstructionFactory_ADD rd rs1 rs2) = rd AND 0x1f"
  "instr_rs1 (InstructionFactory_ADD rd rs1 rs2) = rs1 AND 0x1f"
  "instr_rs2 (InstructionFactory_ADD rd rs1 rs2) = rs2 AND 0x1f"
  "instr_rd (InstructionFactory_AND rd rs1 rs2) = rd AND 0x1f"
  "instr_rs1 (InstructionFactory_AND rd rs1 rs2) = rs1 AND 0x1f"
  "instr_rs2 (InstructionFactory_AND rd rs1 rs2) = rs2 AND 0x1f"
  "instr_rd (InstructionFactory_OR rd rs1 rs2) = rd AND 0x1f"
  "instr_rs1 (InstructionFactory_OR rd rs1 rs2) = rs1 AND 0x1f"
  "instr_rs2 (InstructionFactory_OR rd rs1 rs2) = rs2 AND 0x1f"
  "instr_rd (InstructionFactory_XOR rd rs1 rs2) = rd AND 0x1f"
  "instr_rs1 (InstructionFactory_XOR rd rs1 rs2) = rs1 AND 0x1f"
  "instr_rs2 (InstructionFactory_XOR rd rs1 rs2) = rs2 AND 0x1f"
  "instr_rd (InstructionFactory_SUB rd rs1 rs2) = rd AND 0x1f"
  "instr_rs1 (InstructionFactory_SUB rd rs1 rs2) = rs1 AND 0x1f"
  "instr_rs2 (InstructionFactory_SUB rd rs1 rs2) = rs2 AND 0x1f"
  "instr_rd (InstructionFactory_ADDW rd rs1 rs2) = rd AND 0x1f"
  "instr_rs1 (InstructionFactory_ADDW rd rs1 rs2) = rs1 AND 0x1f"
  "instr_rs2 (InstructionFactory_ADDW rd rs1 rs2) = rs2 AND 0x1f"
  "instr_rd (InstructionFactory_SUBW rd rs1 rs2) = rd AND 0x1f"
  "instr_rs1 (InstructionFactory_SUBW rd rs1 rs2) = rs1 AND 0x1f"
  "instr_rs2 (InstructionFactory_SUBW rd rs1 rs2) = rs2 AND 0x1f"
  by ((rule u32_eqI; simp add: bitblast factory_defs bit_simps)+)

lemma factory_fields_I:
  "instr_rd (InstructionFactory_LW rd rs1 imm) = rd AND 0x1f"
  "instr_rs1 (InstructionFactory_LW rd rs1 imm) = rs1 AND 0x1f"
  "instr_I_imm (InstructionFactory_LW rd rs1 imm) = signed_take_bit 11 imm"
  "instr_rd (InstructionFactory_LD rd rs1 imm) = rd AND 0x1f"
  "instr_rs1 (InstructionFactory_LD rd rs1 imm) = rs1 AND 0x1f"
  "instr_I_imm (InstructionFactory_LD rd rs1 imm) = signed_take_bit 11 imm"
  "instr_rd (InstructionFactory_FLW rd rs1 imm) = rd AND 0x1f"
  "instr_rs1 (InstructionFactory_FLW rd rs1 imm) = rs1 AND 0x1f"
  "instr_I_imm (InstructionFactory_FLW rd rs1 imm) = signed_take_bit 11 imm"
  "instr_rd (InstructionFactory_FLD rd rs1 imm) = rd AND 0x1f"
  "instr_rs1 (InstructionFactory_FLD rd rs1 imm) = rs1 AND 0x1f"
  "instr_I_imm (InstructionFactory_FLD rd rs1 imm) = signed_take_bit 11 imm"
  "instr_rd (InstructionFactory_ADDI rd rs1 imm) = rd AND 0x1f"
  "instr_rs1 (InstructionFactory_ADDI rd rs1 imm) = rs1 AND 0x1f"
  "instr_I_imm (InstructionFactory_ADDI rd rs1 imm) = signed_take_bit 11 imm"
  "instr_rd (InstructionFactory_ANDI rd rs1 imm) = rd AND 0x1f"
  "instr_rs1 (InstructionFactory_ANDI rd rs1 imm) = rs1 AND 0x1f"
  "instr_I_imm (InstructionFactory_ANDI rd rs1 imm) = signed_take_bit 11 imm"
  "instr_rd (InstructionFactory_JALR rd rs1 imm) = rd AND 0x1f"
  "instr_rs1 (InstructionFactory_JALR rd rs1 imm) = rs1 AND 0x1f"
  "instr_I_imm (InstructionFactory_JALR rd rs1 imm) = signed_take_bit 11 imm"
  "instr_rd (InstructionFactory_ADDIW rd rs1 imm) = rd AND 0x1f"
  "instr_rs1 (InstructionFactory_ADDIW rd rs1 imm) = rs1 AND 0x1f"
  "instr_I_imm (InstructionFactory_ADDIW rd rs1 imm) = signed_take_bit 11 imm"
  by ((rule u32_eqI; simp add: bitblast factory_defs bit_simps)+)

lemma factory_fields_S:
  "instr_rs1 (InstructionFactory_SW rs1 rs2 imm) = rs1 AND 0x1f"
  "instr_rs2 (InstructionFactory_SW rs1 rs2 imm) = rs2 AND 0x1f"
  "instr_S_imm (InstructionFactory_SW rs1 rs2 imm) = signed_take_bit 11 imm"
  "instr_rs1 (InstructionFactory_SD rs1 rs2 imm) = rs1 AND 0x1f"
  "instr_rs2 (InstructionFactory_SD rs1 rs2 imm) = rs2 AND 0x1f"
  "instr_S_imm (InstructionFactory_SD rs1 rs2 imm) = signed_take_bit 11 imm"
  "instr_rs1 (InstructionFactory_FSW rs1 rs2 imm) = rs1 AND 0x1f"
  "instr_rs2 (InstructionFactory_FSW rs1 rs2 imm) = rs2 AND 0x1f"
  "instr_S_imm (InstructionFactory_FSW rs1 rs2 imm) = signed_take_bit 11 imm"
  "instr_rs1 (InstructionFactory_FSD rs1 rs2 imm) = rs1 AND 0x1f"
  "instr_rs2 (InstructionFactory_FSD rs1 rs2 imm) = rs2 AND 0x1f"
  "instr_S_imm (InstructionFactory_FSD rs1 rs2 imm) = signed_take_bit 11 imm"
  by ((rule u32_eqI; simp add: bitblast factory_defs bit_simps)+)

lemma factory_fields_B:
  "instr_rs1 (InstructionFactory_BEQ rs1 rs2 imm) = rs1 AND 0x1f"
  "instr_rs2 (InstructionFactory_BEQ rs1 rs2 imm) = rs2 AND 0x1f"
  "instr_B_imm (InstructionFactory_BEQ rs1 rs2 imm) = signed_take_bit 12 imm AND 0xfffffffe"
  "instr_rs1 (InstructionFactory_BNE rs1 rs2 imm) = rs1 AND 0x1f"
  "instr_rs2 (InstructionFactory_BNE rs1 rs2 imm) = rs2 AND 0x1f"
  "instr_B_imm (InstructionFactory_BNE rs1 rs2 imm) = signed_take_bit 12 imm AND 0xfffffffe"
  by ((rule u32_eqI; simp add: bitblast factory_defs bit_simps)+)

lemma factory_fields_shift:
  "instr_rd (InstructionFactory_SLLI rd rs1 shamt) = rd AND 0x1f"
  "instr_rs1 (InstructionFactory_SLLI rd rs1 shamt) = rs1 AND 0x1f"
  "instr_shamt (InstructionFactory_SLLI rd rs1 shamt) = shamt AND 0x3f"
  "instr_rd (InstructionFactory_SRLI rd rs1 shamt) = rd AND 0x1f"
  "instr_rs1 (InstructionFactory_SRLI rd rs1 shamt) = rs1 AND 0x1f"
  "instr_shamt (InstructionFactory_SRLI rd rs1 shamt) = shamt AND 0x3f"
  "instr_rd (InstructionFactory_SRAI rd rs1 shamt) = rd AND 0x1f"
  "instr_rs1 (InstructionFactory_SRAI rd rs1 shamt) = rs1 AND 0x1f"
  "instr_shamt (InstructionFactory_SRAI rd rs1 shamt) = shamt AND 0x3f"
  by ((rule u32_eqI; simp add: bitblast factory_defs bit_simps)+)

lemma factory_fields_U:
  "instr_rd (InstructionFactory_LUI rd imm) = rd AND 0x1f"
  "instr_U_imm (InstructionFactory_LUI rd imm) = imm AND 0xfffff000"
  by ((rule u32_eqI; simp add: bitblast factory_defs bit_simps)+)

lemma factory_fields_J:
  "instr_rd (InstructionFactory_JAL rd imm) = rd AND 0x1f"
  "instr_J_imm (InstructionFactory_JAL rd imm) = signed_take_bit 20 imm AND 0xfffffffe"
  by ((rule u32_eqI; simp add: bitblast factory_defs bit_simps)+)

lemmas factory_fields = factory_fields_R factory_fields_I factory_fields_S factory_fields_B
  factory_fields_shift factory_fields_U factory_fields_J

text \<open>The fields of a compressed word, as the tables give them.\<close>

lemma rvc_regs:
  "instr_c_rd w AND 0x1f = rvc_reg 7 w"
  "instr_c_rs2 w AND 0x1f = rvc_reg 2 w"
  "instr_c_rd_small w AND 0x1f = rvc_reg' 7 w"
  "instr_c_rs2_small w AND 0x1f = rvc_reg' 2 w"
  by ((rule u32_eqI; simp add: bitblast rvc_reg_def rvc_reg'_def bit_simps)+)

lemma rvc_imms:
  "signed_take_bit 11 (C_ADDI4SPN_NZUIMM w) = rvc_imm C_ADDI4SPN w"
  "signed_take_bit 11 (C_LW_UIMM w) = rvc_imm C_LW w"
  "signed_take_bit 11 (C_LD_UIMM w) = rvc_imm C_LD w"
  "signed_take_bit 11 (instr_c_imm w) = rvc_imm C_ADDI w"
  "instr_c_uimm w AND 0x3f = rvc_imm C_SLLI w"
  "signed_take_bit 20 (C_JAL_IMM w) AND 0xfffffffe = rvc_imm C_JAL w"
  "signed_take_bit 11 (C_ADDI16SP_NZIMM w) = rvc_imm C_ADDI16SP w"
  "C_LUI_NZIMM w AND 0xfffff000 = rvc_imm C_LUI w"
  "signed_take_bit 12 (C_BRANCH_IMM w) AND 0xfffffffe = rvc_imm C_BEQZ w"
  "signed_take_bit 11 (C_LWSP_UIMM w) = rvc_imm C_LWSP w"
  "signed_take_bit 11 (C_LDSP_UIMM w) = rvc_imm C_LDSP w"
  "signed_take_bit 11 (C_SWSP_UIMM w) = rvc_imm C_SWSP w"
  "signed_take_bit 11 (C_SDSP_UIMM w) = rvc_imm C_SDSP w"
  by ((rule u32_eqI; simp add: rvc_imm_def bitblast bit_simps del: push_bit_Suc)+)

lemma rvc_imm_shared:
  "rvc_imm C_SW = rvc_imm C_LW" "rvc_imm C_FLW = rvc_imm C_LW" "rvc_imm C_FSW = rvc_imm C_LW"
  "rvc_imm C_SD = rvc_imm C_LD" "rvc_imm C_FLD = rvc_imm C_LD" "rvc_imm C_FSD = rvc_imm C_LD"
  "rvc_imm C_ADDIW = rvc_imm C_ADDI" "rvc_imm C_LI = rvc_imm C_ADDI" "rvc_imm C_ANDI = rvc_imm C_ADDI"
  "rvc_imm C_SRLI = rvc_imm C_SLLI" "rvc_imm C_SRAI = rvc_imm C_SLLI" "rvc_imm C_J = rvc_imm C_JAL"
  "rvc_imm C_BNEZ = rvc_imm C_BEQZ" "rvc_imm C_FLWSP = rvc_imm C_LWSP"
  "rvc_imm C_FLDSP = rvc_imm C_LDSP" "rvc_imm C_FSWSP = rvc_imm C_SWSP"
  "rvc_imm C_FSDSP = rvc_imm C_SDSP"
  by (rule ext; simp add: rvc_imm_def)+

lemmas rvc_simps = rvc_regs rvc_imms rvc_imm_shared C_SW_UIMM_def C_SD_UIMM_def C_J_IMM_def

lemma bit_5_ge: "bit (x :: u32) 5 \<Longrightarrow> 32 \<le> x"
proof -
  assume "bit x 5"
  then have "x AND 32 = 32"
    by (intro u32_eqI) (simp_all add: bit_simps)
  then show ?thesis using word_and_le2 [of x 32] by simp
qed

lemma shamt_bit5: "\<not> 31 < instr_c_uimm w \<Longrightarrow> \<not> bit (instr_c_uimm w) 5"
  using bit_5_ge [of "instr_c_uimm w"] by (auto simp: word_le_nat_alt word_less_nat_alt)

lemma expand_compressed_encodes:
  assumes "expand_compressed w op arch = (m, w')" and "m \<noteq> UNDEF" and "op \<noteq> C_ADDIW"
  shows "encodes arch m w'"
  using assms
  by (cases op) (auto simp: expand_compressed_def Let_def factory_encodes shamt_bit5 split: if_splits)

lemma expand_compressed_operands:
  assumes "expand_compressed w op arch = (m, w')" and "m \<noteq> UNDEF"
  shows "instr_operands m w' = rvc_operands op w"
  using assms
  by (cases op; simp add: expand_compressed_def Let_def split: if_splits;
      elim conjE; hypsubst; simp add: instr_operands_def getType_def rvc_operands_def
        factory_fields rvc_simps)

lemma expand_ADDIW_only:
  "expand_compressed w op arch = (RV64I ADDIW, w') \<Longrightarrow> op = C_ADDIW"
  by (cases op) (auto simp: expand_compressed_def Let_def split: if_splits)

lemma quadrant_cases: "instr_quadrant w \<in> {0, 1, 2, 3}"
proof -
  have "unat (instr_quadrant w) \<le> 3"
    unfolding instr_quadrant_def using unat_and_le [of w 3] by simp
  then have "unat (instr_quadrant w) \<in> {0, 1, 2, 3}" by auto
  then show ?thesis by (simp add: word_unat_eq_iff)
qed

section \<open>Properties\<close>



text \<open>
  \<open>C_ADDIW\<close> is expanded with the factory function of \<open>ADDI\<close>, so the operation and the word
  disagree: on RV64 the expanded word of a compressed \<open>ADDIW\<close> is an \<open>ADDI\<close>.
\<close>

theorem compressed_ADDIW_word_is_ADDI:
  assumes "decode_and_expand_compressed arch w = Inr (RV64I ADDIW, w')"
  shows "decode_normal arch w' = RV32I ADDI"
proof -
  from assms obtain op where op: "expand_compressed w op arch = (RV64I ADDIW, w')"
    by (auto simp: decode_and_expand_compressed_def split: sum.splits)
  then have "op = C_ADDIW" by (rule expand_ADDIW_only)
  with op show ?thesis
    by (auto simp: expand_compressed_def factory_decodes split: if_splits)
qed

theorem compressed_ADDIW_word_is_ADDI_witness:
  "decode_normal RV64 (InstructionFactory_ADDI 10 10 1) = RV32I ADDI"
  by (rule compressed_ADDIW_word_is_ADDI [of RV64 "0x2505"]) code_simp

text \<open>
  The expanded instruction has the operands that the tables of the C extension give for the
  compressed one: the registers, and the immediate gathered bit by bit and sign-extended.
\<close>

theorem compressed_expansion_operands:
  assumes "decode_compressed w arch = Inr op" and "expand_compressed w op arch = (m, w')"
    and "m \<noteq> UNDEF"
  shows "instr_operands m w' = rvc_operands op w"
  using assms expand_compressed_operands by blast

theorem compressed_expansion_operands_witness:
  "instr_operands (RV32I JAL) (InstructionFactory_JAL 1 (- 2)) = rvc_operands C_JAL 0x3ffd"
  by (rule compressed_expansion_operands [of "0x3ffd" RV32]) code_simp+

text \<open>
  \<open>decode_and_expand_compressed\<close> throws exactly on words that are not compressed: the run
  loop, which calls it only for compressed words, never sees the exception.
\<close>

theorem compressed_decoding_total:
  "(\<exists>r. decode_and_expand_compressed arch w = Inr r) \<longleftrightarrow> instr_is_compressed w"
  using quadrant_cases [of w]
  by (auto simp: decode_and_expand_compressed_def decode_compressed_def instr_is_compressed_def)

end
