(* ===== verification/Csr.thy ===== *)
theory Csr
  imports Prelude
begin

text \<open>
  \<open>vp/src/core/rv32/csr.h\<close>: the control and status registers of the RV32 core, their bit fields,
  masks and addresses, and the address table of \<open>csr_table\<close>. A struct of the source is its raw
  \<open>reg\<close>; a bit field \<open>f\<close> of \<open>csr_x\<close> is read with \<open>x_f\<close> and assigned with \<open>set_x_f\<close>. The pointers
  stored in \<open>register_mapping\<close> are pairs of a read and a write function on the table. The
  interface of a register cell is a locale; every pointer of the table is shown to be one.
\<close>

unbundle bit_operations_syntax

section \<open>Privilege levels and exception codes\<close>

text \<open>\<open>core/common/irq_if.h\<close> and \<open>core/common/trap.h\<close>\<close>

type_synonym PrivilegeLevel = u32

abbreviation (input) MachineMode :: u32 where "MachineMode \<equiv> 0b11"
abbreviation (input) HypervisorMode :: u32 where "HypervisorMode \<equiv> 0b10"
abbreviation (input) SupervisorMode :: u32 where "SupervisorMode \<equiv> 0b01"
abbreviation (input) UserMode :: u32 where "UserMode \<equiv> 0b00"
abbreviation (input) NoneMode :: u32 where "NoneMode \<equiv> 0xffffffff"

abbreviation (input) EXC_U_SOFTWARE_INTERRUPT :: u32 where "EXC_U_SOFTWARE_INTERRUPT \<equiv> 0"
abbreviation (input) EXC_S_SOFTWARE_INTERRUPT :: u32 where "EXC_S_SOFTWARE_INTERRUPT \<equiv> 1"
abbreviation (input) EXC_M_SOFTWARE_INTERRUPT :: u32 where "EXC_M_SOFTWARE_INTERRUPT \<equiv> 3"
abbreviation (input) EXC_U_TIMER_INTERRUPT :: u32 where "EXC_U_TIMER_INTERRUPT \<equiv> 4"
abbreviation (input) EXC_S_TIMER_INTERRUPT :: u32 where "EXC_S_TIMER_INTERRUPT \<equiv> 5"
abbreviation (input) EXC_M_TIMER_INTERRUPT :: u32 where "EXC_M_TIMER_INTERRUPT \<equiv> 7"
abbreviation (input) EXC_U_EXTERNAL_INTERRUPT :: u32 where "EXC_U_EXTERNAL_INTERRUPT \<equiv> 8"
abbreviation (input) EXC_S_EXTERNAL_INTERRUPT :: u32 where "EXC_S_EXTERNAL_INTERRUPT \<equiv> 9"
abbreviation (input) EXC_M_EXTERNAL_INTERRUPT :: u32 where "EXC_M_EXTERNAL_INTERRUPT \<equiv> 11"
abbreviation (input) EXC_INSTR_ADDR_MISALIGNED :: u32 where "EXC_INSTR_ADDR_MISALIGNED \<equiv> 0"
abbreviation (input) EXC_INSTR_ACCESS_FAULT :: u32 where "EXC_INSTR_ACCESS_FAULT \<equiv> 1"
abbreviation (input) EXC_ILLEGAL_INSTR :: u32 where "EXC_ILLEGAL_INSTR \<equiv> 2"
abbreviation (input) EXC_BREAKPOINT :: u32 where "EXC_BREAKPOINT \<equiv> 3"
abbreviation (input) EXC_LOAD_ADDR_MISALIGNED :: u32 where "EXC_LOAD_ADDR_MISALIGNED \<equiv> 4"
abbreviation (input) EXC_LOAD_ACCESS_FAULT :: u32 where "EXC_LOAD_ACCESS_FAULT \<equiv> 5"
abbreviation (input) EXC_STORE_AMO_ADDR_MISALIGNED :: u32 where "EXC_STORE_AMO_ADDR_MISALIGNED \<equiv> 6"
abbreviation (input) EXC_STORE_AMO_ACCESS_FAULT :: u32 where "EXC_STORE_AMO_ACCESS_FAULT \<equiv> 7"
abbreviation (input) EXC_ECALL_U_MODE :: u32 where "EXC_ECALL_U_MODE \<equiv> 8"
abbreviation (input) EXC_ECALL_S_MODE :: u32 where "EXC_ECALL_S_MODE \<equiv> 9"
abbreviation (input) EXC_ECALL_M_MODE :: u32 where "EXC_ECALL_M_MODE \<equiv> 11"
abbreviation (input) EXC_INSTR_PAGE_FAULT :: u32 where "EXC_INSTR_PAGE_FAULT \<equiv> 12"
abbreviation (input) EXC_LOAD_PAGE_FAULT :: u32 where "EXC_LOAD_PAGE_FAULT \<equiv> 13"
abbreviation (input) EXC_STORE_AMO_PAGE_FAULT :: u32 where "EXC_STORE_AMO_PAGE_FAULT \<equiv> 15"

section \<open>Bit fields\<close>

text \<open>\<open>struct csr_misa\<close>\<close>

abbreviation (input) misa_extensions :: "u32 \<Rightarrow> u32" where "misa_extensions \<equiv> bf_get 0 26"
abbreviation (input) set_misa_extensions :: "u32 \<Rightarrow> u32 \<Rightarrow> u32" where "set_misa_extensions \<equiv> bf_set 0 26"
abbreviation (input) misa_mxl :: "u32 \<Rightarrow> u32" where "misa_mxl \<equiv> bf_get 30 2"
abbreviation (input) set_misa_mxl :: "u32 \<Rightarrow> u32 \<Rightarrow> u32" where "set_misa_mxl \<equiv> bf_set 30 2"

text \<open>\<open>struct csr_mvendorid\<close>\<close>

abbreviation (input) mvendorid_offset :: "u32 \<Rightarrow> u32" where "mvendorid_offset \<equiv> bf_get 0 7"
abbreviation (input) mvendorid_bank :: "u32 \<Rightarrow> u32" where "mvendorid_bank \<equiv> bf_get 7 25"

text \<open>\<open>struct csr_mstatus\<close>\<close>

abbreviation (input) mstatus_uie :: "u32 \<Rightarrow> u32" where "mstatus_uie \<equiv> bf_get 0 1"
abbreviation (input) set_mstatus_uie :: "u32 \<Rightarrow> u32 \<Rightarrow> u32" where "set_mstatus_uie \<equiv> bf_set 0 1"
abbreviation (input) mstatus_sie :: "u32 \<Rightarrow> u32" where "mstatus_sie \<equiv> bf_get 1 1"
abbreviation (input) set_mstatus_sie :: "u32 \<Rightarrow> u32 \<Rightarrow> u32" where "set_mstatus_sie \<equiv> bf_set 1 1"
abbreviation (input) mstatus_mie :: "u32 \<Rightarrow> u32" where "mstatus_mie \<equiv> bf_get 3 1"
abbreviation (input) set_mstatus_mie :: "u32 \<Rightarrow> u32 \<Rightarrow> u32" where "set_mstatus_mie \<equiv> bf_set 3 1"
abbreviation (input) mstatus_upie :: "u32 \<Rightarrow> u32" where "mstatus_upie \<equiv> bf_get 4 1"
abbreviation (input) set_mstatus_upie :: "u32 \<Rightarrow> u32 \<Rightarrow> u32" where "set_mstatus_upie \<equiv> bf_set 4 1"
abbreviation (input) mstatus_spie :: "u32 \<Rightarrow> u32" where "mstatus_spie \<equiv> bf_get 5 1"
abbreviation (input) set_mstatus_spie :: "u32 \<Rightarrow> u32 \<Rightarrow> u32" where "set_mstatus_spie \<equiv> bf_set 5 1"
abbreviation (input) mstatus_mpie :: "u32 \<Rightarrow> u32" where "mstatus_mpie \<equiv> bf_get 7 1"
abbreviation (input) set_mstatus_mpie :: "u32 \<Rightarrow> u32 \<Rightarrow> u32" where "set_mstatus_mpie \<equiv> bf_set 7 1"
abbreviation (input) mstatus_spp :: "u32 \<Rightarrow> u32" where "mstatus_spp \<equiv> bf_get 8 1"
abbreviation (input) set_mstatus_spp :: "u32 \<Rightarrow> u32 \<Rightarrow> u32" where "set_mstatus_spp \<equiv> bf_set 8 1"
abbreviation (input) mstatus_mpp :: "u32 \<Rightarrow> u32" where "mstatus_mpp \<equiv> bf_get 11 2"
abbreviation (input) set_mstatus_mpp :: "u32 \<Rightarrow> u32 \<Rightarrow> u32" where "set_mstatus_mpp \<equiv> bf_set 11 2"
abbreviation (input) mstatus_fs :: "u32 \<Rightarrow> u32" where "mstatus_fs \<equiv> bf_get 13 2"
abbreviation (input) set_mstatus_fs :: "u32 \<Rightarrow> u32 \<Rightarrow> u32" where "set_mstatus_fs \<equiv> bf_set 13 2"
abbreviation (input) mstatus_xs :: "u32 \<Rightarrow> u32" where "mstatus_xs \<equiv> bf_get 15 2"
abbreviation (input) set_mstatus_xs :: "u32 \<Rightarrow> u32 \<Rightarrow> u32" where "set_mstatus_xs \<equiv> bf_set 15 2"
abbreviation (input) mstatus_mprv :: "u32 \<Rightarrow> u32" where "mstatus_mprv \<equiv> bf_get 17 1"
abbreviation (input) set_mstatus_mprv :: "u32 \<Rightarrow> u32 \<Rightarrow> u32" where "set_mstatus_mprv \<equiv> bf_set 17 1"
abbreviation (input) mstatus_sum :: "u32 \<Rightarrow> u32" where "mstatus_sum \<equiv> bf_get 18 1"
abbreviation (input) set_mstatus_sum :: "u32 \<Rightarrow> u32 \<Rightarrow> u32" where "set_mstatus_sum \<equiv> bf_set 18 1"
abbreviation (input) mstatus_mxr :: "u32 \<Rightarrow> u32" where "mstatus_mxr \<equiv> bf_get 19 1"
abbreviation (input) set_mstatus_mxr :: "u32 \<Rightarrow> u32 \<Rightarrow> u32" where "set_mstatus_mxr \<equiv> bf_set 19 1"
abbreviation (input) mstatus_tvm :: "u32 \<Rightarrow> u32" where "mstatus_tvm \<equiv> bf_get 20 1"
abbreviation (input) set_mstatus_tvm :: "u32 \<Rightarrow> u32 \<Rightarrow> u32" where "set_mstatus_tvm \<equiv> bf_set 20 1"
abbreviation (input) mstatus_tw :: "u32 \<Rightarrow> u32" where "mstatus_tw \<equiv> bf_get 21 1"
abbreviation (input) set_mstatus_tw :: "u32 \<Rightarrow> u32 \<Rightarrow> u32" where "set_mstatus_tw \<equiv> bf_set 21 1"
abbreviation (input) mstatus_tsr :: "u32 \<Rightarrow> u32" where "mstatus_tsr \<equiv> bf_get 22 1"
abbreviation (input) set_mstatus_tsr :: "u32 \<Rightarrow> u32 \<Rightarrow> u32" where "set_mstatus_tsr \<equiv> bf_set 22 1"
abbreviation (input) mstatus_sd :: "u32 \<Rightarrow> u32" where "mstatus_sd \<equiv> bf_get 31 1"
abbreviation (input) set_mstatus_sd :: "u32 \<Rightarrow> u32 \<Rightarrow> u32" where "set_mstatus_sd \<equiv> bf_set 31 1"

text \<open>\<open>struct csr_mtvec\<close>\<close>

abbreviation (input) mtvec_mode :: "u32 \<Rightarrow> u32" where "mtvec_mode \<equiv> bf_get 0 2"
abbreviation (input) set_mtvec_mode :: "u32 \<Rightarrow> u32 \<Rightarrow> u32" where "set_mtvec_mode \<equiv> bf_set 0 2"
abbreviation (input) mtvec_base :: "u32 \<Rightarrow> u32" where "mtvec_base \<equiv> bf_get 2 30"
abbreviation (input) set_mtvec_base :: "u32 \<Rightarrow> u32 \<Rightarrow> u32" where "set_mtvec_base \<equiv> bf_set 2 30"

text \<open>\<open>struct csr_mie\<close>\<close>

abbreviation (input) mie_usie :: "u32 \<Rightarrow> u32" where "mie_usie \<equiv> bf_get 0 1"
abbreviation (input) mie_ssie :: "u32 \<Rightarrow> u32" where "mie_ssie \<equiv> bf_get 1 1"
abbreviation (input) mie_msie :: "u32 \<Rightarrow> u32" where "mie_msie \<equiv> bf_get 3 1"
abbreviation (input) mie_utie :: "u32 \<Rightarrow> u32" where "mie_utie \<equiv> bf_get 4 1"
abbreviation (input) mie_stie :: "u32 \<Rightarrow> u32" where "mie_stie \<equiv> bf_get 5 1"
abbreviation (input) mie_mtie :: "u32 \<Rightarrow> u32" where "mie_mtie \<equiv> bf_get 7 1"
abbreviation (input) mie_ueie :: "u32 \<Rightarrow> u32" where "mie_ueie \<equiv> bf_get 8 1"
abbreviation (input) mie_seie :: "u32 \<Rightarrow> u32" where "mie_seie \<equiv> bf_get 9 1"
abbreviation (input) mie_meie :: "u32 \<Rightarrow> u32" where "mie_meie \<equiv> bf_get 11 1"

text \<open>\<open>struct csr_mip\<close>\<close>

abbreviation (input) mip_usip :: "u32 \<Rightarrow> u32" where "mip_usip \<equiv> bf_get 0 1"
abbreviation (input) set_mip_usip :: "u32 \<Rightarrow> u32 \<Rightarrow> u32" where "set_mip_usip \<equiv> bf_set 0 1"
abbreviation (input) mip_ssip :: "u32 \<Rightarrow> u32" where "mip_ssip \<equiv> bf_get 1 1"
abbreviation (input) set_mip_ssip :: "u32 \<Rightarrow> u32 \<Rightarrow> u32" where "set_mip_ssip \<equiv> bf_set 1 1"
abbreviation (input) mip_msip :: "u32 \<Rightarrow> u32" where "mip_msip \<equiv> bf_get 3 1"
abbreviation (input) set_mip_msip :: "u32 \<Rightarrow> u32 \<Rightarrow> u32" where "set_mip_msip \<equiv> bf_set 3 1"
abbreviation (input) mip_utip :: "u32 \<Rightarrow> u32" where "mip_utip \<equiv> bf_get 4 1"
abbreviation (input) set_mip_utip :: "u32 \<Rightarrow> u32 \<Rightarrow> u32" where "set_mip_utip \<equiv> bf_set 4 1"
abbreviation (input) mip_stip :: "u32 \<Rightarrow> u32" where "mip_stip \<equiv> bf_get 5 1"
abbreviation (input) set_mip_stip :: "u32 \<Rightarrow> u32 \<Rightarrow> u32" where "set_mip_stip \<equiv> bf_set 5 1"
abbreviation (input) mip_mtip :: "u32 \<Rightarrow> u32" where "mip_mtip \<equiv> bf_get 7 1"
abbreviation (input) set_mip_mtip :: "u32 \<Rightarrow> u32 \<Rightarrow> u32" where "set_mip_mtip \<equiv> bf_set 7 1"
abbreviation (input) mip_ueip :: "u32 \<Rightarrow> u32" where "mip_ueip \<equiv> bf_get 8 1"
abbreviation (input) set_mip_ueip :: "u32 \<Rightarrow> u32 \<Rightarrow> u32" where "set_mip_ueip \<equiv> bf_set 8 1"
abbreviation (input) mip_seip :: "u32 \<Rightarrow> u32" where "mip_seip \<equiv> bf_get 9 1"
abbreviation (input) set_mip_seip :: "u32 \<Rightarrow> u32 \<Rightarrow> u32" where "set_mip_seip \<equiv> bf_set 9 1"
abbreviation (input) mip_meip :: "u32 \<Rightarrow> u32" where "mip_meip \<equiv> bf_get 11 1"
abbreviation (input) set_mip_meip :: "u32 \<Rightarrow> u32 \<Rightarrow> u32" where "set_mip_meip \<equiv> bf_set 11 1"

text \<open>\<open>struct csr_mcause\<close>\<close>

abbreviation (input) mcause_exception_code :: "u32 \<Rightarrow> u32" where "mcause_exception_code \<equiv> bf_get 0 31"
abbreviation (input) set_mcause_exception_code :: "u32 \<Rightarrow> u32 \<Rightarrow> u32" where "set_mcause_exception_code \<equiv> bf_set 0 31"
abbreviation (input) mcause_interrupt :: "u32 \<Rightarrow> u32" where "mcause_interrupt \<equiv> bf_get 31 1"
abbreviation (input) set_mcause_interrupt :: "u32 \<Rightarrow> u32 \<Rightarrow> u32" where "set_mcause_interrupt \<equiv> bf_set 31 1"

text \<open>\<open>struct csr_mcounteren\<close>\<close>

abbreviation (input) mcounteren_CY :: "u32 \<Rightarrow> u32" where "mcounteren_CY \<equiv> bf_get 0 1"
abbreviation (input) mcounteren_TM :: "u32 \<Rightarrow> u32" where "mcounteren_TM \<equiv> bf_get 1 1"
abbreviation (input) mcounteren_IR :: "u32 \<Rightarrow> u32" where "mcounteren_IR \<equiv> bf_get 2 1"

text \<open>\<open>struct csr_mcountinhibit\<close>\<close>

abbreviation (input) mcountinhibit_CY :: "u32 \<Rightarrow> u32" where "mcountinhibit_CY \<equiv> bf_get 0 1"
abbreviation (input) mcountinhibit_IR :: "u32 \<Rightarrow> u32" where "mcountinhibit_IR \<equiv> bf_get 2 1"

text \<open>\<open>struct csr_pmpcfg\<close>\<close>

abbreviation (input) pmpcfg_L0 :: "u32 \<Rightarrow> u32" where "pmpcfg_L0 \<equiv> bf_get 24 1"
abbreviation (input) pmpcfg_A0 :: "u32 \<Rightarrow> u32" where "pmpcfg_A0 \<equiv> bf_get 27 2"
abbreviation (input) pmpcfg_X0 :: "u32 \<Rightarrow> u32" where "pmpcfg_X0 \<equiv> bf_get 29 1"
abbreviation (input) pmpcfg_W0 :: "u32 \<Rightarrow> u32" where "pmpcfg_W0 \<equiv> bf_get 30 1"
abbreviation (input) pmpcfg_R0 :: "u32 \<Rightarrow> u32" where "pmpcfg_R0 \<equiv> bf_get 31 1"

text \<open>\<open>struct csr_satp\<close>\<close>

abbreviation (input) satp_ppn :: "u32 \<Rightarrow> u32" where "satp_ppn \<equiv> bf_get 0 22"
abbreviation (input) satp_asid :: "u32 \<Rightarrow> u32" where "satp_asid \<equiv> bf_get 22 9"
abbreviation (input) satp_mode :: "u32 \<Rightarrow> u32" where "satp_mode \<equiv> bf_get 31 1"

text \<open>\<open>struct csr_fcsr\<close>\<close>

abbreviation (input) fcsr_fflags :: "u32 \<Rightarrow> u32" where "fcsr_fflags \<equiv> bf_get 0 5"
abbreviation (input) set_fcsr_fflags :: "u32 \<Rightarrow> u32 \<Rightarrow> u32" where "set_fcsr_fflags \<equiv> bf_set 0 5"
abbreviation (input) fcsr_frm :: "u32 \<Rightarrow> u32" where "fcsr_frm \<equiv> bf_get 5 3"
abbreviation (input) set_fcsr_frm :: "u32 \<Rightarrow> u32 \<Rightarrow> u32" where "set_fcsr_frm \<equiv> bf_set 5 3"
abbreviation (input) fcsr_NX :: "u32 \<Rightarrow> u32" where "fcsr_NX \<equiv> bf_get 0 1"
abbreviation (input) set_fcsr_NX :: "u32 \<Rightarrow> u32 \<Rightarrow> u32" where "set_fcsr_NX \<equiv> bf_set 0 1"
abbreviation (input) fcsr_UF :: "u32 \<Rightarrow> u32" where "fcsr_UF \<equiv> bf_get 1 1"
abbreviation (input) set_fcsr_UF :: "u32 \<Rightarrow> u32 \<Rightarrow> u32" where "set_fcsr_UF \<equiv> bf_set 1 1"
abbreviation (input) fcsr_OF :: "u32 \<Rightarrow> u32" where "fcsr_OF \<equiv> bf_get 2 1"
abbreviation (input) set_fcsr_OF :: "u32 \<Rightarrow> u32 \<Rightarrow> u32" where "set_fcsr_OF \<equiv> bf_set 2 1"
abbreviation (input) fcsr_DZ :: "u32 \<Rightarrow> u32" where "fcsr_DZ \<equiv> bf_get 3 1"
abbreviation (input) set_fcsr_DZ :: "u32 \<Rightarrow> u32 \<Rightarrow> u32" where "set_fcsr_DZ \<equiv> bf_set 3 1"
abbreviation (input) fcsr_NV :: "u32 \<Rightarrow> u32" where "fcsr_NV \<equiv> bf_get 4 1"
abbreviation (input) set_fcsr_NV :: "u32 \<Rightarrow> u32 \<Rightarrow> u32" where "set_fcsr_NV \<equiv> bf_set 4 1"

text \<open>The extension letters of \<open>misa\<close> and the constants that name them.\<close>

abbreviation (input) MISA_A :: u32 where "MISA_A \<equiv> 0x1"
abbreviation (input) MISA_C :: u32 where "MISA_C \<equiv> 0x4"
abbreviation (input) MISA_D :: u32 where "MISA_D \<equiv> 0x8"
abbreviation (input) MISA_E :: u32 where "MISA_E \<equiv> 0x10"
abbreviation (input) MISA_F :: u32 where "MISA_F \<equiv> 0x20"
abbreviation (input) MISA_I :: u32 where "MISA_I \<equiv> 0x100"
abbreviation (input) MISA_M :: u32 where "MISA_M \<equiv> 0x1000"
abbreviation (input) MISA_N :: u32 where "MISA_N \<equiv> 0x2000"
abbreviation (input) MISA_S :: u32 where "MISA_S \<equiv> 0x40000"
abbreviation (input) MISA_U :: u32 where "MISA_U \<equiv> 0x100000"
abbreviation (input) M_ISA_EXT :: u32 where "M_ISA_EXT \<equiv> MISA_M"
abbreviation (input) A_ISA_EXT :: u32 where "A_ISA_EXT \<equiv> MISA_A"
abbreviation (input) F_ISA_EXT :: u32 where "F_ISA_EXT \<equiv> MISA_F"
abbreviation (input) D_ISA_EXT :: u32 where "D_ISA_EXT \<equiv> MISA_D"
abbreviation (input) C_ISA_EXT :: u32 where "C_ISA_EXT \<equiv> MISA_C"
abbreviation (input) FS_OFF :: u32 where "FS_OFF \<equiv> 0b00"
abbreviation (input) FS_INITIAL :: u32 where "FS_INITIAL \<equiv> 0b01"
abbreviation (input) FS_CLEAN :: u32 where "FS_CLEAN \<equiv> 0b10"
abbreviation (input) FS_DIRTY :: u32 where "FS_DIRTY \<equiv> 0b11"

section \<open>Masks and addresses\<close>

abbreviation (input) MIE_MASK :: u32 where "MIE_MASK \<equiv> 0b101110111011"
abbreviation (input) SIE_MASK :: u32 where "SIE_MASK \<equiv> 0b001100110011"
abbreviation (input) UIE_MASK :: u32 where "UIE_MASK \<equiv> 0b000100010001"
abbreviation (input) MIP_WRITE_MASK :: u32 where "MIP_WRITE_MASK \<equiv> 0b001100110011"
abbreviation (input) MIP_READ_MASK :: u32 where "MIP_READ_MASK \<equiv> MIE_MASK"
abbreviation (input) SIP_MASK :: u32 where "SIP_MASK \<equiv> 0b11"
abbreviation (input) UIP_MASK :: u32 where "UIP_MASK \<equiv> 0b1"
abbreviation (input) MEDELEG_MASK :: u32 where "MEDELEG_MASK \<equiv> 0b1011101111111111"
abbreviation (input) MIDELEG_MASK :: u32 where "MIDELEG_MASK \<equiv> MIE_MASK"
abbreviation (input) MTVEC_MASK :: u32 where "MTVEC_MASK \<equiv> NOT 2"
abbreviation (input) MCOUNTEREN_MASK :: u32 where "MCOUNTEREN_MASK \<equiv> 0b111"
abbreviation (input) MCOUNTINHIBIT_MASK :: u32 where "MCOUNTINHIBIT_MASK \<equiv> 0b101"
abbreviation (input) SEDELEG_MASK :: u32 where "SEDELEG_MASK \<equiv> 0b1011000111111111"
abbreviation (input) SIDELEG_MASK :: u32 where "SIDELEG_MASK \<equiv> MIDELEG_MASK"
abbreviation (input) MSTATUS_MASK :: u32 where "MSTATUS_MASK \<equiv> 0b10000000011111111111100110111011"
abbreviation (input) SSTATUS_MASK :: u32 where "SSTATUS_MASK \<equiv> 0b10000000000011011110000100110011"
abbreviation (input) USTATUS_MASK :: u32 where "USTATUS_MASK \<equiv> 0b00000000000000000000000000010001"
abbreviation (input) SATP_MASK :: u32 where "SATP_MASK \<equiv> 0b10000000001111111111111111111111"
abbreviation (input) SATP_MODE :: u32 where "SATP_MODE \<equiv> 0b10000000000000000000000000000000"
abbreviation (input) FCSR_MASK :: u32 where "FCSR_MASK \<equiv> 0b11111111"

abbreviation (input) CYCLE_ADDR :: u32 where "CYCLE_ADDR \<equiv> 0xC00"
abbreviation (input) CYCLEH_ADDR :: u32 where "CYCLEH_ADDR \<equiv> 0xC80"
abbreviation (input) TIME_ADDR :: u32 where "TIME_ADDR \<equiv> 0xC01"
abbreviation (input) TIMEH_ADDR :: u32 where "TIMEH_ADDR \<equiv> 0xC81"
abbreviation (input) INSTRET_ADDR :: u32 where "INSTRET_ADDR \<equiv> 0xC02"
abbreviation (input) INSTRETH_ADDR :: u32 where "INSTRETH_ADDR \<equiv> 0xC82"
abbreviation (input) MCYCLE_ADDR :: u32 where "MCYCLE_ADDR \<equiv> 0xB00"
abbreviation (input) MCYCLEH_ADDR :: u32 where "MCYCLEH_ADDR \<equiv> 0xB80"
abbreviation (input) MTIME_ADDR :: u32 where "MTIME_ADDR \<equiv> 0xB01"
abbreviation (input) MTIMEH_ADDR :: u32 where "MTIMEH_ADDR \<equiv> 0xB81"
abbreviation (input) MINSTRET_ADDR :: u32 where "MINSTRET_ADDR \<equiv> 0xB02"
abbreviation (input) MINSTRETH_ADDR :: u32 where "MINSTRETH_ADDR \<equiv> 0xB82"
abbreviation (input) TSELECT_ADDR :: u32 where "TSELECT_ADDR \<equiv> 0x7A0"
abbreviation (input) TDATA1_ADDR :: u32 where "TDATA1_ADDR \<equiv> 0x7A1"
abbreviation (input) TDATA2_ADDR :: u32 where "TDATA2_ADDR \<equiv> 0x7A2"
abbreviation (input) TDATA3_ADDR :: u32 where "TDATA3_ADDR \<equiv> 0x7A3"
abbreviation (input) DCSR_ADDR :: u32 where "DCSR_ADDR \<equiv> 0x7B0"
abbreviation (input) DPC_ADDR :: u32 where "DPC_ADDR \<equiv> 0x7B1"
abbreviation (input) DSCRATCH0_ADDR :: u32 where "DSCRATCH0_ADDR \<equiv> 0x7B2"
abbreviation (input) DSCRATCH1_ADDR :: u32 where "DSCRATCH1_ADDR \<equiv> 0x7B3"
abbreviation (input) MVENDORID_ADDR :: u32 where "MVENDORID_ADDR \<equiv> 0xF11"
abbreviation (input) MARCHID_ADDR :: u32 where "MARCHID_ADDR \<equiv> 0xF12"
abbreviation (input) MIMPID_ADDR :: u32 where "MIMPID_ADDR \<equiv> 0xF13"
abbreviation (input) MHARTID_ADDR :: u32 where "MHARTID_ADDR \<equiv> 0xF14"
abbreviation (input) MSTATUS_ADDR :: u32 where "MSTATUS_ADDR \<equiv> 0x300"
abbreviation (input) MISA_ADDR :: u32 where "MISA_ADDR \<equiv> 0x301"
abbreviation (input) MEDELEG_ADDR :: u32 where "MEDELEG_ADDR \<equiv> 0x302"
abbreviation (input) MIDELEG_ADDR :: u32 where "MIDELEG_ADDR \<equiv> 0x303"
abbreviation (input) MIE_ADDR :: u32 where "MIE_ADDR \<equiv> 0x304"
abbreviation (input) MTVEC_ADDR :: u32 where "MTVEC_ADDR \<equiv> 0x305"
abbreviation (input) MCOUNTEREN_ADDR :: u32 where "MCOUNTEREN_ADDR \<equiv> 0x306"
abbreviation (input) MCOUNTINHIBIT_ADDR :: u32 where "MCOUNTINHIBIT_ADDR \<equiv> 0x320"
abbreviation (input) MSCRATCH_ADDR :: u32 where "MSCRATCH_ADDR \<equiv> 0x340"
abbreviation (input) MEPC_ADDR :: u32 where "MEPC_ADDR \<equiv> 0x341"
abbreviation (input) MCAUSE_ADDR :: u32 where "MCAUSE_ADDR \<equiv> 0x342"
abbreviation (input) MTVAL_ADDR :: u32 where "MTVAL_ADDR \<equiv> 0x343"
abbreviation (input) MIP_ADDR :: u32 where "MIP_ADDR \<equiv> 0x344"
abbreviation (input) PMPCFG0_ADDR :: u32 where "PMPCFG0_ADDR \<equiv> 0x3A0"
abbreviation (input) PMPCFG1_ADDR :: u32 where "PMPCFG1_ADDR \<equiv> 0x3A1"
abbreviation (input) PMPCFG2_ADDR :: u32 where "PMPCFG2_ADDR \<equiv> 0x3A2"
abbreviation (input) PMPCFG3_ADDR :: u32 where "PMPCFG3_ADDR \<equiv> 0x3A3"
abbreviation (input) PMPADDR0_ADDR :: u32 where "PMPADDR0_ADDR \<equiv> 0x3B0"
abbreviation (input) PMPADDR1_ADDR :: u32 where "PMPADDR1_ADDR \<equiv> 0x3B1"
abbreviation (input) PMPADDR2_ADDR :: u32 where "PMPADDR2_ADDR \<equiv> 0x3B2"
abbreviation (input) PMPADDR3_ADDR :: u32 where "PMPADDR3_ADDR \<equiv> 0x3B3"
abbreviation (input) PMPADDR4_ADDR :: u32 where "PMPADDR4_ADDR \<equiv> 0x3B4"
abbreviation (input) PMPADDR5_ADDR :: u32 where "PMPADDR5_ADDR \<equiv> 0x3B5"
abbreviation (input) PMPADDR6_ADDR :: u32 where "PMPADDR6_ADDR \<equiv> 0x3B6"
abbreviation (input) PMPADDR7_ADDR :: u32 where "PMPADDR7_ADDR \<equiv> 0x3B7"
abbreviation (input) PMPADDR8_ADDR :: u32 where "PMPADDR8_ADDR \<equiv> 0x3B8"
abbreviation (input) PMPADDR9_ADDR :: u32 where "PMPADDR9_ADDR \<equiv> 0x3B9"
abbreviation (input) PMPADDR10_ADDR :: u32 where "PMPADDR10_ADDR \<equiv> 0x3BA"
abbreviation (input) PMPADDR11_ADDR :: u32 where "PMPADDR11_ADDR \<equiv> 0x3BB"
abbreviation (input) PMPADDR12_ADDR :: u32 where "PMPADDR12_ADDR \<equiv> 0x3BC"
abbreviation (input) PMPADDR13_ADDR :: u32 where "PMPADDR13_ADDR \<equiv> 0x3BD"
abbreviation (input) PMPADDR14_ADDR :: u32 where "PMPADDR14_ADDR \<equiv> 0x3BE"
abbreviation (input) PMPADDR15_ADDR :: u32 where "PMPADDR15_ADDR \<equiv> 0x3BF"
abbreviation (input) SSTATUS_ADDR :: u32 where "SSTATUS_ADDR \<equiv> 0x100"
abbreviation (input) SEDELEG_ADDR :: u32 where "SEDELEG_ADDR \<equiv> 0x102"
abbreviation (input) SIDELEG_ADDR :: u32 where "SIDELEG_ADDR \<equiv> 0x103"
abbreviation (input) SIE_ADDR :: u32 where "SIE_ADDR \<equiv> 0x104"
abbreviation (input) STVEC_ADDR :: u32 where "STVEC_ADDR \<equiv> 0x105"
abbreviation (input) SCOUNTEREN_ADDR :: u32 where "SCOUNTEREN_ADDR \<equiv> 0x106"
abbreviation (input) SSCRATCH_ADDR :: u32 where "SSCRATCH_ADDR \<equiv> 0x140"
abbreviation (input) SEPC_ADDR :: u32 where "SEPC_ADDR \<equiv> 0x141"
abbreviation (input) SCAUSE_ADDR :: u32 where "SCAUSE_ADDR \<equiv> 0x142"
abbreviation (input) STVAL_ADDR :: u32 where "STVAL_ADDR \<equiv> 0x143"
abbreviation (input) SIP_ADDR :: u32 where "SIP_ADDR \<equiv> 0x144"
abbreviation (input) SATP_ADDR :: u32 where "SATP_ADDR \<equiv> 0x180"
abbreviation (input) USTATUS_ADDR :: u32 where "USTATUS_ADDR \<equiv> 0x000"
abbreviation (input) UIE_ADDR :: u32 where "UIE_ADDR \<equiv> 0x004"
abbreviation (input) UTVEC_ADDR :: u32 where "UTVEC_ADDR \<equiv> 0x005"
abbreviation (input) USCRATCH_ADDR :: u32 where "USCRATCH_ADDR \<equiv> 0x040"
abbreviation (input) UEPC_ADDR :: u32 where "UEPC_ADDR \<equiv> 0x041"
abbreviation (input) UCAUSE_ADDR :: u32 where "UCAUSE_ADDR \<equiv> 0x042"
abbreviation (input) UTVAL_ADDR :: u32 where "UTVAL_ADDR \<equiv> 0x043"
abbreviation (input) UIP_ADDR :: u32 where "UIP_ADDR \<equiv> 0x044"
abbreviation (input) FFLAGS_ADDR :: u32 where "FFLAGS_ADDR \<equiv> 0x001"
abbreviation (input) FRM_ADDR :: u32 where "FRM_ADDR \<equiv> 0x002"
abbreviation (input) FCSR_ADDR :: u32 where "FCSR_ADDR \<equiv> 0x003"
abbreviation (input) HPMCOUNTER3_ADDR :: u32 where "HPMCOUNTER3_ADDR \<equiv> 0xC03"
abbreviation (input) HPMCOUNTER13_ADDR :: u32 where "HPMCOUNTER13_ADDR \<equiv> 0xC0D"
abbreviation (input) HPMCOUNTER23_ADDR :: u32 where "HPMCOUNTER23_ADDR \<equiv> 0xC17"
abbreviation (input) HPMCOUNTER31_ADDR :: u32 where "HPMCOUNTER31_ADDR \<equiv> 0xC1F"
abbreviation (input) HPMCOUNTER3H_ADDR :: u32 where "HPMCOUNTER3H_ADDR \<equiv> 0xC83"
abbreviation (input) HPMCOUNTER13H_ADDR :: u32 where "HPMCOUNTER13H_ADDR \<equiv> 0xC8D"
abbreviation (input) HPMCOUNTER23H_ADDR :: u32 where "HPMCOUNTER23H_ADDR \<equiv> 0xC97"
abbreviation (input) HPMCOUNTER31H_ADDR :: u32 where "HPMCOUNTER31H_ADDR \<equiv> 0xC9F"
abbreviation (input) MHPMCOUNTER3_ADDR :: u32 where "MHPMCOUNTER3_ADDR \<equiv> 0xB03"
abbreviation (input) MHPMCOUNTER13_ADDR :: u32 where "MHPMCOUNTER13_ADDR \<equiv> 0xB0D"
abbreviation (input) MHPMCOUNTER23_ADDR :: u32 where "MHPMCOUNTER23_ADDR \<equiv> 0xB17"
abbreviation (input) MHPMCOUNTER31_ADDR :: u32 where "MHPMCOUNTER31_ADDR \<equiv> 0xB1F"
abbreviation (input) MHPMCOUNTER3H_ADDR :: u32 where "MHPMCOUNTER3H_ADDR \<equiv> 0xB83"
abbreviation (input) MHPMCOUNTER13H_ADDR :: u32 where "MHPMCOUNTER13H_ADDR \<equiv> 0xB8D"
abbreviation (input) MHPMCOUNTER23H_ADDR :: u32 where "MHPMCOUNTER23H_ADDR \<equiv> 0xB97"
abbreviation (input) MHPMCOUNTER31H_ADDR :: u32 where "MHPMCOUNTER31H_ADDR \<equiv> 0xB9F"
abbreviation (input) MHPMEVENT3_ADDR :: u32 where "MHPMEVENT3_ADDR \<equiv> 0x323"
abbreviation (input) MHPMEVENT13_ADDR :: u32 where "MHPMEVENT13_ADDR \<equiv> 0x32D"
abbreviation (input) MHPMEVENT23_ADDR :: u32 where "MHPMEVENT23_ADDR \<equiv> 0x337"
abbreviation (input) MHPMEVENT31_ADDR :: u32 where "MHPMEVENT31_ADDR \<equiv> 0x33F"

text \<open>
  \<open>SWITCH_CASE_MATCH_ANY_HPMCOUNTER_RV32\<close> lists all addresses from counter 3 to counter 31 of the
  five groups.
\<close>

definition ANY_HPMCOUNTER_RV32 :: "u32 \<Rightarrow> bool" where
  "ANY_HPMCOUNTER_RV32 addr \<longleftrightarrow>
     (HPMCOUNTER3_ADDR \<le> addr \<and> addr \<le> HPMCOUNTER31_ADDR) \<or>
     (HPMCOUNTER3H_ADDR \<le> addr \<and> addr \<le> HPMCOUNTER31H_ADDR) \<or>
     (MHPMCOUNTER3_ADDR \<le> addr \<and> addr \<le> MHPMCOUNTER31_ADDR) \<or>
     (MHPMCOUNTER3H_ADDR \<le> addr \<and> addr \<le> MHPMCOUNTER31H_ADDR) \<or>
     (MHPMEVENT3_ADDR \<le> addr \<and> addr \<le> MHPMEVENT31_ADDR)"

section \<open>Operations on single registers\<close>

definition is_valid_privilege_level :: "PrivilegeLevel \<Rightarrow> bool" where
  "is_valid_privilege_level mode \<longleftrightarrow> mode = MachineMode \<or> mode = SupervisorMode \<or> mode = UserMode"

definition has_C_extension :: "u32 \<Rightarrow> bool" where
  "has_C_extension misa_reg \<longleftrightarrow> misa_extensions misa_reg AND MISA_C \<noteq> 0"

definition has_E_base_isa :: "u32 \<Rightarrow> bool" where
  "has_E_base_isa misa_reg \<longleftrightarrow> misa_extensions misa_reg AND MISA_E \<noteq> 0"

definition select_E_base_isa :: "u32 \<Rightarrow> u32" where
  "select_E_base_isa misa_reg =
     (let r = set_misa_extensions (misa_extensions misa_reg AND NOT MISA_I) misa_reg
      in set_misa_extensions (misa_extensions r OR MISA_E) r)"

definition has_user_mode_extension :: "u32 \<Rightarrow> bool" where
  "has_user_mode_extension misa_reg \<longleftrightarrow> misa_extensions misa_reg AND MISA_U \<noteq> 0"

definition has_supervisor_mode_extension :: "u32 \<Rightarrow> bool" where
  "has_supervisor_mode_extension misa_reg \<longleftrightarrow> misa_extensions misa_reg AND MISA_S \<noteq> 0"

definition misa_init :: u32 where
  "misa_init = bf_set 30 2 1 (bf_set 26 4 0 (set_misa_extensions
     (MISA_I OR MISA_M OR MISA_A OR MISA_F OR MISA_C OR MISA_N OR MISA_U OR MISA_S) 0))"

definition get_base_address :: "u32 \<Rightarrow> u32" where
  "get_base_address mtvec_reg = push_bit 2 (mtvec_base mtvec_reg)"

abbreviation (input) mtvec_Direct :: u32 where "mtvec_Direct \<equiv> 0"
abbreviation (input) mtvec_Vectored :: u32 where "mtvec_Vectored \<equiv> 1"

definition mtvec_checked_write :: "u32 \<Rightarrow> u32" where
  "mtvec_checked_write val = (if 1 \<le> mtvec_mode val then set_mtvec_mode 0 val else val)"

definition is_bitset :: "u32 \<Rightarrow> u32 \<Rightarrow> bool" where
  "is_bitset csr_reg bitpos \<longleftrightarrow> csr_reg AND push_bit (unat bitpos) 1 \<noteq> 0"

text \<open>The halves of a 64-bit register, as the \<open>uint32_t\<close> pointers of the table address them.\<close>

definition csr_64_low :: "u64 \<Rightarrow> u32" where
  "csr_64_low r = ucast r"

definition csr_64_high :: "u64 \<Rightarrow> u32" where
  "csr_64_high r = ucast (drop_bit 32 r)"

definition set_csr_64_low :: "u32 \<Rightarrow> u64 \<Rightarrow> u64" where
  "set_csr_64_low v r = push_bit 32 (drop_bit 32 r) OR ucast v"

definition set_csr_64_high :: "u32 \<Rightarrow> u64 \<Rightarrow> u64" where
  "set_csr_64_high v r = take_bit 32 r OR push_bit 32 (ucast v)"

definition csr_64_increment :: "u64 \<Rightarrow> u64" where
  "csr_64_increment r = r + 1"

section \<open>The register table\<close>

record csr_table =
  cycle :: u64
  time :: u64
  instret :: u64
  mvendorid :: u32
  marchid :: u32
  mimpid :: u32
  mhartid :: u32
  mstatus :: u32
  misa :: u32
  medeleg :: u32
  mideleg :: u32
  mie :: u32
  mtvec :: u32
  mcounteren :: u32
  mcountinhibit :: u32
  mscratch :: u32
  mepc :: u32
  mcause :: u32
  mtval :: u32
  mip :: u32
  pmpaddr :: "u32 list"
  pmpcfg :: "u32 list"
  sedeleg :: u32
  sideleg :: u32
  stvec :: u32
  scounteren :: u32
  sscratch :: u32
  sepc :: u32
  scause :: u32
  stval :: u32
  satp :: u32
  utvec :: u32
  uscratch :: u32
  uepc :: u32
  ucause :: u32
  utval :: u32
  fcsr :: u32

definition csr_table_init :: csr_table where
  "csr_table_init = \<lparr>
    cycle = 0, time = 0, instret = 0, mvendorid = 0, marchid = 0, mimpid = 0, mhartid = 0,
     mstatus = 0, misa = misa_init, medeleg = 0, mideleg = 0, mie = 0, mtvec = 0,
     mcounteren = 0, mcountinhibit = 0, mscratch = 0, mepc = 0, mcause = 0, mtval = 0,
     mip = 0, pmpaddr = replicate 16 0, pmpcfg = replicate 4 0, sedeleg = 0, sideleg = 0,
     stvec = 0, scounteren = 0, sscratch = 0, sepc = 0, scause = 0, stval = 0, satp = 0,
     utvec = 0, uscratch = 0, uepc = 0, ucause = 0, utval = 0, fcsr = 0\<rparr>"

type_synonym csr_ptr = "(csr_table \<Rightarrow> u32) \<times> (u32 \<Rightarrow> csr_table \<Rightarrow> csr_table)"

definition ptr_cycle_low :: csr_ptr where
  "ptr_cycle_low = (\<lambda>t. csr_64_low (cycle t), \<lambda>v t. t\<lparr>cycle := set_csr_64_low v (cycle t)\<rparr>)"

definition ptr_cycle_high :: csr_ptr where
  "ptr_cycle_high = (\<lambda>t. csr_64_high (cycle t), \<lambda>v t. t\<lparr>cycle := set_csr_64_high v (cycle t)\<rparr>)"

definition ptr_time_low :: csr_ptr where
  "ptr_time_low = (\<lambda>t. csr_64_low (time t), \<lambda>v t. t\<lparr>time := set_csr_64_low v (time t)\<rparr>)"

definition ptr_time_high :: csr_ptr where
  "ptr_time_high = (\<lambda>t. csr_64_high (time t), \<lambda>v t. t\<lparr>time := set_csr_64_high v (time t)\<rparr>)"

definition ptr_instret_low :: csr_ptr where
  "ptr_instret_low = (\<lambda>t. csr_64_low (instret t), \<lambda>v t. t\<lparr>instret := set_csr_64_low v (instret t)\<rparr>)"

definition ptr_instret_high :: csr_ptr where
  "ptr_instret_high = (\<lambda>t. csr_64_high (instret t), \<lambda>v t. t\<lparr>instret := set_csr_64_high v (instret t)\<rparr>)"

definition ptr_mvendorid :: csr_ptr where
  "ptr_mvendorid = (mvendorid, \<lambda>v t. t\<lparr>mvendorid := v\<rparr>)"

definition ptr_marchid :: csr_ptr where
  "ptr_marchid = (marchid, \<lambda>v t. t\<lparr>marchid := v\<rparr>)"

definition ptr_mimpid :: csr_ptr where
  "ptr_mimpid = (mimpid, \<lambda>v t. t\<lparr>mimpid := v\<rparr>)"

definition ptr_mhartid :: csr_ptr where
  "ptr_mhartid = (mhartid, \<lambda>v t. t\<lparr>mhartid := v\<rparr>)"

definition ptr_mstatus :: csr_ptr where
  "ptr_mstatus = (mstatus, \<lambda>v t. t\<lparr>mstatus := v\<rparr>)"

definition ptr_misa :: csr_ptr where
  "ptr_misa = (misa, \<lambda>v t. t\<lparr>misa := v\<rparr>)"

definition ptr_medeleg :: csr_ptr where
  "ptr_medeleg = (medeleg, \<lambda>v t. t\<lparr>medeleg := v\<rparr>)"

definition ptr_mideleg :: csr_ptr where
  "ptr_mideleg = (mideleg, \<lambda>v t. t\<lparr>mideleg := v\<rparr>)"

definition ptr_mie :: csr_ptr where
  "ptr_mie = (mie, \<lambda>v t. t\<lparr>mie := v\<rparr>)"

definition ptr_mtvec :: csr_ptr where
  "ptr_mtvec = (mtvec, \<lambda>v t. t\<lparr>mtvec := v\<rparr>)"

definition ptr_mcounteren :: csr_ptr where
  "ptr_mcounteren = (mcounteren, \<lambda>v t. t\<lparr>mcounteren := v\<rparr>)"

definition ptr_mcountinhibit :: csr_ptr where
  "ptr_mcountinhibit = (mcountinhibit, \<lambda>v t. t\<lparr>mcountinhibit := v\<rparr>)"

definition ptr_mscratch :: csr_ptr where
  "ptr_mscratch = (mscratch, \<lambda>v t. t\<lparr>mscratch := v\<rparr>)"

definition ptr_mepc :: csr_ptr where
  "ptr_mepc = (mepc, \<lambda>v t. t\<lparr>mepc := v\<rparr>)"

definition ptr_mcause :: csr_ptr where
  "ptr_mcause = (mcause, \<lambda>v t. t\<lparr>mcause := v\<rparr>)"

definition ptr_mtval :: csr_ptr where
  "ptr_mtval = (mtval, \<lambda>v t. t\<lparr>mtval := v\<rparr>)"

definition ptr_mip :: csr_ptr where
  "ptr_mip = (mip, \<lambda>v t. t\<lparr>mip := v\<rparr>)"

definition ptr_pmpaddr :: "nat \<Rightarrow> csr_ptr" where
  "ptr_pmpaddr i = (\<lambda>t. pmpaddr t ! i, \<lambda>v t. t\<lparr>pmpaddr := (pmpaddr t)[i := v]\<rparr>)"

definition ptr_pmpcfg :: "nat \<Rightarrow> csr_ptr" where
  "ptr_pmpcfg i = (\<lambda>t. pmpcfg t ! i, \<lambda>v t. t\<lparr>pmpcfg := (pmpcfg t)[i := v]\<rparr>)"

definition ptr_sedeleg :: csr_ptr where
  "ptr_sedeleg = (sedeleg, \<lambda>v t. t\<lparr>sedeleg := v\<rparr>)"

definition ptr_sideleg :: csr_ptr where
  "ptr_sideleg = (sideleg, \<lambda>v t. t\<lparr>sideleg := v\<rparr>)"

definition ptr_stvec :: csr_ptr where
  "ptr_stvec = (stvec, \<lambda>v t. t\<lparr>stvec := v\<rparr>)"

definition ptr_scounteren :: csr_ptr where
  "ptr_scounteren = (scounteren, \<lambda>v t. t\<lparr>scounteren := v\<rparr>)"

definition ptr_sscratch :: csr_ptr where
  "ptr_sscratch = (sscratch, \<lambda>v t. t\<lparr>sscratch := v\<rparr>)"

definition ptr_sepc :: csr_ptr where
  "ptr_sepc = (sepc, \<lambda>v t. t\<lparr>sepc := v\<rparr>)"

definition ptr_scause :: csr_ptr where
  "ptr_scause = (scause, \<lambda>v t. t\<lparr>scause := v\<rparr>)"

definition ptr_stval :: csr_ptr where
  "ptr_stval = (stval, \<lambda>v t. t\<lparr>stval := v\<rparr>)"

definition ptr_satp :: csr_ptr where
  "ptr_satp = (satp, \<lambda>v t. t\<lparr>satp := v\<rparr>)"

definition ptr_utvec :: csr_ptr where
  "ptr_utvec = (utvec, \<lambda>v t. t\<lparr>utvec := v\<rparr>)"

definition ptr_uscratch :: csr_ptr where
  "ptr_uscratch = (uscratch, \<lambda>v t. t\<lparr>uscratch := v\<rparr>)"

definition ptr_uepc :: csr_ptr where
  "ptr_uepc = (uepc, \<lambda>v t. t\<lparr>uepc := v\<rparr>)"

definition ptr_ucause :: csr_ptr where
  "ptr_ucause = (ucause, \<lambda>v t. t\<lparr>ucause := v\<rparr>)"

definition ptr_utval :: csr_ptr where
  "ptr_utval = (utval, \<lambda>v t. t\<lparr>utval := v\<rparr>)"

definition ptr_fcsr :: csr_ptr where
  "ptr_fcsr = (fcsr, \<lambda>v t. t\<lparr>fcsr := v\<rparr>)"

definition register_mapping :: "(u32 \<times> csr_ptr) list" where
  "register_mapping =
     [(CYCLE_ADDR, ptr_cycle_low),
      (CYCLEH_ADDR, ptr_cycle_high),
      (TIME_ADDR, ptr_time_low),
      (TIMEH_ADDR, ptr_time_high),
      (INSTRET_ADDR, ptr_instret_low),
      (INSTRETH_ADDR, ptr_instret_high),
      (MCYCLE_ADDR, ptr_cycle_low),
      (MCYCLEH_ADDR, ptr_cycle_high),
      (MTIME_ADDR, ptr_time_low),
      (MTIMEH_ADDR, ptr_time_high),
      (MINSTRET_ADDR, ptr_instret_low),
      (MINSTRETH_ADDR, ptr_instret_high),
      (MVENDORID_ADDR, ptr_mvendorid),
      (MARCHID_ADDR, ptr_marchid),
      (MIMPID_ADDR, ptr_mimpid),
      (MHARTID_ADDR, ptr_mhartid),
      (MSTATUS_ADDR, ptr_mstatus),
      (MISA_ADDR, ptr_misa),
      (MEDELEG_ADDR, ptr_medeleg),
      (MIDELEG_ADDR, ptr_mideleg),
      (MIE_ADDR, ptr_mie),
      (MTVEC_ADDR, ptr_mtvec),
      (MCOUNTEREN_ADDR, ptr_mcounteren),
      (MCOUNTINHIBIT_ADDR, ptr_mcountinhibit),
      (MSCRATCH_ADDR, ptr_mscratch),
      (MEPC_ADDR, ptr_mepc),
      (MCAUSE_ADDR, ptr_mcause),
      (MTVAL_ADDR, ptr_mtval),
      (MIP_ADDR, ptr_mip)] @
     map (\<lambda>i. (PMPADDR0_ADDR + of_nat i, ptr_pmpaddr i)) [0..<16] @
     map (\<lambda>i. (PMPCFG0_ADDR + of_nat i, ptr_pmpcfg i)) [0..<4] @
     [(SEDELEG_ADDR, ptr_sedeleg),
      (SIDELEG_ADDR, ptr_sideleg),
      (STVEC_ADDR, ptr_stvec),
      (SCOUNTEREN_ADDR, ptr_scounteren),
      (SSCRATCH_ADDR, ptr_sscratch),
      (SEPC_ADDR, ptr_sepc),
      (SCAUSE_ADDR, ptr_scause),
      (STVAL_ADDR, ptr_stval),
      (SATP_ADDR, ptr_satp),
      (UTVEC_ADDR, ptr_utvec),
      (USCRATCH_ADDR, ptr_uscratch),
      (UEPC_ADDR, ptr_uepc),
      (UCAUSE_ADDR, ptr_ucause),
      (UTVAL_ADDR, ptr_utval),
      (FCSR_ADDR, ptr_fcsr)]"

definition is_valid_csr32_addr :: "u32 \<Rightarrow> bool" where
  "is_valid_csr32_addr addr \<longleftrightarrow> map_of register_mapping addr \<noteq> None"

text \<open>Both functions call \<open>ensure\<close>, which throws on an address that is not in the table.\<close>

definition default_write32 :: "u32 \<Rightarrow> u32 \<Rightarrow> csr_table \<Rightarrow> sim_error + csr_table" where
  "default_write32 addr value t = (case map_of register_mapping addr of
     None \<Rightarrow> Inl RuntimeError
   | Some p \<Rightarrow> Inr (snd p value t))"

definition default_read32 :: "u32 \<Rightarrow> csr_table \<Rightarrow> sim_error + u32" where
  "default_read32 addr t = (case map_of register_mapping addr of
     None \<Rightarrow> Inl RuntimeError
   | Some p \<Rightarrow> Inr (fst p t))"

section \<open>Register cells\<close>

text \<open>Tables whose two arrays have the sizes of the source.\<close>

definition csr_wf :: "csr_table \<Rightarrow> bool" where
  "csr_wf t \<longleftrightarrow> length (pmpaddr t) = 16 \<and> length (pmpcfg t) = 4"

lemma csr_wf_init: "csr_wf csr_table_init"
  by (simp add: csr_wf_def csr_table_init_def)

lemma csr_64_halves:
  "csr_64_low (set_csr_64_low v r) = v"
  "csr_64_high (set_csr_64_high v r) = v"
  "csr_64_low (set_csr_64_high v r) = csr_64_low r"
  "csr_64_high (set_csr_64_low v r) = csr_64_high r"
  by (rule bit_word_eqI; auto simp: csr_64_low_def csr_64_high_def set_csr_64_low_def
      set_csr_64_high_def bit_simps dest: bit_imp_le_length)+

text \<open>A pointer of the table reads what was written through it and keeps the shape of the table.\<close>

definition csr_cell :: "csr_ptr \<Rightarrow> bool" where
  "csr_cell p \<longleftrightarrow> (\<forall>t v. csr_wf t \<longrightarrow> fst p (snd p v t) = v \<and> csr_wf (snd p v t))"

lemma csr_cells_32:
  "csr_cell ptr_mvendorid" "csr_cell ptr_marchid" "csr_cell ptr_mimpid" "csr_cell ptr_mhartid"
  "csr_cell ptr_mstatus" "csr_cell ptr_misa" "csr_cell ptr_medeleg" "csr_cell ptr_mideleg"
  "csr_cell ptr_mie" "csr_cell ptr_mtvec" "csr_cell ptr_mcounteren" "csr_cell ptr_mcountinhibit"
  "csr_cell ptr_mscratch" "csr_cell ptr_mepc" "csr_cell ptr_mcause" "csr_cell ptr_mtval"
  "csr_cell ptr_mip" "csr_cell ptr_sedeleg" "csr_cell ptr_sideleg" "csr_cell ptr_stvec"
  "csr_cell ptr_scounteren" "csr_cell ptr_sscratch" "csr_cell ptr_sepc" "csr_cell ptr_scause"
  "csr_cell ptr_stval" "csr_cell ptr_satp" "csr_cell ptr_utvec" "csr_cell ptr_uscratch"
  "csr_cell ptr_uepc" "csr_cell ptr_ucause" "csr_cell ptr_utval" "csr_cell ptr_fcsr"
  by (simp_all add: csr_cell_def csr_wf_def
      ptr_mvendorid_def ptr_marchid_def ptr_mimpid_def ptr_mhartid_def ptr_mstatus_def
      ptr_misa_def ptr_medeleg_def ptr_mideleg_def ptr_mie_def ptr_mtvec_def ptr_mcounteren_def
      ptr_mcountinhibit_def ptr_mscratch_def ptr_mepc_def ptr_mcause_def ptr_mtval_def
      ptr_mip_def ptr_sedeleg_def ptr_sideleg_def ptr_stvec_def ptr_scounteren_def
      ptr_sscratch_def ptr_sepc_def ptr_scause_def ptr_stval_def ptr_satp_def ptr_utvec_def
      ptr_uscratch_def ptr_uepc_def ptr_ucause_def ptr_utval_def ptr_fcsr_def)

lemma csr_cells_64:
  "csr_cell ptr_cycle_low" "csr_cell ptr_cycle_high" "csr_cell ptr_time_low"
  "csr_cell ptr_time_high" "csr_cell ptr_instret_low" "csr_cell ptr_instret_high"
  by (simp_all add: csr_cell_def csr_wf_def csr_64_halves
      ptr_cycle_low_def ptr_cycle_high_def ptr_time_low_def ptr_time_high_def
      ptr_instret_low_def ptr_instret_high_def)

lemma csr_cells_pmp:
  "i < 16 \<Longrightarrow> csr_cell (ptr_pmpaddr i)"
  "i < 4 \<Longrightarrow> csr_cell (ptr_pmpcfg i)"
  by (simp_all add: csr_cell_def csr_wf_def ptr_pmpaddr_def ptr_pmpcfg_def)

lemma register_mapping_cells: "(a, p) \<in> set register_mapping \<Longrightarrow> csr_cell p"
  unfolding register_mapping_def
  by (auto simp: csr_cells_32 csr_cells_64 csr_cells_pmp)

lemma map_of_register_mapping: "map_of register_mapping a = Some p \<Longrightarrow> csr_cell p"
  by (metis map_of_SomeD register_mapping_cells)

section \<open>The interface of a register file\<close>

text \<open>
  What a client of the table relies on: valid addresses can be read and written, a read returns
  the last write, invalid addresses throw.
\<close>

locale register_file =
  fixes valid :: "'a \<Rightarrow> bool"
    and rd :: "'a \<Rightarrow> 's \<Rightarrow> 'e + 'v"
    and wr :: "'a \<Rightarrow> 'v \<Rightarrow> 's \<Rightarrow> 'e + 's"
    and inv :: "'s \<Rightarrow> bool"
  assumes rd_valid: "valid a \<longleftrightarrow> (\<exists>v. rd a s = Inr v)"
    and wr_valid: "valid a \<longleftrightarrow> (\<exists>s'. wr a v s = Inr s')"
    and wr_inv: "inv s \<Longrightarrow> wr a v s = Inr s' \<Longrightarrow> inv s'"
    and rd_wr: "inv s \<Longrightarrow> wr a v s = Inr s' \<Longrightarrow> rd a s' = Inr v"
begin

text \<open>Read-modify-write, as the set and clear instructions use the file.\<close>

definition rmw :: "'a \<Rightarrow> ('v \<Rightarrow> 'v) \<Rightarrow> 's \<Rightarrow> 'e + 's" where
  "rmw a f s = (case rd a s of Inl e \<Rightarrow> Inl e | Inr v \<Rightarrow> wr a (f v) s)"

lemma rmw_valid: "valid a \<longleftrightarrow> (\<exists>s'. rmw a f s = Inr s')"
  using rd_valid [of a s] wr_valid [of a _ s] by (auto simp: rmw_def split: sum.split)

lemma rmw_rd:
  assumes "inv s" and "rd a s = Inr v" and "rmw a f s = Inr s'"
  shows "rd a s' = Inr (f v) \<and> inv s'"
  using assms rd_wr wr_inv by (auto simp: rmw_def)

lemma rmw_rmw:
  assumes "inv s" and "rmw a f s = Inr s'" and "rmw a g s' = Inr s''" and "rd a s = Inr v"
  shows "rd a s'' = Inr (g (f v))"
  using assms rmw_rd by metis

end

interpretation csr_file: register_file is_valid_csr32_addr default_read32 default_write32 csr_wf
proof
  show "is_valid_csr32_addr a \<longleftrightarrow> (\<exists>v. default_read32 a s = Inr v)" for a s
    by (auto simp: is_valid_csr32_addr_def default_read32_def split: option.split)
  show "is_valid_csr32_addr a \<longleftrightarrow> (\<exists>s'. default_write32 a v s = Inr s')" for a v s
    by (auto simp: is_valid_csr32_addr_def default_write32_def split: option.split)
  show "csr_wf s \<Longrightarrow> default_write32 a v s = Inr s' \<Longrightarrow> csr_wf s'" for a v s s'
    using map_of_register_mapping
    by (auto simp: default_write32_def csr_cell_def split: option.splits)
  show "csr_wf s \<Longrightarrow> default_write32 a v s = Inr s' \<Longrightarrow> default_read32 a s' = Inr v" for a v s s'
    using map_of_register_mapping
    by (auto simp: default_write32_def default_read32_def csr_cell_def split: option.splits)
qed

lemma default_read32_error: "default_read32 addr t = Inl e \<Longrightarrow> \<not> is_valid_csr32_addr addr"
  by (auto simp: default_read32_def is_valid_csr32_addr_def split: option.splits)

text \<open>The reset value of \<open>misa\<close>: I, M, A, F, C with N, U and S, and no D extension.\<close>

lemma misa_init_value: "misa_init = 0x40143125"
  by (simp add: misa_init_def bf_set_def mask_eq_exp_minus_1 take_bit_eq_mod push_bit_eq_mult)

lemma misa_init_extensions:
  "has_C_extension misa_init" "has_user_mode_extension misa_init"
  "has_supervisor_mode_extension misa_init" "\<not> has_E_base_isa misa_init"
  "misa_init AND M_ISA_EXT \<noteq> 0" "misa_init AND A_ISA_EXT \<noteq> 0" "misa_init AND F_ISA_EXT \<noteq> 0"
  "misa_init AND D_ISA_EXT = 0"
  by (simp_all add: misa_init_value has_C_extension_def has_user_mode_extension_def
      has_supervisor_mode_extension_def has_E_base_isa_def bf_get_def take_bit_eq_mask
      mask_eq_exp_minus_1)

end
