(* ===== verification/Fp.thy ===== *)
theory Fp
  imports Prelude
begin

text \<open>
  \<open>vp/src/core/common/fp.h\<close>: rounding modes, sign and NaN tests on the raw encodings, and the
  floating-point register file with NaN-boxing. A \<open>float32_t\<close> or \<open>float64_t\<close> is its raw bits.
  The arithmetic of the softfloat library is a parameter of the instruction simulator.
\<close>

unbundle bit_operations_syntax

abbreviation (input) FRM_RNE :: u32 where "FRM_RNE \<equiv> 0b000"
abbreviation (input) FRM_RTZ :: u32 where "FRM_RTZ \<equiv> 0b001"
abbreviation (input) FRM_RDN :: u32 where "FRM_RDN \<equiv> 0b010"
abbreviation (input) FRM_RUP :: u32 where "FRM_RUP \<equiv> 0b011"
abbreviation (input) FRM_RMM :: u32 where "FRM_RMM \<equiv> 0b100"
abbreviation (input) FRM_DYN :: u32 where "FRM_DYN \<equiv> 0b111"

abbreviation (input) f32_defaultNaN :: u32 where "f32_defaultNaN \<equiv> 0x7fc00000"
abbreviation (input) f64_defaultNaN :: u64 where "f64_defaultNaN \<equiv> 0x7FF8000000000000"

abbreviation (input) F32_SIGN_BIT :: u32 where "F32_SIGN_BIT \<equiv> 0x80000000"
abbreviation (input) F64_SIGN_BIT :: u64 where "F64_SIGN_BIT \<equiv> 0x8000000000000000"

definition f32_isNegative :: "u32 \<Rightarrow> bool" where
  "f32_isNegative x \<longleftrightarrow> x AND F32_SIGN_BIT \<noteq> 0"

definition f64_isNegative :: "u64 \<Rightarrow> bool" where
  "f64_isNegative x \<longleftrightarrow> x AND F64_SIGN_BIT \<noteq> 0"

definition f32_neg :: "u32 \<Rightarrow> u32" where
  "f32_neg x = x XOR F32_SIGN_BIT"

definition f64_neg :: "u64 \<Rightarrow> u64" where
  "f64_neg x = x XOR F64_SIGN_BIT"

definition f32_isNaN :: "u32 \<Rightarrow> bool" where
  "f32_isNaN x \<longleftrightarrow> NOT x AND 0x7F800000 = 0 \<and> x AND 0x007FFFFF \<noteq> 0"

definition f64_isNaN :: "u64 \<Rightarrow> bool" where
  "f64_isNaN x \<longleftrightarrow> NOT x AND 0x7FF0000000000000 = 0 \<and> x AND 0x000FFFFFFFFFFFFF \<noteq> 0"

section \<open>The register file\<close>

text \<open>\<open>struct FpRegs\<close>: 32 registers of 64 bits; the index is a register number of an instruction.\<close>

type_synonym FpRegs = "u64 list"

definition is_boxed_f32 :: "u64 \<Rightarrow> bool" where
  "is_boxed_f32 x \<longleftrightarrow> drop_bit 32 x = 0xFFFFFFFF"

definition unbox_f32 :: "u64 \<Rightarrow> u32" where
  "unbox_f32 x = ucast x"

definition box_f32 :: "u32 \<Rightarrow> u64" where
  "box_f32 x = ucast x OR 0xFFFFFFFF00000000"

definition fp_write64 :: "u32 \<Rightarrow> u64 \<Rightarrow> FpRegs \<Rightarrow> FpRegs" where
  "fp_write64 idx x rs = rs[unat idx := x]"

definition fp_write32 :: "u32 \<Rightarrow> u32 \<Rightarrow> FpRegs \<Rightarrow> FpRegs" where
  "fp_write32 idx x rs = fp_write64 idx (box_f32 x) rs"

definition fp_u32 :: "u32 \<Rightarrow> FpRegs \<Rightarrow> u32" where
  "fp_u32 idx rs = ucast (rs ! unat idx)"

definition fp_f32 :: "u32 \<Rightarrow> FpRegs \<Rightarrow> u32" where
  "fp_f32 idx rs = (if is_boxed_f32 (rs ! unat idx) then unbox_f32 (rs ! unat idx) else f32_defaultNaN)"

definition fp_f64 :: "u32 \<Rightarrow> FpRegs \<Rightarrow> u64" where
  "fp_f64 idx rs = rs ! unat idx"

section \<open>Facts\<close>

lemma box_f32_high: "(0xFFFFFFFF00000000 :: u64) = push_bit 32 (mask 32)"
  by (simp add: mask_eq_exp_minus_1 push_bit_eq_mult)

lemma is_boxed_box [simp]: "is_boxed_f32 (box_f32 x)"
proof -
  have "drop_bit 32 (box_f32 x) = mask 32"
    unfolding box_f32_def box_f32_high
    by (rule bit_word_eqI) (auto simp: bit_simps dest: bit_imp_le_length)
  then show ?thesis
    by (simp add: is_boxed_f32_def mask_eq_exp_minus_1)
qed

lemma unbox_box [simp]: "unbox_f32 (box_f32 x) = x"
  unfolding unbox_f32_def box_f32_def box_f32_high
  by (rule bit_word_eqI) (auto simp: bit_simps)

lemma box_unbox: "is_boxed_f32 x \<Longrightarrow> box_f32 (unbox_f32 x) = x"
proof -
  assume "is_boxed_f32 x"
  then have top: "drop_bit 32 x = mask 32"
    by (simp add: is_boxed_f32_def mask_eq_exp_minus_1)
  have "bit x n" if "32 \<le> n" "n < 64" for n
  proof -
    have "bit (drop_bit 32 x) (n - 32)" using that by (auto simp: top bit_simps)
    then show ?thesis using that by (simp add: bit_simps)
  qed
  then show ?thesis
    unfolding unbox_f32_def box_f32_def box_f32_high
    by (intro bit_word_eqI) (auto simp: bit_simps)
qed

lemma length_fp_write [simp]:
  "length (fp_write64 idx x rs) = length rs" "length (fp_write32 idx y rs) = length rs"
  by (simp_all add: fp_write64_def fp_write32_def)

lemma f32_neg_neg [simp]: "f32_neg (f32_neg x) = x"
  by (simp add: f32_neg_def xor.assoc)

lemma f32_neg_isNaN [simp]: "f32_isNaN (f32_neg x) = f32_isNaN x"
proof -
  have "NOT (x XOR 0x80000000) AND 0x7F800000 = NOT x AND 0x7F800000"
    "(x XOR 0x80000000) AND 0x007FFFFF = x AND 0x007FFFFF"
    by (rule u32_eqI; simp add: bit_simps)+
  then show ?thesis by (simp add: f32_isNaN_def f32_neg_def)
qed

end
