(* ===== verification/Bus.thy ===== *)
theory Bus
  imports Prelude
begin

text \<open>
  The memory side of the platform: \<open>platform/common/bus.h\<close> (\<open>PortMapping\<close>, \<open>SimpleBus\<close>,
  \<open>PeripheralWriteConnector\<close>, \<open>BusLock\<close>), \<open>platform/common/memory.h\<close> (\<open>SimpleMemory\<close>),
  \<open>core/common/dmi.h\<close> (\<open>MemoryDMI\<close>) and the default method of \<open>core/common/bus_lock_if.h\<close>.
  The interfaces other components rely on are locales: \<open>lockable\<close> for a lock held by at most one
  hart and \<open>byte_memory\<close> for a store of bytes; both are interpreted here.
\<close>

unbundle bit_operations_syntax

section \<open>The bus lock\<close>

record BusLock =
  locked :: bool
  owner :: u32

definition BusLock_init :: BusLock where
  "BusLock_init = \<lparr>locked = False, owner = 0\<rparr>"

definition is_locked :: "BusLock \<Rightarrow> bool" where
  "is_locked l = locked l"

definition is_locked_by :: "u32 \<Rightarrow> BusLock \<Rightarrow> bool" where
  "is_locked_by hart_id l \<longleftrightarrow> locked l \<and> owner l = hart_id"

definition unlock :: "u32 \<Rightarrow> BusLock \<Rightarrow> BusLock" where
  "unlock hart_id l = (if locked l \<and> owner l = hart_id then l\<lparr>locked := False\<rparr> else l)"

text \<open>The part of \<open>BusLock::lock\<close> after the wait; \<open>None\<close> is the failing assertion.\<close>

definition acquire :: "u32 \<Rightarrow> BusLock \<Rightarrow> BusLock option" where
  "acquire hart_id l =
     (if \<not> locked l \<or> hart_id = owner l then Some (l\<lparr>locked := True, owner := hart_id\<rparr>) else None)"

text \<open>
  \<open>while (locked) sc_core::wait(lock_event)\<close>: \<open>wait_event\<close> is the simulation kernel, which lets
  other processes run until the event is notified (\<open>None\<close>: it never is). The loop need not end;
  \<open>None\<close> is the value of a wait that never returns.
\<close>

partial_function (option) wait_until_unlocked ::
    "('s \<Rightarrow> BusLock) \<Rightarrow> ('s \<Rightarrow> 's option) \<Rightarrow> 's \<Rightarrow> 's option" where
  "wait_until_unlocked bl wait_event s =
     (if locked (bl s) then Option.bind (wait_event s) (wait_until_unlocked bl wait_event) else Some s)"

definition wait_unlocked_act ::
    "('s \<Rightarrow> BusLock) \<Rightarrow> ('s \<Rightarrow> 's option) \<Rightarrow> ('s, unit) act" where
  "wait_unlocked_act bl wait_event = (\<lambda>s. case wait_until_unlocked bl wait_event s of
     None \<Rightarrow> (Blocked, s)
   | Some s' \<Rightarrow> (Ok (), s'))"

definition lock_act ::
    "('s \<Rightarrow> BusLock) \<Rightarrow> (BusLock \<Rightarrow> 's \<Rightarrow> 's) \<Rightarrow> ('s \<Rightarrow> 's option) \<Rightarrow> u32 \<Rightarrow> ('s, unit) act" where
  "lock_act bl put_bl wait_event hart_id =
     seqM (whenM (\<lambda>s. locked (bl s) \<and> hart_id \<noteq> owner (bl s)) (wait_unlocked_act bl wait_event))
       (\<lambda>s. case acquire hart_id (bl s) of
          None \<Rightarrow> (Fail AssertionFailed, s)
        | Some l \<Rightarrow> (Ok (), put_bl l s))"

text \<open>\<open>bus_lock_if::wait_for_access_rights\<close>\<close>

definition wait_for_access_rights ::
    "('s \<Rightarrow> BusLock) \<Rightarrow> ('s \<Rightarrow> 's option) \<Rightarrow> u32 \<Rightarrow> ('s, unit) act" where
  "wait_for_access_rights bl wait_event hart_id =
     whenM (\<lambda>s. is_locked (bl s) \<and> \<not> is_locked_by hart_id (bl s)) (wait_unlocked_act bl wait_event)"

lemma wait_until_unlocked_free:
  assumes "wait_until_unlocked bl wt s = Some s'"
  shows "\<not> locked (bl s')"
  using _ assms
proof (rule wait_until_unlocked.raw_induct [where P = "\<lambda>bl _ _ s'. \<not> locked (bl s')"])
  fix f :: "('a \<Rightarrow> BusLock) \<Rightarrow> ('a \<Rightarrow> 'a option) \<Rightarrow> 'a \<Rightarrow> 'a option" and bl wt s s'
  assume IH: "\<And>bl wt s s'. f bl wt s = Some s' \<Longrightarrow> \<not> locked (bl s')"
    and "(if locked (bl s) then Option.bind (wt s) (f bl wt) else Some s) = Some s'"
  then show "\<not> locked (bl s')"
    by (cases "locked (bl s)") (auto dest: IH simp: bind_eq_Some_conv)
qed

lemma wait_until_unlocked_now [simp]:
  "\<not> locked (bl s) \<Longrightarrow> wait_until_unlocked bl wt s = Some s"
  by (simp add: wait_until_unlocked.simps)

text \<open>
  The wait returns if the other processes keep notifying the event and some measure of their
  remaining work decreases until the lock is free.
\<close>

lemma wait_until_unlocked_returns:
  assumes "\<And>s. locked (bl s) \<Longrightarrow> \<exists>s'. wt s = Some s' \<and> (work s' < (work s :: nat) \<or> \<not> locked (bl s'))"
  shows "\<exists>s'. wait_until_unlocked bl wt s = Some s'"
proof (induction "work s" arbitrary: s rule: less_induct)
  case less
  show ?case
  proof (cases "locked (bl s)")
    case True
    from assms [OF this] obtain s' where s': "wt s = Some s'" "work s' < work s \<or> \<not> locked (bl s')"
      by blast
    then have "\<exists>s''. wait_until_unlocked bl wt s' = Some s''"
      using less [of s'] by (auto simp: wait_until_unlocked_now)
    with True s' show ?thesis by (simp add: wait_until_unlocked.simps [of bl wt s])
  qed simp
qed

subsection \<open>The lock interface\<close>

locale lockable =
  fixes holds :: "'h \<Rightarrow> 'l \<Rightarrow> bool"
    and acq :: "'h \<Rightarrow> 'l \<Rightarrow> 'l option"
    and rel :: "'h \<Rightarrow> 'l \<Rightarrow> 'l"
  assumes holds_unique: "holds h l \<Longrightarrow> holds h' l \<Longrightarrow> h = h'"
    and acq_holds: "acq h l = Some l' \<Longrightarrow> holds h l'"
    and acq_iff: "(\<exists>l'. acq h l = Some l') \<longleftrightarrow> (\<forall>h'. holds h' l \<longrightarrow> h' = h)"
    and rel_own: "\<not> holds h (rel h l)"
    and rel_other: "h \<noteq> h' \<Longrightarrow> holds h (rel h' l) = holds h l"
begin

lemma acq_keeps: "holds h l \<Longrightarrow> acq h' l = Some l' \<Longrightarrow> holds h l'"
  using acq_holds acq_iff by metis

text \<open>
  Events of other harts: an attempt to take the lock (which leaves it alone when it fails) or a
  release. Whatever the other harts do, a hart that holds the lock keeps it.
\<close>

definition attempt :: "'h \<Rightarrow> 'l \<Rightarrow> 'l" where
  "attempt h l = (case acq h l of None \<Rightarrow> l | Some l' \<Rightarrow> l')"

lemma others_keep:
  assumes "holds h l" and "\<forall>e \<in> set es. snd e \<noteq> h"
  shows "holds h (fold (\<lambda>e. if fst e then attempt (snd e) else rel (snd e)) es l)"
  using assms
proof (induction es arbitrary: l)
  case (Cons e es)
  have "holds h ((if fst e then attempt (snd e) else rel (snd e)) l)"
    using Cons.prems acq_keeps rel_other by (auto simp: attempt_def split: option.split)
  with Cons show ?case by simp
qed simp

end

interpretation bus_lock: lockable is_locked_by acquire unlock
  by unfold_locales
    (auto simp: is_locked_by_def acquire_def unlock_def split: if_splits)

lemma unlock_not_locked_by [simp]: "\<not> is_locked_by h (unlock h l)"
  by (rule bus_lock.rel_own)

section \<open>TLM payloads and the bus\<close>

datatype tlm_command = TLM_READ_COMMAND | TLM_WRITE_COMMAND | TLM_IGNORE_COMMAND

datatype tlm_response = TLM_OK_RESPONSE | TLM_ADDRESS_ERROR_RESPONSE | TLM_GENERIC_ERROR_RESPONSE

record tlm_generic_payload =
  command :: tlm_command
  address :: u64
  data_ptr :: "u8 list"
  response_status :: tlm_response

definition is_response_error :: "tlm_generic_payload \<Rightarrow> bool" where
  "is_response_error tr \<longleftrightarrow> response_status tr \<noteq> TLM_OK_RESPONSE"

text \<open>A target transports a payload with a delay; both may be changed.\<close>

type_synonym 's tlm_target = "tlm_generic_payload \<Rightarrow> nat \<Rightarrow> ('s, tlm_generic_payload \<times> nat) act"

record PortMapping =
  port_start :: u64
  port_end :: u64

definition port_ok :: "PortMapping \<Rightarrow> bool" where
  "port_ok p \<longleftrightarrow> port_end p \<ge> port_start p"

definition port_contains :: "PortMapping \<Rightarrow> u64 \<Rightarrow> bool" where
  "port_contains p addr \<longleftrightarrow> addr \<ge> port_start p \<and> addr \<le> port_end p"

definition global_to_local :: "PortMapping \<Rightarrow> u64 \<Rightarrow> u64" where
  "global_to_local p addr = addr - port_start p"

primrec bus_decode_from :: "int \<Rightarrow> PortMapping list \<Rightarrow> u64 \<Rightarrow> int" where
  "bus_decode_from i [] addr = - 1"
| "bus_decode_from i (p # ps) addr = (if port_contains p addr then i else bus_decode_from (i + 1) ps addr)"

definition bus_decode :: "PortMapping list \<Rightarrow> u64 \<Rightarrow> int" where
  "bus_decode ports addr = bus_decode_from 0 ports addr"

definition bus_transport :: "PortMapping list \<Rightarrow> 's tlm_target list \<Rightarrow> 's tlm_target" where
  "bus_transport ports isocks tr delay =
     (let addr = address tr; id = bus_decode ports addr in
      if id < 0 then ret (tr\<lparr>response_status := TLM_ADDRESS_ERROR_RESPONSE\<rparr>, delay)
      else (isocks ! nat id)
             (tr\<lparr>address := global_to_local (ports ! nat id) addr\<rparr>) delay)"

definition bus_transport_dbg ::
    "PortMapping list \<Rightarrow> (tlm_generic_payload \<Rightarrow> ('s, tlm_generic_payload \<times> nat) act) list
       \<Rightarrow> tlm_generic_payload \<Rightarrow> ('s, tlm_generic_payload \<times> nat) act" where
  "bus_transport_dbg ports isocks tr =
     (let addr = address tr; id = bus_decode ports addr in
      if id < 0 then ret (tr\<lparr>response_status := TLM_ADDRESS_ERROR_RESPONSE\<rparr>, 0)
      else (isocks ! nat id)
             (tr\<lparr>address := global_to_local (ports ! nat id) addr\<rparr>))"

text \<open>\<open>PeripheralWriteConnector::transport\<close>\<close>

definition connector_transport ::
    "('s \<Rightarrow> BusLock) \<Rightarrow> ('s \<Rightarrow> 's option) \<Rightarrow> 's tlm_target \<Rightarrow> 's tlm_target" where
  "connector_transport bl wait_event isock tr delay =
     seqM (wait_unlocked_act bl wait_event)
       (bindM (isock tr delay) (\<lambda>(tr', delay').
          if response_status tr' = TLM_ADDRESS_ERROR_RESPONSE then failM RuntimeError
          else ret (tr', delay')))"

lemma bus_decode_from_range:
  "bus_decode_from i ps addr = - 1 \<or>
     (i \<le> bus_decode_from i ps addr \<and> bus_decode_from i ps addr < i + int (length ps))"
proof (induction ps arbitrary: i)
  case (Cons p ps)
  show ?case using Cons [of "i + 1"] by auto
qed simp

lemma bus_decode_from_spec:
  assumes "0 \<le> i"
  shows "bus_decode_from i ps addr = i + int n \<longleftrightarrow>
    n < length ps \<and> port_contains (ps ! n) addr \<and> (\<forall>m < n. \<not> port_contains (ps ! m) addr)"
  using assms
proof (induction ps arbitrary: i n)
  case (Cons p ps)
  show ?case
  proof (cases n)
    case 0
    then show ?thesis
      using bus_decode_from_range [of "i + 1" ps addr] Cons.prems by auto
  next
    case (Suc m)
    have *: "bus_decode_from (i + 1) ps addr = i + int n \<longleftrightarrow>
        m < length ps \<and> port_contains (ps ! m) addr \<and> (\<forall>k < m. \<not> port_contains (ps ! k) addr)"
      using Cons.IH [of "i + 1" m] Cons.prems Suc by (simp add: algebra_simps)
    show ?thesis
      using * Suc by (auto simp: less_Suc_eq_0_disj)
  qed
qed simp

section \<open>Stores of bytes\<close>

text \<open>
  What a client of a memory relies on: reads and writes succeed on the same ranges of addresses,
  a read returns the last write to its range, and is not affected by writes elsewhere.
\<close>

locale byte_memory =
  fixes rd :: "nat \<Rightarrow> nat \<Rightarrow> 's \<Rightarrow> u8 list option"
    and wr :: "nat \<Rightarrow> u8 list \<Rightarrow> 's \<Rightarrow> 's option"
  assumes rd_length: "rd a n s = Some bs \<Longrightarrow> length bs = n"
    and wr_rd_dom: "(\<exists>s'. wr a bs s = Some s') \<longleftrightarrow> (\<exists>x. rd a (length bs) s = Some x)"
    and rd_wr_same: "wr a bs s = Some s' \<Longrightarrow> rd a (length bs) s' = Some bs"
    and rd_wr_other: "wr a bs s = Some s' \<Longrightarrow> b + n \<le> a \<or> a + length bs \<le> b \<Longrightarrow> rd b n s' = rd b n s"
begin

definition load_le :: "nat \<Rightarrow> nat \<Rightarrow> 's \<Rightarrow> u64 option" where
  "load_le n a s = map_option of_bytes (rd a n s)"

definition store_le :: "nat \<Rightarrow> nat \<Rightarrow> u64 \<Rightarrow> 's \<Rightarrow> 's option" where
  "store_le n a v s = wr a (to_bytes n v) s"

lemma load_store_le:
  "store_le n a v s = Some s' \<Longrightarrow> load_le n a s' = Some (take_bit (8 * n) v)"
  using rd_wr_same [of a "to_bytes n v" s s'] by (simp add: load_le_def store_le_def of_to_bytes)

lemma load_store_le_other:
  "store_le n a v s = Some s' \<Longrightarrow> b + m \<le> a \<or> a + n \<le> b \<Longrightarrow> load_le m b s' = load_le m b s"
  using rd_wr_other [of a "to_bytes n v" s s' b m] by (simp add: load_le_def store_le_def)

lemma store_load_le_dom:
  "(\<exists>s'. store_le n a v s = Some s') \<longleftrightarrow> (\<exists>x. load_le n a s = Some x)"
  using wr_rd_dom [of a "to_bytes n v" s] by (auto simp: load_le_def store_le_def)

end

text \<open>An array of the simulation host: the accesses of \<open>memcpy\<close>, \<open>None\<close> out of bounds.\<close>

definition array_read :: "nat \<Rightarrow> nat \<Rightarrow> u8 list \<Rightarrow> u8 list option" where
  "array_read a n xs = (if a + n \<le> length xs then Some (take n (drop a xs)) else None)"

definition array_write :: "nat \<Rightarrow> u8 list \<Rightarrow> u8 list \<Rightarrow> u8 list option" where
  "array_write a bs xs =
     (if a + length bs \<le> length xs then Some (take a xs @ bs @ drop (a + length bs) xs) else None)"

lemma array_write_length: "array_write a bs xs = Some ys \<Longrightarrow> length ys = length xs"
  by (auto simp: array_write_def split: if_splits)

lemma array_write_nth:
  "array_write a bs xs = Some ys \<Longrightarrow> i < length xs \<Longrightarrow>
     ys ! i = (if a \<le> i \<and> i < a + length bs then bs ! (i - a) else xs ! i)"
  by (auto simp: array_write_def nth_append split: if_splits)

lemma array_read_eqI:
  assumes "length xs = length ys" and "\<And>i. a \<le> i \<Longrightarrow> i < a + n \<Longrightarrow> i < length xs \<Longrightarrow> xs ! i = ys ! i"
  shows "array_read a n xs = array_read a n ys"
  using assms by (auto simp: array_read_def intro!: nth_equalityI)

interpretation host_array: byte_memory array_read array_write
proof
  show "array_read a n s = Some bs \<Longrightarrow> length bs = n" for a n s bs
    by (auto simp: array_read_def split: if_splits)
  show "(\<exists>s'. array_write a bs s = Some s') = (\<exists>x. array_read a (length bs) s = Some x)" for a bs s
    by (auto simp: array_read_def array_write_def)
  show "array_write a bs s = Some s' \<Longrightarrow> array_read a (length bs) s' = Some bs" for a bs s s'
    by (auto simp: array_read_def array_write_def split: if_splits)
  show "array_write a bs s = Some s' \<Longrightarrow> b + n \<le> a \<or> a + length bs \<le> b \<Longrightarrow>
      array_read b n s' = array_read b n s" for a bs s s' b n
    by (rule array_read_eqI) (auto simp: array_write_length array_write_nth)
qed

section \<open>\<open>SimpleMemory\<close>\<close>

record SimpleMemory =
  mem_data :: "u8 list"
  mem_size :: u32
  mem_read_only :: bool

definition SimpleMemory_init :: "u32 \<Rightarrow> bool \<Rightarrow> SimpleMemory" where
  "SimpleMemory_init sz ro = \<lparr>mem_data = replicate (unat sz) 0, mem_size = sz, mem_read_only = ro\<rparr>"

definition memory_wf :: "SimpleMemory \<Rightarrow> bool" where
  "memory_wf m \<longleftrightarrow> length (mem_data m) = unat (mem_size m)"

text \<open>The assertions compare 32-bit sums; a sum that wraps lets the access leave the array.\<close>

definition write_data :: "u32 \<Rightarrow> u8 list \<Rightarrow> (SimpleMemory, unit) act" where
  "write_data addr src m =
     (if addr + of_nat (length src) \<le> mem_size m then
        (case array_write (unat addr) src (mem_data m) of
           Some d \<Rightarrow> (Ok (), m\<lparr>mem_data := d\<rparr>)
         | None \<Rightarrow> (Fail OutOfRange, m))
      else (Fail AssertionFailed, m))"

definition read_data :: "u32 \<Rightarrow> nat \<Rightarrow> (SimpleMemory, u8 list) act" where
  "read_data addr num_bytes m =
     (if addr + of_nat num_bytes \<le> mem_size m then
        (case array_read (unat addr) num_bytes (mem_data m) of
           Some bs \<Rightarrow> (Ok bs, m)
         | None \<Rightarrow> (Fail OutOfRange, m))
      else (Fail AssertionFailed, m))"

definition memory_load_data :: "u8 list \<Rightarrow> u64 \<Rightarrow> (SimpleMemory, unit) act" where
  "memory_load_data src dst_addr m =
     (if dst_addr + of_nat (length src) \<le> ucast (mem_size m) then
        (case array_write (unat dst_addr) src (mem_data m) of
           Some d \<Rightarrow> (Ok (), m\<lparr>mem_data := d\<rparr>)
         | None \<Rightarrow> (Fail OutOfRange, m))
      else (Fail AssertionFailed, m))"

definition memory_load_zero :: "u64 \<Rightarrow> nat \<Rightarrow> (SimpleMemory, unit) act" where
  "memory_load_zero dst_addr n = memory_load_data (replicate n 0) dst_addr"

definition memory_transport_dbg ::
    "tlm_generic_payload \<Rightarrow> (SimpleMemory, tlm_generic_payload \<times> nat) act" where
  "memory_transport_dbg tr =
     (let addr = ucast (address tr); len = length (data_ptr tr) in
      seqM (assertM (\<lambda>m. addr < mem_size m))
        (case command tr of
           TLM_WRITE_COMMAND \<Rightarrow> seqM (write_data addr (data_ptr tr)) (ret (tr, len))
         | TLM_READ_COMMAND \<Rightarrow>
             bindM (read_data addr len) (\<lambda>bs. ret (tr\<lparr>data_ptr := bs\<rparr>, len))
         | TLM_IGNORE_COMMAND \<Rightarrow> failM AssertionFailed))"

text \<open>The access takes 10 ns; times are in picoseconds, the resolution of SystemC.\<close>

definition memory_transport :: "SimpleMemory tlm_target" where
  "memory_transport tr delay =
     bindM (memory_transport_dbg tr) (\<lambda>(tr', _). ret (tr', delay + 10000))"

lemma memory_init_wf: "memory_wf (SimpleMemory_init sz ro)"
  by (simp add: memory_wf_def SimpleMemory_init_def)

lemma memory_wf_write_data: "preserves memory_wf (write_data addr src)"
  by (auto simp: preserves_def write_data_def memory_wf_def array_write_length
      split: option.split)

lemma read_data_state [simp]: "snd (read_data addr n m) = m"
  by (simp add: read_data_def split: option.split)

lemma memory_wf_transport: "preserves memory_wf (memory_transport tr delay)"
proof -
  have "preserves memory_wf (read_data addr n)" for addr n by (simp add: preserves_def)
  then show ?thesis
    unfolding memory_transport_def memory_transport_dbg_def Let_def
    by (cases "command tr")
      (auto intro!: preserves_intros memory_wf_write_data split: prod.split)
qed

section \<open>\<open>MemoryDMI\<close>\<close>

text \<open>
  A direct mapping of a range of bus addresses to an array of the host. Host arrays are numbered;
  a load or store is the \<open>memcpy\<close> of \<open>n\<close> bytes.
\<close>

type_synonym host_mem = "nat \<Rightarrow> u8 list"

record MemoryDMI =
  dmi_mem :: nat
  dmi_start :: u64
  dmi_size :: u64
  dmi_end :: u64

definition create_start_size_mapping :: "nat \<Rightarrow> u64 \<Rightarrow> u64 \<Rightarrow> MemoryDMI option" where
  "create_start_size_mapping mem start sz =
     (if start + sz > start
      then Some \<lparr>dmi_mem = mem, dmi_start = start, dmi_size = sz, dmi_end = start + sz\<rparr> else None)"

definition create_start_end_mapping :: "nat \<Rightarrow> u64 \<Rightarrow> u64 \<Rightarrow> MemoryDMI option" where
  "create_start_end_mapping mem start en =
     (if en > start then create_start_size_mapping mem start (en - start) else None)"

definition dmi_contains :: "MemoryDMI \<Rightarrow> u64 \<Rightarrow> bool" where
  "dmi_contains d addr \<longleftrightarrow> addr \<ge> dmi_start d \<and> addr < dmi_end d"

definition get_mem_ptr_to_global_addr :: "MemoryDMI \<Rightarrow> nat \<Rightarrow> u64 \<Rightarrow> sim_error + nat" where
  "get_mem_ptr_to_global_addr d n addr =
     (if dmi_contains d addr \<and> addr + of_nat n \<le> dmi_end d then Inr (unat (addr - dmi_start d))
      else Inl AssertionFailed)"

definition dmi_load :: "MemoryDMI \<Rightarrow> nat \<Rightarrow> u64 \<Rightarrow> host_mem \<Rightarrow> sim_error + u8 list" where
  "dmi_load d n addr h = (case get_mem_ptr_to_global_addr d n addr of
     Inl e \<Rightarrow> Inl e
   | Inr off \<Rightarrow> (case array_read off n (h (dmi_mem d)) of None \<Rightarrow> Inl OutOfRange | Some bs \<Rightarrow> Inr bs))"

definition dmi_store :: "MemoryDMI \<Rightarrow> u64 \<Rightarrow> u8 list \<Rightarrow> host_mem \<Rightarrow> sim_error + host_mem" where
  "dmi_store d addr bs h = (case get_mem_ptr_to_global_addr d (length bs) addr of
     Inl e \<Rightarrow> Inl e
   | Inr off \<Rightarrow> (case array_write off bs (h (dmi_mem d)) of
       None \<Rightarrow> Inl OutOfRange
     | Some xs \<Rightarrow> Inr (h(dmi_mem d := xs))))"

lemma dmi_load_store_same:
  "dmi_store d addr bs h = Inr h' \<Longrightarrow> dmi_load d (length bs) addr h' = Inr bs"
  by (auto simp: dmi_store_def dmi_load_def host_array.rd_wr_same
      split: sum.splits option.splits)

lemma dmi_store_sizes:
  "dmi_store d addr bs h = Inr h' \<Longrightarrow> length (h' i) = length (h i)"
  by (auto simp: dmi_store_def array_write_length split: sum.splits option.splits)

end
