(* ===== verification/Core.thy ===== *)
theory Core
  imports Compressed Csr Fp Bus
begin

text \<open>
  The state of an RV32 hart (\<open>rv32/iss.h\<close>, with the memory interface and MMU attached to it) and
  of what it shares with the rest of the platform, the parameters that stand for code outside the
  sources (SystemC, TLM targets, softfloat, a syscall emulator), and the register file and small
  member functions of \<open>ISS\<close>.
\<close>

unbundle bit_operations_syntax

section \<open>State\<close>

text \<open>
  What other SystemC processes can change while the thread of a hart waits: the bus lock, the
  memory of the simulation host, the peripherals (of any type), and the pending interrupts
  of the hart (\<open>csrs.mip\<close>, set by the interrupt controllers).
\<close>

record 'd world =
  bus_lock :: BusLock
  host :: host_mem
  devs :: 'd

type_synonym 'd shared = "'d world \<times> u32"

datatype MemoryAccessType = FETCH | LOAD | STORE

record tlb_entry_t =
  tlb_ppn :: u64
  tlb_vpn :: u64

text \<open>\<open>tlb[mode][type][idx]\<close> of \<open>GenericMMU\<close>\<close>

record MMU =
  tlb :: "u32 \<Rightarrow> MemoryAccessType \<Rightarrow> u64 \<Rightarrow> tlb_entry_t"
  page_fault_on_AD :: bool

text \<open>The object behind the \<open>instr_memory_if\<close> pointer of the hart.\<close>

datatype instr_memory = InstrMemoryProxy MemoryDMI | CombinedMemory

record 'd ISS =
  regs :: "u32 list"
  fp_regs :: FpRegs
  pc :: u32
  last_pc :: u32
  shall_exit :: bool
  ignore_wfi :: bool
  csrs :: csr_table
  prv :: PrivilegeLevel
  lr_sc_counter :: int
  total_num_instr :: u64
  instr :: u32
  op :: Mapping
  status :: CoreExecStatus
  breakpoints :: "u32 set"
  debug_mode :: bool
  cycle_counter :: nat
  quantum_keeper :: nat
  softfloat_roundingMode :: u32
  softfloat_exceptionFlags :: u32
  instr_mem :: instr_memory
  lr_addr :: u64
  dmi_ranges :: "MemoryDMI list"
  mmu :: "MMU option"
  world :: "'d world"

section \<open>Code outside the sources\<close>

text \<open>
  The functions of the softfloat library the simulator calls: from the rounding mode and the
  operands to the result and the exception flags they raise.
\<close>

record softfloat =
  f32_add :: "u32 \<Rightarrow> u32 \<Rightarrow> u32 \<Rightarrow> u32 \<times> u32"
  f32_sub :: "u32 \<Rightarrow> u32 \<Rightarrow> u32 \<Rightarrow> u32 \<times> u32"
  f32_mul :: "u32 \<Rightarrow> u32 \<Rightarrow> u32 \<Rightarrow> u32 \<times> u32"
  f32_div :: "u32 \<Rightarrow> u32 \<Rightarrow> u32 \<Rightarrow> u32 \<times> u32"
  f32_sqrt :: "u32 \<Rightarrow> u32 \<Rightarrow> u32 \<times> u32"
  f32_mulAdd :: "u32 \<Rightarrow> u32 \<Rightarrow> u32 \<Rightarrow> u32 \<Rightarrow> u32 \<times> u32"
  f32_lt_quiet :: "u32 \<Rightarrow> u32 \<Rightarrow> bool \<times> u32"
  f32_eq :: "u32 \<Rightarrow> u32 \<Rightarrow> bool \<times> u32"
  f32_lt :: "u32 \<Rightarrow> u32 \<Rightarrow> bool \<times> u32"
  f32_le :: "u32 \<Rightarrow> u32 \<Rightarrow> bool \<times> u32"
  f32_classify :: "u32 \<Rightarrow> u32"
  f32_to_i32 :: "u32 \<Rightarrow> u32 \<Rightarrow> u32 \<times> u32"
  f32_to_ui32 :: "u32 \<Rightarrow> u32 \<Rightarrow> u32 \<times> u32"
  i32_to_f32 :: "u32 \<Rightarrow> u32 \<Rightarrow> u32 \<times> u32"
  ui32_to_f32 :: "u32 \<Rightarrow> u32 \<Rightarrow> u32 \<times> u32"
  f64_add :: "u32 \<Rightarrow> u64 \<Rightarrow> u64 \<Rightarrow> u64 \<times> u32"
  f64_sub :: "u32 \<Rightarrow> u64 \<Rightarrow> u64 \<Rightarrow> u64 \<times> u32"
  f64_mul :: "u32 \<Rightarrow> u64 \<Rightarrow> u64 \<Rightarrow> u64 \<times> u32"
  f64_div :: "u32 \<Rightarrow> u64 \<Rightarrow> u64 \<Rightarrow> u64 \<times> u32"
  f64_sqrt :: "u32 \<Rightarrow> u64 \<Rightarrow> u64 \<times> u32"
  f64_mulAdd :: "u32 \<Rightarrow> u64 \<Rightarrow> u64 \<Rightarrow> u64 \<Rightarrow> u64 \<times> u32"
  f64_lt_quiet :: "u64 \<Rightarrow> u64 \<Rightarrow> bool \<times> u32"
  f64_eq :: "u64 \<Rightarrow> u64 \<Rightarrow> bool \<times> u32"
  f64_lt :: "u64 \<Rightarrow> u64 \<Rightarrow> bool \<times> u32"
  f64_le :: "u64 \<Rightarrow> u64 \<Rightarrow> bool \<times> u32"
  f64_classify :: "u64 \<Rightarrow> u32"
  f64_to_i32 :: "u32 \<Rightarrow> u64 \<Rightarrow> u32 \<times> u32"
  f64_to_ui32 :: "u32 \<Rightarrow> u64 \<Rightarrow> u32 \<times> u32"
  i32_to_f64 :: "u32 \<Rightarrow> u32 \<Rightarrow> u64 \<times> u32"
  ui32_to_f64 :: "u32 \<Rightarrow> u32 \<Rightarrow> u64 \<times> u32"
  f64_to_f32 :: "u32 \<Rightarrow> u64 \<Rightarrow> u32 \<times> u32"
  f32_to_f64 :: "u32 \<Rightarrow> u32 \<Rightarrow> u64 \<times> u32"

text \<open>
  The simulation kernel and the platform around the hart: the two events a hart waits for
  (\<open>None\<close>: never notified), the target bound to its initiator socket, the CLINT, the quantum
  keeper's synchronisation, and the optional syscall emulator.
\<close>

record 'd env =
  sf :: softfloat
  wait_lock_event :: "'d shared \<Rightarrow> 'd shared option"
  wait_wfi_event :: "'d shared \<Rightarrow> 'd shared option"
  isock :: "'d shared tlm_target"
  update_and_get_mtime :: "'d shared \<Rightarrow> u64 \<times> 'd shared"
  need_sync :: "nat \<Rightarrow> 'd shared \<Rightarrow> bool"
  sync :: "nat \<Rightarrow> 'd shared \<Rightarrow> 'd shared"
  sys :: "('d ISS, unit) act option"

definition get_shared :: "'d ISS \<Rightarrow> 'd shared" where
  "get_shared s = (world s, mip (csrs s))"

definition put_shared :: "'d shared \<Rightarrow> 'd ISS \<Rightarrow> 'd ISS" where
  "put_shared w s = s\<lparr>world := fst w, csrs := (csrs s)\<lparr>mip := snd w\<rparr>\<rparr>"

abbreviation on_shared :: "('d shared, 'a) act \<Rightarrow> ('d ISS, 'a) act" where
  "on_shared \<equiv> zoomM get_shared put_shared"

abbreviation shared_lock :: "'d shared \<Rightarrow> BusLock" where
  "shared_lock w \<equiv> bus_lock (fst w)"

definition put_shared_lock :: "BusLock \<Rightarrow> 'd shared \<Rightarrow> 'd shared" where
  "put_shared_lock l w = ((fst w)\<lparr>bus_lock := l\<rparr>, snd w)"

section \<open>The register file\<close>

definition RegFile_init :: "u32 list" where
  "RegFile_init = replicate 32 0"

definition RegFile_write :: "u32 \<Rightarrow> u32 \<Rightarrow> u32 list \<Rightarrow> sim_error + u32 list" where
  "RegFile_write index value rs =
     (if index \<le> 31 \<and> index \<noteq> 0 then Inr (rs[unat index := value]) else Inl AssertionFailed)"

definition RegFile_read :: "u32 \<Rightarrow> u32 list \<Rightarrow> sim_error + u32" where
  "RegFile_read index rs = (if index > 31 then Inl OutOfRange else Inr (rs ! unat index))"

text \<open>\<open>operator[]\<close>: the index is always a register number of an instruction.\<close>

definition reg :: "u32 \<Rightarrow> 'd ISS \<Rightarrow> u32" where
  "reg idx s = regs s ! unat idx"

definition set_reg :: "u32 \<Rightarrow> u32 \<Rightarrow> 'd ISS \<Rightarrow> 'd ISS" where
  "set_reg idx v s = s\<lparr>regs := (regs s)[unat idx := v]\<rparr>"

definition reg_shamt :: "u32 \<Rightarrow> 'd ISS \<Rightarrow> nat" where
  "reg_shamt idx s = unat (BIT_RANGE (reg idx s) 4 0)"

section \<open>Construction and the syscall and debug interfaces\<close>

abbreviation (input) reg_sp :: u32 where "reg_sp \<equiv> 2"
abbreviation (input) reg_a5 :: u32 where "reg_a5 \<equiv> 15"
abbreviation (input) reg_a7 :: u32 where "reg_a7 \<equiv> 17"

text \<open>Times are in picoseconds; a cycle takes 10 ns.\<close>

abbreviation (input) cycle_time :: nat where "cycle_time \<equiv> 10000"

definition instr_cycles :: "Mapping \<Rightarrow> nat" where
  "instr_cycles m = (case m of
     RV32I x \<Rightarrow> if x \<in> {LB, LBU, LH, LHU, LW, SB, SH, SW} then 4 * cycle_time else cycle_time
   | RV32M x \<Rightarrow> 8 * cycle_time
   | _ \<Rightarrow> cycle_time)"

definition ISS_init :: "u32 \<Rightarrow> bool \<Rightarrow> instr_memory \<Rightarrow> MemoryDMI list \<Rightarrow> MMU option \<Rightarrow> 'd world \<Rightarrow> 'd ISS" where
  "ISS_init hart_id use_E_base_isa im ds m w =
     \<lparr>regs = RegFile_init, fp_regs = replicate 32 0, pc = 0, last_pc = 0, shall_exit = False,
      ignore_wfi = False,
      csrs = csr_table_init\<lparr>mhartid := hart_id,
        misa := (if use_E_base_isa then select_E_base_isa misa_init else misa_init)\<rparr>,
      prv = MachineMode, lr_sc_counter = 0, total_num_instr = 0, instr = 0, op = UNDEF,
      status = Runnable, breakpoints = {}, debug_mode = False, cycle_counter = 0,
      quantum_keeper = 0, softfloat_roundingMode = 0, softfloat_exceptionFlags = 0,
      instr_mem = im, lr_addr = 0, dmi_ranges = ds, mmu = m, world = w\<rparr>"

definition init :: "u32 \<Rightarrow> u32 \<Rightarrow> 'd ISS \<Rightarrow> 'd ISS" where
  "init entrypoint sp s = (set_reg reg_sp sp s)\<lparr>pc := entrypoint\<rparr>"

definition sys_exit :: "'d ISS \<Rightarrow> 'd ISS" where
  "sys_exit s = s\<lparr>shall_exit := True\<rparr>"

definition get_syscall_register_index :: "'d ISS \<Rightarrow> u32" where
  "get_syscall_register_index s = (if has_E_base_isa (misa (csrs s)) then reg_a5 else reg_a7)"

text \<open>\<open>boost::lexical_cast<uint32_t>\<close> of a 64-bit value throws when it does not fit.\<close>

definition lexical_cast32 :: "u64 \<Rightarrow> ('s, u32) act" where
  "lexical_cast32 v = (if v < 2 ^ 32 then ret (ucast v) else failM BadLexicalCast)"

definition read_register :: "u32 \<Rightarrow> ('d ISS, u64) act" where
  "read_register idx s = (case RegFile_read idx (regs s) of
     Inl e \<Rightarrow> (Fail e, s)
   | Inr v \<Rightarrow> (Ok (ucast v), s))"

definition write_register :: "u32 \<Rightarrow> u64 \<Rightarrow> ('d ISS, unit) act" where
  "write_register idx value = bindM (lexical_cast32 value) (\<lambda>v s.
     case RegFile_write idx v (regs s) of
       Inl e \<Rightarrow> (Fail e, s)
     | Inr rs \<Rightarrow> (Ok (), s\<lparr>regs := rs\<rparr>))"

definition get_progam_counter :: "'d ISS \<Rightarrow> u64" where
  "get_progam_counter s = ucast (pc s)"

definition block_on_wfi :: "bool \<Rightarrow> 'd ISS \<Rightarrow> 'd ISS" where
  "block_on_wfi block s = s\<lparr>ignore_wfi := \<not> block\<rparr>"

definition get_status :: "'d ISS \<Rightarrow> CoreExecStatus" where
  "get_status s = status s"

definition set_status :: "CoreExecStatus \<Rightarrow> 'd ISS \<Rightarrow> 'd ISS" where
  "set_status st s = s\<lparr>status := st\<rparr>"

definition enable_debug :: "'d ISS \<Rightarrow> 'd ISS" where
  "enable_debug s = s\<lparr>debug_mode := True\<rparr>"

definition insert_breakpoint :: "u64 \<Rightarrow> 'd ISS \<Rightarrow> 'd ISS" where
  "insert_breakpoint addr s = s\<lparr>breakpoints := insert (ucast addr) (breakpoints s)\<rparr>"

definition remove_breakpoint :: "u64 \<Rightarrow> 'd ISS \<Rightarrow> 'd ISS" where
  "remove_breakpoint addr s = s\<lparr>breakpoints := breakpoints s - {ucast addr}\<rparr>"

definition get_hart_id :: "'d ISS \<Rightarrow> u32" where
  "get_hart_id s = mhartid (csrs s)"

definition get_registers :: "'d ISS \<Rightarrow> u64 list" where
  "get_registers s = map ucast (regs s)"

definition m_mode :: "'d ISS \<Rightarrow> bool" where
  "m_mode s \<longleftrightarrow> prv s = MachineMode"

definition s_mode :: "'d ISS \<Rightarrow> bool" where
  "s_mode s \<longleftrightarrow> prv s = SupervisorMode"

definition u_mode :: "'d ISS \<Rightarrow> bool" where
  "u_mode s \<longleftrightarrow> prv s = UserMode"

definition pc_alignment_mask :: "'d ISS \<Rightarrow> u32" where
  "pc_alignment_mask s = (if has_C_extension (misa (csrs s)) then NOT 0x1 else NOT 0x3)"

text \<open>\<open>RAISE_ILLEGAL_INSTRUCTION()\<close> and \<open>REQUIRE_ISA\<close>\<close>

definition RAISE_ILLEGAL_INSTRUCTION :: "('d ISS, 'a) act" where
  "RAISE_ILLEGAL_INSTRUCTION = bindM (getsM instr) (\<lambda>i. raise_trap EXC_ILLEGAL_INSTR (ucast i))"

definition REQUIRE_ISA :: "u32 \<Rightarrow> ('d ISS, unit) act" where
  "REQUIRE_ISA X = whenM (\<lambda>s. misa (csrs s) AND X = 0) RAISE_ILLEGAL_INSTRUCTION"

definition trap_check_pc_alignment :: "('d ISS, unit) act" where
  "trap_check_pc_alignment =
     seqM (assertM (\<lambda>s. pc s AND 0x1 = 0))
       (whenM (\<lambda>s. pc s AND 0x3 \<noteq> 0 \<and> \<not> has_C_extension (misa (csrs s)))
         (bindM (getsM pc) (\<lambda>p. raise_trap EXC_INSTR_ADDR_MISALIGNED (ucast p))))"

definition trap_check_addr_alignment :: "u32 \<Rightarrow> bool \<Rightarrow> u32 \<Rightarrow> ('d ISS, unit) act" where
  "trap_check_addr_alignment Alignment isLoad addr =
     (if addr mod Alignment \<noteq> 0 then
        raise_trap (if isLoad then EXC_LOAD_ADDR_MISALIGNED else EXC_STORE_AMO_ADDR_MISALIGNED) (ucast addr)
      else ret ())"

section \<open>Facts\<close>

text \<open>The register file has 32 registers of each kind, and \<open>csrs\<close> has its arrays.\<close>

definition hart_wf :: "'d ISS \<Rightarrow> bool" where
  "hart_wf s \<longleftrightarrow> length (regs s) = 32 \<and> length (fp_regs s) = 32 \<and> csr_wf (csrs s)"

lemma hart_wf_init: "hart_wf (ISS_init h e im ds m w)"
  using csr_wf_init by (simp add: hart_wf_def ISS_init_def RegFile_init_def csr_wf_def)

lemma hart_wf_set_reg [simp]: "hart_wf (set_reg i v s) = hart_wf s"
  by (simp add: hart_wf_def set_reg_def)

lemma reg_set_reg:
  "length (regs s) = 32 \<Longrightarrow> unat i < 32 \<Longrightarrow> reg j (set_reg i v s) = (if j = i then v else reg j s)"
  by (auto simp: reg_def set_reg_def nth_list_update word_unat_eq_iff)

lemma set_reg_fields [simp]:
  "fp_regs (set_reg i v s) = fp_regs s" "pc (set_reg i v s) = pc s" "last_pc (set_reg i v s) = last_pc s"
  "csrs (set_reg i v s) = csrs s" "prv (set_reg i v s) = prv s" "world (set_reg i v s) = world s"
  "lr_sc_counter (set_reg i v s) = lr_sc_counter s" "instr (set_reg i v s) = instr s"
  "op (set_reg i v s) = op s" "status (set_reg i v s) = status s" "mmu (set_reg i v s) = mmu s"
  "dmi_ranges (set_reg i v s) = dmi_ranges s" "lr_addr (set_reg i v s) = lr_addr s"
  "shall_exit (set_reg i v s) = shall_exit s"
  "length (regs (set_reg i v s)) = length (regs s)"
  by (simp_all add: set_reg_def)

lemma put_shared_fields [simp]:
  "regs (put_shared w s) = regs s" "fp_regs (put_shared w s) = fp_regs s" "pc (put_shared w s) = pc s"
  "last_pc (put_shared w s) = last_pc s" "prv (put_shared w s) = prv s"
  "lr_sc_counter (put_shared w s) = lr_sc_counter s" "instr (put_shared w s) = instr s"
  "op (put_shared w s) = op s" "status (put_shared w s) = status s" "mmu (put_shared w s) = mmu s"
  "dmi_ranges (put_shared w s) = dmi_ranges s" "lr_addr (put_shared w s) = lr_addr s"
  "shall_exit (put_shared w s) = shall_exit s"
  "world (put_shared w s) = fst w" "csrs (put_shared w s) = (csrs s)\<lparr>mip := snd w\<rparr>"
  "quantum_keeper (put_shared w s) = quantum_keeper s"
  by (simp_all add: put_shared_def)

lemma hart_wf_put_shared [simp]: "hart_wf (put_shared w s) = hart_wf s"
  by (simp add: hart_wf_def csr_wf_def)

lemma put_get_shared [simp]: "put_shared (get_shared s) s = s"
  by (simp add: put_shared_def get_shared_def)

lemma get_put_shared [simp]: "get_shared (put_shared w s) = w"
  by (simp add: put_shared_def get_shared_def)

end
