(* ===== verification/RawMem.thy ===== *)
theory RawMem
  imports Core
begin

text \<open>
  Accesses to physical memory, \<open>rv32/mem.h\<close>: the instruction proxy, \<open>_do_transaction\<close>,
  \<open>_raw_load_data\<close> and \<open>_raw_store_data\<close> of \<open>CombinedMemoryInterface\<close>. A value of type \<open>T\<close> is its
  \<open>sizeof(T)\<close> little-endian bytes.
\<close>

unbundle bit_operations_syntax

definition inc_time :: "nat \<Rightarrow> ('d ISS, unit) act" where
  "inc_time d = modifyM (\<lambda>s. s\<lparr>quantum_keeper := quantum_keeper s + d\<rparr>)"

definition wait_access :: "'d env \<Rightarrow> ('d ISS, unit) act" where
  "wait_access env = bindM (getsM get_hart_id) (\<lambda>h.
     on_shared (wait_for_access_rights shared_lock (wait_lock_event env) h))"

definition lock_bus :: "'d env \<Rightarrow> ('d ISS, unit) act" where
  "lock_bus env = bindM (getsM get_hart_id) (\<lambda>h.
     on_shared (lock_act shared_lock put_shared_lock (wait_lock_event env) h))"

definition atomic_unlock :: "'d ISS \<Rightarrow> 'd ISS" where
  "atomic_unlock s = s\<lparr>world := (world s)\<lparr>bus_lock := unlock (get_hart_id s) (bus_lock (world s))\<rparr>\<rparr>"

definition bus_locked_by_me :: "'d ISS \<Rightarrow> bool" where
  "bus_locked_by_me s \<longleftrightarrow> is_locked_by (get_hart_id s) (bus_lock (world s))"

text \<open>\<open>MemoryDMI::load\<close> and \<open>store\<close> on the host memory of the state.\<close>

definition dmi_load_act :: "MemoryDMI \<Rightarrow> nat \<Rightarrow> u64 \<Rightarrow> ('d ISS, u64) act" where
  "dmi_load_act d n addr s = (case dmi_load d n addr (host (world s)) of
     Inl e \<Rightarrow> (Fail e, s)
   | Inr bs \<Rightarrow> (Ok (of_bytes bs), s))"

definition dmi_store_act :: "MemoryDMI \<Rightarrow> nat \<Rightarrow> u64 \<Rightarrow> u64 \<Rightarrow> ('d ISS, unit) act" where
  "dmi_store_act d n addr value s = (case dmi_store d addr (to_bytes n value) (host (world s)) of
     Inl e \<Rightarrow> (Fail e, s)
   | Inr h \<Rightarrow> (Ok (), s\<lparr>world := (world s)\<lparr>host := h\<rparr>\<rparr>))"

definition proxy_load_instr :: "MemoryDMI \<Rightarrow> u64 \<Rightarrow> ('d ISS, u64) act" where
  "proxy_load_instr d addr = seqM (inc_time 20000) (dmi_load_act d 4 addr)"

definition do_transaction ::
    "'d env \<Rightarrow> tlm_command \<Rightarrow> u64 \<Rightarrow> u8 list \<Rightarrow> ('d ISS, u8 list) act" where
  "do_transaction env cmd addr data =
     bindM (getsM quantum_keeper) (\<lambda>local_delay.
     bindM (on_shared (isock env \<lparr>command = cmd, address = addr, data_ptr = data,
              response_status = TLM_OK_RESPONSE\<rparr> local_delay)) (\<lambda>(tr, local_delay').
     seqM (assertM (\<lambda>s. quantum_keeper s \<le> local_delay'))
       (seqM (modifyM (\<lambda>s. s\<lparr>quantum_keeper := local_delay'\<rparr>))
         (if is_response_error tr then
            (if cmd = TLM_READ_COMMAND then raise_trap EXC_LOAD_PAGE_FAULT addr
             else if cmd = TLM_WRITE_COMMAND then raise_trap EXC_STORE_AMO_PAGE_FAULT addr
             else failM RuntimeError)
          else ret (data_ptr tr)))))"

definition raw_load_data :: "'d env \<Rightarrow> nat \<Rightarrow> u64 \<Rightarrow> ('d ISS, u64) act" where
  "raw_load_data env n addr =
     seqM (wait_access env)
       (bindM (getsM dmi_ranges) (\<lambda>ds.
          case find (\<lambda>e. dmi_contains e addr) ds of
            Some e \<Rightarrow> seqM (inc_time 40000) (dmi_load_act e n addr)
          | None \<Rightarrow> bindM (do_transaction env TLM_READ_COMMAND addr (replicate n 0))
                     (\<lambda>bs. ret (of_bytes (take n bs)))))"

text \<open>A store goes to every direct mapping that contains the address.\<close>

primrec dmi_store_all :: "nat \<Rightarrow> u64 \<Rightarrow> u64 \<Rightarrow> MemoryDMI list \<Rightarrow> ('d ISS, bool) act" where
  "dmi_store_all n addr value [] = ret False"
| "dmi_store_all n addr value (e # ds) =
     (if dmi_contains e addr then
        seqM (inc_time 40000)
          (seqM (dmi_store_act e n addr value)
            (bindM (dmi_store_all n addr value ds) (\<lambda>_. ret True)))
      else dmi_store_all n addr value ds)"

definition raw_store_data :: "'d env \<Rightarrow> nat \<Rightarrow> u64 \<Rightarrow> u64 \<Rightarrow> ('d ISS, unit) act" where
  "raw_store_data env n addr value =
     seqM (wait_access env)
       (bindM (getsM dmi_ranges) (\<lambda>ds.
        bindM (dmi_store_all n addr value ds) (\<lambda>done.
          seqM (if done then ret ()
                else bindM (do_transaction env TLM_WRITE_COMMAND addr (to_bytes n value)) (\<lambda>_. ret ()))
            (modifyM atomic_unlock))))"

section \<open>Facts\<close>

lemma atomic_unlock_fields [simp]:
  "regs (atomic_unlock s) = regs s" "fp_regs (atomic_unlock s) = fp_regs s"
  "pc (atomic_unlock s) = pc s" "last_pc (atomic_unlock s) = last_pc s"
  "csrs (atomic_unlock s) = csrs s" "prv (atomic_unlock s) = prv s"
  "lr_sc_counter (atomic_unlock s) = lr_sc_counter s" "instr (atomic_unlock s) = instr s"
  "op (atomic_unlock s) = op s" "status (atomic_unlock s) = status s"
  "mmu (atomic_unlock s) = mmu s" "dmi_ranges (atomic_unlock s) = dmi_ranges s"
  "lr_addr (atomic_unlock s) = lr_addr s" "shall_exit (atomic_unlock s) = shall_exit s"
  "host (world (atomic_unlock s)) = host (world s)"
  "devs (world (atomic_unlock s)) = devs (world s)"
  by (simp_all add: atomic_unlock_def)

lemma atomic_unlock_unlocked [simp]: "\<not> bus_locked_by_me (atomic_unlock s)"
  by (simp add: bus_locked_by_me_def atomic_unlock_def get_hart_id_def)

text \<open>
  The part of a hart that no memory access changes: everything but the shared state, the local
  time, the TLB and the reservation.
\<close>

definition hart_view :: "'d ISS \<Rightarrow> _" where
  "hart_view s = (regs s, fp_regs s, pc s, last_pc s, (csrs s)\<lparr>mip := 0\<rparr>, prv s, lr_sc_counter s,
     instr s, op s, status s, shall_exit s, dmi_ranges s, ignore_wfi s, breakpoints s, debug_mode s,
     instr_mem s, total_num_instr s, cycle_counter s, softfloat_roundingMode s,
     softfloat_exceptionFlags s)"

lemma hart_view_wf: "hart_view s' = hart_view s \<Longrightarrow> hart_wf s' = hart_wf s"
proof -
  assume *: "hart_view s' = hart_view s"
  then have "(csrs s')\<lparr>mip := 0\<rparr> = (csrs s)\<lparr>mip := 0\<rparr>"
    by (simp add: hart_view_def)
  from this [THEN arg_cong, of pmpaddr] this [THEN arg_cong, of pmpcfg]
  have "pmpaddr (csrs s') = pmpaddr (csrs s)" "pmpcfg (csrs s') = pmpcfg (csrs s)"
    by simp_all
  with * show ?thesis by (simp add: hart_view_def hart_wf_def csr_wf_def)
qed

lemma keeps_hart_view_wf: "keeps hart_view m \<Longrightarrow> preserves hart_wf m"
  unfolding keeps_def preserves_def using hart_view_wf by blast

lemma hart_view_simps [simp]:
  "hart_view (put_shared w s) = hart_view s"
  "hart_view (atomic_unlock s) = hart_view s"
  "hart_view (s\<lparr>quantum_keeper := q\<rparr>) = hart_view s"
  "hart_view (s\<lparr>world := w'\<rparr>) = hart_view s"
  "hart_view (s\<lparr>mmu := m\<rparr>) = hart_view s"
  "hart_view (s\<lparr>lr_addr := a\<rparr>) = hart_view s"
  by (simp_all add: hart_view_def put_shared_def atomic_unlock_def)

lemma hart_view_projs:
  assumes "hart_view s' = hart_view s"
  shows "regs s' = regs s" "fp_regs s' = fp_regs s" "pc s' = pc s" "last_pc s' = last_pc s"
    "prv s' = prv s" "lr_sc_counter s' = lr_sc_counter s" "instr s' = instr s" "op s' = op s"
    "status s' = status s" "shall_exit s' = shall_exit s" "dmi_ranges s' = dmi_ranges s"
    "misa (csrs s') = misa (csrs s)" "mhartid (csrs s') = mhartid (csrs s)"
    "mstatus (csrs s') = mstatus (csrs s)" "satp (csrs s') = satp (csrs s)"
    "get_hart_id s' = get_hart_id s"
proof -
  have c: "(csrs s')\<lparr>mip := 0\<rparr> = (csrs s)\<lparr>mip := 0\<rparr>"
    using assms by (simp add: hart_view_def)
  show "misa (csrs s') = misa (csrs s)" "mhartid (csrs s') = mhartid (csrs s)"
    "mstatus (csrs s') = mstatus (csrs s)" "satp (csrs s') = satp (csrs s)"
    "get_hart_id s' = get_hart_id s"
    using c [THEN arg_cong, of misa] c [THEN arg_cong, of mhartid]
      c [THEN arg_cong, of mstatus] c [THEN arg_cong, of satp]
    by (simp_all add: get_hart_id_def)
qed (use assms in \<open>simp_all add: hart_view_def\<close>)

lemma keeps_view_on_shared [keeps_intros]: "keeps hart_view (on_shared m)"
  by (rule keeps_zoom) simp

lemma keeps_case_prod [keeps_intros]:
  "(\<And>a b. keeps f (g a b)) \<Longrightarrow> keeps f (case p of (a, b) \<Rightarrow> g a b)"
  by (cases p) simp

lemma keeps_case_option [keeps_intros]:
  "keeps f m \<Longrightarrow> (\<And>x. keeps f (g x)) \<Longrightarrow> keeps f (case o' of None \<Rightarrow> m | Some x \<Rightarrow> g x)"
  by (cases o') simp_all

lemma raw_keeps_view [keeps_intros]:
  "keeps hart_view (inc_time d)"
  "keeps hart_view (wait_access env)"
  "keeps hart_view (lock_bus env)"
  "keeps hart_view (modifyM atomic_unlock)"
  unfolding inc_time_def wait_access_def lock_bus_def by (intro keeps_intros; simp)+

lemma dmi_keeps_view [keeps_intros]:
  "keeps hart_view (dmi_load_act d n addr)"
  "keeps hart_view (dmi_store_act d n addr v)"
  by (simp_all add: keeps_def dmi_load_act_def dmi_store_act_def split: sum.split)

lemma do_transaction_keeps_view [keeps_intros]: "keeps hart_view (do_transaction env cmd addr bs)"
  unfolding do_transaction_def by (intro keeps_intros; simp)

lemma proxy_keeps_view [keeps_intros]: "keeps hart_view (proxy_load_instr d addr)"
  unfolding proxy_load_instr_def by (intro keeps_intros)

lemma raw_load_keeps_view [keeps_intros]: "keeps hart_view (raw_load_data env n addr)"
  unfolding raw_load_data_def by (intro keeps_intros)

lemma dmi_store_all_keeps_view [keeps_intros]: "keeps hart_view (dmi_store_all n addr v ds)"
proof (induction ds)
  case (Cons d ds)
  then show ?case unfolding dmi_store_all.simps by (intro keeps_intros)
qed (simp only: dmi_store_all.simps keeps_basic)

lemma raw_store_keeps_view [keeps_intros]: "keeps hart_view (raw_store_data env n addr v)"
  unfolding raw_store_data_def by (intro keeps_intros)

section \<open>Accesses through a direct mapping\<close>

text \<open>
  What a load or store does when the address lies in a direct mapping and the bus is not locked by
  another hart, as pure functions on the mappings and the host memory.
\<close>

definition phys_load :: "MemoryDMI list \<Rightarrow> host_mem \<Rightarrow> nat \<Rightarrow> u64 \<Rightarrow> u64 option" where
  "phys_load ds h n addr = (case find (\<lambda>e. dmi_contains e addr) ds of
     None \<Rightarrow> None
   | Some e \<Rightarrow> (case dmi_load e n addr h of Inl _ \<Rightarrow> None | Inr bs \<Rightarrow> Some (of_bytes bs)))"

definition has_access :: "'d ISS \<Rightarrow> bool" where
  "has_access s \<longleftrightarrow> \<not> is_locked (bus_lock (world s)) \<or> bus_locked_by_me s"

lemma wait_access_granted: "has_access s \<Longrightarrow> wait_access env s = (Ok (), s)"
  by (simp add: wait_access_def has_access_def bus_locked_by_me_def wait_for_access_rights_def
      zoomM_def whenM_def) (auto simp: get_shared_def put_shared_def)

lemma wait_access_bind: "has_access s \<Longrightarrow> bindM (wait_access env) f s = f () s"
  by (simp add: bindM_def wait_access_granted)

lemma raw_load_data_dmi:
  assumes "has_access s" and "phys_load (dmi_ranges s) (host (world s)) n addr = Some v"
  shows "raw_load_data env n addr s = (Ok v, s\<lparr>quantum_keeper := quantum_keeper s + 40000\<rparr>)"
proof -
  from assms(2) obtain e bs where e: "find (\<lambda>e. dmi_contains e addr) (dmi_ranges s) = Some e"
      "dmi_load e n addr (host (world s)) = Inr bs" "v = of_bytes bs"
    by (auto simp: phys_load_def split: option.splits sum.splits)
  then show ?thesis
    by (simp add: raw_load_data_def seqM_def wait_access_bind [OF assms(1)]
        inc_time_def dmi_load_act_def)
qed

text \<open>
  With a single mapping a store is the store of that mapping, and it always ends a reservation.
\<close>

lemma raw_store_data_dmi:
  assumes "has_access s" and "dmi_ranges s = [d]" and "dmi_contains d addr"
    and "dmi_store d addr (to_bytes n v) (host (world s)) = Inr h"
  shows "raw_store_data env n addr v s =
    (Ok (), atomic_unlock (s\<lparr>quantum_keeper := quantum_keeper s + 40000,
       world := (world s)\<lparr>host := h\<rparr>\<rparr>))"
  using assms(2-)
  by (simp add: raw_store_data_def seqM_def wait_access_bind [OF assms(1)])
    (simp add: bindM_def inc_time_def dmi_store_act_def)

lemma has_access_time [simp]: "has_access (s\<lparr>quantum_keeper := q\<rparr>) = has_access s"
  by (simp add: has_access_def bus_locked_by_me_def get_hart_id_def)

text \<open>A successful store leaves the bus unlocked by this hart, however it was done.\<close>

lemma raw_store_unlocks:
  "raw_store_data env n addr v s = (Ok (), s') \<Longrightarrow> \<not> bus_locked_by_me s'"
  unfolding raw_store_data_def seqM_def
  by (auto elim!: bindM_OkE)

end
