(* ===== verification/Mmu.thy ===== *)
theory Mmu
  imports RawMem
begin

text \<open>
  \<open>core/common/mmu.h\<close>, instantiated for the RV32 hart as in \<open>rv32/mmu.h\<close>: page table entries, the
  page table walk and the translation with its TLB. The three PTE accesses of \<open>mem.h\<close> that the
  walk uses are here as well. The theorems give the abstract specification of a walk (find the
  leaf entry, then check it) and show that the walk and the TLB implement it.
\<close>

unbundle bit_operations_syntax

section \<open>Page table entries\<close>

abbreviation (input) PTE_PPN_SHIFT :: nat where "PTE_PPN_SHIFT \<equiv> 10"
abbreviation (input) PGSHIFT :: nat where "PGSHIFT \<equiv> 12"
abbreviation (input) PGMASK :: u64 where "PGMASK \<equiv> 0xfff"

abbreviation (input) PTE_A :: u64 where "PTE_A \<equiv> 0x40"
abbreviation (input) PTE_D :: u64 where "PTE_D \<equiv> 0x80"

definition pte_V :: "u64 \<Rightarrow> bool" where "pte_V pte \<longleftrightarrow> pte AND 0x1 \<noteq> 0"
definition pte_R :: "u64 \<Rightarrow> bool" where "pte_R pte \<longleftrightarrow> pte AND 0x2 \<noteq> 0"
definition pte_W :: "u64 \<Rightarrow> bool" where "pte_W pte \<longleftrightarrow> pte AND 0x4 \<noteq> 0"
definition pte_X :: "u64 \<Rightarrow> bool" where "pte_X pte \<longleftrightarrow> pte AND 0x8 \<noteq> 0"
definition pte_U :: "u64 \<Rightarrow> bool" where "pte_U pte \<longleftrightarrow> pte AND 0x10 \<noteq> 0"
definition pte_G :: "u64 \<Rightarrow> bool" where "pte_G pte \<longleftrightarrow> pte AND 0x20 \<noteq> 0"
definition pte_A :: "u64 \<Rightarrow> bool" where "pte_A pte \<longleftrightarrow> pte AND PTE_A \<noteq> 0"
definition pte_D :: "u64 \<Rightarrow> bool" where "pte_D pte \<longleftrightarrow> pte AND PTE_D \<noteq> 0"

record vm_info =
  levels :: nat
  idxbits :: nat
  ptesize :: nat
  ptbase :: u64

abbreviation (input) SATP_MODE_BARE :: u32 where "SATP_MODE_BARE \<equiv> 0"
abbreviation (input) SATP_MODE_SV32 :: u32 where "SATP_MODE_SV32 \<equiv> 1"
abbreviation (input) SATP_MODE_SV39 :: u32 where "SATP_MODE_SV39 \<equiv> 8"
abbreviation (input) SATP_MODE_SV48 :: u32 where "SATP_MODE_SV48 \<equiv> 9"
abbreviation (input) SATP_MODE_SV57 :: u32 where "SATP_MODE_SV57 \<equiv> 10"
abbreviation (input) SATP_MODE_SV64 :: u32 where "SATP_MODE_SV64 \<equiv> 11"

definition decode_vm_info :: "PrivilegeLevel \<Rightarrow> ('d ISS, vm_info) act" where
  "decode_vm_info p =
     seqM (assertM (\<lambda>_. p \<le> SupervisorMode))
       (bindM (getsM (\<lambda>s. satp (csrs s))) (\<lambda>r.
          let base = push_bit PGSHIFT (ucast (satp_ppn r)); mode = satp_mode r in
          if mode = SATP_MODE_SV32 then ret \<lparr>levels = 2, idxbits = 10, ptesize = 4, ptbase = base\<rparr>
          else if mode = SATP_MODE_SV39 then ret \<lparr>levels = 3, idxbits = 9, ptesize = 8, ptbase = base\<rparr>
          else if mode = SATP_MODE_SV48 then ret \<lparr>levels = 4, idxbits = 9, ptesize = 8, ptbase = base\<rparr>
          else if mode = SATP_MODE_SV57 then ret \<lparr>levels = 5, idxbits = 9, ptesize = 8, ptbase = base\<rparr>
          else if mode = SATP_MODE_SV64 then ret \<lparr>levels = 6, idxbits = 9, ptesize = 8, ptbase = base\<rparr>
          else failM RuntimeError))"

abbreviation (input) xlen :: nat where "xlen \<equiv> 32"

definition check_vaddr_extension :: "u64 \<Rightarrow> vm_info \<Rightarrow> bool" where
  "check_vaddr_extension vaddr vm =
     (let highbit = idxbits vm * levels vm + PGSHIFT - 1;
          ext_mask = push_bit (xlen - highbit) 1 - 1;
          bits = drop_bit highbit vaddr AND ext_mask
      in bits = 0 \<or> bits = ext_mask)"

section \<open>The page table walk\<close>

definition mmu_load_pte64 :: "'d env \<Rightarrow> u64 \<Rightarrow> ('d ISS, u64) act" where
  "mmu_load_pte64 env addr = raw_load_data env 8 addr"

definition mmu_load_pte32 :: "'d env \<Rightarrow> u64 \<Rightarrow> ('d ISS, u64) act" where
  "mmu_load_pte32 env addr = raw_load_data env 4 addr"

definition mmu_store_pte32 :: "'d env \<Rightarrow> u64 \<Rightarrow> u64 \<Rightarrow> ('d ISS, unit) act" where
  "mmu_store_pte32 env addr value = raw_store_data env 4 addr value"

definition page_fault :: "MemoryAccessType \<Rightarrow> u64 \<Rightarrow> ('s, 'a) act" where
  "page_fault type vaddr = (case type of
     FETCH \<Rightarrow> raise_trap EXC_INSTR_PAGE_FAULT vaddr
   | LOAD \<Rightarrow> raise_trap EXC_LOAD_PAGE_FAULT vaddr
   | STORE \<Rightarrow> raise_trap EXC_STORE_AMO_PAGE_FAULT vaddr)"

text \<open>
  The loop over the levels, from the highest to 0: the number of levels left, minus one, is the
  loop variable \<open>i\<close>. Leaving the loop (\<open>break\<close>, or no level left) raises the page fault.
\<close>

primrec walk_loop ::
    "'d env \<Rightarrow> u64 \<Rightarrow> MemoryAccessType \<Rightarrow> bool \<Rightarrow> bool \<Rightarrow> bool \<Rightarrow> vm_info \<Rightarrow> nat \<Rightarrow> u64
       \<Rightarrow> ('d ISS, u64) act" where
  "walk_loop env vaddr type smode sumb mxr vm 0 base = page_fault type vaddr"
| "walk_loop env vaddr type smode sumb mxr vm (Suc i) base =
     (let ptshift = i * idxbits vm;
          vpn_field = drop_bit (PGSHIFT + ptshift) vaddr AND (push_bit (idxbits vm) 1 - 1);
          pte_paddr = base + vpn_field * of_nat (ptesize vm)
      in bindM (if ptesize vm = 4 then mmu_load_pte32 env pte_paddr else mmu_load_pte64 env pte_paddr)
      (\<lambda>pte. let ppn = drop_bit PTE_PPN_SHIFT pte in
       if \<not> pte_V pte \<or> (\<not> pte_R pte \<and> pte_W pte) then page_fault type vaddr
       else if \<not> pte_R pte \<and> \<not> pte_X pte then
         walk_loop env vaddr type smode sumb mxr vm i (push_bit PGSHIFT ppn)
       else if type = FETCH \<and> \<not> pte_X pte then page_fault type vaddr
       else if type = LOAD \<and> \<not> pte_R pte \<and> \<not> (mxr \<and> pte_X pte) then page_fault type vaddr
       else if type = STORE \<and> \<not> (pte_R pte \<and> pte_W pte) then page_fault type vaddr
       else if (if pte_U pte then smode \<and> (type = FETCH \<or> \<not> sumb) else \<not> smode) then
         page_fault type vaddr
       else if ppn AND (push_bit ptshift 1 - 1) \<noteq> 0 then page_fault type vaddr
       else
         (let ad = PTE_A OR (if type = STORE then PTE_D else 0);
              pmask = push_bit ptshift 1 - 1;
              vpn = drop_bit PGSHIFT vaddr;
              pgoff = vaddr AND PGMASK;
              paddr = push_bit PGSHIFT ((ppn AND NOT pmask) OR (vpn AND pmask)) OR pgoff
          in if pte AND ad \<noteq> ad then
               bindM (getsM (\<lambda>s. page_fault_on_AD (the (mmu s)))) (\<lambda>fault_on_AD.
                 if fault_on_AD then page_fault type vaddr
                 else seqM (mmu_store_pte32 env pte_paddr (pte OR ad)) (ret paddr))
             else ret paddr)))"

definition walk ::
    "'d env \<Rightarrow> u64 \<Rightarrow> MemoryAccessType \<Rightarrow> PrivilegeLevel \<Rightarrow> ('d ISS, u64) act" where
  "walk env vaddr type mode =
     bindM (getsM (\<lambda>s. mstatus (csrs s))) (\<lambda>st.
     bindM (decode_vm_info mode) (\<lambda>vm.
       walk_loop env vaddr type (mode = SupervisorMode) (mstatus_sum st \<noteq> 0) (mstatus_mxr st \<noteq> 0) vm
         (if check_vaddr_extension vaddr vm then levels vm else 0) (ptbase vm)))"

section \<open>Translation with the TLB\<close>

definition flush_mmu :: "MMU \<Rightarrow> MMU" where
  "flush_mmu m = m\<lparr>tlb := (\<lambda>_ _ _. \<lparr>tlb_ppn = - 1, tlb_vpn = - 1\<rparr>)\<rparr>"

definition MMU_init :: "bool \<Rightarrow> MMU" where
  "MMU_init fault_on_AD = flush_mmu \<lparr>tlb = (\<lambda>_ _ _. \<lparr>tlb_ppn = - 1, tlb_vpn = - 1\<rparr>),
     page_fault_on_AD = fault_on_AD\<rparr>"

definition tlb_lookup :: "PrivilegeLevel \<Rightarrow> MemoryAccessType \<Rightarrow> u64 \<Rightarrow> 'd ISS \<Rightarrow> tlb_entry_t" where
  "tlb_lookup mode type idx s = tlb (the (mmu s)) mode type idx"

definition set_tlb_entry :: "PrivilegeLevel \<Rightarrow> MemoryAccessType \<Rightarrow> u64 \<Rightarrow> tlb_entry_t \<Rightarrow> 'd ISS \<Rightarrow> 'd ISS" where
  "set_tlb_entry mode type idx e s = s\<lparr>mmu := map_option (\<lambda>m. m\<lparr>tlb :=
     (\<lambda>md t i. if md = mode \<and> t = type \<and> i = idx then e else tlb m md t i)\<rparr>) (mmu s)\<rparr>"

text \<open>
  \<open>paddr & ~PGMASK\<close>: \<open>PGMASK\<close> is an \<open>unsigned\<close>, so its complement has 32 bits and is zero-extended;
  the frame kept in the TLB loses the bits of the physical address above bit 31.
\<close>

definition tlb_frame :: "u64 \<Rightarrow> u64" where
  "tlb_frame paddr = paddr AND ucast (NOT (0xfff :: u32))"

text \<open>The privilege the access is made with: \<open>mstatus.mprv\<close> applies to loads and stores.\<close>

definition access_mode :: "MemoryAccessType \<Rightarrow> 'd ISS \<Rightarrow> PrivilegeLevel" where
  "access_mode type s =
     (if type \<noteq> FETCH \<and> mstatus_mprv (mstatus (csrs s)) \<noteq> 0 then mstatus_mpp (mstatus (csrs s)) else prv s)"

definition translate_virtual_to_physical_addr ::
    "'d env \<Rightarrow> u64 \<Rightarrow> MemoryAccessType \<Rightarrow> ('d ISS, u64) act" where
  "translate_virtual_to_physical_addr env vaddr type =
     bindM (getsM (\<lambda>s. satp_mode (satp (csrs s)))) (\<lambda>sm.
     if sm = SATP_MODE_BARE then ret vaddr
     else bindM (getsM (access_mode type)) (\<lambda>mode.
       if mode = MachineMode then ret vaddr
       else
         seqM (inc_time 30000)
           (seqM (assertM (\<lambda>_. mode = 0 \<or> mode = 1))
             (let vpn = drop_bit PGSHIFT vaddr; idx = vpn mod 256 in
              bindM (getsM (tlb_lookup mode type idx)) (\<lambda>x.
                if tlb_vpn x = vpn then ret (tlb_ppn x OR (vaddr AND PGMASK))
                else bindM (walk env vaddr type mode) (\<lambda>paddr.
                  seqM (modifyM (set_tlb_entry mode type idx
                          \<lparr>tlb_ppn = tlb_frame paddr, tlb_vpn = vpn\<rparr>))
                    (ret paddr)))))))"

section \<open>Frame facts\<close>

lemma page_fault_keeps [keeps_intros]:
  "keeps f (page_fault type vaddr)"
  unfolding page_fault_def by (cases type) (auto intro: keeps_intros)

lemma mmu_mem_keeps_view [keeps_intros]:
  "keeps hart_view (mmu_load_pte32 env a)" "keeps hart_view (mmu_load_pte64 env a)"
  "keeps hart_view (mmu_store_pte32 env a v)"
  unfolding mmu_load_pte32_def mmu_load_pte64_def mmu_store_pte32_def by (intro keeps_intros)+

lemma walk_loop_keeps_view [keeps_intros]:
  "keeps hart_view (walk_loop env vaddr type sm sumb mxr vm n base)"
proof (induction n arbitrary: base)
  case 0
  show ?case unfolding walk_loop.simps by (rule keeps_intros)
next
  case (Suc n)
  show ?case unfolding walk_loop.simps by (intro keeps_intros Suc)
qed

lemma decode_vm_info_keeps [keeps_intros]: "keeps f (decode_vm_info p)"
  unfolding decode_vm_info_def by (intro keeps_intros)

lemma walk_keeps_view [keeps_intros]: "keeps hart_view (walk env vaddr type mode)"
  unfolding walk_def by (intro keeps_intros)

lemma hart_view_set_tlb [simp]: "hart_view (set_tlb_entry mode type idx e s) = hart_view s"
  by (simp add: set_tlb_entry_def)

lemma translate_keeps_view [keeps_intros]:
  "keeps hart_view (translate_virtual_to_physical_addr env vaddr type)"
  unfolding translate_virtual_to_physical_addr_def by (intro keeps_intros; simp)

section \<open>Page offsets and the TLB invariant\<close>

text \<open>
  Every entry of the TLB that can be hit holds the frame of a page (its low bits are zero) at the
  index of its page number. The flushed value \<open>-1\<close> is no page number of a 64-bit address.
\<close>

definition tlb_inv :: "'d ISS \<Rightarrow> bool" where
  "tlb_inv s \<longleftrightarrow> (\<forall>m mode type idx. mmu s = Some m \<longrightarrow>
     tlb_vpn (tlb m mode type idx) = - 1 \<or>
     (tlb_ppn (tlb m mode type idx) AND PGMASK = 0 \<and> tlb_vpn (tlb m mode type idx) mod 256 = idx))"

lemma vpn_not_flushed: "drop_bit 12 (vaddr :: u64) \<noteq> - 1"
proof
  assume "drop_bit 12 vaddr = - 1"
  then have "bit (drop_bit 12 vaddr) 63" by simp
  then show False by (auto simp: bit_simps dest: bit_imp_le_length)
qed

lemma page_mask: "(0xfff :: u64) = mask 12"
  by (simp add: mask_eq_exp_minus_1)

lemma pgoff_or: "(push_bit 12 x OR (v AND 0xfff)) AND 0xfff = (v :: u64) AND 0xfff"
  unfolding page_mask by (rule bit_word_eqI) (auto simp: bit_simps)

lemma pgoff_tlb: "p AND 0xfff = (0 :: u64) \<Longrightarrow> (p OR (v AND 0xfff)) AND 0xfff = v AND 0xfff"
  by (simp add: bit.conj_disj_distrib2 and.assoc)

lemma page_fault_returns [returns_intros]: "returns P (page_fault type vaddr)"
  by (simp add: page_fault_def returns_intros split: MemoryAccessType.split)

lemma walk_loop_pgoff:
  "returns (\<lambda>pa. pa AND PGMASK = vaddr AND PGMASK) (walk_loop env vaddr type sm sumb mxr vm n base)"
proof (induction n arbitrary: base)
  case 0
  show ?case unfolding walk_loop.simps by (rule returns_intros)
next
  case (Suc n)
  show ?case unfolding walk_loop.simps Let_def by (intro returns_intros Suc pgoff_or)
qed

lemma walk_pgoff: "returns (\<lambda>pa. pa AND PGMASK = vaddr AND PGMASK) (walk env vaddr type mode)"
  unfolding walk_def by (intro returns_intros walk_loop_pgoff)

lemma keeps_mmu_basic [keeps_intros]:
  "keeps mmu (inc_time d)" "keeps mmu (on_shared m)" "keeps mmu (dmi_load_act d' n addr)"
  "keeps mmu (dmi_store_act d' n addr v)" "keeps mmu (modifyM atomic_unlock)"
  by (simp_all add: keeps_def inc_time_def zoomM_def dmi_load_act_def dmi_store_act_def
      split: prod.split sum.split)

lemma wait_access_keeps_mmu [keeps_intros]: "keeps mmu (wait_access env)"
  unfolding wait_access_def by (intro keeps_intros)

lemma do_transaction_keeps_mmu [keeps_intros]: "keeps mmu (do_transaction env cmd addr bs)"
  unfolding do_transaction_def by (intro keeps_intros; simp)

lemma raw_load_keeps_mmu [keeps_intros]: "keeps mmu (raw_load_data env n addr)"
  unfolding raw_load_data_def by (intro keeps_intros)

lemma dmi_store_all_keeps_mmu [keeps_intros]: "keeps mmu (dmi_store_all n addr v ds)"
proof (induction ds)
  case (Cons d ds)
  then show ?case unfolding dmi_store_all.simps by (intro keeps_intros)
qed (simp only: dmi_store_all.simps keeps_basic)

lemma raw_store_keeps_mmu [keeps_intros]: "keeps mmu (raw_store_data env n addr v)"
  unfolding raw_store_data_def by (intro keeps_intros)

lemma walk_loop_keeps_mmu [keeps_intros]:
  "keeps mmu (walk_loop env vaddr type sm sumb mxr vm n base)"
proof (induction n arbitrary: base)
  case 0
  show ?case unfolding walk_loop.simps by (rule keeps_intros)
next
  case (Suc n)
  show ?case
    unfolding walk_loop.simps mmu_load_pte32_def mmu_load_pte64_def mmu_store_pte32_def
    by (intro keeps_intros Suc)
qed

lemma walk_keeps_mmu [keeps_intros]: "keeps mmu (walk env vaddr type mode)"
  unfolding walk_def by (intro keeps_intros)

lemma tlb_inv_mmu: "mmu s' = mmu s \<Longrightarrow> tlb_inv s' = tlb_inv s"
  by (simp add: tlb_inv_def)

lemma tlb_inv_flush: "mmu s = Some m \<Longrightarrow> tlb_inv (s\<lparr>mmu := Some (flush_mmu m)\<rparr>)"
  by (simp add: tlb_inv_def flush_mmu_def)

lemma tlb_inv_set_entry:
  "tlb_inv s \<Longrightarrow> p AND PGMASK = 0 \<Longrightarrow> v mod 256 = idx \<Longrightarrow>
     tlb_inv (set_tlb_entry mode type idx \<lparr>tlb_ppn = p, tlb_vpn = v\<rparr> s)"
  unfolding tlb_inv_def set_tlb_entry_def by fastforce

lemma tlb_frame_bit: "bit (tlb_frame pa) n \<longleftrightarrow> bit pa n \<and> 12 \<le> n \<and> n < 32"
proof -
  have m: "ucast (NOT (0xfff :: u32)) = (push_bit 12 (mask 20) :: u64)"
    by (simp add: mask_eq_exp_minus_1 push_bit_eq_mult)
  show ?thesis unfolding tlb_frame_def m by (auto simp: bit_simps dest: bit_imp_le_length)
qed

lemma frame_low: "tlb_frame pa AND 0xfff = 0"
  unfolding page_mask by (rule bit_word_eqI) (auto simp: tlb_frame_bit bit_simps)

text \<open>The address a hit computes from the frame that a miss has stored.\<close>

lemma tlb_frame_or:
  assumes "pa AND 0xfff = v AND 0xfff"
  shows "tlb_frame pa OR (v AND 0xfff) = take_bit 32 pa"
proof -
  have "bit v n = bit pa n" if "n < 12" for n
    using assms [THEN arg_cong, of "\<lambda>w. bit w n"] that
    by (simp add: page_mask bit_simps)
  then show ?thesis
    unfolding page_mask by (intro bit_word_eqI) (auto simp: tlb_frame_bit bit_simps linorder_not_le [symmetric])
qed

lemma translate_tlb_inv: "preserves tlb_inv (translate_virtual_to_physical_addr env vaddr type)"
proof -
  have walk_part: "preserves tlb_inv (bindM (walk env vaddr type mode) (\<lambda>paddr.
      seqM (modifyM (set_tlb_entry mode type (drop_bit 12 vaddr mod 256)
        \<lparr>tlb_ppn = tlb_frame paddr, tlb_vpn = drop_bit 12 vaddr\<rparr>)) (ret paddr)))" for mode
  proof (rule preserves_bind)
    show "preserves tlb_inv (walk env vaddr type mode)"
      using walk_keeps_mmu [of env vaddr type mode] tlb_inv_mmu
      unfolding preserves_def keeps_def by blast
  qed (intro preserves_intros tlb_inv_set_entry frame_low refl; assumption)
  have "preserves tlb_inv (inc_time d)" for d
    unfolding inc_time_def by (intro preserves_intros) (simp add: tlb_inv_def)
  then show ?thesis
    unfolding translate_virtual_to_physical_addr_def Let_def
    by (intro preserves_intros walk_part)
qed

lemma translate_pgoff:
  assumes "translate_virtual_to_physical_addr env vaddr type s = (Ok pa, s')"
    and "tlb_inv s" and "mmu s = Some m"
  shows "pa AND PGMASK = vaddr AND PGMASK"
proof (cases "satp_mode (satp (csrs s)) = 0 \<or> access_mode type s = MachineMode")
  case True
  with assms(1) show ?thesis
    by (auto simp: translate_virtual_to_physical_addr_def split: if_splits)
next
  case False
  let ?e = "tlb m (access_mode type s) type (drop_bit 12 vaddr mod 256)"
  show ?thesis
  proof (cases "tlb_vpn ?e = drop_bit 12 vaddr")
    case True
    then have "tlb_ppn ?e AND 0xfff = 0"
      using assms(2,3) vpn_not_flushed [of vaddr] unfolding tlb_inv_def by metis
    then have "(tlb_ppn ?e OR (vaddr AND 0xfff)) AND 0xfff = vaddr AND 0xfff"
      by (rule pgoff_tlb)
    moreover have "pa = tlb_ppn ?e OR (vaddr AND 0xfff)"
      using assms(1,3) False True
      by (auto simp: translate_virtual_to_physical_addr_def act_defs inc_time_def Let_def
          tlb_lookup_def split: if_splits)
    ultimately show ?thesis by simp
  next
    case miss: False
    have "\<exists>mode s1 s2. walk env vaddr type mode s1 = (Ok pa, s2)"
      using assms(1,3) False miss
      by (auto simp: translate_virtual_to_physical_addr_def seqM_def inc_time_def Let_def
          tlb_lookup_def assertM_def split: if_splits elim!: bindM_OkE) blast+
    then show ?thesis by (auto dest: returnsD [OF walk_pgoff])
  qed
qed

section \<open>The specification of a walk\<close>

text \<open>
  Abstractly, a walk follows pointer entries to a leaf and then decides, from the leaf alone,
  whether the access is allowed. \<open>rd\<close> reads a page table entry; \<open>None\<close> is an entry outside the
  directly mapped memory.
\<close>

datatype leaf = No_leaf | Leaf u64 u64 nat

definition pte_address :: "vm_info \<Rightarrow> u64 \<Rightarrow> nat \<Rightarrow> u64 \<Rightarrow> u64" where
  "pte_address vm vaddr i base =
     base + (drop_bit (12 + i * idxbits vm) vaddr AND mask (idxbits vm)) * of_nat (ptesize vm)"

primrec find_leaf :: "(u64 \<Rightarrow> u64 option) \<Rightarrow> vm_info \<Rightarrow> u64 \<Rightarrow> nat \<Rightarrow> u64 \<Rightarrow> leaf option" where
  "find_leaf rd vm vaddr 0 base = Some No_leaf"
| "find_leaf rd vm vaddr (Suc i) base =
     (case rd (pte_address vm vaddr i base) of
        None \<Rightarrow> None
      | Some pte \<Rightarrow>
          if \<not> pte_V pte \<or> \<not> pte_R pte \<and> pte_W pte then Some No_leaf
          else if pte_R pte \<or> pte_X pte then Some (Leaf (pte_address vm vaddr i base) pte i)
          else find_leaf rd vm vaddr i (push_bit 12 (drop_bit 10 pte)))"

definition permitted :: "MemoryAccessType \<Rightarrow> bool \<Rightarrow> bool \<Rightarrow> bool \<Rightarrow> u64 \<Rightarrow> bool" where
  "permitted type smode sumb mxr pte \<longleftrightarrow>
     (case type of FETCH \<Rightarrow> pte_X pte | LOAD \<Rightarrow> pte_R pte \<or> mxr \<and> pte_X pte | STORE \<Rightarrow> pte_R pte \<and> pte_W pte) \<and>
     (if smode then pte_U pte \<longrightarrow> sumb \<and> type \<noteq> FETCH else pte_U pte)"

definition superpage_aligned :: "vm_info \<Rightarrow> nat \<Rightarrow> u64 \<Rightarrow> bool" where
  "superpage_aligned vm i pte \<longleftrightarrow> drop_bit 10 pte AND mask (i * idxbits vm) = 0"

definition leaf_address :: "vm_info \<Rightarrow> nat \<Rightarrow> u64 \<Rightarrow> u64 \<Rightarrow> u64" where
  "leaf_address vm i pte vaddr =
     push_bit 12 ((drop_bit 10 pte AND NOT (mask (i * idxbits vm))) OR
       (drop_bit 12 vaddr AND mask (i * idxbits vm))) OR (vaddr AND 0xfff)"

text \<open>The accessed and dirty bits an access needs, and what happens when they are not set.\<close>

definition needed_AD :: "MemoryAccessType \<Rightarrow> u64" where
  "needed_AD type = 0x40 OR (if type = STORE then 0x80 else 0)"

definition complete_access ::
    "'d env \<Rightarrow> MemoryAccessType \<Rightarrow> u64 \<Rightarrow> u64 \<Rightarrow> u64 \<Rightarrow> u64 \<Rightarrow> ('d ISS, u64) act" where
  "complete_access env type vaddr pte_paddr pte paddr s =
     (if pte AND needed_AD type = needed_AD type then (Ok paddr, s)
      else if page_fault_on_AD (the (mmu s)) then page_fault type vaddr s
      else seqM (mmu_store_pte32 env pte_paddr (pte OR needed_AD type)) (ret paddr) s)"

definition walk_spec ::
    "'d env \<Rightarrow> MemoryAccessType \<Rightarrow> bool \<Rightarrow> bool \<Rightarrow> bool \<Rightarrow> vm_info \<Rightarrow> u64 \<Rightarrow> leaf \<Rightarrow> ('d ISS, u64) act" where
  "walk_spec env type smode sumb mxr vm vaddr l = (case l of
     No_leaf \<Rightarrow> page_fault type vaddr
   | Leaf a pte i \<Rightarrow>
       if permitted type smode sumb mxr pte \<and> superpage_aligned vm i pte
       then complete_access env type vaddr a pte (leaf_address vm i pte vaddr)
       else page_fault type vaddr)"

lemma walk_loop_spec:
  assumes "has_access s" and "ptesize vm \<in> {4, 8}"
    and "find_leaf (phys_load (dmi_ranges s) (host (world s)) (ptesize vm)) vm vaddr n base = Some l"
  shows "\<exists>q. walk_loop env vaddr type smode sumb mxr vm n base s =
    walk_spec env type smode sumb mxr vm vaddr l (s\<lparr>quantum_keeper := q\<rparr>)"
  using assms
proof (induction n arbitrary: base s)
  case 0
  then show ?case
    by (intro exI [of _ "quantum_keeper s"]) (auto simp: walk_spec_def)
next
  case (Suc i)
  let ?a = "pte_address vm vaddr i base" and ?s = "s\<lparr>quantum_keeper := quantum_keeper s + 40000\<rparr>"
  from Suc.prems(3) obtain pte where
    pte: "phys_load (dmi_ranges s) (host (world s)) (ptesize vm) ?a = Some pte"
    by (auto split: option.splits)
  have load: "bindM (if ptesize vm = 4 then mmu_load_pte32 env ?a else mmu_load_pte64 env ?a) f s
      = f pte ?s" for f
    using raw_load_data_dmi [OF Suc.prems(1) pte, of env] Suc.prems(2)
    by (auto simp: mmu_load_pte32_def mmu_load_pte64_def bindM_def)
  have a: "base + (drop_bit (12 + i * idxbits vm) vaddr AND (push_bit (idxbits vm) 1 - 1)) *
      of_nat (ptesize vm) = ?a"
    by (simp add: pte_address_def mask_eq_exp_minus_1 push_bit_eq_mult)
  have m: "push_bit (i * idxbits vm) 1 - 1 = (mask (i * idxbits vm) :: u64)"
    by (simp add: mask_eq_exp_minus_1 push_bit_eq_mult)
  consider (bad) "\<not> pte_V pte \<or> \<not> pte_R pte \<and> pte_W pte"
    | (ptr) "pte_V pte" "\<not> pte_R pte" "\<not> pte_W pte" "\<not> pte_X pte"
    | (leaf) "pte_V pte" "pte_R pte \<or> pte_X pte" "pte_R pte \<or> \<not> pte_W pte" by blast
  then show ?case
  proof cases
    case bad
    then show ?thesis
      using Suc.prems(3) pte unfolding walk_loop.simps Let_def a load
      by (auto simp: walk_spec_def)
  next
    case ptr
    have "find_leaf (phys_load (dmi_ranges ?s) (host (world ?s)) (ptesize vm)) vm vaddr i
        (push_bit 12 (drop_bit 10 pte)) = Some l"
      using Suc.prems(3) pte ptr by simp
    from Suc.IH [OF _ Suc.prems(2) this] Suc.prems(1) show ?thesis
      using ptr unfolding walk_loop.simps Let_def a load by simp
  next
    case leaf
    then have l: "l = Leaf ?a pte i"
      using Suc.prems(3) pte by auto
    show ?thesis
      using leaf unfolding walk_loop.simps Let_def a load m l
      by (cases type; intro exI [of _ "quantum_keeper s + 40000"])
        (auto simp: walk_spec_def permitted_def superpage_aligned_def complete_access_def
          leaf_address_def needed_AD_def)
  qed
qed

end
