(* ===== verification/MemIf.thy ===== *)
theory MemIf
  imports Mmu
begin

text \<open>
  The virtual-address side of \<open>CombinedMemoryInterface\<close> (\<open>rv32/mem.h\<close>): translation, loads and
  stores of every width, the atomic accesses with the bus lock, and instruction fetch.
\<close>

unbundle bit_operations_syntax

definition v2p :: "'d env \<Rightarrow> u64 \<Rightarrow> MemoryAccessType \<Rightarrow> ('d ISS, u64) act" where
  "v2p env vaddr type = bindM (getsM mmu) (\<lambda>m. case m of
     None \<Rightarrow> ret vaddr
   | Some _ \<Rightarrow> translate_virtual_to_physical_addr env vaddr type)"

definition load_data :: "'d env \<Rightarrow> nat \<Rightarrow> u64 \<Rightarrow> ('d ISS, u64) act" where
  "load_data env n addr = bindM (v2p env addr LOAD) (raw_load_data env n)"

definition store_data :: "'d env \<Rightarrow> nat \<Rightarrow> u64 \<Rightarrow> u64 \<Rightarrow> ('d ISS, unit) act" where
  "store_data env n addr value = bindM (v2p env addr STORE) (\<lambda>a. raw_store_data env n a value)"

text \<open>\<open>mmu\<close> is a null pointer on platforms without an MMU, and \<open>flush_tlb\<close> does not test it.\<close>

definition flush_tlb :: "('d ISS, unit) act" where
  "flush_tlb = bindM (getsM mmu) (\<lambda>m. case m of
     None \<Rightarrow> failM NullPointer
   | Some x \<Rightarrow> modifyM (\<lambda>s. s\<lparr>mmu := Some (flush_mmu x)\<rparr>))"

definition load_instr :: "'d env \<Rightarrow> u64 \<Rightarrow> ('d ISS, u32) act" where
  "load_instr env addr = bindM (getsM instr_mem) (\<lambda>im. case im of
     InstrMemoryProxy d \<Rightarrow> bindM (proxy_load_instr d addr) (\<lambda>v. ret (ucast v))
   | CombinedMemory \<Rightarrow>
       bindM (v2p env addr FETCH) (\<lambda>a. bindM (raw_load_data env 4 a) (\<lambda>v. ret (ucast v))))"

definition load_double :: "'d env \<Rightarrow> u64 \<Rightarrow> ('d ISS, u64) act" where
  "load_double env addr = load_data env 8 addr"

definition load_word :: "'d env \<Rightarrow> u64 \<Rightarrow> ('d ISS, u32) act" where
  "load_word env addr = bindM (load_data env 4 addr) (\<lambda>v. ret (ucast v))"

definition load_half :: "'d env \<Rightarrow> u64 \<Rightarrow> ('d ISS, u32) act" where
  "load_half env addr = bindM (load_data env 2 addr) (\<lambda>v. ret (scast (ucast v :: u16)))"

definition load_byte :: "'d env \<Rightarrow> u64 \<Rightarrow> ('d ISS, u32) act" where
  "load_byte env addr = bindM (load_data env 1 addr) (\<lambda>v. ret (scast (ucast v :: u8)))"

definition load_uhalf :: "'d env \<Rightarrow> u64 \<Rightarrow> ('d ISS, u32) act" where
  "load_uhalf env addr = bindM (load_data env 2 addr) (\<lambda>v. ret (ucast (ucast v :: u16)))"

definition load_ubyte :: "'d env \<Rightarrow> u64 \<Rightarrow> ('d ISS, u32) act" where
  "load_ubyte env addr = bindM (load_data env 1 addr) (\<lambda>v. ret (ucast (ucast v :: u8)))"

definition store_double :: "'d env \<Rightarrow> u64 \<Rightarrow> u64 \<Rightarrow> ('d ISS, unit) act" where
  "store_double env addr value = store_data env 8 addr value"

definition store_word :: "'d env \<Rightarrow> u64 \<Rightarrow> u32 \<Rightarrow> ('d ISS, unit) act" where
  "store_word env addr value = store_data env 4 addr (ucast value)"

definition store_half :: "'d env \<Rightarrow> u64 \<Rightarrow> u16 \<Rightarrow> ('d ISS, unit) act" where
  "store_half env addr value = store_data env 2 addr (ucast value)"

definition store_byte :: "'d env \<Rightarrow> u64 \<Rightarrow> u8 \<Rightarrow> ('d ISS, unit) act" where
  "store_byte env addr value = store_data env 1 addr (ucast value)"

definition atomic_load_word :: "'d env \<Rightarrow> u64 \<Rightarrow> ('d ISS, u32) act" where
  "atomic_load_word env addr = seqM (lock_bus env) (load_word env addr)"

definition atomic_store_word :: "'d env \<Rightarrow> u64 \<Rightarrow> u32 \<Rightarrow> ('d ISS, unit) act" where
  "atomic_store_word env addr value = seqM (assertM bus_locked_by_me) (store_word env addr value)"

definition atomic_load_reserved_word :: "'d env \<Rightarrow> u64 \<Rightarrow> ('d ISS, u32) act" where
  "atomic_load_reserved_word env addr =
     seqM (lock_bus env) (seqM (modifyM (\<lambda>s. s\<lparr>lr_addr := addr\<rparr>)) (load_word env addr))"

definition atomic_store_conditional_word :: "'d env \<Rightarrow> u64 \<Rightarrow> u32 \<Rightarrow> ('d ISS, bool) act" where
  "atomic_store_conditional_word env addr value =
     bindM (getsM bus_locked_by_me) (\<lambda>l.
       if l then
         bindM (getsM lr_addr) (\<lambda>la.
           if addr = la then seqM (store_word env addr value) (ret True)
           else seqM (modifyM atomic_unlock) (ret False))
       else ret False)"

section \<open>Frame facts\<close>

lemma v2p_keeps_view [keeps_intros]: "keeps hart_view (v2p env vaddr type)"
  unfolding v2p_def by (intro keeps_intros)

lemma data_keeps_view [keeps_intros]:
  "keeps hart_view (load_data env n addr)" "keeps hart_view (store_data env n addr v)"
  unfolding load_data_def store_data_def by (intro keeps_intros)+

lemma load_keeps_view [keeps_intros]:
  "keeps hart_view (load_double env addr)" "keeps hart_view (load_word env addr)"
  "keeps hart_view (load_half env addr)" "keeps hart_view (load_byte env addr)"
  "keeps hart_view (load_uhalf env addr)" "keeps hart_view (load_ubyte env addr)"
  unfolding load_double_def load_word_def load_half_def load_byte_def load_uhalf_def load_ubyte_def
  by (intro keeps_intros)+

lemma store_keeps_view [keeps_intros]:
  "keeps hart_view (store_double env addr v8)" "keeps hart_view (store_word env addr v4)"
  "keeps hart_view (store_half env addr v2)" "keeps hart_view (store_byte env addr v1)"
  unfolding store_double_def store_word_def store_half_def store_byte_def
  by (intro keeps_intros)+

lemma flush_tlb_keeps_view [keeps_intros]: "keeps hart_view flush_tlb"
  unfolding flush_tlb_def by (intro keeps_intros; simp)

lemma load_instr_keeps_view [keeps_intros]: "keeps hart_view (load_instr env addr)"
proof -
  have "keeps hart_view (case im of
      InstrMemoryProxy d \<Rightarrow> bindM (proxy_load_instr d addr) (\<lambda>v. ret (ucast v :: u32))
    | CombinedMemory \<Rightarrow>
       bindM (v2p env addr FETCH) (\<lambda>a. bindM (raw_load_data env 4 a) (\<lambda>v. ret (ucast v))))" for im
    by (cases im; simp only: instr_memory.case; intro keeps_intros)
  then show ?thesis unfolding load_instr_def by (intro keeps_intros)
qed

lemma atomic_keeps_view [keeps_intros]:
  "keeps hart_view (atomic_load_word env addr)" "keeps hart_view (atomic_store_word env addr v)"
  "keeps hart_view (atomic_load_reserved_word env addr)"
  "keeps hart_view (atomic_store_conditional_word env addr v)"
  unfolding atomic_load_word_def atomic_store_word_def atomic_load_reserved_word_def
    atomic_store_conditional_word_def
  by (intro keeps_intros; simp)+

section \<open>Loads and stores without translation\<close>

text \<open>
  A hart without an MMU (or with \<open>satp\<close> in bare mode, or in machine mode) uses the address as it is.
\<close>

definition untranslated :: "MemoryAccessType \<Rightarrow> 'd ISS \<Rightarrow> bool" where
  "untranslated type s \<longleftrightarrow>
     mmu s = None \<or> satp_mode (satp (csrs s)) = SATP_MODE_BARE \<or> access_mode type s = MachineMode"

lemma v2p_untranslated: "untranslated type s \<Longrightarrow> v2p env vaddr type s = (Ok vaddr, s)"
  by (auto simp: untranslated_def v2p_def translate_virtual_to_physical_addr_def split: option.split)

lemma load_data_untranslated:
  "untranslated LOAD s \<Longrightarrow> load_data env n addr s = raw_load_data env n addr s"
  by (simp add: load_data_def bindM_def v2p_untranslated)

lemma store_data_untranslated:
  "untranslated STORE s \<Longrightarrow> store_data env n addr v s = raw_store_data env n addr v s"
  by (simp add: store_data_def bindM_def v2p_untranslated)

end
