(* ===== verification/Example.thy ===== *)
theory Example
  imports Core
begin

text \<open>
  A small platform on which the hypotheses of the theorems hold: one RV32 hart with a direct mapping
  of 64 bytes of memory at \<open>0x80000000\<close>, no other targets on the bus, and no syscall emulator. The
  softfloat functions are constants.
\<close>

unbundle bit_operations_syntax

definition sf_example :: softfloat where
  "sf_example =
     \<lparr>f32_add = (\<lambda>_ _ _. (0, 0)), f32_sub = (\<lambda>_ _ _. (0, 0)), f32_mul = (\<lambda>_ _ _. (0, 0)),
      f32_div = (\<lambda>_ _ _. (0, 0)), f32_sqrt = (\<lambda>_ _. (0, 0)), f32_mulAdd = (\<lambda>_ _ _ _. (0, 0)),
      f32_lt_quiet = (\<lambda>_ _. (False, 0)), f32_eq = (\<lambda>_ _. (False, 0)), f32_lt = (\<lambda>_ _. (False, 0)),
      f32_le = (\<lambda>_ _. (False, 0)), f32_classify = (\<lambda>_. 0), f32_to_i32 = (\<lambda>_ _. (0, 0)),
      f32_to_ui32 = (\<lambda>_ _. (0, 0)), i32_to_f32 = (\<lambda>_ _. (0, 0)), ui32_to_f32 = (\<lambda>_ _. (0, 0)),
      f64_add = (\<lambda>_ _ _. (0, 0)), f64_sub = (\<lambda>_ _ _. (0, 0)), f64_mul = (\<lambda>_ _ _. (0, 0)),
      f64_div = (\<lambda>_ _ _. (0, 0)), f64_sqrt = (\<lambda>_ _. (0, 0)), f64_mulAdd = (\<lambda>_ _ _ _. (0, 0)),
      f64_lt_quiet = (\<lambda>_ _. (False, 0)), f64_eq = (\<lambda>_ _. (False, 0)), f64_lt = (\<lambda>_ _. (False, 0)),
      f64_le = (\<lambda>_ _. (False, 0)), f64_classify = (\<lambda>_. 0), f64_to_i32 = (\<lambda>_ _. (0, 0)),
      f64_to_ui32 = (\<lambda>_ _. (0, 0)), i32_to_f64 = (\<lambda>_ _. (0, 0)), ui32_to_f64 = (\<lambda>_ _. (0, 0)),
      f64_to_f32 = (\<lambda>_ _. (0, 0)), f32_to_f64 = (\<lambda>_ _. (0, 0))\<rparr>"

definition env_example :: "unit env" where
  "env_example =
     \<lparr>sf = sf_example, wait_lock_event = (\<lambda>_. None), wait_wfi_event = (\<lambda>_. None),
      isock = (\<lambda>tr d. ret (tr\<lparr>response_status := TLM_ADDRESS_ERROR_RESPONSE\<rparr>, d)),
      update_and_get_mtime = (\<lambda>w. (0, w)), need_sync = (\<lambda>_ _. False), sync = (\<lambda>_ w. w), sys = None\<rparr>"

definition dmi_example :: MemoryDMI where
  "dmi_example = \<lparr>dmi_mem = 0, dmi_start = 0x80000000, dmi_size = 64, dmi_end = 0x80000040\<rparr>"

text \<open>The memory holds the given words, little-endian, and zeros.\<close>

definition host_example :: "u32 list \<Rightarrow> host_mem" where
  "host_example ws = (\<lambda>_. let bs = concat (map (\<lambda>w. to_bytes 4 (ucast w)) ws)
     in bs @ replicate (64 - length bs) 0)"

definition hart_example :: "u32 list \<Rightarrow> unit ISS" where
  "hart_example ws = init 0x80000000 0x80000040 (ISS_init 0 False CombinedMemory [dmi_example] None
     \<lparr>bus_lock = BusLock_init, host = host_example ws, devs = ()\<rparr>)"

lemmas hart_example_defs = hart_example_def init_def ISS_init_def set_reg_def RegFile_init_def
  BusLock_init_def

lemma hart_example_fields [simp]:
  "pc (hart_example ws) = 0x80000000" "instr_mem (hart_example ws) = CombinedMemory"
  "dmi_ranges (hart_example ws) = [dmi_example]" "mmu (hart_example ws) = None"
  "host (world (hart_example ws)) = host_example ws" "prv (hart_example ws) = MachineMode"
  "bus_lock (world (hart_example ws)) = BusLock_init" "debug_mode (hart_example ws) = False"
  "lr_sc_counter (hart_example ws) = 0" "status (hart_example ws) = Runnable"
  "csrs (hart_example ws) = csr_table_init" "shall_exit (hart_example ws) = False"
  by (simp_all add: hart_example_def init_def ISS_init_def set_reg_def)
    (simp add: csr_table_init_def)

lemma hart_example_wf: "hart_wf (hart_example ws)"
  by (simp add: hart_example_def init_def hart_wf_def) (simp add: hart_wf_init [unfolded hart_wf_def])

end
