(* ===== verification/Iss_Trap.thy ===== *)
theory Iss_Trap
  imports MemIf Example
begin

text \<open>
  Traps and interrupts of the RV32 hart (\<open>rv32/iss.cpp\<close>): the interrupt lines, the selection of a
  pending interrupt, the trap causes, entering and leaving a trap handler.
\<close>

unbundle bit_operations_syntax

definition upd_csrs :: "(csr_table \<Rightarrow> csr_table) \<Rightarrow> 'd ISS \<Rightarrow> 'd ISS" where
  "upd_csrs f s = s\<lparr>csrs := f (csrs s)\<rparr>"

definition release_lr_sc_reservation :: "'d ISS \<Rightarrow> 'd ISS" where
  "release_lr_sc_reservation s = atomic_unlock (s\<lparr>lr_sc_counter := 0\<rparr>)"

section \<open>Interrupt lines\<close>

text \<open>Each also notifies \<open>wfi_event\<close> (except the clearing of an external interrupt).\<close>

definition set_external :: "bool \<Rightarrow> PrivilegeLevel \<Rightarrow> u32 \<Rightarrow> u32" where
  "set_external b level r =
     (if level = UserMode then set_mip_ueip (b2w b) r
      else if level = SupervisorMode then set_mip_seip (b2w b) r
      else if level = MachineMode then set_mip_meip (b2w b) r
      else r)"

definition trigger_external_interrupt :: "PrivilegeLevel \<Rightarrow> 'd ISS \<Rightarrow> 'd ISS" where
  "trigger_external_interrupt level = upd_csrs (\<lambda>c. c\<lparr>mip := set_external True level (mip c)\<rparr>)"

definition clear_external_interrupt :: "PrivilegeLevel \<Rightarrow> 'd ISS \<Rightarrow> 'd ISS" where
  "clear_external_interrupt level = upd_csrs (\<lambda>c. c\<lparr>mip := set_external False level (mip c)\<rparr>)"

definition trigger_timer_interrupt :: "bool \<Rightarrow> 'd ISS \<Rightarrow> 'd ISS" where
  "trigger_timer_interrupt st = upd_csrs (\<lambda>c. c\<lparr>mip := set_mip_mtip (b2w st) (mip c)\<rparr>)"

definition trigger_software_interrupt :: "bool \<Rightarrow> 'd ISS \<Rightarrow> 'd ISS" where
  "trigger_software_interrupt st = upd_csrs (\<lambda>c. c\<lparr>mip := set_mip_msip (b2w st) (mip c)\<rparr>)"

section \<open>Pending interrupts\<close>

record PendingInterrupts =
  target_mode :: PrivilegeLevel
  pending :: u32

definition compute_pending_interrupts :: "'d ISS \<Rightarrow> PendingInterrupts" where
  "compute_pending_interrupts s =
     (let c = csrs s; pend = mie c AND mip c in
      if pend = 0 then \<lparr>target_mode = NoneMode, pending = 0\<rparr>
      else let m_pending = pend AND NOT (mideleg c) in
      if m_pending \<noteq> 0 \<and> (prv s < MachineMode \<or> (prv s = MachineMode \<and> mstatus_mie (mstatus c) \<noteq> 0))
      then \<lparr>target_mode = MachineMode, pending = m_pending\<rparr>
      else let pend = pend AND mideleg c; s_pending = pend AND NOT (sideleg c) in
      if s_pending \<noteq> 0 \<and> (prv s < SupervisorMode \<or> (prv s = SupervisorMode \<and> mstatus_sie (mstatus c) \<noteq> 0))
      then \<lparr>target_mode = SupervisorMode, pending = s_pending\<rparr>
      else let u_pending = pend AND sideleg c in
      if u_pending \<noteq> 0 \<and> (prv s = UserMode \<and> mstatus_uie (mstatus c) \<noteq> 0)
      then \<lparr>target_mode = UserMode, pending = u_pending\<rparr>
      else \<lparr>target_mode = NoneMode, pending = 0\<rparr>)"

definition has_pending_enabled_interrupts :: "'d ISS \<Rightarrow> bool" where
  "has_pending_enabled_interrupts s \<longleftrightarrow> target_mode (compute_pending_interrupts s) \<noteq> NoneMode"

definition has_local_pending_enabled_interrupts :: "'d ISS \<Rightarrow> bool" where
  "has_local_pending_enabled_interrupts s \<longleftrightarrow> mie (csrs s) AND mip (csrs s) \<noteq> 0"

text \<open>The code of the most important pending interrupt; \<open>None\<close> makes \<open>prepare_interrupt\<close> throw.\<close>

definition interrupt_code :: "u32 \<Rightarrow> ExceptionCode option" where
  "interrupt_code x =
     (if mip_meip x \<noteq> 0 then Some EXC_M_EXTERNAL_INTERRUPT
      else if mip_msip x \<noteq> 0 then Some EXC_M_SOFTWARE_INTERRUPT
      else if mip_mtip x \<noteq> 0 then Some EXC_M_TIMER_INTERRUPT
      else if mip_seip x \<noteq> 0 then Some EXC_S_EXTERNAL_INTERRUPT
      else if mip_ssip x \<noteq> 0 then Some EXC_S_SOFTWARE_INTERRUPT
      else if mip_stip x \<noteq> 0 then Some EXC_S_TIMER_INTERRUPT
      else if mip_ueip x \<noteq> 0 then Some EXC_U_EXTERNAL_INTERRUPT
      else if mip_usip x \<noteq> 0 then Some EXC_U_SOFTWARE_INTERRUPT
      else if mip_utip x \<noteq> 0 then Some EXC_U_TIMER_INTERRUPT
      else None)"

definition prepare_interrupt :: "PendingInterrupts \<Rightarrow> ('d ISS, unit) act" where
  "prepare_interrupt e = (case interrupt_code (pending e) of
     None \<Rightarrow> failM RuntimeError
   | Some exc \<Rightarrow>
       if target_mode e = MachineMode then modifyM (upd_csrs (\<lambda>c.
         c\<lparr>mcause := set_mcause_interrupt 1 (set_mcause_exception_code exc (mcause c))\<rparr>))
       else if target_mode e = SupervisorMode then modifyM (upd_csrs (\<lambda>c.
         c\<lparr>scause := set_mcause_interrupt 1 (set_mcause_exception_code exc (scause c))\<rparr>))
       else if target_mode e = UserMode then modifyM (upd_csrs (\<lambda>c.
         c\<lparr>ucause := set_mcause_interrupt 1 (set_mcause_exception_code exc (ucause c))\<rparr>))
       else failM RuntimeError)"

section \<open>Traps\<close>

definition trap_cause :: "ExceptionCode \<Rightarrow> u32 \<Rightarrow> u32" where
  "trap_cause reason r = set_mcause_exception_code reason (set_mcause_interrupt 0 r)"

definition prepare_trap :: "ExceptionCode \<Rightarrow> u64 \<Rightarrow> ('d ISS, PrivilegeLevel) act" where
  "prepare_trap reason tval =
     seqM (modifyM (\<lambda>s. s\<lparr>pc := last_pc s\<rparr>))
     (bindM (getsM (\<lambda>s. (prv s, medeleg (csrs s), sedeleg (csrs s)))) (\<lambda>(p, mdel, sdel).
       let exc_bit = push_bit (unat reason) 1 in
       if p = MachineMode \<or> exc_bit AND mdel = 0 then
         seqM (modifyM (upd_csrs (\<lambda>c. c\<lparr>mcause := trap_cause reason (mcause c)\<rparr>)))
           (bindM (lexical_cast32 tval) (\<lambda>v.
             seqM (modifyM (upd_csrs (\<lambda>c. c\<lparr>mtval := v\<rparr>))) (ret MachineMode)))
       else if p = SupervisorMode \<or> exc_bit AND sdel = 0 then
         seqM (modifyM (upd_csrs (\<lambda>c. c\<lparr>scause := trap_cause reason (scause c)\<rparr>)))
           (bindM (lexical_cast32 tval) (\<lambda>v.
             seqM (modifyM (upd_csrs (\<lambda>c. c\<lparr>stval := v\<rparr>))) (ret SupervisorMode)))
       else
         seqM (assertM (\<lambda>_. p = UserMode \<and> exc_bit AND mdel \<noteq> 0 \<and> exc_bit AND sdel \<noteq> 0))
           (seqM (modifyM (upd_csrs (\<lambda>c. c\<lparr>ucause := trap_cause reason (ucause c)\<rparr>)))
             (bindM (lexical_cast32 tval) (\<lambda>v.
               seqM (modifyM (upd_csrs (\<lambda>c. c\<lparr>utval := v\<rparr>))) (ret UserMode))))))"

text \<open>The address of the handler: vectored for interrupts when the trap vector asks for it.\<close>

definition handler_pc :: "u32 \<Rightarrow> u32 \<Rightarrow> u32" where
  "handler_pc tvec cause =
     (if mcause_interrupt cause \<noteq> 0 \<and> mtvec_mode tvec = mtvec_Vectored
      then get_base_address tvec + 4 * mcause_exception_code cause
      else get_base_address tvec)"

definition enter_m :: "PrivilegeLevel \<Rightarrow> 'd ISS \<Rightarrow> 'd ISS" where
  "enter_m pp s =
     (let c = csrs s;
          st1 = set_mstatus_mpie (mstatus_mie (mstatus c)) (mstatus c);
          st2 = set_mstatus_mie 0 st1;
          st3 = set_mstatus_mpp pp st2
      in s\<lparr>csrs := c\<lparr>mepc := pc s, mstatus := st3\<rparr>, pc := handler_pc (mtvec c) (mcause c)\<rparr>)"

definition enter_s :: "PrivilegeLevel \<Rightarrow> 'd ISS \<Rightarrow> 'd ISS" where
  "enter_s pp s =
     (let c = csrs s;
          st1 = set_mstatus_spie (mstatus_sie (mstatus c)) (mstatus c);
          st2 = set_mstatus_sie 0 st1;
          st3 = set_mstatus_spp pp st2
      in s\<lparr>csrs := c\<lparr>sepc := pc s, mstatus := st3\<rparr>, pc := handler_pc (stvec c) (scause c)\<rparr>)"

definition enter_u :: "'d ISS \<Rightarrow> 'd ISS" where
  "enter_u s =
     (let c = csrs s;
          st1 = set_mstatus_upie (mstatus_uie (mstatus c)) (mstatus c);
          st2 = set_mstatus_uie 0 st1
      in s\<lparr>csrs := c\<lparr>uepc := pc s, mstatus := st2\<rparr>, pc := handler_pc (utvec c) (ucause c)\<rparr>)"

definition switch_to_trap_handler :: "PrivilegeLevel \<Rightarrow> ('d ISS, unit) act" where
  "switch_to_trap_handler target =
     seqM (modifyM release_lr_sc_reservation)
     (bindM (getsM prv) (\<lambda>pp.
      seqM (modifyM (\<lambda>s. s\<lparr>prv := target\<rparr>))
       (if target = MachineMode then modifyM (enter_m pp)
        else if target = SupervisorMode then
          seqM (assertM (\<lambda>s. prv s = SupervisorMode \<or> prv s = UserMode)) (modifyM (enter_s pp))
        else if target = UserMode then
          seqM (assertM (\<lambda>s. prv s = UserMode)) (modifyM enter_u)
        else failM RuntimeError)))"

definition return_from_trap_handler :: "PrivilegeLevel \<Rightarrow> ('d ISS, unit) act" where
  "return_from_trap_handler return_mode =
     (if return_mode = MachineMode then modifyM (\<lambda>s.
        let c = csrs s; st = mstatus c;
            st1 = set_mstatus_mie (mstatus_mpie st) st;
            st2 = set_mstatus_mpie 1 st1;
            st3 = set_mstatus_mpp (if has_user_mode_extension (misa c) then UserMode else MachineMode) st2
        in s\<lparr>prv := mstatus_mpp st, csrs := c\<lparr>mstatus := st3\<rparr>, pc := mepc c\<rparr>)
      else if return_mode = SupervisorMode then modifyM (\<lambda>s.
        let c = csrs s; st = mstatus c;
            st1 = set_mstatus_sie (mstatus_spie st) st;
            st2 = set_mstatus_spie 1 st1;
            st3 = set_mstatus_spp (if has_user_mode_extension (misa c) then UserMode else SupervisorMode) st2
        in s\<lparr>prv := mstatus_spp st, csrs := c\<lparr>mstatus := st3\<rparr>, pc := sepc c\<rparr>)
      else if return_mode = UserMode then modifyM (\<lambda>s.
        let c = csrs s; st = mstatus c;
            st1 = set_mstatus_uie (mstatus_upie st) st;
            st2 = set_mstatus_upie 1 st1
        in s\<lparr>prv := UserMode, csrs := c\<lparr>mstatus := st2\<rparr>, pc := uepc c\<rparr>)
      else failM RuntimeError)"

section \<open>Selection of an interrupt\<close>

text \<open>
  The reference: an interrupt is handled in the mode it is delegated to, a mode takes interrupts when
  the hart runs with less privilege or with the same privilege and the mode's enable bit, and the
  most privileged mode with something to take wins.
\<close>

definition delegated_to :: "PrivilegeLevel \<Rightarrow> csr_table \<Rightarrow> u32" where
  "delegated_to m c =
     (if m = MachineMode then NOT (mideleg c)
      else if m = SupervisorMode then mideleg c AND NOT (sideleg c)
      else mideleg c AND sideleg c)"

definition interrupt_enable :: "PrivilegeLevel \<Rightarrow> csr_table \<Rightarrow> bool" where
  "interrupt_enable m c \<longleftrightarrow>
     (if m = MachineMode then mstatus_mie (mstatus c)
      else if m = SupervisorMode then mstatus_sie (mstatus c)
      else mstatus_uie (mstatus c)) \<noteq> 0"

definition deliverable :: "PrivilegeLevel \<Rightarrow> 'd ISS \<Rightarrow> u32" where
  "deliverable m s = (if prv s < m \<or> (prv s = m \<and> interrupt_enable m (csrs s))
     then (mie (csrs s) AND mip (csrs s)) AND delegated_to m (csrs s) else 0)"

definition interrupt_spec :: "'d ISS \<Rightarrow> (PrivilegeLevel \<times> u32) option" where
  "interrupt_spec s = (case filter (\<lambda>m. deliverable m s \<noteq> 0) [MachineMode, SupervisorMode, UserMode] of
     [] \<Rightarrow> None
   | m # _ \<Rightarrow> Some (m, deliverable m s))"

lemma compute_pending_interrupts_eq:
  "compute_pending_interrupts s = (case interrupt_spec s of
     None \<Rightarrow> \<lparr>target_mode = NoneMode, pending = 0\<rparr>
   | Some (m, p) \<Rightarrow> \<lparr>target_mode = m, pending = p\<rparr>)"
proof -
  define P where "P = mie (csrs s) AND mip (csrs s)"
  have P: "mie (csrs s) AND mip (csrs s) = P" by (simp add: P_def)
  have "deliverable m s = (if prv s < m \<or> (prv s = m \<and> interrupt_enable m (csrs s))
      then P AND delegated_to m (csrs s) else 0)" for m
    by (simp add: deliverable_def P)
  then show ?thesis
    by (cases "P = 0")
      (auto simp: compute_pending_interrupts_def interrupt_spec_def delegated_to_def P
        interrupt_enable_def Let_def and.assoc)
qed

text \<open>
  C6. \<open>compute_pending_interrupts\<close> selects the mode and the interrupts of the reference, and returns
  \<open>NoneMode\<close> exactly when no mode can take an interrupt.
\<close>

theorem compute_pending_interrupts_spec:
  "compute_pending_interrupts s = (case interrupt_spec s of
     None \<Rightarrow> \<lparr>target_mode = NoneMode, pending = 0\<rparr>
   | Some (m, p) \<Rightarrow> \<lparr>target_mode = m, pending = p\<rparr>)"
  by (rule compute_pending_interrupts_eq)

lemma and_not_trans:
  fixes a b c :: u32
  assumes "a AND NOT b = 0" and "b AND NOT c = 0"
  shows "a AND NOT c = 0"
proof -
  have *: "bit y n" if "x AND NOT y = 0" "bit x n" "n < 32" for x y :: u32 and n
    using that(1) [THEN arg_cong, of "\<lambda>w. bit w n"] that(2,3) by (auto simp: bit_simps)
  show ?thesis
    by (rule bit_word_eqI) (use * [OF assms(1)] * [OF assms(2)] in \<open>auto simp: bit_simps\<close>)
qed

lemma interrupt_spec_mode:
  assumes "interrupt_spec s = Some (m, p)"
  shows "m = MachineMode \<or> m = SupervisorMode \<or> m = UserMode" and "prv s \<le> m"
    and "p \<noteq> 0" and "p AND NOT (mie (csrs s)) = 0"
proof -
  from assms have d: "p = deliverable m s" "p \<noteq> 0" "m = MachineMode \<or> m = SupervisorMode \<or> m = UserMode"
    by (auto simp: interrupt_spec_def split: if_splits)
  then show "m = MachineMode \<or> m = SupervisorMode \<or> m = UserMode" "p \<noteq> 0" "prv s \<le> m"
    by (auto simp: deliverable_def split: if_splits)
  have "((a AND b) AND d) AND NOT a = 0" for a b d :: u32
    by (rule bit_word_eqI) (auto simp: bit_simps)
  then show "p AND NOT (mie (csrs s)) = 0"
    using d(1) by (auto simp: deliverable_def)
qed

lemma interrupt_code_defined:
  assumes "p \<noteq> 0" and "p AND NOT MIE_MASK = 0"
  shows "interrupt_code p \<noteq> None"
proof
  assume n: "interrupt_code p = None"
  have b: "bf_get k 1 p = 0 \<longleftrightarrow> \<not> bit p k" for k
  proof -
    have "bf_get k 1 p = of_bool (bit p k)" 
      by (rule bit_word_eqI) (auto simp: bit_bf_get bit_simps)
    then show ?thesis by simp
  qed
  have out: "\<not> bit p k" if "bit (NOT MIE_MASK) k" for k
    using assms(2) [THEN arg_cong, of "\<lambda>w. bit w k"] that by (simp add: bit_simps)
  have "p = 0"
    using n unfolding interrupt_code_def b
    by (intro u32_eqI) (auto simp: bit_simps intro!: out split: if_splits)
  with assms(1) show False by simp
qed

section \<open>Entering and leaving a handler\<close>

lemma switch_fields [simp]:
  "lr_sc_counter (upd_csrs f s) = lr_sc_counter s" "world (upd_csrs f s) = world s"
  "prv (upd_csrs f s) = prv s" "pc (upd_csrs f s) = pc s" "csrs (upd_csrs f s) = f (csrs s)"
  "regs (upd_csrs f s) = regs s" "last_pc (upd_csrs f s) = last_pc s"
  by (simp_all add: upd_csrs_def)

lemma release_fields [simp]:
  "prv (release_lr_sc_reservation s) = prv s" "pc (release_lr_sc_reservation s) = pc s"
  "csrs (release_lr_sc_reservation s) = csrs s" "lr_sc_counter (release_lr_sc_reservation s) = 0"
  "regs (release_lr_sc_reservation s) = regs s" "last_pc (release_lr_sc_reservation s) = last_pc s"
  by (simp_all add: release_lr_sc_reservation_def)

lemma released [simp]: "\<not> bus_locked_by_me (release_lr_sc_reservation s)"
  by (simp add: release_lr_sc_reservation_def)

text \<open>The state in which the handler of a mode starts.\<close>

definition handler_state :: "PrivilegeLevel \<Rightarrow> 'd ISS \<Rightarrow> 'd ISS" where
  "handler_state m s = (let r = (release_lr_sc_reservation s)\<lparr>prv := m\<rparr> in
     if m = MachineMode then enter_m (prv s) r else if m = SupervisorMode then enter_s (prv s) r else enter_u r)"

lemma switch_eq:
  "m = MachineMode \<or> m = SupervisorMode \<or> m = UserMode \<Longrightarrow>
     switch_to_trap_handler m s = (Ok (), handler_state m s)"
  by (auto simp: switch_to_trap_handler_def handler_state_def Let_def seqM_assert_apply)

lemma handler_locks:
  "bus_locked_by_me (handler_state m s) = False" "lr_sc_counter (handler_state m s) = 0"
  "prv (handler_state m s) = m" "regs (handler_state m s) = regs s"
proof -
  have "bus_locked_by_me (s\<lparr>csrs := c, pc := p\<rparr>) = bus_locked_by_me s" if "mhartid c = mhartid (csrs s)"
    for s :: "'a ISS" and c p using that by (simp add: bus_locked_by_me_def get_hart_id_def)
  moreover have "bus_locked_by_me (s\<lparr>prv := p\<rparr>) = bus_locked_by_me s" for s :: "'a ISS" and p
    by (simp add: bus_locked_by_me_def get_hart_id_def)
  ultimately show "bus_locked_by_me (handler_state m s) = False"
    by (simp add: handler_state_def enter_m_def enter_s_def enter_u_def Let_def)
qed (simp_all add: handler_state_def enter_m_def enter_s_def enter_u_def Let_def)

lemma interrupt_entered:
  assumes "mie (csrs s) AND NOT MIE_MASK = 0" and "target_mode (compute_pending_interrupts s) \<noteq> NoneMode"
  shows "\<exists>s'. seqM (prepare_interrupt (compute_pending_interrupts s))
      (switch_to_trap_handler (target_mode (compute_pending_interrupts s))) s = (Ok (), s') \<and>
    prv s' = target_mode (compute_pending_interrupts s) \<and> prv s \<le> prv s' \<and>
    lr_sc_counter s' = 0 \<and> \<not> bus_locked_by_me s'"
proof -
  obtain m p where mp: "interrupt_spec s = Some (m, p)"
    using assms(2) by (auto simp: compute_pending_interrupts_eq split: option.splits)
  then have x: "compute_pending_interrupts s = \<lparr>target_mode = m, pending = p\<rparr>"
    by (simp add: compute_pending_interrupts_eq)
  note m = interrupt_spec_mode [OF mp]
  have "p AND NOT MIE_MASK = 0"
    using m(4) assms(1) by (rule and_not_trans)
  then obtain exc where "interrupt_code p = Some exc"
    using interrupt_code_defined [OF m(3)] by auto
  then obtain f where "prepare_interrupt \<lparr>target_mode = m, pending = p\<rparr> s = (Ok (), upd_csrs f s)"
    using m(1) by (auto simp: prepare_interrupt_def)
  then show ?thesis
    using m(1,2) by (simp add: x seqM_apply switch_eq handler_locks)
qed

text \<open>
  An interrupt that is taken enters the handler of a mode at least as privileged as the current
  one, and releases the reservation and the bus; with only standard bits in \<open>mie\<close> the exception for
  a missing interrupt is not thrown.
\<close>

theorem interrupt_entry:
  assumes "mie (csrs s) AND NOT MIE_MASK = 0" and "target_mode (compute_pending_interrupts s) \<noteq> NoneMode"
  shows "\<exists>s'. seqM (prepare_interrupt (compute_pending_interrupts s))
      (switch_to_trap_handler (target_mode (compute_pending_interrupts s))) s = (Ok (), s') \<and>
    prv s' = target_mode (compute_pending_interrupts s) \<and> prv s \<le> prv s' \<and>
    lr_sc_counter s' = 0 \<and> \<not> bus_locked_by_me s'"
  by (rule interrupt_entered [OF assms])

theorem interrupt_entry_witness:
  "\<exists>s'. seqM (prepare_interrupt \<lparr>target_mode = MachineMode, pending = 0x80\<rparr>) (switch_to_trap_handler MachineMode)
      ((hart_example [])\<lparr>prv := UserMode, csrs := csr_table_init\<lparr>mie := 0x80, mip := 0x80\<rparr>\<rparr>) = (Ok (), s') \<and>
    prv s' = MachineMode"
proof -
  let ?s = "(hart_example [])\<lparr>prv := UserMode, csrs := csr_table_init\<lparr>mie := 0x80, mip := 0x80\<rparr>\<rparr>"
  have "compute_pending_interrupts ?s = \<lparr>target_mode = MachineMode, pending = 0x80\<rparr>"
    by (simp add: compute_pending_interrupts_def csr_table_init_def)
  then show ?thesis using interrupt_entry [of ?s] by auto
qed

lemma take_bit_prv: "p \<le> (3 :: u32) \<Longrightarrow> take_bit 2 p = p" "p \<le> (1 :: u32) \<Longrightarrow> p mod 2 = p"
  by (simp_all add: take_bit_eq_mod mod_word_less unat_arith_simps word_less_nat_alt word_le_nat_alt nat_less_le)

lemma return_handler:
  "prv s \<le> MachineMode \<Longrightarrow> \<exists>s'. return_from_trap_handler MachineMode (handler_state MachineMode s) = (Ok (), s') \<and>
     prv s' = prv s \<and> pc s' = pc s \<and> regs s' = regs s \<and>
     mstatus_mie (mstatus (csrs s')) = mstatus_mie (mstatus (csrs s))"
  "prv s \<le> SupervisorMode \<Longrightarrow> \<exists>s'. return_from_trap_handler SupervisorMode (handler_state SupervisorMode s) = (Ok (), s') \<and>
     prv s' = prv s \<and> pc s' = pc s \<and> regs s' = regs s \<and>
     mstatus_sie (mstatus (csrs s')) = mstatus_sie (mstatus (csrs s))"
  by (simp_all add: return_from_trap_handler_def handler_state_def enter_m_def enter_s_def Let_def
      bf_simps take_bit_prv)

text \<open>
  C7. Taking a trap and returning from its handler (\<open>MRET\<close> or \<open>SRET\<close>) restores the privilege level,
  the program counter, the interrupt enable bit of the mode and all registers, provided the
  handler leaves \<open>mstatus\<close> and the saved program counter as they were.
\<close>

theorem trap_return_roundtrip:
  assumes "prv s \<le> m" and "m = MachineMode \<or> m = SupervisorMode"
  shows "\<exists>s'. seqM (switch_to_trap_handler m) (return_from_trap_handler m) s = (Ok (), s') \<and>
    prv s' = prv s \<and> pc s' = pc s \<and> regs s' = regs s \<and>
    interrupt_enable m (csrs s') = interrupt_enable m (csrs s)"
proof -
  have e: "interrupt_enable MachineMode c \<longleftrightarrow> mstatus_mie (mstatus c) \<noteq> 0"
    "interrupt_enable SupervisorMode c \<longleftrightarrow> mstatus_sie (mstatus c) \<noteq> 0" for c
    by (simp_all add: interrupt_enable_def)
  from assms(2) show ?thesis
  proof
    assume "m = MachineMode"
    with return_handler(1) [of s] assms(1) show ?thesis by (auto simp: seqM_apply switch_eq e)
  next
    assume "m = SupervisorMode"
    with return_handler(2) [of s] assms(1) show ?thesis by (auto simp: seqM_apply switch_eq e)
  qed
qed

theorem trap_return_roundtrip_witness:
  "\<exists>s'. seqM (switch_to_trap_handler MachineMode) (return_from_trap_handler MachineMode) (hart_example [])
     = (Ok (), s') \<and> prv s' = MachineMode \<and> pc s' = 0x80000000"
  using trap_return_roundtrip [of "hart_example []" MachineMode] by auto

section \<open>Trap causes\<close>

definition trap_target :: "ExceptionCode \<Rightarrow> 'd ISS \<Rightarrow> PrivilegeLevel" where
  "trap_target e s =
     (if prv s = MachineMode \<or> \<not> bit (medeleg (csrs s)) (unat e) then MachineMode
      else if prv s = SupervisorMode \<or> \<not> bit (sedeleg (csrs s)) (unat e) then SupervisorMode
      else UserMode)"

definition handler_csrs :: "PrivilegeLevel \<Rightarrow> csr_table \<Rightarrow> u32 \<times> u32 \<times> u32" where
  "handler_csrs m c =
     (if m = MachineMode then (mepc c, mcause c, mtval c)
      else if m = SupervisorMode then (sepc c, scause c, stval c)
      else (uepc c, ucause c, utval c))"

lemma exc_bit: "2 ^ n AND w = 0 \<longleftrightarrow> \<not> bit (w :: u32) n"
  by (simp add: bit_iff_and_push_bit_not_eq_0 and.commute)

lemma trap_cause_eq: "trap_cause e r = take_bit 31 e"
  unfolding trap_cause_def
  by (rule bit_word_eqI) (auto simp: bit_bf_set bit_simps)

text \<open>The state \<open>prepare_trap\<close> leaves: the program counter is undone, and the cause and value are recorded.\<close>

definition prepared :: "ExceptionCode \<Rightarrow> u64 \<Rightarrow> 'd ISS \<Rightarrow> 'd ISS" where
  "prepared e v s = (let m = trap_target e s in upd_csrs (\<lambda>c.
     if m = MachineMode then c\<lparr>mcause := take_bit 31 e, mtval := ucast v\<rparr>
     else if m = SupervisorMode then c\<lparr>scause := take_bit 31 e, stval := ucast v\<rparr>
     else c\<lparr>ucause := take_bit 31 e, utval := ucast v\<rparr>) (s\<lparr>pc := last_pc s\<rparr>))"

lemma prepare_trap_eq:
  assumes "prv s = MachineMode \<or> prv s = SupervisorMode \<or> prv s = UserMode"
  shows "v < 2 ^ 32 \<Longrightarrow> prepare_trap e v s = (Ok (trap_target e s), prepared e v s)"
    and "\<not> v < 2 ^ 32 \<Longrightarrow> fst (prepare_trap e v s) = Fail BadLexicalCast"
proof -
  let ?c = "csrs s"
  have "(v < 2 ^ 32 \<longrightarrow> prepare_trap e v s = (Ok (trap_target e s), prepared e v s)) \<and>
      (\<not> v < 2 ^ 32 \<longrightarrow> fst (prepare_trap e v s) = Fail BadLexicalCast)"
  proof (cases "prv s = MachineMode \<or> \<not> bit (medeleg ?c) (unat e)")
    case True
    then show ?thesis
      by (simp add: prepare_trap_def exc_bit lexical_cast32_def trap_target_def prepared_def trap_cause_eq
          seqM_def upd_csrs_def Let_def bindM_apply fst_bindM)
  next
    case m: False
    show ?thesis
    proof (cases "prv s = SupervisorMode \<or> \<not> bit (sedeleg ?c) (unat e)")
      case True
      with m show ?thesis
        by (simp add: prepare_trap_def exc_bit lexical_cast32_def trap_target_def prepared_def trap_cause_eq
            seqM_def upd_csrs_def Let_def bindM_apply fst_bindM)
    next
      case False
      with m assms show ?thesis
        by (simp add: prepare_trap_def exc_bit lexical_cast32_def trap_target_def prepared_def trap_cause_eq
            seqM_def upd_csrs_def Let_def bindM_apply fst_bindM assertM_def)
    qed
  qed
  then show "v < 2 ^ 32 \<Longrightarrow> prepare_trap e v s = (Ok (trap_target e s), prepared e v s)"
    "\<not> v < 2 ^ 32 \<Longrightarrow> fst (prepare_trap e v s) = Fail BadLexicalCast"
    by blast+
qed



text \<open>
  A trap whose value does not fit 32 bits (a page fault at a 34-bit physical address) does not
  reach its handler: the checked cast of the value throws an exception that nothing catches.
\<close>

theorem trap_value_too_wide:
  assumes "prv s = MachineMode \<or> prv s = SupervisorMode \<or> prv s = UserMode" and "2 ^ 32 \<le> v"
  shows "fst (bindM (prepare_trap e v) switch_to_trap_handler s) = Fail BadLexicalCast"
  using prepare_trap_eq(2) [OF assms(1)] assms(2) by (simp add: fst_bindM not_less)

theorem trap_value_too_wide_witness:
  "fst (bindM (prepare_trap EXC_LOAD_PAGE_FAULT 0x300000000) switch_to_trap_handler (hart_example [])) = Fail BadLexicalCast"
  by (rule trap_value_too_wide) simp_all

end
