(* ===== verification/Iss_Csr.thy ===== *)
theory Iss_Csr
  imports Iss_Trap
begin

text \<open>
  CSR accesses of the RV32 hart (\<open>rv32/iss.cpp\<close>): the access checks, \<open>get_csr_value\<close> and
  \<open>set_csr_value\<close>. The cases of the two switch statements are split by what they do: counters,
  views of a register through a mask, the hardwired debug registers, and the table of plain
  registers.
\<close>

unbundle bit_operations_syntax

section \<open>Access checks\<close>

definition compute_and_get_current_cycles :: "('d ISS, u64) act" where
  "compute_and_get_current_cycles =
     seqM (assertM (\<lambda>s. cycle_counter s mod cycle_time = 0))
       (getsM (\<lambda>s. of_nat (cycle_counter s div cycle_time)))"

definition is_invalid_csr_access :: "u32 \<Rightarrow> bool \<Rightarrow> ('d ISS, bool) act" where
  "is_invalid_csr_access csr_addr is_write =
     seqM (if csr_addr = FFLAGS_ADDR \<or> csr_addr = FRM_ADDR \<or> csr_addr = FCSR_ADDR
           then REQUIRE_ISA F_ISA_EXT else ret ())
      (getsM (\<lambda>s.
        let csr_prv = drop_bit 8 (0x300 AND csr_addr);
            csr_readonly = (drop_bit 10 (0xC00 AND csr_addr) = 3);
            s_invalid = (csr_prv = SupervisorMode \<and> \<not> has_supervisor_mode_extension (misa (csrs s)));
            u_invalid = (csr_prv = UserMode \<and> \<not> has_user_mode_extension (misa (csrs s)))
        in (is_write \<and> csr_readonly) \<or> prv s < csr_prv \<or> s_invalid \<or> u_invalid))"

definition validate_csr_counter_read_access_rights :: "u32 \<Rightarrow> ('d ISS, unit) act" where
  "validate_csr_counter_read_access_rights addr =
     (if (addr \<ge> 0xC00 \<and> addr \<le> 0xC1F) \<or> (addr \<ge> 0xC80 \<and> addr \<le> 0xC9F) then
        (let cnt = addr AND 0x1F in
         seqM (whenM (\<lambda>s. s_mode s \<and> \<not> is_bitset (mcounteren (csrs s)) cnt) RAISE_ILLEGAL_INSTRUCTION)
           (whenM (\<lambda>s. u_mode s \<and> (\<not> is_bitset (mcounteren (csrs s)) cnt \<or> \<not> is_bitset (scounteren (csrs s)) cnt))
             RAISE_ILLEGAL_INSTRUCTION))
      else ret ())"

section \<open>Reading\<close>

text \<open>The registers that are views of another register through a mask.\<close>

definition read_view :: "u32 \<Rightarrow> csr_table \<Rightarrow> u32 option" where
  "read_view addr c =
     (if addr = MSTATUS_ADDR then Some (mstatus c AND MSTATUS_MASK)
      else if addr = SSTATUS_ADDR then Some (mstatus c AND SSTATUS_MASK)
      else if addr = USTATUS_ADDR then Some (mstatus c AND USTATUS_MASK)
      else if addr = MIP_ADDR then Some (mip c AND MIP_READ_MASK)
      else if addr = SIP_ADDR then Some (mip c AND SIP_MASK)
      else if addr = UIP_ADDR then Some (mip c AND UIP_MASK)
      else if addr = MIE_ADDR then Some (mie c AND MIE_MASK)
      else if addr = SIE_ADDR then Some (mie c AND SIE_MASK)
      else if addr = UIE_ADDR then Some (mie c AND UIE_MASK)
      else if addr = FCSR_ADDR then Some (fcsr c AND FCSR_MASK)
      else if addr = FFLAGS_ADDR then Some (fcsr_fflags (fcsr c))
      else if addr = FRM_ADDR then Some (fcsr_frm (fcsr c))
      else None)"

definition DEBUG_CSR :: "u32 \<Rightarrow> bool" where
  "DEBUG_CSR addr \<longleftrightarrow> addr \<in> {TDATA1_ADDR, TDATA2_ADDR, TDATA3_ADDR, DCSR_ADDR, DPC_ADDR,
     DSCRATCH0_ADDR, DSCRATCH1_ADDR}"

definition read_time :: "'d env \<Rightarrow> ('d ISS, unit) act" where
  "read_time env = (\<lambda>s. case update_and_get_mtime env (get_shared s) of
     (mtime, w) \<Rightarrow> (Ok (), upd_csrs (\<lambda>c. c\<lparr>time := mtime\<rparr>) (put_shared w s)))"

definition read_cycle :: "('d ISS, unit) act" where
  "read_cycle = bindM compute_and_get_current_cycles
     (\<lambda>n. modifyM (upd_csrs (\<lambda>c. c\<lparr>cycle := n\<rparr>)))"

definition read_table :: "u32 \<Rightarrow> ('d ISS, u32) act" where
  "read_table addr =
     (if \<not> is_valid_csr32_addr addr then RAISE_ILLEGAL_INSTRUCTION
      else (\<lambda>s. case default_read32 addr (csrs s) of Inl e \<Rightarrow> (Fail e, s) | Inr v \<Rightarrow> (Ok v, s)))"

definition get_csr_value :: "'d env \<Rightarrow> u32 \<Rightarrow> ('d ISS, u32) act" where
  "get_csr_value env addr =
     seqM (validate_csr_counter_read_access_rights addr)
     (if addr = TIME_ADDR \<or> addr = MTIME_ADDR then
        seqM (read_time env) (getsM (\<lambda>s. csr_64_low (time (csrs s))))
      else if addr = TIMEH_ADDR \<or> addr = MTIMEH_ADDR then
        seqM (read_time env) (getsM (\<lambda>s. csr_64_high (time (csrs s))))
      else if addr = MCYCLE_ADDR then
        seqM read_cycle (getsM (\<lambda>s. csr_64_low (cycle (csrs s))))
      else if addr = MCYCLEH_ADDR then
        seqM read_cycle (getsM (\<lambda>s. csr_64_high (cycle (csrs s))))
      else if addr = MINSTRET_ADDR then getsM (\<lambda>s. csr_64_low (instret (csrs s)))
      else if addr = MINSTRETH_ADDR then getsM (\<lambda>s. csr_64_high (instret (csrs s)))
      else if ANY_HPMCOUNTER_RV32 addr then ret 0
      else if addr = SATP_ADDR then
        seqM (whenM (\<lambda>s. mstatus_tvm (mstatus (csrs s)) \<noteq> 0) RAISE_ILLEGAL_INSTRUCTION) (read_table addr)
      else if addr = TSELECT_ADDR then ret 1
      else if DEBUG_CSR addr then ret 0
      else bindM (getsM (\<lambda>s. read_view addr (csrs s))) (\<lambda>r. case r of
        Some v \<Rightarrow> ret v
      | None \<Rightarrow> read_table addr))"

section \<open>Writing\<close>

text \<open>\<open>write(x, mask)\<close> replaces the bits of \<open>x\<close> selected by the mask.\<close>

definition masked_write :: "u32 \<Rightarrow> u32 \<Rightarrow> u32 \<Rightarrow> u32" where
  "masked_write msk value x = (x AND NOT msk) OR (value AND msk)"

definition write_view :: "u32 \<Rightarrow> u32 \<Rightarrow> u32 \<Rightarrow> csr_table \<Rightarrow> csr_table option" where
  "write_view pc_mask addr value c =
     (if addr = MTVEC_ADDR then Some (c\<lparr>mtvec := masked_write MTVEC_MASK value (mtvec c)\<rparr>)
      else if addr = STVEC_ADDR then Some (c\<lparr>stvec := masked_write MTVEC_MASK value (stvec c)\<rparr>)
      else if addr = UTVEC_ADDR then Some (c\<lparr>utvec := masked_write MTVEC_MASK value (utvec c)\<rparr>)
      else if addr = MEPC_ADDR then Some (c\<lparr>mepc := masked_write pc_mask value (mepc c)\<rparr>)
      else if addr = SEPC_ADDR then Some (c\<lparr>sepc := masked_write pc_mask value (sepc c)\<rparr>)
      else if addr = UEPC_ADDR then Some (c\<lparr>uepc := masked_write pc_mask value (uepc c)\<rparr>)
      else if addr = MSTATUS_ADDR then Some (c\<lparr>mstatus := masked_write MSTATUS_MASK value (mstatus c)\<rparr>)
      else if addr = SSTATUS_ADDR then Some (c\<lparr>mstatus := masked_write SSTATUS_MASK value (mstatus c)\<rparr>)
      else if addr = USTATUS_ADDR then Some (c\<lparr>mstatus := masked_write USTATUS_MASK value (mstatus c)\<rparr>)
      else if addr = MIP_ADDR then Some (c\<lparr>mip := masked_write MIP_WRITE_MASK value (mip c)\<rparr>)
      else if addr = SIP_ADDR then Some (c\<lparr>mip := masked_write SIP_MASK value (mip c)\<rparr>)
      else if addr = UIP_ADDR then Some (c\<lparr>mip := masked_write UIP_MASK value (mip c)\<rparr>)
      else if addr = MIE_ADDR then Some (c\<lparr>mie := masked_write MIE_MASK value (mie c)\<rparr>)
      else if addr = SIE_ADDR then Some (c\<lparr>mie := masked_write SIE_MASK value (mie c)\<rparr>)
      else if addr = UIE_ADDR then Some (c\<lparr>mie := masked_write UIE_MASK value (mie c)\<rparr>)
      else if addr = MIDELEG_ADDR then Some (c\<lparr>mideleg := masked_write MIDELEG_MASK value (mideleg c)\<rparr>)
      else if addr = MEDELEG_ADDR then Some (c\<lparr>medeleg := masked_write MEDELEG_MASK value (medeleg c)\<rparr>)
      else if addr = SIDELEG_ADDR then Some (c\<lparr>sideleg := masked_write SIDELEG_MASK value (sideleg c)\<rparr>)
      else if addr = SEDELEG_ADDR then Some (c\<lparr>sedeleg := masked_write SEDELEG_MASK value (sedeleg c)\<rparr>)
      else if addr = MCOUNTEREN_ADDR then
        Some (c\<lparr>mcounteren := masked_write MCOUNTEREN_MASK value (mcounteren c)\<rparr>)
      else if addr = SCOUNTEREN_ADDR then
        Some (c\<lparr>scounteren := masked_write MCOUNTEREN_MASK value (scounteren c)\<rparr>)
      else if addr = MCOUNTINHIBIT_ADDR then
        Some (c\<lparr>mcountinhibit := masked_write MCOUNTINHIBIT_MASK value (mcountinhibit c)\<rparr>)
      else if addr = FCSR_ADDR then Some (c\<lparr>fcsr := masked_write FCSR_MASK value (fcsr c)\<rparr>)
      else if addr = FFLAGS_ADDR then Some (c\<lparr>fcsr := set_fcsr_fflags value (fcsr c)\<rparr>)
      else if addr = FRM_ADDR then Some (c\<lparr>fcsr := set_fcsr_frm value (fcsr c)\<rparr>)
      else None)"

definition write_table :: "u32 \<Rightarrow> u32 \<Rightarrow> ('d ISS, unit) act" where
  "write_table addr value =
     (if \<not> is_valid_csr32_addr addr then RAISE_ILLEGAL_INSTRUCTION
      else (\<lambda>s. case default_write32 addr value (csrs s) of
        Inl e \<Rightarrow> (Fail e, s)
      | Inr c \<Rightarrow> (Ok (), s\<lparr>csrs := c\<rparr>)))"

definition set_csr_value :: "u32 \<Rightarrow> u32 \<Rightarrow> ('d ISS, unit) act" where
  "set_csr_value addr value =
     (if addr = MISA_ADDR \<or> ANY_HPMCOUNTER_RV32 addr then ret ()
      else if addr = SATP_ADDR then
        seqM (whenM (\<lambda>s. mstatus_tvm (mstatus (csrs s)) \<noteq> 0) RAISE_ILLEGAL_INSTRUCTION)
          (modifyM (upd_csrs (\<lambda>c. c\<lparr>satp := masked_write SATP_MASK value (satp c)\<rparr>)))
      else if addr = TSELECT_ADDR \<or> DEBUG_CSR addr then ret ()
      else bindM (getsM (\<lambda>s. write_view (pc_alignment_mask s) addr value (csrs s))) (\<lambda>r. case r of
        Some c \<Rightarrow> modifyM (\<lambda>s. s\<lparr>csrs := c\<rparr>)
      | None \<Rightarrow> write_table addr value))"

section \<open>Facts\<close>

lemma masked_write_read: "masked_write msk v x AND msk = v AND msk"
  by (rule bit_word_eqI) (auto simp: masked_write_def bit_simps)

lemma masked_write_keeps: "msk AND m = 0 \<Longrightarrow> masked_write msk v x AND m = x AND m"
proof -
  assume *: "msk AND m = 0"
  have "bit (masked_write msk v x AND m) n = bit (x AND m) n" for n
  proof -
    have "\<not> (bit msk n \<and> bit m n)"
      using * by (metis bit_and_iff bit_0_eq bot_apply bot_bool_def)
    then show ?thesis by (auto simp: masked_write_def bit_simps dest: bit_imp_le_length)
  qed
  then show ?thesis by (intro bit_word_eqI) blast
qed

lemma csr_wf_update [simp]:
  "csr_wf (c\<lparr>time := t\<rparr>) = csr_wf c" "csr_wf (c\<lparr>cycle := t\<rparr>) = csr_wf c"
  "csr_wf (c\<lparr>instret := t\<rparr>) = csr_wf c"
  "csr_wf (c\<lparr>mstatus := v\<rparr>) = csr_wf c" "csr_wf (c\<lparr>mip := v\<rparr>) = csr_wf c"
  "csr_wf (c\<lparr>mie := v\<rparr>) = csr_wf c" "csr_wf (c\<lparr>mtvec := v\<rparr>) = csr_wf c"
  "csr_wf (c\<lparr>stvec := v\<rparr>) = csr_wf c" "csr_wf (c\<lparr>utvec := v\<rparr>) = csr_wf c"
  "csr_wf (c\<lparr>mepc := v\<rparr>) = csr_wf c" "csr_wf (c\<lparr>sepc := v\<rparr>) = csr_wf c"
  "csr_wf (c\<lparr>uepc := v\<rparr>) = csr_wf c" "csr_wf (c\<lparr>mcause := v\<rparr>) = csr_wf c"
  "csr_wf (c\<lparr>scause := v\<rparr>) = csr_wf c" "csr_wf (c\<lparr>ucause := v\<rparr>) = csr_wf c"
  "csr_wf (c\<lparr>mtval := v\<rparr>) = csr_wf c" "csr_wf (c\<lparr>stval := v\<rparr>) = csr_wf c"
  "csr_wf (c\<lparr>utval := v\<rparr>) = csr_wf c" "csr_wf (c\<lparr>medeleg := v\<rparr>) = csr_wf c"
  "csr_wf (c\<lparr>mideleg := v\<rparr>) = csr_wf c" "csr_wf (c\<lparr>sedeleg := v\<rparr>) = csr_wf c"
  "csr_wf (c\<lparr>sideleg := v\<rparr>) = csr_wf c" "csr_wf (c\<lparr>mcounteren := v\<rparr>) = csr_wf c"
  "csr_wf (c\<lparr>scounteren := v\<rparr>) = csr_wf c" "csr_wf (c\<lparr>mcountinhibit := v\<rparr>) = csr_wf c"
  "csr_wf (c\<lparr>fcsr := v\<rparr>) = csr_wf c" "csr_wf (c\<lparr>satp := v\<rparr>) = csr_wf c"
  by (simp_all add: csr_wf_def)

lemma write_view_wf: "csr_wf c \<Longrightarrow> write_view m addr v c = Some c' \<Longrightarrow> csr_wf c'"
  by (auto simp: write_view_def split: if_splits)

end
