(* ===== verification/Iss_Exec.thy ===== *)
theory Iss_Exec
  imports Iss_Csr "HOL-Library.Signed_Division"
begin

text \<open>
  \<open>ISS::exec_step\<close> of \<open>rv32/iss.cpp\<close>: fetch, decode, and the execution of every instruction the
  decoder can return, by instruction group, with the floating-point helpers and \<open>execute_amo\<close> of
  \<open>rv32/iss.h\<close>. Registers are 32-bit words; where the source compares or shifts \<open>int32_t\<close> values the
  signed operation is used.
\<close>

unbundle bit_operations_syntax

section \<open>Operands\<close>

definition RD :: "'d ISS \<Rightarrow> u32" where "RD s = instr_rd (instr s)"
definition RS1 :: "'d ISS \<Rightarrow> u32" where "RS1 s = instr_rs1 (instr s)"
definition RS2 :: "'d ISS \<Rightarrow> u32" where "RS2 s = instr_rs2 (instr s)"
definition RS3 :: "'d ISS \<Rightarrow> u32" where "RS3 s = instr_rs3 (instr s)"

abbreviation x_rs1 :: "'d ISS \<Rightarrow> u32" where "x_rs1 s \<equiv> reg (RS1 s) s"
abbreviation x_rs2 :: "'d ISS \<Rightarrow> u32" where "x_rs2 s \<equiv> reg (RS2 s) s"

definition set_rd :: "u32 \<Rightarrow> 'd ISS \<Rightarrow> 'd ISS" where
  "set_rd v s = set_reg (RD s) v s"

definition put_rd :: "u32 \<Rightarrow> ('d ISS, unit) act" where
  "put_rd v = modifyM (set_rd v)"

section \<open>RV32I\<close>

text \<open>The result of the register-register and register-immediate instructions.\<close>

definition alu_result :: "rv32i \<Rightarrow> 'd ISS \<Rightarrow> u32" where
  "alu_result x s = (case x of
     ADDI \<Rightarrow> x_rs1 s + instr_I_imm (instr s)
   | SLTI \<Rightarrow> b2w (sint (x_rs1 s) < sint (instr_I_imm (instr s)))
   | SLTIU \<Rightarrow> b2w (x_rs1 s < instr_I_imm (instr s))
   | XORI \<Rightarrow> x_rs1 s XOR instr_I_imm (instr s)
   | ORI \<Rightarrow> x_rs1 s OR instr_I_imm (instr s)
   | ANDI \<Rightarrow> x_rs1 s AND instr_I_imm (instr s)
   | ADD \<Rightarrow> x_rs1 s + x_rs2 s
   | SUB \<Rightarrow> x_rs1 s - x_rs2 s
   | SLL \<Rightarrow> push_bit (reg_shamt (RS2 s) s) (x_rs1 s)
   | SLT \<Rightarrow> b2w (sint (x_rs1 s) < sint (x_rs2 s))
   | SLTU \<Rightarrow> b2w (x_rs1 s < x_rs2 s)
   | SRL \<Rightarrow> drop_bit (reg_shamt (RS2 s) s) (x_rs1 s)
   | SRA \<Rightarrow> signed_drop_bit (reg_shamt (RS2 s) s) (x_rs1 s)
   | XOR_op \<Rightarrow> x_rs1 s XOR x_rs2 s
   | OR_op \<Rightarrow> x_rs1 s OR x_rs2 s
   | AND_op \<Rightarrow> x_rs1 s AND x_rs2 s
   | SLLI \<Rightarrow> push_bit (unat (instr_shamt (instr s))) (x_rs1 s)
   | SRLI \<Rightarrow> drop_bit (unat (instr_shamt (instr s))) (x_rs1 s)
   | SRAI \<Rightarrow> signed_drop_bit (unat (instr_shamt (instr s))) (x_rs1 s)
   | LUI \<Rightarrow> instr_U_imm (instr s)
   | AUIPC \<Rightarrow> last_pc s + instr_U_imm (instr s)
   | _ \<Rightarrow> 0)"

definition exec_alu :: "rv32i \<Rightarrow> ('d ISS, unit) act" where
  "exec_alu x = bindM (getsM (alu_result x)) put_rd"

definition exec_jump :: "('d ISS \<Rightarrow> u32) \<Rightarrow> ('d ISS, unit) act" where
  "exec_jump target = bindM (getsM pc) (\<lambda>link.
     seqs [modifyM (\<lambda>s. s\<lparr>pc := target s\<rparr>), trap_check_pc_alignment, put_rd link])"

definition exec_branch :: "('d ISS \<Rightarrow> bool) \<Rightarrow> ('d ISS, unit) act" where
  "exec_branch taken = whenM taken
     (seqs [modifyM (\<lambda>s. s\<lparr>pc := last_pc s + instr_B_imm (instr s)\<rparr>), trap_check_pc_alignment])"

definition load_addr :: "'d ISS \<Rightarrow> u32" where
  "load_addr s = x_rs1 s + instr_I_imm (instr s)"

definition store_addr :: "'d ISS \<Rightarrow> u32" where
  "store_addr s = x_rs1 s + instr_S_imm (instr s)"

definition exec_load :: "u32 \<Rightarrow> (u64 \<Rightarrow> ('d ISS, u32) act) \<Rightarrow> ('d ISS, unit) act" where
  "exec_load al ld = bindM (getsM load_addr) (\<lambda>addr.
     seqM (trap_check_addr_alignment al True addr) (bindM (ld (ucast addr)) put_rd))"

definition exec_store :: "u32 \<Rightarrow> (u64 \<Rightarrow> u32 \<Rightarrow> ('d ISS, unit) act) \<Rightarrow> ('d ISS, unit) act" where
  "exec_store al st = bindM (getsM store_addr) (\<lambda>addr.
     seqM (trap_check_addr_alignment al False addr) (bindM (getsM x_rs2) (st (ucast addr))))"

definition exec_ecall :: "'d env \<Rightarrow> ('d ISS, unit) act" where
  "exec_ecall env = (case sys env of
     Some emulate \<Rightarrow> emulate
   | None \<Rightarrow> bindM (getsM (\<lambda>s. (prv s, last_pc s))) (\<lambda>(p, lpc).
       if p = MachineMode then raise_trap EXC_ECALL_M_MODE (ucast lpc)
       else if p = SupervisorMode then raise_trap EXC_ECALL_S_MODE (ucast lpc)
       else if p = UserMode then raise_trap EXC_ECALL_U_MODE (ucast lpc)
       else failM RuntimeError))"

definition exec_rv32i :: "'d env \<Rightarrow> rv32i \<Rightarrow> ('d ISS, unit) act" where
  "exec_rv32i env x = (case x of
     JAL \<Rightarrow> exec_jump (\<lambda>s. last_pc s + instr_J_imm (instr s))
   | JALR \<Rightarrow> exec_jump (\<lambda>s. (x_rs1 s + instr_I_imm (instr s)) AND NOT 1)
   | SB \<Rightarrow> exec_store 1 (\<lambda>a v. store_byte env a (ucast v))
   | SH \<Rightarrow> exec_store 2 (\<lambda>a v. store_half env a (ucast v))
   | SW \<Rightarrow> exec_store 4 (store_word env)
   | LB \<Rightarrow> exec_load 1 (load_byte env)
   | LH \<Rightarrow> exec_load 2 (load_half env)
   | LW \<Rightarrow> exec_load 4 (load_word env)
   | LBU \<Rightarrow> exec_load 1 (load_ubyte env)
   | LHU \<Rightarrow> exec_load 2 (load_uhalf env)
   | BEQ \<Rightarrow> exec_branch (\<lambda>s. x_rs1 s = x_rs2 s)
   | BNE \<Rightarrow> exec_branch (\<lambda>s. x_rs1 s \<noteq> x_rs2 s)
   | BLT \<Rightarrow> exec_branch (\<lambda>s. sint (x_rs1 s) < sint (x_rs2 s))
   | BGE \<Rightarrow> exec_branch (\<lambda>s. sint (x_rs1 s) \<ge> sint (x_rs2 s))
   | BLTU \<Rightarrow> exec_branch (\<lambda>s. x_rs1 s < x_rs2 s)
   | BGEU \<Rightarrow> exec_branch (\<lambda>s. x_rs1 s \<ge> x_rs2 s)
   | FENCE \<Rightarrow> ret ()
   | ECALL \<Rightarrow> exec_ecall env
   | EBREAK \<Rightarrow> modifyM (\<lambda>s. s\<lparr>status := HitBreakpoint\<rparr>)
   | _ \<Rightarrow> exec_alu x)"

section \<open>CSR instructions\<close>

definition csr_guard :: "bool \<Rightarrow> (u32 \<Rightarrow> ('d ISS, unit) act) \<Rightarrow> ('d ISS, unit) act" where
  "csr_guard write body = bindM (getsM (\<lambda>s. instr_csr (instr s))) (\<lambda>addr.
     bindM (is_invalid_csr_access addr write) (\<lambda>bad.
       if bad then RAISE_ILLEGAL_INSTRUCTION else body addr))"

definition exec_csr_write :: "'d env \<Rightarrow> u32 \<Rightarrow> ('d ISS, unit) act" where
  "exec_csr_write env v = csr_guard True (\<lambda>addr.
     bindM (getsM RD) (\<lambda>d.
       seqM (if d \<noteq> 0 then bindM (get_csr_value env addr) put_rd else ret ())
         (set_csr_value addr v)))"

definition exec_csr_modify :: "'d env \<Rightarrow> bool \<Rightarrow> (u32 \<Rightarrow> u32) \<Rightarrow> ('d ISS, unit) act" where
  "exec_csr_modify env write f = csr_guard write (\<lambda>addr.
     bindM (get_csr_value env addr) (\<lambda>csr_val.
     bindM (getsM RD) (\<lambda>d.
       seqM (if d \<noteq> 0 then put_rd csr_val else ret ())
         (if write then set_csr_value addr (f csr_val) else ret ()))))"

definition exec_zicsr :: "'d env \<Rightarrow> zicsr \<Rightarrow> ('d ISS, unit) act" where
  "exec_zicsr env x = bindM (getsM (\<lambda>s. (RS1 s, x_rs1 s, instr_zimm (instr s)))) (\<lambda>(rs1, rs1_val, zimm).
     case x of
       CSRRW \<Rightarrow> exec_csr_write env rs1_val
     | CSRRS \<Rightarrow> exec_csr_modify env (rs1 \<noteq> 0) (\<lambda>v. v OR rs1_val)
     | CSRRC \<Rightarrow> exec_csr_modify env (rs1 \<noteq> 0) (\<lambda>v. v AND NOT rs1_val)
     | CSRRWI \<Rightarrow> exec_csr_write env zimm
     | CSRRSI \<Rightarrow> exec_csr_modify env (zimm \<noteq> 0) (\<lambda>v. v OR zimm)
     | CSRRCI \<Rightarrow> exec_csr_modify env (zimm \<noteq> 0) (\<lambda>v. v AND NOT zimm))"

section \<open>RV32M\<close>

abbreviation (input) REG_MIN :: u32 where "REG_MIN \<equiv> 0x80000000"

definition muldiv_result :: "rv32m \<Rightarrow> u32 \<Rightarrow> u32 \<Rightarrow> u32" where
  "muldiv_result x a b = (case x of
     MUL \<Rightarrow> ucast ((scast a * scast b :: u64) AND 0xFFFFFFFF)
   | MULH \<Rightarrow> ucast (drop_bit 32 ((scast a * scast b :: u64) AND 0xFFFFFFFF00000000))
   | MULHU \<Rightarrow> ucast (drop_bit 32 ((ucast a * ucast b :: u64) AND 0xFFFFFFFF00000000))
   | MULHSU \<Rightarrow> ucast (drop_bit 32 ((scast a * ucast b :: u64) AND 0xFFFFFFFF00000000))
   | DIV \<Rightarrow> if b = 0 then - 1 else if a = REG_MIN \<and> b = - 1 then a else word_of_int (sint a sdiv sint b)
   | DIVU \<Rightarrow> if b = 0 then - 1 else a div b
   | REM \<Rightarrow> if b = 0 then a else if a = REG_MIN \<and> b = - 1 then 0 else word_of_int (sint a smod sint b)
   | REMU \<Rightarrow> if b = 0 then a else a mod b)"

definition exec_rv32m :: "rv32m \<Rightarrow> ('d ISS, unit) act" where
  "exec_rv32m x = seqM (REQUIRE_ISA M_ISA_EXT)
     (bindM (getsM (\<lambda>s. muldiv_result x (x_rs1 s) (x_rs2 s))) put_rd)"

section \<open>RV32A\<close>

text \<open>The trap of a failing load is reported as one of a store, if it is an access fault.\<close>

definition amo_convert_trap :: "('d ISS, 'a) act \<Rightarrow> ('d ISS, 'a) act" where
  "amo_convert_trap m s = (case m s of
     (Trap e v, s') \<Rightarrow> (Trap (if e = EXC_LOAD_ACCESS_FAULT then EXC_STORE_AMO_ACCESS_FAULT else e) v, s')
   | r \<Rightarrow> r)"

definition execute_amo :: "'d env \<Rightarrow> (u32 \<Rightarrow> u32 \<Rightarrow> u32) \<Rightarrow> ('d ISS, unit) act" where
  "execute_amo env operation = bindM (getsM x_rs1) (\<lambda>addr.
     seqM (trap_check_addr_alignment 4 False addr)
       (bindM (amo_convert_trap (atomic_load_word env (ucast addr))) (\<lambda>data.
        bindM (getsM (\<lambda>s. operation data (x_rs2 s))) (\<lambda>val.
          seqM (atomic_store_word env (ucast addr) val) (put_rd data)))))"

definition amo_operation :: "rv32a \<Rightarrow> u32 \<Rightarrow> u32 \<Rightarrow> u32" where
  "amo_operation x a b = (case x of
     AMOSWAP_W \<Rightarrow> b
   | AMOADD_W \<Rightarrow> a + b
   | AMOXOR_W \<Rightarrow> a XOR b
   | AMOAND_W \<Rightarrow> a AND b
   | AMOOR_W \<Rightarrow> a OR b
   | AMOMIN_W \<Rightarrow> if sint b < sint a then b else a
   | AMOMINU_W \<Rightarrow> if b < a then b else a
   | AMOMAX_W \<Rightarrow> if sint a < sint b then b else a
   | AMOMAXU_W \<Rightarrow> if a < b then b else a
   | _ \<Rightarrow> 0)"

definition exec_lr :: "'d env \<Rightarrow> ('d ISS, unit) act" where
  "exec_lr env = bindM (getsM x_rs1) (\<lambda>addr.
     seqM (trap_check_addr_alignment 4 True addr)
       (seqM (bindM (atomic_load_reserved_word env (ucast addr)) put_rd)
         (modifyM (\<lambda>s. if lr_sc_counter s = 0 then s\<lparr>lr_sc_counter := 17\<rparr> else s))))"

definition exec_sc :: "'d env \<Rightarrow> ('d ISS, unit) act" where
  "exec_sc env = bindM (getsM x_rs1) (\<lambda>addr.
     seqM (trap_check_addr_alignment 4 False addr)
       (bindM (getsM x_rs2) (\<lambda>val.
         seqM (put_rd 1)
           (seqM (bindM (atomic_store_conditional_word env (ucast addr) val) (\<lambda>ok. put_rd (if ok then 0 else 1)))
             (modifyM (\<lambda>s. s\<lparr>lr_sc_counter := 0\<rparr>))))))"

definition exec_rv32a :: "'d env \<Rightarrow> rv32a \<Rightarrow> ('d ISS, unit) act" where
  "exec_rv32a env x = seqM (REQUIRE_ISA A_ISA_EXT)
     (if x = LR_W then exec_lr env
      else if x = SC_W then exec_sc env
      else execute_amo env (amo_operation x))"

section \<open>Floating-point helpers\<close>

definition fp_set_dirty :: "'d ISS \<Rightarrow> 'd ISS" where
  "fp_set_dirty = upd_csrs (\<lambda>c. c\<lparr>mstatus := set_mstatus_fs FS_DIRTY (set_mstatus_sd 1 (mstatus c))\<rparr>)"

definition fp_update_exception_flags :: "'d ISS \<Rightarrow> 'd ISS" where
  "fp_update_exception_flags s =
     (if softfloat_exceptionFlags s \<noteq> 0 then
        (upd_csrs (\<lambda>c. c\<lparr>fcsr := set_fcsr_fflags (fcsr_fflags (fcsr c) OR softfloat_exceptionFlags s) (fcsr c)\<rparr>)
          (fp_set_dirty s))\<lparr>softfloat_exceptionFlags := 0\<rparr>
      else s)"

definition fp_finish_instr :: "'d ISS \<Rightarrow> 'd ISS" where
  "fp_finish_instr s = fp_update_exception_flags (fp_set_dirty s)"

definition fp_require_not_off :: "('d ISS, unit) act" where
  "fp_require_not_off = whenM (\<lambda>s. mstatus_fs (mstatus (csrs s)) = FS_OFF) RAISE_ILLEGAL_INSTRUCTION"

definition fp_prepare_instr :: "('d ISS, unit) act" where
  "fp_prepare_instr = seqM (assertM (\<lambda>s. softfloat_exceptionFlags s = 0)) fp_require_not_off"

definition fp_setup_rm :: "('d ISS, unit) act" where
  "fp_setup_rm = bindM (getsM (\<lambda>s. (instr_frm (instr s), fcsr_frm (fcsr (csrs s))))) (\<lambda>(f, dyn).
     let rm = (if f = FRM_DYN then dyn else f) in
     if rm \<ge> FRM_RMM then RAISE_ILLEGAL_INSTRUCTION
     else modifyM (\<lambda>s. s\<lparr>softfloat_roundingMode := rm\<rparr>))"

text \<open>A call of softfloat: the flags it raises are added to the global ones.\<close>

definition call_sf :: "('d ISS \<Rightarrow> 'a \<times> u32) \<Rightarrow> ('d ISS, 'a) act" where
  "call_sf f s = (case f s of
     (r, flags) \<Rightarrow> (Ok r, s\<lparr>softfloat_exceptionFlags := softfloat_exceptionFlags s OR flags\<rparr>))"

abbreviation rm :: "'d ISS \<Rightarrow> u32" where "rm s \<equiv> softfloat_roundingMode s"
abbreviation f32_1 :: "'d ISS \<Rightarrow> u32" where "f32_1 s \<equiv> fp_f32 (RS1 s) (fp_regs s)"
abbreviation f32_2 :: "'d ISS \<Rightarrow> u32" where "f32_2 s \<equiv> fp_f32 (RS2 s) (fp_regs s)"
abbreviation f32_3 :: "'d ISS \<Rightarrow> u32" where "f32_3 s \<equiv> fp_f32 (RS3 s) (fp_regs s)"
abbreviation f64_1 :: "'d ISS \<Rightarrow> u64" where "f64_1 s \<equiv> fp_f64 (RS1 s) (fp_regs s)"
abbreviation f64_2 :: "'d ISS \<Rightarrow> u64" where "f64_2 s \<equiv> fp_f64 (RS2 s) (fp_regs s)"
abbreviation f64_3 :: "'d ISS \<Rightarrow> u64" where "f64_3 s \<equiv> fp_f64 (RS3 s) (fp_regs s)"

definition put_f32 :: "u32 \<Rightarrow> ('d ISS, unit) act" where
  "put_f32 v = modifyM (\<lambda>s. s\<lparr>fp_regs := fp_write32 (RD s) v (fp_regs s)\<rparr>)"

definition put_f64 :: "u64 \<Rightarrow> ('d ISS, unit) act" where
  "put_f64 v = modifyM (\<lambda>s. s\<lparr>fp_regs := fp_write64 (RD s) v (fp_regs s)\<rparr>)"

text \<open>
  The shapes of the floating-point instructions: with rounding, comparisons, and sign injections
  and moves (which do not touch the exception flags).
\<close>

definition fp_rounding :: "u32 \<Rightarrow> ('d ISS \<Rightarrow> 'a \<times> u32) \<Rightarrow> ('a \<Rightarrow> ('d ISS, unit) act) \<Rightarrow> ('d ISS, unit) act" where
  "fp_rounding isa f put = seqs [REQUIRE_ISA isa, fp_prepare_instr, fp_setup_rm,
     bindM (call_sf f) put, modifyM fp_finish_instr]"

definition fp_compare :: "u32 \<Rightarrow> ('d ISS \<Rightarrow> bool \<times> u32) \<Rightarrow> ('d ISS, unit) act" where
  "fp_compare isa f = seqs [REQUIRE_ISA isa, fp_prepare_instr,
     bindM (call_sf f) (\<lambda>b. put_rd (b2w b)), modifyM fp_update_exception_flags]"

definition fp_move :: "u32 \<Rightarrow> ('d ISS \<Rightarrow> 'a) \<Rightarrow> ('a \<Rightarrow> ('d ISS, unit) act) \<Rightarrow> ('d ISS, unit) act" where
  "fp_move isa f put = seqs [REQUIRE_ISA isa, fp_prepare_instr, bindM (getsM f) put, modifyM fp_set_dirty]"

definition fp_to_int :: "u32 \<Rightarrow> ('d ISS \<Rightarrow> u32) \<Rightarrow> ('d ISS, unit) act" where
  "fp_to_int isa f = seqs [REQUIRE_ISA isa, fp_prepare_instr, bindM (getsM f) put_rd]"

text \<open>
  \<open>FMIN\<close> and \<open>FMAX\<close>: \<open>first_wins a b\<close> is \<open>a < b\<close>, or they compare equal and \<open>a\<close> is negative; the
  second comparison is only made when the first one is false.
\<close>

definition first_wins :: "('a \<Rightarrow> 'a \<Rightarrow> bool \<times> u32) \<Rightarrow> ('a \<Rightarrow> 'a \<Rightarrow> bool \<times> u32) \<Rightarrow> ('a \<Rightarrow> bool) \<Rightarrow>
    'a \<Rightarrow> 'a \<Rightarrow> ('d ISS, bool) act" where
  "first_wins lt eq neg a b = bindM (call_sf (\<lambda>_. lt a b)) (\<lambda>l.
     if l then ret True else bindM (call_sf (\<lambda>_. eq a b)) (\<lambda>e. ret (e \<and> neg a)))"

definition exec_fmin_s :: "'d env \<Rightarrow> bool \<Rightarrow> ('d ISS, unit) act" where
  "exec_fmin_s env is_max = seqs [REQUIRE_ISA F_ISA_EXT, fp_prepare_instr,
     bindM (getsM (\<lambda>s. (f32_1 s, f32_2 s))) (\<lambda>(a, b).
       bindM (if is_max then first_wins (f32_lt_quiet (sf env)) (f32_eq (sf env)) f32_isNegative b a
              else first_wins (f32_lt_quiet (sf env)) (f32_eq (sf env)) f32_isNegative a b) (\<lambda>rs1_wins.
         if f32_isNaN a \<and> f32_isNaN b then put_f32 f32_defaultNaN
         else if rs1_wins then put_f32 a else put_f32 b)),
     modifyM fp_finish_instr]"

definition exec_fmin_d :: "'d env \<Rightarrow> bool \<Rightarrow> ('d ISS, unit) act" where
  "exec_fmin_d env is_max = seqs [REQUIRE_ISA D_ISA_EXT, fp_prepare_instr,
     bindM (getsM (\<lambda>s. (f64_1 s, f64_2 s))) (\<lambda>(a, b).
       bindM (if is_max then first_wins (f64_lt_quiet (sf env)) (f64_eq (sf env)) f64_isNegative b a
              else first_wins (f64_lt_quiet (sf env)) (f64_eq (sf env)) f64_isNegative a b) (\<lambda>rs1_wins.
         if f64_isNaN a \<and> f64_isNaN b then put_f64 f64_defaultNaN
         else if rs1_wins then put_f64 a else put_f64 b)),
     modifyM fp_finish_instr]"

section \<open>RV32F\<close>

definition exec_flw :: "'d env \<Rightarrow> ('d ISS, unit) act" where
  "exec_flw env = seqM (REQUIRE_ISA F_ISA_EXT) (bindM (getsM load_addr) (\<lambda>addr.
     seqM (trap_check_addr_alignment 4 True addr) (bindM (load_word env (ucast addr)) put_f32)))"

definition exec_fsw :: "'d env \<Rightarrow> ('d ISS, unit) act" where
  "exec_fsw env = seqM (REQUIRE_ISA F_ISA_EXT) (bindM (getsM store_addr) (\<lambda>addr.
     seqM (trap_check_addr_alignment 4 False addr)
       (bindM (getsM (\<lambda>s. fp_u32 (RS2 s) (fp_regs s))) (store_word env (ucast addr)))))"

definition exec_rv32f :: "'d env \<Rightarrow> rv32f \<Rightarrow> ('d ISS, unit) act" where
  "exec_rv32f env x = (let e = sf env; F = F_ISA_EXT in case x of
     FLW \<Rightarrow> exec_flw env
   | FSW \<Rightarrow> exec_fsw env
   | FADD_S \<Rightarrow> fp_rounding F (\<lambda>s. f32_add e (rm s) (f32_1 s) (f32_2 s)) put_f32
   | FSUB_S \<Rightarrow> fp_rounding F (\<lambda>s. f32_sub e (rm s) (f32_1 s) (f32_2 s)) put_f32
   | FMUL_S \<Rightarrow> fp_rounding F (\<lambda>s. f32_mul e (rm s) (f32_1 s) (f32_2 s)) put_f32
   | FDIV_S \<Rightarrow> fp_rounding F (\<lambda>s. f32_div e (rm s) (f32_1 s) (f32_2 s)) put_f32
   | FSQRT_S \<Rightarrow> fp_rounding F (\<lambda>s. f32_sqrt e (rm s) (f32_1 s)) put_f32
   | FMIN_S \<Rightarrow> exec_fmin_s env False
   | FMAX_S \<Rightarrow> exec_fmin_s env True
   | FMADD_S \<Rightarrow> fp_rounding F (\<lambda>s. f32_mulAdd e (rm s) (f32_1 s) (f32_2 s) (f32_3 s)) put_f32
   | FMSUB_S \<Rightarrow> fp_rounding F (\<lambda>s. f32_mulAdd e (rm s) (f32_1 s) (f32_2 s) (f32_neg (f32_3 s))) put_f32
   | FNMADD_S \<Rightarrow>
       fp_rounding F (\<lambda>s. f32_mulAdd e (rm s) (f32_neg (f32_1 s)) (f32_2 s) (f32_neg (f32_3 s))) put_f32
   | FNMSUB_S \<Rightarrow> fp_rounding F (\<lambda>s. f32_mulAdd e (rm s) (f32_neg (f32_1 s)) (f32_2 s) (f32_3 s)) put_f32
   | FCVT_W_S \<Rightarrow> fp_rounding F (\<lambda>s. f32_to_i32 e (rm s) (f32_1 s)) put_rd
   | FCVT_WU_S \<Rightarrow> fp_rounding F (\<lambda>s. f32_to_ui32 e (rm s) (f32_1 s)) put_rd
   | FCVT_S_W \<Rightarrow> fp_rounding F (\<lambda>s. i32_to_f32 e (rm s) (x_rs1 s)) put_f32
   | FCVT_S_WU \<Rightarrow> fp_rounding F (\<lambda>s. ui32_to_f32 e (rm s) (x_rs1 s)) put_f32
   | FSGNJ_S \<Rightarrow>
       fp_move F (\<lambda>s. (f32_1 s AND NOT F32_SIGN_BIT) OR (f32_2 s AND F32_SIGN_BIT)) put_f32
   | FSGNJN_S \<Rightarrow>
       fp_move F (\<lambda>s. (f32_1 s AND NOT F32_SIGN_BIT) OR (NOT (f32_2 s) AND F32_SIGN_BIT)) put_f32
   | FSGNJX_S \<Rightarrow> fp_move F (\<lambda>s. f32_1 s XOR (f32_2 s AND F32_SIGN_BIT)) put_f32
   | FMV_W_X \<Rightarrow> fp_move F x_rs1 put_f32
   | FMV_X_W \<Rightarrow> fp_to_int F (\<lambda>s. fp_u32 (RS1 s) (fp_regs s))
   | FEQ_S \<Rightarrow> fp_compare F (\<lambda>s. f32_eq e (f32_1 s) (f32_2 s))
   | FLT_S \<Rightarrow> fp_compare F (\<lambda>s. f32_lt e (f32_1 s) (f32_2 s))
   | FLE_S \<Rightarrow> fp_compare F (\<lambda>s. f32_le e (f32_1 s) (f32_2 s))
   | FCLASS_S \<Rightarrow> fp_to_int F (\<lambda>s. f32_classify e (f32_1 s)))"

section \<open>RV32D\<close>

definition exec_fld :: "'d env \<Rightarrow> ('d ISS, unit) act" where
  "exec_fld env = seqM (REQUIRE_ISA D_ISA_EXT) (bindM (getsM load_addr) (\<lambda>addr.
     seqM (trap_check_addr_alignment 8 True addr) (bindM (load_double env (ucast addr)) put_f64)))"

definition exec_fsd :: "'d env \<Rightarrow> ('d ISS, unit) act" where
  "exec_fsd env = seqM (REQUIRE_ISA D_ISA_EXT) (bindM (getsM store_addr) (\<lambda>addr.
     seqM (trap_check_addr_alignment 8 False addr) (bindM (getsM f64_2) (store_double env (ucast addr)))))"

definition exec_rv32d :: "'d env \<Rightarrow> rv32d \<Rightarrow> ('d ISS, unit) act" where
  "exec_rv32d env x = (let e = sf env; D = D_ISA_EXT in case x of
     FLD \<Rightarrow> exec_fld env
   | FSD \<Rightarrow> exec_fsd env
   | FADD_D \<Rightarrow> fp_rounding D (\<lambda>s. f64_add e (rm s) (f64_1 s) (f64_2 s)) put_f64
   | FSUB_D \<Rightarrow> fp_rounding D (\<lambda>s. f64_sub e (rm s) (f64_1 s) (f64_2 s)) put_f64
   | FMUL_D \<Rightarrow> fp_rounding D (\<lambda>s. f64_mul e (rm s) (f64_1 s) (f64_2 s)) put_f64
   | FDIV_D \<Rightarrow> fp_rounding D (\<lambda>s. f64_div e (rm s) (f64_1 s) (f64_2 s)) put_f64
   | FSQRT_D \<Rightarrow> fp_rounding D (\<lambda>s. f64_sqrt e (rm s) (f64_1 s)) put_f64
   | FMIN_D \<Rightarrow> exec_fmin_d env False
   | FMAX_D \<Rightarrow> exec_fmin_d env True
   | FMADD_D \<Rightarrow> fp_rounding D (\<lambda>s. f64_mulAdd e (rm s) (f64_1 s) (f64_2 s) (f64_3 s)) put_f64
   | FMSUB_D \<Rightarrow> fp_rounding D (\<lambda>s. f64_mulAdd e (rm s) (f64_1 s) (f64_2 s) (f64_neg (f64_3 s))) put_f64
   | FNMADD_D \<Rightarrow>
       fp_rounding D (\<lambda>s. f64_mulAdd e (rm s) (f64_neg (f64_1 s)) (f64_2 s) (f64_neg (f64_3 s))) put_f64
   | FNMSUB_D \<Rightarrow> fp_rounding D (\<lambda>s. f64_mulAdd e (rm s) (f64_neg (f64_1 s)) (f64_2 s) (f64_3 s)) put_f64
   | FSGNJ_D \<Rightarrow>
       fp_move D (\<lambda>s. (f64_1 s AND NOT F64_SIGN_BIT) OR (f64_2 s AND F64_SIGN_BIT)) put_f64
   | FSGNJN_D \<Rightarrow>
       fp_move D (\<lambda>s. (f64_1 s AND NOT F64_SIGN_BIT) OR (NOT (f64_2 s) AND F64_SIGN_BIT)) put_f64
   | FSGNJX_D \<Rightarrow> fp_move D (\<lambda>s. f64_1 s XOR (f64_2 s AND F64_SIGN_BIT)) put_f64
   | FCVT_S_D \<Rightarrow> fp_rounding D (\<lambda>s. f64_to_f32 e (rm s) (f64_1 s)) put_f32
   | FCVT_D_S \<Rightarrow> fp_rounding D (\<lambda>s. f32_to_f64 e (rm s) (f32_1 s)) put_f64
   | FEQ_D \<Rightarrow> fp_compare D (\<lambda>s. f64_eq e (f64_1 s) (f64_2 s))
   | FLT_D \<Rightarrow> fp_compare D (\<lambda>s. f64_lt e (f64_1 s) (f64_2 s))
   | FLE_D \<Rightarrow> fp_compare D (\<lambda>s. f64_le e (f64_1 s) (f64_2 s))
   | FCLASS_D \<Rightarrow> fp_to_int D (\<lambda>s. f64_classify e (f64_1 s))
   | FCVT_W_D \<Rightarrow> fp_rounding D (\<lambda>s. f64_to_i32 e (rm s) (f64_1 s)) put_rd
   | FCVT_WU_D \<Rightarrow> fp_rounding D (\<lambda>s. f64_to_ui32 e (rm s) (f64_1 s)) put_rd
   | FCVT_D_W \<Rightarrow> fp_rounding D (\<lambda>s. i32_to_f64 e (rm s) (x_rs1 s)) put_f64
   | FCVT_D_WU \<Rightarrow> fp_rounding D (\<lambda>s. ui32_to_f64 e (rm s) (x_rs1 s)) put_f64)"

section \<open>Privileged instructions\<close>

definition exec_wfi :: "'d env \<Rightarrow> ('d ISS, unit) act" where
  "exec_wfi env = seqs [modifyM release_lr_sc_reservation,
     whenM (\<lambda>s. s_mode s \<and> mstatus_tw (mstatus (csrs s)) \<noteq> 0) RAISE_ILLEGAL_INSTRUCTION,
     whenM (\<lambda>s. u_mode s \<and> has_supervisor_mode_extension (misa (csrs s))) RAISE_ILLEGAL_INSTRUCTION,
     whenM (\<lambda>s. \<not> ignore_wfi s \<and> \<not> has_local_pending_enabled_interrupts s)
       (\<lambda>s. case wait_wfi_event env (get_shared s) of
          None \<Rightarrow> (Blocked, s)
        | Some w \<Rightarrow> (Ok (), put_shared w s))]"

definition exec_priv :: "'d env \<Rightarrow> rvpriv \<Rightarrow> ('d ISS, unit) act" where
  "exec_priv env x = (case x of
     WFI \<Rightarrow> exec_wfi env
   | SFENCE_VMA \<Rightarrow>
       seqM (whenM (\<lambda>s. s_mode s \<and> mstatus_tvm (mstatus (csrs s)) \<noteq> 0) RAISE_ILLEGAL_INSTRUCTION) flush_tlb
   | URET \<Rightarrow>
       seqM (whenM (\<lambda>s. \<not> has_user_mode_extension (misa (csrs s))) RAISE_ILLEGAL_INSTRUCTION)
         (return_from_trap_handler UserMode)
   | SRET \<Rightarrow>
       seqM (whenM (\<lambda>s. \<not> has_supervisor_mode_extension (misa (csrs s)) \<or>
               (s_mode s \<and> mstatus_tsr (mstatus (csrs s)) \<noteq> 0)) RAISE_ILLEGAL_INSTRUCTION)
         (return_from_trap_handler SupervisorMode)
   | MRET \<Rightarrow> return_from_trap_handler MachineMode)"

section \<open>The step\<close>

definition exec_op :: "'d env \<Rightarrow> Mapping \<Rightarrow> ('d ISS, unit) act" where
  "exec_op env m = (case m of
     UNDEF \<Rightarrow> RAISE_ILLEGAL_INSTRUCTION
   | RV32I x \<Rightarrow> exec_rv32i env x
   | ZIFENCEI x \<Rightarrow> ret ()
   | ZICSR x \<Rightarrow> exec_zicsr env x
   | RV32M x \<Rightarrow> exec_rv32m x
   | RV32A x \<Rightarrow> exec_rv32a env x
   | RV32F x \<Rightarrow> exec_rv32f env x
   | RV32D x \<Rightarrow> exec_rv32d env x
   | PRIV x \<Rightarrow> exec_priv env x
   | RV64I x \<Rightarrow> RAISE_ILLEGAL_INSTRUCTION
   | RV64M x \<Rightarrow> RAISE_ILLEGAL_INSTRUCTION
   | RV64A x \<Rightarrow> RAISE_ILLEGAL_INSTRUCTION
   | RV64F x \<Rightarrow> RAISE_ILLEGAL_INSTRUCTION
   | RV64D x \<Rightarrow> RAISE_ILLEGAL_INSTRUCTION)"

text \<open>A trap during the fetch clears the current instruction before it is thrown on.\<close>

definition fetch :: "'d env \<Rightarrow> ('d ISS, unit) act" where
  "fetch env s = (case load_instr env (ucast (pc s)) s of
     (Ok mem_word, s') \<Rightarrow> (Ok (), s'\<lparr>instr := mem_word\<rparr>)
   | (Trap e v, s') \<Rightarrow> (Trap e v, s'\<lparr>op := UNDEF, instr := 0\<rparr>)
   | (Fail e, s') \<Rightarrow> (Fail e, s')
   | (Blocked, s') \<Rightarrow> (Blocked, s'))"

definition decode_step :: "('d ISS, unit) act" where
  "decode_step = bindM (getsM instr) (\<lambda>w.
     if instr_is_compressed w then
       (case decode_and_expand_compressed RV32 w of
          Inl e \<Rightarrow> failM e
        | Inr (m, w') \<Rightarrow>
            seqM (modifyM (\<lambda>s. s\<lparr>op := m, instr := w', pc := pc s + 2\<rparr>))
              (if m \<noteq> UNDEF then REQUIRE_ISA C_ISA_EXT else ret ()))
     else modifyM (\<lambda>s. s\<lparr>op := decode_normal RV32 w, pc := pc s + 4\<rparr>))"

definition exec_step :: "'d env \<Rightarrow> ('d ISS, unit) act" where
  "exec_step env =
     seqs [assertM (\<lambda>s. pc s AND NOT (pc_alignment_mask s) = 0), fetch env, decode_step,
       bindM (getsM op) (exec_op env)]"

end
