(* ===== verification/Iss_Run.thy ===== *)
theory Iss_Run
  imports Iss_Exec
begin

text \<open>
  The run loop of the RV32 hart (\<open>rv32/iss.cpp\<close>): \<open>performance_and_sync_update\<close>, \<open>run_step\<close> and
  \<open>run\<close>, and \<open>DirectCoreRunner\<close> of \<open>rv32/iss.h\<close>.
\<close>

unbundle bit_operations_syntax

definition sync_act :: "'d env \<Rightarrow> 'd ISS \<Rightarrow> 'd ISS" where
  "sync_act env s = (put_shared (sync env (quantum_keeper s) (get_shared s)) s)\<lparr>quantum_keeper := 0\<rparr>"

definition performance_and_sync_update :: "'d env \<Rightarrow> Mapping \<Rightarrow> ('d ISS, unit) act" where
  "performance_and_sync_update env executed_op = seqs
     [modifyM (\<lambda>s. s\<lparr>total_num_instr := total_num_instr s + 1\<rparr>),
      modifyM (\<lambda>s. if mcountinhibit_IR (mcountinhibit (csrs s)) = 0
        then upd_csrs (\<lambda>c. c\<lparr>instret := csr_64_increment (instret c)\<rparr>) s else s),
      whenM (\<lambda>s. lr_sc_counter s \<noteq> 0)
        (seqs [modifyM (\<lambda>s. s\<lparr>lr_sc_counter := lr_sc_counter s - 1\<rparr>),
          assertM (\<lambda>s. lr_sc_counter s \<ge> 0),
          modifyM (\<lambda>s. if lr_sc_counter s = 0 then release_lr_sc_reservation s else s)]),
      modifyM (\<lambda>s. if mcountinhibit_CY (mcountinhibit (csrs s)) = 0
        then s\<lparr>cycle_counter := cycle_counter s + instr_cycles executed_op\<rparr> else s),
      inc_time (instr_cycles executed_op),
      whenM (\<lambda>s. need_sync env (quantum_keeper s) (get_shared s) \<and> lr_sc_counter s = 0)
        (modifyM (sync_act env))]"

text \<open>The body of the \<open>try\<close> block of \<open>run_step\<close>, and the handler of a \<open>SimulationTrap\<close>.\<close>

definition take_interrupt :: "('d ISS, unit) act" where
  "take_interrupt = bindM (getsM compute_pending_interrupts) (\<lambda>x.
     if target_mode x \<noteq> NoneMode then
       seqM (prepare_interrupt x) (switch_to_trap_handler (target_mode x))
     else ret ())"

definition catch_trap :: "('d ISS, unit) act \<Rightarrow> ('d ISS, unit) act" where
  "catch_trap m s = (case m s of
     (Trap e v, s') \<Rightarrow> bindM (prepare_trap e v) switch_to_trap_handler s'
   | r \<Rightarrow> r)"

definition run_step_body :: "'d env \<Rightarrow> ('d ISS, unit) act" where
  "run_step_body env = seqs
     [modifyM (\<lambda>s. s\<lparr>last_pc := pc s\<rparr>),
      catch_trap (seqM (exec_step env) take_interrupt),
      modifyM (\<lambda>s. s\<lparr>regs := (regs s)[0 := 0]\<rparr>),
      modifyM (\<lambda>s. if shall_exit s then s\<lparr>status := Terminated\<rparr> else s),
      bindM (getsM op) (performance_and_sync_update env)]"

definition run_step :: "'d env \<Rightarrow> ('d ISS, unit) act" where
  "run_step env = seqM (assertM (\<lambda>s. reg 0 s = 0))
     (bindM (getsM (\<lambda>s. debug_mode s \<and> pc s \<in> breakpoints s)) (\<lambda>hit.
       if hit then modifyM (\<lambda>s. s\<lparr>status := HitBreakpoint\<rparr>) else run_step_body env))"

text \<open>
  The \<open>do ... while\<close> loop of \<open>run\<close>. It ends when a breakpoint is hit or the program exits; \<open>None\<close>
  is a run that does not end.
\<close>

partial_function (option) run_loop :: "'d env \<Rightarrow> 'd ISS \<Rightarrow> (unit outcome \<times> 'd ISS) option" where
  "run_loop env s = (case run_step env s of
     (Ok x, s') \<Rightarrow> if status s' = Runnable then run_loop env s' else Some (Ok x, s')
   | (Trap e v, s') \<Rightarrow> Some (Trap e v, s')
   | (Fail e, s') \<Rightarrow> Some (Fail e, s')
   | (Blocked, s') \<Rightarrow> Some (Blocked, s'))"

definition run :: "'d env \<Rightarrow> 'd ISS \<Rightarrow> (unit outcome \<times> 'd ISS) option" where
  "run env s = (case run_loop env s of
     None \<Rightarrow> None
   | Some r \<Rightarrow> Some (bindM (\<lambda>_. r) (\<lambda>_. modifyM (sync_act env)) s))"

text \<open>\<open>DirectCoreRunner::run\<close>\<close>

definition DirectCoreRunner_run :: "'d env \<Rightarrow> 'd ISS \<Rightarrow> (unit outcome \<times> 'd ISS) option" where
  "DirectCoreRunner_run env s = (case run env s of
     None \<Rightarrow> None
   | Some r \<Rightarrow> Some (bindM (\<lambda>_. r) (\<lambda>_. seqs [
       (\<lambda>s. if status s = HitBreakpoint then (Fail RuntimeError, s) else (Ok (), s)),
       assertM (\<lambda>s. status s = Terminated)]) s))"

end
