(* ===== verification/Iss_Inv.thy ===== *)
theory Iss_Inv
  imports Iss_Run
begin

text \<open>
  Invariants of the RV32 hart, proved for every instruction and composed to \<open>run_step\<close>: the shape
  of the state (\<open>hart_wf\<close>), the fields no instruction changes (\<open>hart_static\<close>), the zero register and
  the bus lock of an LR/SC sequence.
\<close>

unbundle bit_operations_syntax

section \<open>Invariants of an instruction\<close>

text \<open>
  A condition \<open>I\<close> on the state of a hart, and one \<open>K\<close> on the states in which a trap is thrown, kept
  by the primitive effects of \<open>exec_step\<close>. Every instruction then keeps them.
\<close>

locale hart_invariant =
  fixes I K :: "'d ISS \<Rightarrow> bool" and env :: "'d env"
  assumes trap_weaker: "I s \<Longrightarrow> K s"
    and inv_set_rd: "I s \<Longrightarrow> I (set_rd v s)"
    and inv_fp_regs: "I s \<Longrightarrow> I (s\<lparr>fp_regs := fp_write64 i w (fp_regs s)\<rparr>)"
    and inv_flags: "I s \<Longrightarrow> I (s\<lparr>softfloat_exceptionFlags := v\<rparr>)"
    and inv_rm: "I s \<Longrightarrow> I (s\<lparr>softfloat_roundingMode := v\<rparr>)"
    and inv_pc: "I s \<Longrightarrow> I (s\<lparr>pc := v\<rparr>)"
    and inv_decoded: "I s \<Longrightarrow> I (s\<lparr>op := m, instr := v, pc := v'\<rparr>)"
    and inv_breakpoint: "I s \<Longrightarrow> I (s\<lparr>status := HitBreakpoint\<rparr>)"
    and inv_fp_csrs: "I s \<Longrightarrow> I (fp_set_dirty s)" "I s \<Longrightarrow> I (fp_update_exception_flags s)"
    and inv_fetch: "inv_act I K (fetch env)"
    and inv_load: "inv_act I K (load_data env n a)"
    and inv_store: "inv_act I K (store_data env n a d)"
    and inv_get_csr: "inv_act I K (get_csr_value env r)"
    and inv_set_csr: "drop_bit 10 (0xC00 AND r) \<noteq> 3 \<Longrightarrow> inv_act I K (set_csr_value r v)"
    and inv_return: "inv_act I K (return_from_trap_handler p)"
    and inv_sc: "inv_act I K (exec_sc env)"
    and inv_amo: "inv_act I K (execute_amo env f)"
    and inv_wfi: "inv_act I K (exec_wfi env)"
    and inv_flush: "inv_act I K flush_tlb"
    and inv_ecall: "inv_act I K (exec_ecall env)"
begin

lemma inv_traps:
  "inv_act I K (raise_trap e w)" "inv_act I K RAISE_ILLEGAL_INSTRUCTION" "inv_act I K (REQUIRE_ISA X)"
  "inv_act I K trap_check_pc_alignment" "inv_act I K (trap_check_addr_alignment al ld addr)"
  "inv_act I K fp_require_not_off" "inv_act I K fp_prepare_instr"
proof -
  show trap: "inv_act I K (raise_trap e w)" for e w
    by (simp add: inv_act_def trap_weaker)
  show ill: "inv_act I K RAISE_ILLEGAL_INSTRUCTION"
    unfolding RAISE_ILLEGAL_INSTRUCTION_def by (intro inv_intros trap)
  show "inv_act I K (REQUIRE_ISA X)" "inv_act I K trap_check_pc_alignment"
    "inv_act I K (trap_check_addr_alignment al ld addr)"
    "inv_act I K fp_require_not_off" "inv_act I K fp_prepare_instr"
    unfolding REQUIRE_ISA_def trap_check_pc_alignment_def trap_check_addr_alignment_def
      fp_require_not_off_def fp_prepare_instr_def
    by (intro inv_intros trap ill)+
qed

lemma inv_puts:
  "inv_act I K (put_rd v)" "inv_act I K (put_f32 v)" "inv_act I K (put_f64 w)"
  "inv_act I K (call_sf f)" "inv_act I K fp_setup_rm" "inv_act I K (modifyM fp_finish_instr)"
  "inv_act I K (modifyM fp_set_dirty)" "inv_act I K (modifyM fp_update_exception_flags)"
proof -
  show "inv_act I K (call_sf f)"
    by (auto simp: inv_act_def call_sf_def inv_flags split: prod.split)
  show "inv_act I K fp_setup_rm"
    unfolding fp_setup_rm_def by (intro inv_intros inv_traps inv_rm)
  show "inv_act I K (modifyM fp_set_dirty)" "inv_act I K (modifyM fp_update_exception_flags)"
    by (intro inv_intros inv_fp_csrs; assumption)+
qed (unfold put_rd_def put_f32_def put_f64_def fp_write32_def fp_finish_instr_def;
    intro inv_intros inv_set_rd inv_fp_regs inv_fp_csrs; assumption)+

lemma inv_accesses:
  "inv_act I K (load_double env a)" "inv_act I K (load_word env a)" "inv_act I K (load_half env a)"
  "inv_act I K (load_byte env a)" "inv_act I K (load_uhalf env a)" "inv_act I K (load_ubyte env a)"
  "inv_act I K (store_double env a v8)" "inv_act I K (store_word env a v4)"
  "inv_act I K (store_half env a v2)" "inv_act I K (store_byte env a v1)"
  unfolding load_double_def load_word_def load_half_def load_byte_def load_uhalf_def load_ubyte_def
    store_double_def store_word_def store_half_def store_byte_def
  by (intro inv_intros inv_load inv_store)+

lemmas inv_rules = inv_intros inv_traps inv_puts inv_accesses inv_sc inv_amo inv_wfi inv_flush
  inv_ecall inv_return inv_get_csr

lemma inv_rv32i: "inv_act I K (exec_rv32i env x)"
proof -
  have alu: "inv_act I K (exec_alu y)" for y
    unfolding exec_alu_def by (intro inv_rules)
  have jump: "inv_act I K (exec_jump f)" for f
    unfolding exec_jump_def by (intro inv_rules inv_pc)
  have branch: "inv_act I K (exec_branch f)" for f
    unfolding exec_branch_def by (intro inv_rules inv_pc)
  have load: "(\<And>a. inv_act I K (ld a)) \<Longrightarrow> inv_act I K (exec_load al ld)" for al ld
    unfolding exec_load_def by (intro inv_rules)
  have store: "(\<And>a v. inv_act I K (st a v)) \<Longrightarrow> inv_act I K (exec_store al st)" for al st
    unfolding exec_store_def by (intro inv_rules)
  show ?thesis
    unfolding exec_rv32i_def
    by (cases x; simp only: rv32i.case; intro alu jump branch load store inv_rules inv_breakpoint)
qed

text \<open>A write access gets past the guard only if the register is not read-only.\<close>

lemma inv_csr_guard:
  assumes "\<And>addr. (write \<Longrightarrow> drop_bit 10 (0xC00 AND addr) \<noteq> 3) \<Longrightarrow> inv_act I K (body addr)"
  shows "inv_act I K (csr_guard write body)"
proof -
  have chk: "inv_act I K (is_invalid_csr_access addr write)" for addr
    unfolding is_invalid_csr_access_def by (intro inv_rules)
  have "inv_act I K (bindM (is_invalid_csr_access addr write)
      (\<lambda>bad. if bad then RAISE_ILLEGAL_INSTRUCTION else body addr))" for addr
  proof (cases "write \<longrightarrow> drop_bit 10 (0xC00 AND addr) \<noteq> 3")
    case True
    then show ?thesis using assms by (intro inv_rules chk) blast
  next
    case False
    then have bad: "is_invalid_csr_access addr write s = (Ok b, s') \<Longrightarrow> b" for s s' b
      by (auto simp: is_invalid_csr_access_def seqM_def Let_def elim!: bindM_OkE)
    have ill: "inv_act I K RAISE_ILLEGAL_INSTRUCTION" by (rule inv_rules)
    have "bindM (is_invalid_csr_access addr write)
        (\<lambda>bad. if bad then RAISE_ILLEGAL_INSTRUCTION else body addr)
      = bindM (is_invalid_csr_access addr write) (\<lambda>_. RAISE_ILLEGAL_INSTRUCTION)"
      by (rule ext) (auto simp: bindM_def dest: bad split: prod.split outcome.split)
    then show ?thesis by (simp only:) (intro inv_bind chk ill)
  qed
  then show ?thesis unfolding csr_guard_def by (rule inv_bind [OF inv_gets])
qed

lemma inv_zicsr: "inv_act I K (exec_zicsr env x)"
proof -
  have w: "inv_act I K (exec_csr_write env v)" for v
    unfolding exec_csr_write_def by (intro inv_csr_guard inv_rules inv_set_csr) blast
  have m: "inv_act I K (exec_csr_modify env wr f)" for wr f
    unfolding exec_csr_modify_def by (intro inv_csr_guard inv_rules inv_set_csr) blast
  show ?thesis
    unfolding exec_zicsr_def by (cases x; simp only: zicsr.case; intro w m inv_rules)
qed

lemma inv_fp_shapes:
  "(\<And>v. inv_act I K (put v)) \<Longrightarrow> inv_act I K (fp_rounding isa f put)"
  "inv_act I K (fp_compare isa g)"
  "(\<And>v. inv_act I K (put' v)) \<Longrightarrow> inv_act I K (fp_move isa h put')"
  "inv_act I K (fp_to_int isa k)"
  "inv_act I K (first_wins lt eq neg a b)"
  unfolding fp_rounding_def fp_compare_def fp_move_def fp_to_int_def first_wins_def
  by (intro inv_rules; assumption?)+

lemma inv_fmin: "inv_act I K (exec_fmin_s env b)" "inv_act I K (exec_fmin_d env b)"
  unfolding exec_fmin_s_def exec_fmin_d_def by (intro inv_rules inv_fp_shapes)+

lemma inv_rv32f: "inv_act I K (exec_rv32f env x)"
proof -
  have "inv_act I K (exec_flw env)" "inv_act I K (exec_fsw env)"
    unfolding exec_flw_def exec_fsw_def by (intro inv_rules)+
  then show ?thesis
    unfolding exec_rv32f_def Let_def
    by (cases x; simp only: rv32f.case; intro inv_fp_shapes inv_fmin inv_rules)
qed

lemma inv_rv32d: "inv_act I K (exec_rv32d env x)"
proof -
  have "inv_act I K (exec_fld env)" "inv_act I K (exec_fsd env)"
    unfolding exec_fld_def exec_fsd_def by (intro inv_rules)+
  then show ?thesis
    unfolding exec_rv32d_def Let_def
    by (cases x; simp only: rv32d.case; intro inv_fp_shapes inv_fmin inv_rules)
qed

lemma inv_priv: "inv_act I K (exec_priv env x)"
  unfolding exec_priv_def by (cases x; simp only: rvpriv.case; intro inv_rules)

lemma inv_exec_op_not_LR: "m \<noteq> RV32A LR_W \<Longrightarrow> inv_act I K (exec_op env m)"
proof -
  have "inv_act I K (exec_rv32m y)" for y unfolding exec_rv32m_def by (intro inv_rules)
  moreover have "inv_act I K (exec_rv32a env y)" if "y \<noteq> LR_W" for y
    using that unfolding exec_rv32a_def by (simp only: if_False) (intro inv_rules)
  ultimately show "m \<noteq> RV32A LR_W \<Longrightarrow> ?thesis"
    unfolding exec_op_def
    by (cases m; simp only: Mapping.case;
        (intro inv_rv32i inv_zicsr inv_rv32f inv_rv32d inv_priv inv_rules)?; blast)
qed

lemma inv_decode_step: "inv_act I K decode_step"
proof -
  have "inv_act I K (modifyM (\<lambda>s. s\<lparr>op := m, instr := w, pc := pc s + 2\<rparr>))" for m w
    by (intro inv_intros inv_decoded)
  moreover have "inv_act I K (modifyM (\<lambda>s. s\<lparr>op := m, pc := pc s + 4\<rparr>))" for m
  proof (intro inv_intros)
    fix s assume "I s"
    from inv_decoded [OF this, where m = m and v = "instr s" and v' = "pc s + 4"]
    show "I (s\<lparr>op := m, pc := pc s + 4\<rparr>)" by simp
  qed
  ultimately show ?thesis
    unfolding decode_step_def
    by (intro inv_bind [OF inv_gets]) (auto split: sum.split intro!: inv_rules inv_decoded)
qed

end

text \<open>
  The load-reserved instruction is the one that starts a reservation; conditions it keeps hold for
  the whole step. Around it, \<open>run_step\<close> takes interrupts, enters trap handlers from \<open>K\<close>, clears the
  zero register and updates the counters.
\<close>

locale hart_step_invariant = hart_invariant +
  assumes inv_lr: "inv_act I K (exec_lr env)"
    and inv_interrupt: "inv_act I K take_interrupt"
    and inv_handler:
      "K s \<Longrightarrow> bindM (prepare_trap e w) switch_to_trap_handler s = (Ok x, s') \<Longrightarrow> I s'"
    and inv_last_pc: "I s \<Longrightarrow> I (s\<lparr>last_pc := v\<rparr>)"
    and inv_zero: "I s \<Longrightarrow> I (s\<lparr>regs := (regs s)[0 := 0]\<rparr>)"
    and inv_status: "I s \<Longrightarrow> I (s\<lparr>status := st\<rparr>)"
    and inv_perf: "inv_act I K (performance_and_sync_update env m)"
begin

lemma inv_exec_op: "inv_act I K (exec_op env m)"
proof (cases "m = RV32A LR_W")
  case True
  then show ?thesis
    unfolding exec_op_def exec_rv32a_def by (simp only: Mapping.case if_True refl) (intro inv_rules inv_lr)
qed (rule inv_exec_op_not_LR)

lemma inv_exec_step: "inv_act I K (exec_step env)"
  unfolding exec_step_def by (intro inv_intros inv_fetch inv_decode_step inv_exec_op)

lemma inv_catch: "inv_act I K m \<Longrightarrow> catch_trap m s = (Ok x, s') \<Longrightarrow> I s \<Longrightarrow> I s'"
  using inv_handler inv_act_Ok inv_act_Trap
  by (fastforce simp: catch_trap_def split: prod.splits outcome.splits)

lemma inv_run_step_body:
  assumes "run_step_body env s = (Ok x, s')" and "I s"
  shows "I s'"
proof -
  let ?m = "seqM (exec_step env) take_interrupt"
  have m: "inv_act I K ?m" by (intro inv_intros inv_exec_step inv_interrupt)
  have "inv_act I (\<lambda>_. True) (catch_trap ?m)"
    by (rule inv_actI) (auto intro: inv_catch [OF m])
  moreover have "inv_act I (\<lambda>_. True) (performance_and_sync_update env o')" for o'
    by (rule inv_actI) (auto intro: inv_act_Ok [OF inv_perf])
  ultimately have "inv_act I (\<lambda>_. True) (run_step_body env)"
    unfolding run_step_body_def
    by (intro inv_intros) (auto intro: inv_last_pc inv_zero inv_status)
  from inv_act_Ok [OF this assms(2,1)] show ?thesis .
qed

theorem inv_run_step: "run_step env s = (Ok x, s') \<Longrightarrow> I s \<Longrightarrow> I s'"
  by (auto simp: run_step_def seqM_def assertM_def inv_status split: if_splits elim!: bindM_OkE
      intro: inv_run_step_body)

text \<open>The whole run, when it ends.\<close>

lemma inv_run_loop:
  assumes "run_loop env s = Some (Ok x, s')" and "I s"
  shows "I s'"
proof -
  let ?P = "\<lambda>env' s p. \<forall>x s'. p = (Ok x, s') \<longrightarrow> env' = env \<longrightarrow> I s \<longrightarrow> I s'"
  have "?P env s (Ok x, s')"
  proof (rule run_loop.raw_induct [where P = ?P, OF _ assms(1)], intro allI impI)
    fix f env' s p x s'
    assume IH: "\<And>env' s p. f env' s = Some p \<Longrightarrow> ?P env' s p" and "env' = env" and "I s" and p: "p = (Ok x, s')"
      and step: "(case run_step env' s of
         (Ok x, s') \<Rightarrow> if status s' = Runnable then f env' s' else Some (Ok x, s')
       | (Trap e v, s') \<Rightarrow> Some (Trap e v, s') | (Fail e, s') \<Rightarrow> Some (Fail e, s')
       | (Blocked, s') \<Rightarrow> Some (Blocked, s')) = Some p"
    then obtain y s1 where s1: "run_step env s = (Ok y, s1)"
        "(if status s1 = Runnable then f env' s1 else Some (Ok y, s1)) = Some (Ok x, s')"
      by (auto split: prod.splits outcome.splits)
    from inv_run_step [OF s1(1) \<open>I s\<close>] have "I s1" .
    with s1(2) IH \<open>env' = env\<close> show "I s'" by (auto split: if_splits)
  qed
  with assms(2) show ?thesis by blast
qed

end

section \<open>The shape of the state\<close>

lemma hart_wf_updates [simp]:
  "hart_wf (s\<lparr>pc := x\<rparr>) = hart_wf s" "hart_wf (s\<lparr>last_pc := x\<rparr>) = hart_wf s"
  "hart_wf (s\<lparr>prv := x\<rparr>) = hart_wf s" "hart_wf (s\<lparr>lr_sc_counter := i\<rparr>) = hart_wf s"
  "hart_wf (s\<lparr>instr := x\<rparr>) = hart_wf s" "hart_wf (s\<lparr>op := m\<rparr>) = hart_wf s"
  "hart_wf (s\<lparr>status := st\<rparr>) = hart_wf s" "hart_wf (s\<lparr>quantum_keeper := q\<rparr>) = hart_wf s"
  "hart_wf (s\<lparr>cycle_counter := q\<rparr>) = hart_wf s" "hart_wf (s\<lparr>total_num_instr := n\<rparr>) = hart_wf s"
  "hart_wf (s\<lparr>softfloat_roundingMode := x\<rparr>) = hart_wf s"
  "hart_wf (s\<lparr>softfloat_exceptionFlags := x\<rparr>) = hart_wf s"
  "hart_wf (s\<lparr>regs := (regs s)[i' := v]\<rparr>) = hart_wf s"
  "hart_wf (s\<lparr>fp_regs := fp_write64 k w (fp_regs s)\<rparr>) = hart_wf s"
  "hart_wf (atomic_unlock s) = hart_wf s"
  by (simp_all add: hart_wf_def)

lemma hart_wf_upd_csrs [simp]:
  "(\<And>c. csr_wf (f c) = csr_wf c) \<Longrightarrow> hart_wf (upd_csrs f s) = hart_wf s"
  by (simp add: hart_wf_def upd_csrs_def)

lemma hart_wf_helpers [simp]:
  "hart_wf (release_lr_sc_reservation s) = hart_wf s" "hart_wf (fp_set_dirty s) = hart_wf s"
  "hart_wf (fp_update_exception_flags s) = hart_wf s" "hart_wf (fp_finish_instr s) = hart_wf s"
  "hart_wf (set_rd v s) = hart_wf s" "hart_wf (enter_m pp s) = hart_wf s"
  "hart_wf (enter_s pp s) = hart_wf s" "hart_wf (enter_u s) = hart_wf s"
  "hart_wf (sync_act env s) = hart_wf s"
  by (simp_all add: release_lr_sc_reservation_def fp_set_dirty_def fp_update_exception_flags_def
      fp_finish_instr_def set_rd_def enter_m_def enter_s_def enter_u_def Let_def sync_act_def)
    (simp_all add: hart_wf_def)

text \<open>A memory access or a condition on the frame of the hart only.\<close>

lemma view_inv:
  assumes "keeps hart_view m" and "\<And>s s'. I s \<Longrightarrow> hart_view s' = hart_view s \<Longrightarrow> I s'"
  shows "inv_act I I m"
  using assms unfolding keeps_def by (intro inv_actI) (metis snd_conv)+

lemma hart_wf_view_inv: "keeps hart_view m \<Longrightarrow> inv_act hart_wf hart_wf m"
  using view_inv hart_view_wf by blast

lemma fetch_inv:
  assumes "keeps hart_view (load_instr env a)" and "\<And>s s'. I s \<Longrightarrow> hart_view s' = hart_view s \<Longrightarrow> I s'"
    and "\<And>s m v. I s \<Longrightarrow> I (s\<lparr>op := m, instr := v\<rparr>)" and "\<And>s v. I s \<Longrightarrow> I (s\<lparr>instr := v\<rparr>)"
  shows "inv_act I I (fetch env)"
proof -
  have "I (snd (load_instr env (ucast (pc s)) s))" if "I s" for s
    using that assms(2) load_instr_keeps_view [of env "ucast (pc s)"] by (auto simp: keeps_def)
  then show ?thesis
    using assms(3,4) by (auto simp: inv_act_def fetch_def split: prod.split outcome.split) (metis snd_conv)+
qed

lemma wf_get_csr: "inv_act hart_wf hart_wf (get_csr_value env r)"
proof -
  have ill: "inv_act hart_wf hart_wf RAISE_ILLEGAL_INSTRUCTION"
    by (simp add: inv_act_def RAISE_ILLEGAL_INSTRUCTION_def)
  have t: "inv_act hart_wf hart_wf (read_time env)"
    by (auto simp: inv_act_def read_time_def split: prod.split)
  have c: "inv_act hart_wf hart_wf read_cycle"
    unfolding read_cycle_def compute_and_get_current_cycles_def by (intro inv_intros) simp
  have r: "inv_act hart_wf hart_wf (read_table r)"
    by (auto simp: read_table_def ill) (auto simp: inv_act_def split: sum.split)
  show ?thesis
    unfolding get_csr_value_def validate_csr_counter_read_access_rights_def
    by (intro inv_intros ill t c r)
qed

lemma wf_set_csr: "inv_act hart_wf hart_wf (set_csr_value r v)"
proof -
  have ill: "inv_act hart_wf hart_wf RAISE_ILLEGAL_INSTRUCTION"
    by (simp add: inv_act_def RAISE_ILLEGAL_INSTRUCTION_def)
  have w: "inv_act hart_wf hart_wf (write_table r v)"
    using csr_file.wr_inv
    by (auto simp: write_table_def ill) (auto simp: inv_act_def hart_wf_def split: sum.split)
  have view: "inv_act hart_wf hart_wf (bindM (getsM (\<lambda>s. write_view (pc_alignment_mask s) r v (csrs s)))
      (\<lambda>x. case x of Some c \<Rightarrow> modifyM (\<lambda>s. s\<lparr>csrs := c\<rparr>) | None \<Rightarrow> write_table r v))"
    by (rule inv_actI)
      (auto simp: hart_wf_def split: option.splits dest: write_view_wf
        dest!: inv_act_Ok [OF w, unfolded hart_wf_def, rotated]
          inv_act_Trap [OF w, unfolded hart_wf_def, rotated])
  show ?thesis
    unfolding set_csr_value_def by (intro inv_intros ill view) simp
qed

text \<open>What is required of a syscall emulator, if there is one.\<close>

definition sys_keeps :: "('d ISS \<Rightarrow> bool) \<Rightarrow> 'd env \<Rightarrow> bool" where
  "sys_keeps I env \<longleftrightarrow> (\<forall>m. sys env = Some m \<longrightarrow> inv_act I I m)"

lemma ecall_inv: "sys_keeps I env \<Longrightarrow> inv_act I I (exec_ecall env)"
proof -
  assume "sys_keeps I env"
  moreover have "inv_act I I (raise_trap e v)" for e v by (simp add: inv_act_def)
  ultimately show ?thesis
    unfolding exec_ecall_def sys_keeps_def
    by (cases "sys env") (auto intro!: inv_intros)
qed

text \<open>The rules for conditions that do not depend on what an instruction changes in the hart.\<close>

lemma trap_inv: "inv_act I I (raise_trap e v)" "inv_act I I RAISE_ILLEGAL_INSTRUCTION"
  "inv_act I I (trap_check_addr_alignment al ld addr)" "inv_act I I (lexical_cast32 w)"
  by (simp_all add: inv_act_def RAISE_ILLEGAL_INSTRUCTION_def trap_check_addr_alignment_def
      lexical_cast32_def)

lemma convert_inv:
  assumes "inv_act I K m"
  shows "inv_act I K (amo_convert_trap m)"
  unfolding inv_act_def
proof (intro allI impI)
  fix s
  assume "I s"
  with assms have "case m s of (Ok _, s') \<Rightarrow> I s' | (Trap _ _, s') \<Rightarrow> K s' | _ \<Rightarrow> True"
    by (simp add: inv_act_def)
  then show "case amo_convert_trap m s of (Ok _, s') \<Rightarrow> I s' | (Trap _ _, s') \<Rightarrow> K s' | _ \<Rightarrow> True"
    by (cases "m s"; cases "fst (m s)") (simp_all add: amo_convert_trap_def)
qed

lemma wf_amo: "inv_act hart_wf hart_wf (execute_amo env f)"
  unfolding execute_amo_def put_rd_def
  by (intro inv_intros trap_inv convert_inv hart_wf_view_inv keeps_intros; simp)

lemma wf_lr: "inv_act hart_wf hart_wf (exec_lr env)"
  unfolding exec_lr_def put_rd_def
  by (intro inv_intros trap_inv hart_wf_view_inv keeps_intros; simp)

lemma wf_sc: "inv_act hart_wf hart_wf (exec_sc env)"
  unfolding exec_sc_def put_rd_def
  by (intro inv_intros trap_inv hart_wf_view_inv keeps_intros; simp)

lemma wf_wfi: "inv_act hart_wf hart_wf (exec_wfi env)"
proof -
  have "inv_act hart_wf hart_wf (\<lambda>s. case wait_wfi_event env (get_shared s) of
      None \<Rightarrow> (Blocked, s) | Some w \<Rightarrow> (Ok (), put_shared w s))"
    by (simp add: inv_act_def split: option.split)
  then show ?thesis unfolding exec_wfi_def by (intro inv_intros trap_inv; simp)
qed

lemma wf_return: "inv_act hart_wf hart_wf (return_from_trap_handler p)"
  unfolding return_from_trap_handler_def Let_def
  by (intro inv_intros) (simp_all add: hart_wf_def)

lemma wf_switch: "inv_act hart_wf hart_wf (switch_to_trap_handler p)"
  unfolding switch_to_trap_handler_def by (intro inv_intros; simp)

lemma wf_prepare: "inv_act hart_wf hart_wf (prepare_trap e v)" "inv_act hart_wf hart_wf (prepare_interrupt i)"
  unfolding prepare_trap_def prepare_interrupt_def Let_def
  by (intro inv_intros trap_inv; simp)+

lemma wf_perf: "inv_act hart_wf hart_wf (performance_and_sync_update env m)"
  unfolding performance_and_sync_update_def inc_time_def by (intro inv_intros; simp)

lemma wf_step_invariant:
  "sys_keeps hart_wf env \<Longrightarrow> hart_step_invariant hart_wf hart_wf env"
proof unfold_locales
  assume sys: "sys_keeps hart_wf env"
  show "inv_act hart_wf hart_wf (fetch env)"
    by (rule fetch_inv [OF load_instr_keeps_view]) (auto dest: hart_view_wf)
  show "inv_act hart_wf hart_wf take_interrupt"
    unfolding take_interrupt_def by (intro inv_intros wf_prepare wf_switch)
  show "hart_wf s \<Longrightarrow> bindM (prepare_trap e w) switch_to_trap_handler s = (Ok x, s') \<Longrightarrow> hart_wf s'"
    for s e w x s'
    by (rule inv_act_Ok [OF inv_bind [OF wf_prepare(1) wf_switch]])
  show "inv_act hart_wf hart_wf (exec_ecall env)" using sys by (rule ecall_inv)
qed (simp_all add: wf_get_csr wf_set_csr wf_return wf_amo wf_lr wf_sc wf_wfi wf_perf hart_wf_view_inv
      keeps_intros)

end
