(* ===== verification/Iss_Config.thy ===== *)
theory Iss_Config
  imports Iss_Inv
begin

text \<open>
  What a run of the RV32 hart never changes (\<open>hart_config\<close>), and the reachable states of a hart: any
  interleaving of its steps with changes of its interrupt lines by the interrupt controllers.
\<close>

unbundle bit_operations_syntax

section \<open>The configuration of a hart\<close>

text \<open>
  What no instruction changes: the extensions and the number of the hart, its memory map, the
  debugger's settings, and that \<open>mie\<close> has only bits of its mask.
\<close>

definition hart_config :: "'d ISS \<Rightarrow> _" where
  "hart_config s = (misa (csrs s), mhartid (csrs s), mie (csrs s) AND NOT MIE_MASK, dmi_ranges s,
     instr_mem s, debug_mode s, breakpoints s)"

lemma keeps_inv: "keeps f m \<Longrightarrow> inv_act (\<lambda>s. f s = k) (\<lambda>s. f s = k) m"
  unfolding keeps_def by (intro inv_actI) (metis snd_conv)+

lemma hart_view_config: "hart_view s' = hart_view s \<Longrightarrow> hart_config s' = hart_config s"
proof -
  assume *: "hart_view s' = hart_view s"
  then have c: "(csrs s')\<lparr>mip := 0\<rparr> = (csrs s)\<lparr>mip := 0\<rparr>" by (simp add: hart_view_def)
  have "misa (csrs s') = misa (csrs s)" "mhartid (csrs s') = mhartid (csrs s)"
    "mie (csrs s') = mie (csrs s)"
    using c [THEN arg_cong, of misa] c [THEN arg_cong, of mhartid] c [THEN arg_cong, of mie] by simp_all
  with * show ?thesis by (simp add: hart_view_def hart_config_def)
qed

lemma keeps_view_config: "keeps hart_view m \<Longrightarrow> keeps hart_config m"
  unfolding keeps_def using hart_view_config by blast

text \<open>The entries of the register table other than the read-only ones leave these registers alone.\<close>

lemma register_mapping_other:
  assumes "(a, p) \<in> set register_mapping"
  shows "a \<noteq> MISA_ADDR \<Longrightarrow> misa (snd p v t) = misa t"
    and "a \<noteq> MHARTID_ADDR \<Longrightarrow> mhartid (snd p v t) = mhartid t"
    and "a \<noteq> MIE_ADDR \<Longrightarrow> mie (snd p v t) = mie t"
  using assms unfolding register_mapping_def
  by (auto simp: ptr_mvendorid_def ptr_marchid_def ptr_mimpid_def ptr_mhartid_def ptr_mstatus_def
      ptr_misa_def ptr_medeleg_def ptr_mideleg_def ptr_mie_def ptr_mtvec_def ptr_mcounteren_def
      ptr_mcountinhibit_def ptr_mscratch_def ptr_mepc_def ptr_mcause_def ptr_mtval_def
      ptr_mip_def ptr_sedeleg_def ptr_sideleg_def ptr_stvec_def ptr_scounteren_def
      ptr_sscratch_def ptr_sepc_def ptr_scause_def ptr_stval_def ptr_satp_def ptr_utvec_def
      ptr_uscratch_def ptr_uepc_def ptr_ucause_def ptr_utval_def ptr_fcsr_def
      ptr_cycle_low_def ptr_cycle_high_def ptr_time_low_def ptr_time_high_def
      ptr_instret_low_def ptr_instret_high_def ptr_pmpaddr_def ptr_pmpcfg_def)

lemma default_write32_other:
  assumes "default_write32 a v t = Inr t'"
  shows "a \<noteq> MISA_ADDR \<Longrightarrow> misa t' = misa t"
    and "a \<noteq> MHARTID_ADDR \<Longrightarrow> mhartid t' = mhartid t"
    and "a \<noteq> MIE_ADDR \<Longrightarrow> mie t' = mie t"
  using assms map_of_SomeD [of register_mapping a] register_mapping_other [of a]
  by (auto simp: default_write32_def split: option.splits)

lemma write_view_other:
  assumes "write_view pm a v c = Some c'"
  shows "misa c' = misa c" "mhartid c' = mhartid c" "mie c' AND NOT MIE_MASK = mie c AND NOT MIE_MASK"
  using assms by (auto simp: write_view_def masked_write_keeps split: if_splits)

lemma config_updates [simp]:
  "hart_config (s\<lparr>pc := x\<rparr>) = hart_config s" "hart_config (s\<lparr>last_pc := x\<rparr>) = hart_config s"
  "hart_config (s\<lparr>prv := x\<rparr>) = hart_config s" "hart_config (s\<lparr>lr_sc_counter := i\<rparr>) = hart_config s"
  "hart_config (s\<lparr>instr := x\<rparr>) = hart_config s" "hart_config (s\<lparr>op := m\<rparr>) = hart_config s"
  "hart_config (s\<lparr>status := st\<rparr>) = hart_config s"
  "hart_config (s\<lparr>quantum_keeper := q\<rparr>) = hart_config s"
  "hart_config (s\<lparr>cycle_counter := q\<rparr>) = hart_config s"
  "hart_config (s\<lparr>total_num_instr := n\<rparr>) = hart_config s"
  "hart_config (s\<lparr>softfloat_roundingMode := x\<rparr>) = hart_config s"
  "hart_config (s\<lparr>softfloat_exceptionFlags := x\<rparr>) = hart_config s"
  "hart_config (s\<lparr>regs := rs\<rparr>) = hart_config s" "hart_config (s\<lparr>fp_regs := fs\<rparr>) = hart_config s"
  "hart_config (s\<lparr>world := w\<rparr>) = hart_config s" "hart_config (put_shared sw s) = hart_config s"
  "hart_config (set_reg r x s) = hart_config s" "hart_config (atomic_unlock s) = hart_config s"
  "hart_config (set_rd x s) = hart_config s"
  by (simp_all add: hart_config_def put_shared_def set_reg_def set_rd_def atomic_unlock_def)

lemma config_upd_csrs [simp]:
  "(\<And>c. misa (f c) = misa c \<and> mhartid (f c) = mhartid c \<and> mie (f c) = mie c) \<Longrightarrow>
     hart_config (upd_csrs f s) = hart_config s"
  by (simp add: hart_config_def upd_csrs_def)

lemma config_helpers [simp]:
  "hart_config (release_lr_sc_reservation s) = hart_config s" "hart_config (fp_set_dirty s) = hart_config s"
  "hart_config (fp_update_exception_flags s) = hart_config s"
  "hart_config (enter_m pp s) = hart_config s" "hart_config (enter_s pp s) = hart_config s"
  "hart_config (enter_u s) = hart_config s" "hart_config (sync_act env s) = hart_config s"
  by (simp_all add: release_lr_sc_reservation_def fp_set_dirty_def fp_update_exception_flags_def
      enter_m_def enter_s_def enter_u_def Let_def sync_act_def) (simp_all add: hart_config_def)

text \<open>The same for the actions of an instruction.\<close>

lemma keeps_illegal [keeps_intros]:
  "keeps f RAISE_ILLEGAL_INSTRUCTION" "keeps f (REQUIRE_ISA X)"
  "keeps f (trap_check_addr_alignment al ld addr)" "keeps f (lexical_cast32 v)"
  unfolding RAISE_ILLEGAL_INSTRUCTION_def REQUIRE_ISA_def trap_check_addr_alignment_def
    lexical_cast32_def
  by (intro keeps_intros)+

lemma keeps_convert [keeps_intros]: "keeps f m \<Longrightarrow> keeps f (amo_convert_trap m)"
  by (auto simp: keeps_def amo_convert_trap_def split: prod.split outcome.split) (metis snd_conv)+

lemma config_get_csr: "keeps hart_config (get_csr_value env r)"
proof -
  have t: "keeps hart_config (read_time env)"
    by (auto simp: keeps_def read_time_def split: prod.split)
  have c: "keeps hart_config read_cycle"
    unfolding read_cycle_def compute_and_get_current_cycles_def by (intro keeps_intros) simp
  have r: "keeps hart_config (read_table r)"
    unfolding read_table_def by (intro keeps_intros) (simp add: keeps_def split: sum.split)
  show ?thesis
    unfolding get_csr_value_def validate_csr_counter_read_access_rights_def
    by (intro keeps_intros t c r)
qed

lemma config_write_table:
  assumes "r \<notin> {MISA_ADDR, MHARTID_ADDR, MIE_ADDR}"
  shows "keeps hart_config (write_table r v)"
  unfolding write_table_def using assms
  by (intro keeps_intros)
    (auto simp: keeps_def hart_config_def default_write32_other split: sum.split)

lemma config_set_csr:
  assumes "drop_bit 10 (0xC00 AND r) \<noteq> (3 :: u32)"
  shows "keeps hart_config (set_csr_value r v :: ('d ISS, unit) act)"
proof (cases "r = MISA_ADDR")
  case True
  then show ?thesis unfolding set_csr_value_def by (simp only: simp_thms if_True) (intro keeps_intros)
next
  case False
  have "r \<noteq> MHARTID_ADDR" using assms by auto
  then have tab: "r \<noteq> MIE_ADDR \<Longrightarrow> keeps hart_config (write_table r v :: ('d ISS, unit) act)"
    using False by (intro config_write_table) simp
  have mie: "write_view pm MIE_ADDR v c \<noteq> None" for pm c by (simp add: write_view_def)
  have view: "keeps hart_config (bindM (getsM (\<lambda>s :: 'd ISS. write_view (pc_alignment_mask s) r v (csrs s)))
      (\<lambda>x. case x of Some c \<Rightarrow> modifyM (\<lambda>s. s\<lparr>csrs := c\<rparr>) | None \<Rightarrow> write_table r v))"
    unfolding keeps_def
  proof
    fix s :: "'d ISS"
    show "hart_config (snd (bindM (getsM (\<lambda>s. write_view (pc_alignment_mask s) r v (csrs s)))
      (\<lambda>x. case x of Some c \<Rightarrow> modifyM (\<lambda>s. s\<lparr>csrs := c\<rparr>) | None \<Rightarrow> write_table r v) s)) = hart_config s"
    proof (cases "write_view (pc_alignment_mask s) r v (csrs s)")
      case None
      then have "r \<noteq> MIE_ADDR" using mie by metis
      from tab [OF this] None show ?thesis by (simp add: keeps_def)
    next
      case (Some c)
      from write_view_other [OF this] Some show ?thesis by (simp add: hart_config_def)
    qed
  qed
  show ?thesis unfolding set_csr_value_def by (intro keeps_intros view) simp
qed

lemma config_atomics:
  "keeps hart_config (execute_amo env f)" "keeps hart_config (exec_lr env)"
  "keeps hart_config (exec_sc env)" "keeps hart_config (return_from_trap_handler p)"
  "keeps hart_config (switch_to_trap_handler p)" "keeps hart_config (prepare_trap e v)"
  "keeps hart_config (prepare_interrupt i)" "keeps hart_config (performance_and_sync_update env m)"
  unfolding execute_amo_def exec_lr_def exec_sc_def put_rd_def return_from_trap_handler_def
    switch_to_trap_handler_def prepare_trap_def prepare_interrupt_def Let_def
    performance_and_sync_update_def inc_time_def
  by (intro keeps_intros keeps_view_config; simp; simp add: hart_config_def)+

lemma config_step_invariant:
  fixes env :: "'d env"
  assumes sys: "sys_keeps (\<lambda>s. hart_config s = k) env"
  shows "hart_step_invariant (\<lambda>s. hart_config s = k) (\<lambda>s. hart_config s = k) env"
proof unfold_locales
  let ?I = "\<lambda>s :: 'd ISS. hart_config s = k"
  show "inv_act ?I ?I (fetch env)"
    by (rule fetch_inv [OF load_instr_keeps_view]) (auto dest: hart_view_config)
  show "inv_act ?I ?I take_interrupt"
    unfolding take_interrupt_def by (intro inv_intros keeps_inv config_atomics)
  have h: "inv_act ?I ?I (bindM (prepare_trap e w) switch_to_trap_handler)" for e w
    by (intro keeps_inv keeps_intros config_atomics)
  show "?I s \<Longrightarrow> bindM (prepare_trap e w) switch_to_trap_handler s = (Ok x, s') \<Longrightarrow> ?I s'"
    for s e w x s'
    by (rule inv_act_Ok [OF h])
  show "inv_act ?I ?I (exec_ecall env)" using sys by (rule ecall_inv)
  have "keeps hart_config (\<lambda>s :: 'd ISS. case wait_wfi_event env (get_shared s) of
      None \<Rightarrow> (Blocked, s) | Some w \<Rightarrow> (Ok (), put_shared w s))"
    by (simp add: keeps_def split: option.split)
  then have "keeps hart_config (exec_wfi env)"
    unfolding exec_wfi_def by (intro keeps_intros; simp)
  then show "inv_act ?I ?I (exec_wfi env)" by (rule keeps_inv)
qed (simp_all add: keeps_inv config_get_csr config_set_csr config_atomics keeps_view_config keeps_intros)

interpretation wf: hart_step_invariant hart_wf hart_wf "env\<lparr>sys := None\<rparr>" for env :: "'d env"
  by (rule wf_step_invariant) (simp add: sys_keeps_def)

interpretation config: hart_step_invariant
    "\<lambda>s. hart_config s = k" "\<lambda>s. hart_config s = k" "env\<lparr>sys := None\<rparr>" for k and env :: "'d env"
  by (rule config_step_invariant) (simp add: sys_keeps_def)

end
