(* ===== verification/Iss_Step.thy ===== *)
theory Iss_Step
  imports Iss_Config Example
begin

text \<open>
  Whole steps of the RV32 hart (\<open>ISS::run_step\<close>): the fetch from directly mapped memory composed with
  decoding, execution, the interrupt check and the counters.
\<close>

unbundle bit_operations_syntax

section \<open>A step from directly mapped memory\<close>

text \<open>
  The hart is about to execute the instruction word \<open>w\<close>: no breakpoint, the fetch needs no
  translation and goes to a direct mapping, and the bus is free.
\<close>

definition fetches :: "u32 \<Rightarrow> 'd ISS \<Rightarrow> bool" where
  "fetches w s \<longleftrightarrow> instr_mem s = CombinedMemory \<and> untranslated FETCH s \<and> has_access s \<and>
     phys_load (dmi_ranges s) (host (world s)) 4 (ucast (pc s)) = Some (ucast w) \<and>
     pc s AND NOT (pc_alignment_mask s) = 0 \<and> reg 0 s = 0 \<and> \<not> (debug_mode s \<and> pc s \<in> breakpoints s)"

text \<open>The state in which the operation of the fetched instruction is executed.\<close>

definition fetched :: "u32 \<Rightarrow> 'd ISS \<Rightarrow> 'd ISS" where
  "fetched w s = s\<lparr>last_pc := pc s, quantum_keeper := quantum_keeper s + 40000, instr := w,
     op := decode_normal RV32 w, pc := pc s + 4\<rparr>"

lemma fetches_last_pc [simp]: "fetches w (s\<lparr>last_pc := x\<rparr>) = fetches w s"
  by (simp add: fetches_def untranslated_def access_mode_def has_access_def bus_locked_by_me_def
      get_hart_id_def reg_def pc_alignment_mask_def)

lemma exec_step_fetched:
  assumes "fetches w s" and "\<not> instr_is_compressed w"
  shows "exec_step env (s\<lparr>last_pc := pc s\<rparr>) = exec_op env (decode_normal RV32 w) (fetched w s)"
proof -
  let ?s = "s\<lparr>last_pc := pc s\<rparr>"
  have f: "fetches w ?s" using assms(1) by simp
  then have "load_instr env (ucast (pc ?s)) ?s =
      (Ok w, ?s\<lparr>quantum_keeper := quantum_keeper s + 40000\<rparr>)"
    using raw_load_data_dmi [of ?s 4 "ucast (pc s)" "ucast w" env]
    by (simp add: fetches_def load_instr_def bindM_def v2p_untranslated ucast_down_up)
  then have "fetch env ?s = (Ok (), ?s\<lparr>quantum_keeper := quantum_keeper s + 40000, instr := w\<rparr>)"
    by (simp add: fetch_def)
  moreover have "pc ?s AND NOT (pc_alignment_mask ?s) = 0" using f by (simp add: fetches_def)
  ultimately show ?thesis
    using assms(2)
    by (simp add: exec_step_def seqM_assert_apply)
      (simp add: seqM_apply decode_step_def fetched_def)
qed

text \<open>What is left of \<open>run_step\<close> after an operation that returned, when no interrupt is pending.\<close>

definition finished :: "'d ISS \<Rightarrow> 'd ISS" where
  "finished s = (let s1 = s\<lparr>regs := (regs s)[0 := 0]\<rparr>
     in if shall_exit s1 then s1\<lparr>status := Terminated\<rparr> else s1)"

lemma run_step_body_eq:
  "run_step_body env s = bindM (catch_trap (seqM (exec_step env) take_interrupt))
     (\<lambda>_ s1. performance_and_sync_update env (op s1) (finished s1)) (s\<lparr>last_pc := pc s\<rparr>)"
proof -
  let ?k = "seqs [modifyM (\<lambda>s. s\<lparr>regs := (regs s)[0 := 0]\<rparr>),
      modifyM (\<lambda>s. if shall_exit s then s\<lparr>status := Terminated\<rparr> else s),
      bindM (getsM op) (performance_and_sync_update env)]"
  have "?k s1 = performance_and_sync_update env (op s1) (finished s1)" for s1
    by (simp add: finished_def Let_def)
  then have "?k = (\<lambda>s1. performance_and_sync_update env (op s1) (finished s1))" by (rule ext)
  then show ?thesis
    unfolding run_step_body_def seqs.simps(2) seqM_modify_apply seqM_def by simp
qed

lemma run_step_fetched:
  assumes "fetches w s" and "\<not> instr_is_compressed w"
    and "exec_op env (decode_normal RV32 w) (fetched w s) = (Ok (), s1)" and "mie (csrs s1) AND mip (csrs s1) = 0"
  shows "run_step env s = performance_and_sync_update env (op s1) (finished s1)"
proof -
  have "take_interrupt s1 = (Ok (), s1)"
    using assms(4) by (simp add: take_interrupt_def compute_pending_interrupts_def Let_def)
  then have "catch_trap (seqM (exec_step env) take_interrupt) (s\<lparr>last_pc := pc s\<rparr>) = (Ok (), s1)"
    using assms(3) exec_step_fetched [OF assms(1,2), of env]
    by (simp add: catch_trap_def seqM_apply)
  then show ?thesis
    using assms(1)
    by (auto simp: run_step_def run_step_body_def fetches_def seqM_assert_apply seqM_apply
        finished_def Let_def)
qed

section \<open>The counters\<close>

text \<open>What \<open>performance_and_sync_update\<close> leaves alone.\<close>

definition exec_view :: "'d ISS \<Rightarrow> _" where
  "exec_view s = (regs s, fp_regs s, pc s, last_pc s, prv s, instr s, op s, status s, shall_exit s,
     mmu s, lr_addr s, softfloat_exceptionFlags s)"

lemma perf_keeps_exec: "keeps exec_view (performance_and_sync_update env m)"
  unfolding performance_and_sync_update_def inc_time_def
  by (intro keeps_intros)
    (simp_all add: exec_view_def upd_csrs_def release_lr_sc_reservation_def sync_act_def
      atomic_unlock_def put_shared_def)

text \<open>The update as a function on states: the counters, the reservation, the time and the sync.\<close>

definition count_instr :: "'d ISS \<Rightarrow> 'd ISS" where
  "count_instr s = (let s1 = s\<lparr>total_num_instr := total_num_instr s + 1\<rparr> in
     if mcountinhibit_IR (mcountinhibit (csrs s1)) = 0
     then upd_csrs (\<lambda>c. c\<lparr>instret := csr_64_increment (instret c)\<rparr>) s1 else s1)"

definition tick_reservation :: "'d ISS \<Rightarrow> 'd ISS" where
  "tick_reservation s = (if lr_sc_counter s = 0 then s
     else if lr_sc_counter s = 1 then release_lr_sc_reservation s
     else s\<lparr>lr_sc_counter := lr_sc_counter s - 1\<rparr>)"

definition tick_time :: "'d env \<Rightarrow> Mapping \<Rightarrow> 'd ISS \<Rightarrow> 'd ISS" where
  "tick_time env m s =
     (let s1 = (if mcountinhibit_CY (mcountinhibit (csrs s)) = 0
                then s\<lparr>cycle_counter := cycle_counter s + instr_cycles m\<rparr> else s);
          s2 = s1\<lparr>quantum_keeper := quantum_keeper s1 + instr_cycles m\<rparr>
      in if need_sync env (quantum_keeper s2) (get_shared s2) \<and> lr_sc_counter s2 = 0 then sync_act env s2 else s2)"

lemma perf_eq:
  assumes "0 \<le> lr_sc_counter s"
  shows "performance_and_sync_update env m s = (Ok (), tick_time env m (tick_reservation (count_instr s)))"
proof -
  have c: "lr_sc_counter (count_instr s) = lr_sc_counter s"
    by (simp add: count_instr_def Let_def upd_csrs_def)
  have r: "whenM (\<lambda>s. lr_sc_counter s \<noteq> 0)
      (seqs [modifyM (\<lambda>s. s\<lparr>lr_sc_counter := lr_sc_counter s - 1\<rparr>), assertM (\<lambda>s. lr_sc_counter s \<ge> 0),
        modifyM (\<lambda>s. if lr_sc_counter s = 0 then release_lr_sc_reservation s else s)]) t
      = (Ok (), tick_reservation t)" if "0 \<le> lr_sc_counter t" for t :: "'a ISS"
    using that by (simp add: whenM_def seqM_assert_apply tick_reservation_def release_lr_sc_reservation_def)
  let ?tail = "seqs [modifyM (\<lambda>s. if mcountinhibit_CY (mcountinhibit (csrs s)) = 0
        then s\<lparr>cycle_counter := cycle_counter s + instr_cycles m\<rparr> else s),
      inc_time (instr_cycles m),
      whenM (\<lambda>s. need_sync env (quantum_keeper s) (get_shared s) \<and> lr_sc_counter s = 0)
        (modifyM (sync_act env))]"
  have t: "?tail u = (Ok (), tick_time env m u)" for u
    by (simp add: tick_time_def Let_def inc_time_def whenM_def)
  have "performance_and_sync_update env m s = seqM (whenM (\<lambda>s. lr_sc_counter s \<noteq> 0)
      (seqs [modifyM (\<lambda>s. s\<lparr>lr_sc_counter := lr_sc_counter s - 1\<rparr>), assertM (\<lambda>s. lr_sc_counter s \<ge> 0),
        modifyM (\<lambda>s. if lr_sc_counter s = 0 then release_lr_sc_reservation s else s)])) ?tail
      (count_instr s)"
    unfolding performance_and_sync_update_def count_instr_def Let_def
    by (simp only: seqs.simps(2) seqM_modify_apply)
  also have "\<dots> = ?tail (tick_reservation (count_instr s))"
    using r [of "count_instr s"] assms c by (simp only: seqM_apply(1))
  finally show ?thesis by (simp only: t)
qed

lemma total_num_instr_simps [simp]:
  "total_num_instr (count_instr s) = total_num_instr s + 1"
  "total_num_instr (tick_reservation s) = total_num_instr s"
  "total_num_instr (tick_time env m s) = total_num_instr s"
  by (simp_all add: count_instr_def tick_reservation_def tick_time_def upd_csrs_def Let_def
      release_lr_sc_reservation_def atomic_unlock_def sync_act_def put_shared_def)

section \<open>Register-register and register-immediate instructions\<close>

definition alu_ops :: "rv32i list" where
  "alu_ops = [LUI, AUIPC, ADDI, SLTI, SLTIU, XORI, ORI, ANDI, SLLI, SRLI, SRAI, ADD, SUB, SLL, SLT,
     SLTU, XOR_op, SRL, SRA, OR_op, AND_op]"

lemma instr_rd_less: "unat (instr_rd w) < 32"
proof -
  have "instr_rd w = take_bit 5 (drop_bit 7 w)"
    unfolding instr_rd_def BIT_RANGE_def
    by (rule u32_eqI; simp add: bit_simps bit_signed_drop_bit_iff)
  then show ?thesis by (simp add: take_bit_eq_mod unat_mod)
qed

lemma exec_alu_op: "x \<in> set alu_ops \<Longrightarrow> exec_op env (RV32I x) s = (Ok (), set_rd (alu_result x s) s)"
  by (auto simp: alu_ops_def exec_op_def exec_rv32i_def exec_alu_def put_rd_def)

lemma exec_view_projs:
  assumes "exec_view s' = exec_view s"
  shows "regs s' = regs s" "fp_regs s' = fp_regs s" "pc s' = pc s" "prv s' = prv s" "op s' = op s"
    "status s' = status s" "mmu s' = mmu s" "lr_addr s' = lr_addr s"
  using assms by (simp_all add: exec_view_def)

lemma finished_fields [simp]:
  "regs (finished s) = (regs s)[0 := 0]" "pc (finished s) = pc s" "prv (finished s) = prv s"
  "lr_sc_counter (finished s) = lr_sc_counter s" "total_num_instr (finished s) = total_num_instr s"
  "op (finished s) = op s" "csrs (finished s) = csrs s" "world (finished s) = world s"
  by (simp_all add: finished_def Let_def)

lemma fetched_fields [simp]:
  "regs (fetched w s) = regs s" "pc (fetched w s) = pc s + 4" "last_pc (fetched w s) = pc s"
  "instr (fetched w s) = w" "csrs (fetched w s) = csrs s" "prv (fetched w s) = prv s"
  "lr_sc_counter (fetched w s) = lr_sc_counter s" "world (fetched w s) = world s"
  "total_num_instr (fetched w s) = total_num_instr s" "op (fetched w s) = decode_normal RV32 w"
  "dmi_ranges (fetched w s) = dmi_ranges s" "mmu (fetched w s) = mmu s"
  by (simp_all add: fetched_def)

text \<open>An operation that returns without an interrupt pending completes the step.\<close>

lemma run_step_completes:
  assumes "fetches w s" and "\<not> instr_is_compressed w"
    and "exec_op env (decode_normal RV32 w) (fetched w s) = (Ok (), s1)" and "mie (csrs s1) AND mip (csrs s1) = 0"
    and "0 \<le> lr_sc_counter s1"
  obtains s' where "run_step env s = (Ok (), s')" "exec_view s' = exec_view (finished s1)"
    "total_num_instr s' = total_num_instr s1 + 1"
proof -
  let ?s = "tick_time env (op s1) (tick_reservation (count_instr (finished s1)))"
  have p: "performance_and_sync_update env (op s1) (finished s1) = (Ok (), ?s)"
    using perf_eq [of "finished s1" env "op s1"] assms(5) by simp
  have "run_step env s = (Ok (), ?s)" using run_step_fetched [OF assms(1-4)] p by simp
  moreover have "exec_view ?s = exec_view (finished s1)" by (rule keepsD [OF perf_keeps_exec p])
  ultimately show ?thesis by (intro that [of ?s]) simp_all
qed

text \<open>
  C2. A step that executes a register-register or register-immediate instruction writes its result
  to the destination register (writes to the zero register are ignored), leaves the other
  registers and the privilege level alone, and moves on to the next instruction.
\<close>

theorem run_step_alu:
  assumes "fetches w s" and "\<not> instr_is_compressed w" and "hart_wf s"
    and "decode_normal RV32 w = RV32I x" and "x \<in> set alu_ops"
    and "mie (csrs s) AND mip (csrs s) = 0" and "0 \<le> lr_sc_counter s"
  shows "\<exists>s'. run_step env s = (Ok (), s') \<and> pc s' = pc s + 4 \<and> prv s' = prv s \<and>
    total_num_instr s' = total_num_instr s + 1 \<and>
    (\<forall>j. reg j s' = (if j = 0 then 0 else if j = instr_rd w then alu_result x (fetched w s) else reg j s))"
proof -
  let ?s1 = "set_rd (alu_result x (fetched w s)) (fetched w s)"
  have e: "exec_op env (decode_normal RV32 w) (fetched w s) = (Ok (), ?s1)"
    using assms(4,5) by (simp add: exec_alu_op)
  have i: "mie (csrs ?s1) AND mip (csrs ?s1) = 0" "0 \<le> lr_sc_counter ?s1"
    using assms(6,7) by (simp_all add: set_rd_def)
  obtain s' where s': "run_step env s = (Ok (), s')" "exec_view s' = exec_view (finished ?s1)"
    "total_num_instr s' = total_num_instr ?s1 + 1"
    by (rule run_step_completes [OF assms(1,2) e i])
  have len: "length (regs s) = 32" using assms(3) by (simp add: hart_wf_def)
  have r: "regs s' = (regs s)[unat (instr_rd w) := alu_result x (fetched w s), 0 := 0]"
    using exec_view_projs(1) [OF s'(2)] by (simp add: set_rd_def set_reg_def RD_def)
  have "reg j s' = (if j = 0 then 0 else if j = instr_rd w then alu_result x (fetched w s) else reg j s)" for j
  proof (cases "j = 0")
    case False
    then have "unat j \<noteq> 0" by (simp add: unat_eq_zero)
    then show ?thesis
      using False instr_rd_less [of w] len
      by (cases "j = instr_rd w") (simp_all add: reg_def r word_unat_eq_iff)
  qed (use len in \<open>simp add: reg_def r\<close>)
  moreover have "total_num_instr ?s1 = total_num_instr s"
    by (simp add: set_rd_def set_reg_def)
  ultimately show ?thesis
    using s' exec_view_projs [OF s'(2)] by (intro exI [of _ s']) (simp add: set_rd_def)
qed

lemma fetches_example:
  assumes "phys_load [dmi_example] (host_example ws) 4 0x80000000 = Some (ucast w)"
  shows "fetches w (hart_example ws)"
  using assms
  by (simp add: fetches_def untranslated_def has_access_def BusLock_init_def is_locked_def
      pc_alignment_mask_def csr_table_init_def misa_init_extensions reg_def)
    (simp add: hart_example_defs)

lemma decode_example:
  "decode_normal RV32 0x00500093 = RV32I ADDI" "\<not> instr_is_compressed 0x00500093"
  "instr_rd 0x00500093 = 1" "instr_rs1 0x00500093 = 0" "instr_I_imm 0x00500093 = 5"
  by code_simp+

lemma fetch_example: "fetches 0x00500093 (hart_example [0x00500093])"
  by (rule fetches_example) code_simp

theorem run_step_alu_witness:
  "\<exists>s'. run_step env_example (hart_example [0x00500093]) = (Ok (), s') \<and> reg 1 s' = 5 \<and> pc s' = 0x80000004"
proof -
  have "alu_result ADDI (fetched 0x00500093 (hart_example [0x00500093])) = 5"
    using fetch_example by (simp add: alu_result_def RS1_def reg_def decode_example fetches_def)
  moreover have "ADDI \<in> set alu_ops" by (simp add: alu_ops_def)
  ultimately show ?thesis
    using run_step_alu [OF fetch_example decode_example(2) hart_example_wf decode_example(1), of env_example]
      decode_example(3) by (auto simp: csr_table_init_def)
qed

text \<open>The step of the example, for the witnesses of other properties.\<close>

lemma step_example:
  "\<exists>s'. run_step env_example (hart_example [0x00500093]) = (Ok (), s') \<and> pc s' = 0x80000004"
proof -
  let ?s1 = "set_rd 5 (fetched 0x00500093 (hart_example [0x00500093]))"
  have "alu_result ADDI (fetched 0x00500093 (hart_example [0x00500093])) = 5"
    using fetch_example by (simp add: alu_result_def RS1_def reg_def decode_example fetches_def)
  then have e: "exec_op env_example (decode_normal RV32 0x00500093)
      (fetched 0x00500093 (hart_example [0x00500093])) = (Ok (), ?s1)"
    by (simp add: decode_example exec_alu_op alu_ops_def)
  obtain s' where s': "run_step env_example (hart_example [0x00500093]) = (Ok (), s')"
      "exec_view s' = exec_view (finished ?s1)"
    by (rule run_step_completes [OF fetch_example decode_example(2) e]) (simp_all add: set_rd_def csr_table_init_def)
  then show ?thesis using exec_view_projs(3) [OF s'(2)] by (auto simp: set_rd_def)
qed

end
