(* ===== verification/Iss_Reach.thy ===== *)
theory Iss_Reach
  imports Iss_Step
begin

text \<open>
  The reachable states of an RV32 hart: its steps (\<open>run_step\<close>) in any interleaving with the interrupt
  controllers, which set and clear its interrupt lines. The invariants of the step are lifted to
  every reachable state.
\<close>

unbundle bit_operations_syntax

inductive reachable :: "'d env \<Rightarrow> 'd ISS \<Rightarrow> 'd ISS \<Rightarrow> bool" for env s0 where
  start: "reachable env s0 s0"
| step: "reachable env s0 s \<Longrightarrow> run_step env s = (Ok (), s') \<Longrightarrow> reachable env s0 s'"
| trigger_ext: "reachable env s0 s \<Longrightarrow> reachable env s0 (trigger_external_interrupt l s)"
| clear_ext: "reachable env s0 s \<Longrightarrow> reachable env s0 (clear_external_interrupt l s)"
| timer: "reachable env s0 s \<Longrightarrow> reachable env s0 (trigger_timer_interrupt b s)"
| software: "reachable env s0 s \<Longrightarrow> reachable env s0 (trigger_software_interrupt b s)"

text \<open>A condition on everything but the interrupt lines that the steps keep holds in every reachable state.\<close>

lemma reachable_invariant:
  assumes "reachable env s0 s" and "I s0"
    and "\<And>s s'. run_step env s = (Ok (), s') \<Longrightarrow> I s \<Longrightarrow> I s'"
    and "\<And>s f. I s \<Longrightarrow> I (upd_csrs (\<lambda>c. c\<lparr>mip := f c\<rparr>) s)"
  shows "I s"
  using assms(1)
  by induction
    (auto simp: assms(2) trigger_external_interrupt_def clear_external_interrupt_def
      trigger_timer_interrupt_def trigger_software_interrupt_def intro: assms(3,4))

lemma reachable_wf:
  assumes "reachable env s0 s" and "sys_keeps hart_wf env" and "hart_wf s0"
  shows "hart_wf s"
  using assms(1,3) hart_step_invariant.inv_run_step [OF wf_step_invariant [OF assms(2)]]
  by (rule reachable_invariant) simp_all

lemma reachable_config:
  assumes "reachable env s0 s" and "\<And>k. sys_keeps (\<lambda>s. hart_config s = k) env"
  shows "hart_config s = hart_config s0"
  using assms(1)
proof (rule reachable_invariant [where I = "\<lambda>s. hart_config s = hart_config s0"])
  show "run_step env s = (Ok (), s') \<Longrightarrow> hart_config s = hart_config s0 \<Longrightarrow> hart_config s' = hart_config s0"
    for s s' by (rule hart_step_invariant.inv_run_step [OF config_step_invariant [OF assms(2)]])
qed simp_all

section \<open>The zero register\<close>

lemma run_step_zero:
  assumes "run_step env s = (Ok x, s')" and "hart_wf s'"
  shows "reg 0 s' = 0"
proof -
  have len: "length (regs s') = 32" using assms(2) by (simp add: hart_wf_def)
  from assms(1) consider "reg 0 s = 0" "s' = s\<lparr>status := HitBreakpoint\<rparr>"
    | "run_step_body env s = (Ok x, s')"
    by (auto simp: run_step_def seqM_def assertM_def split: if_splits elim!: bindM_OkE)
  then show ?thesis
  proof cases
    case 2
    then obtain s1 where p: "performance_and_sync_update env (op s1) (finished s1) = (Ok x, s')"
      unfolding run_step_body_eq by (elim bindM_OkE)
    have "regs s' = (regs s1)[0 := 0]"
      using exec_view_projs(1) [OF keepsD [OF perf_keeps_exec p]] by simp
    with len show ?thesis by (simp add: reg_def)
  qed (simp add: reg_def)
qed

text \<open>
  C3. In every reachable state of a hart that starts in a well-formed state, the register files and
  the CSR arrays have their sizes and the zero register holds zero, so the assertion at the
  start of \<open>run_step\<close> holds whatever instructions were executed.
\<close>

theorem reachable_zero_register:
  assumes "reachable env s0 s" and "sys_keeps hart_wf env" and "hart_wf s0" and "reg 0 s0 = 0"
  shows "hart_wf s \<and> reg 0 s = 0"
proof
  show "hart_wf s" by (rule reachable_wf [OF assms(1-3)])
  from assms(1) show "reg 0 s = 0"
  proof induction
    case (step s s')
    from reachable.step [OF step.hyps] have "hart_wf s'" by (rule reachable_wf [OF _ assms(2,3)])
    with step.hyps(2) show ?case by (rule run_step_zero)
  qed (use assms(4) in \<open>simp_all add: reg_def trigger_external_interrupt_def
      clear_external_interrupt_def trigger_timer_interrupt_def trigger_software_interrupt_def upd_csrs_def\<close>)
qed

theorem reachable_zero_register_witness:
  "\<exists>s. reachable env_example (hart_example [0x00500093]) s \<and> s \<noteq> hart_example [0x00500093] \<and> hart_wf s \<and> reg 0 s = 0"
proof -
  let ?s0 = "hart_example [0x00500093]"
  have z: "reg 0 ?s0 = 0" by (simp add: reg_def hart_example_defs)
  from step_example obtain s where s: "run_step env_example ?s0 = (Ok (), s)" "pc s = 0x80000004" by blast
  have r: "reachable env_example ?s0 s" by (rule reachable.step [OF reachable.start s(1)])
  from s(2) have "s \<noteq> ?s0" by auto
  moreover have "hart_wf s \<and> reg 0 s = 0"
    by (rule reachable_zero_register [OF r _ hart_example_wf z]) (simp add: sys_keeps_def env_example_def)
  ultimately show ?thesis using r by blast
qed

section \<open>Privileges, extensions and interrupts\<close>

text \<open>
  No instruction changes which extensions the hart implements, its number, or its memory map;
  \<open>mie\<close> never gets a bit outside its mask.
\<close>

theorem reachable_configuration:
  assumes "reachable env s0 s" and "\<And>k. sys_keeps (\<lambda>s. hart_config s = k) env"
  shows "misa (csrs s) = misa (csrs s0) \<and> mhartid (csrs s) = mhartid (csrs s0) \<and>
    dmi_ranges s = dmi_ranges s0 \<and> (mie (csrs s) AND NOT MIE_MASK = mie (csrs s0) AND NOT MIE_MASK)"
  using reachable_config [OF assms] by (simp add: hart_config_def)

lemma no_D_extension:
  "misa (csrs s) AND D_ISA_EXT = 0 \<Longrightarrow> exec_rv32d env x s = (Trap EXC_ILLEGAL_INSTR (ucast (instr s)), s)"
proof -
  assume *: "misa (csrs s) AND D_ISA_EXT = 0"
  have d: "REQUIRE_ISA D_ISA_EXT s = (Trap EXC_ILLEGAL_INSTR (ucast (instr s)), s)"
    using * by (simp add: REQUIRE_ISA_def RAISE_ILLEGAL_INSTRUCTION_def whenM_def)
  have "seqM (REQUIRE_ISA D_ISA_EXT) k s = (Trap EXC_ILLEGAL_INSTR (ucast (instr s)), s)" for k :: "('a ISS, unit) act"
    using d by (simp add: seqM_apply)
  then show ?thesis
    unfolding exec_rv32d_def Let_def
    by (cases x)
      (simp_all add: exec_fld_def exec_fsd_def fp_rounding_def fp_compare_def fp_move_def fp_to_int_def
        exec_fmin_d_def)
qed

text \<open>
  After reset the hart implements IMAFC without D (\<open>csr_misa::init\<close>), so in every reachable state
  every double-precision instruction, loads and stores included, raises an illegal-instruction
  trap before it changes anything.
\<close>

theorem reachable_no_D:
  assumes "reachable env (init entry sp (ISS_init h e im ds m w)) s"
    and "\<And>k. sys_keeps (\<lambda>s. hart_config s = k) env"
  shows "exec_rv32d env x s = (Trap EXC_ILLEGAL_INSTR (ucast (instr s)), s)"
proof -
  have "misa (csrs s) = (if e then select_E_base_isa misa_init else misa_init)"
    using reachable_config [OF assms] by (simp add: hart_config_def init_def ISS_init_def)
  moreover have "select_E_base_isa misa_init AND D_ISA_EXT = 0"
    by (simp add: misa_init_value select_E_base_isa_def bf_set_def bf_get_def mask_eq_exp_minus_1 Let_def
        take_bit_eq_mask)
  ultimately show ?thesis
    using misa_init_extensions by (intro no_D_extension) simp
qed

theorem reachable_configuration_witness:
  "\<exists>s. reachable env_example (hart_example [0x00500093]) s \<and> pc s = 0x80000004 \<and> misa (csrs s) = misa_init"
proof -
  let ?s0 = "hart_example [0x00500093]"
  from step_example obtain s where s: "run_step env_example ?s0 = (Ok (), s)" "pc s = 0x80000004" by blast
  have r: "reachable env_example ?s0 s" by (rule reachable.step [OF reachable.start s(1)])
  have "misa (csrs s) = misa (csrs ?s0)"
    using reachable_configuration [OF r] by (simp add: sys_keeps_def env_example_def)
  with r s(2) show ?thesis by (auto simp: csr_table_init_def)
qed

theorem reachable_no_D_witness:
  "\<exists>s. reachable env_example (hart_example [0x00500093]) s \<and> pc s = 0x80000004 \<and>
     exec_rv32d env_example FADD_D s = (Trap EXC_ILLEGAL_INSTR (ucast (instr s)), s)"
proof -
  let ?s0 = "hart_example [0x00500093]"
  from step_example obtain s where s: "run_step env_example ?s0 = (Ok (), s)" "pc s = 0x80000004" by blast
  have r: "reachable env_example ?s0 s" by (rule reachable.step [OF reachable.start s(1)])
  have "exec_rv32d env_example FADD_D s = (Trap EXC_ILLEGAL_INSTR (ucast (instr s)), s)"
    by (rule reachable_no_D [OF r [unfolded hart_example_def]]) (simp add: sys_keeps_def env_example_def)
  with r s(2) show ?thesis by blast
qed

text \<open>
  The interrupt check at the end of a step never throws: in every state reachable from reset,
  \<open>mie\<close> has only bits that \<open>prepare_interrupt\<close> knows, so either no interrupt is taken or a handler
  with at least the current privilege is entered.
\<close>

theorem reachable_take_interrupt:
  assumes "reachable env (init entry sp (ISS_init h e im ds m w)) s"
    and "\<And>k. sys_keeps (\<lambda>s. hart_config s = k) env"
  shows "\<exists>s'. take_interrupt s = (Ok (), s') \<and> prv s \<le> prv s'"
proof -
  have "mie (csrs s) AND NOT MIE_MASK = 0"
    using reachable_config [OF assms] by (simp add: hart_config_def init_def ISS_init_def csr_table_init_def)
  from interrupt_entered [OF this] show ?thesis
    by (cases "target_mode (compute_pending_interrupts s) = NoneMode") (auto simp: take_interrupt_def)
qed

theorem reachable_take_interrupt_witness:
  "\<exists>s. reachable env_example (hart_example [0x00500093]) s \<and> pc s = 0x80000004 \<and>
     (\<exists>s'. take_interrupt s = (Ok (), s') \<and> prv s \<le> prv s')"
proof -
  let ?s0 = "hart_example [0x00500093]"
  from step_example obtain s where s: "run_step env_example ?s0 = (Ok (), s)" "pc s = 0x80000004" by blast
  have r: "reachable env_example ?s0 s" by (rule reachable.step [OF reachable.start s(1)])
  have "\<exists>s'. take_interrupt s = (Ok (), s') \<and> prv s \<le> prv s'"
    by (rule reachable_take_interrupt [OF r [unfolded hart_example_def]])
      (simp add: sys_keeps_def env_example_def)
  with r s(2) show ?thesis by blast
qed

section \<open>Traps end in a handler\<close>

definition no_trap :: "('s, 'a) act \<Rightarrow> bool" where
  "no_trap m \<longleftrightarrow> (\<forall>s e v. fst (m s) \<noteq> Trap e v)"

named_theorems no_trap_intros

lemma no_trap_basic [no_trap_intros]:
  "no_trap (ret x)" "no_trap (getsM f)" "no_trap (modifyM g)" "no_trap (failM err)" "no_trap (assertM P)"
  by (simp_all add: no_trap_def assertM_def)

lemma no_trap_when [no_trap_intros]: "no_trap m \<Longrightarrow> no_trap (whenM P m)"
  by (simp add: no_trap_def whenM_def)

lemma no_trap_bind [no_trap_intros]: "no_trap m \<Longrightarrow> (\<And>x. no_trap (f x)) \<Longrightarrow> no_trap (bindM m f)"
  by (auto simp: no_trap_def fst_bindM split: outcome.split)

lemma no_trap_seq [no_trap_intros]: "no_trap m \<Longrightarrow> no_trap k \<Longrightarrow> no_trap (seqM m k)"
  by (simp add: seqM_def no_trap_bind)

lemma no_trap_seqs [no_trap_intros]:
  "no_trap (seqs [])" "no_trap m \<Longrightarrow> no_trap (seqs ms) \<Longrightarrow> no_trap (seqs (m # ms))"
  by (simp_all add: no_trap_seq) (simp add: no_trap_def)

lemma no_trap_if [no_trap_intros]:
  "no_trap m \<Longrightarrow> no_trap m' \<Longrightarrow> no_trap (if b then m else m')"
  by simp

lemma no_trap_split [no_trap_intros]:
  "(\<And>a b. no_trap (g a b)) \<Longrightarrow> no_trap (case p of (a, b) \<Rightarrow> g a b)"
  by (cases p) simp

lemma no_trap_handler: "no_trap (bindM (prepare_trap e v) switch_to_trap_handler)"
  unfolding prepare_trap_def switch_to_trap_handler_def Let_def lexical_cast32_def
  by (intro no_trap_intros)

lemma no_trap_perf: "no_trap (performance_and_sync_update env m)"
  unfolding performance_and_sync_update_def inc_time_def by (intro no_trap_intros)

lemma no_trap_catch: "no_trap (catch_trap (m :: ('d ISS, unit) act))"
proof -
  have "fst (bindM (prepare_trap e v) switch_to_trap_handler (s :: 'd ISS)) \<noteq> Trap e' v'" for e v s e' v'
    using no_trap_handler [of e v, where 'a = 'd] by (simp add: no_trap_def)
  then show ?thesis
    by (auto simp: no_trap_def catch_trap_def split: prod.split outcome.split)
qed

text \<open>
  A trap raised by an instruction or during its fetch is always handled inside the step: no
  \<open>SimulationTrap\<close> leaves \<open>run_step\<close>, and the runner never sees one.
\<close>

theorem run_step_never_traps: "fst (run_step env s) \<noteq> Trap e v"
proof -
  have "no_trap (run_step env)"
    unfolding run_step_def run_step_body_def
    by (intro no_trap_intros no_trap_catch no_trap_perf)
  then show ?thesis by (simp add: no_trap_def)
qed

end
