(* ===== verification/Iss_Lock.thy ===== *)
theory Iss_Lock
  imports Iss_Reach
begin

text \<open>
  The reservation of an RV32 hart. \<open>LR\<close> locks the bus for its hart and starts a counter; the lock is
  given back by the store of \<open>SC\<close>, by any other store, by a trap, by \<open>WFI\<close>, or when the counter
  runs out. The theorems show that an idle counter implies that the hart does not hold the bus, and
  that a hart never holds it for more than sixteen steps.
\<close>

unbundle bit_operations_syntax

section \<open>The bus is not given to a hart that does not ask for it\<close>

definition free_of :: "u32 \<Rightarrow> 'd ISS \<Rightarrow> bool" where
  "free_of h s \<longleftrightarrow> get_hart_id s = h \<and> \<not> is_locked_by h (bus_lock (world s))"

definition lr_view :: "'d ISS \<Rightarrow> u32 \<times> int" where
  "lr_view s = (get_hart_id s, lr_sc_counter s)"

text \<open>
  What is required of the rest of the platform: no target, clock or other process locks the bus in
  the name of the hart, and a syscall emulator leaves its reservation and configuration alone.
\<close>

definition lock_safe :: "u32 \<Rightarrow> 'd env \<Rightarrow> bool" where
  "lock_safe h env \<longleftrightarrow>
     (\<forall>w. \<not> is_locked_by h (shared_lock w) \<longrightarrow>
        (\<forall>w'. wait_wfi_event env w = Some w' \<longrightarrow> \<not> is_locked_by h (shared_lock w')) \<and>
        (\<forall>tr d. \<not> is_locked_by h (shared_lock (snd (isock env tr d w)))) \<and>
        \<not> is_locked_by h (shared_lock (snd (update_and_get_mtime env w))) \<and>
        (\<forall>q. \<not> is_locked_by h (shared_lock (sync env q w)))) \<and>
     (\<forall>m. sys env = Some m \<longrightarrow> keeps lr_view m \<and> preserves (free_of h) m \<and> keeps hart_config m)"

lemma lock_safeD:
  assumes "lock_safe h env" and "\<not> is_locked_by h (shared_lock w)"
  shows "wait_wfi_event env w = Some w' \<Longrightarrow> \<not> is_locked_by h (shared_lock w')"
    and "\<not> is_locked_by h (shared_lock (snd (isock env tr d w)))"
    and "\<not> is_locked_by h (shared_lock (snd (update_and_get_mtime env w)))"
    and "\<not> is_locked_by h (shared_lock (sync env q w))"
  using assms unfolding lock_safe_def by blast+

lemma free_of_updates [simp]:
  "free_of h (s\<lparr>quantum_keeper := q\<rparr>) = free_of h s" "free_of h (s\<lparr>mmu := m\<rparr>) = free_of h s"
  "free_of h (s\<lparr>world := (world s)\<lparr>host := x\<rparr>\<rparr>) = free_of h s"
  "free_of h (set_tlb_entry md t i e s) = free_of h s" "free_of h (s\<lparr>lr_addr := a\<rparr>) = free_of h s"
  "get_hart_id s = h \<Longrightarrow> free_of h (atomic_unlock s)"
  by (simp_all add: free_of_def get_hart_id_def set_tlb_entry_def atomic_unlock_def)

lemma free_of_put: "free_of h s \<Longrightarrow> \<not> is_locked_by h (shared_lock w) \<Longrightarrow> free_of h (put_shared w s)"
  by (simp add: free_of_def get_hart_id_def)

lemma free_wait: "preserves (free_of h) (wait_access env)"
proof -
  have "free_of h (snd (on_shared (wait_for_access_rights shared_lock (wait_lock_event env) k) s))"
    if "free_of h s" for s k
  proof -
    let ?w = "get_shared s"
    have "\<not> is_locked_by h (shared_lock (snd (wait_unlocked_act shared_lock (wait_lock_event env) ?w)))"
    proof (cases "wait_until_unlocked shared_lock (wait_lock_event env) ?w")
      case None
      with that show ?thesis by (simp add: wait_unlocked_act_def free_of_def get_shared_def)
    next
      case (Some w')
      with wait_until_unlocked_free [OF Some] show ?thesis by (simp add: wait_unlocked_act_def is_locked_by_def)
    qed
    with that show ?thesis
      by (auto simp: zoomM_def wait_for_access_rights_def whenM_def split: prod.split intro!: free_of_put)
  qed
  then show ?thesis unfolding wait_access_def by (auto simp: preserves_def)
qed

lemma free_transaction:
  "lock_safe h env \<Longrightarrow> preserves (free_of h) (do_transaction env cmd addr bs)"
proof -
  assume "lock_safe h env"
  then have "preserves (free_of h) (on_shared (isock env tr d))" for tr d
    by (auto simp: preserves_def zoomM_def lock_safe_def free_of_def get_shared_def get_hart_id_def
        split: prod.split) (metis fst_conv snd_conv)+
  then show ?thesis
    unfolding do_transaction_def by (intro preserves_intros) (auto intro!: preserves_intros split: prod.split)
qed

lemma preserves_case_option:
  "preserves I m \<Longrightarrow> (\<And>x. preserves I (g x)) \<Longrightarrow> preserves I (case o' of None \<Rightarrow> m | Some x \<Rightarrow> g x)"
  by (cases o') simp_all

lemma free_dmi:
  "preserves (free_of h) (dmi_load_act d n a)" "preserves (free_of h) (dmi_store_act d n a v)"
  "preserves (free_of h) (inc_time t)" "preserves (free_of h) (modifyM atomic_unlock)"
  by (auto simp: preserves_def dmi_load_act_def dmi_store_act_def inc_time_def free_of_def atomic_unlock_def
      get_hart_id_def split: sum.split)

lemmas free_intros = preserves_intros preserves_case_option free_wait free_dmi

lemma free_raw:
  assumes "lock_safe h env"
  shows "preserves (free_of h) (raw_load_data env n a)" "preserves (free_of h) (raw_store_data env n a v)"
proof -
  have "preserves (free_of h) (dmi_store_all n a v ds)" for ds
  proof (induction ds)
    case (Cons d ds)
    then show ?case unfolding dmi_store_all.simps by (intro free_intros)
  qed (simp only: dmi_store_all.simps preserves_ret)
  then show "preserves (free_of h) (raw_load_data env n a)" "preserves (free_of h) (raw_store_data env n a v)"
    unfolding raw_load_data_def raw_store_data_def
    by (intro free_intros free_transaction [OF assms])+
qed

lemma free_page_fault: "preserves I (page_fault type vaddr)"
  by (simp add: page_fault_def preserves_intros split: MemoryAccessType.split)

lemma free_walk:
  assumes "lock_safe h env"
  shows "preserves (free_of h) (walk env vaddr type mode)"
proof -
  have "preserves (free_of h) (walk_loop env vaddr type sm sumb mxr vm n base)" for sm sumb mxr vm n base
  proof (induction n arbitrary: base)
    case 0
    show ?case unfolding walk_loop.simps by (rule free_page_fault)
  next
    case (Suc n)
    show ?case
      unfolding walk_loop.simps mmu_load_pte32_def mmu_load_pte64_def mmu_store_pte32_def
      by (intro free_intros free_page_fault free_raw [OF assms] Suc)
  qed
  then show ?thesis
    unfolding walk_def decode_vm_info_def by (intro free_intros)
qed

lemma free_v2p:
  assumes "lock_safe h env"
  shows "preserves (free_of h) (v2p env vaddr type)"
  unfolding v2p_def translate_virtual_to_physical_addr_def
  by (intro free_intros free_walk [OF assms]) simp

lemma free_data:
  assumes "lock_safe h env"
  shows "preserves (free_of h) (load_data env n a)" "preserves (free_of h) (store_data env n a v)"
  unfolding load_data_def store_data_def by (intro free_intros free_v2p [OF assms] free_raw [OF assms])+

lemma free_load_instr:
  assumes "lock_safe h env"
  shows "preserves (free_of h) (load_instr env a)"
proof -
  have "preserves (free_of h) (case im of
      InstrMemoryProxy d \<Rightarrow> bindM (proxy_load_instr d a) (\<lambda>v. ret (ucast v :: u32))
    | CombinedMemory \<Rightarrow> bindM (v2p env a FETCH) (\<lambda>p. bindM (raw_load_data env 4 p) (\<lambda>v. ret (ucast v))))" for im
    unfolding proxy_load_instr_def
    by (cases im; simp only: instr_memory.case; intro free_intros free_v2p [OF assms] free_raw [OF assms])
  then show ?thesis unfolding load_instr_def by (intro free_intros)
qed

section \<open>The reservation during an instruction\<close>

text \<open>
  \<open>c\<close> is the counter at the start of the step. While an instruction other than \<open>LR\<close> executes, the
  counter keeps its value or is reset, and a hart whose counter is zero does not hold the bus. A
  trap may leave the bus locked; its handler releases it.
\<close>

definition lr_inv :: "u32 \<Rightarrow> int \<Rightarrow> 'd ISS \<Rightarrow> bool" where
  "lr_inv h c s \<longleftrightarrow> get_hart_id s = h \<and> (lr_sc_counter s = c \<or> lr_sc_counter s = 0) \<and>
     (lr_sc_counter s = 0 \<longrightarrow> free_of h s)"

definition lr_trap_inv :: "u32 \<Rightarrow> int \<Rightarrow> 'd ISS \<Rightarrow> bool" where
  "lr_trap_inv h c s \<longleftrightarrow> get_hart_id s = h \<and> (lr_sc_counter s = c \<or> lr_sc_counter s = 0)"

lemma lr_act:
  assumes "keeps lr_view m" and "preserves (free_of h) m"
  shows "inv_act (lr_inv h c) (lr_trap_inv h c) m"
proof -
  have v: "get_hart_id (snd (m s)) = get_hart_id s \<and> lr_sc_counter (snd (m s)) = lr_sc_counter s" for s
    using assms(1) by (simp add: keeps_def lr_view_def)
  have f: "free_of h s \<Longrightarrow> free_of h (snd (m s))" for s using assms(2) by (simp add: preserves_def)
  have i: "lr_inv h c (snd (m s))" if "lr_inv h c s" for s
    using that v [of s] f [of s] by (auto simp: lr_inv_def)
  then show ?thesis
    by (intro inv_actI) (metis i snd_conv, metis i lr_inv_def lr_trap_inv_def snd_conv)
qed

lemma lr_view_act:
  assumes "keeps hart_view m" and "preserves (free_of h) m"
  shows "inv_act (lr_inv h c) (lr_trap_inv h c) m"
proof -
  have "keeps lr_view m"
    using assms(1) hart_view_projs(6,16) unfolding keeps_def lr_view_def by blast
  then show ?thesis using assms(2) by (rule lr_act)
qed

text \<open>The invariant depends on the number of the hart, the counter and the bus lock only.\<close>

lemma lr_inv_cong:
  "mhartid (csrs s') = mhartid (csrs s) \<Longrightarrow> lr_sc_counter s' = lr_sc_counter s \<Longrightarrow>
     bus_lock (world s') = bus_lock (world s) \<Longrightarrow> lr_inv h c s' = lr_inv h c s"
  by (simp add: lr_inv_def free_of_def get_hart_id_def)

lemma lr_inv_updates [simp]:
  "lr_inv h c (s\<lparr>pc := x\<rparr>) = lr_inv h c s" "lr_inv h c (s\<lparr>last_pc := x\<rparr>) = lr_inv h c s"
  "lr_inv h c (s\<lparr>op := m\<rparr>) = lr_inv h c s" "lr_inv h c (s\<lparr>instr := x\<rparr>) = lr_inv h c s"
  "lr_inv h c (s\<lparr>status := st\<rparr>) = lr_inv h c s" "lr_inv h c (s\<lparr>prv := x\<rparr>) = lr_inv h c s"
  "lr_inv h c (s\<lparr>fp_regs := f\<rparr>) = lr_inv h c s" "lr_inv h c (set_rd x s) = lr_inv h c s"
  "lr_inv h c (s\<lparr>softfloat_roundingMode := x\<rparr>) = lr_inv h c s"
  "lr_inv h c (s\<lparr>softfloat_exceptionFlags := x\<rparr>) = lr_inv h c s"
  "lr_inv h c (fp_set_dirty s) = lr_inv h c s" "lr_inv h c (fp_update_exception_flags s) = lr_inv h c s"
  by (rule lr_inv_cong;
      simp add: set_rd_def fp_set_dirty_def fp_update_exception_flags_def upd_csrs_def)+

lemma lr_inv_upd_csrs [simp]: "(\<And>c. mhartid (f c) = mhartid c) \<Longrightarrow> lr_inv h c (upd_csrs f s) = lr_inv h c s"
  by (rule lr_inv_cong) (simp_all add: upd_csrs_def)

lemma lr_inv_weaker: "lr_inv h c s \<Longrightarrow> lr_trap_inv h c s"
  by (simp add: lr_inv_def lr_trap_inv_def)

lemma lr_trap: "inv_act (lr_inv h c) (lr_trap_inv h c) (raise_trap e v)"
  "inv_act (lr_inv h c) (lr_trap_inv h c) RAISE_ILLEGAL_INSTRUCTION"
  "inv_act (lr_inv h c) (lr_trap_inv h c) (trap_check_addr_alignment al ld addr)"
  by (simp_all add: inv_act_def RAISE_ILLEGAL_INSTRUCTION_def trap_check_addr_alignment_def lr_inv_weaker)

lemma lr_get_csr:
  assumes "lock_safe h env"
  shows "inv_act (lr_inv h c) (lr_trap_inv h c) (get_csr_value env r)"
proof -
  let ?ok = "\<lambda>m. inv_act (lr_inv h c) (lr_trap_inv h c) m"
  have "lr_inv h c s \<Longrightarrow> lr_inv h c (put_shared (snd (update_and_get_mtime env (get_shared s))) s)" for s
    using assms by (auto simp: lr_inv_def lock_safe_def free_of_def get_hart_id_def get_shared_def)
  then have t: "?ok (read_time env)"
    by (auto simp: inv_act_def read_time_def split: prod.split) (metis snd_conv)
  have cy: "?ok read_cycle"
    unfolding read_cycle_def compute_and_get_current_cycles_def by (intro inv_intros) simp
  have r: "?ok (read_table r)"
    unfolding read_table_def by (intro inv_intros lr_trap) (auto simp: inv_act_def split: sum.split)
  show ?thesis
    unfolding get_csr_value_def validate_csr_counter_read_access_rights_def
    by (intro inv_intros lr_trap t cy r)
qed

lemma lr_set_csr:
  assumes "drop_bit 10 (0xC00 AND r) \<noteq> (3 :: u32)"
  shows "inv_act (lr_inv h c) (lr_trap_inv h c) (set_csr_value r v :: ('d ISS, unit) act)"
proof (rule lr_act)
  have c: "mhartid (csrs (snd (set_csr_value r v s))) = mhartid (csrs s)" for s :: "'d ISS"
    using config_set_csr [OF assms, of v, where 'd = 'd] by (simp add: keeps_def hart_config_def)
  have k: "keeps (\<lambda>s :: 'd ISS. (lr_sc_counter s, bus_lock (world s))) (set_csr_value r v)"
  proof -
    have "keeps (\<lambda>s :: 'd ISS. (lr_sc_counter s, bus_lock (world s))) (write_table r v)"
      unfolding write_table_def by (intro keeps_intros) (simp add: keeps_def split: sum.split)
    then show ?thesis
      unfolding set_csr_value_def by (intro keeps_intros) (simp_all add: upd_csrs_def)
  qed
  show "keeps lr_view (set_csr_value r v :: ('d ISS, unit) act)"
    using c k by (simp add: keeps_def lr_view_def get_hart_id_def)
  show "preserves (free_of h) (set_csr_value r v :: ('d ISS, unit) act)"
    using c k by (simp add: keeps_def preserves_def free_of_def get_hart_id_def)
qed

text \<open>A store always gives the bus back.\<close>

lemma store_word_unlocks:
  assumes "store_word env a v s = (Ok (), s')"
  shows "\<not> bus_locked_by_me s'"
  using assms unfolding store_word_def store_data_def
  by (auto elim!: bindM_OkE dest: raw_store_unlocks)

lemma lr_sc:
  "inv_act (lr_inv h c) (lr_trap_inv h c) (exec_sc env)"
proof -
  have view: "keeps lr_view (atomic_store_conditional_word env a v)" for a v
    using atomic_keeps_view(4) [of env a v] hart_view_projs(6,16) unfolding keeps_def lr_view_def by blast
  have free: "\<not> bus_locked_by_me s'" if "atomic_store_conditional_word env a v s = (Ok b, s')" for a v s b s'
    using that
    by (auto simp: atomic_store_conditional_word_def seqM_def elim!: bindM_OkE split: if_splits
        dest: store_word_unlocks)
  have sc: "inv_act (lr_inv h c) (lr_trap_inv h c)
      (seqM (bindM (atomic_store_conditional_word env a v) (\<lambda>ok. put_rd (if ok then 0 else 1)))
        (modifyM (\<lambda>s. s\<lparr>lr_sc_counter := 0\<rparr>)))" for a v
  proof (rule inv_actI)
    fix s x s'
    assume "lr_inv h c s" and "seqM (bindM (atomic_store_conditional_word env a v)
        (\<lambda>ok. put_rd (if ok then 0 else 1))) (modifyM (\<lambda>s. s\<lparr>lr_sc_counter := 0\<rparr>)) s = (Ok x, s')"
    then obtain ok s1 where s1: "atomic_store_conditional_word env a v s = (Ok ok, s1)"
        "s' = (set_rd (if ok then 0 else 1) s1)\<lparr>lr_sc_counter := 0\<rparr>"
      by (auto simp: seqM_def put_rd_def elim!: bindM_OkE)
    from keepsD [OF view s1(1)] \<open>lr_inv h c s\<close> free [OF s1(1)] show "lr_inv h c s'"
      by (auto simp: s1(2) lr_inv_def lr_view_def free_of_def bus_locked_by_me_def get_hart_id_def set_rd_def)
  next
    fix s e w s'
    assume "lr_inv h c s" and "seqM (bindM (atomic_store_conditional_word env a v)
        (\<lambda>ok. put_rd (if ok then 0 else 1))) (modifyM (\<lambda>s. s\<lparr>lr_sc_counter := 0\<rparr>)) s = (Trap e w, s')"
    then have "atomic_store_conditional_word env a v s = (Trap e w, s')"
      by (auto simp: seqM_def put_rd_def elim!: bindM_TrapE)
    from keepsD [OF view this] \<open>lr_inv h c s\<close> show "lr_trap_inv h c s'"
      by (auto simp: lr_inv_def lr_trap_inv_def lr_view_def)
  qed
  show ?thesis
    unfolding exec_sc_def put_rd_def [of 1] by (intro inv_intros lr_trap sc) simp
qed

lemma lr_amo: "inv_act (lr_inv h c) (lr_trap_inv h c) (execute_amo env f)"
proof -
  let ?load = "\<lambda>a. amo_convert_trap (atomic_load_word env a)" and ?store = "atomic_store_word env"
  have kl: "keeps lr_view (?load a)" for a
    using keeps_convert [OF atomic_keeps_view(1), of env a] hart_view_projs(6,16)
    unfolding keeps_def lr_view_def by blast
  have ks: "keeps lr_view (?store a v)" for a v
    using atomic_keeps_view(2) [of env a v] hart_view_projs(6,16) unfolding keeps_def lr_view_def by blast
  have free: "\<not> bus_locked_by_me s'" if "?store a v s = (Ok x, s')" for a v s x s'
    using that by (auto simp: atomic_store_word_def seqM_def elim!: bindM_OkE dest: store_word_unlocks)
  have rmw: "inv_act (lr_inv h c) (lr_trap_inv h c) (bindM (?load a) (\<lambda>data.
      bindM (getsM (\<lambda>s. f data (x_rs2 s))) (\<lambda>val. seqM (?store a val) (put_rd data))))" (is "inv_act _ _ ?m") for a
  proof (rule inv_actI)
    fix s x s'
    assume s: "lr_inv h c s" "?m s = (Ok x, s')"
    then obtain d s1 v s2 where "?load a s = (Ok d, s1)" "?store a v s1 = (Ok (), s2)" "s' = set_rd d s2"
      by (auto simp: seqM_def put_rd_def elim!: bindM_OkE)
    with keepsD [OF kl] keepsD [OF ks] free s(1) show "lr_inv h c s'"
      by (fastforce simp: lr_inv_def lr_view_def free_of_def bus_locked_by_me_def get_hart_id_def set_rd_def)
  next
    fix s e w s'
    assume s: "lr_inv h c s" "?m s = (Trap e w, s')"
    then consider "?load a s = (Trap e w, s')"
      | d s1 v where "?load a s = (Ok d, s1)" "?store a v s1 = (Trap e w, s')"
      by (auto simp: seqM_def put_rd_def elim!: bindM_TrapE)
    then have "lr_view s' = lr_view s"
      by cases (simp_all add: keepsD [OF kl] keepsD [OF ks])
    with s(1) show "lr_trap_inv h c s'" by (auto simp: lr_inv_def lr_trap_inv_def lr_view_def)
  qed
  show ?thesis unfolding execute_amo_def by (intro inv_intros lr_trap rmw)
qed

lemma lr_invariant:
  assumes safe: "lock_safe h (env :: 'd env)"
  shows "hart_invariant (lr_inv h c) (lr_trap_inv h c) env"
proof unfold_locales
  let ?ok = "\<lambda>m. inv_act (lr_inv h c) (lr_trap_inv h c) m"
  have f: "?ok (\<lambda>s. load_instr env (ucast (pc s)) s)"
    using inv_state [of "lr_inv h c" "lr_trap_inv h c" "\<lambda>s. load_instr env (ucast (pc s))"]
      lr_view_act [OF load_instr_keeps_view free_load_instr [OF safe]] by blast
  show "?ok (fetch env)"
  proof (rule inv_actI)
    fix s x s'
    assume "lr_inv h c s" and "fetch env s = (Ok x, s')"
    with inv_act_Ok [OF f] show "lr_inv h c s'"
      by (auto simp: fetch_def split: prod.splits outcome.splits)
  next
    fix s e v s'
    assume "lr_inv h c s" and "fetch env s = (Trap e v, s')"
    then obtain s1 where s1: "load_instr env (ucast (pc s)) s = (Trap e v, s1)" "s' = s1\<lparr>op := UNDEF, instr := 0\<rparr>"
      by (auto simp: fetch_def split: prod.splits outcome.splits)
    from inv_act_Trap [OF f \<open>lr_inv h c s\<close> s1(1)] show "lr_trap_inv h c s'"
      by (simp add: s1(2) lr_trap_inv_def get_hart_id_def)
  qed
  show "?ok (load_data env n a)" "?ok (store_data env n a d)" for n a d
    by (rule lr_view_act [OF data_keeps_view(1) free_data(1) [OF safe]],
        rule lr_view_act [OF data_keeps_view(2) free_data(2) [OF safe]])
  show "?ok (return_from_trap_handler p)" for p
    unfolding return_from_trap_handler_def Let_def
    by (intro inv_intros) (auto elim!: lr_inv_cong [THEN iffD2, rotated -1])
  show "?ok flush_tlb"
    by (rule lr_view_act [OF flush_tlb_keeps_view]) (auto simp: flush_tlb_def intro!: free_intros)
  show "?ok (exec_ecall env)"
  proof (cases "sys env")
    case (Some m)
    with safe have "keeps lr_view m" "preserves (free_of h) m" by (auto simp: lock_safe_def)
    then have "?ok m" by (rule lr_act)
    with Some show ?thesis by (simp add: exec_ecall_def)
  qed (auto simp: exec_ecall_def intro!: inv_intros lr_trap)
  have w: "?ok (\<lambda>s. case wait_wfi_event env (get_shared s) of None \<Rightarrow> (Blocked, s) | Some w \<Rightarrow> (Ok (), put_shared w s))"
  proof -
    have "lr_inv h c (put_shared w s)" if "lr_inv h c s" "wait_wfi_event env (get_shared s) = Some w" for w s
      using that(1) lock_safeD(1) [OF safe _ that(2)]
      by (auto simp: lr_inv_def free_of_def get_hart_id_def get_shared_def)
    then show ?thesis by (simp add: inv_act_def split: option.split)
  qed
  show "?ok (exec_wfi env)"
    unfolding exec_wfi_def
    by (intro inv_intros lr_trap w)
      (simp add: lr_inv_def release_lr_sc_reservation_def get_hart_id_def)
qed (simp_all add: lr_inv_weaker lr_get_csr [OF safe] lr_set_csr lr_sc lr_amo)

section \<open>The reservation during a step\<close>

text \<open>After the instruction the counter may also be 17, if it was idle and an \<open>LR\<close> was executed.\<close>

definition lr_step_inv :: "u32 \<Rightarrow> int \<Rightarrow> 'd ISS \<Rightarrow> bool" where
  "lr_step_inv h c s \<longleftrightarrow> get_hart_id s = h \<and>
     (lr_sc_counter s = c \<or> lr_sc_counter s = 0 \<or> c = 0 \<and> lr_sc_counter s = 17) \<and>
     (lr_sc_counter s = 0 \<longrightarrow> free_of h s)"

lemma lr_view_view: "keeps hart_view m \<Longrightarrow> keeps lr_view m"
  using hart_view_projs(6,16) unfolding keeps_def lr_view_def by blast

lemma lr_LR:
  assumes "exec_op env (RV32A LR_W) s = (r, s')" and "get_hart_id s = h" and "lr_sc_counter s = c"
  shows "r = Ok x \<Longrightarrow> lr_step_inv h c s'" and "r = Trap e v \<Longrightarrow> lr_trap_inv h c s'"
proof -
  let ?m = "bindM (getsM x_rs1) (\<lambda>addr. seqM (trap_check_addr_alignment 4 True addr)
      (bindM (atomic_load_reserved_word env (ucast addr)) put_rd))"
  have p: "keeps lr_view (put_rd v)" for v
    by (simp add: keeps_def put_rd_def lr_view_def set_rd_def get_hart_id_def)
  have k: "keeps lr_view (seqM (REQUIRE_ISA A_ISA_EXT) ?m)"
    by (intro keeps_intros lr_view_view [OF atomic_keeps_view(3)] p)
  let ?set = "\<lambda>s. if lr_sc_counter s = 0 then s\<lparr>lr_sc_counter := 17\<rparr> else s"
  have "exec_op env (RV32A LR_W) s = seqM (seqM (REQUIRE_ISA A_ISA_EXT) ?m) (modifyM ?set) s"
    unfolding exec_op_def exec_rv32a_def exec_lr_def
    by (simp add: seqM_def bindM_assoc)
  then have *: "seqM (seqM (REQUIRE_ISA A_ISA_EXT) ?m) (modifyM ?set) s = (r, s')"
    using assms(1) by simp
  show "lr_step_inv h c s'" if "r = Ok x"
  proof -
    from * that obtain y s1 where "seqM (REQUIRE_ISA A_ISA_EXT) ?m s = (Ok y, s1)" "s' = ?set s1"
      by (auto simp: seqM_def [of "seqM (REQUIRE_ISA A_ISA_EXT) ?m"] elim!: bindM_OkE)
    with keepsD [OF k] assms(2,3) show ?thesis
      by (auto simp: lr_step_inv_def lr_view_def get_hart_id_def)
  qed
  show "lr_trap_inv h c s'" if "r = Trap e v"
  proof -
    from * that have "seqM (REQUIRE_ISA A_ISA_EXT) ?m s = (Trap e v, s')"
      by (auto simp: seqM_def [of "seqM (REQUIRE_ISA A_ISA_EXT) ?m"] elim!: bindM_TrapE)
    with keepsD [OF k] assms(2,3) show ?thesis by (auto simp: lr_trap_inv_def lr_view_def)
  qed
qed

lemma seqM_assoc: "seqM (seqM a b) k = seqM a (seqM b k)"
  by (simp add: seqM_def bindM_assoc)

lemma lr_decode: "keeps lr_view (fetch env)" "keeps lr_view decode_step"
proof -
  have f: "lr_view (snd (load_instr env a s)) = lr_view s" for a s
    using lr_view_view [OF load_instr_keeps_view [of env a]] by (simp add: keeps_def)
  have u: "lr_view (s\<lparr>op := m, instr := x\<rparr>) = lr_view s" "lr_view (s\<lparr>instr := x\<rparr>) = lr_view s"
    "lr_view (s\<lparr>op := m\<rparr>) = lr_view s" for s :: "'a ISS" and m x
    by (simp_all add: lr_view_def get_hart_id_def)
  show "keeps lr_view (fetch env)"
    unfolding keeps_def
  proof
    fix s :: "'a ISS"
    show "lr_view (snd (fetch env s)) = lr_view s"
      using f [of "ucast (pc s)" s]
      by (cases "load_instr env (ucast (pc s)) s"; cases "fst (load_instr env (ucast (pc s)) s)")
        (simp_all add: fetch_def u)
  qed
  show "keeps lr_view decode_step"
    unfolding decode_step_def
    by (intro keeps_bind [OF keeps_basic(2)])
      (auto split: sum.split intro!: keeps_intros simp: lr_view_def get_hart_id_def)
qed

lemma lr_exec_step:
  assumes safe: "lock_safe h env" and s: "get_hart_id s = h" "lr_sc_counter s = c" "c = 0 \<Longrightarrow> free_of h s"
    and e: "exec_step env s = (r, s')"
  shows "r = Ok x \<Longrightarrow> lr_step_inv h c s'" and "r = Trap e v \<Longrightarrow> lr_trap_inv h c s'"
proof -
  define pre where "pre = seqs [assertM (\<lambda>s. pc s AND NOT (pc_alignment_mask s) = 0), fetch env, decode_step]"
  have eq: "exec_step env = bindM pre (\<lambda>_. bindM (getsM op) (exec_op env))"
    unfolding exec_step_def pre_def seqM_def [symmetric] by (simp add: seqM_assoc)
  note inv = lr_invariant [OF safe, of c]
  have i: "inv_act (lr_inv h c) (lr_trap_inv h c) pre"
    unfolding pre_def by (intro inv_intros hart_invariant.inv_fetch [OF inv] hart_invariant.inv_decode_step [OF inv])
  have k: "keeps lr_view pre" unfolding pre_def by (intro keeps_intros lr_decode)
  have s0: "lr_inv h c s" using s by (auto simp: lr_inv_def)
  have op: "inv_act (lr_inv h c) (lr_trap_inv h c) (exec_op env m)" if "m \<noteq> RV32A LR_W" for m
    by (rule hart_invariant.inv_exec_op_not_LR [OF inv that])
  have weak: "lr_inv h c t \<Longrightarrow> lr_step_inv h c t" for t by (auto simp: lr_inv_def lr_step_inv_def)
  show "lr_step_inv h c s'" if "r = Ok x"
  proof -
    from e that obtain y s1 where s1: "pre s = (Ok y, s1)" "exec_op env (op s1) s1 = (Ok x, s')"
      unfolding eq by (auto elim!: bindM_OkE)
    from keepsD [OF k s1(1)] s have v: "get_hart_id s1 = h" "lr_sc_counter s1 = c" by (simp_all add: lr_view_def)
    show ?thesis
    proof (cases "op s1 = RV32A LR_W")
      case True
      with s1(2) v show ?thesis using lr_LR(1) by metis
    next
      case False
      from inv_act_Ok [OF op [OF False] inv_act_Ok [OF i s0 s1(1)] s1(2)] show ?thesis by (rule weak)
    qed
  qed
  show "lr_trap_inv h c s'" if "r = Trap e v"
  proof -
    from e that consider "pre s = (Trap e v, s')"
      | y s1 where "pre s = (Ok y, s1)" "exec_op env (op s1) s1 = (Trap e v, s')"
      unfolding eq by (auto elim!: bindM_TrapE)
    then show ?thesis
    proof cases
      case 1
      then show ?thesis by (rule inv_act_Trap [OF i s0])
    next
      case 2
      from keepsD [OF k 2(1)] s have v: "get_hart_id s1 = h" "lr_sc_counter s1 = c" by (simp_all add: lr_view_def)
      show ?thesis
      proof (cases "op s1 = RV32A LR_W")
        case True
        with 2(2) v show ?thesis using lr_LR(2) by metis
      next
        case False
        from inv_act_Trap [OF op [OF False] inv_act_Ok [OF i s0 2(1)] 2(2)] show ?thesis .
      qed
    qed
  qed
qed

lemma switch_Ok:
  assumes "switch_to_trap_handler m s = (Ok x, s')"
  shows "get_hart_id s' = get_hart_id s" "lr_sc_counter s' = 0" "free_of (get_hart_id s) s'"
proof -
  have "m = MachineMode \<or> m = SupervisorMode \<or> m = UserMode"
    using assms by (auto simp: switch_to_trap_handler_def split: if_splits)
  from switch_eq [OF this, of s] assms have s': "s' = handler_state m s" by simp
  show h: "get_hart_id s' = get_hart_id s"
    using keepsD [OF config_atomics(5) assms] by (simp add: hart_config_def get_hart_id_def)
  show "lr_sc_counter s' = 0" "free_of (get_hart_id s) s'"
    using h handler_locks(1) [of m s] by (simp_all add: s' handler_locks free_of_def bus_locked_by_me_def)
qed

lemma handled:
  assumes "bindM p switch_to_trap_handler s = (Ok x, s')" and "keeps get_hart_id p"
  shows "lr_step_inv (get_hart_id s) c s'"
proof -
  from assms(1) obtain m s1 where "p s = (Ok m, s1)" "switch_to_trap_handler m s1 = (Ok x, s')"
    by (elim bindM_OkE)
  with switch_Ok keepsD [OF assms(2)] show ?thesis by (fastforce simp: lr_step_inv_def)
qed

lemma config_hart: "keeps hart_config m \<Longrightarrow> keeps get_hart_id m"
  by (simp add: keeps_def hart_config_def get_hart_id_def)

lemma hart_keeps:
  "keeps get_hart_id (prepare_trap e v)" "keeps get_hart_id (prepare_interrupt i)" "keeps get_hart_id take_interrupt"
proof -
  have "keeps hart_config take_interrupt"
    unfolding take_interrupt_def by (intro keeps_intros config_atomics)
  then show "keeps get_hart_id take_interrupt" by (rule config_hart)
qed (rule config_hart config_atomics)+

lemma lr_caught:
  assumes safe: "lock_safe h env" and s: "get_hart_id s = h" "lr_sc_counter s = c" "c = 0 \<Longrightarrow> free_of h s"
    and e: "catch_trap (seqM (exec_step env) take_interrupt) s = (Ok x, s')"
  shows "lr_step_inv h c s'"
proof -
  have int: "lr_step_inv h c t'" if "lr_step_inv h c t" "take_interrupt t = (Ok y, t')" for t y t'
  proof (cases "target_mode (compute_pending_interrupts t) = NoneMode")
    case False
    let ?x = "compute_pending_interrupts t"
    have "bindM (\<lambda>s. bindM (prepare_interrupt ?x) (\<lambda>_. ret (target_mode ?x)) s) switch_to_trap_handler t = (Ok y, t')"
      using that(2) False by (simp add: take_interrupt_def seqM_def bindM_assoc)
    from handled [OF this, of c] that(1) show ?thesis
      by (simp add: lr_step_inv_def keeps_bind hart_keeps keeps_basic)
  qed (use that in \<open>simp add: take_interrupt_def\<close>)
  consider "seqM (exec_step env) take_interrupt s = (Ok x, s')"
    | t v s1 where "seqM (exec_step env) take_interrupt s = (Trap t v, s1)"
        "bindM (prepare_trap t v) switch_to_trap_handler s1 = (Ok x, s')"
    using e by (auto simp: catch_trap_def split: prod.splits outcome.splits)
  then show ?thesis
  proof cases
    case 1
    then obtain y s1 where "exec_step env s = (Ok y, s1)" "take_interrupt s1 = (Ok x, s')"
      by (auto simp: seqM_def elim!: bindM_OkE)
    with lr_exec_step(1) [OF safe s] int show ?thesis by blast
  next
    case (2 t v s1)
    from 2(1) consider "exec_step env s = (Trap t v, s1)"
      | y s2 where "exec_step env s = (Ok y, s2)" "take_interrupt s2 = (Trap t v, s1)"
      by (auto simp: seqM_def elim!: bindM_TrapE)
    then have "get_hart_id s1 = h"
    proof cases
      case 1
      from lr_exec_step(2) [OF safe s this refl] show ?thesis by (simp add: lr_trap_inv_def)
    next
      case 2
      from lr_exec_step(1) [OF safe s 2(1) refl] keepsD [OF hart_keeps(3) 2(2)] show ?thesis
        by (simp add: lr_step_inv_def)
    qed
    with handled [OF 2(2) hart_keeps(1), of c] show ?thesis by simp
  qed
qed

lemma tick_lr:
  assumes safe: "lock_safe h env" and s: "lr_step_inv h c s" and "0 \<le> c"
  shows "let s' = tick_time env m (tick_reservation (count_instr s)) in
    get_hart_id s' = h \<and> (lr_sc_counter s' = 0 \<longrightarrow> free_of h s') \<and>
    lr_sc_counter s' = (if lr_sc_counter s = 0 then 0 else lr_sc_counter s - 1)"
proof -
  have count: "lr_step_inv h c (count_instr s)" "lr_sc_counter (count_instr s) = lr_sc_counter s"
    using s by (simp_all add: lr_step_inv_def count_instr_def Let_def upd_csrs_def free_of_def get_hart_id_def)
  let ?r = "tick_reservation (count_instr s)"
  have r: "get_hart_id ?r = h" "lr_sc_counter ?r = 0 \<longrightarrow> free_of h ?r"
    "lr_sc_counter ?r = (if lr_sc_counter s = 0 then 0 else lr_sc_counter s - 1)"
    using count by (auto simp: tick_reservation_def lr_step_inv_def release_lr_sc_reservation_def get_hart_id_def)
  have "free_of h (sync_act env t)" if "free_of h t" for t
    using that lock_safeD(4) [OF safe, of "get_shared t" "quantum_keeper t"]
    by (simp add: sync_act_def free_of_def get_hart_id_def get_shared_def)
  moreover have "get_hart_id (sync_act env t) = get_hart_id t" "lr_sc_counter (sync_act env t) = lr_sc_counter t" for t
    by (simp_all add: sync_act_def get_hart_id_def)
  ultimately show ?thesis
    using r by (simp add: tick_time_def Let_def get_hart_id_def free_of_def)
qed

section \<open>The reservation between steps\<close>

definition lock_inv :: "u32 \<Rightarrow> 'd ISS \<Rightarrow> bool" where
  "lock_inv h s \<longleftrightarrow> get_hart_id s = h \<and> 0 \<le> lr_sc_counter s \<and> lr_sc_counter s \<le> 16 \<and>
     (lr_sc_counter s = 0 \<longrightarrow> \<not> bus_locked_by_me s)"

definition at_breakpoint :: "'d ISS \<Rightarrow> bool" where
  "at_breakpoint s \<longleftrightarrow> debug_mode s \<and> pc s \<in> breakpoints s"

lemma run_step_lock:
  assumes safe: "lock_safe h env" and i: "lock_inv h s" and e: "run_step env s = (Ok x, s')"
  shows "lock_inv h s'" and "\<not> at_breakpoint s \<Longrightarrow> 0 < lr_sc_counter s \<Longrightarrow> lr_sc_counter s' < lr_sc_counter s"
proof -
  let ?c = "lr_sc_counter s"
  have "lock_inv h s' \<and> (\<not> at_breakpoint s \<longrightarrow> 0 < ?c \<longrightarrow> lr_sc_counter s' < ?c)"
  proof (cases "at_breakpoint s")
    case True
    with e have "s' = s\<lparr>status := HitBreakpoint\<rparr>"
      by (auto simp: run_step_def at_breakpoint_def seqM_def assertM_def elim!: bindM_OkE split: if_splits)
    with i True show ?thesis by (auto simp: lock_inv_def get_hart_id_def bus_locked_by_me_def)
  next
    case False
    with e have "run_step_body env s = (Ok x, s')"
      by (auto simp: run_step_def at_breakpoint_def seqM_def assertM_def elim!: bindM_OkE split: if_splits)
    then obtain y s1 where s1: "catch_trap (seqM (exec_step env) take_interrupt) (s\<lparr>last_pc := pc s\<rparr>) = (Ok y, s1)"
        "performance_and_sync_update env (op s1) (finished s1) = (Ok x, s')"
      unfolding run_step_body_eq by (elim bindM_OkE)
    have "lr_step_inv h ?c s1"
      by (rule lr_caught [OF safe _ _ _ s1(1)])
        (use i in \<open>auto simp: lock_inv_def free_of_def get_hart_id_def bus_locked_by_me_def\<close>)
    then have f: "lr_step_inv h ?c (finished s1)"
      by (simp add: lr_step_inv_def free_of_def get_hart_id_def)
    have c: "0 \<le> ?c" "?c \<le> 16" using i by (simp_all add: lock_inv_def)
    have "0 \<le> lr_sc_counter (finished s1)" using f c by (auto simp: lr_step_inv_def)
    from perf_eq [OF this, of env "op s1"] s1(2)
    have s': "s' = tick_time env (op s1) (tick_reservation (count_instr (finished s1)))" by simp
    show ?thesis
      using tick_lr [OF safe f c(1), of "op s1"] f c
      by (auto simp: Let_def s' [symmetric] lock_inv_def lr_step_inv_def free_of_def bus_locked_by_me_def)
  qed
  then show "lock_inv h s'" "\<not> at_breakpoint s \<Longrightarrow> 0 < ?c \<Longrightarrow> lr_sc_counter s' < ?c" by blast+
qed

text \<open>
  C4. In every reachable state the reservation counter is between 0 and 16, and a hart whose counter
  is zero does not hold the bus lock: neither an AMO, a failing \<open>SC\<close>, a trap in the middle of an
  atomic access, nor an interrupt leaves the bus locked.
\<close>

theorem reachable_lock:
  assumes "reachable env s0 s" and "lock_safe h env" and "lock_inv h s0"
  shows "lock_inv h s"
  using assms(1,3)
proof (rule reachable_invariant)
  show "run_step env s = (Ok (), s') \<Longrightarrow> lock_inv h s \<Longrightarrow> lock_inv h s'" for s s'
    by (rule run_step_lock(1) [OF assms(2)])
qed (auto simp: lock_inv_def get_hart_id_def bus_locked_by_me_def upd_csrs_def)

lemma lock_inv_example: "lock_inv 0 (hart_example ws)"
  by (simp add: lock_inv_def get_hart_id_def bus_locked_by_me_def csr_table_init_def BusLock_init_def is_locked_by_def)

lemma lock_safe_example: "lock_safe 0 env_example"
  by (simp add: lock_safe_def env_example_def)

theorem reachable_lock_witness:
  "\<exists>s. reachable env_example (hart_example [0x00500093]) s \<and> pc s = 0x80000004 \<and> lock_inv 0 s"
proof -
  let ?s0 = "hart_example [0x00500093]"
  from step_example obtain s where s: "run_step env_example ?s0 = (Ok (), s)" "pc s = 0x80000004" by blast
  have r: "reachable env_example ?s0 s" by (rule reachable.step [OF reachable.start s(1)])
  from reachable_lock [OF r lock_safe_example lock_inv_example] r s(2) show ?thesis by blast
qed

section \<open>Release of the bus\<close>

primrec run_steps :: "'d env \<Rightarrow> nat \<Rightarrow> ('d ISS, unit) act" where
  "run_steps env 0 = ret ()"
| "run_steps env (Suc n) = seqM (run_steps env n) (run_step env)"

text \<open>While the hart holds the lock, the counter bounds the number of further steps.\<close>

lemma held_steps:
  assumes safe: "lock_safe h env" and "\<And>k. sys_keeps (\<lambda>s. hart_config s = k) env"
    and "lock_inv h s" and "\<not> debug_mode s"
    and "\<And>k. k \<le> n \<Longrightarrow> \<exists>t. run_steps env k s = (Ok (), t) \<and> bus_locked_by_me t"
  shows "\<exists>t. run_steps env n s = (Ok (), t) \<and> lock_inv h t \<and> \<not> debug_mode t \<and>
    lr_sc_counter t + int n \<le> lr_sc_counter s"
  using assms(5)
proof (induction n)
  case 0
  then show ?case using assms(3,4) by simp
next
  case (Suc n)
  then obtain t where t: "run_steps env n s = (Ok (), t)" "lock_inv h t" "\<not> debug_mode t"
      "lr_sc_counter t + int n \<le> lr_sc_counter s"
    by (metis le_SucI)
  from Suc.prems [of n] t(1) have "bus_locked_by_me t" by simp
  with t(2) have pos: "0 < lr_sc_counter t" by (auto simp: lock_inv_def)
  from Suc.prems [of "Suc n"] obtain t' where t': "run_steps env (Suc n) s = (Ok (), t')" by blast
  with t(1) have step: "run_step env t = (Ok (), t')" by (simp add: seqM_apply)
  have "hart_config t' = hart_config t"
    by (rule hart_step_invariant.inv_run_step [OF config_step_invariant [OF assms(2)] step]) simp
  then have "\<not> debug_mode t'" using t(3) by (simp add: hart_config_def)
  moreover have "lr_sc_counter t' < lr_sc_counter t"
    using run_step_lock(2) [OF safe t(2) step] pos t(3) by (simp add: at_breakpoint_def)
  ultimately show ?case
    using t' run_step_lock(1) [OF safe t(2) step] t(4) by auto
qed

text \<open>
  C5. A hart that holds the bus lock gives it back: among any sixteen consecutive steps that return
  there is one after which the hart does not hold the lock, whatever instructions it executes
  (further \<open>LR\<close>s included), so another hart waiting for the bus gets its turn.
\<close>

theorem lock_released:
  assumes "lock_safe h env" and "\<And>k. sys_keeps (\<lambda>s. hart_config s = k) env"
    and "lock_inv h s" and "\<not> debug_mode s"
    and "\<And>k. k \<le> 16 \<Longrightarrow> \<exists>t. run_steps env k s = (Ok (), t)"
  shows "\<exists>k t. k \<le> 16 \<and> run_steps env k s = (Ok (), t) \<and> \<not> bus_locked_by_me t"
proof (rule ccontr)
  assume "\<not> ?thesis"
  with assms(5) have held: "\<And>k. k \<le> 16 \<Longrightarrow> \<exists>t. run_steps env k s = (Ok (), t) \<and> bus_locked_by_me t" by blast
  from held_steps [OF assms(1-4), of 16] held obtain t where t: "run_steps env 16 s = (Ok (), t)" "lock_inv h t"
      "lr_sc_counter t + 16 \<le> lr_sc_counter s" by auto
  with assms(3) have "lr_sc_counter t = 0" by (simp add: lock_inv_def)
  with t(1,2) \<open>\<not> ?thesis\<close> show False by (auto simp: lock_inv_def)
qed

text \<open>The example hart spinning in place (\<open>JAL x0, 0\<close>).\<close>

definition spinning :: "unit ISS \<Rightarrow> bool" where
  "spinning s \<longleftrightarrow> fetches 0x6f s \<and> hart_wf s \<and> mie (csrs s) AND mip (csrs s) = 0 \<and> 0 \<le> lr_sc_counter s \<and>
     has_C_extension (misa (csrs s)) \<and> pc s AND 1 = 0"

lemma decode_spin:
  "decode_normal RV32 0x6f = RV32I JAL" "\<not> instr_is_compressed 0x6f" "instr_rd 0x6f = 0" "instr_J_imm 0x6f = 0"
  by code_simp+

lemma spin_step: "spinning s \<Longrightarrow> \<exists>s'. run_step env_example s = (Ok (), s') \<and> spinning s'"
proof -
  assume s: "spinning s"
  let ?s1 = "set_reg 0 (pc s + 4) ((fetched 0x6f s)\<lparr>pc := pc s\<rparr>)"
  let ?s' = "tick_time env_example (RV32I JAL) (tick_reservation (count_instr (finished ?s1)))"
  have "trap_check_pc_alignment ((fetched 0x6f s)\<lparr>pc := pc s\<rparr>) = (Ok (), (fetched 0x6f s)\<lparr>pc := pc s\<rparr>)"
    using s by (simp add: trap_check_pc_alignment_def seqM_assert_apply whenM_def spinning_def)
  then have "exec_op env_example (decode_normal RV32 0x6f) (fetched 0x6f s) = (Ok (), ?s1)"
    by (simp add: decode_spin exec_op_def exec_rv32i_def exec_jump_def seqM_apply put_rd_def set_rd_def RD_def)
  from run_step_fetched [OF _ decode_spin(2) this] s
  have "run_step env_example s = performance_and_sync_update env_example (RV32I JAL) (finished ?s1)"
    by (simp add: spinning_def decode_spin)
  also have "\<dots> = (Ok (), ?s')" using s by (intro perf_eq) (simp add: spinning_def)
  finally have "run_step env_example s = (Ok (), ?s')" .
  moreover have "spinning ?s'"
    using s unfolding spinning_def fetches_def untranslated_def
    by (auto simp: tick_time_def env_example_def Let_def tick_reservation_def count_instr_def
        release_lr_sc_reservation_def atomic_unlock_def fetched_def finished_def set_reg_def upd_csrs_def
        access_mode_def has_access_def bus_locked_by_me_def get_hart_id_def pc_alignment_mask_def reg_def
        hart_wf_def is_locked_def is_locked_by_def unlock_def split: if_splits)
  ultimately show ?thesis by blast
qed

lemma spin_steps: "spinning s \<Longrightarrow> \<exists>t. run_steps env_example n s = (Ok (), t) \<and> spinning t"
proof (induction n)
  case (Suc n)
  then obtain t where "run_steps env_example n s = (Ok (), t)" "spinning t" by blast
  with spin_step [of t] show ?case by (auto simp: seqM_apply)
qed simp

definition spin_example :: "unit ISS" where
  "spin_example = (hart_example [0x6f])\<lparr>lr_sc_counter := 16,
     world := \<lparr>bus_lock = \<lparr>locked = True, owner = 0\<rparr>, host = host_example [0x6f], devs = ()\<rparr>\<rparr>"

theorem lock_released_witness:
  "bus_locked_by_me spin_example \<and>
   (\<exists>k t. k \<le> 16 \<and> run_steps env_example k spin_example = (Ok (), t) \<and> \<not> bus_locked_by_me t)"
proof
  show "bus_locked_by_me spin_example"
    by (simp add: spin_example_def bus_locked_by_me_def is_locked_by_def get_hart_id_def csr_table_init_def)
  have p: "phys_load [dmi_example] (host_example [0x6f]) 4 0x80000000 = Some (ucast (0x6f :: u32))" by code_simp
  have "fetches 0x6f spin_example"
    using fetches_example [OF p]
    by (simp add: fetches_def untranslated_def has_access_def spin_example_def bus_locked_by_me_def get_hart_id_def
        is_locked_by_def csr_table_init_def pc_alignment_mask_def reg_def)
  then have spin: "spinning spin_example"
    using hart_example_wf [of "[0x6f]"] misa_init_extensions(1)
    by (simp add: spinning_def spin_example_def hart_wf_def csr_table_init_def)
  show "\<exists>k t. k \<le> 16 \<and> run_steps env_example k spin_example = (Ok (), t) \<and> \<not> bus_locked_by_me t"
  proof (rule lock_released [OF lock_safe_example])
    show "sys_keeps (\<lambda>s. hart_config s = k) env_example" for k by (simp add: sys_keeps_def env_example_def)
    show "lock_inv 0 spin_example"
      by (simp add: lock_inv_def spin_example_def get_hart_id_def csr_table_init_def)
    show "\<not> debug_mode spin_example" by (simp add: spin_example_def)
    show "\<exists>t. run_steps env_example k spin_example = (Ok (), t)" for k using spin_steps [OF spin] by blast
  qed
qed

end
