(* ===== verification/Exec_Props.thy ===== *)
theory Exec_Props
  imports Iss_Exec Example
begin

text \<open>
  Properties of single instructions of the RV32 hart: integer multiplication and division against
  arithmetic on the integers, access control of the CSR instructions, and the registers that are
  views of another register.
\<close>

unbundle bit_operations_syntax

section \<open>Multiplication and division\<close>

lemma high_word:
  fixes p :: u64
  shows "(ucast (drop_bit 32 (p AND 0xFFFFFFFF00000000)) :: u32) = ucast (drop_bit 32 p)"
    and "(ucast (p AND 0xFFFFFFFF) :: u32) = ucast p"
proof -
  have m: "(0xFFFFFFFF00000000 :: u64) = push_bit 32 (mask 32)" "(0xFFFFFFFF :: u64) = mask 32"
    by (simp_all add: mask_eq_exp_minus_1 push_bit_eq_mult)
  show "(ucast (drop_bit 32 (p AND 0xFFFFFFFF00000000)) :: u32) = ucast (drop_bit 32 p)"
    "(ucast (p AND 0xFFFFFFFF) :: u32) = ucast p"
    unfolding m by (rule bit_word_eqI; auto simp: bit_simps)+
qed

lemma word_of_int_high:
  fixes i :: int
  shows "(ucast (word_of_int i :: u64) :: u32) = word_of_int i"
    and "(ucast (drop_bit 32 (word_of_int i :: u64)) :: u32) = word_of_int (i div 2 ^ 32)"
  unfolding drop_bit_eq_div [of 32 i, symmetric]
  by (rule bit_word_eqI; simp add: bit_simps bit_word_of_int_iff)+

lemma muldiv_word_of_int:
  "muldiv_result MUL a b = word_of_int (sint a * sint b)"
  "muldiv_result MULH a b = word_of_int (sint a * sint b div 2 ^ 32)"
  "muldiv_result MULHU a b = word_of_int (uint a * uint b div 2 ^ 32)"
  "muldiv_result MULHSU a b = word_of_int (sint a * uint b div 2 ^ 32)"
proof -
  have s: "(scast x :: u64) = word_of_int (sint x)" and u: "(ucast x :: u64) = word_of_int (uint x)" for x :: u32
    by simp_all
  show "muldiv_result MUL a b = word_of_int (sint a * sint b)"
    "muldiv_result MULH a b = word_of_int (sint a * sint b div 2 ^ 32)"
    "muldiv_result MULHU a b = word_of_int (uint a * uint b div 2 ^ 32)"
    "muldiv_result MULHSU a b = word_of_int (sint a * uint b div 2 ^ 32)"
    unfolding muldiv_result_def rv32m.case high_word s u wi_hom_mult word_of_int_high
    by (rule refl)+
qed

lemma product_bounds:
  fixes a b :: u32
  shows "- (2 ^ 31) \<le> sint a * sint b div 2 ^ 32" "sint a * sint b div 2 ^ 32 < 2 ^ 31"
    "- (2 ^ 31) \<le> sint a * uint b div 2 ^ 32" "sint a * uint b div 2 ^ 32 < 2 ^ 31"
    "0 \<le> uint a * uint b div 2 ^ 32" "uint a * uint b div 2 ^ 32 < 2 ^ 32"
proof -
  have a: "- (2 ^ 31) \<le> sint a" "sint a < 2 ^ 31" "0 \<le> uint a" "uint a < 2 ^ 32"
    and b: "- (2 ^ 31) \<le> sint b" "sint b < 2 ^ 31" "0 \<le> uint b" "uint b < 2 ^ 32"
    using sint_ge [of a] sint_lt [of a] sint_ge [of b] sint_lt [of b] uint_bounded [of a] uint_bounded [of b]
    by simp_all
  have "\<bar>sint a\<bar> * \<bar>sint b\<bar> \<le> 2 ^ 31 * 2 ^ 31" using a b by (intro mult_mono) auto
  then have ss: "\<bar>sint a * sint b\<bar> \<le> 2 ^ 62" by (simp add: abs_mult)
  then show "- (2 ^ 31) \<le> sint a * sint b div 2 ^ 32" "sint a * sint b div 2 ^ 32 < 2 ^ 31" by auto
  have "\<bar>sint a\<bar> * uint b \<le> 2 ^ 31 * (2 ^ 32 - 1)" using a b by (intro mult_mono) auto
  then have su: "\<bar>sint a * uint b\<bar> \<le> 2 ^ 31 * (2 ^ 32 - 1)" using b by (simp add: abs_mult)
  then show "- (2 ^ 31) \<le> sint a * uint b div 2 ^ 32" "sint a * uint b div 2 ^ 32 < 2 ^ 31" by auto
  have "uint a * uint b \<le> (2 ^ 32 - 1) * (2 ^ 32 - 1)" using a b by (intro mult_mono) auto
  then show "uint a * uint b div 2 ^ 32 < 2 ^ 32" by auto
  show "0 \<le> uint a * uint b div 2 ^ 32" by (simp add: pos_imp_zdiv_nonneg_iff)
qed

lemma sint_of_int_bounded: "- (2 ^ 31) \<le> i \<Longrightarrow> i < 2 ^ 31 \<Longrightarrow> sint (word_of_int i :: u32) = i"
  by (simp add: signed_of_int signed_take_bit_int_eq_self)

text \<open>
  The multiplication instructions compute the low word and the signed, unsigned and mixed high
  words of the exact product.
\<close>

theorem mul_exact:
  "uint (muldiv_result MUL a b) = (sint a * sint b) mod 2 ^ 32 \<and>
   sint (muldiv_result MULH a b) = (sint a * sint b) div 2 ^ 32 \<and>
   uint (muldiv_result MULHU a b) = (uint a * uint b) div 2 ^ 32 \<and>
   sint (muldiv_result MULHSU a b) = (sint a * uint b) div 2 ^ 32"
proof (intro conjI)
  show "uint (muldiv_result MUL a b) = (sint a * sint b) mod 2 ^ 32"
    unfolding muldiv_word_of_int uint_word_of_int by simp
qed (unfold muldiv_word_of_int, insert product_bounds [of a b],
    simp_all add: sint_of_int_bounded uint_word_of_int)

lemma sdiv_smod_word:
  fixes a b :: u32
  shows "word_of_int (sint a sdiv sint b) * b + word_of_int (sint a smod sint b) = a"
proof -
  have "word_of_int (sint a sdiv sint b * sint b + sint a smod sint b) = (word_of_int (sint a) :: u32)"
    by (simp only: sdiv_mult_smod_eq)
  then show ?thesis by simp
qed

text \<open>
  Quotient and remainder always recompose the dividend, also for a zero divisor and for the
  overflow \<open>REG_MIN / -1\<close>, and for a divisor other than zero the remainder is smaller than it.
\<close>

theorem div_rem_recompose:
  "muldiv_result DIV a b * b + muldiv_result REM a b = a \<and>
   muldiv_result DIVU a b * b + muldiv_result REMU a b = a \<and>
   (b = 0 \<or> (\<bar>sint (muldiv_result REM a b)\<bar> < \<bar>sint b\<bar> \<and> muldiv_result REMU a b < b))"
proof (intro conjI)
  show "muldiv_result DIV a b * b + muldiv_result REM a b = a"
    using sdiv_smod_word [of a b] by (simp add: muldiv_result_def)
  show "muldiv_result DIVU a b * b + muldiv_result REMU a b = a"
    using div_mult_mod_eq [of a b] by (simp add: muldiv_result_def)
  have "\<bar>sint (muldiv_result REM a b)\<bar> < \<bar>sint b\<bar>" if "b \<noteq> 0"
  proof -
    have n: "sint b \<noteq> 0" using that by (simp add: signed_eq_0_iff)
    from smod_int_range [OF n, of "sint a"]
    have i: "\<bar>sint a smod sint b\<bar> < \<bar>sint b\<bar>" by auto
    moreover have "\<bar>sint b\<bar> \<le> 2 ^ 31" using sint_ge [of b] sint_lt [of b] by auto
    ultimately have "sint (word_of_int (sint a smod sint b) :: u32) = sint a smod sint b"
      by (intro sint_of_int_bounded) auto
    with i n that show ?thesis by (auto simp: muldiv_result_def)
  qed
  moreover have "muldiv_result REMU a b < b" if "b \<noteq> 0"
    using that by (simp add: muldiv_result_def word_mod_less_divisor word_gt_0)
  ultimately show "b = 0 \<or> (\<bar>sint (muldiv_result REM a b)\<bar> < \<bar>sint b\<bar> \<and> muldiv_result REMU a b < b)"
    by blast
qed

section \<open>Access to control and status registers\<close>

text \<open>Whether a CSR instruction writes its register.\<close>

definition csr_writes :: "zicsr \<Rightarrow> 'd ISS \<Rightarrow> bool" where
  "csr_writes x s = (case x of
     CSRRW \<Rightarrow> True | CSRRWI \<Rightarrow> True
   | CSRRS \<Rightarrow> RS1 s \<noteq> 0 | CSRRC \<Rightarrow> RS1 s \<noteq> 0
   | CSRRSI \<Rightarrow> instr_zimm (instr s) \<noteq> 0 | CSRRCI \<Rightarrow> instr_zimm (instr s) \<noteq> 0)"

lemma csr_guard_denied:
  assumes "prv s < drop_bit 8 (0x300 AND instr_csr (instr s)) \<or>
    write \<and> drop_bit 10 (0xC00 AND instr_csr (instr s)) = 3"
  shows "csr_guard write body s = (Trap EXC_ILLEGAL_INSTR (ucast (instr s)), s)"
proof -
  have "is_invalid_csr_access (instr_csr (instr s)) write s = (Trap EXC_ILLEGAL_INSTR (ucast (instr s)), s) \<or>
      is_invalid_csr_access (instr_csr (instr s)) write s = (Ok True, s)"
    using assms
    by (auto simp: is_invalid_csr_access_def REQUIRE_ISA_def RAISE_ILLEGAL_INSTRUCTION_def whenM_def seqM_def
        bindM_def Let_def)
  then show ?thesis
    by (auto simp: csr_guard_def RAISE_ILLEGAL_INSTRUCTION_def bindM_apply)
qed

text \<open>
  C29. A CSR instruction on a register of a more privileged mode, or one that would write a
  read-only register, raises an illegal-instruction trap and changes nothing.
\<close>

theorem csr_access_denied:
  assumes "prv s < drop_bit 8 (0x300 AND instr_csr (instr s)) \<or>
    csr_writes x s \<and> drop_bit 10 (0xC00 AND instr_csr (instr s)) = 3"
  shows "exec_zicsr env x s = (Trap EXC_ILLEGAL_INSTR (ucast (instr s)), s)"
  using assms
  by (cases x)
    (simp_all add: exec_zicsr_def exec_csr_write_def exec_csr_modify_def csr_guard_denied csr_writes_def)

theorem csr_access_denied_witness:
  "exec_zicsr env_example CSRRW ((hart_example [])\<lparr>prv := UserMode, instr := 0x30001073\<rparr>) =
     (Trap EXC_ILLEGAL_INSTR 0x30001073, (hart_example [])\<lparr>prv := UserMode, instr := 0x30001073\<rparr>)"
proof -
  have "instr_csr 0x30001073 = MSTATUS_ADDR" by code_simp
  then show ?thesis
    using csr_access_denied [of "(hart_example [])\<lparr>prv := UserMode, instr := 0x30001073\<rparr>" CSRRW env_example]
    by simp
qed

section \<open>Views of a register\<close>

text \<open>The registers that are read and written through a mask on a shared register.\<close>

definition csr_views :: "(u32 \<times> u32 \<times> (csr_table \<Rightarrow> u32)) list" where
  "csr_views =
     [(MSTATUS_ADDR, MSTATUS_MASK, mstatus), (SSTATUS_ADDR, SSTATUS_MASK, mstatus),
      (USTATUS_ADDR, USTATUS_MASK, mstatus), (MIE_ADDR, MIE_MASK, mie), (SIE_ADDR, SIE_MASK, mie),
      (UIE_ADDR, UIE_MASK, mie), (SIP_ADDR, SIP_MASK, mip), (UIP_ADDR, UIP_MASK, mip),
      (FCSR_ADDR, FCSR_MASK, fcsr)]"

lemma view_write_read:
  assumes "\<not> ANY_HPMCOUNTER_RV32 a" and "\<not> DEBUG_CSR a"
    and "a \<notin> {MISA_ADDR, SATP_ADDR, TSELECT_ADDR, TIME_ADDR, MTIME_ADDR, TIMEH_ADDR, MTIMEH_ADDR,
      MCYCLE_ADDR, MCYCLEH_ADDR, MINSTRET_ADDR, MINSTRETH_ADDR}"
    and "a < 0xC00 \<or> 0xC9F < a"
    and "write_view (pc_alignment_mask s) a v (csrs s) = Some c" and "read_view a c = Some r"
  shows "set_csr_value a v s = (Ok (), s\<lparr>csrs := c\<rparr>)"
    and "get_csr_value env a (s\<lparr>csrs := c\<rparr>) = (Ok r, s\<lparr>csrs := c\<rparr>)"
proof -
  show "set_csr_value a v s = (Ok (), s\<lparr>csrs := c\<rparr>)"
    using assms(1,2,3,5) by (simp add: set_csr_value_def)
  have "\<not> ((a \<ge> 0xC00 \<and> a \<le> 0xC1F) \<or> (a \<ge> 0xC80 \<and> a \<le> 0xC9F))"
    using assms(4) by (auto simp: word_le_nat_alt word_less_nat_alt)
  then have "validate_csr_counter_read_access_rights a = (ret () :: ('a ISS, unit) act)"
    unfolding validate_csr_counter_read_access_rights_def by (rule if_not_P)
  then show "get_csr_value env a (s\<lparr>csrs := c\<rparr>) = (Ok r, s\<lparr>csrs := c\<rparr>)"
    using assms(1,2,3,6) by (simp add: get_csr_value_def seqM_def)
qed

lemma csr_views_plain:
  assumes "(a, m, f) \<in> set csr_views"
  shows "\<not> ANY_HPMCOUNTER_RV32 a" and "\<not> DEBUG_CSR a"
    and "a \<notin> {MISA_ADDR, SATP_ADDR, TSELECT_ADDR, TIME_ADDR, MTIME_ADDR, TIMEH_ADDR, MTIMEH_ADDR,
      MCYCLE_ADDR, MCYCLEH_ADDR, MINSTRET_ADDR, MINSTRETH_ADDR}"
    and "a < 0xC00 \<or> 0xC9F < a"
  using assms unfolding csr_views_def by (auto simp: ANY_HPMCOUNTER_RV32_def DEBUG_CSR_def)

lemma csr_views_masked:
  assumes "(a, m, f) \<in> set csr_views"
  shows "\<exists>c. write_view pm a v t = Some c \<and> f c = masked_write m v (f t) \<and> read_view a c = Some (f c AND m)"
  using assms unfolding csr_views_def
  by (simp; elim disjE conjE; simp add: write_view_def read_view_def)

text \<open>
  Writing such a register and reading it back gives the written value restricted to its mask, and
  leaves the other bits of the shared register alone: a supervisor can change \<open>mstatus\<close> through
  \<open>sstatus\<close> only in the bits of \<open>SSTATUS_MASK\<close>, and a user only in those of \<open>USTATUS_MASK\<close>.
\<close>

theorem csr_view_write_read:
  assumes "(a, m, f) \<in> set csr_views"
  shows "\<exists>s'. set_csr_value a v s = (Ok (), s') \<and> get_csr_value env a s' = (Ok (v AND m), s') \<and>
    f (csrs s') AND NOT m = f (csrs s) AND NOT m"
proof -
  obtain c where c: "write_view (pc_alignment_mask s) a v (csrs s) = Some c"
      "f c = masked_write m v (f (csrs s))" "read_view a c = Some (f c AND m)"
    using csr_views_masked [OF assms] by blast
  show ?thesis
    using view_write_read [OF csr_views_plain [OF assms] c(1,3)] c(2)
    by (intro exI [of _ "s\<lparr>csrs := c\<rparr>"]) (simp add: masked_write_read masked_write_keeps)
qed

theorem csr_view_write_read_witness:
  "\<exists>s'. set_csr_value SSTATUS_ADDR 0xFFFFFFFF (hart_example []) = (Ok (), s') \<and>
     get_csr_value env_example SSTATUS_ADDR s' = (Ok (0xFFFFFFFF AND SSTATUS_MASK), s')"
  using csr_view_write_read [of SSTATUS_ADDR SSTATUS_MASK mstatus "0xFFFFFFFF" "hart_example []" env_example]
  by (auto simp: csr_views_def)

end
