(* ===== verification/Mem_Props.thy ===== *)
theory Mem_Props
  imports Iss_Exec Example
begin

text \<open>
  Properties of the memory accesses of the RV32 hart through a direct mapping: a load returns the
  last store, stores do not affect other addresses, and the atomic instructions read, modify
  and write one word with the bus locked.
\<close>

unbundle bit_operations_syntax

lemma dmi_offset_bounds:
  "get_mem_ptr_to_global_addr d n addr = Inr off \<Longrightarrow> off = unat (addr - dmi_start d)"
  by (auto simp: get_mem_ptr_to_global_addr_def split: if_splits)

text \<open>A mapped range can be stored to, and then holds the stored value.\<close>

lemma phys_store:
  assumes "phys_load [d] h n addr = Some old"
  obtains h' where "dmi_store d addr (to_bytes n v) h = Inr h'" and "dmi_contains d addr"
    and "phys_load [d] h' n addr = Some (take_bit (8 * n) v)"
proof -
  from assms obtain bs where c: "dmi_contains d addr" and l: "dmi_load d n addr h = Inr bs"
    by (auto simp: phys_load_def split: if_splits sum.splits)
  from l obtain off where o: "get_mem_ptr_to_global_addr d n addr = Inr off" "array_read off n (h (dmi_mem d)) = Some bs"
    by (auto simp: dmi_load_def split: sum.splits option.splits)
  then obtain xs where "array_write off (to_bytes n v) (h (dmi_mem d)) = Some xs"
    using host_array.wr_rd_dom [of off "to_bytes n v" "h (dmi_mem d)"] by auto
  with o have s: "dmi_store d addr (to_bytes n v) h = Inr (h(dmi_mem d := xs))"
    by (simp add: dmi_store_def)
  from dmi_load_store_same [OF s] c have "phys_load [d] (h(dmi_mem d := xs)) n addr = Some (take_bit (8 * n) v)"
    by (simp add: phys_load_def of_to_bytes)
  with s c show ?thesis by (rule that)
qed

text \<open>Stores do not change what other ranges of the mapping hold.\<close>

lemma phys_store_other:
  assumes "dmi_store d addr bs h = Inr h'"
    and "unat (b - dmi_start d) + m \<le> unat (addr - dmi_start d) \<or>
      unat (addr - dmi_start d) + length bs \<le> unat (b - dmi_start d)"
  shows "phys_load [d] h' m b = phys_load [d] h m b"
proof -
  from assms(1) obtain xs where xs: "array_write (unat (addr - dmi_start d)) bs (h (dmi_mem d)) = Some xs"
      "h' = h(dmi_mem d := xs)"
    by (auto simp: dmi_store_def split: sum.splits option.splits dest: dmi_offset_bounds)
  have "dmi_load d m b h' = dmi_load d m b h"
    using host_array.rd_wr_other [OF xs(1) assms(2)]
    by (auto simp: dmi_load_def xs(2) split: sum.split dest: dmi_offset_bounds)
  then show ?thesis by (simp add: phys_load_def)
qed

lemma untranslated_cong:
  "mmu s' = mmu s \<Longrightarrow> csrs s' = csrs s \<Longrightarrow> prv s' = prv s \<Longrightarrow> untranslated t s' = untranslated t s"
  by (simp add: untranslated_def access_mode_def)

lemma store_data_direct:
  assumes "has_access s" and "dmi_ranges s = [d]" and "untranslated STORE s"
    and "phys_load [d] (host (world s)) n addr = Some old"
  obtains h' where "dmi_store d addr (to_bytes n v) (host (world s)) = Inr h'"
    and "phys_load [d] h' n addr = Some (take_bit (8 * n) v)"
    and "store_data env n addr v s = (Ok (), atomic_unlock (s\<lparr>quantum_keeper := quantum_keeper s + 40000,
           world := (world s)\<lparr>host := h'\<rparr>\<rparr>))"
proof -
  obtain h' where h': "dmi_store d addr (to_bytes n v) (host (world s)) = Inr h'" "dmi_contains d addr"
      "phys_load [d] h' n addr = Some (take_bit (8 * n) v)"
    by (rule phys_store [OF assms(4)])
  from raw_store_data_dmi [OF assms(1,2) h'(2,1), of env] show ?thesis
    by (intro that [OF h'(1,3)]) (simp add: store_data_untranslated [OF assms(3)])
qed

lemma load_data_direct:
  assumes "has_access s" and "untranslated LOAD s"
    and "phys_load (dmi_ranges s) (host (world s)) n addr = Some v"
  shows "load_data env n addr s = (Ok v, s\<lparr>quantum_keeper := quantum_keeper s + 40000\<rparr>)"
  using raw_load_data_dmi [OF assms(1,3)] by (simp add: load_data_untranslated [OF assms(2)])

lemma has_access_unlock: "has_access s \<Longrightarrow> has_access (atomic_unlock (s\<lparr>quantum_keeper := q, world := (world s)\<lparr>host := h\<rparr>\<rparr>))"
  by (auto simp: has_access_def atomic_unlock_def bus_locked_by_me_def get_hart_id_def is_locked_def is_locked_by_def
      unlock_def)

text \<open>
  C11. On a directly mapped address a store returns, a following load of the same width returns the
  stored value, and a load of any other range of the mapping returns what it held before.
\<close>

theorem store_load_roundtrip:
  assumes "has_access s" and "dmi_ranges s = [d]" and "untranslated STORE s" and "untranslated LOAD s"
    and "phys_load [d] (host (world s)) n addr = Some old"
    and "phys_load [d] (host (world s)) m b = Some w"
    and "unat (b - dmi_start d) + m \<le> unat (addr - dmi_start d) \<or>
      unat (addr - dmi_start d) + n \<le> unat (b - dmi_start d)"
  shows "\<exists>s' t t'. store_data env n addr v s = (Ok (), s') \<and>
    load_data env n addr s' = (Ok (take_bit (8 * n) v), t) \<and> load_data env m b s' = (Ok w, t')"
proof -
  obtain h' where h': "dmi_store d addr (to_bytes n v) (host (world s)) = Inr h'"
      "phys_load [d] h' n addr = Some (take_bit (8 * n) v)"
      "store_data env n addr v s = (Ok (), atomic_unlock (s\<lparr>quantum_keeper := quantum_keeper s + 40000,
           world := (world s)\<lparr>host := h'\<rparr>\<rparr>))"
    by (rule store_data_direct [OF assms(1-3,5)])
  let ?s = "atomic_unlock (s\<lparr>quantum_keeper := quantum_keeper s + 40000, world := (world s)\<lparr>host := h'\<rparr>\<rparr>)"
  have o: "phys_load [d] h' m b = Some w"
    using phys_store_other [OF h'(1), of b m] assms(6,7) by simp
  have a: "has_access ?s" "untranslated LOAD ?s" "dmi_ranges ?s = [d]"
    using has_access_unlock [OF assms(1)] assms(2,4) by (simp_all add: untranslated_cong [of ?s s])
  have h: "host (world ?s) = h'" by simp
  show ?thesis
    using h'(3) load_data_direct [OF a(1,2), of n addr] load_data_direct [OF a(1,2), of m b] a(3) h h'(2) o
    by auto
qed

lemma access_example [simp]: "has_access (hart_example ws)" "untranslated t (hart_example ws)"
  by (simp_all add: has_access_def is_locked_def BusLock_init_def untranslated_def)

lemma phys_example:
  "phys_load [dmi_example] (host_example [1, 2]) 4 0x80000004 = Some 2"
  "phys_load [dmi_example] (host_example [1, 2]) 4 0x80000000 = Some 1"
  by code_simp+

theorem store_load_roundtrip_witness:
  "\<exists>s' t t'. store_data env_example 4 0x80000004 0xCAFE (hart_example [1, 2]) = (Ok (), s') \<and>
     load_data env_example 4 0x80000004 s' = (Ok 0xCAFE, t) \<and> load_data env_example 4 0x80000000 s' = (Ok 1, t')"
proof -
  let ?s = "hart_example [1, 2]"
  have o: "unat (0x80000000 - dmi_start dmi_example) + 4 \<le> unat (0x80000004 - dmi_start dmi_example)"
    by (simp add: dmi_example_def)
  have p: "phys_load [dmi_example] (host (world ?s)) 4 0x80000004 = Some 2"
    "phys_load [dmi_example] (host (world ?s)) 4 0x80000000 = Some 1"
    using phys_example by simp_all
  show ?thesis
    using store_load_roundtrip [OF access_example(1) hart_example_fields(3) access_example(2) access_example(2)
        p disjI1 [OF o], of env_example "0xCAFE"]
    by simp
qed

section \<open>Atomic read-modify-write\<close>

definition bus_taken :: "'d ISS \<Rightarrow> 'd ISS" where
  "bus_taken s = s\<lparr>world := (world s)\<lparr>bus_lock := (bus_lock (world s))\<lparr>locked := True, owner := get_hart_id s\<rparr>\<rparr>\<rparr>"

lemma lock_bus_granted: "has_access s \<Longrightarrow> lock_bus env s = (Ok (), bus_taken s)"
  by (auto simp: lock_bus_def lock_act_def zoomM_def seqM_def bindM_def whenM_def has_access_def is_locked_def
      bus_locked_by_me_def is_locked_by_def get_shared_def put_shared_def put_shared_lock_def acquire_def bus_taken_def)

lemma bus_taken_fields [simp]:
  "has_access (bus_taken s)" "bus_locked_by_me (bus_taken s)" "dmi_ranges (bus_taken s) = dmi_ranges s"
  "host (world (bus_taken s)) = host (world s)" "untranslated t (bus_taken s) = untranslated t s"
  "regs (bus_taken s) = regs s" "instr (bus_taken s) = instr s" "quantum_keeper (bus_taken s) = quantum_keeper s"
  "csrs (bus_taken s) = csrs s" "pc (bus_taken s) = pc s"
  by (simp_all add: bus_taken_def has_access_def bus_locked_by_me_def is_locked_by_def get_hart_id_def
      untranslated_def access_mode_def)

lemma ucast32_64: "ucast (ucast (w :: u32) :: u64) = w"
  by (rule bit_word_eqI) (auto simp: bit_simps)

text \<open>
  C9. An atomic instruction on an aligned, directly mapped word returns the old value in the
  destination register, leaves the result of its operation on the old value and the source
  register in memory, and ends with the bus unlocked.
\<close>

theorem amo_atomic:
  assumes "has_access s" and "dmi_ranges s = [d]" and "untranslated STORE s" and "untranslated LOAD s"
    and "hart_wf s" and "unat (RD s) < 32" and "x_rs1 s mod 4 = 0"
    and "phys_load [d] (host (world s)) 4 (ucast (x_rs1 s)) = Some (ucast old)"
  shows "\<exists>s'. execute_amo env f s = (Ok (), s') \<and> reg (RD s) s' = old \<and>
    phys_load [d] (host (world s')) 4 (ucast (x_rs1 s)) = Some (ucast (f old (x_rs2 s))) \<and>
    \<not> bus_locked_by_me s'"
proof -
  let ?a = "ucast (x_rs1 s) :: u64" and ?v = "f old (x_rs2 s)"
  let ?s1 = "(bus_taken s)\<lparr>quantum_keeper := quantum_keeper s + 40000\<rparr>"
  have "load_word env ?a (bus_taken s) = (Ok old, ?s1)"
    using load_data_direct [of "bus_taken s" 4 ?a "ucast old" env] assms(2,4,8)
    by (simp add: load_word_def bindM_def ucast32_64)
  then have load: "amo_convert_trap (atomic_load_word env ?a) s = (Ok old, ?s1)"
    by (simp add: amo_convert_trap_def atomic_load_word_def seqM_apply lock_bus_granted [OF assms(1)])
  have b: "bus_locked_by_me ?s1" using bus_taken_fields(2) [of s] by (simp add: bus_locked_by_me_def get_hart_id_def)
  obtain h' where h': "phys_load [d] h' 4 ?a = Some (take_bit 32 (ucast ?v))"
      "store_data env 4 ?a (ucast ?v) ?s1 = (Ok (), atomic_unlock (?s1\<lparr>quantum_keeper := quantum_keeper ?s1 + 40000,
           world := (world ?s1)\<lparr>host := h'\<rparr>\<rparr>))"
    by (rule store_data_direct [of ?s1 d 4 ?a "ucast old" "ucast ?v" env])
      (use assms in \<open>simp_all add: untranslated_cong [of _ "bus_taken s"]\<close>)
  let ?s2 = "atomic_unlock (?s1\<lparr>quantum_keeper := quantum_keeper ?s1 + 40000, world := (world ?s1)\<lparr>host := h'\<rparr>\<rparr>)"
  have r: "x_rs2 ?s1 = x_rs2 s" by (simp add: reg_def RS2_def)
  have "execute_amo env f s = (Ok (), set_rd old ?s2)"
    using assms(7) load b h'(2) r
    by (simp add: execute_amo_def trap_check_addr_alignment_def seqM_def bindM_apply atomic_store_word_def
        assertM_def store_word_def put_rd_def)
  moreover have "reg (RD s) (set_rd old ?s2) = old"
    using assms(5,6) by (simp add: set_rd_def RD_def reg_def set_reg_def hart_wf_def)
  moreover have "take_bit 32 (ucast ?v :: u64) = ucast ?v"
    by (rule bit_word_eqI) (auto simp: bit_simps dest: bit_imp_le_length)
  moreover have "\<not> bus_locked_by_me (set_rd old ?s2)"
    using atomic_unlock_unlocked [of "?s1\<lparr>quantum_keeper := quantum_keeper ?s1 + 40000, world := (world ?s1)\<lparr>host := h'\<rparr>\<rparr>"]
    by (simp add: set_rd_def bus_locked_by_me_def get_hart_id_def)
  ultimately show ?thesis using h'(1) by (auto simp: set_rd_def)
qed

section \<open>Store conditional\<close>

lemma set_rd_mem [simp]:
  "bus_locked_by_me (set_rd v s) = bus_locked_by_me s" "has_access (set_rd v s) = has_access s"
  "untranslated t (set_rd v s) = untranslated t s" "RD (set_rd v s) = RD s"
  "world (set_rd v s) = world s" "lr_addr (set_rd v s) = lr_addr s" "dmi_ranges (set_rd v s) = dmi_ranges s"
  by (simp_all add: set_rd_def bus_locked_by_me_def get_hart_id_def has_access_def untranslated_def
      access_mode_def RD_def)

lemma set_rd_instr: "instr (set_rd v s) = instr s"
  by (simp add: set_rd_def)

lemma reg_set_rd: "length (regs s) = 32 \<Longrightarrow> unat (RD s) < 32 \<Longrightarrow> reg (RD s) (set_rd v s) = v"
  by (simp add: set_rd_def reg_def set_reg_def)

text \<open>
  C10. A store conditional succeeds exactly when the hart still holds the bus since its load reserved
  the same address: then the word is stored and zero is returned; otherwise memory keeps its
  value and one is returned. In both cases the reservation is over.
\<close>

theorem sc_atomic:
  assumes "dmi_ranges s = [d]" and "untranslated STORE s"
    and "hart_wf s" and "unat (RD s) < 32" and "x_rs1 s mod 4 = 0"
    and "phys_load [d] (host (world s)) 4 (ucast (x_rs1 s)) = Some (ucast (old :: u32))"
  shows "\<exists>s'. exec_sc env s = (Ok (), s') \<and> \<not> bus_locked_by_me s' \<and> lr_sc_counter s' = 0 \<and>
    (if bus_locked_by_me s \<and> lr_addr s = ucast (x_rs1 s)
     then reg (RD s) s' = 0 \<and>
       phys_load [d] (host (world s')) 4 (ucast (x_rs1 s)) = Some (ucast (x_rs2 s))
     else reg (RD s) s' = 1 \<and>
       phys_load [d] (host (world s')) 4 (ucast (x_rs1 s)) = Some (ucast old))"
proof -
  let ?a = "ucast (x_rs1 s) :: u64" and ?v = "x_rs2 s" and ?s1 = "set_rd 1 s"
  have len: "length (regs s) = 32" using assms(3) by (simp add: hart_wf_def)
  have sc: "exec_sc env s = (Ok (), (set_rd (if ok then 0 else 1) t)\<lparr>lr_sc_counter := 0\<rparr>)"
    if "atomic_store_conditional_word env ?a ?v ?s1 = (Ok ok, t)" for ok t
    using assms(5) that
    by (simp add: exec_sc_def trap_check_addr_alignment_def seqM_def bindM_apply put_rd_def)
  have locked: "bus_locked_by_me ((set_rd x t)\<lparr>lr_sc_counter := 0\<rparr>) = bus_locked_by_me t" for x t
    by (simp add: bus_locked_by_me_def get_hart_id_def set_rd_def)
  have rd: "reg (RD s) ((set_rd x t)\<lparr>lr_sc_counter := 0\<rparr>) = x" if "regs t = regs ?s1" "instr t = instr s" for x t
    using that len assms(4) by (simp add: set_rd_def reg_def set_reg_def RD_def)
  show ?thesis
  proof (cases "bus_locked_by_me s \<and> lr_addr s = ?a")
    case True
    obtain h' where h': "phys_load [d] h' 4 ?a = Some (take_bit (8 * 4) (ucast ?v))"
        "store_data env 4 ?a (ucast ?v) ?s1 = (Ok (), atomic_unlock (?s1\<lparr>quantum_keeper := quantum_keeper ?s1 + 40000,
           world := (world ?s1)\<lparr>host := h'\<rparr>\<rparr>))"
      by (rule store_data_direct [of ?s1 d 4 ?a "ucast old" "ucast ?v" env])
        (use True assms in \<open>simp_all add: has_access_def\<close>)
    let ?t = "atomic_unlock (?s1\<lparr>quantum_keeper := quantum_keeper ?s1 + 40000, world := (world ?s1)\<lparr>host := h'\<rparr>\<rparr>)"
    have "atomic_store_conditional_word env ?a ?v ?s1 = (Ok True, ?t)"
      using True h'(2) by (simp add: atomic_store_conditional_word_def store_word_def seqM_def bindM_apply)
    from sc [OF this] have "exec_sc env s = (Ok (), (set_rd 0 ?t)\<lparr>lr_sc_counter := 0\<rparr>)" by simp
    moreover have "take_bit 32 (ucast ?v :: u64) = ucast ?v"
      by (rule bit_word_eqI) (auto simp: bit_simps dest: bit_imp_le_length)
    ultimately show ?thesis
      using True h'(1) rd [of ?t 0] by (simp add: locked) (simp add: set_rd_def)
  next
    case False
    obtain t where t: "atomic_store_conditional_word env ?a ?v ?s1 = (Ok False, t)" "\<not> bus_locked_by_me t"
        "host (world t) = host (world s)" "regs t = regs ?s1" "instr t = instr s"
    proof (cases "bus_locked_by_me s")
      case True
      with False have "atomic_store_conditional_word env ?a ?v ?s1 = (Ok False, atomic_unlock ?s1)"
        by (simp add: atomic_store_conditional_word_def bindM_apply seqM_apply)
      then show ?thesis by (rule that) (simp_all add: atomic_unlock_unlocked set_rd_instr)
    next
      case False
      then have "atomic_store_conditional_word env ?a ?v ?s1 = (Ok False, ?s1)"
        by (simp add: atomic_store_conditional_word_def bindM_apply seqM_apply)
      then show ?thesis by (rule that) (use False in \<open>simp_all add: set_rd_instr\<close>)
    qed
    from sc [OF t(1)] have "exec_sc env s = (Ok (), (set_rd 1 t)\<lparr>lr_sc_counter := 0\<rparr>)" by simp
    with False t rd [of t 1] assms(6) show ?thesis by (simp add: locked)
  qed
qed

definition amo_example :: "unit ISS" where
  "amo_example = (hart_example [1, 2])\<lparr>instr := 0x0062A3AF, regs := (replicate 32 0)[5 := 0x80000004, 6 := 7]\<rparr>"

lemma amo_example_facts:
  "has_access amo_example" "untranslated t amo_example" "dmi_ranges amo_example = [dmi_example]"
  "hart_wf amo_example" "RD amo_example = 7" "x_rs1 amo_example = 0x80000004" "x_rs2 amo_example = 7"
  "phys_load [dmi_example] (host (world amo_example)) 4 0x80000004 = Some 2"
proof -
  have "instr_rd 0x0062A3AF = 7" "instr_rs1 0x0062A3AF = 5" "instr_rs2 0x0062A3AF = 6" by code_simp+
  then show "RD amo_example = 7" "x_rs1 amo_example = 0x80000004" "x_rs2 amo_example = 7"
    by (simp_all add: amo_example_def RD_def RS1_def RS2_def reg_def)
  show "has_access amo_example" "untranslated t amo_example"
    using access_example [where ws = "[1, 2]"]
    by (simp_all add: amo_example_def has_access_def untranslated_def bus_locked_by_me_def get_hart_id_def access_mode_def)
  show "hart_wf amo_example"
    using hart_example_wf [of "[1, 2]"] by (simp add: amo_example_def hart_wf_def)
qed (use phys_example in \<open>simp_all add: amo_example_def\<close>)

theorem amo_atomic_witness:
  "\<exists>s'. execute_amo env_example (amo_operation AMOADD_W) amo_example = (Ok (), s') \<and> reg 7 s' = 2 \<and>
     phys_load [dmi_example] (host (world s')) 4 0x80000004 = Some 9"
  using amo_atomic [of amo_example dmi_example 2 env_example "amo_operation AMOADD_W"]
  by (auto simp: amo_example_facts amo_operation_def)

theorem sc_atomic_witness:
  "\<exists>s'. exec_sc env_example amo_example = (Ok (), s') \<and> reg 7 s' = 1 \<and>
     phys_load [dmi_example] (host (world s')) 4 0x80000004 = Some 2"
proof -
  have "\<not> bus_locked_by_me amo_example"
    by (simp add: amo_example_def bus_locked_by_me_def is_locked_by_def BusLock_init_def)
  then show ?thesis
    using sc_atomic [of amo_example dmi_example 2 env_example] by (auto simp: amo_example_facts)
qed

end
