(* ===== verification/Mmu_Props.thy ===== *)
theory Mmu_Props
  imports MemIf Example
begin

text \<open>
  Address translation of the RV32 hart: a translation that misses the TLB is the walk of the
  specification, and what the entry it leaves in the TLB makes of the next access to the page.
\<close>

unbundle bit_operations_syntax

definition translates :: "MemoryAccessType \<Rightarrow> 'd ISS \<Rightarrow> bool" where
  "translates type s \<longleftrightarrow> satp_mode (satp (csrs s)) \<noteq> 0 \<and> access_mode type s \<in> {0, 1}"

definition tlb_entry :: "MMU \<Rightarrow> MemoryAccessType \<Rightarrow> u64 \<Rightarrow> 'd ISS \<Rightarrow> tlb_entry_t" where
  "tlb_entry m type vaddr s = tlb m (access_mode type s) type (drop_bit 12 vaddr mod 256)"

definition tlb_filled :: "MemoryAccessType \<Rightarrow> u64 \<Rightarrow> PrivilegeLevel \<Rightarrow> u64 \<Rightarrow> 'd ISS \<Rightarrow> 'd ISS" where
  "tlb_filled type vaddr mode pa = set_tlb_entry mode type (drop_bit 12 vaddr mod 256)
     \<lparr>tlb_ppn = tlb_frame pa, tlb_vpn = drop_bit 12 vaddr\<rparr>"

lemma translate_hit:
  assumes "translates type s" and "mmu s = Some m" and "tlb_vpn (tlb_entry m type vaddr s) = drop_bit 12 vaddr"
  shows "translate_virtual_to_physical_addr env vaddr type s =
    (Ok (tlb_ppn (tlb_entry m type vaddr s) OR (vaddr AND 0xfff)), s\<lparr>quantum_keeper := quantum_keeper s + 30000\<rparr>)"
  using assms by (auto simp: translate_virtual_to_physical_addr_def translates_def tlb_entry_def act_defs inc_time_def
      tlb_lookup_def Let_def)

lemma translate_miss:
  assumes "translates type s" and "mmu s = Some m" and "tlb_vpn (tlb_entry m type vaddr s) \<noteq> drop_bit 12 vaddr"
  shows "translate_virtual_to_physical_addr env vaddr type s =
    bindM (walk env vaddr type (access_mode type s))
      (\<lambda>pa. seqM (modifyM (tlb_filled type vaddr (access_mode type s) pa)) (ret pa))
      (s\<lparr>quantum_keeper := quantum_keeper s + 30000\<rparr>)"
  using assms by (auto simp: translate_virtual_to_physical_addr_def translates_def tlb_entry_def act_defs inc_time_def
      tlb_lookup_def tlb_filled_def Let_def)

lemma walk_refines:
  assumes "has_access s" and "decode_vm_info mode s = (Ok vm, s)"
    and "find_leaf (phys_load (dmi_ranges s) (host (world s)) (ptesize vm)) vm vaddr
      (if check_vaddr_extension vaddr vm then levels vm else 0) (ptbase vm) = Some l"
  shows "\<exists>q. walk env vaddr type mode (s\<lparr>quantum_keeper := t\<rparr>) =
    walk_spec env type (mode = SupervisorMode) (mstatus_sum (mstatus (csrs s)) \<noteq> 0)
      (mstatus_mxr (mstatus (csrs s)) \<noteq> 0) vm vaddr l (s\<lparr>quantum_keeper := q\<rparr>)"
proof -
  let ?s = "s\<lparr>quantum_keeper := t\<rparr>"
  have d: "decode_vm_info mode ?s = (Ok vm, ?s)" and p: "ptesize vm \<in> {4, 8}"
    using assms(2) by (auto simp: decode_vm_info_def act_defs Let_def split: if_splits)
  have a: "has_access ?s" using assms(1) by (simp add: has_access_def bus_locked_by_me_def get_hart_id_def)
  obtain q where q: "walk_loop env vaddr type (mode = SupervisorMode) (mstatus_sum (mstatus (csrs s)) \<noteq> 0)
      (mstatus_mxr (mstatus (csrs s)) \<noteq> 0) vm (if check_vaddr_extension vaddr vm then levels vm else 0) (ptbase vm) ?s =
    walk_spec env type (mode = SupervisorMode) (mstatus_sum (mstatus (csrs s)) \<noteq> 0)
      (mstatus_mxr (mstatus (csrs s)) \<noteq> 0) vm vaddr l (?s\<lparr>quantum_keeper := q\<rparr>)"
    using walk_loop_spec [OF a p, of vaddr "if check_vaddr_extension vaddr vm then levels vm else 0" "ptbase vm" l env type]
      assms(3) by simp blast
  then show ?thesis
    by (intro exI [of _ q]) (simp add: walk_def bindM_def getsM_def d)
qed

text \<open>
  C12. A translation that misses the TLB, with page tables in directly mapped memory, is the walk of
  the specification: it follows the pointers to a leaf, checks permission, user bit, alignment and
  accessed and dirty bits of the leaf alone, and either raises the page fault of the access type with the virtual
  address or returns the address in the leaf's page and remembers it in the TLB.
\<close>

theorem translate_refines_walk:
  assumes "translates type s" and "mmu s = Some m" and "tlb_vpn (tlb_entry m type vaddr s) \<noteq> drop_bit 12 vaddr"
    and "has_access s" and "decode_vm_info (access_mode type s) s = (Ok vm, s)"
    and "find_leaf (phys_load (dmi_ranges s) (host (world s)) (ptesize vm)) vm vaddr
      (if check_vaddr_extension vaddr vm then levels vm else 0) (ptbase vm) = Some l"
  shows "\<exists>q. translate_virtual_to_physical_addr env vaddr type s =
    bindM (walk_spec env type (access_mode type s = SupervisorMode) (mstatus_sum (mstatus (csrs s)) \<noteq> 0)
        (mstatus_mxr (mstatus (csrs s)) \<noteq> 0) vm vaddr l)
      (\<lambda>pa. seqM (modifyM (tlb_filled type vaddr (access_mode type s) pa)) (ret pa))
      (s\<lparr>quantum_keeper := q\<rparr>)"
  using walk_refines [OF assms(4-6), of env type "quantum_keeper s + 30000"]
  by (auto simp: translate_miss [OF assms(1-3)] bindM_def)

text \<open>
  After a translation that walked the page table the next translation of the page hits the TLB,
  whatever the tables hold by then, and returns the lower 32 bits of the same physical address: the frame in the
  TLB has lost bits 32 and 33 of an Sv32 address.
\<close>

theorem tlb_repeats_lower_half:
  assumes "translates type s" and "mmu s = Some m" and "tlb_vpn (tlb_entry m type vaddr s) \<noteq> drop_bit 12 vaddr"
    and "translate_virtual_to_physical_addr env vaddr type s = (Ok pa, s')"
    and "drop_bit 12 vaddr' = drop_bit 12 vaddr"
  shows "\<exists>t. translate_virtual_to_physical_addr env vaddr' type s' =
      (Ok (take_bit 32 (pa AND NOT 0xfff) OR (vaddr' AND 0xfff)), t) \<and> world t = world s'"
proof -
  let ?s = "s\<lparr>quantum_keeper := quantum_keeper s + 30000\<rparr>"
  obtain s1 where w: "walk env vaddr type (access_mode type s) ?s = (Ok pa, s1)"
    and s': "s' = tlb_filled type vaddr (access_mode type s) pa s1"
    using assms(4) unfolding translate_miss [OF assms(1-3)]
    by (auto simp: seqM_def modifyM_def ret_def elim!: bindM_OkE)
  have k: "mmu s1 = mmu ?s" "hart_view s1 = hart_view ?s"
    using keepsD [OF walk_keeps_mmu w] keepsD [OF walk_keeps_view w] by simp_all
  have c: "csrs s1\<lparr>mip := 0\<rparr> = csrs s\<lparr>mip := 0\<rparr>" "prv s1 = prv s"
    using k(2) by (simp_all add: hart_view_def)
  have c1: "mstatus (csrs s1) = mstatus (csrs s)" "satp (csrs s1) = satp (csrs s)"
    using arg_cong [OF c(1), of mstatus] arg_cong [OF c(1), of satp] by simp_all
  have m0: "access_mode type s' = access_mode type s"
    using c(2) c1 by (simp add: s' tlb_filled_def access_mode_def set_tlb_entry_def)
  moreover have "satp (csrs s') = satp (csrs s)"
    using c1 by (simp add: s' tlb_filled_def set_tlb_entry_def)
  ultimately have m1: "access_mode type s' = access_mode type s" "translates type s'"
    using assms(1) by (simp_all add: translates_def)
  obtain m' where m': "mmu s' = Some m'" "tlb_entry m' type vaddr' s' = \<lparr>tlb_ppn = tlb_frame pa, tlb_vpn = drop_bit 12 vaddr\<rparr>"
    using k(1) assms(2,5) m1(1) by (simp add: s' tlb_filled_def set_tlb_entry_def tlb_entry_def)
  have f: "tlb_frame pa = take_bit 32 (pa AND NOT 0xfff)"
    unfolding page_mask by (rule bit_word_eqI) (auto simp: tlb_frame_bit bit_simps dest: bit_imp_le_length)
  show ?thesis
    using translate_hit [OF m1(2) m'(1), of vaddr' env] m'(2) assms(5) f by simp
qed

section \<open>A platform with translation\<close>

text \<open>
  The root table at \<open>0x80000000\<close> maps the first four megabytes to a superpage above the first four gigabytes.
\<close>

definition mmu_example :: "unit ISS" where
  "mmu_example = (hart_example [0x400000CF])\<lparr>mmu := Some (MMU_init False), prv := SupervisorMode,
     csrs := csr_table_init\<lparr>satp := 0x80080000\<rparr>\<rparr>"

definition sv32_example :: vm_info where
  "sv32_example = \<lparr>levels = 2, idxbits = 10, ptesize = 4, ptbase = 0x80000000\<rparr>"

lemma satp_example:
  "bf_get 31 1 (0x80080000 :: u32) = 1" "bf_get 17 1 (0 :: u32) = 0" "bf_get 18 1 (0 :: u32) = 0" "bf_get 19 1 (0 :: u32) = 0"
  "(push_bit 12 (ucast (bf_get 0 22 (0x80080000 :: u32))) :: u64) = 0x80000000"
  by code_simp+

lemma mmu_example_facts:
  "translates LOAD mmu_example" "mmu mmu_example = Some (MMU_init False)" "has_access mmu_example"
  "tlb_vpn (tlb_entry (MMU_init False) LOAD 0x12345 mmu_example) \<noteq> drop_bit 12 0x12345"
  "decode_vm_info (access_mode LOAD mmu_example) mmu_example = (Ok sv32_example, mmu_example)"
  by (simp_all add: translates_def mmu_example_def access_mode_def has_access_def is_locked_def BusLock_init_def
      tlb_entry_def MMU_init_def flush_mmu_def decode_vm_info_def act_defs sv32_example_def csr_table_init_def Let_def
      satp_example [simplified])

lemma mmu_example_leaf:
  "find_leaf (phys_load (dmi_ranges mmu_example) (host (world mmu_example)) (ptesize sv32_example)) sv32_example 0x12345
     (if check_vaddr_extension 0x12345 sv32_example then levels sv32_example else 0) (ptbase sv32_example) =
   Some (Leaf 0x80000000 0x400000CF 1)"
  by (simp add: mmu_example_def) code_simp

lemma mmu_example_walk:
  "walk_spec env LOAD True False False sv32_example 0x12345 (Leaf 0x80000000 0x400000CF 1) s = (Ok 0x100012345, s)"
proof -
  have "permitted LOAD True False False 0x400000CF" "superpage_aligned sv32_example 1 0x400000CF"
    "(0x400000CF :: u64) AND needed_AD LOAD = needed_AD LOAD" "leaf_address sv32_example 1 0x400000CF 0x12345 = 0x100012345"
    by code_simp+
  then show ?thesis by (simp add: walk_spec_def complete_access_def)
qed

lemma mmu_example_bits:
  "access_mode LOAD mmu_example = SupervisorMode" "mstatus_sum (mstatus (csrs mmu_example)) = 0"
  "mstatus_mxr (mstatus (csrs mmu_example)) = 0"
  by (simp_all add: mmu_example_def access_mode_def csr_table_init_def satp_example [simplified])

lemma mmu_example_translate:
  "\<exists>s'. translate_virtual_to_physical_addr env_example 0x12345 LOAD mmu_example = (Ok 0x100012345, s')"
  using walk_refines [OF mmu_example_facts(3,5) mmu_example_leaf, of env_example LOAD "quantum_keeper mmu_example + 30000"]
    mmu_example_bits
  by (auto simp: mmu_example_walk [simplified] translate_miss [OF mmu_example_facts(1,2,4)] seqM_def bindM_def modifyM_def ret_def)

theorem translate_refines_walk_witness:
  "\<exists>q. translate_virtual_to_physical_addr env_example 0x12345 LOAD mmu_example =
     (Ok 0x100012345, tlb_filled LOAD 0x12345 SupervisorMode 0x100012345 (mmu_example\<lparr>quantum_keeper := q\<rparr>))"
  using translate_refines_walk [OF mmu_example_facts(1,2,4,3,5) mmu_example_leaf, of env_example] mmu_example_bits
  by (auto simp: mmu_example_walk [simplified] seqM_def bindM_def modifyM_def ret_def)

theorem tlb_repeats_lower_half_witness:
  "\<exists>s' t. translate_virtual_to_physical_addr env_example 0x12345 LOAD mmu_example = (Ok 0x100012345, s') \<and>
     translate_virtual_to_physical_addr env_example 0x12FFF LOAD s' = (Ok 0x12FFF, t)"
proof -
  obtain s' where s': "translate_virtual_to_physical_addr env_example 0x12345 LOAD mmu_example = (Ok 0x100012345, s')"
    using mmu_example_translate by blast
  have n: "drop_bit 12 (0x12FFF :: u64) = drop_bit 12 0x12345"
    "take_bit 32 ((0x100012345 :: u64) AND NOT 0xfff) OR (0x12FFF AND 0xfff) = 0x12FFF" by code_simp+
  from tlb_repeats_lower_half [OF mmu_example_facts(1,2,4) s' n(1)] n(2) s' show ?thesis by auto
qed

end
