(* ===== verification/Bus_Props.thy ===== *)
theory Bus_Props
  imports Bus
begin

text \<open>
  What harts and other initiators rely on when they share the bus: the lock excludes the others, and
  waiting for it ends.
\<close>

text \<open>What another hart does to the lock: an attempt to take it or a release.\<close>

datatype lock_event = is_Takes: Takes u32 | Releases u32

primrec lock_event_hart :: "lock_event \<Rightarrow> u32" where
  "lock_event_hart (Takes h) = h"
| "lock_event_hart (Releases h) = h"

primrec lock_event_step :: "lock_event \<Rightarrow> BusLock \<Rightarrow> BusLock" where
  "lock_event_step (Takes h) l = bus_lock.attempt h l"
| "lock_event_step (Releases h) l = unlock h l"

text \<open>
  C13. While a hart holds the bus lock, whatever other harts try, it keeps the lock, no other hart
  holds it, and every attempt of another hart to take it fails.
\<close>

theorem bus_lock_excludes:
  assumes "is_locked_by h l" and "\<forall>e \<in> set es. lock_event_hart e \<noteq> h"
  shows "is_locked_by h (fold lock_event_step es l) \<and>
    (\<forall>h'. h' \<noteq> h \<longrightarrow> \<not> is_locked_by h' (fold lock_event_step es l) \<and> acquire h' (fold lock_event_step es l) = None)"
proof -
  have step: "lock_event_step e = (if is_Takes e then bus_lock.attempt (lock_event_hart e) else unlock (lock_event_hart e))"
    for e by (cases e) (simp_all add: fun_eq_iff)
  let ?ev = "map (\<lambda>e. (is_Takes e, lock_event_hart e)) es"
  have "fold lock_event_step es l = fold (\<lambda>e. if fst e then bus_lock.attempt (snd e) else unlock (snd e)) ?ev l"
    by (induction es arbitrary: l) (simp_all add: step)
  then have k: "is_locked_by h (fold lock_event_step es l)"
    using bus_lock.others_keep [OF assms(1), of ?ev] assms(2) by simp
  with bus_lock.holds_unique bus_lock.acq_iff show ?thesis by (metis not_None_eq)
qed

theorem bus_lock_excludes_witness:
  "is_locked_by 1 (fold lock_event_step [Takes 2, Releases 3, Takes 0] \<lparr>locked = True, owner = 1\<rparr>)"
  using bus_lock_excludes [of 1 "\<lparr>locked = True, owner = 1\<rparr>" "[Takes 2, Releases 3, Takes 0]"]
  by (simp add: is_locked_by_def)

text \<open>
  C14. Taking the lock ends, with the lock taken: if each time the kernel lets the other processes run
  they do some of a finite amount of work or give the lock up, the wait returns and the assertion after it holds.
\<close>

theorem lock_is_granted:
  fixes work :: "'s \<Rightarrow> nat"
  assumes "\<forall>s. locked (bl s) \<longrightarrow> (\<exists>s'. wt s = Some s' \<and> (work s' < work s \<or> \<not> locked (bl s')))"
    and "\<forall>l s. bl (put l s) = l"
  shows "\<exists>s'. lock_act bl put wt h s = (Ok (), s') \<and> is_locked_by h (bl s')"
proof -
  have taken: "\<exists>s'. (case acquire h (bl t) of None \<Rightarrow> (Fail AssertionFailed, t) | Some l \<Rightarrow> (Ok (), put l t)) = (Ok (), s') \<and>
      is_locked_by h (bl s')" if "\<not> locked (bl t) \<or> h = owner (bl t)" for t
    using that assms(2) by (simp add: acquire_def is_locked_by_def)
  show ?thesis
  proof (cases "locked (bl s) \<and> h \<noteq> owner (bl s)")
    case True
    obtain t where t: "wait_until_unlocked bl wt s = Some t"
      using wait_until_unlocked_returns [of bl wt work s] assms(1) by blast
    then have "\<not> locked (bl t)" by (rule wait_until_unlocked_free)
    with True t taken [of t] show ?thesis
      by (simp add: lock_act_def whenM_def wait_unlocked_act_def act_defs)
  next
    case False
    with taken [of s] show ?thesis by (auto simp: lock_act_def whenM_def act_defs)
  qed
qed

text \<open>Another hart that needs two more turns before it releases the lock.\<close>

theorem lock_is_granted_witness:
  "\<exists>s'. lock_act fst (\<lambda>l s. (l, snd s))
      (\<lambda>s. Some (if snd s = 0 then (unlock (owner (fst s)) (fst s), 0) else (fst s, snd s - 1))) 1
      (\<lparr>locked = True, owner = 0\<rparr>, 2 :: nat) = (Ok (), s') \<and> is_locked_by 1 (fst s')"
  by (rule lock_is_granted [where work = snd]) (auto simp: unlock_def)

end
