(* ===== verification/RegMap.thy ===== *)
theory RegMap
  imports Bus
begin

text \<open>
  \<open>util/memory_map.h\<close>: the register ranges from which the interrupt controllers build their memory
  map, with the callbacks around each access, the integer and array views of their bytes, and the
  routing of a payload to the first range that contains its address.
\<close>

unbundle bit_operations_syntax

section \<open>Register ranges\<close>

record RegisterRange =
  range_start :: u64
  range_end :: u64
  range_mem :: "u8 list"
  range_readonly :: bool
  range_alignment :: u64

text \<open>The constructor, and the conditions it asserts.\<close>

definition RegisterRange_init :: "u64 \<Rightarrow> u64 \<Rightarrow> RegisterRange" where
  "RegisterRange_init start sz =
     \<lparr>range_start = start, range_end = start + sz - 1, range_mem = replicate (unat sz) 0,
      range_readonly = False, range_alignment = 1\<rparr>"

definition range_init_ok :: "u64 \<Rightarrow> u64 \<Rightarrow> bool" where
  "range_init_ok start sz \<longleftrightarrow> sz > 0 \<and> start + sz - 1 \<ge> start"

definition make_start_end :: "u64 \<Rightarrow> u64 \<Rightarrow> sim_error + RegisterRange" where
  "make_start_end start en =
     (if en \<ge> start \<and> range_init_ok start (en - start + 1) then Inr (RegisterRange_init start (en - start + 1))
      else Inl AssertionFailed)"

definition make_start_size :: "u64 \<Rightarrow> u64 \<Rightarrow> sim_error + RegisterRange" where
  "make_start_size start sz =
     (if range_init_ok start sz then Inr (RegisterRange_init start sz) else Inl AssertionFailed)"

definition make_array :: "u64 \<Rightarrow> u64 \<Rightarrow> u64 \<Rightarrow> sim_error + RegisterRange" where
  "make_array elem_size start num_elems =
     (if num_elems > 0 \<and> range_init_ok start (elem_size * num_elems)
      then Inr (RegisterRange_init start (elem_size * num_elems)) else Inl AssertionFailed)"

definition range_contains :: "RegisterRange \<Rightarrow> u64 \<Rightarrow> bool" where
  "range_contains r addr \<longleftrightarrow> addr \<ge> range_start r \<and> addr \<le> range_end r"

definition to_local :: "RegisterRange \<Rightarrow> u64 \<Rightarrow> u64" where
  "to_local r addr = addr - range_start r"

text \<open>What the callbacks are told about an access: \<open>WriteInfo\<close> and \<open>ReadInfo\<close>.\<close>

record access_info =
  info_addr :: u64
  info_size :: nat
  info_trans :: tlm_generic_payload
  info_delay :: nat

text \<open>
  A range that is a member of a peripheral with state \<open>'s\<close>: how to find and update it there, and
  its callbacks, which act on the whole peripheral (\<open>None\<close> for an empty \<open>std::function\<close>).
\<close>

record 's mapped_range =
  the_range :: "'s \<Rightarrow> RegisterRange"
  upd_range :: "(RegisterRange \<Rightarrow> RegisterRange) \<Rightarrow> 's \<Rightarrow> 's"
  pre_write_callback :: "(access_info \<Rightarrow> ('s, bool) act) option"
  post_write_callback :: "(access_info \<Rightarrow> ('s, unit) act) option"
  pre_read_callback :: "(access_info \<Rightarrow> ('s, bool) act) option"
  post_read_callback :: "(access_info \<Rightarrow> ('s, unit) act) option"

definition call_pre :: "(access_info \<Rightarrow> ('s, bool) act) option \<Rightarrow> access_info \<Rightarrow> ('s, bool) act" where
  "call_pre cb t = (case cb of None \<Rightarrow> ret True | Some f \<Rightarrow> f t)"

definition call_post :: "(access_info \<Rightarrow> ('s, unit) act) option \<Rightarrow> access_info \<Rightarrow> ('s, unit) act" where
  "call_post cb t = (case cb of None \<Rightarrow> ret () | Some f \<Rightarrow> f t)"

text \<open>The checks at the start of \<open>read\<close> and \<open>write\<close>; the sum is one of 64-bit integers.\<close>

definition range_admits :: "RegisterRange \<Rightarrow> u64 \<Rightarrow> nat \<Rightarrow> bool" where
  "range_admits r addr len \<longleftrightarrow>
     range_contains r addr \<and> to_local r addr + of_nat len \<le> of_nat (length (range_mem r))"

definition copy_in :: "'s mapped_range \<Rightarrow> nat \<Rightarrow> u8 list \<Rightarrow> ('s, unit) act" where
  "copy_in b off src = (\<lambda>s. case array_write off src (range_mem (the_range b s)) of
     None \<Rightarrow> (Fail OutOfRange, s)
   | Some xs \<Rightarrow> (Ok (), upd_range b (\<lambda>r. r\<lparr>range_mem := xs\<rparr>) s))"

definition copy_out :: "'s mapped_range \<Rightarrow> nat \<Rightarrow> nat \<Rightarrow> ('s, u8 list) act" where
  "copy_out b off len = (\<lambda>s. case array_read off len (range_mem (the_range b s)) of
     None \<Rightarrow> (Fail OutOfRange, s)
   | Some bs \<Rightarrow> (Ok bs, s))"

definition range_write ::
    "'s mapped_range \<Rightarrow> u64 \<Rightarrow> u8 list \<Rightarrow> tlm_generic_payload \<Rightarrow> nat \<Rightarrow> ('s, unit) act" where
  "range_write b addr src tr delay =
     bindM (getsM (the_range b)) (\<lambda>r.
       let off = to_local r addr;
           t = \<lparr>info_addr = off, info_size = length src, info_trans = tr, info_delay = delay\<rparr> in
       seqM (assertM (\<lambda>_. range_admits r addr (length src)))
         (bindM (call_pre (pre_write_callback b) t) (\<lambda>go.
            if go then seqM (copy_in b (unat off) src) (call_post (post_write_callback b) t)
            else ret ())))"

text \<open>A read that the callback refuses leaves the destination as it was.\<close>

definition range_read ::
    "'s mapped_range \<Rightarrow> u64 \<Rightarrow> u8 list \<Rightarrow> tlm_generic_payload \<Rightarrow> nat \<Rightarrow> ('s, u8 list) act" where
  "range_read b addr dst tr delay =
     bindM (getsM (the_range b)) (\<lambda>r.
       let off = to_local r addr;
           t = \<lparr>info_addr = off, info_size = length dst, info_trans = tr, info_delay = delay\<rparr> in
       seqM (assertM (\<lambda>_. range_admits r addr (length dst)))
         (bindM (call_pre (pre_read_callback b) t) (\<lambda>go.
            if go then bindM (copy_out b (unat off) (length dst)) (\<lambda>bs.
                         seqM (call_post (post_read_callback b) t) (ret bs))
            else ret dst)))"

definition ensure :: "('s \<Rightarrow> bool) \<Rightarrow> ('s, unit) act" where
  "ensure P = (\<lambda>s. if P s then (Ok (), s) else (Fail RuntimeError, s))"

definition aligned_to :: "RegisterRange \<Rightarrow> tlm_generic_payload \<Rightarrow> bool" where
  "aligned_to r tr \<longleftrightarrow> address tr mod range_alignment r = 0 \<and> of_nat (length (data_ptr tr)) mod range_alignment r = 0"

definition range_process :: "'s mapped_range \<Rightarrow> 's tlm_target" where
  "range_process b tr delay =
     (let addr = address tr in
      seqM (ensure (\<lambda>s. aligned_to (the_range b s) tr))
        (case command tr of
           TLM_READ_COMMAND \<Rightarrow>
             bindM (range_read b addr (data_ptr tr) tr delay) (\<lambda>bs. ret (tr\<lparr>data_ptr := bs\<rparr>, delay))
         | TLM_WRITE_COMMAND \<Rightarrow>
             seqM (ensure (\<lambda>s. \<not> range_readonly (the_range b s)))
               (seqM (range_write b addr (data_ptr tr) tr delay) (ret (tr, delay)))
         | TLM_IGNORE_COMMAND \<Rightarrow> failM RuntimeError))"

text \<open>\<open>vp::mm::route\<close>\<close>

primrec mm_route :: "'s mapped_range list \<Rightarrow> 's tlm_target" where
  "mm_route [] tr delay = failM RuntimeError"
| "mm_route (b # bs) tr delay =
     (\<lambda>s. if range_contains (the_range b s) (address tr) then range_process b tr delay s
          else mm_route bs tr delay s)"

lemma mm_route_nth:
  assumes "i < length bs" and "range_contains (the_range (bs ! i) s) (address tr)"
    and "\<And>j. j < i \<Longrightarrow> \<not> range_contains (the_range (bs ! j) s) (address tr)"
  shows "mm_route bs tr delay s = range_process (bs ! i) tr delay s"
  using assms
proof (induction bs arbitrary: i)
  case (Cons b bs)
  show ?case
  proof (cases i)
    case 0
    with Cons.prems(2) show ?thesis by simp
  next
    case (Suc k)
    have "\<not> range_contains (the_range (bs ! j) s) (address tr)" if "j < k" for j
      using Cons.prems(3) [of "Suc j"] that Suc by simp
    with Cons.IH [of k] Cons.prems(1,2) Cons.prems(3) [of 0] Suc show ?thesis by simp
  qed
qed simp

section \<open>Views of the bytes as integers\<close>

text \<open>
  \<open>IntegerView\<close> and \<open>ArrayView\<close> read and write elements of \<open>n\<close> bytes; \<open>in_view\<close> is the check of
  \<open>operator[]\<close>, which \<open>operator()\<close> leaves out.
\<close>

definition view_size :: "nat \<Rightarrow> RegisterRange \<Rightarrow> nat" where
  "view_size n r = length (range_mem r) div n"

definition in_view :: "nat \<Rightarrow> RegisterRange \<Rightarrow> nat \<Rightarrow> bool" where
  "in_view n r i \<longleftrightarrow> i < view_size n r"

definition elem :: "nat \<Rightarrow> RegisterRange \<Rightarrow> nat \<Rightarrow> u64" where
  "elem n r i = of_bytes (take n (drop (n * i) (range_mem r)))"

definition set_elem :: "nat \<Rightarrow> nat \<Rightarrow> u64 \<Rightarrow> RegisterRange \<Rightarrow> RegisterRange" where
  "set_elem n i v r =
     r\<lparr>range_mem := take (n * i) (range_mem r) @ to_bytes n v @ drop (n * i + n) (range_mem r)\<rparr>"

definition at_view :: "nat \<Rightarrow> ('s \<Rightarrow> RegisterRange) \<Rightarrow> nat \<Rightarrow> ('s, u64) act" where
  "at_view n get i = (\<lambda>s. if in_view n (get s) i then (Ok (elem n (get s) i), s) else (Fail AssertionFailed, s))"

definition set_at_view ::
    "nat \<Rightarrow> ('s \<Rightarrow> RegisterRange) \<Rightarrow> ((RegisterRange \<Rightarrow> RegisterRange) \<Rightarrow> 's \<Rightarrow> 's) \<Rightarrow> nat \<Rightarrow> u64 \<Rightarrow> ('s, unit) act" where
  "set_at_view n get upd i v =
     (\<lambda>s. if in_view n (get s) i then (Ok (), upd (set_elem n i v) s) else (Fail AssertionFailed, s))"

text \<open>\<open>operator()\<close> indexes a row of \<open>RowSize\<close> elements; every view of the program has \<open>RowSize\<close> 1.\<close>

definition row_index :: "nat \<Rightarrow> nat \<Rightarrow> nat" where
  "row_index idx row_idx = idx * 1 + row_idx"

text \<open>The iterators of a view: \<open>end()\<close> is the address of the last element, which a loop leaves out.\<close>

definition view_iterates :: "nat \<Rightarrow> RegisterRange \<Rightarrow> nat list" where
  "view_iterates n r = [0..<view_size n r - 1]"

subsection \<open>Laws of the views\<close>

lemma in_view_bound: "in_view n r i \<Longrightarrow> n * i + n \<le> length (range_mem r)"
proof -
  assume "in_view n r i"
  then have "Suc i \<le> length (range_mem r) div n" by (simp add: in_view_def view_size_def)
  then have "n * Suc i \<le> n * (length (range_mem r) div n)" by (rule mult_le_mono2)
  also have "\<dots> \<le> length (range_mem r)" by simp
  finally show ?thesis by simp
qed

lemma length_set_elem [simp]: "in_view n r i \<Longrightarrow> length (range_mem (set_elem n i v r)) = length (range_mem r)"
  using in_view_bound [of n r i] by (simp add: set_elem_def)

lemma in_view_set_elem [simp]: "in_view n r i \<Longrightarrow> in_view m (set_elem n i v r) j = in_view m r j"
  by (simp add: in_view_def view_size_def)

lemma set_elem_fields [simp]:
  "range_start (set_elem n i v r) = range_start r" "range_end (set_elem n i v r) = range_end r"
  "range_readonly (set_elem n i v r) = range_readonly r"
  "range_alignment (set_elem n i v r) = range_alignment r"
  by (simp_all add: set_elem_def)

lemma set_elem_write:
  "in_view n r i \<Longrightarrow> array_write (n * i) (to_bytes n v) (range_mem r) = Some (range_mem (set_elem n i v r))"
  using in_view_bound [of n r i] by (simp add: array_write_def set_elem_def)

lemma elem_read: "in_view n r i \<Longrightarrow> array_read (n * i) n (range_mem r) = Some (take n (drop (n * i) (range_mem r)))"
  using in_view_bound [of n r i] by (simp add: array_read_def)

lemma elem_set_same: "in_view n r i \<Longrightarrow> elem n (set_elem n i v r) i = take_bit (8 * n) v"
  using in_view_bound [of n r i] by (simp add: elem_def set_elem_def of_to_bytes)

lemma elem_set_other:
  assumes "in_view n r i" and "in_view n r j" and "i \<noteq> j"
  shows "elem n (set_elem n i v r) j = elem n r j"
proof -
  have "n * j + n \<le> n * i \<or> n * i + n \<le> n * j"
  proof (cases "j < i")
    case True
    then have "n * Suc j \<le> n * i" by (intro mult_le_mono2) simp
    then show ?thesis by simp
  next
    case False
    with assms(3) have "n * Suc i \<le> n * j" by (intro mult_le_mono2) simp
    then show ?thesis by simp
  qed
  then have "array_read (n * j) n (range_mem (set_elem n i v r)) = array_read (n * j) n (range_mem r)"
    using host_array.rd_wr_other [OF set_elem_write [OF assms(1)], of "n * j" n v] by simp
  then show ?thesis using elem_read [of n r j] elem_read [of n "set_elem n i v r" j] assms(1,2)
    by (simp add: elem_def)
qed

lemma elem_set:
  "in_view n r i \<Longrightarrow> in_view n r j \<Longrightarrow>
     elem n (set_elem n i v r) j = (if j = i then take_bit (8 * n) v else elem n r j)"
  by (simp add: elem_set_same elem_set_other)

lemma of_bytes_bound: "take_bit (8 * length bs) (of_bytes bs) = of_bytes bs"
proof (induction bs)
  case (Cons b bs)
  have "take_bit (8 + 8 * length bs) (push_bit 8 (of_bytes bs)) = push_bit 8 (take_bit (8 * length bs) (of_bytes bs))"
    by (rule bit_word_eqI) (auto simp: bit_simps)
  moreover have "take_bit (8 + 8 * length bs) (ucast b :: u64) = ucast b"
    by (rule bit_word_eqI) (auto simp: bit_simps dest: bit_imp_le_length)
  ultimately show ?case by (simp add: Cons)
qed simp

lemma elem_bound: "in_view n r i \<Longrightarrow> take_bit (8 * n) (elem n r i) = elem n r i"
  using of_bytes_bound [of "take n (drop (n * i) (range_mem r))"] in_view_bound [of n r i]
  by (simp add: elem_def min.absorb2)

lemma set_elem_same: "n \<le> 8 \<Longrightarrow> in_view n r i \<Longrightarrow> set_elem n i (elem n r i) r = r"
proof -
  assume n: "n \<le> 8" "in_view n r i"
  let ?b = "take n (drop (n * i) (range_mem r))"
  have l: "length ?b = n" using in_view_bound [OF n(2)] by simp
  have "take (n * i) (range_mem r) @ ?b @ drop (n * i + n) (range_mem r) = range_mem r"
    by (metis append_take_drop_id drop_drop add.commute)
  moreover have "to_bytes n (elem n r i) = ?b" using to_of_bytes [of ?b] n(1) l by (simp add: elem_def)
  ultimately show ?thesis by (simp add: set_elem_def)
qed

section \<open>Accesses of a range\<close>

text \<open>
  A range of a peripheral is a member of its state; what an access relies on is that updating the
  member is seen when it is read again. Writes and reads of a range are then the ones of its bytes,
  with the callbacks before and after.
\<close>

definition range_fits :: "RegisterRange \<Rightarrow> u64 \<Rightarrow> nat \<Rightarrow> bool" where
  "range_fits r addr len \<longleftrightarrow> range_contains r addr \<and> length (range_mem r) < 2 ^ 64 \<and>
     unat (to_local r addr) + len \<le> length (range_mem r)"

lemma range_fits_admits: "range_fits r addr len \<Longrightarrow> range_admits r addr len"
proof -
  assume r: "range_fits r addr len"
  then have "unat (to_local r addr + of_nat len :: u64) = unat (to_local r addr) + len"
    by (simp add: range_fits_def unat_word_ariths unat_of_nat take_bit_nat_eq_self)
  with r show ?thesis
    by (simp add: range_admits_def range_fits_def word_le_nat_alt unat_of_nat take_bit_nat_eq_self)
qed

definition info_of :: "RegisterRange \<Rightarrow> tlm_generic_payload \<Rightarrow> nat \<Rightarrow> access_info" where
  "info_of r tr delay = \<lparr>info_addr = to_local r (address tr), info_size = length (data_ptr tr),
     info_trans = tr, info_delay = delay\<rparr>"

lemma range_process_write:
  assumes "command tr = TLM_WRITE_COMMAND" and "aligned_to (the_range b s) tr"
    and "\<not> range_readonly (the_range b s)" and "range_fits (the_range b s) (address tr) (length (data_ptr tr))"
    and "pre_write_callback b = None"
    and "array_write (unat (to_local (the_range b s) (address tr))) (data_ptr tr) (range_mem (the_range b s)) = Some xs"
  shows "range_process b tr delay s =
    seqM (call_post (post_write_callback b) (info_of (the_range b s) tr delay)) (ret (tr, delay))
      (upd_range b (\<lambda>r. r\<lparr>range_mem := xs\<rparr>) s)"
  using assms range_fits_admits [OF assms(4)]
  by (simp add: range_process_def range_write_def ensure_def seqM_def bindM_def assertM_def
      call_pre_def copy_in_def info_of_def Let_def)

lemma range_process_read:
  assumes "command tr = TLM_READ_COMMAND" and "aligned_to (the_range b s) tr"
    and "range_fits (the_range b s) (address tr) (length (data_ptr tr))"
    and "call_pre (pre_read_callback b) (info_of (the_range b s) tr delay) s = (Ok True, s')"
    and "post_read_callback b = None"
    and "array_read (unat (to_local (the_range b s) (address tr))) (length (data_ptr tr)) (range_mem (the_range b s')) = Some bs"
  shows "range_process b tr delay s = (Ok (tr\<lparr>data_ptr := bs\<rparr>, delay), s')"
  using assms range_fits_admits [OF assms(3)]
  by (simp add: range_process_def range_read_def ensure_def seqM_def bindM_def assertM_def
      call_post_def copy_out_def info_of_def Let_def)

text \<open>A write of one whole element of a view.\<close>

lemma elem_write:
  assumes "command tr = TLM_WRITE_COMMAND" and "data_ptr tr = to_bytes n v"
    and "address tr = range_start (the_range b s) + of_nat (n * i)"
    and "in_view n (the_range b s) i" and "range_contains (the_range b s) (address tr)"
    and "aligned_to (the_range b s) tr" and "\<not> range_readonly (the_range b s)"
    and "length (range_mem (the_range b s)) < 2 ^ 64" and "pre_write_callback b = None"
  shows "range_process b tr delay s =
    seqM (call_post (post_write_callback b) (info_of (the_range b s) tr delay)) (ret (tr, delay))
      (upd_range b (\<lambda>r. r\<lparr>range_mem := range_mem (set_elem n i v (the_range b s))\<rparr>) s)"
proof -
  have "n * i < 2 ^ 64" using in_view_bound [OF assms(4)] assms(8) by linarith
  then have off: "unat (to_local (the_range b s) (address tr)) = n * i"
    using assms(3) by (simp add: to_local_def unat_of_nat take_bit_nat_eq_self del: of_nat_mult)
  have "range_fits (the_range b s) (address tr) (length (data_ptr tr))"
    using in_view_bound [OF assms(4)] assms(2,5,8) off by (simp add: range_fits_def)
  from range_process_write [OF assms(1,6,7) this assms(9)] show ?thesis
    using set_elem_write [OF assms(4)] assms(2) off by simp
qed

lemma range_process_denied:
  "command tr = TLM_WRITE_COMMAND \<Longrightarrow> range_readonly (the_range b s) \<or> \<not> aligned_to (the_range b s) tr \<Longrightarrow>
     range_process b tr delay s = (Fail RuntimeError, s)"
  by (auto simp: range_process_def ensure_def seqM_def bindM_def Let_def)

locale range_member =
  fixes b :: "'s mapped_range"
  assumes get_upd: "the_range b (upd_range b f s) = f (the_range b s)"
begin

text \<open>
  For a range without callbacks that interfere, a read returns the last write of its bytes.
\<close>

lemma write_then_read:
  assumes "aligned_to (the_range b s) tr" and "\<not> range_readonly (the_range b s)"
    and "range_fits (the_range b s) (address tr) (length (data_ptr tr))"
    and "pre_write_callback b = None" and "pre_read_callback b = None" and "post_read_callback b = None"
    and post: "\<And>t s. \<exists>s'. call_post (post_write_callback b) t s = (Ok (), s') \<and> the_range b s' = the_range b s"
    and "length dst = length (data_ptr tr)"
  shows "\<exists>s'. range_process b (tr\<lparr>command := TLM_WRITE_COMMAND\<rparr>) d s = (Ok (tr\<lparr>command := TLM_WRITE_COMMAND\<rparr>, d), s') \<and>
    range_process b (tr\<lparr>command := TLM_READ_COMMAND, data_ptr := dst\<rparr>) d' s' =
      (Ok (tr\<lparr>command := TLM_READ_COMMAND\<rparr>, d'), s')"
proof -
  let ?r = "the_range b s" and ?off = "unat (to_local (the_range b s) (address tr))"
  let ?w = "tr\<lparr>command := TLM_WRITE_COMMAND\<rparr>" and ?rd = "tr\<lparr>command := TLM_READ_COMMAND, data_ptr := dst\<rparr>"
  obtain xs where xs: "array_write ?off (data_ptr tr) (range_mem ?r) = Some xs"
    using assms(3) by (simp add: array_write_def range_fits_def)
  let ?s = "upd_range b (\<lambda>r. r\<lparr>range_mem := xs\<rparr>) s"
  obtain s' where s': "call_post (post_write_callback b) (info_of ?r ?w d) ?s = (Ok (), s')"
      "the_range b s' = ?r\<lparr>range_mem := xs\<rparr>"
    using post [of "info_of ?r ?w d" ?s] get_upd by auto
  have "range_process b ?w d s = (Ok (?w, d), s')"
    using range_process_write [of ?w b s xs d] assms(1-4) xs s'(1)
    by (simp add: aligned_to_def seqM_def bindM_def)
  moreover have "array_read ?off (length dst) xs = Some (data_ptr tr)"
    using host_array.rd_wr_same [OF xs] assms(8) by simp
  then have "range_process b ?rd d' s' = (Ok (?rd\<lparr>data_ptr := data_ptr tr\<rparr>, d'), s')"
    using assms(1,3,5,6,8) s'(2) array_write_length [OF xs]
    by (intro range_process_read)
      (auto simp: aligned_to_def range_fits_def range_contains_def to_local_def call_pre_def)
  ultimately show ?thesis by auto
qed

end

section \<open>Invariants of a peripheral with register ranges\<close>

text \<open>The layout of a range: everything but the values of its bytes.\<close>

definition range_shape :: "RegisterRange \<Rightarrow> u64 \<times> u64 \<times> bool \<times> u64 \<times> nat" where
  "range_shape r = (range_start r, range_end r, range_readonly r, range_alignment r, length (range_mem r))"

lemma range_shape_set_elem [simp]: "in_view n r i \<Longrightarrow> range_shape (set_elem n i v r) = range_shape r"
  by (simp add: range_shape_def)

lemma range_shape_mem [simp]:
  "length xs = length (range_mem r) \<Longrightarrow> range_shape (r\<lparr>range_mem := xs\<rparr>) = range_shape r"
  by (simp add: range_shape_def)

lemma in_view_shape: "range_shape r = (st, en, ro, al, n * k) \<Longrightarrow> 0 < n \<Longrightarrow> in_view n r i \<longleftrightarrow> i < k"
  by (simp add: range_shape_def in_view_def view_size_def)

lemma preserves_at_view [preserves_intros]: "preserves I (at_view n get i)"
  by (simp add: preserves_def at_view_def)

lemma preserves_set_at_view [preserves_intros]:
  "(\<And>s. I s \<Longrightarrow> in_view n (get s) i \<Longrightarrow> I (upd (set_elem n i v) s)) \<Longrightarrow> preserves I (set_at_view n get upd i v)"
  by (simp add: preserves_def set_at_view_def)

lemma preserves_ensure [preserves_intros]: "preserves I (ensure P)"
  by (simp add: preserves_def ensure_def)

text \<open>
  An invariant that depends on the layout of a range, but not on its bytes, is kept by every access
  if the callbacks keep it.
\<close>

locale range_invariant =
  fixes I :: "'s \<Rightarrow> bool" and b :: "'s mapped_range"
  assumes upd_mem: "I s \<Longrightarrow> length xs = length (range_mem (the_range b s)) \<Longrightarrow>
      I (upd_range b (\<lambda>r. r\<lparr>range_mem := xs\<rparr>) s)"
    and pre_write: "pre_write_callback b = Some f \<Longrightarrow> preserves I (f t)"
    and post_write: "post_write_callback b = Some g \<Longrightarrow> preserves I (g t)"
    and pre_read: "pre_read_callback b = Some f \<Longrightarrow> preserves I (f t)"
    and post_read: "post_read_callback b = Some g \<Longrightarrow> preserves I (g t)"
begin

lemma callbacks:
  "preserves I (call_pre (pre_write_callback b) t)" "preserves I (call_post (post_write_callback b) t)"
  "preserves I (call_pre (pre_read_callback b) t)" "preserves I (call_post (post_read_callback b) t)"
  using pre_write post_write pre_read post_read
  by (auto simp: call_pre_def call_post_def intro: preserves_ret split: option.split)

lemma copying: "preserves I (copy_in b off src)" "preserves I (copy_out b off n)"
  using upd_mem by (auto simp: preserves_def copy_in_def copy_out_def array_write_length split: option.split)

lemma process_preserves: "preserves I (range_process b tr delay)"
proof -
  have "preserves I (range_write b addr src tr delay)" for addr src
    unfolding range_write_def Let_def by (intro preserves_intros callbacks copying)
  moreover have "preserves I (range_read b addr dst tr delay)" for addr dst
    unfolding range_read_def Let_def by (intro preserves_intros callbacks copying)
  ultimately show ?thesis
    unfolding range_process_def Let_def by (cases "command tr") (auto intro!: preserves_intros)
qed

lemma route_preserves: "preserves I (mm_route bs tr delay) \<Longrightarrow> preserves I (mm_route (b # bs) tr delay)"
  using process_preserves [of tr delay] by (simp add: preserves_def)

end

lemma route_nil_preserves: "preserves I (mm_route [] tr delay)"
  by (simp add: preserves_def)

end
