(* ===== verification/IrqIf.thy ===== *)
theory IrqIf
  imports Prelude
begin

text \<open>
  The interfaces between the interrupt controllers and their environment (\<open>core/common/irq_if.h\<close>)
  and the events of the SystemC kernel they wait for.
\<close>

section \<open>Events\<close>

text \<open>
  An event has at most one pending notification, here the instant in picoseconds at which it
  fires; of two notifications the earlier one stays.
\<close>

type_synonym sc_event = "nat option"

definition notify :: "nat \<Rightarrow> nat \<Rightarrow> sc_event \<Rightarrow> sc_event" where
  "notify now delay e = Some (case e of None \<Rightarrow> now + delay | Some t \<Rightarrow> min t (now + delay))"

lemma notify_le: "\<exists>t. notify now d e = Some t \<and> t \<le> now + d"
  by (simp add: notify_def split: option.split)

lemma notify_keeps: "e = Some t \<Longrightarrow> \<exists>t'. notify now d e = Some t' \<and> t' \<le> t"
  by (simp add: notify_def)

lemma notify_gt: "(\<forall>t. e = Some t \<longrightarrow> n \<le> t) \<Longrightarrow> n \<le> now + d \<Longrightarrow> notify now d e = Some t \<Longrightarrow> n \<le> t"
  by (auto simp: notify_def split: option.splits)

section \<open>Interrupt targets\<close>

record 'h clint_interrupt_target =
  trigger_timer :: "bool \<Rightarrow> 'h \<Rightarrow> 'h"
  trigger_software :: "bool \<Rightarrow> 'h \<Rightarrow> 'h"

record 'h external_interrupt_target =
  trigger_external :: "u32 \<Rightarrow> 'h \<Rightarrow> 'h"
  clear_external :: "u32 \<Rightarrow> 'h \<Rightarrow> 'h"

text \<open>The array of targets of a controller; an index outside it is undefined behaviour of the code.\<close>

definition upd_nth :: "nat \<Rightarrow> ('h \<Rightarrow> 'h) \<Rightarrow> 'h list \<Rightarrow> 'h list" where
  "upd_nth i f xs = xs[i := f (xs ! i)]"

lemma length_upd_nth [simp]: "length (upd_nth i f xs) = length xs"
  by (simp add: upd_nth_def)

lemma upd_nth_Nil [simp]: "upd_nth i f xs = [] \<longleftrightarrow> xs = []"
  by (simp add: upd_nth_def)

lemma nth_upd_nth: "j < length xs \<Longrightarrow> upd_nth i f xs ! j = (if i = j then f (xs ! j) else xs ! j)"
  by (auto simp: upd_nth_def nth_list_update)

text \<open>The controllers run through their targets in order.\<close>

lemma seqs_append: "seqs (xs @ [m]) = seqM (seqs xs) m"
proof (induction xs)
  case Nil
  show ?case by (rule ext) (simp add: seqM_def bindM_def split: prod.split outcome.split)
next
  case (Cons x xs)
  then show ?case by (simp add: seqM_def bindM_assoc)
qed

text \<open>What a controller relies on: each call sets its own line of the hart and no other.\<close>

locale clint_target =
  fixes tgt :: "'h clint_interrupt_target"
    and timer_line :: "'h \<Rightarrow> bool"
    and software_line :: "'h \<Rightarrow> bool"
  assumes timer_timer [simp]: "timer_line (trigger_timer tgt b h) = b"
    and timer_software [simp]: "timer_line (trigger_software tgt b h) = timer_line h"
    and software_timer [simp]: "software_line (trigger_timer tgt b h) = software_line h"
    and software_software [simp]: "software_line (trigger_software tgt b h) = b"

locale external_target =
  fixes tgt :: "'h external_interrupt_target"
    and line :: "u32 \<Rightarrow> 'h \<Rightarrow> bool"
    and level_ok :: "u32 \<Rightarrow> bool"
  assumes line_trigger: "level_ok l \<Longrightarrow> line l (trigger_external tgt l h)"
    and line_clear: "level_ok l \<Longrightarrow> \<not> line l (clear_external tgt l h)"
    and line_other: "level_ok l \<Longrightarrow> level_ok l' \<Longrightarrow> l \<noteq> l' \<Longrightarrow>
      line l' (trigger_external tgt l h) = line l' h \<and> line l' (clear_external tgt l h) = line l' h"

end
