(* ===== verification/Clint.thy ===== *)
theory Clint
  imports RegMap IrqIf
begin

text \<open>
  \<open>core/common/clint.h\<close>: the core local interruptor in simulation time. It keeps \<open>mtime\<close>, one
  \<open>mtimecmp\<close> and one \<open>msip\<close> register per hart, and drives the timer and software interrupt lines
  of the harts. \<open>'h\<close> is the type of the harts and \<open>tgt\<close> their interrupt interface.
\<close>

unbundle bit_operations_syntax

section \<open>State\<close>

record 'h CLINT =
  regs_mtime :: RegisterRange
  regs_mtimecmp :: RegisterRange
  regs_msip :: RegisterRange
  irq_event :: sc_event
  target_harts :: "'h list"
  sim_time :: nat

definition clint_scaler :: u64 where
  "clint_scaler = 1000000"

definition clint_clock_cycle :: nat where
  "clint_clock_cycle = 10000"

definition CLINT_init :: "'h list \<Rightarrow> nat \<Rightarrow> 'h CLINT" where
  "CLINT_init hs now =
     \<lparr>regs_mtime = (RegisterRange_init 0xBFF8 8)\<lparr>range_alignment := 4\<rparr>,
      regs_mtimecmp = (RegisterRange_init 0x4000 (8 * of_nat (length hs)))\<lparr>range_alignment := 4\<rparr>,
      regs_msip = (RegisterRange_init 0x0 (4 * of_nat (length hs)))\<lparr>range_alignment := 4\<rparr>,
      irq_event = None, target_harts = hs, sim_time = now\<rparr>"

definition mtime :: "'h CLINT \<Rightarrow> u64" where
  "mtime s = elem 8 (regs_mtime s) 0"

definition set_mtime :: "u64 \<Rightarrow> 'h CLINT \<Rightarrow> 'h CLINT" where
  "set_mtime v s = s\<lparr>regs_mtime := set_elem 8 0 v (regs_mtime s)\<rparr>"

definition mtimecmp :: "'h CLINT \<Rightarrow> nat \<Rightarrow> u64" where
  "mtimecmp s i = elem 8 (regs_mtimecmp s) i"

definition on_hart :: "nat \<Rightarrow> ('h \<Rightarrow> 'h) \<Rightarrow> ('h CLINT, unit) act" where
  "on_hart i f = (\<lambda>s. if i < length (target_harts s) then (Ok (), s\<lparr>target_harts := upd_nth i f (target_harts s)\<rparr>)
                      else (Fail OutOfRange, s))"

section \<open>Operations\<close>

text \<open>The time does not go backward here, e.g. due to the local quantums of transactions.\<close>

definition clint_update_and_get_mtime :: "('h CLINT, u64) act" where
  "clint_update_and_get_mtime s =
     (let now = of_nat (sim_time s) div clint_scaler;
          s' = (if now > mtime s then set_mtime now s else s) in
      (Ok (mtime s'), s'))"

definition clint_notify :: "nat \<Rightarrow> 'h CLINT \<Rightarrow> 'h CLINT" where
  "clint_notify delay s = s\<lparr>irq_event := notify (sim_time s) delay (irq_event s)\<rparr>"

text \<open>The body of the loop over the harts; the delay is a difference of 64-bit times.\<close>

definition clint_check_hart :: "'h clint_interrupt_target \<Rightarrow> nat \<Rightarrow> ('h CLINT, unit) act" where
  "clint_check_hart tgt i =
     bindM (at_view 8 regs_mtimecmp i) (\<lambda>cmp.
     bindM (getsM mtime) (\<lambda>now.
       if cmp > 0 \<and> now \<ge> cmp then on_hart i (trigger_timer tgt True)
       else seqM (on_hart i (trigger_timer tgt False))
              (if cmp > 0 \<and> cmp < - 1
               then modifyM (clint_notify (unat (cmp * clint_scaler - now * clint_scaler)))
               else ret ())))"

definition clint_run_body :: "'h clint_interrupt_target \<Rightarrow> ('h CLINT, unit) act" where
  "clint_run_body tgt =
     bindM clint_update_and_get_mtime (\<lambda>_.
     bindM (getsM (\<lambda>s. length (target_harts s))) (\<lambda>n. seqs (map (clint_check_hart tgt) [0..<n])))"

text \<open>One round of the thread: it waits for the event, at whose instant it continues.\<close>

definition clint_run_round :: "'h clint_interrupt_target \<Rightarrow> ('h CLINT, unit) act" where
  "clint_run_round tgt s = (case irq_event s of
     None \<Rightarrow> (Blocked, s)
   | Some t \<Rightarrow> clint_run_body tgt (s\<lparr>sim_time := t, irq_event := None\<rparr>))"

definition pre_read_mtime :: "access_info \<Rightarrow> ('h CLINT, bool) act" where
  "pre_read_mtime t s = (Ok True, set_mtime (of_nat (sim_time s + info_delay t) div clint_scaler) s)"

definition post_write_mtimecmp :: "access_info \<Rightarrow> ('h CLINT, unit) act" where
  "post_write_mtimecmp t = modifyM (clint_notify (info_delay t))"

definition post_write_msip :: "'h clint_interrupt_target \<Rightarrow> access_info \<Rightarrow> ('h CLINT, unit) act" where
  "post_write_msip tgt t =
     seqM (assertM (\<lambda>_. info_addr t mod 4 = 0))
       (let idx = unat (info_addr t div 4) in
        bindM (at_view 4 regs_msip idx) (\<lambda>v.
        seqM (set_at_view 4 regs_msip regs_msip_update idx (v AND 1))
        (bindM (at_view 4 regs_msip idx) (\<lambda>v'. on_hart idx (trigger_software tgt (v' \<noteq> 0))))))"

definition range_mtime :: "'h CLINT mapped_range" where
  "range_mtime = \<lparr>the_range = regs_mtime, upd_range = regs_mtime_update, pre_write_callback = None,
     post_write_callback = None, pre_read_callback = Some pre_read_mtime, post_read_callback = None\<rparr>"

definition range_mtimecmp :: "'h CLINT mapped_range" where
  "range_mtimecmp = \<lparr>the_range = regs_mtimecmp, upd_range = regs_mtimecmp_update, pre_write_callback = None,
     post_write_callback = Some post_write_mtimecmp, pre_read_callback = None, post_read_callback = None\<rparr>"

definition range_msip :: "'h clint_interrupt_target \<Rightarrow> 'h CLINT mapped_range" where
  "range_msip tgt = \<lparr>the_range = regs_msip, upd_range = regs_msip_update, pre_write_callback = None,
     post_write_callback = Some (post_write_msip tgt), pre_read_callback = None, post_read_callback = None\<rparr>"

definition clint_transport :: "'h clint_interrupt_target \<Rightarrow> 'h CLINT tlm_target" where
  "clint_transport tgt tr delay =
     mm_route [range_mtime, range_mtimecmp, range_msip tgt] tr (delay + 2 * clint_clock_cycle)"

section \<open>Well-formed states\<close>

text \<open>The layout of the registers, as the constructor leaves it.\<close>

definition clint_wf :: "'h CLINT \<Rightarrow> bool" where
  "clint_wf s \<longleftrightarrow> (let n = length (target_harts s) in 0 < n \<and> n < 4096 \<and>
     range_shape (regs_mtime s) = (0xBFF8, 0xBFFF, False, 4, 8) \<and>
     range_shape (regs_mtimecmp s) = (0x4000, 0x4000 + 8 * of_nat n - 1, False, 4, 8 * n) \<and>
     range_shape (regs_msip s) = (0, 4 * of_nat n - 1, False, 4, 4 * n))"

lemma clint_init_wf: "hs \<noteq> [] \<Longrightarrow> length hs < 4096 \<Longrightarrow> clint_wf (CLINT_init hs now)"
proof -
  assume l: "hs \<noteq> []" "length hs < 4096"
  have "unat (of_nat (length hs) :: u64) = length hs"
    using l by (simp add: unat_of_nat take_bit_nat_eq_self)
  with l have "unat (8 * of_nat (length hs) :: u64) = 8 * length hs" "unat (4 * of_nat (length hs) :: u64) = 4 * length hs"
    by (simp_all add: unat_mult_lem [THEN iffD1])
  with l show ?thesis by (simp add: clint_wf_def CLINT_init_def RegisterRange_init_def range_shape_def)
qed

lemma clint_wf_views:
  assumes "clint_wf s"
  shows "in_view 8 (regs_mtime s) i \<longleftrightarrow> i < 1" and "in_view 8 (regs_mtimecmp s) i \<longleftrightarrow> i < length (target_harts s)"
    and "in_view 4 (regs_msip s) i \<longleftrightarrow> i < length (target_harts s)"
  using assms in_view_shape [of "regs_mtime s" "0xBFF8" "0xBFFF" False 4 8 1 i]
    in_view_shape [of "regs_mtimecmp s" "0x4000" _ False 4 8 "length (target_harts s)" i]
    in_view_shape [of "regs_msip s" 0 _ False 4 4 "length (target_harts s)" i]
  by (auto simp: clint_wf_def Let_def)

lemma set_mtime_simps [simp]:
  "regs_mtimecmp (set_mtime v s) = regs_mtimecmp s" "regs_msip (set_mtime v s) = regs_msip s"
  "irq_event (set_mtime v s) = irq_event s" "target_harts (set_mtime v s) = target_harts s"
  "sim_time (set_mtime v s) = sim_time s" "mtimecmp (set_mtime v s) i = mtimecmp s i"
  by (simp_all add: set_mtime_def mtimecmp_def)

lemma set_mtime_wf [simp]: "clint_wf s \<Longrightarrow> clint_wf (set_mtime v s)"
  by (simp add: clint_wf_def set_mtime_def clint_wf_views)

lemma mtime_set_mtime [simp]: "clint_wf s \<Longrightarrow> mtime (set_mtime v s) = v"
  by (simp add: clint_wf_views mtime_def set_mtime_def elem_set_same take_bit_word_eq_self)

section \<open>The timer thread\<close>

definition timer_due :: "'h CLINT \<Rightarrow> nat \<Rightarrow> bool" where
  "timer_due s i \<longleftrightarrow> mtimecmp s i > 0 \<and> mtime s \<ge> mtimecmp s i"

definition timer_armed :: "'h CLINT \<Rightarrow> nat \<Rightarrow> bool" where
  "timer_armed s i \<longleftrightarrow> mtimecmp s i > 0 \<and> mtimecmp s i < - 1"

definition wakeup_delay :: "'h CLINT \<Rightarrow> nat \<Rightarrow> nat" where
  "wakeup_delay s i = unat (mtimecmp s i * clint_scaler - mtime s * clint_scaler)"

text \<open>The harts and the event after the first \<open>n\<close> harts were checked.\<close>

primrec harts_after :: "'h clint_interrupt_target \<Rightarrow> nat \<Rightarrow> 'h CLINT \<Rightarrow> 'h list" where
  "harts_after tgt 0 s = target_harts s"
| "harts_after tgt (Suc n) s = upd_nth n (trigger_timer tgt (timer_due s n)) (harts_after tgt n s)"

primrec event_after :: "nat \<Rightarrow> 'h CLINT \<Rightarrow> sc_event" where
  "event_after 0 s = irq_event s"
| "event_after (Suc n) s =
     (if \<not> timer_due s n \<and> timer_armed s n then notify (sim_time s) (wakeup_delay s n) (event_after n s)
      else event_after n s)"

lemma length_harts_after [simp]: "length (harts_after tgt n s) = length (target_harts s)"
  by (induction n) simp_all

lemma clint_check_hart_eq:
  assumes "clint_wf s" and "i < length (target_harts s)"
  shows "clint_check_hart tgt i s = (Ok (), s\<lparr>
    target_harts := upd_nth i (trigger_timer tgt (timer_due s i)) (target_harts s),
    irq_event := (if \<not> timer_due s i \<and> timer_armed s i then notify (sim_time s) (wakeup_delay s i) (irq_event s)
                  else irq_event s)\<rparr>)"
  using assms
  by (auto simp: clint_check_hart_def clint_wf_views at_view_def on_hart_def timer_due_def timer_armed_def mtimecmp_def
      mtime_def wakeup_delay_def clint_notify_def seqM_def bindM_def)

lemma clint_check_harts:
  assumes "clint_wf s" and "n \<le> length (target_harts s)"
  shows "seqs (map (clint_check_hart tgt) [0..<n]) s =
    (Ok (), s\<lparr>target_harts := harts_after tgt n s, irq_event := event_after n s\<rparr>)"
  using assms(2)
proof (induction n)
  case (Suc n)
  let ?s = "s\<lparr>target_harts := harts_after tgt n s, irq_event := event_after n s\<rparr>"
  have "clint_wf ?s" using assms(1) by (simp add: clint_wf_def)
  moreover have "timer_due ?s n = timer_due s n" "timer_armed ?s n = timer_armed s n" "wakeup_delay ?s n = wakeup_delay s n"
    by (simp_all add: timer_due_def timer_armed_def wakeup_delay_def mtimecmp_def mtime_def)
  ultimately show ?case
    using Suc clint_check_hart_eq [of ?s n tgt] by (simp add: seqs_append seqM_apply)
qed simp

definition mtime_updated :: "'h CLINT \<Rightarrow> 'h CLINT" where
  "mtime_updated s = snd (clint_update_and_get_mtime s)"

lemma mtime_updated_simps [simp]:
  "target_harts (mtime_updated s) = target_harts s" "irq_event (mtime_updated s) = irq_event s"
  "sim_time (mtime_updated s) = sim_time s" "mtimecmp (mtime_updated s) i = mtimecmp s i"
  "clint_wf s \<Longrightarrow> clint_wf (mtime_updated s)"
  by (simp_all add: mtime_updated_def clint_update_and_get_mtime_def Let_def)

lemma mtime_of_updated: "clint_wf s \<Longrightarrow> mtime (mtime_updated s) = max (mtime s) (of_nat (sim_time s) div clint_scaler)"
  by (simp add: mtime_updated_def clint_update_and_get_mtime_def max_def not_less Let_def less_le_not_le)

lemma clint_run_body_eq:
  assumes "clint_wf s"
  shows "clint_run_body tgt s = (Ok (), (mtime_updated s)\<lparr>
    target_harts := harts_after tgt (length (target_harts s)) (mtime_updated s),
    irq_event := event_after (length (target_harts s)) (mtime_updated s)\<rparr>)"
proof -
  have "clint_update_and_get_mtime s = (Ok (mtime (mtime_updated s)), mtime_updated s)"
    by (simp add: mtime_updated_def clint_update_and_get_mtime_def Let_def)
  then show ?thesis
    using clint_check_harts [of "mtime_updated s" "length (target_harts s)" tgt] assms
    by (simp add: clint_run_body_def bindM_apply)
qed

lemma nth_harts_after:
  "j < length (target_harts s) \<Longrightarrow> harts_after tgt n s ! j =
     (if j < n then trigger_timer tgt (timer_due s j) (target_harts s ! j) else target_harts s ! j)"
  by (induction n) (auto simp: nth_upd_nth)

lemma event_after_le:
  "i < n \<Longrightarrow> \<not> timer_due s i \<Longrightarrow> timer_armed s i \<Longrightarrow> \<exists>t. event_after n s = Some t \<and> t \<le> sim_time s + wakeup_delay s i"
proof (induction n)
  case (Suc n)
  show ?case
  proof (cases "i = n")
    case True
    with Suc.prems show ?thesis using notify_le by simp
  next
    case False
    with Suc obtain t where t: "event_after n s = Some t" "t \<le> sim_time s + wakeup_delay s i" by auto
    with notify_keeps [OF t(1), of "sim_time s" "wakeup_delay s n"] show ?thesis by (auto intro: order_trans)
  qed
qed simp

lemma event_after_ge:
  assumes "irq_event s = None"
    and "\<And>i. i < n \<Longrightarrow> \<not> timer_due s i \<Longrightarrow> timer_armed s i \<Longrightarrow> m \<le> sim_time s + wakeup_delay s i"
  shows "event_after n s = Some t \<Longrightarrow> m \<le> t"
  using assms(2)
proof (induction n arbitrary: t)
  case 0
  then show ?case using assms(1) by simp
next
  case (Suc n)
  have IH: "\<forall>t. event_after n s = Some t \<longrightarrow> m \<le> t" using Suc by simp
  show ?case
  proof (cases "\<not> timer_due s n \<and> timer_armed s n")
    case True
    with Suc.prems have "notify (sim_time s) (wakeup_delay s n) (event_after n s) = Some t" by simp
    with notify_gt [OF IH] Suc.prems(2) [of n] True show ?thesis by simp
  next
    case False
    with Suc.prems(1) IH show ?thesis by (simp split: if_splits)
  qed
qed


section \<open>The timer interrupt arrives\<close>

text \<open>
  The comparators of the harts are small enough that no time in picoseconds overflows, and \<open>mtime\<close>
  is not ahead of the simulation time.
\<close>

definition clint_in_time :: "'h CLINT \<Rightarrow> bool" where
  "clint_in_time s \<longleftrightarrow>
     (\<forall>i < length (target_harts s). timer_armed s i \<longrightarrow> (unat (mtimecmp s i) + 1) * 1000000 \<le> 2 ^ 64) \<and>
     unat (mtime s) \<le> sim_time s div 1000000"

lemma scaler_nat [simp]: "unat clint_scaler = 1000000"
  by (simp add: clint_scaler_def)

lemma mtime_round:
  assumes "clint_wf s" and "unat (mtime s) \<le> sim_time s div 1000000" and "sim_time s < 2 ^ 64"
  shows "unat (mtime (mtime_updated s)) = sim_time s div 1000000"
proof -
  have "unat (of_nat (sim_time s) div clint_scaler) = sim_time s div 1000000"
    using assms(3) by (simp add: unat_div unat_of_nat take_bit_nat_eq_self)
  then show ?thesis
    using assms(2) by (simp add: mtime_of_updated [OF assms(1)] max_def word_le_nat_alt)
qed

lemma wakeup_delay_nat:
  assumes "unat (mtimecmp s i) * 1000000 < 2 ^ 64" and "mtime s < mtimecmp s i"
  shows "wakeup_delay s i = (unat (mtimecmp s i) - unat (mtime s)) * 1000000"
proof -
  have l: "unat (mtime s) < unat (mtimecmp s i)" using assms(2) by (simp add: word_less_nat_alt)
  have m: "unat (w * clint_scaler) = unat w * 1000000" if "unat w * 1000000 < 2 ^ 64" for w :: u64
    using that by (simp add: unat_mult_lem [THEN iffD1])
  have "unat (mtime s) * 1000000 < 2 ^ 64" using l assms(1) by linarith
  with m assms(1) l have "unat (mtimecmp s i * clint_scaler - mtime s * clint_scaler)
      = unat (mtimecmp s i) * 1000000 - unat (mtime s) * 1000000"
    by (subst unat_sub) (simp_all add: word_le_nat_alt)
  then show ?thesis by (simp add: wakeup_delay_def diff_mult_distrib)
qed

primrec clint_rounds :: "'h clint_interrupt_target \<Rightarrow> nat \<Rightarrow> ('h CLINT, unit) act" where
  "clint_rounds tgt 0 = ret ()"
| "clint_rounds tgt (Suc n) = seqM (clint_run_round tgt) (clint_rounds tgt n)"

lemma clint_round:
  assumes "clint_wf s" and "clint_in_time s" and "irq_event s = Some t" and "sim_time s \<le> t" and "t < 2 ^ 64"
  obtains s' where "clint_run_round tgt s = (Ok (), s')" and "clint_wf s'" and "clint_in_time s'" and "sim_time s' = t"
    and "unat (mtime s') = t div 1000000" and "length (target_harts s') = length (target_harts s)"
    and "\<forall>i. mtimecmp s' i = mtimecmp s i"
    and "\<forall>i < length (target_harts s).
      target_harts s' ! i = trigger_timer tgt (timer_due s' i) (target_harts s ! i)"
    and "\<forall>i < length (target_harts s). \<not> timer_due s' i \<longrightarrow> timer_armed s' i \<longrightarrow>
      (\<exists>t'. irq_event s' = Some t' \<and> t + 1000000 \<le> t' \<and>
        t' \<le> t + (unat (mtimecmp s i) - t div 1000000) * 1000000)"
proof -
  let ?s = "s\<lparr>sim_time := t, irq_event := None\<rparr>" and ?n = "length (target_harts s)"
  let ?u = "mtime_updated ?s"
  let ?s' = "?u\<lparr>target_harts := harts_after tgt ?n ?u, irq_event := event_after ?n ?u\<rparr>"
  have wf: "clint_wf ?s" using assms(1) by (simp add: clint_wf_def)
  have "unat (mtime s) \<le> t div 1000000"
    using assms(2,4) div_le_mono [of "sim_time s" t 1000000] by (simp add: clint_in_time_def)
  with mtime_round [OF wf] assms(5) have mt: "unat (mtime ?u) = t div 1000000" by (simp add: mtime_def)
  have obs: "mtime ?s' = mtime ?u" "mtimecmp ?s' i = mtimecmp s i" "timer_due ?s' i = timer_due ?u i"
      "timer_armed ?s' i = timer_armed s i" "mtimecmp ?u i = mtimecmp s i" "timer_armed ?u i = timer_armed s i" for i
    by (simp_all add: mtime_def mtimecmp_def timer_due_def timer_armed_def)
      (simp_all add: mtime_updated_def clint_update_and_get_mtime_def Let_def)
  have delay: "1000000 \<le> wakeup_delay ?u i \<and> wakeup_delay ?u i = (unat (mtimecmp s i) - t div 1000000) * 1000000"
    if "i < ?n" "\<not> timer_due ?u i" "timer_armed ?u i" for i
  proof -
    have lt: "mtime ?u < mtimecmp ?u i" using that(2,3) by (auto simp: timer_due_def timer_armed_def)
    have "(unat (mtimecmp s i) + 1) * 1000000 \<le> 2 ^ 64"
      using assms(2) that(1,3) obs(6) [of i] by (simp add: clint_in_time_def)
    then have "wakeup_delay ?u i = (unat (mtimecmp s i) - t div 1000000) * 1000000"
      using wakeup_delay_nat [of ?u i] lt mt obs(5) [of i] by simp
    moreover have "t div 1000000 < unat (mtimecmp s i)" using lt mt obs(5) [of i] by (simp add: word_less_nat_alt)
    ultimately show ?thesis by simp
  qed
  show ?thesis
  proof (rule that [of ?s'])
    show "clint_run_round tgt s = (Ok (), ?s')"
      using clint_run_body_eq [OF wf, of tgt] assms(3) by (simp add: clint_run_round_def)
    show "clint_wf ?s'" using mtime_updated_simps(5) [OF wf] by (simp add: clint_wf_def)
    show "clint_in_time ?s'" using assms(2) mt obs by (simp add: clint_in_time_def)
    show "\<forall>i < ?n. target_harts ?s' ! i = trigger_timer tgt (timer_due ?s' i) (target_harts s ! i)"
      using nth_harts_after [of _ ?u tgt ?n] obs(3) by simp
    show "\<forall>i < ?n. \<not> timer_due ?s' i \<longrightarrow> timer_armed ?s' i \<longrightarrow> (\<exists>t'. irq_event ?s' = Some t' \<and>
        t + 1000000 \<le> t' \<and> t' \<le> t + (unat (mtimecmp s i) - t div 1000000) * 1000000)"
    proof (intro allI impI)
      fix i
      assume i: "i < ?n" and "\<not> timer_due ?s' i" "timer_armed ?s' i"
      then have i': "\<not> timer_due ?u i" "timer_armed ?u i" by (simp_all only: obs(3,4,6) not_False_eq_True)
      obtain t' where t': "event_after ?n ?u = Some t'" "t' \<le> sim_time ?u + wakeup_delay ?u i"
        using event_after_le [OF i i'] by blast
      have "t + 1000000 \<le> t'"
      proof (rule event_after_ge [OF _ _ t'(1)])
        show "t + 1000000 \<le> sim_time ?u + wakeup_delay ?u j"
          if "j < ?n" "\<not> timer_due ?u j" "timer_armed ?u j" for j
          using delay [OF that] by (simp only: mtime_updated_simps) simp
      qed simp
      with t' delay [OF i i']
      show "\<exists>t'. irq_event ?s' = Some t' \<and> t + 1000000 \<le> t' \<and>
          t' \<le> t + (unat (mtimecmp s i) - t div 1000000) * 1000000" by simp
    qed
  qed (use mt obs in simp_all)
qed

text \<open>
  As long as the comparator of a hart stays armed, its timer line is set after finitely many
  rounds, less than a microsecond after the instant the comparator stands for.
\<close>

lemma clint_rounds_due:
  assumes "clint_wf s" and "clint_in_time s" and "irq_event s = Some t" and "sim_time s \<le> t" and "t < 2 ^ 64"
    and "i < length (target_harts s)" and "timer_armed s i"
  shows "\<exists>n s' h. clint_rounds tgt n s = (Ok (), s') \<and> target_harts s' ! i = trigger_timer tgt True h \<and>
    unat (mtimecmp s i) \<le> unat (mtime s') \<and>
    sim_time s' \<le> max t (unat (mtimecmp s i) * 1000000 + 999999)"
  using assms
proof (induction "unat (mtimecmp s i) - t div 1000000" arbitrary: s t rule: less_induct)
  case less
  obtain s1 where s1: "clint_run_round tgt s = (Ok (), s1)" "clint_wf s1" "clint_in_time s1" "sim_time s1 = t"
      "unat (mtime s1) = t div 1000000" "length (target_harts s1) = length (target_harts s)"
      "\<forall>i. mtimecmp s1 i = mtimecmp s i"
      "\<forall>i < length (target_harts s). target_harts s1 ! i = trigger_timer tgt (timer_due s1 i) (target_harts s ! i)"
      "\<forall>i < length (target_harts s). \<not> timer_due s1 i \<longrightarrow> timer_armed s1 i \<longrightarrow> (\<exists>t'. irq_event s1 = Some t' \<and>
        t + 1000000 \<le> t' \<and> t' \<le> t + (unat (mtimecmp s i) - t div 1000000) * 1000000)"
    by (rule clint_round [OF less.prems(1-5), of tgt])
  have armed: "timer_armed s1 i" using less.prems(7) s1(7) by (simp add: timer_armed_def)
  show ?case
  proof (cases "timer_due s1 i")
    case True
    then have "unat (mtimecmp s i) \<le> unat (mtime s1)" using s1(7) by (simp add: timer_due_def word_le_nat_alt)
    moreover have "clint_rounds tgt 1 s = (Ok (), s1)" using s1(1) by (simp add: seqM_apply)
    ultimately show ?thesis using True s1(4,8) less.prems(6) by (intro exI [of _ 1]) auto
  next
    case False
    obtain t' where t': "irq_event s1 = Some t'" "t + 1000000 \<le> t'"
        "t' \<le> t + (unat (mtimecmp s i) - t div 1000000) * 1000000"
      using s1(9) less.prems(6) False armed by blast
    have lt: "t div 1000000 < unat (mtimecmp s i)"
      using False armed s1(5,7) by (auto simp: timer_due_def timer_armed_def word_less_nat_alt word_le_nat_alt)
    have late: "t' \<le> unat (mtimecmp s i) * 1000000 + 999999"
      using t'(3) lt mult_div_mod_eq [of 1000000 t] pos_mod_bound by (auto simp: algebra_simps)
    have cmp: "(unat (mtimecmp s i) + 1) * 1000000 \<le> 2 ^ 64"
      using less.prems(2,6,7) by (simp add: clint_in_time_def)
    have dec: "unat (mtimecmp s1 i) - t' div 1000000 < unat (mtimecmp s i) - t div 1000000"
      using lt div_le_mono [OF t'(2), of 1000000] s1(7) by simp
    have "t' < 2 ^ 64" using late cmp by simp
    from less.hyps [OF dec s1(2,3) t'(1) _ this] s1(4,6) armed less.prems(6) t'(2)
    obtain n s2 h where s2: "clint_rounds tgt n s1 = (Ok (), s2)" "target_harts s2 ! i = trigger_timer tgt True h"
        "unat (mtimecmp s1 i) \<le> unat (mtime s2)" "sim_time s2 \<le> max t' (unat (mtimecmp s1 i) * 1000000 + 999999)"
      by auto
    have "clint_rounds tgt (Suc n) s = (Ok (), s2)" using s1(1) s2(1) by (simp add: seqM_apply)
    then show ?thesis using s2(2-4) late s1(7) by (metis max.absorb2 max.coboundedI2)
  qed
qed


section \<open>Accesses to the registers\<close>

interpretation mtimecmp_member: range_member range_mtimecmp
  by unfold_locales (simp add: range_mtimecmp_def)

interpretation mtime_inv: range_invariant clint_wf range_mtime
  by unfold_locales (auto simp: range_mtime_def clint_wf_def pre_read_mtime_def preserves_def set_mtime_def clint_wf_views)

interpretation mtimecmp_inv: range_invariant clint_wf range_mtimecmp
  by unfold_locales (auto simp: range_mtimecmp_def clint_wf_def post_write_mtimecmp_def preserves_def clint_notify_def)

lemma on_hart_wf [preserves_intros]: "preserves clint_wf (on_hart i f)"
  by (auto simp: preserves_def on_hart_def clint_wf_def)

lemma post_write_msip_wf: "preserves clint_wf (post_write_msip tgt t)"
  unfolding post_write_msip_def Let_def by (intro preserves_intros) (simp add: clint_wf_def)

interpretation msip_inv: range_invariant clint_wf "range_msip tgt"
  by unfold_locales (auto simp: range_msip_def clint_wf_def intro: post_write_msip_wf)

lemma clint_transport_wf: "preserves clint_wf (clint_transport tgt tr delay)"
  unfolding clint_transport_def
  by (intro mtime_inv.route_preserves mtimecmp_inv.route_preserves msip_inv.route_preserves route_nil_preserves)

lemma clint_run_round_wf: "preserves clint_wf (clint_run_round tgt)"
proof -
  have "clint_wf (snd (clint_run_body tgt s))" if "clint_wf s" for s
    using clint_run_body_eq [OF that] mtime_updated_simps(5) [OF that] by (simp add: clint_wf_def)
  then show ?thesis by (auto simp: preserves_def clint_run_round_def clint_wf_def split: option.split)
qed

lemma clint_numbers:
  assumes "n < 4096" and "i < n"
  shows "unat (4 * of_nat i :: u64) = 4 * i" and "unat (4 * of_nat n - 1 :: u64) = 4 * n - 1"
    and "unat (8 * of_nat i :: u64) = 8 * i" and "unat (8 * of_nat n :: u64) = 8 * n"
proof -
  have u: "unat (of_nat k :: u64) = k" if "k < 4096" for k using that by (simp add: unat_of_nat take_bit_nat_eq_self)
  have u4: "unat (4 * of_nat k :: u64) = 4 * k" "unat (8 * of_nat k :: u64) = 8 * k" if "k < 4096" for k
    using u [OF that] that by (simp_all add: unat_mult_lem [THEN iffD1])
  from u4 [OF assms(1)] u4 [of i] assms show "unat (4 * of_nat i :: u64) = 4 * i" "unat (8 * of_nat i :: u64) = 8 * i"
    "unat (8 * of_nat n :: u64) = 8 * n"
    by simp_all
  show "unat (4 * of_nat n - 1 :: u64) = 4 * n - 1"
    using u4 [OF assms(1)] assms by (subst unat_sub) (simp_all add: word_le_nat_alt)
qed

lemma clint_msip_write:
  assumes "clint_wf s" and "i < length (target_harts s)"
    and "command tr = TLM_WRITE_COMMAND" and "address tr = 4 * of_nat i" and "data_ptr tr = to_bytes 4 v"
  shows "clint_transport tgt tr delay s = (Ok (tr, delay + 20000),
    s\<lparr>regs_msip := set_elem 4 i (v AND 1) (set_elem 4 i v (regs_msip s)),
      target_harts := upd_nth i (trigger_software tgt (v AND 1 \<noteq> 0)) (target_harts s)\<rparr>)"
proof -
  let ?n = "length (target_harts s)" and ?s = "s\<lparr>regs_msip := set_elem 4 i v (regs_msip s)\<rparr>"
  have n: "?n < 4096" using assms(1) by (simp add: clint_wf_def Let_def)
  note u = clint_numbers [OF n assms(2)]
  have mod0: "4 * of_nat i mod 4 = (0 :: u64)"
    using u(1) by (intro word_unat_eq_iff [THEN iffD2]) (simp add: unat_mod)
  have bits: "take_bit 32 v AND 1 = v AND 1" "take_bit 32 (v AND 1) = v AND 1"
    by (rule bit_word_eqI, auto simp: bit_simps)+
  have far: "unat (0x4000 :: u64) > 4 * i" "unat (0xBFF8 :: u64) > 4 * i" using n assms(2) by simp_all
  have shape: "range_shape (regs_msip s) = (0, 4 * of_nat ?n - 1, False, 4, 4 * ?n)"
    "range_start (regs_mtime s) = 0xBFF8" "range_start (regs_mtimecmp s) = 0x4000"
    using assms(1) by (simp_all add: clint_wf_def range_shape_def Let_def)
  have out: "\<not> range_contains (regs_mtime s) (address tr)" "\<not> range_contains (regs_mtimecmp s) (address tr)"
    using far assms(4) u(1) shape(2,3) by (simp_all add: range_contains_def word_le_nat_alt)
  have "in": "range_contains (regs_msip s) (address tr)"
    using assms(2,4) u(1,2) shape(1) by (simp add: range_contains_def range_shape_def word_le_nat_alt)
  have al: "aligned_to (regs_msip s) tr"
    using assms(4,5) shape(1) mod0 by (simp add: aligned_to_def range_shape_def)
  have view: "in_view 4 (regs_msip s) i" using assms(1,2) by (simp add: clint_wf_views)
  let ?t = "info_of (regs_msip s) tr (delay + 20000)"
  have upd: "regs_msip_update (\<lambda>r. r\<lparr>range_mem := range_mem (set_elem 4 i v (regs_msip s))\<rparr>) s = ?s"
    by (cases s) (simp add: set_elem_def)
  have idx: "info_addr ?t = 4 * of_nat i" "unat (info_addr ?t div 4) = i"
    using assms(4) shape(1) u(1) by (simp_all add: info_of_def to_local_def range_shape_def unat_div)
  have post: "post_write_msip tgt ?t ?s = (Ok (), s\<lparr>regs_msip := set_elem 4 i (v AND 1) (set_elem 4 i v (regs_msip s)),
      target_harts := upd_nth i (trigger_software tgt (v AND 1 \<noteq> 0)) (target_harts s)\<rparr>)"
    using idx mod0 view assms(2)
    by (simp add: post_write_msip_def seqM_def bindM_def assertM_def at_view_def set_at_view_def on_hart_def
        elem_set_same bits Let_def)
  have "range_process (range_msip tgt) tr (delay + 20000) s = seqM (post_write_msip tgt ?t) (ret (tr, delay + 20000)) ?s"
    using elem_write [of tr 4 v "range_msip tgt" s i "delay + 20000"] assms(3-5) view "in" al shape(1) n upd
    by (simp add: range_msip_def call_post_def range_shape_def)
  then show ?thesis
    using out "in" post by (simp add: clint_transport_def range_mtime_def range_mtimecmp_def range_msip_def
      clint_clock_cycle_def seqM_apply)
qed


section \<open>What the harts see\<close>

context clint_target
begin

lemma round_lines:
  assumes "clint_wf s" and "irq_event s = Some t" and "clint_run_round tgt s = (r, s')"
    and "i < length (target_harts s)"
  shows "r = Ok ()" and "timer_line (target_harts s' ! i) \<longleftrightarrow> timer_due s' i"
    and "software_line (target_harts s' ! i) = software_line (target_harts s ! i)"
    and "mtime s' = max (mtime s) (of_nat t div clint_scaler)" and "mtimecmp s' i = mtimecmp s i"
proof -
  let ?s = "s\<lparr>sim_time := t, irq_event := None\<rparr>"
  have wf: "clint_wf ?s" using assms(1) by (simp add: clint_wf_def)
  have eq: "r = Ok ()" "s' = (mtime_updated ?s)\<lparr>target_harts := harts_after tgt (length (target_harts s)) (mtime_updated ?s),
      irq_event := event_after (length (target_harts s)) (mtime_updated ?s)\<rparr>"
    using clint_run_body_eq [OF wf, of tgt] assms(2,3) by (simp_all add: clint_run_round_def)
  then show "r = Ok ()" "mtime s' = max (mtime s) (of_nat t div clint_scaler)" "mtimecmp s' i = mtimecmp s i"
    using mtime_of_updated [OF wf] mtime_updated_simps(4) [of ?s i] by (simp_all add: mtime_def mtimecmp_def)
  have "timer_due s' i = timer_due (mtime_updated ?s) i"
    by (simp add: eq(2) timer_due_def mtime_def mtimecmp_def)
  then show "timer_line (target_harts s' ! i) \<longleftrightarrow> timer_due s' i"
    and "software_line (target_harts s' ! i) = software_line (target_harts s ! i)"
    using nth_harts_after [of i "mtime_updated ?s" tgt "length (target_harts s)"] assms(4) by (simp_all add: eq(2))
qed

lemma timer_arrives:
  assumes "clint_wf s" and "clint_in_time s" and "irq_event s = Some t" and "sim_time s \<le> t" and "t < 2 ^ 64"
    and "i < length (target_harts s)" and "timer_armed s i"
  shows "\<exists>n s'. clint_rounds tgt n s = (Ok (), s') \<and> timer_line (target_harts s' ! i) \<and>
    mtimecmp s i \<le> mtime s' \<and> sim_time s' \<le> max t (unat (mtimecmp s i) * 1000000 + 999999)"
  using clint_rounds_due [OF assms, of tgt] by (fastforce simp: word_le_nat_alt)

lemma software_interrupt:
  assumes "clint_wf s" and "i < length (target_harts s)" and "j < length (target_harts s)"
    and "command tr = TLM_WRITE_COMMAND" and "address tr = 4 * of_nat i" and "data_ptr tr = to_bytes 4 v"
  shows "\<exists>s'. clint_transport tgt tr delay s = (Ok (tr, delay + 20000), s') \<and>
    elem 4 (regs_msip s') j = (if j = i then v AND 1 else elem 4 (regs_msip s) j) \<and>
    software_line (target_harts s' ! j) = (if j = i then bit v 0 else software_line (target_harts s ! j)) \<and>
    timer_line (target_harts s' ! j) = timer_line (target_harts s ! j)"
proof -
  have "take_bit 32 (v AND 1) = v AND 1" by (rule bit_word_eqI, auto simp: bit_simps)
  moreover have "v AND 1 \<noteq> 0 \<longleftrightarrow> bit v 0" by (simp add: bit_0 odd_iff_mod_2_eq_one and_one_eq)
  ultimately show ?thesis
    using clint_msip_write [OF assms(1,2,4-6), of tgt delay] assms(1-3)
    by (auto simp: clint_wf_views elem_set nth_upd_nth)
qed

end

end
