(* ===== verification/RealClint.thy ===== *)
theory RealClint
  imports RegMap IrqIf
begin

text \<open>
  \<open>core/common/real_clint.h\<close>, \<open>real_clint.cpp\<close> and \<open>timer.cpp\<close>: the core local interruptor that runs
  on the clock of the host. The clock (microseconds since the start) is part of the state; a timer
  is its flag and its duration, and the thread it runs is the sequence of its sleeps.
\<close>

unbundle bit_operations_syntax

section \<open>Timers\<close>

record Timer =
  timer_running :: bool
  timer_duration :: u64

definition Timer_init :: Timer where
  "Timer_init = \<lparr>timer_running = False, timer_duration = 0\<rparr>"

definition timer_start :: "u64 \<Rightarrow> Timer \<Rightarrow> Timer" where
  "timer_start d t = t\<lparr>timer_duration := d, timer_running := True\<rparr>"

definition timer_pause :: "Timer \<Rightarrow> Timer" where
  "timer_pause t = (if \<not> timer_running t then t else t\<lparr>timer_running := False\<rparr>)"

definition NS_MAX :: u64 where "NS_MAX = 999999999"

definition US_MAX :: u64 where "US_MAX = NS_MAX div 1000"

text \<open>The sleeps of the thread in nanoseconds; the result is the failing assertion if it throws.\<close>

function timer_sleeps :: "u64 \<Rightarrow> sim_error + u64 list" where
  "timer_sleeps count =
     (if count > US_MAX then map_sum id (Cons NS_MAX) (timer_sleeps (count - US_MAX))
      else let ns = count * 1000 in
           if ns > count \<and> ns \<le> 0x7FFFFFFFFFFFFFFF then Inr [ns] else Inl AssertionFailed)"
  by pat_completeness auto

lemma US_MAX_nat: "US_MAX = 999999" "unat US_MAX = 999999"
  by (simp_all add: US_MAX_def NS_MAX_def)

termination timer_sleeps
  by (relation "measure unat") (auto simp: US_MAX_nat word_less_nat_alt unat_sub_if_size)

declare timer_sleeps.simps [simp del]

text \<open>
  The thread sleeps at least its duration, and longer only by 999 nanoseconds for each full sleep.
\<close>

lemma timer_sleeps_total:
  assumes "0 < unat count"
  shows "\<exists>ns. timer_sleeps count = Inr ns \<and> (\<forall>n \<in> set ns. n \<le> NS_MAX) \<and>
    sum_list (map unat ns) = 1000 * unat count + 999 * (length ns - 1) \<and>
    length ns = (unat count - 1) div 999999 + 1"
  using assms
proof (induction count rule: timer_sleeps.induct)
  case (1 count)
  have max: "unat NS_MAX = 999999999" by (simp add: NS_MAX_def)
  show ?case
  proof (cases "count > US_MAX")
    case True
    then have gt: "999999 < unat count" by (simp add: word_less_nat_alt US_MAX_nat)
    have rest: "unat (count - US_MAX) = unat count - 999999"
      using True by (subst unat_sub) (simp_all add: US_MAX_nat less_imp_le)
    with gt have "0 < unat (count - US_MAX)" by simp
    from 1(1) [OF True this] rest obtain ns where ns: "timer_sleeps (count - US_MAX) = Inr ns"
        "\<forall>n \<in> set ns. n \<le> NS_MAX" "length ns = (unat count - 999999 - 1) div 999999 + 1"
        "sum_list (map unat ns) = 1000 * (unat count - 999999) + 999 * (length ns - 1)"
      by auto
    have "(unat count - 1) div 999999 = (unat count - 999999 - 1) div 999999 + 1"
      using gt div_add_self2 [of 999999 "unat count - 999999 - 1"] by (simp add: diff_diff_add)
    moreover have "999999000 + 1000 * (unat count - 999999) = 1000 * unat count" using gt by simp
    ultimately show ?thesis
      using ns True max by (subst timer_sleeps.simps) (auto simp del: One_nat_def)
  next
    case False
    then have le: "unat count \<le> 999999" by (simp add: word_less_nat_alt US_MAX_nat not_less)
    have ns: "unat (count * 1000) = unat count * 1000"
      using le by (simp add: unat_mult_lem [THEN iffD1])
    have "timer_sleeps count = Inr [count * 1000]"
      using False 1(2) le ns by (subst timer_sleeps.simps) (simp add: word_less_nat_alt word_le_nat_alt Let_def)
    with le ns max show ?thesis using 1(2) by (auto simp: word_le_nat_alt)
  qed
qed

section \<open>State\<close>

record 'h RealCLINT =
  rc_msip :: RegisterRange
  rc_mtimecmp :: RegisterRange
  rc_mtime :: RegisterRange
  rc_harts :: "'h list"
  rc_timers :: "Timer list"
  rc_clock :: u64

definition RealCLINT_init :: "'h list \<Rightarrow> 'h RealCLINT" where
  "RealCLINT_init hs =
     \<lparr>rc_msip = (RegisterRange_init 0 (4 * of_nat (length hs)))\<lparr>range_alignment := 4\<rparr>,
      rc_mtimecmp = (RegisterRange_init 0x4000 (8 * of_nat (length hs)))\<lparr>range_alignment := 4\<rparr>,
      rc_mtime = (RegisterRange_init 0xBFF8 8)\<lparr>range_alignment := 4\<rparr>,
      rc_harts = hs, rc_timers = replicate (length hs) Timer_init, rc_clock = 0\<rparr>"

text \<open>\<open>DIVIDEND\<close> is a quotient of integers.\<close>

definition DIVIDEND :: u64 where "DIVIDEND = 15625 div 512"

definition usec_to_ticks :: "u64 \<Rightarrow> u64" where
  "usec_to_ticks usec = usec div DIVIDEND"

definition ticks_to_usec :: "u64 \<Rightarrow> u64" where
  "ticks_to_usec ticks = ticks * DIVIDEND"

definition rc_update_and_get_mtime :: "('h RealCLINT, u64) act" where
  "rc_update_and_get_mtime s =
     (let s' = s\<lparr>rc_mtime := set_elem 8 0 (usec_to_ticks (rc_clock s)) (rc_mtime s)\<rparr> in
      (Ok (elem 8 (rc_mtime s') 0), s'))"

text \<open>\<open>at\<close> throws \<open>std::out_of_range\<close>.\<close>

definition rc_at :: "nat \<Rightarrow> ('s \<Rightarrow> RegisterRange) \<Rightarrow> nat \<Rightarrow> ('s, u64) act" where
  "rc_at n get i = (\<lambda>s. if in_view n (get s) i then (Ok (elem n (get s) i), s) else (Fail OutOfRange, s))"

definition rc_on_hart :: "nat \<Rightarrow> ('h \<Rightarrow> 'h) \<Rightarrow> ('h RealCLINT, unit) act" where
  "rc_on_hart i f = (\<lambda>s. if i < length (rc_harts s) then (Ok (), s\<lparr>rc_harts := upd_nth i f (rc_harts s)\<rparr>)
                         else (Fail OutOfRange, s))"

definition rc_on_timer :: "nat \<Rightarrow> (Timer \<Rightarrow> Timer) \<Rightarrow> ('h RealCLINT, unit) act" where
  "rc_on_timer i f = (\<lambda>s. if i < length (rc_timers s) then (Ok (), s\<lparr>rc_timers := upd_nth i f (rc_timers s)\<rparr>)
                          else (Fail OutOfRange, s))"

section \<open>Operations\<close>

definition rc_post_write_mtimecmp :: "'h clint_interrupt_target \<Rightarrow> access_info \<Rightarrow> ('h RealCLINT, unit) act" where
  "rc_post_write_mtimecmp tgt t =
     seqM (assertM (\<lambda>_. info_addr t mod 4 = 0))
       (let hart = unat (info_addr t div 8) in
        bindM (rc_at 8 rc_mtimecmp hart) (\<lambda>cmp.
        bindM rc_update_and_get_mtime (\<lambda>now.
        seqM (rc_on_timer hart timer_pause)
          (if now \<ge> cmp then rc_on_hart hart (trigger_timer tgt True)
           else seqM (rc_on_hart hart (trigger_timer tgt False))
                  (rc_on_timer hart (timer_start (ticks_to_usec (cmp - now))))))))"

definition rc_post_write_msip :: "'h clint_interrupt_target \<Rightarrow> access_info \<Rightarrow> ('h RealCLINT, unit) act" where
  "rc_post_write_msip tgt t =
     seqM (assertM (\<lambda>_. info_addr t mod 4 = 0))
       (let hart = unat (info_addr t div 4) in
        bindM (rc_at 4 rc_msip hart) (\<lambda>v.
        seqM (modifyM (\<lambda>s. s\<lparr>rc_msip := set_elem 4 hart (v AND 1) (rc_msip s)\<rparr>))
        (bindM (rc_at 4 rc_msip hart) (\<lambda>v'. rc_on_hart hart (trigger_software tgt (v' \<noteq> 0))))))"

definition rc_post_write_mtime :: "access_info \<Rightarrow> ('h RealCLINT, unit) act" where
  "rc_post_write_mtime t = ret ()"

definition rc_pre_read_mtime :: "access_info \<Rightarrow> ('h RealCLINT, bool) act" where
  "rc_pre_read_mtime t = bindM rc_update_and_get_mtime (\<lambda>_. ret True)"

definition rc_interrupt_hart :: "'h clint_interrupt_target \<Rightarrow> nat \<Rightarrow> ('h RealCLINT, unit) act" where
  "rc_interrupt_hart tgt i =
     bindM (rc_at 8 rc_mtimecmp i) (\<lambda>cmp.
     bindM (getsM (\<lambda>s. elem 8 (rc_mtime s) 0)) (\<lambda>now.
       if now \<ge> cmp then rc_on_hart i (trigger_timer tgt True) else ret ()))"

definition rc_interrupt :: "'h clint_interrupt_target \<Rightarrow> ('h RealCLINT, unit) act" where
  "rc_interrupt tgt =
     bindM rc_update_and_get_mtime (\<lambda>_.
     bindM (getsM (\<lambda>s. length (rc_harts s))) (\<lambda>n. seqs (map (rc_interrupt_hart tgt) [0..<n])))"

definition rc_ranges :: "'h clint_interrupt_target \<Rightarrow> 'h RealCLINT mapped_range list" where
  "rc_ranges tgt =
     [\<lparr>the_range = rc_mtimecmp, upd_range = rc_mtimecmp_update, pre_write_callback = None,
       post_write_callback = Some (rc_post_write_mtimecmp tgt), pre_read_callback = None, post_read_callback = None\<rparr>,
      \<lparr>the_range = rc_msip, upd_range = rc_msip_update, pre_write_callback = None,
       post_write_callback = Some (rc_post_write_msip tgt), pre_read_callback = None, post_read_callback = None\<rparr>,
      \<lparr>the_range = rc_mtime, upd_range = rc_mtime_update, pre_write_callback = None,
       post_write_callback = Some rc_post_write_mtime, pre_read_callback = Some rc_pre_read_mtime,
       post_read_callback = None\<rparr>]"

definition rc_transport :: "'h clint_interrupt_target \<Rightarrow> 'h RealCLINT tlm_target" where
  "rc_transport tgt = mm_route (rc_ranges tgt)"

section \<open>A timer does not fire early\<close>

lemma DIVIDEND_nat: "unat DIVIDEND = 30"
  by (simp add: DIVIDEND_def)

lemma ticks_roundtrip: "unat ticks * 30 < 2 ^ 64 \<Longrightarrow> usec_to_ticks (ticks_to_usec ticks) = ticks"
  by (rule word_unat_eq_iff [THEN iffD2])
    (simp add: usec_to_ticks_def ticks_to_usec_def unat_div DIVIDEND_nat unat_mult_lem [THEN iffD1])

text \<open>After the duration the timer was started for, the time has reached the comparator.\<close>

lemma duration_reaches:
  assumes "usec_to_ticks clock < cmp" and "unat (cmp - usec_to_ticks clock) * 30 < 2 ^ 64"
    and "unat clock + unat (ticks_to_usec (cmp - usec_to_ticks clock)) \<le> now"
  shows "unat cmp \<le> now div 30"
proof -
  let ?t = "usec_to_ticks clock"
  have t: "unat ?t = unat clock div 30" by (simp add: usec_to_ticks_def unat_div DIVIDEND_nat)
  have "unat (ticks_to_usec (cmp - ?t)) = (unat cmp - unat ?t) * 30"
    using assms(1,2) by (simp add: ticks_to_usec_def DIVIDEND_nat unat_mult_lem [THEN iffD1] unat_sub less_imp_le)
  then have "unat clock + (unat cmp - unat clock div 30) * 30 \<le> now" using assms(3) t by simp
  moreover have "unat clock div 30 < unat cmp" using assms(1) t by (simp add: word_less_nat_alt)
  ultimately have "unat cmp * 30 \<le> now"
    using mult_div_mod_eq [of 30 "unat clock"] by (simp add: algebra_simps)
  then show ?thesis by (metis div_le_mono div_mult_self_is_m zero_less_numeral)
qed

section \<open>What the harts see\<close>

definition rc_wf :: "'h RealCLINT \<Rightarrow> bool" where
  "rc_wf s \<longleftrightarrow> length (rc_timers s) = length (rc_harts s) \<and> length (range_mem (rc_mtime s)) = 8 \<and>
     length (range_mem (rc_mtimecmp s)) = 8 * length (rc_harts s)"

lemma rc_init_wf: "length hs < 4096 \<Longrightarrow> rc_wf (RealCLINT_init hs)"
  by (simp add: rc_wf_def RealCLINT_init_def RegisterRange_init_def unat_mult_lem [THEN iffD1] unat_of_nat
      take_bit_nat_eq_self)

lemma rc_views:
  assumes "rc_wf s"
  shows "in_view 8 (rc_mtime s) i \<longleftrightarrow> i < 1" and "in_view 8 (rc_mtimecmp s) i \<longleftrightarrow> i < length (rc_harts s)"
  using assms by (simp_all add: rc_wf_def in_view_def view_size_def)

definition rc_now :: "'h RealCLINT \<Rightarrow> u64" where
  "rc_now s = usec_to_ticks (rc_clock s)"

definition rc_cmp :: "'h RealCLINT \<Rightarrow> nat \<Rightarrow> u64" where
  "rc_cmp s i = elem 8 (rc_mtimecmp s) i"

definition rc_updated :: "'h RealCLINT \<Rightarrow> 'h RealCLINT" where
  "rc_updated s = s\<lparr>rc_mtime := set_elem 8 0 (rc_now s) (rc_mtime s)\<rparr>"

lemma rc_updated_simps:
  assumes "rc_wf s"
  shows "rc_update_and_get_mtime s = (Ok (rc_now s), rc_updated s)" and "rc_wf (rc_updated s)"
    and "elem 8 (rc_mtime (rc_updated s)) 0 = rc_now s"
  using assms rc_views [OF assms]
  by (simp_all add: rc_update_and_get_mtime_def rc_updated_def rc_now_def elem_set_same take_bit_word_eq_self rc_wf_def Let_def)

lemma rc_post_write_mtimecmp_eq:
  assumes "rc_wf s" and "i < length (rc_harts s)" and "info_addr t mod 4 = 0" and "unat (info_addr t div 8) = i"
  shows "rc_post_write_mtimecmp tgt t s = (Ok (), (rc_updated s)\<lparr>
    rc_timers := (if rc_cmp s i \<le> rc_now s then upd_nth i timer_pause (rc_timers s)
                  else upd_nth i (timer_start (ticks_to_usec (rc_cmp s i - rc_now s))) (upd_nth i timer_pause (rc_timers s))),
    rc_harts := upd_nth i (trigger_timer tgt (rc_cmp s i \<le> rc_now s)) (rc_harts s)\<rparr>)"
proof -
  have "rc_at 8 rc_mtimecmp i s = (Ok (rc_cmp s i), s)"
    using assms(2) rc_views(2) [OF assms(1)] by (simp add: rc_at_def rc_cmp_def)
  moreover have "length (rc_timers (rc_updated s)) = length (rc_harts s)" "rc_harts (rc_updated s) = rc_harts s"
      "rc_timers (rc_updated s) = rc_timers s"
    using assms(1) by (simp_all add: rc_updated_def rc_wf_def)
  ultimately show ?thesis
    using assms rc_updated_simps(1) [OF assms(1)]
    by (auto simp: rc_post_write_mtimecmp_def rc_on_timer_def rc_on_hart_def seqM_def bindM_def assertM_def Let_def)
qed

primrec rc_harts_after :: "'h clint_interrupt_target \<Rightarrow> nat \<Rightarrow> 'h RealCLINT \<Rightarrow> 'h list" where
  "rc_harts_after tgt 0 s = rc_harts s"
| "rc_harts_after tgt (Suc n) s =
     (if rc_cmp s n \<le> elem 8 (rc_mtime s) 0 then upd_nth n (trigger_timer tgt True) (rc_harts_after tgt n s)
      else rc_harts_after tgt n s)"

lemma length_rc_harts_after [simp]: "length (rc_harts_after tgt n s) = length (rc_harts s)"
  by (induction n) simp_all

lemma nth_rc_harts_after:
  "j < length (rc_harts s) \<Longrightarrow> rc_harts_after tgt n s ! j =
     (if j < n \<and> rc_cmp s j \<le> elem 8 (rc_mtime s) 0 then trigger_timer tgt True (rc_harts s ! j) else rc_harts s ! j)"
  by (induction n) (auto simp: nth_upd_nth less_Suc_eq)

lemma rc_interrupt_harts:
  assumes "rc_wf s" and "n \<le> length (rc_harts s)"
  shows "seqs (map (rc_interrupt_hart tgt) [0..<n]) s = (Ok (), s\<lparr>rc_harts := rc_harts_after tgt n s\<rparr>)"
  using assms(2)
proof (induction n)
  case (Suc n)
  let ?s = "s\<lparr>rc_harts := rc_harts_after tgt n s\<rparr>"
  have "rc_wf ?s" using assms(1) by (simp add: rc_wf_def)
  then have "rc_interrupt_hart tgt n ?s = (Ok (), s\<lparr>rc_harts := rc_harts_after tgt (Suc n) s\<rparr>)"
    using Suc.prems rc_views(2) [of ?s n]
    by (simp add: rc_interrupt_hart_def rc_at_def rc_on_hart_def rc_cmp_def bindM_def)
  with Suc show ?case by (simp add: seqs_append seqM_apply)
qed simp

lemma rc_interrupt_eq:
  assumes "rc_wf s"
  shows "rc_interrupt tgt s =
    (Ok (), (rc_updated s)\<lparr>rc_harts := rc_harts_after tgt (length (rc_harts s)) (rc_updated s)\<rparr>)"
proof -
  have "length (rc_harts (rc_updated s)) = length (rc_harts s)" by (simp add: rc_updated_def)
  with rc_updated_simps [OF assms] rc_interrupt_harts [of "rc_updated s" "length (rc_harts s)" tgt] show ?thesis
    by (simp add: rc_interrupt_def bindM_def)
qed

context clint_target
begin

text \<open>
  After a write of a comparator the line of the hart says whether the time has come; otherwise
  its timer runs, and when its duration has passed, \<open>interrupt\<close> raises the line.
\<close>

lemma real_timer:
  assumes "rc_wf s" and "i < length (rc_harts s)" and "info_addr t mod 4 = 0" and "unat (info_addr t div 8) = i"
    and "unat (rc_cmp s i) * 30 < 2 ^ 64"
  shows "\<exists>s'. rc_post_write_mtimecmp tgt t s = (Ok (), s') \<and>
    (timer_line (rc_harts s' ! i) \<longleftrightarrow> rc_cmp s i \<le> rc_now s) \<and>
    (rc_now s < rc_cmp s i \<longrightarrow> timer_running (rc_timers s' ! i) \<and>
      (\<forall>c. unat (rc_clock s) + unat (timer_duration (rc_timers s' ! i)) \<le> unat c \<longrightarrow>
         (\<exists>s''. rc_interrupt tgt (s'\<lparr>rc_clock := c\<rparr>) = (Ok (), s'') \<and> timer_line (rc_harts s'' ! i))))"
proof -
  let ?d = "ticks_to_usec (rc_cmp s i - rc_now s)"
  obtain s' where s': "rc_post_write_mtimecmp tgt t s = (Ok (), s')"
      "rc_harts s' = upd_nth i (trigger_timer tgt (rc_cmp s i \<le> rc_now s)) (rc_harts s)"
      "rc_timers s' = (if rc_cmp s i \<le> rc_now s then upd_nth i timer_pause (rc_timers s)
         else upd_nth i (timer_start ?d) (upd_nth i timer_pause (rc_timers s)))"
      "rc_mtimecmp s' = rc_mtimecmp s" "range_mem (rc_mtime s') = range_mem (rc_mtime (rc_updated s))"
    using rc_post_write_mtimecmp_eq [OF assms(1-4), of tgt] by (auto simp: rc_updated_def)
  have len: "length (rc_timers s) = length (rc_harts s)" using assms(1) by (simp add: rc_wf_def)
  have wf: "rc_wf s'" using assms(1) rc_updated_simps(2) [OF assms(1)] s' by (simp add: rc_wf_def)
  have line: "timer_line (rc_harts s' ! i) \<longleftrightarrow> rc_cmp s i \<le> rc_now s"
    using s'(2) assms(2) by (simp add: nth_upd_nth)
  have later: "\<exists>s''. rc_interrupt tgt (s'\<lparr>rc_clock := c\<rparr>) = (Ok (), s'') \<and> timer_line (rc_harts s'' ! i)"
    if less: "rc_now s < rc_cmp s i" and c: "unat (rc_clock s) + unat ?d \<le> unat c" for c
  proof -
    let ?s = "s'\<lparr>rc_clock := c\<rparr>"
    have wf': "rc_wf ?s" using wf by (simp add: rc_wf_def)
    have "unat (rc_cmp s i - rc_now s) * 30 < 2 ^ 64"
      using assms(5) less by (subst unat_sub) (simp_all add: less_imp_le diff_mult_distrib)
    then have "unat (rc_cmp s i) \<le> unat c div 30"
      using duration_reaches [of "rc_clock s" "rc_cmp s i"] less c by (simp add: rc_now_def)
    then have "rc_cmp ?s i \<le> rc_now ?s"
      using s'(4) by (simp add: rc_now_def rc_cmp_def usec_to_ticks_def word_le_nat_alt unat_div DIVIDEND_nat)
    moreover have "rc_cmp (rc_updated ?s) i = rc_cmp ?s i" "length (rc_harts (rc_updated ?s)) = length (rc_harts s)"
      "length (rc_harts ?s) = length (rc_harts s)"
      using s'(2) by (simp_all add: rc_updated_def rc_cmp_def)
    ultimately show ?thesis
      using rc_interrupt_eq [OF wf', of tgt] rc_updated_simps(3) [OF wf'] assms(2)
        nth_rc_harts_after [of i "rc_updated ?s" tgt "length (rc_harts s)"]
      by auto
  qed
  have "timer_running (rc_timers s' ! i) \<and> timer_duration (rc_timers s' ! i) = ?d" if "rc_now s < rc_cmp s i"
    using that s'(3) assms(2) len by (simp add: nth_upd_nth timer_start_def not_le [symmetric])
  with s'(1) line later show ?thesis by (intro exI [of _ s']) auto
qed

end

end
