(* ===== verification/Clint_Props.thy ===== *)
theory Clint_Props
  imports Clint RealClint Iss_Trap
begin

text \<open>
  The core local interruptor with RV32 harts as its targets: what programs that run on the harts
  see of the timer and of software interrupts.
\<close>

unbundle bit_operations_syntax

definition iss_clint_target :: "'d ISS clint_interrupt_target" where
  "iss_clint_target = \<lparr>trigger_timer = trigger_timer_interrupt, trigger_software = trigger_software_interrupt\<rparr>"

lemma mip_lines:
  "bit (mip (csrs (trigger_timer_interrupt b h))) n = (if n = 7 then b else bit (mip (csrs h)) n)"
  "bit (mip (csrs (trigger_software_interrupt b h))) n = (if n = 3 then b else bit (mip (csrs h)) n)"
  by (cases "n < 32"; auto simp: trigger_timer_interrupt_def trigger_software_interrupt_def bit_bf_set b2w_def bit_1_iff
      dest: bit_imp_le_length)+

interpretation iss_clint: clint_target iss_clint_target "\<lambda>h. bit (mip (csrs h)) 7" "\<lambda>h. bit (mip (csrs h)) 3"
  by unfold_locales (simp_all add: iss_clint_target_def mip_lines)

text \<open>A CLINT with one hart whose comparator is 5.\<close>

definition clint_example :: "unit ISS CLINT" where
  "clint_example = (let s = CLINT_init [hart_example []] 0 in
     s\<lparr>regs_mtimecmp := set_elem 8 0 5 (regs_mtimecmp s), irq_event := Some 7000000\<rparr>)"

lemma clint_example_facts:
  "clint_wf clint_example" "irq_event clint_example = Some 7000000" "sim_time clint_example = 0"
  "length (target_harts clint_example) = 1" "mtimecmp clint_example 0 = 5" "mtime clint_example = 0"
  "target_harts clint_example ! 0 = hart_example []"
proof -
  let ?s = "CLINT_init [hart_example []] 0"
  have wf: "clint_wf ?s" by (rule clint_init_wf) simp_all
  have n: "length (target_harts ?s) = 1" by (simp add: CLINT_init_def)
  from wf n show "clint_wf clint_example"
    by (simp add: clint_example_def clint_wf_def Let_def clint_wf_views [OF wf])
  show "mtimecmp clint_example 0 = 5"
    using clint_wf_views(2) [OF wf] n by (simp add: clint_example_def mtimecmp_def elem_set_same take_bit_word_eq_self Let_def)
  have "elem 8 (RegisterRange_init 0xBFF8 8) 0 = 0" by code_simp
  then show "mtime clint_example = 0"
    by (simp add: clint_example_def mtime_def CLINT_init_def elem_def Let_def)
qed (simp_all add: clint_example_def CLINT_init_def Let_def)

text \<open>
  C33. An armed timer interrupts its hart: after finitely many rounds of the CLINT thread, less than a
  microsecond after the time the comparator stands for (or at the first round, if that is later),
  \<open>mtime\<close> has reached the comparator and the timer interrupt is pending in \<open>mip\<close>, whatever the
  comparators of the other harts are.
\<close>

theorem clint_timer_arrives:
  assumes "clint_wf s" and "clint_in_time s" and "irq_event s = Some t" and "sim_time s \<le> t" and "t < 2 ^ 64"
    and "i < length (target_harts s)" and "timer_armed s i"
  shows "\<exists>n s'. clint_rounds iss_clint_target n s = (Ok (), s') \<and> bit (mip (csrs (target_harts s' ! i))) 7 \<and>
    mtimecmp s i \<le> mtime s' \<and> sim_time s' \<le> max t (unat (mtimecmp s i) * 1000000 + 999999)"
  by (rule iss_clint.timer_arrives [OF assms])

theorem clint_timer_arrives_witness:
  "\<exists>n s'. clint_rounds iss_clint_target n clint_example = (Ok (), s') \<and> bit (mip (csrs (target_harts s' ! 0))) 7 \<and>
     sim_time s' \<le> 7000000"
proof -
  have "clint_in_time clint_example" "timer_armed clint_example 0"
    by (simp_all add: clint_in_time_def timer_armed_def clint_example_facts)
  then show ?thesis
    using clint_timer_arrives [of clint_example 7000000 0] clint_example_facts by fastforce
qed

lemma line_pending:
  assumes "bit (mip (csrs h)) n" and "bit (mie (csrs h)) n" and "\<not> bit (mideleg (csrs h)) n"
    and "prv h < MachineMode \<or> (prv h = MachineMode \<and> bit (mstatus (csrs h)) 3)"
  shows "target_mode (compute_pending_interrupts h) = MachineMode \<and> bit (pending (compute_pending_interrupts h)) n"
proof -
  have "bf_get 3 1 w \<noteq> 0" if "bit w 3" for w :: u32
    using bit_bf_get [of 3 1 w 0] that by auto
  then have "bit (deliverable MachineMode h) n"
    using assms bit_imp_le_length [OF assms(1)] by (auto simp: deliverable_def delegated_to_def interrupt_enable_def bit_simps)
  moreover from this have "deliverable MachineMode h \<noteq> 0" by auto
  ultimately show ?thesis by (simp add: compute_pending_interrupts_eq interrupt_spec_def)
qed

lemmas timer_pending = line_pending [where n = 7]

text \<open>
  Each round of the CLINT thread drives the timer line of every hart: it is high exactly if the
  comparator is not zero and not greater than the new \<open>mtime\<close>, which never goes backward; then a hart
  that enables the timer interrupt and does not delegate it takes a machine mode interrupt. The
  software interrupts are not affected.
\<close>

theorem clint_round_drives_harts:
  assumes "clint_wf s" and "irq_event s = Some t" and "clint_run_round iss_clint_target s = (r, s')"
    and "i < length (target_harts s)" and "h = target_harts s' ! i"
  shows "r = Ok () \<and> mtime s' = max (mtime s) (of_nat t div 1000000) \<and>
    (bit (mip (csrs h)) 7 \<longleftrightarrow> mtimecmp s i \<noteq> 0 \<and> mtimecmp s i \<le> mtime s') \<and>
    bit (mip (csrs h)) 3 = bit (mip (csrs (target_harts s ! i))) 3 \<and>
    (mtimecmp s i \<noteq> 0 \<and> mtimecmp s i \<le> mtime s' \<and> bit (mie (csrs h)) 7 \<and> \<not> bit (mideleg (csrs h)) 7 \<and>
       (prv h < MachineMode \<or> (prv h = MachineMode \<and> bit (mstatus (csrs h)) 3)) \<longrightarrow>
     target_mode (compute_pending_interrupts h) = MachineMode \<and> bit (pending (compute_pending_interrupts h)) 7)"
  using iss_clint.round_lines [OF assms(1-4)] timer_pending [of h] assms(5)
  by (auto simp: timer_due_def clint_scaler_def word_gt_0)

theorem clint_round_drives_harts_witness:
  "\<exists>s'. clint_run_round iss_clint_target clint_example = (Ok (), s') \<and> mtime s' = 7 \<and>
     bit (mip (csrs (target_harts s' ! 0))) 7"
proof -
  obtain r s' where r: "clint_run_round iss_clint_target clint_example = (r, s')" by fastforce
  have "(7000000 :: u64) div 1000000 = 7" by code_simp
  then show ?thesis
    using clint_round_drives_harts [OF _ _ r, of 7000000 0 "target_harts s' ! 0"] clint_example_facts r by simp
qed

text \<open>
  A write to an \<open>msip\<close> register keeps only its lowest bit, sets the software interrupt of that
  hart accordingly, and leaves the registers and interrupts of the other harts alone.
\<close>

theorem clint_software_interrupt:
  assumes "clint_wf s" and "i < length (target_harts s)" and "j < length (target_harts s)"
    and "command tr = TLM_WRITE_COMMAND" and "address tr = 4 * of_nat i" and "data_ptr tr = to_bytes 4 v"
  shows "\<exists>s'. clint_transport iss_clint_target tr delay s = (Ok (tr, delay + 20000), s') \<and>
    elem 4 (regs_msip s') j = (if j = i then v AND 1 else elem 4 (regs_msip s) j) \<and>
    bit (mip (csrs (target_harts s' ! j))) 3 = (if j = i then bit v 0 else bit (mip (csrs (target_harts s ! j))) 3) \<and>
    bit (mip (csrs (target_harts s' ! j))) 7 = bit (mip (csrs (target_harts s ! j))) 7"
  by (rule iss_clint.software_interrupt [OF assms])

theorem clint_software_interrupt_witness:
  "\<exists>s'. clint_transport iss_clint_target \<lparr>command = TLM_WRITE_COMMAND, address = 0, data_ptr = to_bytes 4 0xFF,
       response_status = TLM_OK_RESPONSE\<rparr> 0 clint_example =
     (Ok (\<lparr>command = TLM_WRITE_COMMAND, address = 0, data_ptr = to_bytes 4 0xFF, response_status = TLM_OK_RESPONSE\<rparr>, 20000), s') \<and>
     elem 4 (regs_msip s') 0 = 1 \<and> bit (mip (csrs (target_harts s' ! 0))) 3"
  using clint_software_interrupt [of clint_example 0 0 "\<lparr>command = TLM_WRITE_COMMAND, address = 0,
      data_ptr = to_bytes 4 0xFF, response_status = TLM_OK_RESPONSE\<rparr>" "0xFF" 0] clint_example_facts
  by (auto simp: bit_numeral_rec)

section \<open>The CLINT in real time\<close>

text \<open>
  With the real-time CLINT, a write to \<open>mtimecmp\<close> raises the timer interrupt of the hart exactly
  if the time has come; otherwise it starts the timer of the hart, and the interrupt is raised
  when the timer has run for its duration.
\<close>

theorem real_clint_timer:
  assumes "rc_wf s" and "i < length (rc_harts s)" and "info_addr t mod 4 = 0" and "unat (info_addr t div 8) = i"
    and "unat (rc_cmp s i) * 30 < 2 ^ 64"
  shows "\<exists>s'. rc_post_write_mtimecmp iss_clint_target t s = (Ok (), s') \<and>
    (bit (mip (csrs (rc_harts s' ! i))) 7 \<longleftrightarrow> rc_cmp s i \<le> rc_now s) \<and>
    (rc_now s < rc_cmp s i \<longrightarrow> timer_running (rc_timers s' ! i) \<and>
      (\<forall>c. unat (rc_clock s) + unat (timer_duration (rc_timers s' ! i)) \<le> unat c \<longrightarrow>
         (\<exists>s''. rc_interrupt iss_clint_target (s'\<lparr>rc_clock := c\<rparr>) = (Ok (), s'') \<and>
                bit (mip (csrs (rc_harts s'' ! i))) 7)))"
  by (rule iss_clint.real_timer [OF assms])

definition real_clint_example :: "unit ISS RealCLINT" where
  "real_clint_example = (let s = RealCLINT_init [hart_example []] in
     s\<lparr>rc_mtimecmp := set_elem 8 0 5 (rc_mtimecmp s), rc_clock := 61\<rparr>)"

lemma real_clint_example_facts:
  "rc_wf real_clint_example" "length (rc_harts real_clint_example) = 1" "rc_cmp real_clint_example 0 = 5"
  "rc_now real_clint_example = 2" "rc_clock real_clint_example = 61"
proof -
  let ?s = "RealCLINT_init [hart_example []]"
  have wf: "rc_wf ?s" by (rule rc_init_wf) simp
  have n: "length (rc_harts ?s) = 1" by (simp add: RealCLINT_init_def)
  note v = rc_views(2) [OF wf, of 0]
  from wf v n show "rc_wf real_clint_example" by (simp add: real_clint_example_def rc_wf_def Let_def)
  show "rc_cmp real_clint_example 0 = 5"
    using v n by (simp add: real_clint_example_def rc_cmp_def elem_set_same take_bit_word_eq_self Let_def)
  have "usec_to_ticks 61 = 2" by code_simp
  then show "rc_now real_clint_example = 2" by (simp add: real_clint_example_def rc_now_def Let_def)
qed (simp_all add: real_clint_example_def RealCLINT_init_def Let_def)

theorem real_clint_timer_witness:
  "\<exists>s'. rc_post_write_mtimecmp iss_clint_target
       \<lparr>info_addr = 0, info_size = 8, info_trans = \<lparr>command = TLM_WRITE_COMMAND, address = 0x4000,
          data_ptr = to_bytes 8 5, response_status = TLM_OK_RESPONSE\<rparr>, info_delay = 0\<rparr> real_clint_example = (Ok (), s') \<and>
     \<not> bit (mip (csrs (rc_harts s' ! 0))) 7 \<and> timer_running (rc_timers s' ! 0)"
  using real_clint_timer [of real_clint_example 0 "\<lparr>info_addr = 0, info_size = 8,
      info_trans = \<lparr>command = TLM_WRITE_COMMAND, address = 0x4000, data_ptr = to_bytes 8 5,
        response_status = TLM_OK_RESPONSE\<rparr>, info_delay = 0\<rparr>"] real_clint_example_facts
  by auto

text \<open>
  The thread of a timer sleeps at least the duration it was started for: its sleeps add up to the
  duration and 999 nanoseconds for each of them but the last, and every one is short enough for
  \<open>nanosleep\<close>.
\<close>

theorem timer_never_early:
  assumes "0 < unat count"
  shows "\<exists>ns. timer_sleeps count = Inr ns \<and> (\<forall>n \<in> set ns. n \<le> NS_MAX) \<and>
    sum_list (map unat ns) = 1000 * unat count + 999 * (length ns - 1) \<and>
    length ns = (unat count - 1) div 999999 + 1"
  by (rule timer_sleeps_total [OF assms])

theorem timer_never_early_witness:
  "\<exists>ns. timer_sleeps 3000000 = Inr ns \<and> length ns = 4 \<and> sum_list (map unat ns) = 3000002997"
  using timer_never_early [of 3000000] by auto

end
