(* ===== verification/PlicSel.thy ===== *)
theory PlicSel
  imports RegMap IrqIf
begin

text \<open>
  What the two interrupt controllers share: loops over a range of numbers with an accumulator, the
  selection of the pending interrupt with the highest priority, and the bits of the pending and
  enable registers.
\<close>

unbundle bit_operations_syntax

section \<open>Loops with an accumulator\<close>

primrec foldM :: "('a \<Rightarrow> 'b \<Rightarrow> ('s, 'b) act) \<Rightarrow> 'a list \<Rightarrow> 'b \<Rightarrow> ('s, 'b) act" where
  "foldM f [] a = ret a"
| "foldM f (x # xs) a = bindM (f x a) (foldM f xs)"

lemma foldM_pure:
  "(\<And>x a. x \<in> set xs \<Longrightarrow> f x a s = (Ok (g x a), s)) \<Longrightarrow> foldM f xs a s = (Ok (fold g xs a), s)"
  by (induction xs arbitrary: a) (simp_all add: bindM_def)

lemma foldM_append: "foldM f (xs @ ys) a = bindM (foldM f xs a) (foldM f ys)"
proof (induction xs arbitrary: a)
  case (Cons x xs)
  have "foldM f (xs @ ys) = (\<lambda>a. bindM (foldM f xs a) (foldM f ys))" by (rule ext) (rule Cons)
  then show ?case by (simp add: bindM_assoc)
qed simp

lemma preserves_foldM [preserves_intros]:
  "(\<And>x a. preserves I (f x a)) \<Longrightarrow> preserves I (foldM f xs a)"
  by (induction xs arbitrary: a) (auto intro: preserves_intros)

lemma keeps_foldM [keeps_intros]: "(\<And>x a. keeps h (f x a)) \<Longrightarrow> keeps h (foldM f xs a)"
  by (induction xs arbitrary: a) (auto intro: keeps_intros)

section \<open>Selection by priority\<close>

text \<open>
  The loop keeps the first candidate of the highest priority seen: a later one replaces it only
  if its priority is greater.
\<close>

definition pick :: "(nat \<Rightarrow> bool) \<Rightarrow> (nat \<Rightarrow> u64) \<Rightarrow> nat list \<Rightarrow> nat \<times> u64" where
  "pick el pr xs = fold (\<lambda>i acc. if el i \<and> pr i > snd acc then (i, pr i) else acc) xs (0, 0)"

definition best_of :: "(nat \<Rightarrow> bool) \<Rightarrow> (nat \<Rightarrow> u64) \<Rightarrow> nat set \<Rightarrow> nat \<Rightarrow> bool" where
  "best_of el pr A i \<longleftrightarrow> i \<in> A \<and> el i \<and> pr i > 0 \<and>
     (\<forall>j \<in> A. el j \<longrightarrow> pr j < pr i \<or> (pr j = pr i \<and> i \<le> j))"

lemma pick_snoc: "pick el pr (xs @ [x]) =
  (if el x \<and> pr x > snd (pick el pr xs) then (x, pr x) else pick el pr xs)"
  by (simp add: pick_def)

lemma pick_cases:
  assumes "sorted_wrt (<) xs"
  shows "(pick el pr xs = (0, 0) \<and> (\<forall>i \<in> set xs. el i \<longrightarrow> pr i = 0)) \<or>
    (best_of el pr (set xs) (fst (pick el pr xs)) \<and> snd (pick el pr xs) = pr (fst (pick el pr xs)))"
  using assms
proof (induction xs rule: rev_induct)
  case Nil
  then show ?case by (simp add: pick_def)
next
  case (snoc x xs)
  let ?m = "fst (pick el pr xs)"
  have lt: "\<forall>j \<in> set xs. j < x" using snoc.prems by (simp add: sorted_wrt_append)
  have IH: "(pick el pr xs = (0, 0) \<and> (\<forall>i \<in> set xs. el i \<longrightarrow> pr i = 0)) \<or>
      (best_of el pr (set xs) ?m \<and> snd (pick el pr xs) = pr ?m)"
    using snoc by (simp add: sorted_wrt_append)
  show ?case
  proof (cases "el x \<and> pr x > snd (pick el pr xs)")
    case True
    with IH have "best_of el pr (set (xs @ [x])) x"
      by (auto simp: best_of_def word_gt_0 intro: le_less_trans less_trans)
    with True show ?thesis by (simp add: pick_snoc)
  next
    case False
    with IH lt show ?thesis
      by (auto simp: pick_snoc best_of_def word_gt_0 not_less order.order_iff_strict)
  qed
qed

lemma best_unique: "best_of el pr A i \<Longrightarrow> best_of el pr A j \<Longrightarrow> i = j"
  unfolding best_of_def by (metis less_asym' order_antisym less_irrefl)

text \<open>The selection over the numbers from 1: zero stands for no interrupt.\<close>

lemma pick_spec:
  assumes "m = fst (pick el pr [1..<n])"
  shows "m = 0 \<longleftrightarrow> (\<forall>i. 0 < i \<longrightarrow> i < n \<longrightarrow> el i \<longrightarrow> pr i = 0)"
    and "m \<noteq> 0 \<Longrightarrow> best_of el pr {1..<n} m"
    and "0 < i \<Longrightarrow> (m = i \<longleftrightarrow> best_of el pr {1..<n} i)"
proof -
  have cases: "(m = 0 \<and> (\<forall>i \<in> {1..<n}. el i \<longrightarrow> pr i = 0)) \<or> best_of el pr {1..<n} m"
    using pick_cases [of "[1..<n]" el pr] assms by (auto simp: sorted_wrt_upt)
  then show "m = 0 \<longleftrightarrow> (\<forall>i. 0 < i \<longrightarrow> i < n \<longrightarrow> el i \<longrightarrow> pr i = 0)" "m \<noteq> 0 \<Longrightarrow> best_of el pr {1..<n} m"
    by (auto simp: best_of_def)
  show "m = i \<longleftrightarrow> best_of el pr {1..<n} i" if "0 < i" for i
    using cases that best_unique [of el pr "{1..<n}" m i] by (auto simp: best_of_def)
qed

section \<open>Bits of the interrupt registers\<close>

text \<open>Interrupt \<open>irq\<close> has bit \<open>irq mod 32\<close> of word \<open>irq div 32\<close>.\<close>

definition irq_bit :: "RegisterRange \<Rightarrow> nat \<Rightarrow> bool" where
  "irq_bit r irq = bit (elem 4 r (irq div 32)) (irq mod 32)"

definition irq_off :: "nat \<Rightarrow> u64" where
  "irq_off irq = push_bit (irq mod 32) 1"

lemma and_irq_off: "w AND irq_off irq \<noteq> 0 \<longleftrightarrow> bit w (irq mod 32)"
proof -
  have "w AND irq_off irq = (if bit w (irq mod 32) then irq_off irq else 0)"
    by (rule bit_word_eqI) (auto simp: irq_off_def bit_simps)
  moreover have "irq_off irq \<noteq> 0"
  proof -
    have "irq mod 32 < 64" using mod_less_divisor [of 32 irq] by linarith
    then have "bit (irq_off irq) (irq mod 32)" by (simp add: irq_off_def bit_simps)
    then show ?thesis by auto
  qed
  ultimately show ?thesis by simp
qed

lemma irq_bit_set:
  assumes "in_view 4 r (irq div 32)" and "in_view 4 r (j div 32)"
  shows "irq_bit (set_elem 4 (irq div 32) (elem 4 r (irq div 32) OR irq_off irq) r) j = (j = irq \<or> irq_bit r j)"
    and "irq_bit (set_elem 4 (irq div 32) (elem 4 r (irq div 32) AND NOT (irq_off irq)) r) j = (j \<noteq> irq \<and> irq_bit r j)"
proof -
  have same: "j = irq \<longleftrightarrow> j div 32 = irq div 32 \<and> j mod 32 = irq mod 32"
    by (metis div_mult_mod_eq)
  have lt: "j mod 32 < 32" "irq mod 32 < 32" by simp_all
  then have "j mod 32 < 64" "irq mod 32 < 64" by linarith+
  with lt same assms
  show "irq_bit (set_elem 4 (irq div 32) (elem 4 r (irq div 32) OR irq_off irq) r) j = (j = irq \<or> irq_bit r j)"
    "irq_bit (set_elem 4 (irq div 32) (elem 4 r (irq div 32) AND NOT (irq_off irq)) r) j = (j \<noteq> irq \<and> irq_bit r j)"
    by (auto simp: irq_bit_def elem_set bit_simps irq_off_def)
qed

end
