(* ===== verification/PlicFE310.thy ===== *)
theory PlicFE310
  imports PlicSel
begin

text \<open>
  \<open>platform/common/fe310_plic.h\<close>: the platform-level interrupt controller of the FE310 boards. The
  template parameters are a record; \<open>'h\<close> is the type of the harts, whose number is \<open>NumberCores\<close>.
\<close>

unbundle bit_operations_syntax

section \<open>State\<close>

record fe310_params =
  NumberInterrupts :: nat
  NumberInterruptEntries :: nat
  MaxPriority :: u64

record 'h FE310_PLIC =
  fe_priorities :: RegisterRange
  fe_pending :: RegisterRange
  fe_enabled :: RegisterRange
  fe_config :: RegisterRange
  fe_harts :: "'h list"
  fe_level :: u32
  hart_eip :: "bool list"
  e_run :: sc_event
  fe_time :: nat

definition fe_clock_cycle :: nat where
  "fe_clock_cycle = 10000"

text \<open>The constructor sets all priorities but the last entry to 1.\<close>

definition FE310_PLIC_init :: "fe310_params \<Rightarrow> 'h list \<Rightarrow> u32 \<Rightarrow> nat \<Rightarrow> 'h FE310_PLIC" where
  "FE310_PLIC_init p hs level now =
     \<lparr>fe_priorities = fold (\<lambda>i. set_elem 4 i 1) [0..<NumberInterrupts p]
        (RegisterRange_init 0 (4 * (of_nat (NumberInterrupts p) + 1))),
      fe_pending = (RegisterRange_init 0x1000 (4 * of_nat (NumberInterruptEntries p)))\<lparr>range_readonly := True\<rparr>,
      fe_enabled = RegisterRange_init 0x2000 (4 * of_nat (NumberInterruptEntries p) * of_nat (length hs)),
      fe_config = (RegisterRange_init 0x200000 (8 * of_nat (length hs)))\<lparr>range_alignment := 4\<rparr>,
      fe_harts = hs, fe_level = level, hart_eip = replicate (length hs) False, e_run = None, fe_time = now\<rparr>"

definition fe_on_hart :: "nat \<Rightarrow> ('h \<Rightarrow> 'h) \<Rightarrow> ('h FE310_PLIC, unit) act" where
  "fe_on_hart i f = (\<lambda>s. if i < length (fe_harts s) then (Ok (), s\<lparr>fe_harts := upd_nth i f (fe_harts s)\<rparr>)
                         else (Fail OutOfRange, s))"

definition fe_eip :: "nat \<Rightarrow> ('h FE310_PLIC, bool) act" where
  "fe_eip i = (\<lambda>s. if i < length (hart_eip s) then (Ok (hart_eip s ! i), s) else (Fail OutOfRange, s))"

definition fe_set_eip :: "nat \<Rightarrow> bool \<Rightarrow> ('h FE310_PLIC, unit) act" where
  "fe_set_eip i b = (\<lambda>s. if i < length (hart_eip s) then (Ok (), s\<lparr>hart_eip := (hart_eip s)[i := b]\<rparr>)
                         else (Fail OutOfRange, s))"

text \<open>An access through \<open>operator()\<close>, which is not checked.\<close>

definition row_view :: "nat \<Rightarrow> ('s \<Rightarrow> RegisterRange) \<Rightarrow> nat \<Rightarrow> nat \<Rightarrow> ('s, u64) act" where
  "row_view n get i j = (\<lambda>s. if in_view n (get s) (row_index i j) then (Ok (elem n (get s) (row_index i j)), s)
                             else (Fail OutOfRange, s))"

text \<open>The members of \<open>hart_config[i]\<close>: the threshold and the claim register.\<close>

definition fe_threshold :: "nat \<Rightarrow> ('h FE310_PLIC, u64) act" where
  "fe_threshold i = (\<lambda>s. if in_view 8 (fe_config s) i then (Ok (elem 4 (fe_config s) (2 * i)), s)
                         else (Fail AssertionFailed, s))"

definition fe_set_claim :: "nat \<Rightarrow> u64 \<Rightarrow> ('h FE310_PLIC, unit) act" where
  "fe_set_claim i v = (\<lambda>s. if in_view 8 (fe_config s) i
     then (Ok (), s\<lparr>fe_config := set_elem 4 (2 * i + 1) v (fe_config s)\<rparr>) else (Fail AssertionFailed, s))"

section \<open>Operations\<close>

definition fe_gateway_trigger_interrupt :: "fe310_params \<Rightarrow> nat \<Rightarrow> ('h FE310_PLIC, unit) act" where
  "fe_gateway_trigger_interrupt p irq_id =
     seqM (assertM (\<lambda>_. irq_id > 0 \<and> irq_id < NumberInterrupts p))
     (bindM (at_view 4 fe_pending (irq_id div 32)) (\<lambda>w.
      seqM (set_at_view 4 fe_pending fe_pending_update (irq_id div 32) (w OR irq_off irq_id))
        (modifyM (\<lambda>s. s\<lparr>e_run := notify (fe_time s) fe_clock_cycle (e_run s)\<rparr>))))"

definition fe_clear_pending_interrupt :: "fe310_params \<Rightarrow> nat \<Rightarrow> ('h FE310_PLIC, unit) act" where
  "fe_clear_pending_interrupt p irq_id =
     seqM (assertM (\<lambda>_. irq_id < NumberInterrupts p))
     (bindM (at_view 4 fe_pending (irq_id div 32)) (\<lambda>w.
        set_at_view 4 fe_pending fe_pending_update (irq_id div 32) (w AND NOT (irq_off irq_id))))"

definition fe_consider :: "nat \<Rightarrow> bool \<Rightarrow> nat \<Rightarrow> nat \<times> u64 \<Rightarrow> ('h FE310_PLIC, nat \<times> u64) act" where
  "fe_consider hart_id consider_threshold i acc =
     bindM (row_view 4 fe_enabled hart_id (i div 32)) (\<lambda>en.
     if en AND irq_off i = 0 then ret acc
     else bindM (at_view 4 fe_pending (i div 32)) (\<lambda>pe.
     if pe AND irq_off i = 0 then ret acc
     else bindM (at_view 4 fe_priorities i) (\<lambda>prio.
       if \<not> prio > 0 then ret acc
       else bindM (if consider_threshold then bindM (fe_threshold hart_id) (\<lambda>thr. ret (prio > thr)) else ret True) (\<lambda>above.
         ret (if above \<and> prio > snd acc then (i, prio) else acc)))))"

definition hart_get_next_pending_interrupt :: "fe310_params \<Rightarrow> nat \<Rightarrow> bool \<Rightarrow> ('h FE310_PLIC, nat) act" where
  "hart_get_next_pending_interrupt p hart_id consider_threshold =
     bindM (foldM (fe_consider hart_id consider_threshold) [1..<NumberInterrupts p] (0, 0)) (\<lambda>(min_id, max_priority). ret min_id)"

definition hart_has_pending_enabled_interrupts :: "fe310_params \<Rightarrow> nat \<Rightarrow> ('h FE310_PLIC, bool) act" where
  "hart_has_pending_enabled_interrupts p hart_id =
     bindM (hart_get_next_pending_interrupt p hart_id True) (\<lambda>i. ret (i > 0))"

text \<open>The loop runs over the iterators of the view, which leave out its last element.\<close>

definition fe_post_write_interrupt_priorities :: "fe310_params \<Rightarrow> access_info \<Rightarrow> ('h FE310_PLIC, unit) act" where
  "fe_post_write_interrupt_priorities p t =
     modifyM (\<lambda>s. s\<lparr>fe_priorities :=
       fold (\<lambda>i r. set_elem 4 i (min (elem 4 r i) (MaxPriority p)) r) (view_iterates 4 (fe_priorities s)) (fe_priorities s)\<rparr>)"

text \<open>
  The claim register of hart \<open>h\<close> has the register index \<open>2 * h + 1\<close>; the code uses the index of the
  register before it as the number of the hart, and selects for hart 0.
\<close>

definition fe_pre_read_hart_config :: "fe310_params \<Rightarrow> access_info \<Rightarrow> ('h FE310_PLIC, bool) act" where
  "fe_pre_read_hart_config p t =
     seqM (assertM (\<lambda>_. info_addr t mod 4 = 0))
       (let idx = unat (info_addr t div 4) in
        if idx mod 2 = 1 then
          seqM (assertM (\<lambda>_. info_size t = 4))
          (bindM (hart_get_next_pending_interrupt p 0 False) (\<lambda>min_id.
           seqM (fe_set_claim (idx - 1) (of_nat min_id))
           (seqM (fe_clear_pending_interrupt p min_id) (ret True))))
        else ret True)"

definition fe_post_write_hart_config ::
    "'h external_interrupt_target \<Rightarrow> fe310_params \<Rightarrow> access_info \<Rightarrow> ('h FE310_PLIC, unit) act" where
  "fe_post_write_hart_config tgt p t =
     seqM (assertM (\<lambda>_. info_addr t mod 4 = 0))
       (let idx = unat (info_addr t div 4) in
        if idx mod 2 = 1 then
          seqM (assertM (\<lambda>_. info_size t = 4))
          (bindM (hart_has_pending_enabled_interrupts p (idx - 1)) (\<lambda>b.
           bindM (getsM fe_level) (\<lambda>level.
           if b then bindM (fe_eip (idx - 1)) (\<lambda>eip.
                  seqM (assertM (\<lambda>_. eip)) (fe_on_hart (idx - 1) (trigger_external tgt level)))
           else seqM (fe_set_eip (idx - 1) False) (fe_on_hart (idx - 1) (clear_external tgt level)))))
        else ret ())"

definition fe_ranges :: "'h external_interrupt_target \<Rightarrow> fe310_params \<Rightarrow> 'h FE310_PLIC mapped_range list" where
  "fe_ranges tgt p =
     [\<lparr>the_range = fe_priorities, upd_range = fe_priorities_update, pre_write_callback = None,
       post_write_callback = Some (fe_post_write_interrupt_priorities p), pre_read_callback = None,
       post_read_callback = None\<rparr>,
      \<lparr>the_range = fe_pending, upd_range = fe_pending_update, pre_write_callback = None,
       post_write_callback = None, pre_read_callback = None, post_read_callback = None\<rparr>,
      \<lparr>the_range = fe_enabled, upd_range = fe_enabled_update, pre_write_callback = None,
       post_write_callback = None, pre_read_callback = None, post_read_callback = None\<rparr>,
      \<lparr>the_range = fe_config, upd_range = fe_config_update, pre_write_callback = None,
       post_write_callback = Some (fe_post_write_hart_config tgt p),
       pre_read_callback = Some (fe_pre_read_hart_config p), post_read_callback = None\<rparr>]"

definition fe_transport :: "'h external_interrupt_target \<Rightarrow> fe310_params \<Rightarrow> 'h FE310_PLIC tlm_target" where
  "fe_transport tgt p tr delay = mm_route (fe_ranges tgt p) tr (delay + 4 * fe_clock_cycle)"

definition fe_run_hart :: "'h external_interrupt_target \<Rightarrow> fe310_params \<Rightarrow> nat \<Rightarrow> ('h FE310_PLIC, unit) act" where
  "fe_run_hart tgt p i =
     bindM (fe_eip i) (\<lambda>eip.
       if eip then ret ()
       else bindM (hart_has_pending_enabled_interrupts p i) (\<lambda>b.
         if b then seqM (fe_set_eip i True)
                (bindM (getsM fe_level) (\<lambda>level. fe_on_hart i (trigger_external tgt level)))
         else ret ()))"

definition fe_run_body :: "'h external_interrupt_target \<Rightarrow> fe310_params \<Rightarrow> ('h FE310_PLIC, unit) act" where
  "fe_run_body tgt p =
     bindM (getsM (\<lambda>s. length (fe_harts s))) (\<lambda>n. seqs (map (fe_run_hart tgt p) [0..<n]))"

definition fe_run_round :: "'h external_interrupt_target \<Rightarrow> fe310_params \<Rightarrow> ('h FE310_PLIC, unit) act" where
  "fe_run_round tgt p s = (case e_run s of
     None \<Rightarrow> (Blocked, s)
   | Some t \<Rightarrow> fe_run_body tgt p (s\<lparr>fe_time := t, e_run := None\<rparr>))"

section \<open>Well-formed states\<close>

definition fe_params_ok :: "fe310_params \<Rightarrow> bool" where
  "fe_params_ok p \<longleftrightarrow> 0 < NumberInterrupts p \<and> NumberInterrupts p \<le> 4096 \<and>
     NumberInterrupts p \<le> 32 * NumberInterruptEntries p \<and> NumberInterruptEntries p \<le> 1024"

text \<open>The layout of the registers; the enable bits end before the registers of the harts.\<close>

definition fe_wf :: "fe310_params \<Rightarrow> 'h FE310_PLIC \<Rightarrow> bool" where
  "fe_wf p s \<longleftrightarrow> (let n = length (fe_harts s); e = NumberInterruptEntries p; k = NumberInterrupts p in
     fe_params_ok p \<and> 0 < n \<and> n \<le> 15360 \<and> e * n \<le> 0x7F800 \<and> length (hart_eip s) = n \<and>
     range_shape (fe_priorities s) = (0, 4 * (of_nat k + 1) - 1, False, 1, 4 * (k + 1)) \<and>
     range_shape (fe_pending s) = (0x1000, 0x1000 + 4 * of_nat e - 1, True, 1, 4 * e) \<and>
     range_shape (fe_enabled s) = (0x2000, 0x2000 + 4 * of_nat e * of_nat n - 1, False, 1, 4 * (e * n)) \<and>
     range_shape (fe_config s) = (0x200000, 0x200000 + 8 * of_nat n - 1, False, 4, 8 * n))"

lemma fe_wf_views:
  assumes "fe_wf p s"
  shows "in_view 4 (fe_priorities s) i \<longleftrightarrow> i \<le> NumberInterrupts p"
    and "in_view 4 (fe_pending s) i \<longleftrightarrow> i < NumberInterruptEntries p"
    and "in_view 4 (fe_enabled s) i \<longleftrightarrow> i < NumberInterruptEntries p * length (fe_harts s)"
    and "in_view 8 (fe_config s) i \<longleftrightarrow> i < length (fe_harts s)"
    and "in_view 4 (fe_config s) i \<longleftrightarrow> i < 2 * length (fe_harts s)"
  using assms by (auto simp: fe_wf_def range_shape_def in_view_def view_size_def Let_def)

section \<open>Selection\<close>

definition fe_enabled_bit :: "'h FE310_PLIC \<Rightarrow> nat \<Rightarrow> nat \<Rightarrow> bool" where
  "fe_enabled_bit s hart i = bit (elem 4 (fe_enabled s) (row_index hart (i div 32))) (i mod 32)"

definition fe_priority :: "'h FE310_PLIC \<Rightarrow> nat \<Rightarrow> u64" where
  "fe_priority s i = elem 4 (fe_priorities s) i"

definition fe_above :: "'h FE310_PLIC \<Rightarrow> nat \<Rightarrow> bool \<Rightarrow> nat \<Rightarrow> bool" where
  "fe_above s hart consider_threshold i \<longleftrightarrow>
     (consider_threshold \<longrightarrow> fe_priority s i > elem 4 (fe_config s) (2 * hart))"

definition fe_eligible :: "'h FE310_PLIC \<Rightarrow> nat \<Rightarrow> bool \<Rightarrow> nat \<Rightarrow> bool" where
  "fe_eligible s hart consider_threshold i \<longleftrightarrow>
     fe_enabled_bit s hart i \<and> irq_bit (fe_pending s) i \<and> fe_above s hart consider_threshold i"

definition fe_next :: "fe310_params \<Rightarrow> 'h FE310_PLIC \<Rightarrow> nat \<Rightarrow> bool \<Rightarrow> nat" where
  "fe_next p s hart ct = fst (pick (fe_eligible s hart ct) (fe_priority s) [1..<NumberInterrupts p])"

lemma row_in_range: "i < n \<Longrightarrow> j < e \<Longrightarrow> row_index i j < e * (n :: nat)"
proof -
  assume "i < n" "j < e"
  then obtain a b where "n = Suc a" "i \<le> a" "e = Suc b" "j \<le> b" by (metis less_Suc_eq_le not0_implies_Suc not_less0)
  then show ?thesis by (simp add: row_index_def)
qed

lemma fe_consider_eq:
  assumes "fe_wf p s" and "hart < length (fe_harts s)" and "i < NumberInterrupts p"
  shows "fe_consider hart ct i acc s =
    (Ok (if fe_eligible s hart ct i \<and> fe_priority s i > snd acc then (i, fe_priority s i) else acc), s)"
proof -
  have "i < 32 * NumberInterruptEntries p"
    using assms(1,3) by (simp add: fe_wf_def fe_params_ok_def Let_def)
  then have e: "i div 32 < NumberInterruptEntries p" by (simp add: less_mult_imp_div_less mult.commute)
  have v: "in_view 4 (fe_enabled s) (row_index hart (i div 32))" "in_view 4 (fe_pending s) (i div 32)"
      "in_view 4 (fe_priorities s) i" "in_view 8 (fe_config s) hart"
    using assms fe_wf_views [OF assms(1)] e row_in_range [OF assms(2) e] by simp_all
  have "\<not> 0 < fe_priority s i \<Longrightarrow> \<not> snd acc < fe_priority s i" by (simp add: word_gt_0)
  with v show ?thesis
    by (auto simp: fe_consider_def row_view_def at_view_def fe_threshold_def bindM_def fe_eligible_def fe_enabled_bit_def
        irq_bit_def fe_above_def fe_priority_def and_irq_off [symmetric])
qed

lemma hart_get_next_pending_interrupt_eq:
  assumes "fe_wf p s" and "hart < length (fe_harts s)"
  shows "hart_get_next_pending_interrupt p hart ct s = (Ok (fe_next p s hart ct), s)"
proof -
  have "foldM (fe_consider hart ct) [1..<NumberInterrupts p] (0, 0) s =
      (Ok (fold (\<lambda>i acc. if fe_eligible s hart ct i \<and> fe_priority s i > snd acc then (i, fe_priority s i) else acc)
        [1..<NumberInterrupts p] (0, 0)), s)"
    by (rule foldM_pure) (simp add: fe_consider_eq [OF assms])
  then show ?thesis
    by (simp add: hart_get_next_pending_interrupt_def bindM_def fe_next_def pick_def case_prod_beta)
qed

lemma hart_has_pending_eq:
  "fe_wf p s \<Longrightarrow> hart < length (fe_harts s) \<Longrightarrow>
     hart_has_pending_enabled_interrupts p hart s = (Ok (fe_next p s hart True > 0), s)"
  by (simp add: hart_has_pending_enabled_interrupts_def hart_get_next_pending_interrupt_eq bindM_def)

lemma fe_next_less: "fe_wf p s \<Longrightarrow> fe_next p s hart ct < NumberInterrupts p"
  using pick_spec(2) [of "fe_next p s hart ct" "fe_eligible s hart ct" "fe_priority s" "NumberInterrupts p"]
  by (cases "fe_next p s hart ct = 0") (auto simp: fe_next_def best_of_def fe_wf_def fe_params_ok_def Let_def)

section \<open>The thread\<close>

lemma fe_run_hart_eq:
  assumes "fe_wf p s" and "i < length (fe_harts s)"
  shows "fe_run_hart tgt p i s = (Ok (), if \<not> hart_eip s ! i \<and> fe_next p s i True > 0
    then s\<lparr>hart_eip := (hart_eip s)[i := True], fe_harts := upd_nth i (trigger_external tgt (fe_level s)) (fe_harts s)\<rparr> else s)"
proof -
  have "length (hart_eip s) = length (fe_harts s)" using assms(1) by (simp add: fe_wf_def Let_def)
  with assms(2) hart_has_pending_eq [OF assms] show ?thesis
    by (simp add: fe_run_hart_def fe_eip_def fe_set_eip_def fe_on_hart_def seqM_def bindM_def)
qed

primrec fe_after :: "'h external_interrupt_target \<Rightarrow> fe310_params \<Rightarrow> nat \<Rightarrow> 'h FE310_PLIC \<Rightarrow> 'h FE310_PLIC" where
  "fe_after tgt p 0 s = s"
| "fe_after tgt p (Suc n) s = snd (fe_run_hart tgt p n (fe_after tgt p n s))"

lemma fe_after_facts:
  assumes "fe_wf p s" and "n \<le> length (fe_harts s)"
  shows "seqs (map (fe_run_hart tgt p) [0..<n]) s = (Ok (), fe_after tgt p n s) \<and>
    fe_wf p (fe_after tgt p n s) \<and> length (fe_harts (fe_after tgt p n s)) = length (fe_harts s) \<and>
    fe_priorities (fe_after tgt p n s) = fe_priorities s \<and> fe_pending (fe_after tgt p n s) = fe_pending s \<and>
    fe_enabled (fe_after tgt p n s) = fe_enabled s \<and> fe_config (fe_after tgt p n s) = fe_config s \<and>
    fe_level (fe_after tgt p n s) = fe_level s \<and> e_run (fe_after tgt p n s) = e_run s \<and>
    (\<forall>j < length (fe_harts s). let rise = j < n \<and> \<not> hart_eip s ! j \<and> fe_next p s j True > 0 in
       hart_eip (fe_after tgt p n s) ! j = (hart_eip s ! j \<or> rise) \<and>
       fe_harts (fe_after tgt p n s) ! j =
         (if rise then trigger_external tgt (fe_level s) (fe_harts s ! j) else fe_harts s ! j))"
  using assms(2)
proof (induction n)
  case 0
  then show ?case using assms(1) by simp
next
  case (Suc n)
  let ?a = "fe_after tgt p n s"
  from Suc have IH: "seqs (map (fe_run_hart tgt p) [0..<n]) s = (Ok (), ?a)" "fe_wf p ?a"
      "length (fe_harts ?a) = length (fe_harts s)" "fe_priorities ?a = fe_priorities s" "fe_pending ?a = fe_pending s"
      "fe_enabled ?a = fe_enabled s" "fe_config ?a = fe_config s" "fe_level ?a = fe_level s" "e_run ?a = e_run s"
      "\<forall>j < length (fe_harts s). let rise = j < n \<and> \<not> hart_eip s ! j \<and> fe_next p s j True > 0 in
         hart_eip ?a ! j = (hart_eip s ! j \<or> rise) \<and>
         fe_harts ?a ! j = (if rise then trigger_external tgt (fe_level s) (fe_harts s ! j) else fe_harts s ! j)"
    by simp_all
  have n: "n < length (fe_harts ?a)" using Suc.prems IH(3) by simp
  have el: "fe_eligible ?a j b i = fe_eligible s j b i" "fe_priority ?a i = fe_priority s i" for j b i
    by (simp_all add: fe_eligible_def fe_enabled_bit_def fe_above_def fe_priority_def IH(4-7))
  have "fe_eligible ?a j b = fe_eligible s j b" "fe_priority ?a = fe_priority s" for j b
    by (rule ext, simp add: el)+
  then have nx: "fe_next p ?a j b = fe_next p s j b" for j b by (simp add: fe_next_def)
  have len: "length (hart_eip ?a) = length (fe_harts s)" using IH(2,3) by (simp add: fe_wf_def Let_def)
  have eip: "hart_eip ?a ! n = hart_eip s ! n" using IH(10) Suc.prems by (simp add: Let_def)
  let ?b = "if \<not> hart_eip s ! n \<and> fe_next p s n True > 0
    then ?a\<lparr>hart_eip := (hart_eip ?a)[n := True], fe_harts := upd_nth n (trigger_external tgt (fe_level s)) (fe_harts ?a)\<rparr> else ?a"
  have run: "fe_run_hart tgt p n ?a = (Ok (), ?b)"
    using fe_run_hart_eq [OF IH(2) n, of tgt] by (simp add: eip nx IH(8))
  have "fe_wf p ?b" using IH(2) by (auto simp: fe_wf_def Let_def)
  moreover have "\<forall>j < length (fe_harts s). let rise = j < Suc n \<and> \<not> hart_eip s ! j \<and> fe_next p s j True > 0 in
       hart_eip ?b ! j = (hart_eip s ! j \<or> rise) \<and>
       fe_harts ?b ! j = (if rise then trigger_external tgt (fe_level s) (fe_harts s ! j) else fe_harts s ! j)"
    using IH(3,10) len n by (auto simp: Let_def nth_list_update nth_upd_nth less_Suc_eq)
  ultimately show ?case
    using run IH by (simp add: seqs_append seqM_apply)
qed

section \<open>The gateway\<close>

definition fe_triggered :: "nat \<Rightarrow> 'h FE310_PLIC \<Rightarrow> 'h FE310_PLIC" where
  "fe_triggered irq s = s\<lparr>
     fe_pending := set_elem 4 (irq div 32) (elem 4 (fe_pending s) (irq div 32) OR irq_off irq) (fe_pending s),
     e_run := notify (fe_time s) fe_clock_cycle (e_run s)\<rparr>"

lemma fe_irq_view:
  assumes "fe_wf p s" and "i < NumberInterrupts p"
  shows "in_view 4 (fe_pending s) (i div 32)"
proof -
  have "i < 32 * NumberInterruptEntries p"
    using assms by (simp add: fe_wf_def fe_params_ok_def Let_def)
  then show ?thesis using fe_wf_views(2) [OF assms(1)] by (simp add: less_mult_imp_div_less mult.commute)
qed

lemma fe_gateway_eq:
  assumes "fe_wf p s" and "0 < irq" and "irq < NumberInterrupts p"
  shows "fe_gateway_trigger_interrupt p irq s = (Ok (), fe_triggered irq s)" and "fe_wf p (fe_triggered irq s)"
    and "j < NumberInterrupts p \<Longrightarrow> irq_bit (fe_pending (fe_triggered irq s)) j = (j = irq \<or> irq_bit (fe_pending s) j)"
proof -
  note v = fe_irq_view [OF assms(1,3)]
  show "fe_gateway_trigger_interrupt p irq s = (Ok (), fe_triggered irq s)"
    using assms(2,3) v
    by (simp add: fe_gateway_trigger_interrupt_def fe_triggered_def seqM_def bindM_def assertM_def at_view_def set_at_view_def)
  show "fe_wf p (fe_triggered irq s)" using assms(1) v by (simp add: fe_wf_def fe_triggered_def Let_def)
  show "j < NumberInterrupts p \<Longrightarrow> irq_bit (fe_pending (fe_triggered irq s)) j = (j = irq \<or> irq_bit (fe_pending s) j)"
    using irq_bit_set(1) [OF v fe_irq_view [OF assms(1)]] by (simp add: fe_triggered_def)
qed

section \<open>Claim and completion\<close>

definition fe_claimed :: "nat \<Rightarrow> 'h FE310_PLIC \<Rightarrow> 'h FE310_PLIC" where
  "fe_claimed irq s = s\<lparr>fe_config := set_elem 4 1 (of_nat irq) (fe_config s),
     fe_pending := set_elem 4 (irq div 32) (elem 4 (fe_pending s) (irq div 32) AND NOT (irq_off irq)) (fe_pending s)\<rparr>"

lemma fe_claim_address:
  assumes "fe_wf p s"
  shows "\<not> range_contains (fe_priorities s) 0x200004" "\<not> range_contains (fe_pending s) 0x200004"
    "\<not> range_contains (fe_enabled s) 0x200004" "range_contains (fe_config s) 0x200004"
    "range_fits (fe_config s) 0x200004 4" "to_local (fe_config s) 0x200004 = 4"
proof -
  let ?n = "length (fe_harts s)" and ?e = "NumberInterruptEntries p" and ?k = "NumberInterrupts p"
  have b: "0 < ?n" "?n \<le> 15360" "?e * ?n \<le> 0x7F800" "0 < ?k" "?k \<le> 4096" "0 < ?e" "?e \<le> 1024"
    using assms by (auto simp: fe_wf_def fe_params_ok_def Let_def)
  have n5: "8 \<le> 8 * ?n" using b(1) by linarith
  have sh: "range_shape (fe_priorities s) = (0, 4 * (of_nat ?k + 1) - 1, False, 1, 4 * (?k + 1))"
     "range_shape (fe_pending s) = (0x1000, 0x1000 + 4 * of_nat ?e - 1, True, 1, 4 * ?e)"
     "range_shape (fe_enabled s) = (0x2000, 0x2000 + 4 * of_nat ?e * of_nat ?n - 1, False, 1, 4 * (?e * ?n))"
     "range_shape (fe_config s) = (0x200000, 0x200000 + 8 * of_nat ?n - 1, False, 4, 8 * ?n)"
    using assms by (simp_all add: fe_wf_def Let_def)
  have u: "unat (of_nat m :: u64) = m" if "m < 2 ^ 64" for m using that by (simp add: unat_of_nat take_bit_nat_eq_self)
  have k: "4 * (of_nat ?k + 1) - 1 = (of_nat (4 * ?k + 3) :: u64)"
    "0x1000 + 4 * of_nat ?e - 1 = (of_nat (0xFFF + 4 * ?e) :: u64)"
    "0x2000 + 4 * of_nat ?e * of_nat ?n - 1 = (of_nat (0x1FFF + 4 * (?e * ?n)) :: u64)"
    "0x200000 + 8 * of_nat ?n - 1 = (of_nat (0x1FFFFF + 8 * ?n) :: u64)"
    by simp_all
  have le: "unat (of_nat (4 * ?k + 3) :: u64) = 4 * ?k + 3" "unat (of_nat (0xFFF + 4 * ?e) :: u64) = 0xFFF + 4 * ?e"
    "unat (of_nat (0x1FFF + 4 * (?e * ?n)) :: u64) = 0x1FFF + 4 * (?e * ?n)"
    "unat (of_nat (0x1FFFFF + 8 * ?n) :: u64) = 0x1FFFFF + 8 * ?n"
    using b by (intro u; simp)+
  show "\<not> range_contains (fe_priorities s) 0x200004" "\<not> range_contains (fe_pending s) 0x200004"
    "\<not> range_contains (fe_enabled s) 0x200004"
    using sh(1-3) b le unfolding k by (simp_all add: range_contains_def range_shape_def word_le_nat_alt del: of_nat_add of_nat_mult of_nat_Suc)
  show c: "range_contains (fe_config s) 0x200004"
    using sh(4) n5 le unfolding k by (simp add: range_contains_def range_shape_def word_le_nat_alt del: of_nat_add of_nat_mult of_nat_Suc)
  show l: "to_local (fe_config s) 0x200004 = 4" using sh(4) by (simp add: to_local_def range_shape_def)
  show "range_fits (fe_config s) 0x200004 4"
    using c l sh(4) n5 b(2) by (simp add: range_fits_def range_shape_def)
qed

lemma fe_claim_callback:
  assumes "fe_wf p s" and "info_addr t = 4" and "info_size t = 4"
  shows "fe_pre_read_hart_config p t s = (Ok True, fe_claimed (fe_next p s 0 False) s)"
proof -
  let ?m = "fe_next p s 0 False"
  have n: "0 < length (fe_harts s)" using assms(1) by (simp add: fe_wf_def Let_def)
  have m: "?m < NumberInterrupts p" by (rule fe_next_less [OF assms(1)])
  note v = fe_irq_view [OF assms(1) m]
  show ?thesis
    using assms(2,3) n v m hart_get_next_pending_interrupt_eq [OF assms(1) n, of False] fe_wf_views(4) [OF assms(1)]
    by (simp add: fe_pre_read_hart_config_def fe_set_claim_def fe_clear_pending_interrupt_def seqM_def bindM_def assertM_def
        at_view_def set_at_view_def fe_claimed_def Let_def)
qed

lemma fe_claim:
  assumes "fe_wf p s" and "command tr = TLM_READ_COMMAND" and "address tr = 0x200004" and "length (data_ptr tr) = 4"
  shows "fe_transport tgt p tr delay s =
    (Ok (tr\<lparr>data_ptr := to_bytes 4 (of_nat (fe_next p s 0 False))\<rparr>, delay + 40000), fe_claimed (fe_next p s 0 False) s)"
proof -
  let ?m = "fe_next p s 0 False" and ?b = "fe_ranges tgt p ! 3"
  note addr = fe_claim_address [OF assms(1)]
  have n: "0 < length (fe_harts s)" using assms(1) by (simp add: fe_wf_def Let_def)
  have v: "in_view 4 (fe_config s) 1" using fe_wf_views(5) [OF assms(1)] n by (cases "fe_harts s") simp_all
  have b: "the_range ?b = fe_config" "pre_read_callback ?b = Some (fe_pre_read_hart_config p)" "post_read_callback ?b = None"
    by (simp_all add: fe_ranges_def)
  have al: "aligned_to (fe_config s) tr"
    using assms(1,3,4) by (simp add: aligned_to_def fe_wf_def range_shape_def Let_def)
  have "array_read 4 4 (range_mem (set_elem 4 1 (of_nat ?m) (fe_config s))) = Some (to_bytes 4 (of_nat ?m))"
    using host_array.rd_wr_same [OF set_elem_write [OF v, of "of_nat ?m"]] by simp
  then have rd: "range_process ?b tr (delay + 40000) s =
      (Ok (tr\<lparr>data_ptr := to_bytes 4 (of_nat ?m)\<rparr>, delay + 40000), fe_claimed ?m s)"
    using addr(5,6) assms(2-4) al b fe_claim_callback [OF assms(1), of "info_of (fe_config s) tr (delay + 40000)"]
    by (intro range_process_read) (simp_all add: call_pre_def info_of_def fe_claimed_def)
  have "mm_route (fe_ranges tgt p) tr (delay + 40000) s = range_process ?b tr (delay + 40000) s"
    using addr(1-4) assms(3) by (simp add: fe_ranges_def)
  with rd show ?thesis by (simp add: fe_transport_def fe_clock_cycle_def)
qed

lemma fe_claimed_pending:
  assumes "fe_wf p s" and "irq < NumberInterrupts p" and "j < NumberInterrupts p"
  shows "irq_bit (fe_pending (fe_claimed irq s)) j = (j \<noteq> irq \<and> irq_bit (fe_pending s) j)" and "fe_wf p (fe_claimed irq s)"
proof -
  have n: "0 < length (fe_harts s)" using assms(1) by (simp add: fe_wf_def Let_def)
  have v: "in_view 4 (fe_config s) 1" using fe_wf_views(5) [OF assms(1)] n by (cases "fe_harts s") simp_all
  show "irq_bit (fe_pending (fe_claimed irq s)) j = (j \<noteq> irq \<and> irq_bit (fe_pending s) j)"
    using irq_bit_set(2) [OF fe_irq_view [OF assms(1,2)] fe_irq_view [OF assms(1,3)]] by (simp add: fe_claimed_def)
  show "fe_wf p (fe_claimed irq s)"
    using assms(1) v fe_irq_view [OF assms(1,2)] by (simp add: fe_wf_def fe_claimed_def Let_def)
qed

text \<open>
  A write to the claim register completes the interrupt: it keeps the line of the hart high if
  there is another interrupt for it, and lowers it otherwise.
\<close>

definition fe_written :: "u64 \<Rightarrow> 'h FE310_PLIC \<Rightarrow> 'h FE310_PLIC" where
  "fe_written v s = s\<lparr>fe_config := set_elem 4 1 v (fe_config s)\<rparr>"

definition fe_completed :: "'h external_interrupt_target \<Rightarrow> fe310_params \<Rightarrow> 'h FE310_PLIC \<Rightarrow> 'h FE310_PLIC" where
  "fe_completed tgt p s =
     (if fe_next p s 0 True > 0 then s\<lparr>fe_harts := upd_nth 0 (trigger_external tgt (fe_level s)) (fe_harts s)\<rparr>
      else s\<lparr>hart_eip := (hart_eip s)[0 := False], fe_harts := upd_nth 0 (clear_external tgt (fe_level s)) (fe_harts s)\<rparr>)"

lemma fe_written_facts:
  assumes "fe_wf p s"
  shows "fe_wf p (fe_written v s)" and "fe_next p (fe_written v s) 0 ct = fe_next p s 0 ct"
proof -
  have n: "0 < length (fe_harts s)" using assms by (simp add: fe_wf_def Let_def)
  have v: "in_view 4 (fe_config s) 1" "in_view 4 (fe_config s) 0"
    using fe_wf_views(5) [OF assms] n by (cases "fe_harts s"; simp)+
  show "fe_wf p (fe_written v s)" using assms v by (simp add: fe_wf_def fe_written_def Let_def)
  have pr: "fe_priority (fe_written v s) i = fe_priority s i" for i
    by (simp add: fe_written_def fe_priority_def)
  have "fe_eligible (fe_written v s) 0 ct i = fe_eligible s 0 ct i" for i
    using v by (simp add: fe_eligible_def fe_enabled_bit_def fe_above_def pr) (simp add: fe_written_def elem_set)
  then have "fe_eligible (fe_written v s) 0 ct = fe_eligible s 0 ct" by (rule ext)
  moreover have "fe_priority (fe_written v s) = fe_priority s" by (rule ext) (rule pr)
  ultimately show "fe_next p (fe_written v s) 0 ct = fe_next p s 0 ct" by (simp add: fe_next_def)
qed

lemma fe_complete:
  assumes "fe_wf p s" and "command tr = TLM_WRITE_COMMAND" and "address tr = 0x200004" and "data_ptr tr = to_bytes 4 v"
  shows "fe_transport tgt p tr delay s =
    (if fe_next p s 0 True > 0 \<and> \<not> hart_eip s ! 0 then (Fail AssertionFailed, fe_written v s)
     else (Ok (tr, delay + 40000), fe_completed tgt p (fe_written v s)))"
proof -
  let ?b = "fe_ranges tgt p ! 3" and ?w = "fe_written v s"
  note addr = fe_claim_address [OF assms(1)] and w = fe_written_facts [OF assms(1), of v]
  have n: "0 < length (fe_harts s)" "length (hart_eip s) = length (fe_harts s)"
    using assms(1) by (simp_all add: fe_wf_def Let_def)
  then have eip: "hart_eip s \<noteq> []" by auto
  have v: "in_view 4 (fe_config s) 1" using fe_wf_views(5) [OF assms(1)] n by (cases "fe_harts s") simp_all
  have sh: "range_start (fe_config s) = 0x200000" "\<not> range_readonly (fe_config s)" "range_alignment (fe_config s) = 4"
      "length (range_mem (fe_config s)) < 2 ^ 64"
    using assms(1) by (simp_all add: fe_wf_def range_shape_def Let_def)
  have b: "the_range ?b = fe_config" "post_write_callback ?b = Some (fe_post_write_hart_config tgt p)" "pre_write_callback ?b = None"
      "upd_range ?b = fe_config_update"
    by (simp_all add: fe_ranges_def)
  let ?t = "info_of (fe_config s) tr (delay + 40000)"
  have upd: "fe_config_update (\<lambda>r. r\<lparr>range_mem := range_mem (set_elem 4 1 v (fe_config s))\<rparr>) s = ?w"
    by (cases s) (simp add: fe_written_def set_elem_def)
  have t: "info_addr ?t = 4" "info_size ?t = 4" using addr(6) assms(3,4) by (simp_all add: info_of_def)
  have hs: "fe_harts ?w = fe_harts s" "hart_eip ?w = hart_eip s" "fe_level ?w = fe_level s"
    by (simp_all add: fe_written_def)
  have post: "fe_post_write_hart_config tgt p ?t ?w =
      (if fe_next p s 0 True > 0 \<and> \<not> hart_eip s ! 0 then (Fail AssertionFailed, ?w) else (Ok (), fe_completed tgt p ?w))"
    using t n eip hs hart_has_pending_eq [OF w(1), of 0] w(2) [of True]
    by (simp add: fe_post_write_hart_config_def seqM_def bindM_def assertM_def fe_eip_def fe_set_eip_def fe_on_hart_def
        fe_completed_def Let_def)
  have pr: "range_process ?b tr (delay + 40000) s =
      seqM (fe_post_write_hart_config tgt p ?t) (ret (tr, delay + 40000)) ?w"
    using elem_write [of tr 4 v ?b s 1 "delay + 40000"] assms(2-4) b v addr(4) sh upd
    by (simp add: aligned_to_def call_post_def)
  have "mm_route (fe_ranges tgt p) tr (delay + 40000) s = range_process ?b tr (delay + 40000) s"
    using addr(1-4) assms(3) by (simp add: fe_ranges_def)
  with pr post show ?thesis by (simp add: fe_transport_def fe_clock_cycle_def seqM_def bindM_def)
qed

lemma fe_init_wf:
  assumes "fe_params_ok p" and "hs \<noteq> []" and "length hs \<le> 15360" and "NumberInterruptEntries p * length hs \<le> 0x7F800"
  shows "fe_wf p (FE310_PLIC_init p hs level now)"
proof -
  let ?k = "NumberInterrupts p" and ?e = "NumberInterruptEntries p" and ?n = "length hs"
  let ?r = "RegisterRange_init 0 (4 * (of_nat ?k + 1))"
  have u: "unat (of_nat m :: u64) = m" if "m < 2 ^ 64" for m using that by (simp add: unat_of_nat take_bit_nat_eq_self)
  have k: "?k \<le> 4096" "?e \<le> 1024" using assms(1) by (simp_all add: fe_params_ok_def)
  have e: "4 * (of_nat ?k + 1) = (of_nat (4 * (?k + 1)) :: u64)" "4 * of_nat ?e = (of_nat (4 * ?e) :: u64)"
    "4 * of_nat ?e * of_nat ?n = (of_nat (4 * (?e * ?n)) :: u64)" "8 * of_nat ?n = (of_nat (8 * ?n) :: u64)"
    by simp_all
  have b: "4 * (?k + 1) < 2 ^ 64" "4 * (?e * ?n) < 2 ^ 64" "8 * ?n < 2 ^ 64"
    using k(1) assms(3,4) by (simp_all add: mult.commute [of _ "length hs"])
  have un2: "unat (4 * of_nat ?e :: u64) = 4 * ?e" unfolding e(2) using k by (intro u) simp
  have un: "unat (4 * (of_nat ?k + 1) :: u64) = 4 * (?k + 1)" "unat (4 * of_nat ?e * of_nat ?n :: u64) = 4 * (?e * ?n)" "unat (8 * of_nat ?n :: u64) = 8 * ?n"
    unfolding e(1,3,4) by (rule u, rule b)+
  have shape: "range_shape (fold (\<lambda>i. set_elem 4 i 1) xs r) = range_shape r"
    if "\<forall>i \<in> set xs. in_view 4 r i" for xs r
    using that by (induction xs arbitrary: r) simp_all
  have "\<forall>i \<in> set [0..<?k]. in_view 4 ?r i"
    using un(1) by (auto simp: in_view_def view_size_def RegisterRange_init_def)
  from shape [OF this] show ?thesis
    using assms un un2 by (simp add: fe_wf_def FE310_PLIC_init_def RegisterRange_init_def range_shape_def Let_def)
qed

section \<open>What the harts see\<close>

lemma fe_next_positive:
  assumes "fe_wf p s" and "0 < irq" and "irq < NumberInterrupts p" and "fe_eligible s hart ct irq" and "fe_priority s irq > 0"
  shows "0 < fe_next p s hart ct"
  using pick_spec(1) [of "fe_next p s hart ct" "fe_eligible s hart ct" "fe_priority s" "NumberInterrupts p"] assms
  by (auto simp: fe_next_def intro!: gr0I)

context external_target
begin

lemma gateway_delivers:
  assumes "fe_wf p s" and "level_ok (fe_level s)" and "hart < length (fe_harts s)" and "\<not> hart_eip s ! hart"
    and "0 < irq" and "irq < NumberInterrupts p" and "fe_enabled_bit s hart irq"
    and "fe_priority s irq > elem 4 (fe_config s) (2 * hart)"
  shows "\<exists>s1 s2. fe_gateway_trigger_interrupt p irq s = (Ok (), s1) \<and> fe_run_round tgt p s1 = (Ok (), s2) \<and>
    line (fe_level s) (fe_harts s2 ! hart) \<and> hart_eip s2 ! hart \<and> irq_bit (fe_pending s2) irq"
proof -
  let ?s1 = "fe_triggered irq s"
  note g = fe_gateway_eq [OF assms(1,5,6)]
  obtain t where t: "e_run ?s1 = Some t" by (simp add: fe_triggered_def notify_def)
  let ?s = "?s1\<lparr>fe_time := t, e_run := None\<rparr>"
  have wf: "fe_wf p ?s" using g(2) by (simp add: fe_wf_def)
  have same: "fe_harts ?s = fe_harts s" "hart_eip ?s = hart_eip s" "fe_level ?s = fe_level s" "fe_enabled ?s = fe_enabled s"
      "fe_config ?s = fe_config s" "fe_priorities ?s = fe_priorities s" "fe_pending ?s = fe_pending ?s1"
    by (simp_all add: fe_triggered_def)
  have "fe_eligible ?s hart True irq"
    using assms(6,7,8) g(3) [of irq] same by (simp add: fe_eligible_def fe_enabled_bit_def fe_above_def fe_priority_def)
  moreover have "fe_priority ?s irq > 0" using assms(8) same by (simp add: fe_priority_def) (metis word_gt_0 word_not_simps(1))
  ultimately have "0 < fe_next p ?s hart True" by (rule fe_next_positive [OF wf assms(5,6)])
  then have "fe_run_round tgt p ?s1 = (Ok (), fe_after tgt p (length (fe_harts s)) ?s)"
    "line (fe_level s) (fe_harts (fe_after tgt p (length (fe_harts s)) ?s) ! hart)"
    "hart_eip (fe_after tgt p (length (fe_harts s)) ?s) ! hart"
    "fe_pending (fe_after tgt p (length (fe_harts s)) ?s) = fe_pending ?s1"
    using fe_after_facts [OF wf, of "length (fe_harts s)" tgt] same t assms(2-4) line_trigger
    by (simp_all add: fe_run_round_def fe_run_body_def Let_def)
  with g(1) g(3) [of irq] assms(6) show ?thesis by auto
qed

lemma completion_line:
  assumes "fe_wf p s" and "level_ok (fe_level s)" and "command tr = TLM_WRITE_COMMAND" and "address tr = 0x200004"
    and "data_ptr tr = to_bytes 4 v" and "hart_eip s ! 0 \<or> fe_next p s 0 True = 0"
  shows "\<exists>s'. fe_transport tgt p tr delay s = (Ok (tr, delay + 40000), s') \<and>
    (line (fe_level s) (fe_harts s' ! 0) \<longleftrightarrow> fe_next p s 0 True > 0) \<and>
    (hart_eip s' ! 0 \<longleftrightarrow> fe_next p s 0 True > 0)"
proof -
  have n: "fe_harts s \<noteq> []" "length (hart_eip s) = length (fe_harts s)" using assms(1) by (simp_all add: fe_wf_def Let_def)
  then have e: "hart_eip s \<noteq> []" by auto
  have eip: "0 < fe_next p s 0 True \<longrightarrow> hart_eip s ! 0" using assms(6) by linarith
  have w: "fe_harts (fe_written v s) = fe_harts s" "hart_eip (fe_written v s) = hart_eip s" "fe_level (fe_written v s) = fe_level s"
    by (simp_all add: fe_written_def)
  have "fe_transport tgt p tr delay s = (Ok (tr, delay + 40000), fe_completed tgt p (fe_written v s))"
    using fe_complete [OF assms(1,3-5), of tgt delay] assms(6) by auto
  moreover have "line (fe_level s) (fe_harts (fe_completed tgt p (fe_written v s)) ! 0) \<longleftrightarrow> fe_next p s 0 True > 0"
    "hart_eip (fe_completed tgt p (fe_written v s)) ! 0 \<longleftrightarrow> fe_next p s 0 True > 0"
    using n e w eip
    by (simp_all add: fe_completed_def fe_written_facts(2) [OF assms(1)] nth_upd_nth line_trigger [OF assms(2)]
        line_clear [OF assms(2)])
  ultimately show ?thesis by (intro exI conjI)
qed

end

end
