(* ===== verification/PlicFU540.thy ===== *)
theory PlicFU540
  imports PlicSel
begin

text \<open>
  \<open>platform/common/fu540_plic.h\<close> and \<open>fu540_plic.cpp\<close>: the platform-level interrupt controller of the
  FU540 boards. Hart 0 has one context (machine mode), every other hart two (machine and supervisor
  mode); the registers of the contexts follow each other in the address map.
\<close>

unbundle bit_operations_syntax

section \<open>State\<close>

definition NUMIRQ :: nat where "NUMIRQ = 53"

definition MAX_THR :: u64 where "MAX_THR = 7"

definition MAX_PRIO :: u64 where "MAX_PRIO = 7"

definition ENABLE_BASE :: u64 where "ENABLE_BASE = 0x2000"

definition ENABLE_PER_HART :: u64 where "ENABLE_PER_HART = 0x80"

definition CONTEXT_BASE :: u64 where "CONTEXT_BASE = 0x200000"

definition CONTEXT_PER_HART :: u64 where "CONTEXT_PER_HART = 0x1000"

definition HART_REG_SIZE :: u64 where "HART_REG_SIZE = 8"

definition fu_M :: u32 where "fu_M = 3"

definition fu_S :: u32 where "fu_S = 1"

record 'h FU540_PLIC =
  fu_priorities :: RegisterRange
  fu_pending :: RegisterRange
  enabled_irqs :: "RegisterRange list"
  hart_context :: "RegisterRange list"
  fu_harts :: "'h list"
  fu_event :: sc_event
  fu_time :: nat

text \<open>
  The range of a hart and level among the contexts. \<open>hart_map\<close> is the \<open>HartConfig\<close> of the hart; for
  hart 0 the supervisor registers are those of machine mode.
\<close>

definition hart_map :: "nat \<Rightarrow> u32 \<Rightarrow> nat" where
  "hart_map hart level = (if hart = 0 then 0 else if level = fu_M then 2 * hart - 1 else 2 * hart)"

definition context_hart :: "nat \<Rightarrow> nat" where
  "context_hart k = (k + 1) div 2"

definition context_level :: "nat \<Rightarrow> u32" where
  "context_level k = (if k = 0 \<or> odd k then fu_M else fu_S)"

definition fu_range :: "u64 \<Rightarrow> u64 \<Rightarrow> RegisterRange" where
  "fu_range start sz = (RegisterRange_init start sz)\<lparr>range_alignment := 4\<rparr>"

definition create_hart_regs :: "nat \<Rightarrow> u64 \<Rightarrow> u64 \<Rightarrow> RegisterRange list" where
  "create_hart_regs harts addr inc = map (\<lambda>k. fu_range (addr + of_nat k * inc) HART_REG_SIZE) [0..<2 * harts - 1]"

definition FU540_PLIC_init :: "'h list \<Rightarrow> nat \<Rightarrow> 'h FU540_PLIC" where
  "FU540_PLIC_init hs now =
     \<lparr>fu_priorities = fu_range 4 (4 * of_nat NUMIRQ), fu_pending = fu_range 0x1000 8,
      enabled_irqs = create_hart_regs (length hs) ENABLE_BASE ENABLE_PER_HART,
      hart_context = create_hart_regs (length hs) CONTEXT_BASE CONTEXT_PER_HART,
      fu_harts = hs, fu_event = None, fu_time = now\<rparr>"

definition fu_on_hart :: "nat \<Rightarrow> ('h \<Rightarrow> 'h) \<Rightarrow> ('h FU540_PLIC, unit) act" where
  "fu_on_hart i f = (\<lambda>s. if i < length (fu_harts s) then (Ok (), s\<lparr>fu_harts := upd_nth i f (fu_harts s)\<rparr>)
                         else (Fail OutOfRange, s))"

definition upd_context :: "nat \<Rightarrow> (RegisterRange \<Rightarrow> RegisterRange) \<Rightarrow> 'h FU540_PLIC \<Rightarrow> 'h FU540_PLIC" where
  "upd_context k f s = s\<lparr>hart_context := upd_nth k f (hart_context s)\<rparr>"

definition upd_enable :: "nat \<Rightarrow> (RegisterRange \<Rightarrow> RegisterRange) \<Rightarrow> 'h FU540_PLIC \<Rightarrow> 'h FU540_PLIC" where
  "upd_enable k f s = s\<lparr>enabled_irqs := upd_nth k f (enabled_irqs s)\<rparr>"

section \<open>Operations\<close>

text \<open>\<open>std::invalid_argument\<close> for a number out of range.\<close>

definition fu_gateway_trigger_interrupt :: "nat \<Rightarrow> ('h FU540_PLIC, unit) act" where
  "fu_gateway_trigger_interrupt irq =
     (if irq = 0 \<or> irq > NUMIRQ then failM RuntimeError
      else bindM (at_view 4 fu_pending (irq div 32)) (\<lambda>w.
        seqM (set_at_view 4 fu_pending fu_pending_update (irq div 32) (w OR irq_off irq))
          (modifyM (\<lambda>s. s\<lparr>fu_event := notify (fu_time s) 10000 (fu_event s)\<rparr>))))"

definition is_claim_access :: "u64 \<Rightarrow> bool" where
  "is_claim_access addr \<longleftrightarrow> unat (addr div 4) mod 2 = 1"

definition fu_clear_pending :: "nat \<Rightarrow> ('h FU540_PLIC, unit) act" where
  "fu_clear_pending irq =
     seqM (assertM (\<lambda>_. irq > 0 \<and> irq \<le> NUMIRQ))
       (bindM (at_view 4 fu_pending (irq div 32)) (\<lambda>w.
          set_at_view 4 fu_pending fu_pending_update (irq div 32) (w AND NOT (irq_off irq))))"

definition fu_is_pending :: "nat \<Rightarrow> ('h FU540_PLIC, bool) act" where
  "fu_is_pending irq =
     seqM (assertM (\<lambda>_. irq > 0 \<and> irq \<le> NUMIRQ))
       (bindM (at_view 4 fu_pending (irq div 32)) (\<lambda>w. ret (w AND irq_off irq \<noteq> 0)))"

text \<open>\<open>HartConfig::is_enabled\<close>\<close>

definition fu_is_enabled :: "nat \<Rightarrow> nat \<Rightarrow> u32 \<Rightarrow> ('h FU540_PLIC, bool) act" where
  "fu_is_enabled hart irq level =
     seqM (assertM (\<lambda>_. irq > 0 \<and> irq \<le> NUMIRQ))
       (if level = fu_M \<or> level = fu_S
        then bindM (at_view 4 (\<lambda>s. enabled_irqs s ! hart_map hart level) (irq div 32)) (\<lambda>w. ret (w AND irq_off irq \<noteq> 0))
        else failM AssertionFailed)"

definition fu_get_threshold :: "nat \<Rightarrow> u32 \<Rightarrow> ('h FU540_PLIC, u64) act" where
  "fu_get_threshold hart level =
     (if hart = 0 \<and> level = fu_S then failM RuntimeError
      else if level = fu_M \<or> level = fu_S then at_view 4 (\<lambda>s. hart_context s ! hart_map hart level) 0
      else failM RuntimeError)"

definition fu_consider :: "nat \<Rightarrow> u32 \<Rightarrow> bool \<Rightarrow> nat \<Rightarrow> nat \<times> u64 \<Rightarrow> ('h FU540_PLIC, nat \<times> u64) act" where
  "fu_consider hart lvl ignth irq acc =
     bindM (fu_is_enabled hart irq lvl) (\<lambda>en.
     if \<not> en then ret acc
     else bindM (fu_is_pending irq) (\<lambda>pe.
     if \<not> pe then ret acc
     else bindM (at_view 4 fu_priorities irq) (\<lambda>prio.
     bindM (if ignth then ret False else bindM (fu_get_threshold hart lvl) (\<lambda>thr. ret (prio < thr))) (\<lambda>below.
       if below then ret acc
       else if prio > snd acc then ret (irq, prio) else ret acc))))"

definition next_pending_irq :: "nat \<Rightarrow> u32 \<Rightarrow> bool \<Rightarrow> ('h FU540_PLIC, nat) act" where
  "next_pending_irq hart lvl ignth =
     seqM (assertM (\<lambda>_. \<not> (hart = 0 \<and> lvl = fu_S)))
       (bindM (foldM (fu_consider hart lvl ignth) [1..<NUMIRQ + 1] (0, 0)) (\<lambda>(selirq, maxpri). ret selirq))"

text \<open>The level is returned instead of a flag and a pointer; \<open>None\<close> for false.\<close>

definition has_pending_irq :: "nat \<Rightarrow> ('h FU540_PLIC, u32 option) act" where
  "has_pending_irq hart =
     bindM (if hart \<noteq> 0 then bindM (next_pending_irq hart fu_S False) (\<lambda>i. ret (i > 0)) else ret False) (\<lambda>super.
     if super then ret (Some fu_S)
     else bindM (next_pending_irq hart fu_M False) (\<lambda>i. ret (if i > 0 then Some fu_M else None)))"

definition read_hartctx :: "nat \<Rightarrow> u32 \<Rightarrow> access_info \<Rightarrow> ('h FU540_PLIC, bool) act" where
  "read_hartctx hart level t =
     seqM (assertM (\<lambda>_. info_addr t mod 4 = 0))
     (seqM (assertM (\<lambda>_. info_size t = 4))
       (if is_claim_access (info_addr t) then
          bindM (next_pending_irq hart level True) (\<lambda>irq.
          seqM (if level = fu_M \<or> level = fu_S
                then set_at_view 4 (\<lambda>s. hart_context s ! hart_map hart level) (upd_context (hart_map hart level)) 1 (of_nat irq)
                else failM AssertionFailed)
            (seqM (if irq \<noteq> 0 then fu_clear_pending irq else ret ()) (ret True)))
        else ret True))"

definition write_hartctx :: "'h external_interrupt_target \<Rightarrow> nat \<Rightarrow> u32 \<Rightarrow> access_info \<Rightarrow> ('h FU540_PLIC, unit) act" where
  "write_hartctx tgt hart level t =
     seqM (assertM (\<lambda>_. info_addr t mod 4 = 0))
     (seqM (assertM (\<lambda>_. info_size t = 4))
       (if is_claim_access (info_addr t) then fu_on_hart hart (clear_external tgt level)
        else if level = fu_M \<or> level = fu_S then
          bindM (at_view 4 (\<lambda>s. hart_context s ! hart_map hart level) 0) (\<lambda>thr.
            set_at_view 4 (\<lambda>s. hart_context s ! hart_map hart level) (upd_context (hart_map hart level)) 0 (min thr MAX_THR))
        else failM AssertionFailed))"

definition write_irq_prios :: "access_info \<Rightarrow> ('h FU540_PLIC, unit) act" where
  "write_irq_prios t =
     (let idx = unat (info_addr t div 4) in
      seqM (assertM (\<lambda>_. idx \<le> NUMIRQ))
        (bindM (at_view 4 fu_priorities idx) (\<lambda>v.
           set_at_view 4 fu_priorities fu_priorities_update idx (min v MAX_PRIO))))"

definition fu_prio_range :: "'h FU540_PLIC mapped_range" where
  "fu_prio_range = \<lparr>the_range = fu_priorities, upd_range = fu_priorities_update, pre_write_callback = None,
     post_write_callback = Some write_irq_prios, pre_read_callback = None, post_read_callback = None\<rparr>"

definition fu_pending_range :: "'h FU540_PLIC mapped_range" where
  "fu_pending_range = \<lparr>the_range = fu_pending, upd_range = fu_pending_update,
     pre_write_callback = Some (\<lambda>_. ret False), post_write_callback = None, pre_read_callback = None,
     post_read_callback = None\<rparr>"

definition fu_enable_range :: "nat \<Rightarrow> 'h FU540_PLIC mapped_range" where
  "fu_enable_range k = \<lparr>the_range = (\<lambda>s. enabled_irqs s ! k), upd_range = upd_enable k, pre_write_callback = None,
     post_write_callback = None, pre_read_callback = None, post_read_callback = None\<rparr>"

definition fu_context_range :: "'h external_interrupt_target \<Rightarrow> nat \<Rightarrow> 'h FU540_PLIC mapped_range" where
  "fu_context_range tgt k = \<lparr>the_range = (\<lambda>s. hart_context s ! k), upd_range = upd_context k, pre_write_callback = None,
     post_write_callback = Some (write_hartctx tgt (context_hart k) (context_level k)),
     pre_read_callback = Some (read_hartctx (context_hart k) (context_level k)), post_read_callback = None\<rparr>"

definition fu_ranges :: "'h external_interrupt_target \<Rightarrow> nat \<Rightarrow> 'h FU540_PLIC mapped_range list" where
  "fu_ranges tgt harts = [fu_prio_range, fu_pending_range] @
     map fu_enable_range [0..<2 * harts - 1] @ map (fu_context_range tgt) [0..<2 * harts - 1]"

definition fu_transport :: "'h external_interrupt_target \<Rightarrow> 'h FU540_PLIC tlm_target" where
  "fu_transport tgt tr delay s = mm_route (fu_ranges tgt (length (fu_harts s))) tr (delay + 40000) s"

definition fu_run_hart :: "'h external_interrupt_target \<Rightarrow> nat \<Rightarrow> ('h FU540_PLIC, unit) act" where
  "fu_run_hart tgt i = bindM (has_pending_irq i) (\<lambda>l. case l of
     None \<Rightarrow> ret ()
   | Some lvl \<Rightarrow> fu_on_hart i (trigger_external tgt lvl))"

definition fu_run_body :: "'h external_interrupt_target \<Rightarrow> ('h FU540_PLIC, unit) act" where
  "fu_run_body tgt = bindM (getsM (\<lambda>s. length (fu_harts s))) (\<lambda>n. seqs (map (fu_run_hart tgt) [0..<n]))"

definition fu_run_round :: "'h external_interrupt_target \<Rightarrow> ('h FU540_PLIC, unit) act" where
  "fu_run_round tgt s = (case fu_event s of
     None \<Rightarrow> (Blocked, s)
   | Some t \<Rightarrow> fu_run_body tgt (s\<lparr>fu_time := t, fu_event := None\<rparr>))"

section \<open>Well-formed states\<close>

definition fu_wf :: "'h FU540_PLIC \<Rightarrow> bool" where
  "fu_wf s \<longleftrightarrow> (let n = length (fu_harts s) in 0 < n \<and> n \<le> 0x100 \<and>
     range_shape (fu_priorities s) = (4, 0xD7, False, 4, 212) \<and>
     range_shape (fu_pending s) = (0x1000, 0x1007, False, 4, 8) \<and>
     length (enabled_irqs s) = 2 * n - 1 \<and> length (hart_context s) = 2 * n - 1 \<and>
     (\<forall>k < 2 * n - 1. range_shape (enabled_irqs s ! k) = (0x2000 + of_nat k * 0x80, 0x2007 + of_nat k * 0x80, False, 4, 8)) \<and>
     (\<forall>k < 2 * n - 1. range_shape (hart_context s ! k) = (0x200000 + of_nat k * 0x1000, 0x200007 + of_nat k * 0x1000, False, 4, 8)))"

lemma fu_wf_views:
  assumes "fu_wf s"
  shows "in_view 4 (fu_priorities s) i \<longleftrightarrow> i < 53" and "in_view 4 (fu_pending s) i \<longleftrightarrow> i < 2"
    and "k < 2 * length (fu_harts s) - 1 \<Longrightarrow> in_view 4 (enabled_irqs s ! k) i \<longleftrightarrow> i < 2"
    and "k < 2 * length (fu_harts s) - 1 \<Longrightarrow> in_view 4 (hart_context s ! k) i \<longleftrightarrow> i < 2"
  using assms by (auto simp: fu_wf_def range_shape_def in_view_def view_size_def Let_def)

lemma fu_contexts_bound: "fu_wf s \<Longrightarrow> 2 * length (fu_harts s) - 1 \<le> 511"
proof -
  assume "fu_wf s"
  then have "length (fu_harts s) \<le> 256" by (simp add: fu_wf_def Let_def)
  then show ?thesis by linarith
qed

lemma fu_init_wf: "hs \<noteq> [] \<Longrightarrow> length hs \<le> 0x100 \<Longrightarrow> fu_wf (FU540_PLIC_init hs now)"
  by (simp add: fu_wf_def FU540_PLIC_init_def fu_range_def RegisterRange_init_def range_shape_def create_hart_regs_def
      NUMIRQ_def ENABLE_BASE_def ENABLE_PER_HART_def CONTEXT_BASE_def CONTEXT_PER_HART_def HART_REG_SIZE_def Let_def)

section \<open>Selection\<close>

definition fu_level_ok :: "nat \<Rightarrow> u32 \<Rightarrow> bool" where
  "fu_level_ok hart lvl \<longleftrightarrow> lvl = fu_M \<or> (lvl = fu_S \<and> hart \<noteq> 0)"

definition fu_priority :: "'h FU540_PLIC \<Rightarrow> nat \<Rightarrow> u64" where
  "fu_priority s irq = elem 4 (fu_priorities s) irq"

definition fu_candidate :: "'h FU540_PLIC \<Rightarrow> nat \<Rightarrow> u32 \<Rightarrow> nat \<Rightarrow> bool" where
  "fu_candidate s hart lvl irq \<longleftrightarrow> irq_bit (enabled_irqs s ! hart_map hart lvl) irq \<and> irq_bit (fu_pending s) irq"

definition fu_eligible :: "'h FU540_PLIC \<Rightarrow> nat \<Rightarrow> u32 \<Rightarrow> bool \<Rightarrow> nat \<Rightarrow> bool" where
  "fu_eligible s hart lvl ignth irq \<longleftrightarrow> fu_candidate s hart lvl irq \<and>
     (ignth \<or> elem 4 (hart_context s ! hart_map hart lvl) 0 \<le> fu_priority s irq)"

definition fu_next :: "'h FU540_PLIC \<Rightarrow> nat \<Rightarrow> u32 \<Rightarrow> bool \<Rightarrow> nat" where
  "fu_next s hart lvl ignth = fst (pick (fu_eligible s hart lvl ignth) (fu_priority s) [1..<53])"

lemma hart_map_less: "hart < n \<Longrightarrow> hart_map hart lvl < 2 * n - 1"
  by (auto simp: hart_map_def)

lemma fu_consider_eq:
  assumes "fu_wf s" and "hart < length (fu_harts s)" and "fu_level_ok hart lvl" and "0 < irq" and "irq \<le> 53"
  shows "fu_consider hart lvl ignth irq acc s =
    (if irq = 53 \<and> fu_candidate s hart lvl irq then (Fail AssertionFailed, s)
     else (Ok (if fu_eligible s hart lvl ignth irq \<and> fu_priority s irq > snd acc then (irq, fu_priority s irq) else acc), s))"
proof -
  have k: "hart_map hart lvl < 2 * length (fu_harts s) - 1" by (rule hart_map_less [OF assms(2)])
  have d: "irq div 32 < 2" using assms(5) by (simp add: less_mult_imp_div_less)
  have v: "in_view 4 (enabled_irqs s ! hart_map hart lvl) (irq div 32)" "in_view 4 (fu_pending s) (irq div 32)"
      "in_view 4 (hart_context s ! hart_map hart lvl) 0" "in_view 4 (fu_priorities s) irq \<longleftrightarrow> irq \<noteq> 53"
    using fu_wf_views [OF assms(1)] k d assms(5) by auto
  have l: "lvl = fu_M \<or> lvl = fu_S" "\<not> (hart = 0 \<and> lvl = fu_S)"
    using assms(3) by (auto simp: fu_level_ok_def fu_M_def fu_S_def)
  have "fu_is_enabled hart irq lvl s = (Ok (irq_bit (enabled_irqs s ! hart_map hart lvl) irq), s)"
    using v(1) l(1) assms(4,5)
    by (auto simp: fu_is_enabled_def at_view_def seqM_def bindM_def assertM_def NUMIRQ_def irq_bit_def and_irq_off)
  moreover have "fu_is_pending irq s = (Ok (irq_bit (fu_pending s) irq), s)"
    using v(2) assms(4,5)
    by (simp add: fu_is_pending_def at_view_def seqM_def bindM_def assertM_def NUMIRQ_def irq_bit_def and_irq_off)
  moreover have "fu_get_threshold hart lvl s = (Ok (elem 4 (hart_context s ! hart_map hart lvl) 0), s)"
    using v(3) l by (auto simp: fu_get_threshold_def at_view_def)
  moreover have "at_view 4 fu_priorities irq s = (if irq = 53 then (Fail AssertionFailed, s) else (Ok (fu_priority s irq), s))"
    using v(4) by (simp add: at_view_def fu_priority_def)
  ultimately show ?thesis
    by (cases ignth) (auto simp: fu_consider_def bindM_def fu_candidate_def fu_eligible_def not_less)
qed

lemma next_pending_irq_eq:
  assumes "fu_wf s" and "hart < length (fu_harts s)" and "fu_level_ok hart lvl"
  shows "next_pending_irq hart lvl ignth s =
    (if fu_candidate s hart lvl 53 then (Fail AssertionFailed, s) else (Ok (fu_next s hart lvl ignth), s))"
proof -
  have "\<not> (hart = 0 \<and> lvl = fu_S)" using assms(3) by (auto simp: fu_level_ok_def fu_M_def fu_S_def)
  moreover have "[1..<54] = [1..<53] @ [53 :: nat]" using upt_Suc_append [of 1 53] by simp
  moreover have "foldM (fu_consider hart lvl ignth) [1..<53] (0, 0) s =
      (Ok (fold (\<lambda>i acc. if fu_eligible s hart lvl ignth i \<and> fu_priority s i > snd acc then (i, fu_priority s i) else acc)
        [1..<53] (0, 0)), s)"
    by (rule foldM_pure) (simp add: fu_consider_eq [OF assms])
  ultimately show ?thesis
    using fu_consider_eq [OF assms, of 53 ignth "pick (fu_eligible s hart lvl ignth) (fu_priority s) [1..<53]"]
    by (simp add: next_pending_irq_def NUMIRQ_def seqM_def bindM_def assertM_def foldM_append fu_next_def pick_def
        fu_eligible_def case_prod_beta del: upt_Suc upt_rec_numeral)
qed

lemma fu_next_less: "fu_next s hart lvl ignth < 53"
  using pick_spec(2) [of "fu_next s hart lvl ignth" "fu_eligible s hart lvl ignth" "fu_priority s" 53]
  by (cases "fu_next s hart lvl ignth = 0") (auto simp: fu_next_def best_of_def)

section \<open>Claims\<close>

definition fu_claimed :: "nat \<Rightarrow> nat \<Rightarrow> 'h FU540_PLIC \<Rightarrow> 'h FU540_PLIC" where
  "fu_claimed k irq s = (upd_context k (set_elem 4 1 (of_nat irq)) s)\<lparr>fu_pending :=
     (if irq = 0 then fu_pending s
      else set_elem 4 (irq div 32) (elem 4 (fu_pending s) (irq div 32) AND NOT (irq_off irq)) (fu_pending s))\<rparr>"

lemma context_inverse:
  "hart_map (context_hart k) (context_level k) = k" "fu_level_ok (context_hart k) (context_level k)"
  "k < 2 * n - 1 \<Longrightarrow> context_hart k < n"
proof -
  show "hart_map (context_hart k) (context_level k) = k" "fu_level_ok (context_hart k) (context_level k)"
    by (cases "k = 0"; cases "odd k"; auto simp: hart_map_def context_hart_def context_level_def fu_level_ok_def fu_M_def fu_S_def
        elim!: oddE evenE)+
  show "k < 2 * n - 1 \<Longrightarrow> context_hart k < n" by (simp add: context_hart_def less_mult_imp_div_less)
qed

lemma fu_claim_callback:
  assumes "fu_wf s" and "k < 2 * length (fu_harts s) - 1" and "info_addr t = 4" and "info_size t = 4"
    and "\<not> fu_candidate s (context_hart k) (context_level k) 53"
  shows "read_hartctx (context_hart k) (context_level k) t s =
    (Ok True, fu_claimed k (fu_next s (context_hart k) (context_level k) True) s)"
proof -
  let ?m = "fu_next s (context_hart k) (context_level k) True"
  note c = context_inverse(1,2) [of k] context_inverse(3) [OF assms(2)]
  have m: "?m \<le> 53" "?m div 32 < 2" using fu_next_less [of s "context_hart k" "context_level k" True] by auto
  have l: "context_level k = fu_M \<or> context_level k = fu_S" by (simp add: context_level_def)
  have v: "in_view 4 (hart_context s ! k) 1" "in_view 4 (fu_pending s) (?m div 32)"
    using fu_wf_views [OF assms(1)] assms(2) m(2) by simp_all
  have "next_pending_irq (context_hart k) (context_level k) True s = (Ok ?m, s)"
    using next_pending_irq_eq [OF assms(1) c(3,2), of True] assms(5) by simp
  then show ?thesis
    using assms(3,4) v l c(1) m(1)
    by (auto simp: read_hartctx_def is_claim_access_def seqM_def bindM_def assertM_def set_at_view_def at_view_def fu_clear_pending_def
        fu_claimed_def NUMIRQ_def upd_context_def)
qed

lemma u64_lin:
  assumes "m \<le> 511"
  shows "unat (0x2000 + of_nat m * 0x80 :: u64) = 0x2000 + m * 0x80" "unat (0x2007 + of_nat m * 0x80 :: u64) = 0x2007 + m * 0x80"
    "unat (0x200000 + of_nat m * 0x1000 :: u64) = 0x200000 + m * 0x1000"
    "unat (0x200007 + of_nat m * 0x1000 :: u64) = 0x200007 + m * 0x1000"
    "unat (0x200004 + of_nat m * 0x1000 :: u64) = 0x200004 + m * 0x1000"
proof -
  have *: "unat (of_nat c + of_nat m * of_nat d :: u64) = c + m * d" if "c + m * d < 2 ^ 64" for c d
    using that unat_of_nat [of "c + m * d", where 'a = 64] by (simp add: take_bit_nat_eq_self)
  show "unat (0x2000 + of_nat m * 0x80 :: u64) = 0x2000 + m * 0x80" "unat (0x2007 + of_nat m * 0x80 :: u64) = 0x2007 + m * 0x80"
    "unat (0x200000 + of_nat m * 0x1000 :: u64) = 0x200000 + m * 0x1000"
    "unat (0x200007 + of_nat m * 0x1000 :: u64) = 0x200007 + m * 0x1000"
    "unat (0x200004 + of_nat m * 0x1000 :: u64) = 0x200004 + m * 0x1000"
    using * [of "0x2000" "0x80"] * [of "0x2007" "0x80"] * [of "0x200000" "0x1000"] * [of "0x200007" "0x1000"]
      * [of "0x200004" "0x1000"] assms by simp_all
qed

definition fu_claim_addr :: "nat \<Rightarrow> u64" where
  "fu_claim_addr k = 0x200004 + of_nat k * 0x1000"

lemma fu_claim_route:
  assumes "fu_wf s" and "k < 2 * length (fu_harts s) - 1" and "address tr = fu_claim_addr k"
  shows "fu_transport tgt tr delay s = range_process (fu_context_range tgt k) tr (delay + 40000) s"
proof -
  let ?n = "2 * length (fu_harts s) - 1"
  have n: "?n \<le> 511" by (rule fu_contexts_bound [OF assms(1)])
  have a: "unat (address tr) = 0x200004 + k * 0x1000"
    using u64_lin(5) [of k] n assms(2,3) by (simp add: fu_claim_addr_def)
  have lo: "\<not> range_contains (fu_priorities s) (address tr)" "\<not> range_contains (fu_pending s) (address tr)"
    using assms(1) a by (simp_all add: fu_wf_def range_shape_def range_contains_def word_le_nat_alt Let_def)
  have en: "\<not> range_contains (enabled_irqs s ! j) (address tr)" if "j < ?n" for j
    using assms(1) a u64_lin(2) [of j] that n by (simp add: fu_wf_def range_shape_def range_contains_def word_le_nat_alt Let_def)
  have cx: "range_contains (hart_context s ! j) (address tr) \<longleftrightarrow> j = k" if "j \<le> k" for j
  proof -
    have j: "j < ?n" using that assms(2) by simp
    then have "range_start (hart_context s ! j) = 0x200000 + of_nat j * 0x1000" "range_end (hart_context s ! j) = 0x200007 + of_nat j * 0x1000"
      using assms(1) by (simp_all add: fu_wf_def range_shape_def Let_def)
    with u64_lin(3,4) [of j] j n a that show ?thesis by (auto simp: range_contains_def word_le_nat_alt)
  qed
  let ?i = "2 + ?n + k" and ?bs = "fu_ranges tgt (length (fu_harts s)) :: 'a FU540_PLIC mapped_range list"
  have nth: "?bs ! 0 = fu_prio_range" "?bs ! 1 = fu_pending_range" "\<And>j. j < ?n \<Longrightarrow> ?bs ! (2 + j) = fu_enable_range j"
      "\<And>j. j < ?n \<Longrightarrow> ?bs ! (2 + ?n + j) = fu_context_range tgt j"
    by (simp_all add: fu_ranges_def nth_append)
  have "mm_route ?bs tr (delay + 40000) s = range_process (?bs ! ?i) tr (delay + 40000) s"
  proof (rule mm_route_nth)
    show "?i < length ?bs" using assms(2) by (simp add: fu_ranges_def)
    show "range_contains (the_range (?bs ! ?i) s) (address tr)"
      using nth(4) [OF assms(2)] cx [of k] by (simp add: fu_context_range_def)
    fix j
    assume j: "j < ?i"
    consider "j = 0" | "j = 1" | "2 \<le> j" "j - 2 < ?n" | "2 + ?n \<le> j" "j - (2 + ?n) < k"
      using j by linarith
    then show "\<not> range_contains (the_range (?bs ! j) s) (address tr)"
    proof cases
      case 3
      then have "?bs ! j = fu_enable_range (j - 2)" using nth(3) [of "j - 2"] by (simp only: le_add_diff_inverse)
      with en [OF 3(2)] show ?thesis by (simp add: fu_enable_range_def)
    next
      case 4
      then have "?bs ! j = fu_context_range tgt (j - (2 + ?n))"
        using nth(4) [of "j - (2 + ?n)"] assms(2) by (simp only: le_add_diff_inverse less_trans)
      with cx [of "j - (2 + ?n)"] 4(2) show ?thesis by (simp add: fu_context_range_def)
    qed (use lo nth(1,2) in \<open>simp_all add: fu_prio_range_def fu_pending_range_def\<close>)
  qed
  with nth(4) [OF assms(2)] show ?thesis by (simp add: fu_transport_def)
qed

lemma fu_claim:
  assumes "fu_wf s" and "k < 2 * length (fu_harts s) - 1" and "\<not> fu_candidate s (context_hart k) (context_level k) 53"
    and "command tr = TLM_READ_COMMAND" and "address tr = fu_claim_addr k" and "length (data_ptr tr) = 4"
    and "m = fu_next s (context_hart k) (context_level k) True"
  shows "fu_transport tgt tr delay s = (Ok (tr\<lparr>data_ptr := to_bytes 4 (of_nat m)\<rparr>, delay + 40000), fu_claimed k m s)"
proof -
  let ?b = "fu_context_range tgt k :: 'a FU540_PLIC mapped_range"
  have n: "2 * length (fu_harts s) - 1 \<le> 511" "length (hart_context s) = 2 * length (fu_harts s) - 1"
    using fu_contexts_bound [OF assms(1)] assms(1) by (simp_all add: fu_wf_def Let_def)
  have sh: "range_shape (hart_context s ! k) = (0x200000 + of_nat k * 0x1000, 0x200007 + of_nat k * 0x1000, False, 4, 8)"
    using assms(1,2) by (simp add: fu_wf_def Let_def)
  have v: "in_view 4 (hart_context s ! k) 1" using fu_wf_views(4) [OF assms(1,2)] by simp
  have l: "to_local (hart_context s ! k) (address tr) = 4"
    using sh assms(5) by (simp add: to_local_def range_shape_def fu_claim_addr_def)
  have fits: "range_fits (hart_context s ! k) (address tr) 4"
  proof -
    have k: "k \<le> 511" using assms(2) n(1) by linarith
    have "range_contains (hart_context s ! k) (address tr)"
      using sh u64_lin(3-5) [OF k] unfolding assms(5) fu_claim_addr_def
      by (simp add: range_contains_def range_shape_def word_le_nat_alt)
    with sh l show ?thesis by (simp add: range_fits_def range_shape_def)
  qed
  have "unat (address tr mod 4) = (0x200004 + k * 0x1000) mod 4"
    using u64_lin(5) [of k] assms(2,5) n by (simp add: unat_mod fu_claim_addr_def)
  also have "\<dots> = (4 * (0x80001 + k * 0x400)) mod 4" by (simp add: algebra_simps)
  also have "\<dots> = 0" by (rule mod_mult_self1_is_0)
  finally have "address tr mod 4 = 0" by (simp add: unat_eq_0)
  then have al: "aligned_to (hart_context s ! k) tr"
    using sh assms(6) by (simp add: aligned_to_def range_shape_def)
  have "array_read 4 4 (range_mem (set_elem 4 1 (of_nat m) (hart_context s ! k))) = Some (to_bytes 4 (of_nat m))"
    using host_array.rd_wr_same [OF set_elem_write [OF v, of "of_nat m"]] by simp
  moreover have "hart_context (fu_claimed k m s) ! k = set_elem 4 1 (of_nat m) (hart_context s ! k)"
    using assms(2) n(2) by (simp add: fu_claimed_def upd_context_def nth_upd_nth)
  ultimately have "range_process ?b tr (delay + 40000) s =
      (Ok (tr\<lparr>data_ptr := to_bytes 4 (of_nat m)\<rparr>, delay + 40000), fu_claimed k m s)"
    using fu_claim_callback [OF assms(1,2), of "info_of (hart_context s ! k) tr (delay + 40000)"] assms l fits al
    by (intro range_process_read) (simp_all add: fu_context_range_def call_pre_def info_of_def)
  with fu_claim_route [OF assms(1,2,5)] show ?thesis by simp
qed

lemma fu_claimed_pending:
  assumes "fu_wf s" and "irq \<le> 53" and "0 < j" and "j \<le> 53"
  shows "irq_bit (fu_pending (fu_claimed k irq s)) j = (j \<noteq> irq \<and> irq_bit (fu_pending s) j)"
proof -
  have "irq div 32 < 2" "j div 32 < 2" using assms(2,4) by (auto simp: less_mult_imp_div_less)
  then have "in_view 4 (fu_pending s) (irq div 32)" "in_view 4 (fu_pending s) (j div 32)"
    using fu_wf_views(2) [OF assms(1)] by simp_all
  from irq_bit_set(2) [OF this] assms(3) show ?thesis by (auto simp: fu_claimed_def)
qed

section \<open>Priorities\<close>

text \<open>
  The register at address \<open>4 * n\<close> is element \<open>n - 1\<close> of the range, and the selection of interrupt
  \<open>irq\<close> reads element \<open>irq\<close>: software that writes the register of interrupt \<open>irq + 1\<close> sets the
  priority used for \<open>irq\<close>.
\<close>

lemma fu_priority_write:
  assumes "fu_wf s" and "irq < 53" and "command tr = TLM_WRITE_COMMAND" and "address tr = 4 * of_nat (irq + 1)"
    and "data_ptr tr = to_bytes 4 v" and "v \<le> MAX_PRIO"
  shows "\<exists>s'. fu_transport tgt tr delay s = (Ok (tr, delay + 40000), s') \<and>
    (\<forall>j < 53. fu_priority s' j = (if j = irq then v else fu_priority s j))"
proof -
  let ?r = "fu_priorities s" and ?b = "fu_prio_range :: 'a FU540_PLIC mapped_range"
  have sh: "range_shape ?r = (4, 0xD7, False, 4, 212)" using assms(1) by (simp add: fu_wf_def Let_def)
  have u: "unat (of_nat irq :: u64) = irq" using assms(2) by (simp add: unat_of_nat take_bit_nat_eq_self)
  then have u4: "unat (4 * of_nat irq :: u64) = 4 * irq" using assms(2) by (simp add: unat_mult_lem [THEN iffD1])
  have ad: "address tr = 4 + 4 * of_nat irq" using assms(4) by (simp add: algebra_simps)
  have ua: "unat (address tr) = 4 + 4 * irq"
    using u4 assms(2) by (simp add: ad unat_add_lem [THEN iffD1])
  have c: "range_contains ?r (address tr)" using sh ua assms(2) by (simp add: range_contains_def range_shape_def word_le_nat_alt)
  have "address tr mod 4 = 0" using ua by (intro word_unat_eq_iff [THEN iffD2]) (simp add: unat_mod)
  then have al: "aligned_to ?r tr" using sh assms(5) by (simp add: aligned_to_def range_shape_def)
  have v: "in_view 4 ?r irq" using fu_wf_views(1) [OF assms(1)] assms(2) by simp
  have small: "take_bit 32 v = v"
    using assms(6) by (intro word_unat_eq_iff [THEN iffD2]) (simp add: MAX_PRIO_def unsigned_take_bit_eq take_bit_nat_eq_self word_le_nat_alt)
  let ?s = "s\<lparr>fu_priorities := set_elem 4 irq v ?r\<rparr>" and ?t = "info_of ?r tr (delay + 40000)"
  have upd: "fu_priorities_update (\<lambda>r. r\<lparr>range_mem := range_mem (set_elem 4 irq v ?r)\<rparr>) s = ?s"
    by (cases s) (simp add: set_elem_def)
  have idx: "unat (info_addr ?t div 4) = irq"
    using sh ad u4 by (simp add: info_of_def to_local_def range_shape_def unat_div)
  have "range_process ?b tr (delay + 40000) s = seqM (write_irq_prios ?t) (ret (tr, delay + 40000)) ?s"
    using elem_write [of tr 4 v ?b s irq "delay + 40000"] assms(3,5) ad v c al sh upd
    by (simp add: fu_prio_range_def call_post_def range_shape_def)
  also have "write_irq_prios ?t ?s = (Ok (), s\<lparr>fu_priorities := set_elem 4 irq v (set_elem 4 irq v ?r)\<rparr>)"
    using idx v assms(2,6) small
    by (simp add: write_irq_prios_def NUMIRQ_def seqM_def bindM_def assertM_def at_view_def set_at_view_def elem_set_same
        min_absorb1 Let_def)
  then have "seqM (write_irq_prios ?t) (ret (tr, delay + 40000)) ?s =
      (Ok (tr, delay + 40000), s\<lparr>fu_priorities := set_elem 4 irq v (set_elem 4 irq v ?r)\<rparr>)"
    by (simp add: seqM_apply)
  finally have "range_process ?b tr (delay + 40000) s =
      (Ok (tr, delay + 40000), s\<lparr>fu_priorities := set_elem 4 irq v (set_elem 4 irq v ?r)\<rparr>)" .
  moreover have "fu_transport tgt tr delay s = range_process ?b tr (delay + 40000) s"
    using c by (simp add: fu_transport_def fu_ranges_def fu_prio_range_def)
  moreover have "elem 4 (set_elem 4 irq v (set_elem 4 irq v ?r)) j = (if j = irq then v else elem 4 ?r j)" if "j < 53" for j
    using that v fu_wf_views(1) [OF assms(1)] small by (simp add: elem_set)
  ultimately show ?thesis by (simp add: fu_priority_def)
qed

end
