(* ===== verification/Plic_Props.thy ===== *)
theory Plic_Props
  imports PlicFE310 PlicFU540 Iss_Trap
begin

text \<open>
  The platform-level interrupt controllers with RV32 harts as their targets.
\<close>

unbundle bit_operations_syntax

definition iss_external_target :: "'d ISS external_interrupt_target" where
  "iss_external_target = \<lparr>trigger_external = trigger_external_interrupt, clear_external = clear_external_interrupt\<rparr>"

definition external_line :: "u32 \<Rightarrow> 'd ISS \<Rightarrow> bool" where
  "external_line l h = bit (mip (csrs h)) (8 + unat l)"

lemma mip_external:
  assumes "l = UserMode \<or> l = SupervisorMode \<or> l = MachineMode"
  shows "bit (mip (csrs (trigger_external_interrupt l h))) n = (n = 8 + unat l \<or> bit (mip (csrs h)) n)"
    and "bit (mip (csrs (clear_external_interrupt l h))) n = (n \<noteq> 8 + unat l \<and> bit (mip (csrs h)) n)"
  using assms
  by (cases "n < 32"; auto simp: trigger_external_interrupt_def clear_external_interrupt_def set_external_def bit_bf_set b2w_def
      bit_1_iff dest: bit_imp_le_length)+

interpretation iss_external: external_target iss_external_target external_line
    "\<lambda>l. l = UserMode \<or> l = SupervisorMode \<or> l = MachineMode"
  by unfold_locales (auto simp: iss_external_target_def external_line_def mip_external)

section \<open>FE310\<close>

text \<open>The configuration of the HiFive board, with an RV32 hart.\<close>

definition fe_example_params :: fe310_params where
  "fe_example_params = \<lparr>NumberInterrupts = 53, NumberInterruptEntries = 64, MaxPriority = 7\<rparr>"

text \<open>Interrupt 5 enabled for the hart.\<close>

definition fe_example :: "unit ISS FE310_PLIC" where
  "fe_example = (let s = FE310_PLIC_init fe_example_params [hart_example []] MachineMode 0 in
     s\<lparr>fe_enabled := set_elem 4 0 0x20 (fe_enabled s)\<rparr>)"

lemma fe_example_facts:
  "fe_wf fe_example_params fe_example" "fe_level fe_example = MachineMode" "length (fe_harts fe_example) = 1"
  "hart_eip fe_example = [False]" "fe_enabled_bit fe_example 0 5" "fe_priority fe_example 5 = 1"
  "elem 4 (fe_config fe_example) 0 = 0" "e_run fe_example = None" "NumberInterrupts fe_example_params = 53"
proof -
  let ?s = "FE310_PLIC_init fe_example_params [hart_example []] MachineMode 0"
  have wf: "fe_wf fe_example_params ?s"
    by (rule fe_init_wf) (simp_all add: fe_example_params_def fe_params_ok_def)
  have h: "fe_harts ?s = [hart_example []]" by (simp add: FE310_PLIC_init_def)
  have v: "in_view 4 (fe_enabled ?s) 0"
    using fe_wf_views(3) [OF wf] h by (simp add: fe_example_params_def)
  show "fe_wf fe_example_params fe_example" using wf v by (simp add: fe_example_def fe_wf_def Let_def)
  show "fe_enabled_bit fe_example 0 5"
    using v by (simp add: fe_example_def fe_enabled_bit_def row_index_def elem_set_same bit_simps bit_numeral_rec Let_def)
  have "elem 4 (fold (\<lambda>i. set_elem 4 i 1) [0..<53] (RegisterRange_init 0 (4 * (of_nat 53 + 1)))) 5 = 1"
    "elem 4 (RegisterRange_init 0x200000 (8 * of_nat 1)) 0 = 0" by code_simp+
  then show "fe_priority fe_example 5 = 1" "elem 4 (fe_config fe_example) 0 = 0"
    by (simp_all add: fe_example_def fe_priority_def FE310_PLIC_init_def fe_example_params_def elem_def Let_def del: upt_Suc upt_rec_numeral)
qed (simp_all add: fe_example_def FE310_PLIC_init_def fe_example_params_def Let_def)

text \<open>
  C34. An interrupt that a device raises at the gateway, and that is enabled for a hart with a priority
  above the threshold of the hart, becomes pending in \<open>mip\<close> of the hart at the next round of
  the PLIC thread, and stays pending in the PLIC until it is claimed.
\<close>

theorem fe310_gateway_delivers:
  assumes "fe_wf p s" and "fe_level s = MachineMode" and "hart < length (fe_harts s)" and "\<not> hart_eip s ! hart"
    and "0 < irq" and "irq < NumberInterrupts p" and "fe_enabled_bit s hart irq"
    and "fe_priority s irq > elem 4 (fe_config s) (2 * hart)"
  shows "\<exists>s1 s2. fe_gateway_trigger_interrupt p irq s = (Ok (), s1) \<and>
    fe_run_round iss_external_target p s1 = (Ok (), s2) \<and>
    bit (mip (csrs (fe_harts s2 ! hart))) 11 \<and> hart_eip s2 ! hart \<and> irq_bit (fe_pending s2) irq"
  using iss_external.gateway_delivers [OF assms(1) _ assms(3-8)] assms(2) by (simp add: external_line_def)

theorem fe310_gateway_delivers_witness:
  "\<exists>s1 s2. fe_gateway_trigger_interrupt fe_example_params 5 fe_example = (Ok (), s1) \<and>
     fe_run_round iss_external_target fe_example_params s1 = (Ok (), s2) \<and> bit (mip (csrs (fe_harts s2 ! 0))) 11"
  using fe310_gateway_delivers [of fe_example_params fe_example 0 5] fe_example_facts by fastforce

text \<open>
  C35. Reading the claim register of hart 0 returns the enabled pending interrupt with the highest
  priority, the one with the lowest number among those, or zero if there is none, and clears its
  pending bit and no other.
\<close>

theorem fe310_claim:
  assumes "fe_wf p s" and "command tr = TLM_READ_COMMAND" and "address tr = 0x200004" and "length (data_ptr tr) = 4"
  shows "\<exists>m s'. fe_transport iss_external_target p tr delay s =
      (Ok (tr\<lparr>data_ptr := to_bytes 4 (of_nat m)\<rparr>, delay + 40000), s') \<and>
    (if \<exists>i. 0 < i \<and> i < NumberInterrupts p \<and> fe_enabled_bit s 0 i \<and> irq_bit (fe_pending s) i \<and> fe_priority s i > 0
     then best_of (\<lambda>i. fe_enabled_bit s 0 i \<and> irq_bit (fe_pending s) i) (fe_priority s) {1..<NumberInterrupts p} m
     else m = 0) \<and>
    (\<forall>j < NumberInterrupts p. irq_bit (fe_pending s') j = (j \<noteq> m \<and> irq_bit (fe_pending s) j))"
proof -
  let ?m = "fe_next p s 0 False"
  have el: "fe_eligible s 0 False = (\<lambda>i. fe_enabled_bit s 0 i \<and> irq_bit (fe_pending s) i)"
    by (rule ext) (simp add: fe_eligible_def fe_above_def)
  have m: "?m = fst (pick (fe_eligible s 0 False) (fe_priority s) [1..<NumberInterrupts p])" by (simp add: fe_next_def)
  have sel: "if \<exists>i. 0 < i \<and> i < NumberInterrupts p \<and> fe_enabled_bit s 0 i \<and> irq_bit (fe_pending s) i \<and> fe_priority s i > 0
     then best_of (\<lambda>i. fe_enabled_bit s 0 i \<and> irq_bit (fe_pending s) i) (fe_priority s) {1..<NumberInterrupts p} ?m
     else ?m = 0"
    using pick_spec(1,2) [OF m] unfolding el by (auto simp: word_gt_0)
  show ?thesis
    using fe_claim [OF assms, of iss_external_target delay] sel
      fe_claimed_pending(1) [OF assms(1) fe_next_less [OF assms(1)]]
    by (intro exI [of _ ?m] exI [of _ "fe_claimed ?m s"]) simp
qed

theorem fe310_claim_witness:
  "\<exists>m s'. fe_transport iss_external_target fe_example_params \<lparr>command = TLM_READ_COMMAND, address = 0x200004,
       data_ptr = [0, 0, 0, 0], response_status = TLM_OK_RESPONSE\<rparr> 0 (fe_triggered 5 fe_example) =
     (Ok (\<lparr>command = TLM_READ_COMMAND, address = 0x200004, data_ptr = to_bytes 4 (of_nat m),
       response_status = TLM_OK_RESPONSE\<rparr>, 40000), s') \<and> 0 < m \<and> \<not> irq_bit (fe_pending s') m"
proof -
  let ?s = "fe_triggered 5 fe_example"
  note g = fe_gateway_eq [OF fe_example_facts(1), of 5]
  have wf: "fe_wf fe_example_params ?s" using g(2) fe_example_facts(9) by simp
  have pend: "irq_bit (fe_pending ?s) 5" using g(3) [of 5] fe_example_facts(9) by simp
  have "fe_enabled_bit ?s 0 5" "fe_priority ?s 5 > 0"
    using fe_example_facts(5,6) by (simp_all add: fe_triggered_def fe_enabled_bit_def fe_priority_def)
  then have ex: "\<exists>i. 0 < i \<and> i < NumberInterrupts fe_example_params \<and> fe_enabled_bit ?s 0 i \<and> irq_bit (fe_pending ?s) i \<and>
      fe_priority ?s i > 0"
    using pend fe_example_facts(9) by (intro exI [of _ 5]) simp
  obtain m s' where ms: "fe_transport iss_external_target fe_example_params \<lparr>command = TLM_READ_COMMAND, address = 0x200004,
       data_ptr = [0, 0, 0, 0], response_status = TLM_OK_RESPONSE\<rparr> 0 ?s =
     (Ok (\<lparr>command = TLM_READ_COMMAND, address = 0x200004, data_ptr = to_bytes 4 (of_nat m),
       response_status = TLM_OK_RESPONSE\<rparr>, 40000), s')"
      "best_of (\<lambda>i. fe_enabled_bit ?s 0 i \<and> irq_bit (fe_pending ?s) i) (fe_priority ?s) {1..<NumberInterrupts fe_example_params} m"
      "\<forall>j < NumberInterrupts fe_example_params. irq_bit (fe_pending s') j = (j \<noteq> m \<and> irq_bit (fe_pending ?s) j)"
    using fe310_claim [OF wf, of "\<lparr>command = TLM_READ_COMMAND, address = 0x200004, data_ptr = [0, 0, 0, 0],
      response_status = TLM_OK_RESPONSE\<rparr>" 0] ex by auto
  then have "0 < m" "\<not> irq_bit (fe_pending s') m" by (simp_all add: best_of_def)
  with ms(1) show ?thesis by (intro exI conjI)
qed

text \<open>
  Writing the claim register of hart 0 completes the interrupt: the external interrupt of the hart
  stays pending exactly if another enabled interrupt above the threshold is pending. If there is
  one and the hart was not yet interrupted, an assertion of the model fails.
\<close>

theorem fe310_complete:
  assumes "fe_wf p s" and "fe_level s = MachineMode" and "command tr = TLM_WRITE_COMMAND" and "address tr = 0x200004"
    and "data_ptr tr = to_bytes 4 v"
  shows "if hart_eip s ! 0 \<or> fe_next p s 0 True = 0
    then \<exists>s'. fe_transport iss_external_target p tr delay s = (Ok (tr, delay + 40000), s') \<and>
      (bit (mip (csrs (fe_harts s' ! 0))) 11 \<longleftrightarrow> fe_next p s 0 True > 0) \<and> (hart_eip s' ! 0 \<longleftrightarrow> fe_next p s 0 True > 0)
    else fst (fe_transport iss_external_target p tr delay s) = Fail AssertionFailed"
proof (cases "hart_eip s ! 0 \<or> fe_next p s 0 True = 0")
  case True
  with iss_external.completion_line [OF assms(1) _ assms(3-5) True, of delay] assms(2) show ?thesis
    by (simp add: external_line_def)
next
  case False
  with fe_complete [OF assms(1,3-5), of iss_external_target delay] show ?thesis by auto
qed

theorem fe310_complete_witness:
  "\<exists>s'. fe_transport iss_external_target fe_example_params \<lparr>command = TLM_WRITE_COMMAND, address = 0x200004,
       data_ptr = to_bytes 4 5, response_status = TLM_OK_RESPONSE\<rparr> 0 (fe_example\<lparr>hart_eip := [True]\<rparr>) =
     (Ok (\<lparr>command = TLM_WRITE_COMMAND, address = 0x200004, data_ptr = to_bytes 4 5,
       response_status = TLM_OK_RESPONSE\<rparr>, 40000), s')"
proof -
  have "fe_wf fe_example_params (fe_example\<lparr>hart_eip := [True]\<rparr>)"
    using fe_example_facts(1,3) by (simp add: fe_wf_def Let_def)
  from fe310_complete [OF this, of "\<lparr>command = TLM_WRITE_COMMAND, address = 0x200004, data_ptr = to_bytes 4 5,
      response_status = TLM_OK_RESPONSE\<rparr>" 5 0] fe_example_facts(2) show ?thesis by auto
qed

section \<open>FU540\<close>

text \<open>One hart, with interrupt 53 enabled.\<close>

definition fu_example :: "unit ISS FU540_PLIC" where
  "fu_example = upd_enable 0 (set_elem 4 1 0x200000) (FU540_PLIC_init [hart_example []] 0)"

lemma fu_example_facts:
  "fu_wf fu_example" "length (fu_harts fu_example) = 1" "irq_bit (enabled_irqs fu_example ! 0) 53"
  "\<not> irq_bit (fu_pending fu_example) 53"
proof -
  let ?s = "FU540_PLIC_init [hart_example []] 0 :: unit ISS FU540_PLIC"
  have wf: "fu_wf ?s" by (rule fu_init_wf) simp_all
  have h: "fu_harts ?s = [hart_example []]" "length (enabled_irqs ?s) = 1"
    by (simp_all add: FU540_PLIC_init_def create_hart_regs_def)
  have v: "in_view 4 (enabled_irqs ?s ! 0) 1" using fu_wf_views(3) [OF wf, of 0] h by simp
  show "fu_wf fu_example" using wf v h by (simp add: fu_example_def upd_enable_def fu_wf_def nth_upd_nth Let_def)
  show "irq_bit (enabled_irqs fu_example ! 0) 53"
    using v h by (simp add: fu_example_def upd_enable_def nth_upd_nth irq_bit_def elem_set_same bit_simps bit_numeral_rec)
  have "\<not> irq_bit (fu_range 0x1000 8) 53" by code_simp
  then show "\<not> irq_bit (fu_pending fu_example) 53"
    by (simp add: fu_example_def upd_enable_def FU540_PLIC_init_def)
qed (simp add: fu_example_def upd_enable_def FU540_PLIC_init_def)



text \<open>
  A write to the priority register at address \<open>4 * (irq + 1)\<close>, the register of interrupt \<open>irq + 1\<close>,
  sets the priority that the selection uses for interrupt \<open>irq\<close>, and no other priority.
\<close>

theorem fu540_priority_register_shifted:
  assumes "fu_wf s" and "irq < 53" and "command tr = TLM_WRITE_COMMAND" and "address tr = 4 * of_nat (irq + 1)"
    and "data_ptr tr = to_bytes 4 v" and "v \<le> MAX_PRIO"
  shows "\<exists>s'. fu_transport iss_external_target tr delay s = (Ok (tr, delay + 40000), s') \<and>
    (\<forall>j < 53. fu_priority s' j = (if j = irq then v else fu_priority s j))"
  by (rule fu_priority_write [OF assms])

theorem fu540_priority_register_shifted_witness:
  "\<exists>s'. fu_transport iss_external_target \<lparr>command = TLM_WRITE_COMMAND, address = 0x28, data_ptr = to_bytes 4 3,
       response_status = TLM_OK_RESPONSE\<rparr> 0 fu_example =
     (Ok (\<lparr>command = TLM_WRITE_COMMAND, address = 0x28, data_ptr = to_bytes 4 3, response_status = TLM_OK_RESPONSE\<rparr>, 40000), s') \<and>
     fu_priority s' 9 = 3"
  using fu540_priority_register_shifted [OF fu_example_facts(1), of 9 "\<lparr>command = TLM_WRITE_COMMAND, address = 0x28,
      data_ptr = to_bytes 4 3, response_status = TLM_OK_RESPONSE\<rparr>" 3 0]
  by (auto simp: MAX_PRIO_def)

text \<open>
  Interrupt 53, the last one the gateway accepts, has no priority in the view: when it is pending
  and enabled, the next selection fails an assertion.
\<close>

theorem fu540_irq_53_aborts:
  assumes "fu_wf s" and "hart < length (fu_harts s)" and "fu_level_ok hart lvl"
    and "irq_bit (enabled_irqs s ! hart_map hart lvl) 53"
  shows "\<exists>s'. fu_gateway_trigger_interrupt 53 s = (Ok (), s') \<and>
    fst (next_pending_irq hart lvl ignth s') = Fail AssertionFailed"
proof -
  have v: "in_view 4 (fu_pending s) (53 div 32)" using fu_wf_views(2) [OF assms(1)] by simp
  let ?s = "s\<lparr>fu_pending := set_elem 4 (53 div 32) (elem 4 (fu_pending s) (53 div 32) OR irq_off 53) (fu_pending s),
      fu_event := notify (fu_time s) 10000 (fu_event s)\<rparr>"
  have g: "fu_gateway_trigger_interrupt 53 s = (Ok (), ?s)"
    using v by (simp add: fu_gateway_trigger_interrupt_def NUMIRQ_def at_view_def set_at_view_def seqM_def bindM_def)
  have wf: "fu_wf ?s" using assms(1) v by (simp add: fu_wf_def Let_def)
  have "irq_bit (fu_pending ?s) 53" using irq_bit_set(1) [OF v v] by simp
  with assms(4) have "fu_candidate ?s hart lvl 53" by (simp add: fu_candidate_def)
  then have "fst (next_pending_irq hart lvl ignth ?s) = Fail AssertionFailed"
    using next_pending_irq_eq [OF wf _ assms(3), of ignth] assms(2) by simp
  with g show ?thesis by (intro exI conjI)
qed

theorem fu540_irq_53_aborts_witness:
  "\<exists>s'. fu_gateway_trigger_interrupt 53 fu_example = (Ok (), s') \<and>
     fst (next_pending_irq 0 fu_M True s') = Fail AssertionFailed"
  using fu540_irq_53_aborts [OF fu_example_facts(1), of 0 fu_M True] fu_example_facts(2,3)
  by (simp add: fu_level_ok_def hart_map_def)

end
