(* ===== verification/TlmMap.thy ===== *)
theory TlmMap
  imports Bus
begin

text \<open>
  \<open>util/tlm_map.h\<close>: the router from which most peripherals build their memory map, with banks of
  32-bit registers and ranges of bytes, and the handlers that a peripheral registers for them.
  A register is named by a value of type \<open>'r\<close> (the pointer \<open>vptr\<close> of the code); the peripheral with
  state \<open>'s\<close> says how to read and write it.
\<close>

unbundle bit_operations_syntax

section \<open>Access modes\<close>

record access_mode =
  allow_read :: bool
  allow_write :: bool

definition read_write :: access_mode where "read_write = \<lparr>allow_read = True, allow_write = True\<rparr>"

definition read_only :: access_mode where "read_only = \<lparr>allow_read = True, allow_write = False\<rparr>"

definition write_only :: access_mode where "write_only = \<lparr>allow_read = False, allow_write = True\<rparr>"

definition is_readonly :: "access_mode \<Rightarrow> bool" where
  "is_readonly m \<longleftrightarrow> allow_read m \<and> \<not> allow_write m"

text \<open>The two assertions on the command.\<close>

definition mode_allows :: "access_mode \<Rightarrow> tlm_command \<Rightarrow> bool" where
  "mode_allows m cmd \<longleftrightarrow> (allow_read m \<or> cmd \<noteq> TLM_READ_COMMAND) \<and> (allow_write m \<or> cmd \<noteq> TLM_WRITE_COMMAND)"

section \<open>Mappings\<close>

record 's AddressMapping =
  map_start :: u64
  map_end :: u64
  map_mode :: access_mode
  map_handler :: "'s tlm_target"

record 'r reg_mapping_t =
  reg_addr :: u64
  reg_vptr :: 'r
  reg_mode :: access_mode
  reg_mask :: u32

text \<open>A register of a bank as the peripherals write it: an address and a pointer.\<close>

definition reg_at :: "u64 \<Rightarrow> 'r \<Rightarrow> 'r reg_mapping_t" where
  "reg_at addr vptr = \<lparr>reg_addr = addr, reg_vptr = vptr, reg_mode = read_write, reg_mask = 0xFFFFFFFF\<rparr>"

record ('r, 's) registers =
  load_reg :: "'r \<Rightarrow> 's \<Rightarrow> u32"
  store_reg :: "'r \<Rightarrow> u32 \<Rightarrow> 's \<Rightarrow> 's"

text \<open>
  What a handler is told: it performs the access by running \<open>acc_fn\<close>, which returns the new data of
  the payload, and returns \<open>acc_data\<close>, the data as they were, if it does not.
\<close>

record ('r, 's) register_access_t =
  acc_read :: bool
  acc_write :: bool
  acc_vptr :: 'r
  acc_nv :: u32
  acc_fn :: "('s, u8 list) act"
  acc_data :: "u8 list"
  acc_delay :: nat
  acc_addr :: u64

type_synonym ('r, 's) register_handler = "('r, 's) register_access_t \<Rightarrow> ('s, u8 list) act"

datatype ('r, 's) mapping_t =
    RegisterMapping "'r reg_mapping_t list" "('r, 's) register_handler"
  | AddressMap "'s AddressMapping"

section \<open>Access\<close>

definition bus_write :: "('r, 's) registers \<Rightarrow> 'r reg_mapping_t \<Rightarrow> u32 \<Rightarrow> ('s, unit) act" where
  "bus_write rs r new_value =
     seqM (assertM (\<lambda>_. allow_write (reg_mode r))) (modifyM (store_reg rs (reg_vptr r) (new_value AND reg_mask r)))"

definition bus_read :: "('r, 's) registers \<Rightarrow> 'r reg_mapping_t \<Rightarrow> ('s, u32) act" where
  "bus_read rs r = seqM (assertM (\<lambda>_. allow_read (reg_mode r))) (getsM (load_reg rs (reg_vptr r)))"

text \<open>The bytes of a word replaced from an offset.\<close>

definition word_bytes :: "u32 \<Rightarrow> u8 list" where
  "word_bytes w = to_bytes 4 (ucast w)"

definition bytes_word :: "u8 list \<Rightarrow> u32" where
  "bytes_word bs = ucast (of_bytes bs)"

definition overlay :: "nat \<Rightarrow> u8 list \<Rightarrow> u32 \<Rightarrow> u32" where
  "overlay off bs w = bytes_word (take off (word_bytes w) @ bs @ drop (off + length bs) (word_bytes w))"

definition access_fn :: "('r, 's) registers \<Rightarrow> 'r reg_mapping_t \<Rightarrow> tlm_generic_payload \<Rightarrow> ('s, u8 list) act" where
  "access_fn rs r tr =
     (let off = unat (address tr mod 4); len = length (data_ptr tr) in
      case command tr of
        TLM_READ_COMMAND \<Rightarrow> bindM (bus_read rs r) (\<lambda>n. ret (take len (drop off (word_bytes n))))
      | TLM_WRITE_COMMAND \<Rightarrow>
          bindM (getsM (load_reg rs (reg_vptr r))) (\<lambda>n.
            seqM (bus_write rs r (overlay off (data_ptr tr) n)) (ret (data_ptr tr)))
      | TLM_IGNORE_COMMAND \<Rightarrow> failM RuntimeError)"

primrec find_reg :: "u64 \<Rightarrow> 'r reg_mapping_t list \<Rightarrow> 'r reg_mapping_t option" where
  "find_reg a [] = None"
| "find_reg a (r # rs) = (if reg_addr r = a then Some r else find_reg a rs)"

text \<open>
  \<open>RegisterMapping::try_handle\<close> for a bank: \<open>None\<close> if no register is at the address. For a write the
  new value is read as four bytes, whatever the length of the payload is; \<open>stray\<close> are the bytes
  that follow the data of the payload in the memory of the host.
\<close>

definition register_try_handle ::
    "('r, 's) registers \<Rightarrow> u8 list \<Rightarrow> 'r reg_mapping_t list \<Rightarrow> ('r, 's) register_handler \<Rightarrow>
     tlm_generic_payload \<Rightarrow> nat \<Rightarrow> ('s, (tlm_generic_payload \<times> nat) option) act" where
  "register_try_handle rs stray bank handler tr delay =
     (let addr = address tr; len = length (data_ptr tr); cmd = command tr in
      case find_reg (addr - addr mod 4) bank of
        None \<Rightarrow> ret None
      | Some r \<Rightarrow>
          seqM (assertM (\<lambda>_. len + unat (addr mod 4) \<le> 4))
          (seqM (assertM (\<lambda>_. cmd = TLM_READ_COMMAND \<or> cmd = TLM_WRITE_COMMAND))
          (seqM (assertM (\<lambda>_. mode_allows (reg_mode r) cmd))
          (bindM (handler \<lparr>acc_read = (cmd = TLM_READ_COMMAND), acc_write = (cmd = TLM_WRITE_COMMAND),
                    acc_vptr = reg_vptr r,
                    acc_nv = (if cmd = TLM_WRITE_COMMAND then bytes_word (take 4 (data_ptr tr @ stray)) else 0),
                    acc_fn = access_fn rs r tr, acc_data = data_ptr tr, acc_delay = delay, acc_addr = addr\<rparr>)
             (\<lambda>bs. ret (Some (tr\<lparr>data_ptr := bs\<rparr>, delay)))))))"

definition address_try_handle ::
    "'s AddressMapping \<Rightarrow> tlm_generic_payload \<Rightarrow> nat \<Rightarrow> ('s, (tlm_generic_payload \<times> nat) option) act" where
  "address_try_handle m tr delay =
     (let addr = address tr; len = length (data_ptr tr) in
      if addr \<ge> map_start m \<and> addr < map_end m then
        seqM (assertM (\<lambda>_. addr + of_nat len \<le> map_end m))
        (seqM (assertM (\<lambda>_. mode_allows (map_mode m) (command tr)))
        (bindM (map_handler m (tr\<lparr>address := addr - map_start m\<rparr>) delay) (\<lambda>x. ret (Some x))))
      else ret None)"

definition try_handle ::
    "('r, 's) registers \<Rightarrow> u8 list \<Rightarrow> ('r, 's) mapping_t \<Rightarrow> tlm_generic_payload \<Rightarrow> nat \<Rightarrow>
     ('s, (tlm_generic_payload \<times> nat) option) act" where
  "try_handle rs stray m = (case m of
     RegisterMapping bank handler \<Rightarrow> register_try_handle rs stray bank handler
   | AddressMap am \<Rightarrow> address_try_handle am)"

text \<open>\<open>LocalRouter::transport\<close>\<close>

primrec router_transport :: "('r, 's) registers \<Rightarrow> u8 list \<Rightarrow> ('r, 's) mapping_t list \<Rightarrow> 's tlm_target" where
  "router_transport rs stray [] tr delay = failM RuntimeError"
| "router_transport rs stray (m # ms) tr delay =
     bindM (try_handle rs stray m tr delay) (\<lambda>x. case x of
       Some y \<Rightarrow> ret y
     | None \<Rightarrow> router_transport rs stray ms tr delay)"

text \<open>\<open>execute_memory_access\<close> on an array of the host, \<open>get\<close> and \<open>put\<close> in the peripheral.\<close>

definition execute_memory_access :: "('s \<Rightarrow> u8 list) \<Rightarrow> (u8 list \<Rightarrow> 's \<Rightarrow> 's) \<Rightarrow> 's tlm_target" where
  "execute_memory_access get put tr delay = (\<lambda>s.
     case command tr of
       TLM_WRITE_COMMAND \<Rightarrow> (case array_write (unat (address tr)) (data_ptr tr) (get s) of
           Some xs \<Rightarrow> (Ok (tr, delay), put xs s)
         | None \<Rightarrow> (Fail OutOfRange, s))
     | TLM_READ_COMMAND \<Rightarrow> (case array_read (unat (address tr)) (length (data_ptr tr)) (get s) of
           Some bs \<Rightarrow> (Ok (tr\<lparr>data_ptr := bs\<rparr>, delay), s)
         | None \<Rightarrow> (Fail OutOfRange, s))
     | TLM_IGNORE_COMMAND \<Rightarrow> (Fail RuntimeError, s))"

definition add_start_size_mapping :: "u64 \<Rightarrow> u32 \<Rightarrow> access_mode \<Rightarrow> 's tlm_target \<Rightarrow> ('r, 's) mapping_t" where
  "add_start_size_mapping start sz m h =
     AddressMap \<lparr>map_start = start, map_end = start + ucast sz, map_mode = m, map_handler = h\<rparr>"

section \<open>Bytes of a register\<close>

lemma length_word_bytes [simp]: "length (word_bytes w) = 4"
  by (simp add: word_bytes_def)

lemma bytes_word_bytes [simp]: "bytes_word (word_bytes w) = w"
  by (rule bit_word_eqI) (auto simp: bytes_word_def word_bytes_def of_to_bytes bit_simps)

lemma word_bytes_word: "length bs = 4 \<Longrightarrow> word_bytes (bytes_word bs) = bs"
proof -
  assume l: "length bs = 4"
  have "take_bit 32 (of_bytes bs) = of_bytes bs"
    using arg_cong [OF to_of_bytes [of bs], of of_bytes] l by (simp add: of_to_bytes)
  moreover have "(ucast (ucast x :: u32) :: u64) = take_bit 32 x" for x
    by (rule bit_word_eqI) (auto simp: bit_simps)
  ultimately show ?thesis using to_of_bytes [of bs] l by (simp add: word_bytes_def bytes_word_def)
qed

lemma overlay_bytes:
  "off + length bs \<le> 4 \<Longrightarrow> word_bytes (overlay off bs w) = take off (word_bytes w) @ bs @ drop (off + length bs) (word_bytes w)"
  by (simp add: overlay_def word_bytes_word)

lemma overlay_read: "off + length bs \<le> 4 \<Longrightarrow> take (length bs) (drop off (word_bytes (overlay off bs w))) = bs"
  by (simp add: overlay_bytes)

lemma overlay_all: "length bs = 4 \<Longrightarrow> overlay 0 bs w = bytes_word bs"
  by (simp add: overlay_def)

section \<open>Register banks\<close>

text \<open>
  What a bank relies on: the registers are separate cells. A handler that only performs the access
  gives a bank of plain storage.
\<close>

definition plain_handler :: "('r, 's) register_handler" where
  "plain_handler r = acc_fn r"

definition plain_reg :: "'r reg_mapping_t \<Rightarrow> bool" where
  "plain_reg r \<longleftrightarrow> reg_mode r = read_write \<and> reg_mask r = 0xFFFFFFFF"

lemma reg_at_plain [simp]: "plain_reg (reg_at a v)"
  by (simp add: plain_reg_def reg_at_def)

lemma and_all_ones: "w AND 0xFFFFFFFF = (w :: u32)"
proof -
  have "(0xFFFFFFFF :: u32) = - 1" by simp
  then show ?thesis by (metis and.right_neutral)
qed

locale register_file =
  fixes rs :: "('r, 's) registers"
  assumes load_store: "load_reg rs r (store_reg rs r' v s) = (if r = r' then v else load_reg rs r s)"
begin

lemma plain_write:
  assumes "find_reg (address tr - address tr mod 4) bank = Some r" and "plain_reg r"
    and "length (data_ptr tr) + unat (address tr mod 4) \<le> 4" and "command tr = TLM_WRITE_COMMAND"
  shows "register_try_handle rs stray bank plain_handler tr delay s = (Ok (Some (tr, delay)),
    store_reg rs (reg_vptr r) (overlay (unat (address tr mod 4)) (data_ptr tr) (load_reg rs (reg_vptr r) s)) s)"
  using assms
  by (simp add: register_try_handle_def plain_handler_def access_fn_def bus_write_def plain_reg_def read_write_def mode_allows_def
      and_all_ones seqM_def bindM_def assertM_def Let_def)

lemma plain_read:
  assumes "find_reg (address tr - address tr mod 4) bank = Some r" and "plain_reg r"
    and "length (data_ptr tr) + unat (address tr mod 4) \<le> 4" and "command tr = TLM_READ_COMMAND"
  shows "register_try_handle rs stray bank plain_handler tr delay s = (Ok (Some (tr\<lparr>data_ptr :=
    take (length (data_ptr tr)) (drop (unat (address tr mod 4)) (word_bytes (load_reg rs (reg_vptr r) s)))\<rparr>, delay)), s)"
  using assms
  by (simp add: register_try_handle_def plain_handler_def access_fn_def bus_read_def plain_reg_def read_write_def mode_allows_def
      seqM_def bindM_def assertM_def Let_def)

text \<open>A router with one plain bank: a read returns the bytes of the last write, other registers keep their values.\<close>

lemma plain_bank_roundtrip:
  assumes "find_reg (address tr - address tr mod 4) bank = Some r" and "plain_reg r"
    and "length (data_ptr tr) + unat (address tr mod 4) \<le> 4" and "length dst = length (data_ptr tr)"
    and "router = [RegisterMapping bank plain_handler]"
  shows "\<exists>s'. router_transport rs stray router (tr\<lparr>command := TLM_WRITE_COMMAND\<rparr>) d s =
      (Ok (tr\<lparr>command := TLM_WRITE_COMMAND\<rparr>, d), s') \<and>
    router_transport rs stray' router (tr\<lparr>command := TLM_READ_COMMAND, data_ptr := dst\<rparr>) d' s' =
      (Ok (tr\<lparr>command := TLM_READ_COMMAND\<rparr>, d'), s') \<and>
    (\<forall>v. v \<noteq> reg_vptr r \<longrightarrow> load_reg rs v s' = load_reg rs v s)"
proof -
  let ?off = "unat (address tr mod 4)"
  let ?s = "store_reg rs (reg_vptr r) (overlay ?off (data_ptr tr) (load_reg rs (reg_vptr r) s)) s"
  have "router_transport rs stray router (tr\<lparr>command := TLM_WRITE_COMMAND\<rparr>) d s = (Ok (tr\<lparr>command := TLM_WRITE_COMMAND\<rparr>, d), ?s)"
    using plain_write [of "tr\<lparr>command := TLM_WRITE_COMMAND\<rparr>" bank r stray d s] assms
    by (simp add: try_handle_def bindM_def)
  moreover have "router_transport rs stray' router (tr\<lparr>command := TLM_READ_COMMAND, data_ptr := dst\<rparr>) d' ?s =
      (Ok (tr\<lparr>command := TLM_READ_COMMAND\<rparr>, d'), ?s)"
    using plain_read [of "tr\<lparr>command := TLM_READ_COMMAND, data_ptr := dst\<rparr>" bank r stray' d' ?s] assms
      overlay_read [of ?off "data_ptr tr"]
    by (simp add: try_handle_def bindM_def load_store add.commute)
  moreover have "\<forall>v. v \<noteq> reg_vptr r \<longrightarrow> load_reg rs v ?s = load_reg rs v s" by (simp add: load_store)
  ultimately show ?thesis by blast
qed

end

end
