(* ===== verification/PeriphBasic.thy ===== *)
theory PeriphBasic
  imports TlmMap IrqIf
begin

text \<open>
  Peripherals of the basic platform: \<open>platform/basic/dma.h\<close>, \<open>sensor.h\<close>, \<open>sensor2.h\<close> and
  \<open>basic_timer.h\<close>. Their interrupt gateway is a parameter \<open>gateway\<close> that acts on the state \<open>'p\<close> of the
  interrupt controller; \<open>rand\<close> is the generator of the C library with its state \<open>'g\<close>.
\<close>

unbundle bit_operations_syntax

section \<open>DMA\<close>

record 'b SimpleDMA =
  dma_irq :: nat
  dma_buffer :: "u8 list"
  dma_src :: u32
  dma_dst :: u32
  dma_len :: u32
  dma_op :: u32
  dma_stat :: u32
  dma_event :: sc_event
  dma_time :: nat
  dma_bus :: 'b

definition SimpleDMA_init :: "nat \<Rightarrow> nat \<Rightarrow> 'b \<Rightarrow> 'b SimpleDMA" where
  "SimpleDMA_init irq now bus =
     \<lparr>dma_irq = irq, dma_buffer = replicate 64 0, dma_src = 0, dma_dst = 0, dma_len = 0, dma_op = 0, dma_stat = 0,
      dma_event = None, dma_time = now, dma_bus = bus\<rparr>"

text \<open>
  \<open>do_transaction\<close> with the buffer of the DMA as data; the thread waits for the delay of the bus.
\<close>

definition dma_do_transaction ::
    "'b tlm_target \<Rightarrow> tlm_command \<Rightarrow> u64 \<Rightarrow> u8 list \<Rightarrow> ('b SimpleDMA, u8 list) act" where
  "dma_do_transaction isock cmd addr dat =
     bindM (zoomM dma_bus (\<lambda>b s. s\<lparr>dma_bus := b\<rparr>)
              (isock \<lparr>command = cmd, address = addr, data_ptr = dat, response_status = TLM_OK_RESPONSE\<rparr> 0))
       (\<lambda>(tr, delay). seqM (modifyM (\<lambda>s. s\<lparr>dma_time := dma_time s + delay\<rparr>)) (ret (data_ptr tr)))"

definition copy_block :: "'b tlm_target \<Rightarrow> u32 \<Rightarrow> u32 \<Rightarrow> ('b SimpleDMA, unit) act" where
  "copy_block isock off n =
     bindM (getsM (\<lambda>s. (dma_src s, dma_dst s, dma_buffer s))) (\<lambda>(src, dst, buf).
     bindM (dma_do_transaction isock TLM_READ_COMMAND (ucast (src + off)) (take (unat n) buf)) (\<lambda>bs.
     seqM (modifyM (\<lambda>s. s\<lparr>dma_buffer := bs @ drop (unat n) (dma_buffer s)\<rparr>))
     (bindM (dma_do_transaction isock TLM_WRITE_COMMAND (ucast (dst + off)) bs) (\<lambda>_. ret ()))))"

text \<open>The blocks that \<open>_perform_memcpy\<close> copies, by offset and length.\<close>

function memcpy_blocks :: "u32 \<Rightarrow> u32 \<Rightarrow> (u32 \<times> u32) list" where
  "memcpy_blocks off n = (if n > 64 then (off, 64) # memcpy_blocks (off + 64) (n - 64) else [(off, n)])"
  by pat_completeness auto

termination
  by (relation "measure (\<lambda>(off, n). unat n)") (auto simp: word_less_nat_alt unat_sub_if_size)

declare memcpy_blocks.simps [simp del]

definition perform_memcpy :: "'b tlm_target \<Rightarrow> ('b SimpleDMA, unit) act" where
  "perform_memcpy isock = bindM (getsM dma_len) (\<lambda>n. seqs (map (\<lambda>(off, k). copy_block isock off k) (memcpy_blocks 0 n)))"

definition dma_run_body :: "'b tlm_target \<Rightarrow> (nat \<Rightarrow> ('b, unit) act) \<Rightarrow> ('b SimpleDMA, unit) act" where
  "dma_run_body isock gateway =
     bindM (getsM dma_op) (\<lambda>op.
     seqM (if op = 0 then ret () else if op = 1 then perform_memcpy isock else failM AssertionFailed)
       (bindM (getsM dma_irq) (\<lambda>irq. zoomM dma_bus (\<lambda>b s. s\<lparr>dma_bus := b\<rparr>) (gateway irq))))"

definition dma_run_round :: "'b tlm_target \<Rightarrow> (nat \<Rightarrow> ('b, unit) act) \<Rightarrow> ('b SimpleDMA, unit) act" where
  "dma_run_round isock gateway s = (case dma_event s of
     None \<Rightarrow> (Blocked, s)
   | Some t \<Rightarrow> dma_run_body isock gateway (s\<lparr>dma_time := t, dma_event := None\<rparr>))"

definition dma_get :: "u64 \<Rightarrow> 'b SimpleDMA \<Rightarrow> u32 option" where
  "dma_get addr s = (if addr = 0 then Some (dma_src s) else if addr = 4 then Some (dma_dst s)
     else if addr = 8 then Some (dma_len s) else if addr = 12 then Some (dma_op s) else None)"

definition dma_set :: "u64 \<Rightarrow> u32 \<Rightarrow> 'b SimpleDMA \<Rightarrow> 'b SimpleDMA" where
  "dma_set addr v s = (if addr = 0 then s\<lparr>dma_src := v\<rparr> else if addr = 4 then s\<lparr>dma_dst := v\<rparr>
     else if addr = 8 then s\<lparr>dma_len := v\<rparr> else if addr = 12 then s\<lparr>dma_op := v\<rparr> else s)"

definition dma_transport :: "'b SimpleDMA tlm_target" where
  "dma_transport tr delay =
     (let addr = address tr in
      seqM (assertM (\<lambda>_. length (data_ptr tr) = 4))
      (bindM (getsM (dma_get addr)) (\<lambda>r. case r of
         None \<Rightarrow> failM AssertionFailed
       | Some v \<Rightarrow> (case command tr of
           TLM_READ_COMMAND \<Rightarrow> ret (tr\<lparr>data_ptr := word_bytes v\<rparr>, delay)
         | TLM_WRITE_COMMAND \<Rightarrow>
             seqM (modifyM (dma_set addr (bytes_word (data_ptr tr))))
             (seqM (modifyM (\<lambda>s. if addr = 12 then s\<lparr>dma_event := notify (dma_time s) 10000 (dma_event s)\<rparr> else s))
               (ret (tr, delay)))
         | TLM_IGNORE_COMMAND \<Rightarrow> failM AssertionFailed))))"

section \<open>Sensors\<close>

record ('p, 'g) SimpleSensor =
  sensor_plic :: 'p
  sensor_irq :: nat
  run_event :: sc_event
  data_frame :: "u8 list"
  scaler :: u32
  sensor_filter :: u32
  sensor_time :: nat
  rng :: 'g

definition SimpleSensor_init :: "'p \<Rightarrow> nat \<Rightarrow> nat \<Rightarrow> 'g \<Rightarrow> ('p, 'g) SimpleSensor" where
  "SimpleSensor_init plic irq now g =
     \<lparr>sensor_plic = plic, sensor_irq = irq, run_event = None, data_frame = replicate 64 0, scaler = 25,
      sensor_filter = 0, sensor_time = now, rng = g\<rparr>"

text \<open>A notification after \<open>scaler\<close> milliseconds, and the same with the pending one cancelled first.\<close>

definition ms :: nat where "ms = 1000000000"

definition sensor_notify :: "('p, 'g) SimpleSensor \<Rightarrow> ('p, 'g) SimpleSensor" where
  "sensor_notify s = s\<lparr>run_event := notify (sensor_time s) (unat (scaler s) * ms) (run_event s)\<rparr>"

definition sensor_cancel :: "('p, 'g) SimpleSensor \<Rightarrow> ('p, 'g) SimpleSensor" where
  "sensor_cancel s = s\<lparr>run_event := None\<rparr>"

definition sensor_transport :: "('p, 'g) SimpleSensor tlm_target" where
  "sensor_transport tr delay =
     (let addr = address tr; cmd = command tr; len = length (data_ptr tr) in
      if addr \<le> 63 then
        seqM (assertM (\<lambda>_. cmd = TLM_READ_COMMAND))
        (seqM (assertM (\<lambda>s. addr + of_nat len \<le> of_nat (length (data_frame s))))
        (\<lambda>s. case array_read (unat addr) len (data_frame s) of
           Some bs \<Rightarrow> (Ok (tr\<lparr>data_ptr := bs\<rparr>, delay), s)
         | None \<Rightarrow> (Fail OutOfRange, s)))
      else
        seqM (assertM (\<lambda>_. len = 4))
        (seqM (assertM (\<lambda>_. addr = 0x80 \<or> addr = 0x84))
        (let value = bytes_word (data_ptr tr) in
         if cmd = TLM_WRITE_COMMAND \<and> addr = 0x80 \<and> (value < 1 \<or> value > 100) then ret (tr, delay)
         else case cmd of
           TLM_READ_COMMAND \<Rightarrow>
             bindM (getsM (\<lambda>s. if addr = 0x80 then scaler s else sensor_filter s))
               (\<lambda>v. ret (tr\<lparr>data_ptr := word_bytes v\<rparr>, delay))
         | TLM_WRITE_COMMAND \<Rightarrow>
             seqM (modifyM (\<lambda>s. if addr = 0x80 then s\<lparr>scaler := value\<rparr> else s\<lparr>sensor_filter := value\<rparr>))
             (seqM (if addr = 0x80 then modifyM (\<lambda>s. sensor_notify (sensor_cancel s)) else ret ()) (ret (tr, delay)))
         | TLM_IGNORE_COMMAND \<Rightarrow> failM AssertionFailed)))"

text \<open>One byte of the data frame: \<open>other\<close> is the rule for the remaining values of the filter.\<close>

definition sensor_byte :: "(nat \<Rightarrow> nat) \<Rightarrow> u32 \<Rightarrow> nat \<Rightarrow> u8" where
  "sensor_byte other f r = of_nat (if f = 1 then r mod 10 + 48 else if f = 2 then r mod 26 + 65 else other r)"

primrec sensor_fill :: "('g \<Rightarrow> nat \<times> 'g) \<Rightarrow> (nat \<Rightarrow> nat) \<Rightarrow> u32 \<Rightarrow> nat \<Rightarrow> 'g \<Rightarrow> u8 list \<times> 'g" where
  "sensor_fill rand other f 0 g = ([], g)"
| "sensor_fill rand other f (Suc n) g =
     (let (r, g1) = rand g; (bs, g2) = sensor_fill rand other f n g1 in (sensor_byte other f r # bs, g2))"

definition sensor_round_with ::
    "(nat \<Rightarrow> nat) \<Rightarrow> ('g \<Rightarrow> nat \<times> 'g) \<Rightarrow> (nat \<Rightarrow> ('p, unit) act) \<Rightarrow> (('p, 'g) SimpleSensor, unit) act" where
  "sensor_round_with other rand gateway =
     seqM (modifyM sensor_notify)
     (seqM (modifyM (\<lambda>s. s\<lparr>sensor_time := (case run_event s of None \<Rightarrow> sensor_time s | Some t \<Rightarrow> t), run_event := None\<rparr>))
     (seqM (modifyM (\<lambda>s. let (bs, g) = sensor_fill rand other (sensor_filter s) (length (data_frame s)) (rng s) in
                          s\<lparr>data_frame := bs, rng := g\<rparr>))
     (bindM (getsM sensor_irq) (\<lambda>irq. zoomM sensor_plic (\<lambda>p s. s\<lparr>sensor_plic := p\<rparr>) (gateway irq)))))"

definition sensor_run_round ::
    "('g \<Rightarrow> nat \<times> 'g) \<Rightarrow> (nat \<Rightarrow> ('p, unit) act) \<Rightarrow> (('p, 'g) SimpleSensor, unit) act" where
  "sensor_run_round = sensor_round_with (\<lambda>r. r mod 92 + 32)"

text \<open>\<open>sensor2.h\<close>: the same sensor on the router.\<close>

datatype sensor_reg = SCALER | FILTER

definition sensor2_registers :: "(sensor_reg, ('p, 'g) SimpleSensor) registers" where
  "sensor2_registers =
     \<lparr>load_reg = (\<lambda>r s. case r of SCALER \<Rightarrow> scaler s | FILTER \<Rightarrow> sensor_filter s),
      store_reg = (\<lambda>r v s. case r of SCALER \<Rightarrow> s\<lparr>scaler := v\<rparr> | FILTER \<Rightarrow> s\<lparr>sensor_filter := v\<rparr>)\<rparr>"

interpretation sensor2_file: register_file sensor2_registers
  by unfold_locales (auto simp: sensor2_registers_def split: sensor_reg.split)

definition data_frame_access_callback :: "('p, 'g) SimpleSensor tlm_target" where
  "data_frame_access_callback = execute_memory_access data_frame (\<lambda>xs s. s\<lparr>data_frame := xs\<rparr>)"

definition sensor2_register_access_callback :: "(sensor_reg, ('p, 'g) SimpleSensor) register_handler" where
  "sensor2_register_access_callback r =
     (if acc_write r \<and> acc_vptr r = SCALER \<and> (acc_nv r < 1 \<or> acc_nv r > 100) then ret (acc_data r)
      else bindM (acc_fn r) (\<lambda>bs.
        seqM (if acc_write r \<and> acc_vptr r = SCALER then modifyM (\<lambda>s. sensor_notify (sensor_cancel s)) else ret ())
          (ret bs)))"

definition sensor2_router :: "(sensor_reg, ('p, 'g) SimpleSensor) mapping_t list" where
  "sensor2_router =
     [RegisterMapping [reg_at 0x80 SCALER, reg_at 0x84 FILTER] sensor2_register_access_callback,
      add_start_size_mapping 0 64 read_only data_frame_access_callback]"

definition sensor2_transport :: "u8 list \<Rightarrow> ('p, 'g) SimpleSensor tlm_target" where
  "sensor2_transport stray = router_transport sensor2_registers stray sensor2_router"

definition sensor2_run_round ::
    "('g \<Rightarrow> nat \<times> 'g) \<Rightarrow> (nat \<Rightarrow> ('p, unit) act) \<Rightarrow> (('p, 'g) SimpleSensor, unit) act" where
  "sensor2_run_round = sensor_round_with (\<lambda>r. r)"

section \<open>The basic timer\<close>

record 'p BasicTimer =
  bt_plic :: 'p
  bt_irq :: nat
  bt_time :: nat

definition basic_timer_run_round :: "(nat \<Rightarrow> ('p, unit) act) \<Rightarrow> ('p BasicTimer, unit) act" where
  "basic_timer_run_round gateway =
     seqM (modifyM (\<lambda>s. s\<lparr>bt_time := bt_time s + ms\<rparr>))
       (bindM (getsM bt_irq) (\<lambda>irq. zoomM bt_plic (\<lambda>p s. s\<lparr>bt_plic := p\<rparr>) (gateway irq)))"

section \<open>Copying memory\<close>

text \<open>The DMA on a \<open>SimpleMemory\<close>.\<close>

lemma memory_transport_read:
  assumes "memory_wf m" and "unat a < length (mem_data m)" and "unat a + length dat \<le> length (mem_data m)"
  shows "memory_transport \<lparr>command = TLM_READ_COMMAND, address = ucast (a :: u32), data_ptr = dat, response_status = r\<rparr> d m =
    (Ok (\<lparr>command = TLM_READ_COMMAND, address = ucast a, data_ptr = take (length dat) (drop (unat a) (mem_data m)),
       response_status = r\<rparr>, d + 10000), m)"
proof -
  have l: "length (mem_data m) = unat (mem_size m)" using assms(1) by (simp add: memory_wf_def)
  have lt: "unat (mem_size m) < 2 ^ 32" using unsigned_less [of "mem_size m"] by simp
  then have "unat (a + of_nat (length dat)) = unat a + length dat"
    using assms(3) l by (simp add: unat_word_ariths unat_of_nat take_bit_nat_eq_self)
  moreover have "ucast (ucast a :: u64) = a" by (rule bit_word_eqI) (auto simp: bit_simps)
  ultimately show ?thesis
    using assms l by (simp add: memory_transport_def memory_transport_dbg_def read_data_def array_read_def seqM_def bindM_def assertM_def
        word_less_nat_alt word_le_nat_alt Let_def)
qed

lemma memory_transport_write:
  assumes "memory_wf m" and "unat a < length (mem_data m)" and "unat a + length dat \<le> length (mem_data m)"
  shows "memory_transport \<lparr>command = TLM_WRITE_COMMAND, address = ucast (a :: u32), data_ptr = dat, response_status = r\<rparr> d m =
    (Ok (\<lparr>command = TLM_WRITE_COMMAND, address = ucast a, data_ptr = dat, response_status = r\<rparr>, d + 10000),
     m\<lparr>mem_data := take (unat a) (mem_data m) @ dat @ drop (unat a + length dat) (mem_data m)\<rparr>)"
proof -
  have l: "length (mem_data m) = unat (mem_size m)" using assms(1) by (simp add: memory_wf_def)
  have lt: "unat (mem_size m) < 2 ^ 32" using unsigned_less [of "mem_size m"] by simp
  then have "unat (a + of_nat (length dat)) = unat a + length dat"
    using assms(3) l by (simp add: unat_word_ariths unat_of_nat take_bit_nat_eq_self)
  moreover have "ucast (ucast a :: u64) = a" by (rule bit_word_eqI) (auto simp: bit_simps)
  ultimately show ?thesis
    using assms l by (simp add: memory_transport_def memory_transport_dbg_def write_data_def array_write_def seqM_def bindM_def assertM_def
        word_less_nat_alt word_le_nat_alt Let_def)
qed

definition dma_mem :: "SimpleMemory SimpleDMA \<Rightarrow> u8 list" where
  "dma_mem s = mem_data (dma_bus s)"

text \<open>What the copies rely on: both ranges are inside the memory and apart from each other.\<close>

definition dma_ready :: "SimpleMemory SimpleDMA \<Rightarrow> bool" where
  "dma_ready s \<longleftrightarrow> memory_wf (dma_bus s) \<and> length (dma_buffer s) = 64 \<and>
     unat (dma_src s) + unat (dma_len s) \<le> length (dma_mem s) \<and> unat (dma_dst s) + unat (dma_len s) \<le> length (dma_mem s) \<and>
     (unat (dma_src s) + unat (dma_len s) \<le> unat (dma_dst s) \<or> unat (dma_dst s) + unat (dma_len s) \<le> unat (dma_src s))"

definition dma_regs :: "'b SimpleDMA \<Rightarrow> nat \<times> u32 \<times> u32 \<times> u32 \<times> u32" where
  "dma_regs s = (dma_irq s, dma_src s, dma_dst s, dma_len s, dma_op s)"

lemma copy_block_memory:
  assumes "dma_ready s" and "0 < unat k" and "unat k \<le> 64" and "unat off + unat k \<le> unat (dma_len s)"
  obtains s' where "copy_block memory_transport off k s = (Ok (), s')" and "dma_ready s'" and "dma_regs s' = dma_regs s"
    and "length (dma_mem s') = length (dma_mem s)"
    and "\<forall>i < length (dma_mem s). dma_mem s' ! i =
      (if unat (dma_dst s) + unat off \<le> i \<and> i < unat (dma_dst s) + unat off + unat k
       then dma_mem s ! (unat (dma_src s) + (i - unat (dma_dst s))) else dma_mem s ! i)"
proof -
  let ?m = "dma_bus s" and ?src = "unat (dma_src s)" and ?dst = "unat (dma_dst s)" and ?o = "unat off" and ?k = "unat k"
  have r: "memory_wf ?m" "length (dma_buffer s) = 64" "?src + unat (dma_len s) \<le> length (mem_data ?m)"
      "?dst + unat (dma_len s) \<le> length (mem_data ?m)"
    using assms(1) by (simp_all add: dma_ready_def dma_mem_def)
  have "length (mem_data ?m) < 2 ^ 32" using r(1) unsigned_less [of "mem_size ?m"] by (simp add: memory_wf_def)
  then have u: "unat (dma_src s + off) = ?src + ?o" "unat (dma_dst s + off) = ?dst + ?o"
    using r(3,4) assms(4) by (simp_all add: unat_word_ariths)
  let ?bs = "take ?k (drop (?src + ?o) (mem_data ?m))"
  have lb: "length ?bs = ?k" using r(3) assms(4) by simp
  let ?m' = "?m\<lparr>mem_data := take (?dst + ?o) (mem_data ?m) @ ?bs @ drop (?dst + ?o + ?k) (mem_data ?m)\<rparr>"
  have rd: "memory_transport \<lparr>command = TLM_READ_COMMAND, address = ucast (dma_src s + off), data_ptr = take ?k (dma_buffer s),
      response_status = TLM_OK_RESPONSE\<rparr> 0 ?m = (Ok (\<lparr>command = TLM_READ_COMMAND, address = ucast (dma_src s + off),
      data_ptr = ?bs, response_status = TLM_OK_RESPONSE\<rparr>, 10000), ?m)"
    using memory_transport_read [OF r(1), of "dma_src s + off" "take ?k (dma_buffer s)"] u r assms by simp
  have wr: "memory_transport \<lparr>command = TLM_WRITE_COMMAND, address = ucast (dma_dst s + off), data_ptr = ?bs,
      response_status = TLM_OK_RESPONSE\<rparr> 0 ?m = (Ok (\<lparr>command = TLM_WRITE_COMMAND, address = ucast (dma_dst s + off),
      data_ptr = ?bs, response_status = TLM_OK_RESPONSE\<rparr>, 10000), ?m')"
    using memory_transport_write [OF r(1), of "dma_dst s + off" ?bs] u r lb assms by simp
  let ?s = "s\<lparr>dma_bus := ?m', dma_time := dma_time s + 20000, dma_buffer := ?bs @ drop ?k (dma_buffer s)\<rparr>"
  have step: "copy_block memory_transport off k s = (Ok (), ?s)"
    using rd wr by (simp add: copy_block_def dma_do_transaction_def zoomM_def seqM_def bindM_def)
  have len: "length (mem_data ?m') = length (mem_data ?m)" using r lb assms(4) by simp
  have "memory_wf ?m'" using r(1) len by (simp add: memory_wf_def)
  then have "dma_ready ?s" using assms(1) len lb assms(3) r(2) by (simp add: dma_ready_def dma_mem_def)
  moreover have "\<forall>i < length (dma_mem s). dma_mem ?s ! i =
      (if ?dst + ?o \<le> i \<and> i < ?dst + ?o + ?k then dma_mem s ! (?src + (i - ?dst)) else dma_mem s ! i)"
    using r lb assms(4) by (auto simp: dma_mem_def nth_append)
  ultimately show ?thesis
    using len by (intro that [OF step]) (simp_all add: dma_regs_def dma_mem_def)
qed

lemma copy_blocks_memory:
  assumes "dma_ready s" and "0 < unat n" and "unat off + unat n \<le> unat (dma_len s)"
  shows "\<exists>s'. seqs (map (\<lambda>(off, k). copy_block memory_transport off k) (memcpy_blocks off n)) s = (Ok (), s') \<and>
    dma_ready s' \<and> dma_regs s' = dma_regs s \<and> length (dma_mem s') = length (dma_mem s) \<and>
    (\<forall>i < length (dma_mem s). dma_mem s' ! i =
      (if unat (dma_dst s) + unat off \<le> i \<and> i < unat (dma_dst s) + unat off + unat n
       then dma_mem s ! (unat (dma_src s) + (i - unat (dma_dst s))) else dma_mem s ! i))"
  using assms
proof (induction off n arbitrary: s rule: memcpy_blocks.induct)
  case (1 off n)
  let ?src = "unat (dma_src s)" and ?dst = "unat (dma_dst s)"
  show ?case
  proof (cases "n > 64")
    case True
    then have gt: "64 < unat n" by (simp add: word_less_nat_alt)
    have "unat (dma_len s) < 2 ^ 32" using unsigned_less [of "dma_len s"] by simp
    then have o64: "unat (off + 64) = unat off + 64" using 1(4) gt by (simp add: unat_word_ariths)
    have n64: "unat (n - 64) = unat n - 64" using True by (subst unat_sub) (simp_all add: less_imp_le)
    obtain s1 where s1: "copy_block memory_transport off 64 s = (Ok (), s1)" "dma_ready s1" "dma_regs s1 = dma_regs s"
        "length (dma_mem s1) = length (dma_mem s)"
        "\<forall>i < length (dma_mem s). dma_mem s1 ! i = (if ?dst + unat off \<le> i \<and> i < ?dst + unat off + unat (64 :: u32)
           then dma_mem s ! (?src + (i - ?dst)) else dma_mem s ! i)"
      by (rule copy_block_memory [OF 1(2), of 64 off]) (use 1(4) gt in simp_all)
    have regs: "dma_src s1 = dma_src s" "dma_dst s1 = dma_dst s" "dma_len s1 = dma_len s"
      using s1(3) by (simp_all add: dma_regs_def)
    obtain s2 where s2: "seqs (map (\<lambda>(off, k). copy_block memory_transport off k) (memcpy_blocks (off + 64) (n - 64))) s1 = (Ok (), s2)"
        "dma_ready s2" "dma_regs s2 = dma_regs s1" "length (dma_mem s2) = length (dma_mem s1)"
        "\<forall>i < length (dma_mem s1). dma_mem s2 ! i = (if ?dst + unat (off + 64) \<le> i \<and> i < ?dst + unat (off + 64) + unat (n - 64)
           then dma_mem s1 ! (?src + (i - ?dst)) else dma_mem s1 ! i)"
      using 1(1) [OF True s1(2)] 1(4) o64 n64 gt regs by auto
    have apart: "dma_mem s1 ! (?src + (i - ?dst)) = dma_mem s ! (?src + (i - ?dst))"
      if "?dst \<le> i" "i < ?dst + unat (dma_len s)" for i
    proof -
      have "?src + (i - ?dst) < length (dma_mem s)"
        "?src + (i - ?dst) < ?dst + unat off \<or> ?dst + unat off + 64 \<le> ?src + (i - ?dst)"
        using 1(2,4) that gt unfolding dma_ready_def by linarith+
      with s1(5) show ?thesis by auto
    qed
    have "dma_mem s2 ! i = (if ?dst + unat off \<le> i \<and> i < ?dst + unat off + unat n
        then dma_mem s ! (?src + (i - ?dst)) else dma_mem s ! i)" if i: "i < length (dma_mem s)" for i
    proof (cases "?dst + unat (off + 64) \<le> i \<and> i < ?dst + unat (off + 64) + unat (n - 64)")
      case True
      then have "dma_mem s2 ! i = dma_mem s1 ! (?src + (i - ?dst))" using s2(5) s1(4) i by simp
      also have "\<dots> = dma_mem s ! (?src + (i - ?dst))" using True o64 n64 gt 1(4) by (intro apart) linarith+
      finally show ?thesis using True o64 n64 gt by auto
    next
      case False
      then have "dma_mem s2 ! i = dma_mem s1 ! i" using s2(5) s1(4) i by auto
      with s1(5) i False o64 n64 gt show ?thesis by auto
    qed
    moreover have "seqs (map (\<lambda>(off, k). copy_block memory_transport off k) (memcpy_blocks off n)) s = (Ok (), s2)"
      unfolding memcpy_blocks.simps [of off n] using True s1(1) s2(1) by (simp add: seqM_apply)
    ultimately show ?thesis using s1(3,4) s2(2-4) by auto
  next
    case False
    then have "unat n \<le> 64" by (simp add: word_less_nat_alt not_less)
    from copy_block_memory [OF 1(2,3) this 1(4)] obtain s' where s': "copy_block memory_transport off n s = (Ok (), s')"
        "dma_ready s'" "dma_regs s' = dma_regs s" "length (dma_mem s') = length (dma_mem s)"
        "\<forall>i < length (dma_mem s). dma_mem s' ! i = (if ?dst + unat off \<le> i \<and> i < ?dst + unat off + unat n
           then dma_mem s ! (?src + (i - ?dst)) else dma_mem s ! i)"
      by blast
    with False show ?thesis unfolding memcpy_blocks.simps [of off n] by auto
  qed
qed


definition dma_example :: "SimpleMemory SimpleDMA" where
  "dma_example = (SimpleDMA_init 4 0 \<lparr>mem_data = replicate 100 7 @ replicate 100 0, mem_size = 200, mem_read_only = False\<rparr>)
     \<lparr>dma_len := 100, dma_dst := 100, dma_op := 1\<rparr>"


section \<open>The two sensors\<close>

lemma clamp_small: "addr \<le> (63 :: u64) \<Longrightarrow> addr - addr mod 4 \<noteq> 0x80 \<and> addr - addr mod 4 \<noteq> 0x84"
proof -
  assume a: "addr \<le> 63"
  have "addr mod 4 \<le> addr" by (simp add: word_le_nat_alt unat_mod)
  then have "unat (addr - addr mod 4) \<le> unat addr" by (simp add: unat_sub)
  with a have "unat (addr - addr mod 4) \<le> 63" by (simp add: word_le_nat_alt)
  then show ?thesis by auto
qed

lemma sensor2_data_frame:
  assumes "address tr \<le> 63"
  shows "sensor2_transport stray tr delay = bindM (address_try_handle
      \<lparr>map_start = 0, map_end = 64, map_mode = read_only, map_handler = data_frame_access_callback\<rparr> tr delay)
    (\<lambda>x. case x of Some y \<Rightarrow> ret y | None \<Rightarrow> failM RuntimeError)"
  using clamp_small [OF assms]
  by (simp add: sensor2_transport_def sensor2_router_def register_try_handle_def try_handle_def reg_at_def
      add_start_size_mapping_def Let_def cong: option.case_cong)

text \<open>
  The sensor on the router has the registers and the data frame of the plain one: whatever access
  \<open>SimpleSensor\<close> performs, \<open>SimpleSensor2\<close> performs with the same result and the same effect.
\<close>

theorem sensor2_transport_agrees:
  assumes "sensor_transport tr delay s = (Ok r, s')" and "length (data_frame s) = 64"
  shows "sensor2_transport stray tr delay s = (Ok r, s')"
proof (cases "address tr \<le> 63")
  case True
  then have lt: "address tr < 64" by (simp add: word_less_nat_alt word_le_nat_alt)
  show ?thesis
    using assms lt unfolding sensor2_data_frame [OF True]
    by (auto simp: sensor_transport_def True address_try_handle_def data_frame_access_callback_def execute_memory_access_def
        mode_allows_def read_only_def seqM_def bindM_def assertM_def Let_def split: if_splits option.splits)
next
  case False
  have ov: "overlay 0 (data_ptr tr) w = bytes_word (data_ptr tr)" if "length (data_ptr tr) = 4" for w
    using that by (rule overlay_all)
  from False assms(1) have l: "length (data_ptr tr) = 4" "address tr = 0x80 \<or> address tr = 0x84" "command tr \<noteq> TLM_IGNORE_COMMAND"
    by (auto simp: sensor_transport_def seqM_def bindM_def assertM_def Let_def split: if_splits)
  have m: "(0x80 :: u64) mod 4 = 0" "(0x84 :: u64) mod 4 = 0" by code_simp+
  have t4: "take 4 (word_bytes v) = word_bytes v" "take 4 (data_ptr tr @ stray) = data_ptr tr" for v
    using l(1) by simp_all
  note defs = sensor_transport_def sensor2_transport_def sensor2_router_def try_handle_def register_try_handle_def reg_at_def
    sensor2_register_access_callback_def access_fn_def bus_read_def bus_write_def sensor2_registers_def read_write_def
    mode_allows_def seqM_def bindM_def assertM_def Let_def
  from l(2) show ?thesis
  proof
    assume "address tr = 0x80"
    with assms(1) l(1,3) show ?thesis
      by (cases "command tr") (simp_all add: defs and_all_ones m t4 ov split: if_splits, auto)
  next
    assume "address tr = 0x84"
    with assms(1) l(1,3) show ?thesis
      by (cases "command tr") (simp_all add: defs and_all_ones m t4 ov, auto)
  qed
qed


theorem sensor2_transport_agrees_witness:
  "\<exists>r s'. sensor_transport \<lparr>command = TLM_WRITE_COMMAND, address = 0x80, data_ptr = [50, 0, 0, 0],
       response_status = TLM_OK_RESPONSE\<rparr> 0 (SimpleSensor_init () 2 0 ()) = (Ok r, s') \<and> scaler s' = 50 \<and>
     sensor2_transport [] \<lparr>command = TLM_WRITE_COMMAND, address = 0x80, data_ptr = [50, 0, 0, 0],
       response_status = TLM_OK_RESPONSE\<rparr> 0 (SimpleSensor_init () 2 0 ()) = (Ok r, s')"
proof -
  let ?tr = "\<lparr>command = TLM_WRITE_COMMAND, address = 0x80, data_ptr = [50, 0, 0, 0], response_status = TLM_OK_RESPONSE\<rparr>"
  have v: "bytes_word [50, 0, 0, 0] = 50" by code_simp
  obtain r s' where rs: "sensor_transport ?tr 0 (SimpleSensor_init () 2 0 ()) = (Ok r, s')" "scaler s' = 50"
    by (simp add: sensor_transport_def v seqM_def bindM_def assertM_def sensor_notify_def sensor_cancel_def Let_def)
  with sensor2_transport_agrees [OF rs(1), of "[]"] show ?thesis
    by (simp add: SimpleSensor_init_def)
qed

end
