(* ===== verification/Uart.thy ===== *)
theory Uart
  imports TlmMap IrqIf
begin

text \<open>
  The serial ports: \<open>platform/common/abstract_uart.cpp\<close> (registers, FIFOs and the two host threads),
  \<open>uart.cpp\<close> (the terminal with its escape key) and \<open>slip.cpp\<close> (IP packets over the serial line). The
  threads share the FIFOs with the simulation; their interleaving is a step relation.
\<close>

unbundle bit_operations_syntax

section \<open>The register side\<close>

datatype uart_reg = TXDATA | RXDATA | TXCTRL | RXCTRL | IE | IP | DIV

record AbstractUART =
  uart_irq :: nat
  txdata :: u32
  rxdata :: u32
  txctrl :: u32
  rxctrl :: u32
  uart_ie :: u32
  uart_ip :: u32
  uart_div :: u32
  tx_fifo :: "u8 list"
  rx_fifo :: "u8 list"
  txfull :: nat
  rxempty :: nat
  asyncEvent :: bool

definition UART_FIFO_DEPTH :: nat where "UART_FIFO_DEPTH = 8"

definition UART_TXWM :: u32 where "UART_TXWM = 1"

definition UART_RXWM :: u32 where "UART_RXWM = 2"

definition UART_FULL :: u32 where "UART_FULL = 0x80000000"

definition UART_CTRL_CNT :: "u32 \<Rightarrow> u32" where
  "UART_CTRL_CNT reg = drop_bit 16 reg"

definition AbstractUART_init :: "nat \<Rightarrow> AbstractUART" where
  "AbstractUART_init irqsrc =
     \<lparr>uart_irq = irqsrc, txdata = 0, rxdata = 0, txctrl = 0, rxctrl = 0, uart_ie = 0, uart_ip = 0, uart_div = 0,
      tx_fifo = [], rx_fifo = [], txfull = 0, rxempty = UART_FIFO_DEPTH, asyncEvent = False\<rparr>"

definition uart_registers :: "(uart_reg, AbstractUART) registers" where
  "uart_registers =
     \<lparr>load_reg = (\<lambda>r s. case r of TXDATA \<Rightarrow> txdata s | RXDATA \<Rightarrow> rxdata s | TXCTRL \<Rightarrow> txctrl s | RXCTRL \<Rightarrow> rxctrl s
        | IE \<Rightarrow> uart_ie s | IP \<Rightarrow> uart_ip s | DIV \<Rightarrow> uart_div s),
      store_reg = (\<lambda>r v s. case r of TXDATA \<Rightarrow> s\<lparr>txdata := v\<rparr> | RXDATA \<Rightarrow> s\<lparr>rxdata := v\<rparr> | TXCTRL \<Rightarrow> s\<lparr>txctrl := v\<rparr>
        | RXCTRL \<Rightarrow> s\<lparr>rxctrl := v\<rparr> | IE \<Rightarrow> s\<lparr>uart_ie := v\<rparr> | IP \<Rightarrow> s\<lparr>uart_ip := v\<rparr> | DIV \<Rightarrow> s\<lparr>uart_div := v\<rparr>)\<rparr>"

interpretation uart_file: register_file uart_registers
  by unfold_locales (auto simp: uart_registers_def split: uart_reg.split)

text \<open>The watermark conditions of \<open>ip\<close> and of \<open>interrupt\<close>.\<close>

definition tx_below :: "AbstractUART \<Rightarrow> bool" where
  "tx_below s \<longleftrightarrow> length (tx_fifo s) < unat (UART_CTRL_CNT (txctrl s))"

definition rx_above :: "AbstractUART \<Rightarrow> bool" where
  "rx_above s \<longleftrightarrow> length (rx_fifo s) > unat (UART_CTRL_CNT (rxctrl s))"

text \<open>The parts of the callback that touch the FIFOs and the semaphores.\<close>

definition rx_pop :: "AbstractUART \<Rightarrow> AbstractUART" where
  "rx_pop s = s\<lparr>rxdata := ucast (hd (rx_fifo s)), rx_fifo := tl (rx_fifo s)\<rparr>"

definition rx_post :: "AbstractUART \<Rightarrow> AbstractUART" where
  "rx_post s = s\<lparr>rxempty := rxempty s + 1\<rparr>"

definition tx_push :: "u8 \<Rightarrow> AbstractUART \<Rightarrow> AbstractUART" where
  "tx_push d s = s\<lparr>tx_fifo := tx_fifo s @ [d]\<rparr>"

definition tx_post :: "AbstractUART \<Rightarrow> AbstractUART" where
  "tx_post s = s\<lparr>txfull := txfull s + 1\<rparr>"

definition async_notify :: "AbstractUART \<Rightarrow> AbstractUART" where
  "async_notify s = s\<lparr>asyncEvent := True\<rparr>"

definition uart_before_read :: "uart_reg \<Rightarrow> AbstractUART \<Rightarrow> AbstractUART" where
  "uart_before_read vptr s = (case vptr of
     TXDATA \<Rightarrow> s\<lparr>txdata := (if length (tx_fifo s) \<ge> UART_FIFO_DEPTH then UART_FULL else 0)\<rparr>
   | RXDATA \<Rightarrow> (if rx_fifo s = [] then s\<lparr>rxdata := 0x80000000\<rparr> else rx_post (rx_pop s))
   | IP \<Rightarrow> s\<lparr>uart_ip := (if tx_below s then UART_TXWM else 0) OR (if rx_above s then UART_RXWM else 0)\<rparr>
   | _ \<Rightarrow> s)"

definition uart_register_access_callback :: "(uart_reg, AbstractUART) register_handler" where
  "uart_register_access_callback r =
     seqM (if acc_read r then modifyM (uart_before_read (acc_vptr r)) else ret ())
     (bindM (getsM (\<lambda>s. acc_write r \<and>
         ((acc_vptr r = TXCTRL \<and> UART_CTRL_CNT (acc_nv r) < UART_CTRL_CNT (txctrl s)) \<or>
          (acc_vptr r = RXCTRL \<and> UART_CTRL_CNT (acc_nv r) < UART_CTRL_CNT (rxctrl s))))) (\<lambda>notif.
      bindM (acc_fn r) (\<lambda>bs.
      seqM (if notif \<or> (acc_write r \<and> acc_vptr r = IE) then modifyM async_notify else ret ())
      (seqM (if acc_write r \<and> acc_vptr r = TXDATA
             then modifyM (\<lambda>s. if length (tx_fifo s) \<ge> UART_FIFO_DEPTH then s
                               else tx_post (tx_push (ucast (txdata s)) s))
             else ret ())
        (ret bs)))))"

definition uart_router :: "(uart_reg, AbstractUART) mapping_t list" where
  "uart_router = [RegisterMapping
     [reg_at 0x0 TXDATA, reg_at 0x4 RXDATA, reg_at 0x8 TXCTRL, reg_at 0xC RXCTRL, reg_at 0x10 IE, reg_at 0x14 IP,
      reg_at 0x18 DIV] uart_register_access_callback]"

definition uart_transport :: "u8 list \<Rightarrow> AbstractUART tlm_target" where
  "uart_transport stray = router_transport uart_registers stray uart_router"

text \<open>\<open>interrupt\<close>: whether it triggers the interrupt at the gateway.\<close>

definition uart_interrupt :: "AbstractUART \<Rightarrow> bool" where
  "uart_interrupt s \<longleftrightarrow> (uart_ie s AND UART_RXWM \<noteq> 0 \<and> rx_above s) \<or> (uart_ie s AND UART_TXWM \<noteq> 0 \<and> tx_below s)"

section \<open>The threads\<close>

text \<open>\<open>swait\<close> blocks while the semaphore is zero.\<close>

definition swait_rxempty :: "(AbstractUART, unit) act" where
  "swait_rxempty s = (if rxempty s = 0 then (Blocked, s) else (Ok (), s\<lparr>rxempty := rxempty s - 1\<rparr>))"

definition swait_txfull :: "(AbstractUART, unit) act" where
  "swait_txfull s = (if txfull s = 0 then (Blocked, s) else (Ok (), s\<lparr>txfull := txfull s - 1\<rparr>))"

definition rx_store :: "u8 \<Rightarrow> AbstractUART \<Rightarrow> AbstractUART" where
  "rx_store d s = async_notify (s\<lparr>rx_fifo := rx_fifo s @ [d]\<rparr>)"

definition rxpush :: "u8 \<Rightarrow> (AbstractUART, unit) act" where
  "rxpush d = seqM swait_rxempty (modifyM (rx_store d))"

text \<open>The transmit thread takes the first byte; \<open>front\<close> of an empty queue is undefined.\<close>

definition tx_take :: "(AbstractUART, u8) act" where
  "tx_take s = (case tx_fifo s of
     [] \<Rightarrow> (Fail OutOfRange, s)
   | d # ds \<Rightarrow> (Ok d, async_notify (s\<lparr>tx_fifo := ds\<rparr>)))"

definition transmit_round :: "(u8 \<Rightarrow> (AbstractUART, unit) act) \<Rightarrow> (AbstractUART, unit) act" where
  "transmit_round put_byte = seqM swait_txfull (bindM tx_take put_byte)"

subsection \<open>Interleaving\<close>

text \<open>
  The state of the program counters: the byte the receive thread holds after \<open>swait\<close>, where the
  transmit thread is, and what the register callback still has to post; with the bytes that came
  from the host, were read by software, were accepted from software and were written to the host.
\<close>

datatype tx_thread = TxWait | TxAwake | TxSend u8 | TxUndefined

record uart_sys =
  uart :: AbstractUART
  rx_hold :: "u8 option"
  tx_thread :: tx_thread
  owes_rx :: bool
  owes_tx :: bool
  received :: "u8 list"
  delivered :: "u8 list"
  accepted :: "u8 list"
  sent :: "u8 list"

definition uart_sys_init :: "nat \<Rightarrow> uart_sys" where
  "uart_sys_init irq = \<lparr>uart = AbstractUART_init irq, rx_hold = None, tx_thread = TxWait, owes_rx = False, owes_tx = False,
     received = [], delivered = [], accepted = [], sent = []\<rparr>"

definition uart_quiet :: "AbstractUART \<Rightarrow> AbstractUART \<Rightarrow> bool" where
  "uart_quiet s s' \<longleftrightarrow> tx_fifo s' = tx_fifo s \<and> rx_fifo s' = rx_fifo s \<and> txfull s' = txfull s \<and> rxempty s' = rxempty s"

inductive uart_step :: "uart_sys \<Rightarrow> uart_sys \<Rightarrow> bool" where
  receive_wait: "rx_hold c = None \<Longrightarrow> swait_rxempty (uart c) = (Ok (), u) \<Longrightarrow>
    uart_step c (c\<lparr>uart := u, rx_hold := Some d, received := received c @ [d]\<rparr>)"
| receive_store: "rx_hold c = Some d \<Longrightarrow> uart_step c (c\<lparr>uart := rx_store d (uart c), rx_hold := None\<rparr>)"
| transmit_wait: "tx_thread c = TxWait \<Longrightarrow> swait_txfull (uart c) = (Ok (), u) \<Longrightarrow>
    uart_step c (c\<lparr>uart := u, tx_thread := TxAwake\<rparr>)"
| transmit_take: "tx_thread c = TxAwake \<Longrightarrow> tx_take (uart c) = (Ok d, u) \<Longrightarrow>
    uart_step c (c\<lparr>uart := u, tx_thread := TxSend d\<rparr>)"
| transmit_undefined: "tx_thread c = TxAwake \<Longrightarrow> tx_take (uart c) = (Fail e, u) \<Longrightarrow>
    uart_step c (c\<lparr>uart := u, tx_thread := TxUndefined\<rparr>)"
| transmit_write: "tx_thread c = TxSend d \<Longrightarrow> uart_step c (c\<lparr>tx_thread := TxWait, sent := sent c @ [d]\<rparr>)"
| software_read: "\<not> owes_rx c \<Longrightarrow> \<not> owes_tx c \<Longrightarrow> rx_fifo (uart c) \<noteq> [] \<Longrightarrow>
    uart_step c (c\<lparr>uart := rx_pop (uart c), owes_rx := True, delivered := delivered c @ [hd (rx_fifo (uart c))]\<rparr>)"
| software_post_rx: "owes_rx c \<Longrightarrow> uart_step c (c\<lparr>uart := rx_post (uart c), owes_rx := False\<rparr>)"
| software_write: "\<not> owes_rx c \<Longrightarrow> \<not> owes_tx c \<Longrightarrow> length (tx_fifo (uart c)) < UART_FIFO_DEPTH \<Longrightarrow>
    uart_step c (c\<lparr>uart := tx_push d (uart c), owes_tx := True, accepted := accepted c @ [d]\<rparr>)"
| software_post_tx: "owes_tx c \<Longrightarrow> uart_step c (c\<lparr>uart := tx_post (uart c), owes_tx := False\<rparr>)"
| software_other: "uart_quiet (uart c) u \<Longrightarrow> uart_step c (c\<lparr>uart := u\<rparr>)"

inductive uart_reachable :: "nat \<Rightarrow> uart_sys \<Rightarrow> bool" for irq where
  uart_start: "uart_reachable irq (uart_sys_init irq)"
| uart_steps: "uart_reachable irq c \<Longrightarrow> uart_step c c' \<Longrightarrow> uart_reachable irq c'"

definition held :: "u8 option \<Rightarrow> u8 list" where
  "held h = (case h of None \<Rightarrow> [] | Some d \<Rightarrow> [d])"

definition sending :: "tx_thread \<Rightarrow> u8 list" where
  "sending t = (case t of TxSend d \<Rightarrow> [d] | _ \<Rightarrow> [])"

definition uart_inv :: "uart_sys \<Rightarrow> bool" where
  "uart_inv c \<longleftrightarrow> (let u = uart c in
     length (rx_fifo u) + rxempty u + length (held (rx_hold c)) + of_bool (owes_rx c) = UART_FIFO_DEPTH \<and>
     length (tx_fifo u) = txfull u + of_bool (tx_thread c = TxAwake) + of_bool (owes_tx c) \<and>
     length (tx_fifo u) \<le> UART_FIFO_DEPTH \<and> tx_thread c \<noteq> TxUndefined \<and>
     delivered c @ rx_fifo u @ held (rx_hold c) = received c \<and>
     sent c @ sending (tx_thread c) @ tx_fifo u = accepted c)"

lemmas uart_part_defs = rx_pop_def rx_post_def tx_push_def tx_post_def async_notify_def swait_rxempty_def swait_txfull_def
  rx_store_def tx_take_def uart_quiet_def held_def sending_def UART_FIFO_DEPTH_def

lemma uart_step_inv: "uart_step c c' \<Longrightarrow> uart_inv c \<Longrightarrow> uart_inv c'"
proof (induction rule: uart_step.induct)
  case (software_read c)
  then show ?case by (cases "rx_fifo (uart c)") (auto simp: uart_inv_def uart_part_defs Let_def split: option.splits)
qed (auto simp: uart_inv_def uart_part_defs Let_def split: if_splits option.splits list.splits)

lemma uart_reachable_inv: "uart_reachable irq c \<Longrightarrow> uart_inv c"
proof (induction rule: uart_reachable.induct)
  case uart_start
  then show ?case by (simp add: uart_inv_def uart_sys_init_def AbstractUART_init_def held_def sending_def Let_def)
qed (rule uart_step_inv)



end
