(* ===== verification/Slip.thy ===== *)
theory Slip
  imports Uart
begin

text \<open>
  The two clients of the serial port: \<open>platform/common/uart.cpp\<close>, the terminal, and
  \<open>platform/common/slip.cpp\<close>, which carries IP packets between the serial line and a network device
  of the host. \<open>wr\<close> is the result of the system call \<open>write\<close>.
\<close>

unbundle bit_operations_syntax

section \<open>The terminal\<close>

datatype uart_state = STATE_COMMAND | STATE_NORMAL

definition CTRL :: "u8 \<Rightarrow> u8" where "CTRL c = c AND 0x1F"

definition KEY_ESC :: u8 where "KEY_ESC = CTRL 0x61"

definition KEY_EXIT :: u8 where "KEY_EXIT = 0x78"

definition KEY_CEXIT :: u8 where "KEY_CEXIT = CTRL KEY_EXIT"

text \<open>The bytes pushed to the FIFO; \<open>None\<close> when the program exits.\<close>

definition handle_cmd :: "u8 \<Rightarrow> u8 list option" where
  "handle_cmd cmd =
     (if cmd = KEY_ESC then Some [cmd] else if cmd = KEY_EXIT \<or> cmd = KEY_CEXIT then None else Some [])"

definition uart_handle_input :: "uart_state \<Rightarrow> u8 \<Rightarrow> (u8 list \<times> uart_state) option" where
  "uart_handle_input st buf =
     map_option (\<lambda>out. (out, if buf = KEY_ESC \<and> st \<noteq> STATE_COMMAND then STATE_COMMAND else STATE_NORMAL))
       (case st of STATE_NORMAL \<Rightarrow> Some [buf] | STATE_COMMAND \<Rightarrow> handle_cmd buf)"

definition uart_write_data :: "(u8 list \<Rightarrow> int) \<Rightarrow> u8 \<Rightarrow> (u8 list, unit) act" where
  "uart_write_data wr d =
     (\<lambda>out. if wr [d] = - 1 then (Fail RuntimeError, out)
            else if wr [d] \<noteq> 1 then (Fail RuntimeError, out) else (Ok (), out @ [d]))"

section \<open>SLIP\<close>

definition SLIP_SNDBUF_STEP :: nat where "SLIP_SNDBUF_STEP = 1500"

definition SLIP_END :: u8 where "SLIP_END = 0xC0"

definition SLIP_ESC :: u8 where "SLIP_ESC = 0xDB"

definition SLIP_ESC_END :: u8 where "SLIP_ESC_END = 0xDC"

definition SLIP_ESC_ESC :: u8 where "SLIP_ESC_ESC = 0xDD"

lemmas slip_chars = SLIP_END_def SLIP_ESC_def SLIP_ESC_END_def SLIP_ESC_ESC_def

text \<open>
  \<open>sndbuf\<close> are the \<open>sndsiz\<close> bytes in use of the buffer, \<open>sndcap\<close> its allocated size, and \<open>tun\<close> the packets
  written to the device.
\<close>

record SLIP =
  sndbuf :: "u8 list"
  sndcap :: nat
  tun :: "u8 list list"

definition SLIP_init :: SLIP where
  "SLIP_init = \<lparr>sndbuf = [], sndcap = SLIP_SNDBUF_STEP, tun = []\<rparr>"

definition send_packet :: "(u8 list \<Rightarrow> int) \<Rightarrow> (SLIP, unit) act" where
  "send_packet wr s =
     (if wr (sndbuf s) = - 1 then (Fail RuntimeError, s)
      else if wr (sndbuf s) \<noteq> int (length (sndbuf s)) then (Fail RuntimeError, s\<lparr>tun := tun s @ [take (nat (wr (sndbuf s))) (sndbuf s)]\<rparr>)
      else (Ok (), s\<lparr>tun := tun s @ [sndbuf s],
             sndcap := (if length (sndbuf s) > SLIP_SNDBUF_STEP then SLIP_SNDBUF_STEP else sndcap s), sndbuf := []\<rparr>))"

text \<open>A byte stored behind the others; outside the allocated buffer it is undefined.\<close>

definition sndbuf_store :: "u8 \<Rightarrow> (SLIP, unit) act" where
  "sndbuf_store d s = (if length (sndbuf s) < sndcap s then (Ok (), s\<lparr>sndbuf := sndbuf s @ [d]\<rparr>) else (Fail OutOfRange, s))"

definition slip_write_data :: "(u8 list \<Rightarrow> int) \<Rightarrow> u8 \<Rightarrow> (SLIP, unit) act" where
  "slip_write_data wr d = (\<lambda>s.
     if d = SLIP_END then (if sndbuf s \<noteq> [] then send_packet wr s else (Ok (), s))
     else if sndbuf s \<noteq> [] \<and> last (sndbuf s) = SLIP_ESC \<and> d = SLIP_ESC_END
       then (Ok (), s\<lparr>sndbuf := butlast (sndbuf s) @ [SLIP_END]\<rparr>)
     else if sndbuf s \<noteq> [] \<and> last (sndbuf s) = SLIP_ESC \<and> d = SLIP_ESC_ESC
       then (Ok (), s\<lparr>sndbuf := butlast (sndbuf s) @ [SLIP_ESC]\<rparr>)
     else seqM (modifyM (\<lambda>s. if sndbuf s \<noteq> [] \<and> length (sndbuf s) mod SLIP_SNDBUF_STEP = 0
                             then s\<lparr>sndcap := length (sndbuf s) + SLIP_SNDBUF_STEP\<rparr> else s))
            (sndbuf_store d) s)"

text \<open>The bytes \<open>handle_input\<close> pushes for a packet it read from the device.\<close>

definition slip_escape :: "u8 \<Rightarrow> u8 list" where
  "slip_escape b = (if b = SLIP_END then [SLIP_ESC, SLIP_ESC_END]
     else if b = SLIP_ESC then [SLIP_ESC, SLIP_ESC_ESC] else [b])"

definition slip_handle_input :: "u8 list \<Rightarrow> u8 list" where
  "slip_handle_input rcvbuf = concat (map slip_escape rcvbuf) @ [SLIP_END]"

subsection \<open>Packets survive\<close>

text \<open>The buffer always has room for the next byte, since its size is a multiple of the step.\<close>

definition slip_inv :: "SLIP \<Rightarrow> bool" where
  "slip_inv s \<longleftrightarrow> length (sndbuf s) \<le> sndcap s \<and> SLIP_SNDBUF_STEP \<le> sndcap s \<and> sndcap s mod SLIP_SNDBUF_STEP = 0"

lemma slip_store_grows:
  assumes "slip_inv s"
  shows "\<exists>c. seqM (modifyM (\<lambda>s. if sndbuf s \<noteq> [] \<and> length (sndbuf s) mod SLIP_SNDBUF_STEP = 0
        then s\<lparr>sndcap := length (sndbuf s) + SLIP_SNDBUF_STEP\<rparr> else s)) (sndbuf_store d) s =
      (Ok (), s\<lparr>sndbuf := sndbuf s @ [d], sndcap := c\<rparr>) \<and> slip_inv (s\<lparr>sndbuf := sndbuf s @ [d], sndcap := c\<rparr>)"
proof -
  let ?n = "length (sndbuf s)"
  let ?c = "if sndbuf s \<noteq> [] \<and> ?n mod 1500 = 0 then ?n + 1500 else sndcap s"
  have "?n < sndcap s" if "?n mod 1500 \<noteq> 0 \<or> ?n = 0"
    using assms that by (auto simp: slip_inv_def SLIP_SNDBUF_STEP_def order.order_iff_strict)
  then have room: "?n < ?c" "1500 \<le> ?c" "?c mod 1500 = 0"
    using assms by (auto simp: slip_inv_def SLIP_SNDBUF_STEP_def)
  then show ?thesis
    by (intro exI [of _ ?c]) (auto simp: sndbuf_store_def SLIP_SNDBUF_STEP_def slip_inv_def Suc_le_eq split: if_splits)
qed

text \<open>A byte of the packet, escaped, is stored as it was, unless it looks like the end of an escape.\<close>

definition slip_plain :: "u8 list \<Rightarrow> u8 \<Rightarrow> bool" where
  "slip_plain buf b \<longleftrightarrow> \<not> (buf \<noteq> [] \<and> last buf = SLIP_ESC \<and> (b = SLIP_ESC_END \<or> b = SLIP_ESC_ESC))"

abbreviation slip_feed :: "(u8 list \<Rightarrow> int) \<Rightarrow> u8 list \<Rightarrow> (SLIP, unit) act" where
  "slip_feed wr bs \<equiv> seqs (map (slip_write_data wr) bs)"

lemma slip_write_plain:
  assumes "slip_inv s" and "b \<noteq> SLIP_END" and "slip_plain (sndbuf s) b"
  shows "\<exists>c. slip_write_data wr b s = (Ok (), s\<lparr>sndbuf := sndbuf s @ [b], sndcap := c\<rparr>) \<and>
    slip_inv (s\<lparr>sndbuf := sndbuf s @ [b], sndcap := c\<rparr>)"
  using slip_store_grows [OF assms(1), of b] assms(2,3)
  by (auto simp: slip_write_data_def slip_plain_def)

lemma slip_feed_byte:
  assumes "slip_inv s" and "slip_plain (sndbuf s) b"
  shows "\<exists>c. slip_feed wr (slip_escape b) s = (Ok (), s\<lparr>sndbuf := sndbuf s @ [b], sndcap := c\<rparr>) \<and>
    slip_inv (s\<lparr>sndbuf := sndbuf s @ [b], sndcap := c\<rparr>)"
proof (cases "b = SLIP_END \<or> b = SLIP_ESC")
  case True
  have "SLIP_ESC \<noteq> SLIP_END" "slip_plain (sndbuf s) SLIP_ESC" by (simp_all add: slip_plain_def slip_chars)
  from slip_write_plain [OF assms(1) this, of wr] obtain c where
      c: "slip_write_data wr SLIP_ESC s = (Ok (), s\<lparr>sndbuf := sndbuf s @ [SLIP_ESC], sndcap := c\<rparr>)"
        "slip_inv (s\<lparr>sndbuf := sndbuf s @ [SLIP_ESC], sndcap := c\<rparr>)"
    by blast
  have "slip_feed wr (slip_escape b) s = (Ok (), s\<lparr>sndbuf := sndbuf s @ [b], sndcap := c\<rparr>)"
    using True c(1) by (auto simp: slip_escape_def seqM_apply slip_write_data_def slip_chars)
  with c(2) show ?thesis by (auto simp: slip_inv_def)
next
  case False
  with slip_write_plain [OF assms(1) _ assms(2), of wr] show ?thesis by (simp add: slip_escape_def)
qed

primrec slip_safe :: "u8 list \<Rightarrow> u8 list \<Rightarrow> bool" where
  "slip_safe buf [] = True"
| "slip_safe buf (b # bs) = (slip_plain buf b \<and> slip_safe (buf @ [b]) bs)"

lemma seqs_append_list: "seqs (xs @ ys) = seqM (seqs xs) (seqs ys)"
proof (induction xs)
  case Nil
  show ?case by (rule ext) (simp add: seqM_def bindM_def)
next
  case (Cons x xs)
  then show ?case by (simp add: seqM_def bindM_assoc)
qed

lemma slip_feed_packet:
  assumes "slip_inv s" and "slip_safe (sndbuf s) p"
  shows "\<exists>c. slip_feed wr (concat (map slip_escape p)) s = (Ok (), s\<lparr>sndbuf := sndbuf s @ p, sndcap := c\<rparr>) \<and>
    slip_inv (s\<lparr>sndbuf := sndbuf s @ p, sndcap := c\<rparr>)"
  using assms
proof (induction p arbitrary: s)
  case Nil
  then show ?case by (intro exI [of _ "sndcap s"]) simp
next
  case (Cons b p)
  from slip_feed_byte [OF Cons.prems(1), of b wr] Cons.prems(2) obtain c where
      c: "slip_feed wr (slip_escape b) s = (Ok (), s\<lparr>sndbuf := sndbuf s @ [b], sndcap := c\<rparr>)"
        "slip_inv (s\<lparr>sndbuf := sndbuf s @ [b], sndcap := c\<rparr>)"
    by auto
  from Cons.IH [OF c(2)] Cons.prems(2) c(1) show ?case by (simp add: seqs_append_list seqM_apply)
qed

text \<open>\<open>slip_safe []\<close> in terms of the packet: no escape byte is followed by the end of an escape.\<close>

lemma slip_safe_iff:
  "slip_safe buf p \<longleftrightarrow> (\<forall>i < length p. slip_plain (buf @ take i p) (p ! i))"
proof (induction p arbitrary: buf)
  case (Cons b p)
  show ?case by (simp add: Cons.IH less_Suc_eq_0_disj all_conj_distrib) (auto simp: less_Suc_eq_0_disj)
qed simp

lemma slip_safe_pairs:
  assumes "\<forall>i. Suc i < length p \<longrightarrow> p ! i = SLIP_ESC \<longrightarrow> p ! Suc i \<noteq> SLIP_ESC_END \<and> p ! Suc i \<noteq> SLIP_ESC_ESC"
  shows "slip_safe [] p"
  unfolding slip_safe_iff
proof (intro allI impI)
  fix i
  assume i: "i < length p"
  show "slip_plain ([] @ take i p) (p ! i)"
  proof (cases i)
    case (Suc k)
    with i have "last (take i p) = p ! k" by (simp add: take_Suc_conv_app_nth)
    with assms i Suc show ?thesis by (auto simp: slip_plain_def)
  qed (simp add: slip_plain_def)
qed



text \<open>
  The condition is needed: an escape byte of the packet that was restored is taken for the start of
  another escape.
\<close>

lemma slip_escape_misread:
  "fst (slip_feed (\<lambda>p. int (length p)) (slip_handle_input [SLIP_ESC, SLIP_ESC_END]) SLIP_init) = Ok () \<and>
   tun (snd (slip_feed (\<lambda>p. int (length p)) (slip_handle_input [SLIP_ESC, SLIP_ESC_END]) SLIP_init)) = [[SLIP_END]]"
  by code_simp

end
