(* ===== verification/PeriphHifive.thy ===== *)
theory PeriphHifive
  imports TlmMap RegMap IrqIf
begin

text \<open>
  Peripherals of the HiFive and Linux platforms: \<open>hifive/prci.h\<close>, \<open>linux/prci.h\<close>, \<open>hifive/aon.h\<close>, \<open>hifive/spi.h\<close>,
  \<open>hifive/gpio.cpp\<close> with the connections of \<open>gpio/gpio-server.cpp\<close>.
\<close>

unbundle bit_operations_syntax

section \<open>Clock control\<close>

datatype prci_reg = HFROSCCFG | HFXOSCCFG | PLLCFG | PLLOUTDIV

type_synonym PRCI = "prci_reg \<Rightarrow> u32"

definition PRCI_init :: PRCI where "PRCI_init = (\<lambda>_. 0)"

definition prci_registers :: "(prci_reg, PRCI) registers" where
  "prci_registers = \<lparr>load_reg = (\<lambda>r s. s r), store_reg = (\<lambda>r v s. s(r := v))\<rparr>"

interpretation prci_file: register_file prci_registers
  by unfold_locales (auto simp: prci_registers_def)

text \<open>The oscillators and the PLL are always ready: bit 31 is set.\<close>

definition prci_register_access_callback :: "(prci_reg, PRCI) register_handler" where
  "prci_register_access_callback r =
     seqM (if acc_read r \<and> acc_vptr r = HFXOSCCFG then modifyM (\<lambda>s. s(HFXOSCCFG := 0x80000000)) else ret ())
     (bindM (acc_fn r) (\<lambda>bs.
      seqM (if acc_vptr r = HFROSCCFG \<and> acc_nv r \<noteq> 0 then modifyM (\<lambda>s. s(HFROSCCFG := s HFROSCCFG OR 0x80000000)) else ret ())
      (seqM (if acc_vptr r = PLLCFG \<and> acc_nv r \<noteq> 0 then modifyM (\<lambda>s. s(PLLCFG := s PLLCFG OR 0x80000000)) else ret ())
        (ret bs))))"

definition prci_router :: "(prci_reg, PRCI) mapping_t list" where
  "prci_router = [RegisterMapping [reg_at 0x0 HFROSCCFG, reg_at 0x4 HFXOSCCFG, reg_at 0x8 PLLCFG, reg_at 0xC PLLOUTDIV]
     prci_register_access_callback]"

definition prci_transport :: "u8 list \<Rightarrow> PRCI tlm_target" where
  "prci_transport stray = router_transport prci_registers stray prci_router"

datatype prci_linux_reg = LHFROSCCFG | CORE_PLLCFG0 | DDR_PLLCFG0 | CORE_PLLCFG1 | GEMGXL_PLLCFG0 | GEMGXL_PLLCFG1
  | CORE_CLKSEL | RESET | CLKMUX_STATUS

definition prci_linux_registers :: "(prci_linux_reg, prci_linux_reg \<Rightarrow> u32) registers" where
  "prci_linux_registers = \<lparr>load_reg = (\<lambda>r s. s r), store_reg = (\<lambda>r v s. s(r := v))\<rparr>"

interpretation prci_linux_file: register_file prci_linux_registers
  by unfold_locales (auto simp: prci_linux_registers_def)

definition prci_linux_bank :: "prci_linux_reg reg_mapping_t list" where
  "prci_linux_bank = [reg_at 0x0 LHFROSCCFG, reg_at 0x4 CORE_PLLCFG0, reg_at 0x8 DDR_PLLCFG0, reg_at 0x10 CORE_PLLCFG1,
     reg_at 0x1C GEMGXL_PLLCFG0, reg_at 0x20 GEMGXL_PLLCFG1, reg_at 0x24 CORE_CLKSEL, reg_at 0x28 RESET, reg_at 0x2C CLKMUX_STATUS]"

definition prci_linux_transport :: "u8 list \<Rightarrow> (prci_linux_reg \<Rightarrow> u32) tlm_target" where
  "prci_linux_transport stray = router_transport prci_linux_registers stray [RegisterMapping prci_linux_bank plain_handler]"

section \<open>Always-on domain\<close>

datatype aon_reg = WDOG_CFG | WDOG_CNT | WDOG_FEED | WDOG_KEY | WDOG_CMP0 | RTC_CFG | RTC_COUNT_LO | RTC_COUNT_HI | RTC_S
  | RTC_CMP0 | LFROSCCFG | PMUCAUSE | BACKUP nat

type_synonym AON = "aon_reg \<Rightarrow> u32"

definition AON_init :: AON where
  "AON_init = (\<lambda>_. 0)(PMUCAUSE := 0x100)"

definition aon_registers :: "(aon_reg, AON) registers" where
  "aon_registers = \<lparr>load_reg = (\<lambda>r s. s r), store_reg = (\<lambda>r v s. s(r := v))\<rparr>"

interpretation aon_file: register_file aon_registers
  by unfold_locales (auto simp: aon_registers_def)

definition aon_bank :: "aon_reg reg_mapping_t list" where
  "aon_bank = [reg_at 0x000 WDOG_CFG, reg_at 0x010 WDOG_CNT, reg_at 0x018 WDOG_FEED, reg_at 0x01C WDOG_KEY, reg_at 0x020 WDOG_CMP0,
     reg_at 0x040 RTC_CFG, reg_at 0x048 RTC_COUNT_LO, reg_at 0x04C RTC_COUNT_HI, reg_at 0x050 RTC_S, reg_at 0x060 RTC_CMP0,
     reg_at 0x70 LFROSCCFG, reg_at 0x144 PMUCAUSE] @ map (\<lambda>i. reg_at (0x80 + 4 * of_nat i) (BACKUP i)) [0..<32]"

definition aon_transport :: "u8 list \<Rightarrow> AON tlm_target" where
  "aon_transport stray = router_transport aon_registers stray [RegisterMapping aon_bank plain_handler]"

section \<open>SPI\<close>

datatype spi_reg = SCKDIV | SCKMODE | CSID | CSDEF | CSMODE | DELAY0 | DELAY1 | FMT | SPI_TXDATA | SPI_RXDATA | TXMARK | RXMARK
  | FCTRL | FFMT | SPI_IE | SPI_IP

text \<open>
  A target answers each byte with a byte; \<open>answer cs\<close> is the \<open>write\<close> of the target at chip select \<open>cs\<close>, with
  its state \<open>'t\<close>, and \<open>None\<close> where no target is connected.
\<close>

record 't SPI =
  spi_regs :: "spi_reg \<Rightarrow> u32"
  rxqueue :: "u8 list"
  spi_targets :: "u32 \<Rightarrow> bool"
  spi_devices :: 't

definition queue_size :: nat where "queue_size = 16"

definition SPI_init :: "'t \<Rightarrow> 't SPI" where
  "SPI_init t = \<lparr>spi_regs = (\<lambda>_. 0)(CSDEF := 1, FCTRL := 1), rxqueue = [], spi_targets = (\<lambda>_. False), spi_devices = t\<rparr>"

definition spi_registers :: "(spi_reg, 't SPI) registers" where
  "spi_registers = \<lparr>load_reg = (\<lambda>r s. spi_regs s r), store_reg = (\<lambda>r v s. s\<lparr>spi_regs := (spi_regs s)(r := v)\<rparr>)\<rparr>"

interpretation spi_file: register_file spi_registers
  by unfold_locales (auto simp: spi_registers_def)

definition spi_connect :: "u32 \<Rightarrow> 't SPI \<Rightarrow> 't SPI" where
  "spi_connect cs s = (if cs = 1 \<or> cs > 3 then s else s\<lparr>spi_targets := (spi_targets s)(cs := True)\<rparr>)"

definition set_spi :: "spi_reg \<Rightarrow> u32 \<Rightarrow> 't SPI \<Rightarrow> 't SPI" where
  "set_spi r v s = s\<lparr>spi_regs := (spi_regs s)(r := v)\<rparr>"

definition spi_before_read :: "'t SPI \<Rightarrow> 't SPI" where
  "spi_before_read s =
     (if \<not> spi_targets s (spi_regs s CSID) then s
      else case rxqueue s of
        [] \<Rightarrow> set_spi SPI_RXDATA 0x80000000 s
      | b # bs \<Rightarrow> (set_spi SPI_RXDATA (ucast b) s)\<lparr>rxqueue := bs\<rparr>)"

definition spi_send :: "(u32 \<Rightarrow> u8 \<Rightarrow> 't \<Rightarrow> u8 \<times> 't) \<Rightarrow> 't SPI \<Rightarrow> 't SPI" where
  "spi_send answer s =
     (if spi_targets s (spi_regs s CSID) then
        (let (b, t) = answer (spi_regs s CSID) (ucast (spi_regs s SPI_TXDATA)) (spi_devices s);
             q = rxqueue s @ [b];
             s1 = s\<lparr>spi_devices := t, rxqueue := (if length q > queue_size then tl q else q)\<rparr>;
             s2 = (if spi_regs s TXMARK > 0 \<and> spi_regs s SPI_IE AND 1 \<noteq> 0 then set_spi SPI_IP (spi_regs s SPI_IP OR 1) s1 else s1)
         in set_spi SPI_TXDATA 0 s2)
      else set_spi SPI_TXDATA 0 s)"

definition spi_register_access_callback :: "(u32 \<Rightarrow> u8 \<Rightarrow> 't \<Rightarrow> u8 \<times> 't) \<Rightarrow> (spi_reg, 't SPI) register_handler" where
  "spi_register_access_callback answer r =
     seqM (if acc_read r \<and> acc_vptr r = SPI_RXDATA then modifyM spi_before_read else ret ())
     (bindM (acc_fn r) (\<lambda>bs.
      seqM (if acc_write r \<and> acc_vptr r = SPI_TXDATA then modifyM (spi_send answer) else ret ()) (ret bs)))"

definition spi_bank :: "spi_reg reg_mapping_t list" where
  "spi_bank = [reg_at 0x00 SCKDIV, reg_at 0x04 SCKMODE, reg_at 0x10 CSID, reg_at 0x14 CSDEF, reg_at 0x18 CSMODE, reg_at 0x28 DELAY0,
     reg_at 0x2C DELAY1, reg_at 0x40 FMT, reg_at 0x48 SPI_TXDATA, reg_at 0x4C SPI_RXDATA, reg_at 0x50 TXMARK, reg_at 0x54 RXMARK,
     reg_at 0x60 FCTRL, reg_at 0x64 FFMT, reg_at 0x70 SPI_IE, reg_at 0x74 SPI_IP]"

definition spi_transport :: "(u32 \<Rightarrow> u8 \<Rightarrow> 't \<Rightarrow> u8 \<times> 't) \<Rightarrow> u8 list \<Rightarrow> 't SPI tlm_target" where
  "spi_transport answer stray =
     router_transport spi_registers stray [RegisterMapping spi_bank (spi_register_access_callback answer)]"

section \<open>GPIO\<close>

datatype gpio_reg = PIN_VALUE | INPUT_EN | OUTPUT_EN | PORT | PULLUP_EN | PIN_DRIVE | RISE_EN | RISE_PEND | FALL_EN | FALL_PEND
  | HIGH_EN | HIGH_PEND | LOW_EN | LOW_PEND | IOF_EN | IOF_SEL | OUT_XOR

text \<open>\<open>server_state\<close> are the pins as the clients of the GPIO server see them, written by the server thread too.\<close>

record 'p GPIO =
  gpio_regs :: "gpio_reg \<Rightarrow> u32"
  server_state :: u64
  gpio_event :: bool
  int_gpio_base :: nat
  gpio_plic :: 'p

definition GPIO_init :: "nat \<Rightarrow> 'p \<Rightarrow> 'p GPIO" where
  "GPIO_init base plic =
     \<lparr>gpio_regs = (\<lambda>_. 0)(RISE_PEND := 0xFFFFFFFF, FALL_PEND := 0xFFFFFFFF, HIGH_PEND := 0xFFFFFFFF, LOW_PEND := 0xFFFFFFFF),
      server_state = 0, gpio_event = False, int_gpio_base = base, gpio_plic = plic\<rparr>"

definition gpio_registers :: "(gpio_reg, 'p GPIO) registers" where
  "gpio_registers = \<lparr>load_reg = (\<lambda>r s. gpio_regs s r), store_reg = (\<lambda>r v s. s\<lparr>gpio_regs := (gpio_regs s)(r := v)\<rparr>)\<rparr>"

interpretation gpio_file: register_file gpio_registers
  by unfold_locales (auto simp: gpio_registers_def)

definition set_gpio :: "gpio_reg \<Rightarrow> u32 \<Rightarrow> 'p GPIO \<Rightarrow> 'p GPIO" where
  "set_gpio r v s = s\<lparr>gpio_regs := (gpio_regs s)(r := v)\<rparr>"

text \<open>After a write to \<open>port\<close>: the complement of \<open>output_en\<close> is taken in 32 bits.\<close>

definition gpio_port_written :: "'p GPIO \<Rightarrow> 'p GPIO" where
  "gpio_port_written s =
     (let oe = gpio_regs s OUTPUT_EN; p = gpio_regs s PORT in
      (set_gpio PIN_VALUE ((gpio_regs s PIN_VALUE AND NOT oe) OR (p AND oe)) s)
        \<lparr>server_state := (server_state s AND ucast (NOT oe)) OR ucast (p AND oe)\<rparr>)"

definition gpio_pullup_written :: "u32 \<Rightarrow> 'p GPIO \<Rightarrow> 'p GPIO" where
  "gpio_pullup_written reg_bak s =
     (let x = reg_bak XOR gpio_regs s PULLUP_EN in
      (set_gpio PIN_VALUE (gpio_regs s PIN_VALUE OR x) s)\<lparr>server_state := server_state s OR ucast x\<rparr>)"

definition gpio_register_access_callback :: "(gpio_reg, 'p GPIO) register_handler" where
  "gpio_register_access_callback r =
     (if acc_write r \<and> acc_vptr r = PIN_VALUE then ret (acc_data r)
      else bindM (getsM (\<lambda>s. if acc_write r \<and> acc_vptr r = PULLUP_EN then gpio_regs s PULLUP_EN else 0)) (\<lambda>reg_bak.
        bindM (acc_fn r) (\<lambda>bs.
        seqM (if acc_write r \<and> acc_vptr r = PORT then modifyM gpio_port_written
              else if acc_write r \<and> acc_vptr r = PULLUP_EN then modifyM (gpio_pullup_written reg_bak) else ret ())
          (ret bs))))"

definition gpio_bank :: "gpio_reg reg_mapping_t list" where
  "gpio_bank = [reg_at 0x000 PIN_VALUE, reg_at 0x004 INPUT_EN, reg_at 0x008 OUTPUT_EN, reg_at 0x00C PORT, reg_at 0x010 PULLUP_EN,
     reg_at 0x014 PIN_DRIVE, reg_at 0x018 RISE_EN, reg_at 0x01C RISE_PEND, reg_at 0x020 FALL_EN, reg_at 0x024 FALL_PEND,
     reg_at 0x028 HIGH_EN, reg_at 0x02C HIGH_PEND, reg_at 0x030 LOW_EN, reg_at 0x034 LOW_PEND, reg_at 0x038 IOF_EN,
     reg_at 0x03C IOF_SEL, reg_at 0x040 OUT_XOR]"

definition gpio_transport :: "u8 list \<Rightarrow> 'p GPIO tlm_target" where
  "gpio_transport stray = router_transport gpio_registers stray [RegisterMapping gpio_bank gpio_register_access_callback]"

definition gpio_asyncOnchange :: "nat \<Rightarrow> u8 \<Rightarrow> 'p GPIO \<Rightarrow> 'p GPIO" where
  "gpio_asyncOnchange n val s =
     (if bit (server_state s) n = (val = 1) \<and> (val = 0 \<or> val = 1) then s
      else if val = 0 then s\<lparr>server_state := server_state s AND NOT (push_bit n 1), gpio_event := True\<rparr>
      else if val = 1 then s\<lparr>server_state := server_state s OR push_bit n 1, gpio_event := True\<rparr>
      else s)"

text \<open>The interrupt of one pin that changed; a pending bit is inverted and cleared when the interrupt fires.\<close>

definition gpio_pin_interrupt ::
    "(nat \<Rightarrow> ('p, unit) act) \<Rightarrow> gpio_reg \<Rightarrow> gpio_reg \<Rightarrow> nat \<Rightarrow> ('p GPIO, unit) act" where
  "gpio_pin_interrupt gateway en pend i =
     bindM (getsM (\<lambda>s. bit (gpio_regs s en) i \<and> bit (gpio_regs s pend) i)) (\<lambda>fire.
       if fire then
         seqM (modifyM (\<lambda>s. set_gpio pend (gpio_regs s pend AND NOT (push_bit i 1)) s))
           (bindM (getsM int_gpio_base) (\<lambda>base. zoomM gpio_plic (\<lambda>p s. s\<lparr>gpio_plic := p\<rparr>) (gateway (base + i))))
       else ret ())"

definition gpio_pin_change :: "(nat \<Rightarrow> ('p, unit) act) \<Rightarrow> u32 \<Rightarrow> u64 \<Rightarrow> nat \<Rightarrow> ('p GPIO, unit) act" where
  "gpio_pin_change gateway diff snapshot i =
     (if bit diff i then
        if bit snapshot i then gpio_pin_interrupt gateway RISE_EN RISE_PEND i
        else gpio_pin_interrupt gateway FALL_EN FALL_PEND i
      else ret ())"

text \<open>
  One pass of \<open>synchronousChange\<close> for a snapshot of the server's pins; it says whether a pin had
  changed. The server thread may change the pins during a pass: \<open>later\<close> are the values it leaves
  after each pass, and the pass is repeated when the snapshot is out of date.
\<close>

definition gpio_pass :: "(nat \<Rightarrow> ('p, unit) act) \<Rightarrow> u64 \<Rightarrow> ('p GPIO, bool) act" where
  "gpio_pass gateway snapshot =
     bindM (getsM (\<lambda>s. (ucast snapshot XOR gpio_regs s PIN_VALUE) AND gpio_regs s INPUT_EN)) (\<lambda>diff.
       if diff = 0 then ret False
       else seqM (seqs (map (gpio_pin_change gateway diff snapshot) [0..<32]))
              (seqM (modifyM (\<lambda>s. set_gpio PIN_VALUE
                 ((ucast snapshot AND gpio_regs s INPUT_EN) OR (gpio_regs s PORT AND gpio_regs s OUTPUT_EN)) s))
                 (ret True)))"

primrec gpio_synchronousChange :: "(nat \<Rightarrow> ('p, unit) act) \<Rightarrow> u64 list \<Rightarrow> ('p GPIO, unit) act" where
  "gpio_synchronousChange gateway [] =
     bindM (getsM server_state) (\<lambda>snapshot. bindM (gpio_pass gateway snapshot) (\<lambda>_. ret ()))"
| "gpio_synchronousChange gateway (st # later) =
     bindM (getsM server_state) (\<lambda>snapshot.
     bindM (gpio_pass gateway snapshot) (\<lambda>changed.
       seqM (modifyM (\<lambda>s. s\<lparr>server_state := st\<rparr>))
         (if changed \<and> snapshot \<noteq> st then gpio_synchronousChange gateway later else ret ())))"

text \<open>
  A request of a client of the GPIO server (\<open>gpio-server.cpp\<close>): the position is a field of six bits and the value one
  of two, the rest of the switch is an operation that the server does not know. The result is the
  answer and whether the connection is kept.
\<close>

record Request =
  req_op :: u8
  req_pos :: "6 word"
  req_val :: "2 word"

definition gpio_handle_request :: "Request \<Rightarrow> 'p GPIO \<Rightarrow> (u64 option \<times> bool) \<times> 'p GPIO" where
  "gpio_handle_request req s =
     (if req_op req = 1 then ((Some (server_state s), True), s)
      else if req_op req = 2 then
        if req_val req > 2 then ((None, False), s)
        else ((None, True), gpio_asyncOnchange (unat (req_pos req)) (ucast (req_val req)) s)
      else ((None, False), s))"

primrec gpio_handleConnection :: "Request list \<Rightarrow> 'p GPIO \<Rightarrow> u64 list \<times> 'p GPIO" where
  "gpio_handleConnection [] s = ([], s)"
| "gpio_handleConnection (req # reqs) s =
     (let ((answer, keep), s') = gpio_handle_request req s;
          (answers, s'') = gpio_handleConnection reqs s' in
      if keep then ((case answer of None \<Rightarrow> [] | Some a \<Rightarrow> [a]) @ answers, s'') else ([], s'))"

end
