(* ===== verification/PeriphSmall.thy ===== *)
theory PeriphSmall
  imports RegMap TlmMap IrqIf
begin

text \<open>
  Small devices: the mask ROM of the HiFive platform (\<open>hifive/maskROM.h\<close>), the serial port of the
  Linux platforms (\<open>common/uart16550.h\<close>), the terminal (\<open>basic/terminal.h\<close>), the random source
  (\<open>basic/random_source.h\<close>) and the persistent memory (\<open>basic/mram.h\<close>).
\<close>

unbundle bit_operations_syntax

section \<open>Mask ROM\<close>

definition configString :: "u8 list" where
  \<open>configString = map of_char
     (''/cs-v1/;'' @ ''/{'' @ ''model = "SiFive,FE310G-0000-Z0";'' @ ''compatible = "sifive,fe300";'' @
      ''/include/ 0x20004;'' @ ''};'')\<close>

definition rom_baseAddr :: u32 where "rom_baseAddr = 0x1000"

definition configStringOffs :: u32 where "configStringOffs = 0x3b0"

text \<open>
  The sums are of 32-bit integers. The bytes copied when the string ends within the access are
  counted by the overrun, so that they may reach the terminating zero and what the host has behind
  it, \<open>stray\<close>; of the four bytes of the string's address the payload keeps as many as it has.
\<close>

definition maskrom_transport :: "u8 list \<Rightarrow> unit tlm_target" where
  "maskrom_transport stray tr delay =
     (let addr = ucast (address tr) :: u32; len = length (data_ptr tr); n = length configString;
          answer = (\<lambda>bs d. ret (tr\<lparr>data_ptr := bs\<rparr>, d)) in
      if command tr \<noteq> TLM_READ_COMMAND then failM RuntimeError
      else if addr < 0xC then answer (replicate len 0) delay
      else if unat (addr + of_nat len) \<le> 0x10
      then answer (take len (word_bytes (rom_baseAddr + configStringOffs)) @ drop 4 (data_ptr tr)) (delay + len * 5000)
      else if addr < configStringOffs then failM AssertionFailed
      else if unat addr < unat configStringOffs + n then
        (let offs = addr - configStringOffs;
             cut = unat (of_nat (if unat (offs + of_nat len) \<le> n then len else unat (offs + of_nat len) - n) :: u8) in
         answer (take cut (drop (unat offs) (configString @ [0] @ stray)) @ replicate (len - cut) 0) delay)
      else answer (replicate len 0) (delay + len * 5000))"

section \<open>UART 16550\<close>

text \<open>
  What a call of \<open>read(0, \&c, 1)\<close> on the non-blocking standard input gives: a character, nothing yet, or the
  end of the input, when \<open>c\<close> keeps the value it happens to have.
\<close>

datatype host_read = GotChar u8 | WouldBlock | EndOfInput u8

record UART16550 =
  mm_regs :: RegisterRange
  rx_fifo16550 :: "u8 list"
  initialized16550 :: bool
  stdin16550 :: "host_read list"
  stdout16550 :: "u8 list"

definition UART16550_init :: "host_read list \<Rightarrow> UART16550" where
  "UART16550_init input =
     \<lparr>mm_regs = RegisterRange_init 0 8, rx_fifo16550 = [], initialized16550 = False, stdin16550 = input, stdout16550 = []\<rparr>"

definition try_receive_char :: "UART16550 \<Rightarrow> UART16550" where
  "try_receive_char s =
     (if rx_fifo16550 s = [] then
        (case stdin16550 s of
           [] \<Rightarrow> s
         | GotChar c # rest \<Rightarrow> s\<lparr>rx_fifo16550 := rx_fifo16550 s @ [c], stdin16550 := rest\<rparr>
         | EndOfInput c # rest \<Rightarrow> s\<lparr>rx_fifo16550 := rx_fifo16550 s @ [c], stdin16550 := rest\<rparr>
         | WouldBlock # rest \<Rightarrow> s\<lparr>stdin16550 := rest\<rparr>)
      else s)"

definition take_next_char :: "UART16550 \<Rightarrow> u8 \<times> UART16550" where
  "take_next_char s =
     (let s1 = try_receive_char s in
      case rx_fifo16550 s1 of [] \<Rightarrow> (0xFF, s1) | c # cs \<Rightarrow> (c, s1\<lparr>rx_fifo16550 := cs\<rparr>))"

definition set_reg16550 :: "nat \<Rightarrow> u8 \<Rightarrow> UART16550 \<Rightarrow> UART16550" where
  "set_reg16550 i v = mm_regs_update (set_elem 1 i (ucast v))"

definition pre_read_regs :: "access_info \<Rightarrow> (UART16550, bool) act" where
  "pre_read_regs t =
     (if info_addr t = 5 then
        seqM (modifyM (\<lambda>s. let s1 = try_receive_char (set_reg16550 5 0x20 s) in
                 if rx_fifo16550 s1 \<noteq> [] then set_reg16550 5 0x21 s1 else s1)) (ret True)
      else if info_addr t = 0 then
        seqM (modifyM (\<lambda>s. case take_next_char s of (c, s1) \<Rightarrow> set_reg16550 0 c s1)) (ret True)
      else ret True)"

text \<open>The very first character is dropped if it is zero.\<close>

definition post_write_regs :: "access_info \<Rightarrow> (UART16550, unit) act" where
  "post_write_regs t =
     (if info_addr t = 0 then
        (case data_ptr (info_trans t) of
           [] \<Rightarrow> failM OutOfRange
         | d # _ \<Rightarrow> modifyM (\<lambda>s.
             if \<not> initialized16550 s \<and> d = 0 then s\<lparr>initialized16550 := True\<rparr>
             else s\<lparr>initialized16550 := True, stdout16550 := stdout16550 s @ [d]\<rparr>))
      else ret ())"

definition range_regs16550 :: "UART16550 mapped_range" where
  "range_regs16550 = \<lparr>the_range = mm_regs, upd_range = mm_regs_update, pre_write_callback = None,
     post_write_callback = Some post_write_regs, pre_read_callback = Some pre_read_regs, post_read_callback = None\<rparr>"

definition uart16550_transport :: "UART16550 tlm_target" where
  "uart16550_transport = mm_route [range_regs16550]"

section \<open>Terminal and random source\<close>

definition terminal_transport :: "u8 list tlm_target" where
  "terminal_transport tr delay =
     seqM (assertM (\<lambda>_. command tr = TLM_WRITE_COMMAND))
     (seqM (assertM (\<lambda>_. length (data_ptr tr) = 1))
     (seqM (modifyM (\<lambda>out. out @ [hd (data_ptr tr)])) (ret (tr, delay + 1000000))))"

text \<open>The state of the random source is the sequence of numbers that \<open>rand\<close> is going to return.\<close>

definition random_source_transport :: "(nat \<Rightarrow> u32) tlm_target" where
  "random_source_transport tr delay =
     seqM (assertM (\<lambda>_. command tr = TLM_READ_COMMAND))
     (bindM (getsM (\<lambda>rnd. map (\<lambda>i. ucast (rnd i)) [0..<length (data_ptr tr)])) (\<lambda>bs.
       seqM (modifyM (\<lambda>rnd i. rnd (i + length (data_ptr tr)))) (ret (tr\<lparr>data_ptr := bs\<rparr>, delay))))"

section \<open>Persistent memory\<close>

text \<open>
  \<open>SimpleMRAM\<close> keeps its contents in a host file of \<open>mSize\<close> bytes, here the list of its bytes.
\<close>

record SimpleMRAM =
  mSize :: u32
  mram_file :: "u8 list"

definition SimpleMRAM_init :: "u32 \<Rightarrow> u8 list \<Rightarrow> SimpleMRAM" where
  "SimpleMRAM_init sz file = \<lparr>mSize = sz, mram_file = take (unat sz) file @ replicate (unat sz - length file) 0\<rparr>"

definition mram_write_data :: "u32 \<Rightarrow> u8 list \<Rightarrow> (SimpleMRAM, unit) act" where
  "mram_write_data addr src =
     seqM (assertM (\<lambda>s. addr + of_nat (length src) \<le> mSize s))
       (modifyM (\<lambda>s. let f = mram_file s; a = unat addr in
          s\<lparr>mram_file := take a f @ src @ drop (a + length src) f\<rparr>))"

definition mram_read_data :: "u32 \<Rightarrow> u8 list \<Rightarrow> (SimpleMRAM, u8 list) act" where
  "mram_read_data addr dst =
     seqM (assertM (\<lambda>s. addr + of_nat (length dst) \<le> mSize s))
       (getsM (\<lambda>s. let bs = take (length dst) (drop (unat addr) (mram_file s)) in bs @ drop (length bs) dst))"

definition mram_transport :: "SimpleMRAM tlm_target" where
  "mram_transport tr delay =
     (let addr = ucast (address tr) :: u32; len = length (data_ptr tr) in
      seqM (assertM (\<lambda>s. addr < mSize s))
        (case command tr of
           TLM_WRITE_COMMAND \<Rightarrow> seqM (mram_write_data addr (data_ptr tr)) (ret (tr, delay + len * 30000))
         | TLM_READ_COMMAND \<Rightarrow> bindM (mram_read_data addr (data_ptr tr)) (\<lambda>bs. ret (tr\<lparr>data_ptr := bs\<rparr>, delay + len * 30000))
         | TLM_IGNORE_COMMAND \<Rightarrow> failM AssertionFailed))"

end
