(* ===== verification/Flash.thy ===== *)
theory Flash
  imports Bus
begin

text \<open>
  The flash controller (\<open>basic/flash.h\<close>): a device of blocks of 512 bytes behind a buffer of one
  block, which is written back when another block is selected or the controller is destroyed. The
  controller refines a plain array of bytes.
\<close>

section \<open>The host device\<close>

text \<open>
  The file or device behind the descriptor, a list of bytes. Seeking to a negative offset fails;
  \<open>read\<close> and \<open>write\<close> transfer at most what lies before the end.
\<close>

definition BLOCKSIZE :: nat where "BLOCKSIZE = 512"

definition seek_pos :: "u64 \<Rightarrow> nat option" where
  "seek_pos blockOffset =
     (let pos = blockOffset * of_nat BLOCKSIZE in if bit pos 63 then None else Some (unat pos))"

definition splice :: "nat \<Rightarrow> u8 list \<Rightarrow> u8 list \<Rightarrow> u8 list" where
  "splice pos src xs = take pos xs @ src @ drop (pos + length src) xs"

section \<open>The block buffer\<close>

record Blockbuffer =
  block_buf :: "u8 list"
  block_offs :: u64
  block_dirty :: bool
  block_active :: bool
  block_dev :: "u8 list"

definition Blockbuffer_init :: "u8 list \<Rightarrow> u8 list \<Rightarrow> Blockbuffer" where
  "Blockbuffer_init garbage dev =
     \<lparr>block_buf = garbage, block_offs = 0, block_dirty = False, block_active = False, block_dev = dev\<rparr>"

text \<open>A write that the device cuts short is reported and leaves the buffer dirty.\<close>

definition writeBlock :: "u64 \<Rightarrow> Blockbuffer \<Rightarrow> Blockbuffer" where
  "writeBlock blockOffset b = (case seek_pos blockOffset of
     None \<Rightarrow> b
   | Some pos \<Rightarrow>
       let n = min BLOCKSIZE (length (block_dev b) - pos);
           b1 = b\<lparr>block_dev := splice pos (take n (block_buf b)) (block_dev b)\<rparr> in
       if n \<noteq> BLOCKSIZE then b1 else b1\<lparr>block_dirty := False\<rparr>)"

definition readBlock :: "u64 \<Rightarrow> Blockbuffer \<Rightarrow> Blockbuffer" where
  "readBlock blockOffset b = (case seek_pos blockOffset of
     None \<Rightarrow> b
   | Some pos \<Rightarrow>
       let bs = take BLOCKSIZE (drop pos (block_dev b));
           b1 = b\<lparr>block_buf := splice 0 bs (block_buf b)\<rparr> in
       if length bs \<noteq> BLOCKSIZE then b1 else b1\<lparr>block_dirty := False\<rparr>)"

definition setPos :: "u64 \<Rightarrow> Blockbuffer \<Rightarrow> Blockbuffer" where
  "setPos blockOffset b =
     (if blockOffset \<noteq> block_offs b \<or> \<not> block_active b then
        let b1 = (if block_dirty b \<and> block_active b then writeBlock (block_offs b) b else b);
            b2 = readBlock blockOffset (b1\<lparr>block_offs := blockOffset\<rparr>) in
        b2\<lparr>block_active := True\<rparr>
      else b)"

definition setData :: "u8 list \<Rightarrow> nat \<Rightarrow> (Blockbuffer, unit) act" where
  "setData source pos =
     seqM (assertM block_active) (\<lambda>b. case array_write pos source (block_buf b) of
        None \<Rightarrow> (Fail OutOfRange, b)
      | Some xs \<Rightarrow> (Ok (), b\<lparr>block_buf := xs, block_dirty := True\<rparr>))"

definition getData :: "nat \<Rightarrow> nat \<Rightarrow> (Blockbuffer, u8 list) act" where
  "getData pos len =
     seqM (assertM block_active) (\<lambda>b. case array_read pos len (block_buf b) of
        None \<Rightarrow> (Fail OutOfRange, b)
      | Some bs \<Rightarrow> (Ok bs, b))"

definition clear_buffer :: "Blockbuffer \<Rightarrow> Blockbuffer" where
  "clear_buffer b =
     (let b1 = (if block_active b \<and> block_dirty b then writeBlock (block_offs b) b else b)
      in b1\<lparr>block_active := False\<rparr>)"

section \<open>The controller\<close>

definition FLASH_ADDR_REG :: u32 where "FLASH_ADDR_REG = 0"

definition FLASH_SIZE_REG :: u32 where "FLASH_SIZE_REG = 8"

definition DATA_ADDR :: u32 where "DATA_ADDR = FLASH_SIZE_REG + 8"

text \<open>\<open>flash_open\<close> says that the file descriptor is not negative.\<close>

record Flashcontroller =
  blockBuf :: Blockbuffer
  mTargetBlock :: "u8 list"
  mDeviceNumBlocks :: "u8 list"
  flash_open :: bool

text \<open>
  The constructor for a path that can be opened. A block device answers the \<open>ioctl\<close> with its size
  in bytes, which is used as the number of blocks; the size of a file is divided.
\<close>

definition Flashcontroller_init :: "bool \<Rightarrow> u8 list \<Rightarrow> u8 list \<Rightarrow> Flashcontroller" where
  "Flashcontroller_init is_block_device garbage dev =
     (let n = length dev; blocks = (if is_block_device then n else n div BLOCKSIZE) in
      \<lparr>blockBuf = Blockbuffer_init garbage dev, mTargetBlock = to_bytes 8 0,
       mDeviceNumBlocks = to_bytes 8 (of_nat blocks), flash_open = (is_block_device \<or> 0 < n)\<rparr>)"

definition Flashcontroller_destroy :: "Flashcontroller \<Rightarrow> Flashcontroller" where
  "Flashcontroller_destroy s = s\<lparr>blockBuf := clear_buffer (blockBuf s), flash_open := False\<rparr>"

definition target_block :: "Flashcontroller \<Rightarrow> u64" where
  "target_block s = of_bytes (mTargetBlock s)"

definition num_blocks :: "Flashcontroller \<Rightarrow> u64" where
  "num_blocks s = of_bytes (mDeviceNumBlocks s)"

definition on_blockBuf :: "(Blockbuffer, 'a) act \<Rightarrow> (Flashcontroller, 'a) act" where
  "on_blockBuf m = zoomM blockBuf (\<lambda>b s. s\<lparr>blockBuf := b\<rparr>) m"

definition flash_address_register :: "Flashcontroller tlm_target" where
  "flash_address_register tr delay =
     (let off = unat (ucast (address tr) - FLASH_ADDR_REG :: u32); len = length (data_ptr tr) in
      case command tr of
        TLM_WRITE_COMMAND \<Rightarrow> (\<lambda>s. case array_write off (data_ptr tr) (mTargetBlock s) of
            None \<Rightarrow> (Fail OutOfRange, s)
          | Some xs \<Rightarrow> (Ok (tr, delay + len * 30000), s\<lparr>mTargetBlock := xs\<rparr>))
      | TLM_READ_COMMAND \<Rightarrow> (\<lambda>s. case array_read off len (mTargetBlock s) of
            None \<Rightarrow> (Fail OutOfRange, s)
          | Some bs \<Rightarrow> (Ok (tr\<lparr>data_ptr := bs\<rparr>, delay + len * 30000), s))
      | TLM_IGNORE_COMMAND \<Rightarrow> failM AssertionFailed)"

definition flash_size_register :: "Flashcontroller tlm_target" where
  "flash_size_register tr delay =
     (let off = unat (ucast (address tr) - FLASH_SIZE_REG :: u32); len = length (data_ptr tr) in
      case command tr of
        TLM_READ_COMMAND \<Rightarrow> (\<lambda>s. case array_read off len (mDeviceNumBlocks s) of
            None \<Rightarrow> (Fail OutOfRange, s)
          | Some bs \<Rightarrow> (Ok (tr\<lparr>data_ptr := bs\<rparr>, delay + len * 30000), s))
      | _ \<Rightarrow> failM AssertionFailed)"

text \<open>The length of an access to the buffer is a 16-bit integer.\<close>

definition flash_data :: "Flashcontroller tlm_target" where
  "flash_data tr delay =
     (let pos = unat (ucast (address tr) - DATA_ADDR :: u32); len = length (data_ptr tr) in
      seqM (assertM (\<lambda>s. target_block s < num_blocks s))
      (seqM (modifyM (\<lambda>s. s\<lparr>blockBuf := setPos (target_block s) (blockBuf s)\<rparr>))
        (case command tr of
           TLM_WRITE_COMMAND \<Rightarrow> 
             seqM (on_blockBuf (setData (take (len mod 65536) (data_ptr tr)) pos)) (ret (tr, delay + len * 1000000))
         | TLM_READ_COMMAND \<Rightarrow> bindM (on_blockBuf (getData pos (len mod 65536))) (\<lambda>bs.
             ret (tr\<lparr>data_ptr := bs @ drop (length bs) (data_ptr tr)\<rparr>, delay + len * 1000000))
         | TLM_IGNORE_COMMAND \<Rightarrow> failM AssertionFailed)))"

definition flash_transport :: "Flashcontroller tlm_target" where
  "flash_transport tr delay =
     (let addr = ucast (address tr) :: u32 in
      seqM (assertM (\<lambda>_. addr < DATA_ADDR + of_nat BLOCKSIZE))
      (seqM (assertM flash_open)
        (if addr < FLASH_SIZE_REG then flash_address_register tr delay
         else if addr \<ge> FLASH_SIZE_REG \<and> addr < DATA_ADDR then flash_size_register tr delay
         else flash_data tr delay)))"

section \<open>The array it stands for\<close>

text \<open>
  A disk without a buffer: the bytes of the device and the two registers. Its accesses are those of
  the controller, with the data region a window on the selected block of the array.
\<close>

record disk =
  disk_bytes :: "u8 list"
  disk_target :: "u8 list"
  disk_blocks :: "u8 list"

definition disk_block :: "disk \<Rightarrow> nat" where
  "disk_block d = unat (of_bytes (disk_target d))"

definition disk_data :: "disk tlm_target" where
  "disk_data tr delay = (\<lambda>d.
     let pos = unat (ucast (address tr) :: u32) - 16; len = length (data_ptr tr); n = len mod 65536;
         base = BLOCKSIZE * disk_block d in
     if \<not> of_bytes (disk_target d) < of_bytes (disk_blocks d) then (Fail AssertionFailed, d)
     else if command tr = TLM_IGNORE_COMMAND then (Fail AssertionFailed, d)
     else if pos + n > BLOCKSIZE then (Fail OutOfRange, d)
     else if command tr = TLM_WRITE_COMMAND
     then (Ok (tr, delay + len * 1000000), d\<lparr>disk_bytes := splice (base + pos) (take n (data_ptr tr)) (disk_bytes d)\<rparr>)
     else (Ok (tr\<lparr>data_ptr := take n (drop (base + pos) (disk_bytes d)) @ drop n (data_ptr tr)\<rparr>, delay + len * 1000000), d))"

definition disk_register :: "disk tlm_target" where
  "disk_register tr delay = (\<lambda>d.
     let addr = unat (ucast (address tr) :: u32); bs = data_ptr tr; len = length bs in
     case command tr of
       TLM_READ_COMMAND \<Rightarrow>
         (case (if addr < 8 then array_read addr len (disk_target d) else array_read (addr - 8) len (disk_blocks d)) of
            None \<Rightarrow> (Fail OutOfRange, d)
          | Some xs \<Rightarrow> (Ok (tr\<lparr>data_ptr := xs\<rparr>, delay + len * 30000), d))
     | TLM_WRITE_COMMAND \<Rightarrow>
         if addr < 8 then
           (case array_write addr bs (disk_target d) of
              None \<Rightarrow> (Fail OutOfRange, d)
            | Some xs \<Rightarrow> (Ok (tr, delay + len * 30000), d\<lparr>disk_target := xs\<rparr>))
         else (Fail AssertionFailed, d)
     | TLM_IGNORE_COMMAND \<Rightarrow> (Fail AssertionFailed, d))"

definition disk_transport :: "disk tlm_target" where
  "disk_transport tr delay =
     (let addr = unat (ucast (address tr) :: u32) in
      if addr \<ge> 16 + BLOCKSIZE then failM AssertionFailed
      else if addr < 16 then disk_register tr delay
      else disk_data tr delay)"

text \<open>What the buffer and the device stand for together.\<close>

definition block_contents :: "Blockbuffer \<Rightarrow> u8 list" where
  "block_contents b =
     (if block_active b \<and> block_dirty b then splice (BLOCKSIZE * unat (block_offs b)) (block_buf b) (block_dev b)
      else block_dev b)"

definition flash_abs :: "Flashcontroller \<Rightarrow> disk" where
  "flash_abs s = \<lparr>disk_bytes = block_contents (blockBuf s), disk_target = mTargetBlock s, disk_blocks = mDeviceNumBlocks s\<rparr>"

definition block_fits :: "u64 \<Rightarrow> u8 list \<Rightarrow> bool" where
  "block_fits k dev \<longleftrightarrow> BLOCKSIZE * unat k + BLOCKSIZE \<le> length dev"

definition buffer_ok :: "Blockbuffer \<Rightarrow> bool" where
  "buffer_ok b \<longleftrightarrow> length (block_buf b) = BLOCKSIZE \<and> length (block_dev b) < 2 ^ 63 \<and>
     (block_active b \<longrightarrow> block_fits (block_offs b) (block_dev b) \<and>
        (\<not> block_dirty b \<longrightarrow> block_buf b = take BLOCKSIZE (drop (BLOCKSIZE * unat (block_offs b)) (block_dev b))))"

definition flash_ok :: "Flashcontroller \<Rightarrow> bool" where
  "flash_ok s \<longleftrightarrow> flash_open s \<and> length (mTargetBlock s) = 8 \<and> length (mDeviceNumBlocks s) = 8 \<and>
     BLOCKSIZE * unat (num_blocks s) \<le> length (block_dev (blockBuf s)) \<and> buffer_ok (blockBuf s)"

section \<open>The buffer\<close>

lemma seek_pos_fits:
  assumes "block_fits k dev" and "length dev < 2 ^ 63"
  shows "seek_pos k = Some (BLOCKSIZE * unat k)"
proof -
  have b: "512 * unat k < 2 ^ 63" using assms by (simp add: block_fits_def BLOCKSIZE_def)
  have u: "unat (k * 512) = unat k * 512"
    using b by (simp add: unat_word_ariths)
  have "bit (k * 512) 63 \<longleftrightarrow> bit (unat (k * 512)) 63" by (simp add: bit_unsigned_iff)
  also have "\<dots> \<longleftrightarrow> odd (unat k * 512 div 2 ^ 63)" by (simp only: u bit_iff_odd)
  also have "unat k * 512 div 2 ^ 63 = 0" using b by (simp add: mult.commute)
  finally show ?thesis using u by (simp add: seek_pos_def BLOCKSIZE_def mult.commute)
qed

lemma length_splice [simp]: "pos + length src \<le> length xs \<Longrightarrow> length (splice pos src xs) = length xs"
  by (simp add: splice_def)

lemma splice_read [simp]: "pos \<le> length xs \<Longrightarrow> take (length src) (drop pos (splice pos src xs)) = src"
  by (simp add: splice_def)

lemma splice_self: "pos + n \<le> length xs \<Longrightarrow> splice pos (take n (drop pos xs)) xs = xs"
  by (simp add: splice_def) (metis add.commute append_take_drop_id drop_drop)

lemma splice_nth:
  "pos + length src \<le> length xs \<Longrightarrow> i < length xs \<Longrightarrow>
     splice pos src xs ! i = (if pos \<le> i \<and> i < pos + length src then src ! (i - pos) else xs ! i)"
  by (auto simp: splice_def nth_append)

text \<open>Overwriting part of a part.\<close>

lemma splice_within:
  assumes "p + length src \<le> length buf" and "base + length buf \<le> length xs"
  shows "splice base (splice p src buf) xs = splice (base + p) src (splice base buf xs)"
proof (rule nth_equalityI)
  show "length (splice base (splice p src buf) xs) = length (splice (base + p) src (splice base buf xs))"
    using assms by simp
  fix i
  assume "i < length (splice base (splice p src buf) xs)"
  then have i: "i < length xs" using assms by simp
  then show "splice base (splice p src buf) xs ! i = splice (base + p) src (splice base buf xs) ! i"
  proof (cases "base \<le> i \<and> i < base + length buf")
    case True
    then obtain j where "i = base + j" "j < length buf" using le_Suc_ex by fastforce
    with assms show ?thesis by (simp add: splice_nth)
  next
    case False
    with i assms show ?thesis by (auto simp: splice_nth)
  qed
qed

lemma take_drop_within:
  assumes "p + n \<le> length buf" and "base + length buf \<le> length xs"
  shows "take n (drop (base + p) (splice base buf xs)) = take n (drop p buf)"
  using assms by (simp add: splice_def)

lemma writeBlock_fits:
  assumes "block_fits k (block_dev b)" and "length (block_dev b) < 2 ^ 63" and "length (block_buf b) = BLOCKSIZE"
  shows "writeBlock k b =
    b\<lparr>block_dev := splice (BLOCKSIZE * unat k) (block_buf b) (block_dev b), block_dirty := False\<rparr>"
  using assms by (simp add: writeBlock_def seek_pos_fits [OF assms(1,2)] block_fits_def min_def)

lemma readBlock_fits:
  assumes "block_fits k (block_dev b)" and "length (block_dev b) < 2 ^ 63" and "length (block_buf b) = BLOCKSIZE"
  shows "readBlock k b =
    b\<lparr>block_buf := take BLOCKSIZE (drop (BLOCKSIZE * unat k) (block_dev b)), block_dirty := False\<rparr>"
proof -
  have "length (take BLOCKSIZE (drop (BLOCKSIZE * unat k) (block_dev b))) = BLOCKSIZE"
    using assms(1) by (simp add: block_fits_def)
  with assms(3) show ?thesis
    by (simp only: readBlock_def seek_pos_fits [OF assms(1,2)] Let_def option.case splice_def)
      (simp del: length_take length_drop)
qed

lemma block_contents_length: "buffer_ok b \<Longrightarrow> length (block_contents b) = length (block_dev b)"
  by (simp add: block_contents_def buffer_ok_def block_fits_def)

text \<open>The buffer is a window on the contents while it is active.\<close>

lemma block_contents_active:
  assumes "buffer_ok b" and "block_active b"
  shows "block_contents b = splice (BLOCKSIZE * unat (block_offs b)) (block_buf b) (block_dev b)"
  using assms by (auto simp: block_contents_def buffer_ok_def block_fits_def splice_self)

lemma setPos_effect:
  assumes ok: "buffer_ok b" and fits: "block_fits k (block_dev b)"
  shows "buffer_ok (setPos k b) \<and> block_active (setPos k b) \<and> block_offs (setPos k b) = k \<and>
    block_contents (setPos k b) = block_contents b \<and> length (block_dev (setPos k b)) = length (block_dev b)"
proof (cases "k \<noteq> block_offs b \<or> \<not> block_active b")
  case False
  with ok show ?thesis by (simp add: setPos_def)
next
  case True
  define b1 where "b1 = (if block_dirty b \<and> block_active b then writeBlock (block_offs b) b else b)"
  have dev1: "block_dev b1 = block_contents b" and len1: "length (block_buf b1) = BLOCKSIZE"
    using ok by (auto simp: b1_def buffer_ok_def writeBlock_fits block_contents_def)
  have l: "length (block_contents b) = length (block_dev b)" by (rule block_contents_length [OF ok])
  have f: "block_fits k (block_contents b)" and L: "length (block_contents b) < 2 ^ 63"
    using fits ok l by (simp_all add: block_fits_def buffer_ok_def)
  have "setPos k b = (readBlock k (b1\<lparr>block_offs := k\<rparr>))\<lparr>block_active := True\<rparr>"
    using True by (simp add: setPos_def b1_def Let_def)
  also have "readBlock k (b1\<lparr>block_offs := k\<rparr>) =
      b1\<lparr>block_offs := k, block_buf := take BLOCKSIZE (drop (BLOCKSIZE * unat k) (block_contents b)), block_dirty := False\<rparr>"
    by (subst readBlock_fits) (simp_all add: dev1 f L [simplified] len1)
  finally show ?thesis
    using dev1 l f L by (simp add: buffer_ok_def block_contents_def block_fits_def)
qed

lemma clear_buffer_effect: "buffer_ok b \<Longrightarrow> block_dev (clear_buffer b) = block_contents b"
  by (auto simp: clear_buffer_def buffer_ok_def block_contents_def writeBlock_fits)

section \<open>Refinement\<close>

text \<open>
  An access target that another one implements: from a state that satisfies the invariant every
  access has the outcome and the effect it has there. The same then holds of sequences of accesses.
\<close>

primrec accesses :: "'s tlm_target \<Rightarrow> (tlm_generic_payload \<times> nat) list \<Rightarrow> 's \<Rightarrow> (tlm_generic_payload \<times> nat) outcome list \<times> 's" where
  "accesses t [] s = ([], s)"
| "accesses t (a # as) s =
     (case t (fst a) (snd a) s of (r, s1) \<Rightarrow> case accesses t as s1 of (rs, s2) \<Rightarrow> (r # rs, s2))"

locale target_refinement =
  fixes conc :: "'c tlm_target" and abst :: "'a tlm_target" and abs :: "'c \<Rightarrow> 'a" and inv :: "'c \<Rightarrow> bool"
  assumes sim: "inv s \<Longrightarrow> abst tr delay (abs s) = map_prod id abs (conc tr delay s)"
    and keep: "inv s \<Longrightarrow> inv (snd (conc tr delay s))"
begin

lemma accesses_refine:
  "inv s \<Longrightarrow> inv (snd (accesses conc as s)) \<and> accesses abst as (abs s) = map_prod id abs (accesses conc as s)"
proof (induction as arbitrary: s)
  case (Cons a as)
  obtain r s1 where c: "conc (fst a) (snd a) s = (r, s1)" by fastforce
  then have a: "abst (fst a) (snd a) (abs s) = (r, abs s1)" and i: "inv s1"
    using sim [OF Cons.prems, of "fst a" "snd a"] keep [OF Cons.prems, of "fst a" "snd a"] by simp_all
  obtain rs s2 where "accesses conc as s1 = (rs, s2)" by fastforce
  with Cons.IH [OF i] show ?case by (simp add: c a)
qed simp

end

lemma setData_refines:
  assumes ok: "buffer_ok b" and act: "block_active b"
  shows "setData src pos b =
    (if pos + length src \<le> BLOCKSIZE then (Ok (), b\<lparr>block_buf := splice pos src (block_buf b), block_dirty := True\<rparr>)
     else (Fail OutOfRange, b))"
  using ok act by (simp add: setData_def seqM_def bindM_def assertM_def array_write_def splice_def buffer_ok_def)

lemma getData_refines:
  assumes ok: "buffer_ok b" and act: "block_active b"
  shows "getData pos n b =
    (if pos + n \<le> BLOCKSIZE
     then (Ok (take n (drop (BLOCKSIZE * unat (block_offs b) + pos) (block_contents b))), b)
     else (Fail OutOfRange, b))"
proof -
  have "length (block_buf b) = BLOCKSIZE" "BLOCKSIZE * unat (block_offs b) + BLOCKSIZE \<le> length (block_dev b)"
    using ok act by (simp_all add: buffer_ok_def block_fits_def)
  then show ?thesis
    using act by (simp add: getData_def seqM_def bindM_def assertM_def array_read_def
        block_contents_active [OF ok act] take_drop_within)
qed

lemma dirty_contents:
  assumes ok: "buffer_ok b" and act: "block_active b" and n: "pos + length src \<le> BLOCKSIZE"
  shows "buffer_ok (b\<lparr>block_buf := splice pos src (block_buf b), block_dirty := True\<rparr>) \<and>
    block_contents (b\<lparr>block_buf := splice pos src (block_buf b), block_dirty := True\<rparr>) =
      splice (BLOCKSIZE * unat (block_offs b) + pos) src (block_contents b)"
  using ok act n
  by (simp add: block_contents_active [OF ok act] splice_within buffer_ok_def block_fits_def)
    (simp add: block_contents_def splice_within)

lemma addr_regions:
  "a < FLASH_SIZE_REG \<longleftrightarrow> unat a < 8" "a < DATA_ADDR \<longleftrightarrow> unat a < 16"
  "a < DATA_ADDR + of_nat BLOCKSIZE \<longleftrightarrow> unat a < 16 + BLOCKSIZE" "FLASH_SIZE_REG \<le> a \<longleftrightarrow> 8 \<le> unat a"
  "8 \<le> unat a \<Longrightarrow> unat (a - FLASH_SIZE_REG) = unat a - 8" "16 \<le> unat a \<Longrightarrow> unat (a - DATA_ADDR) = unat a - 16"
  for a :: u32
  by (simp_all add: FLASH_SIZE_REG_def DATA_ADDR_def BLOCKSIZE_def word_less_nat_alt word_le_nat_alt unat_sub)

lemma flash_data_refines:
  assumes ok: "flash_ok s" and a: "16 \<le> unat (ucast (address tr) :: u32)"
  shows "disk_data tr delay (flash_abs s) = map_prod id flash_abs (flash_data tr delay s) \<and> flash_ok (snd (flash_data tr delay s))"
proof (cases "target_block s < num_blocks s")
  case False
  then show ?thesis
    using ok by (simp add: flash_data_def disk_data_def Let_def seqM_def bindM_def assertM_def
        target_block_def num_blocks_def flash_abs_def)
next
  case True
  define s1 where "s1 = s\<lparr>blockBuf := setPos (target_block s) (blockBuf s)\<rparr>"
  have "unat (target_block s) + 1 \<le> unat (num_blocks s)" using True by (simp add: word_less_nat_alt)
  then have "BLOCKSIZE * (unat (target_block s) + 1) \<le> BLOCKSIZE * unat (num_blocks s)" by (rule mult_le_mono2)
  then have f: "block_fits (target_block s) (block_dev (blockBuf s))"
    using ok by (simp add: block_fits_def flash_ok_def)
  have b: "buffer_ok (blockBuf s)" using ok by (simp add: flash_ok_def)
  note e = setPos_effect [OF b f]
  have ok1: "flash_ok s1" and abs1: "flash_abs s1 = flash_abs s" and tb: "target_block s1 = target_block s"
    using ok e by (simp_all add: s1_def flash_ok_def flash_abs_def num_blocks_def target_block_def)
  let ?b = "blockBuf s1"
  have bb: "buffer_ok ?b" "block_active ?b" "block_offs ?b = target_block s"
    using e by (simp_all add: s1_def)
  have run: "flash_data tr delay s =
    (case command tr of
       TLM_WRITE_COMMAND \<Rightarrow> seqM (on_blockBuf (setData (take (length (data_ptr tr) mod 65536) (data_ptr tr))
           (unat (ucast (address tr) :: u32) - 16))) (ret (tr, delay + length (data_ptr tr) * 1000000))
     | TLM_READ_COMMAND \<Rightarrow> bindM (on_blockBuf (getData (unat (ucast (address tr) :: u32) - 16) (length (data_ptr tr) mod 65536)))
           (\<lambda>bs. ret (tr\<lparr>data_ptr := bs @ drop (length bs) (data_ptr tr)\<rparr>, delay + length (data_ptr tr) * 1000000))
     | TLM_IGNORE_COMMAND \<Rightarrow> failM AssertionFailed) s1"
    using True by (simp add: flash_data_def Let_def seqM_def bindM_def assertM_def modifyM_def addr_regions(6) [OF a]
        s1_def)
  have w: "min (length (block_contents (blockBuf s)) - (BLOCKSIZE * unat (target_block s) + pos)) n = n"
    if "pos + n \<le> BLOCKSIZE" for pos n
    using that f block_contents_length [OF b] by (simp add: block_fits_def)
  show ?thesis
  proof (cases "command tr")
    case TLM_READ_COMMAND
    then show ?thesis
      using ok1 abs1 True bb w [of "unat (ucast (address tr) :: u32) - 16" "length (data_ptr tr) mod 65536"] unfolding run
      by (simp add: bindM_def on_blockBuf_def zoomM_def getData_refines [OF bb(1,2)] ret_def disk_data_def Let_def
          flash_abs_def target_block_def num_blocks_def disk_block_def)
  next
    case TLM_WRITE_COMMAND
    then show ?thesis
      using ok1 abs1 True bb dirty_contents [OF bb(1,2)] unfolding run
      by (simp add: seqM_def bindM_def on_blockBuf_def zoomM_def setData_refines [OF bb(1,2)] ret_def disk_data_def Let_def
          flash_abs_def target_block_def num_blocks_def disk_block_def flash_ok_def)
  next
    case TLM_IGNORE_COMMAND
    then show ?thesis
      using ok1 abs1 True unfolding run
      by (simp add: failM_def disk_data_def Let_def flash_abs_def target_block_def num_blocks_def)
  qed
qed

lemma flash_register_refines:
  assumes ok: "flash_ok s" and a: "unat (ucast (address tr) :: u32) < 16"
  shows "disk_register tr delay (flash_abs s) = map_prod id flash_abs (flash_transport tr delay s) \<and>
    flash_ok (snd (flash_transport tr delay s))"
proof (cases "unat (ucast (address tr) :: u32) < 8")
  case True
  then show ?thesis
    using ok a by (auto simp: flash_transport_def disk_register_def flash_address_register_def FLASH_ADDR_REG_def Let_def
        seqM_def bindM_def assertM_def addr_regions failM_def flash_ok_def flash_abs_def num_blocks_def
        dest: array_write_length split: tlm_command.split option.split)
next
  case False
  then have "8 \<le> unat (ucast (address tr) :: u32)" by simp
  then show ?thesis
    using ok a by (auto simp: flash_transport_def disk_register_def flash_size_register_def Let_def
        seqM_def bindM_def assertM_def addr_regions failM_def flash_ok_def flash_abs_def num_blocks_def
        split: tlm_command.split option.split)
qed

lemma flash_sim:
  assumes ok: "flash_ok s"
  shows "disk_transport tr delay (flash_abs s) = map_prod id flash_abs (flash_transport tr delay s) \<and>
    flash_ok (snd (flash_transport tr delay s))"
proof -
  have o: "flash_open s" using ok by (simp add: flash_ok_def)
  show ?thesis
  proof (cases "unat (ucast (address tr) :: u32) < 16")
    case True
    then show ?thesis using flash_register_refines [OF ok] by (simp add: disk_transport_def)
  next
    case False
    then show ?thesis
      using flash_data_refines [OF ok, of tr delay] ok o
      by (auto simp: disk_transport_def flash_transport_def Let_def seqM_def bindM_def assertM_def failM_def addr_regions)
  qed
qed

interpretation flash: target_refinement flash_transport disk_transport flash_abs flash_ok
  by unfold_locales (simp_all add: flash_sim)


text \<open>A controller on a file is ready after construction.\<close>

lemma file_ok:
  assumes "0 < length dev" and "length dev < 2 ^ 63" and "length garbage = BLOCKSIZE"
  shows "flash_ok (Flashcontroller_init False garbage dev)"
proof -
  have "length dev div BLOCKSIZE < 2 ^ 64"
    using assms(2) by (intro le_less_trans [OF div_le_dividend [of "length dev" BLOCKSIZE]]) simp
  then have "unat (of_nat (length dev div BLOCKSIZE) :: u64) = length dev div BLOCKSIZE"
    by (simp add: unat_of_nat)
  with assms show ?thesis
    by (simp add: flash_ok_def Flashcontroller_init_def Let_def Blockbuffer_init_def buffer_ok_def num_blocks_def of_to_bytes
        take_bit_word_eq_self)
qed

definition flash_access :: "tlm_command \<Rightarrow> u64 \<Rightarrow> u8 list \<Rightarrow> tlm_generic_payload \<times> nat" where
  "flash_access cmd a bs = (\<lparr>command = cmd, address = a, data_ptr = bs, response_status = TLM_OK_RESPONSE\<rparr>, 0)"


end
