(* ===== verification/Csr64.thy ===== *)
theory Csr64
  imports Csr
begin

text \<open>
  \<open>vp/src/core/rv64/csr.h\<close>: the control and status registers of the RV64 core. As in \<open>Csr\<close>, a struct
  is its raw register, here of 64 bits, and a pointer of \<open>register_mapping\<close> is a pair of a read and
  a write function on the table; names of the namespace \<open>rv64\<close> carry the suffix 64. The addresses
  are those of \<open>Csr\<close> where the two headers define the same one. The constructor registers four
  elements of the array \<open>pmpcfg\<close>, which has two: a pointer past the end is \<open>None\<close>, and an access
  through it is an error.
\<close>

unbundle bit_operations_syntax

section \<open>Bit fields\<close>

text \<open>\<open>struct csr_misa\<close>\<close>

abbreviation (input) misa_extensions64 :: "u64 \<Rightarrow> u64" where "misa_extensions64 \<equiv> bf_get 0 26"
abbreviation (input) set_misa_extensions64 :: "u64 \<Rightarrow> u64 \<Rightarrow> u64" where "set_misa_extensions64 \<equiv> bf_set 0 26"
abbreviation (input) misa_mxl64 :: "u64 \<Rightarrow> u64" where "misa_mxl64 \<equiv> bf_get 62 2"
abbreviation (input) set_misa_mxl64 :: "u64 \<Rightarrow> u64 \<Rightarrow> u64" where "set_misa_mxl64 \<equiv> bf_set 62 2"

text \<open>\<open>struct csr_mvendorid\<close>\<close>

abbreviation (input) mvendorid_offset64 :: "u64 \<Rightarrow> u64" where "mvendorid_offset64 \<equiv> bf_get 0 7"
abbreviation (input) mvendorid_bank64 :: "u64 \<Rightarrow> u64" where "mvendorid_bank64 \<equiv> bf_get 7 25"

text \<open>\<open>struct csr_mstatus\<close>\<close>

abbreviation (input) mstatus_uie64 :: "u64 \<Rightarrow> u64" where "mstatus_uie64 \<equiv> bf_get 0 1"
abbreviation (input) set_mstatus_uie64 :: "u64 \<Rightarrow> u64 \<Rightarrow> u64" where "set_mstatus_uie64 \<equiv> bf_set 0 1"
abbreviation (input) mstatus_sie64 :: "u64 \<Rightarrow> u64" where "mstatus_sie64 \<equiv> bf_get 1 1"
abbreviation (input) set_mstatus_sie64 :: "u64 \<Rightarrow> u64 \<Rightarrow> u64" where "set_mstatus_sie64 \<equiv> bf_set 1 1"
abbreviation (input) mstatus_mie64 :: "u64 \<Rightarrow> u64" where "mstatus_mie64 \<equiv> bf_get 3 1"
abbreviation (input) set_mstatus_mie64 :: "u64 \<Rightarrow> u64 \<Rightarrow> u64" where "set_mstatus_mie64 \<equiv> bf_set 3 1"
abbreviation (input) mstatus_upie64 :: "u64 \<Rightarrow> u64" where "mstatus_upie64 \<equiv> bf_get 4 1"
abbreviation (input) set_mstatus_upie64 :: "u64 \<Rightarrow> u64 \<Rightarrow> u64" where "set_mstatus_upie64 \<equiv> bf_set 4 1"
abbreviation (input) mstatus_spie64 :: "u64 \<Rightarrow> u64" where "mstatus_spie64 \<equiv> bf_get 5 1"
abbreviation (input) set_mstatus_spie64 :: "u64 \<Rightarrow> u64 \<Rightarrow> u64" where "set_mstatus_spie64 \<equiv> bf_set 5 1"
abbreviation (input) mstatus_mpie64 :: "u64 \<Rightarrow> u64" where "mstatus_mpie64 \<equiv> bf_get 7 1"
abbreviation (input) set_mstatus_mpie64 :: "u64 \<Rightarrow> u64 \<Rightarrow> u64" where "set_mstatus_mpie64 \<equiv> bf_set 7 1"
abbreviation (input) mstatus_spp64 :: "u64 \<Rightarrow> u64" where "mstatus_spp64 \<equiv> bf_get 8 1"
abbreviation (input) set_mstatus_spp64 :: "u64 \<Rightarrow> u64 \<Rightarrow> u64" where "set_mstatus_spp64 \<equiv> bf_set 8 1"
abbreviation (input) mstatus_mpp64 :: "u64 \<Rightarrow> u64" where "mstatus_mpp64 \<equiv> bf_get 11 2"
abbreviation (input) set_mstatus_mpp64 :: "u64 \<Rightarrow> u64 \<Rightarrow> u64" where "set_mstatus_mpp64 \<equiv> bf_set 11 2"
abbreviation (input) mstatus_fs64 :: "u64 \<Rightarrow> u64" where "mstatus_fs64 \<equiv> bf_get 13 2"
abbreviation (input) set_mstatus_fs64 :: "u64 \<Rightarrow> u64 \<Rightarrow> u64" where "set_mstatus_fs64 \<equiv> bf_set 13 2"
abbreviation (input) mstatus_xs64 :: "u64 \<Rightarrow> u64" where "mstatus_xs64 \<equiv> bf_get 15 2"
abbreviation (input) set_mstatus_xs64 :: "u64 \<Rightarrow> u64 \<Rightarrow> u64" where "set_mstatus_xs64 \<equiv> bf_set 15 2"
abbreviation (input) mstatus_mprv64 :: "u64 \<Rightarrow> u64" where "mstatus_mprv64 \<equiv> bf_get 17 1"
abbreviation (input) set_mstatus_mprv64 :: "u64 \<Rightarrow> u64 \<Rightarrow> u64" where "set_mstatus_mprv64 \<equiv> bf_set 17 1"
abbreviation (input) mstatus_sum64 :: "u64 \<Rightarrow> u64" where "mstatus_sum64 \<equiv> bf_get 18 1"
abbreviation (input) set_mstatus_sum64 :: "u64 \<Rightarrow> u64 \<Rightarrow> u64" where "set_mstatus_sum64 \<equiv> bf_set 18 1"
abbreviation (input) mstatus_mxr64 :: "u64 \<Rightarrow> u64" where "mstatus_mxr64 \<equiv> bf_get 19 1"
abbreviation (input) set_mstatus_mxr64 :: "u64 \<Rightarrow> u64 \<Rightarrow> u64" where "set_mstatus_mxr64 \<equiv> bf_set 19 1"
abbreviation (input) mstatus_tvm64 :: "u64 \<Rightarrow> u64" where "mstatus_tvm64 \<equiv> bf_get 20 1"
abbreviation (input) set_mstatus_tvm64 :: "u64 \<Rightarrow> u64 \<Rightarrow> u64" where "set_mstatus_tvm64 \<equiv> bf_set 20 1"
abbreviation (input) mstatus_tw64 :: "u64 \<Rightarrow> u64" where "mstatus_tw64 \<equiv> bf_get 21 1"
abbreviation (input) set_mstatus_tw64 :: "u64 \<Rightarrow> u64 \<Rightarrow> u64" where "set_mstatus_tw64 \<equiv> bf_set 21 1"
abbreviation (input) mstatus_tsr64 :: "u64 \<Rightarrow> u64" where "mstatus_tsr64 \<equiv> bf_get 22 1"
abbreviation (input) set_mstatus_tsr64 :: "u64 \<Rightarrow> u64 \<Rightarrow> u64" where "set_mstatus_tsr64 \<equiv> bf_set 22 1"
abbreviation (input) mstatus_uxl64 :: "u64 \<Rightarrow> u64" where "mstatus_uxl64 \<equiv> bf_get 32 2"
abbreviation (input) set_mstatus_uxl64 :: "u64 \<Rightarrow> u64 \<Rightarrow> u64" where "set_mstatus_uxl64 \<equiv> bf_set 32 2"
abbreviation (input) mstatus_sxl64 :: "u64 \<Rightarrow> u64" where "mstatus_sxl64 \<equiv> bf_get 34 2"
abbreviation (input) set_mstatus_sxl64 :: "u64 \<Rightarrow> u64 \<Rightarrow> u64" where "set_mstatus_sxl64 \<equiv> bf_set 34 2"
abbreviation (input) mstatus_sd64 :: "u64 \<Rightarrow> u64" where "mstatus_sd64 \<equiv> bf_get 63 1"
abbreviation (input) set_mstatus_sd64 :: "u64 \<Rightarrow> u64 \<Rightarrow> u64" where "set_mstatus_sd64 \<equiv> bf_set 63 1"

text \<open>\<open>struct csr_mtvec\<close>\<close>

abbreviation (input) mtvec_mode64 :: "u64 \<Rightarrow> u64" where "mtvec_mode64 \<equiv> bf_get 0 2"
abbreviation (input) set_mtvec_mode64 :: "u64 \<Rightarrow> u64 \<Rightarrow> u64" where "set_mtvec_mode64 \<equiv> bf_set 0 2"
abbreviation (input) mtvec_base64 :: "u64 \<Rightarrow> u64" where "mtvec_base64 \<equiv> bf_get 2 62"
abbreviation (input) set_mtvec_base64 :: "u64 \<Rightarrow> u64 \<Rightarrow> u64" where "set_mtvec_base64 \<equiv> bf_set 2 62"

text \<open>\<open>struct csr_mie\<close>\<close>

abbreviation (input) mie_usie64 :: "u64 \<Rightarrow> u64" where "mie_usie64 \<equiv> bf_get 0 1"
abbreviation (input) mie_ssie64 :: "u64 \<Rightarrow> u64" where "mie_ssie64 \<equiv> bf_get 1 1"
abbreviation (input) mie_msie64 :: "u64 \<Rightarrow> u64" where "mie_msie64 \<equiv> bf_get 3 1"
abbreviation (input) mie_utie64 :: "u64 \<Rightarrow> u64" where "mie_utie64 \<equiv> bf_get 4 1"
abbreviation (input) mie_stie64 :: "u64 \<Rightarrow> u64" where "mie_stie64 \<equiv> bf_get 5 1"
abbreviation (input) mie_mtie64 :: "u64 \<Rightarrow> u64" where "mie_mtie64 \<equiv> bf_get 7 1"
abbreviation (input) mie_ueie64 :: "u64 \<Rightarrow> u64" where "mie_ueie64 \<equiv> bf_get 8 1"
abbreviation (input) mie_seie64 :: "u64 \<Rightarrow> u64" where "mie_seie64 \<equiv> bf_get 9 1"
abbreviation (input) mie_meie64 :: "u64 \<Rightarrow> u64" where "mie_meie64 \<equiv> bf_get 11 1"

text \<open>\<open>struct csr_mip\<close>\<close>

abbreviation (input) mip_usip64 :: "u64 \<Rightarrow> u64" where "mip_usip64 \<equiv> bf_get 0 1"
abbreviation (input) set_mip_usip64 :: "u64 \<Rightarrow> u64 \<Rightarrow> u64" where "set_mip_usip64 \<equiv> bf_set 0 1"
abbreviation (input) mip_ssip64 :: "u64 \<Rightarrow> u64" where "mip_ssip64 \<equiv> bf_get 1 1"
abbreviation (input) set_mip_ssip64 :: "u64 \<Rightarrow> u64 \<Rightarrow> u64" where "set_mip_ssip64 \<equiv> bf_set 1 1"
abbreviation (input) mip_msip64 :: "u64 \<Rightarrow> u64" where "mip_msip64 \<equiv> bf_get 3 1"
abbreviation (input) set_mip_msip64 :: "u64 \<Rightarrow> u64 \<Rightarrow> u64" where "set_mip_msip64 \<equiv> bf_set 3 1"
abbreviation (input) mip_utip64 :: "u64 \<Rightarrow> u64" where "mip_utip64 \<equiv> bf_get 4 1"
abbreviation (input) set_mip_utip64 :: "u64 \<Rightarrow> u64 \<Rightarrow> u64" where "set_mip_utip64 \<equiv> bf_set 4 1"
abbreviation (input) mip_stip64 :: "u64 \<Rightarrow> u64" where "mip_stip64 \<equiv> bf_get 5 1"
abbreviation (input) set_mip_stip64 :: "u64 \<Rightarrow> u64 \<Rightarrow> u64" where "set_mip_stip64 \<equiv> bf_set 5 1"
abbreviation (input) mip_mtip64 :: "u64 \<Rightarrow> u64" where "mip_mtip64 \<equiv> bf_get 7 1"
abbreviation (input) set_mip_mtip64 :: "u64 \<Rightarrow> u64 \<Rightarrow> u64" where "set_mip_mtip64 \<equiv> bf_set 7 1"
abbreviation (input) mip_ueip64 :: "u64 \<Rightarrow> u64" where "mip_ueip64 \<equiv> bf_get 8 1"
abbreviation (input) set_mip_ueip64 :: "u64 \<Rightarrow> u64 \<Rightarrow> u64" where "set_mip_ueip64 \<equiv> bf_set 8 1"
abbreviation (input) mip_seip64 :: "u64 \<Rightarrow> u64" where "mip_seip64 \<equiv> bf_get 9 1"
abbreviation (input) set_mip_seip64 :: "u64 \<Rightarrow> u64 \<Rightarrow> u64" where "set_mip_seip64 \<equiv> bf_set 9 1"
abbreviation (input) mip_meip64 :: "u64 \<Rightarrow> u64" where "mip_meip64 \<equiv> bf_get 11 1"
abbreviation (input) set_mip_meip64 :: "u64 \<Rightarrow> u64 \<Rightarrow> u64" where "set_mip_meip64 \<equiv> bf_set 11 1"

text \<open>\<open>struct csr_mcause\<close>\<close>

abbreviation (input) mcause_exception_code64 :: "u64 \<Rightarrow> u64" where "mcause_exception_code64 \<equiv> bf_get 0 63"
abbreviation (input) set_mcause_exception_code64 :: "u64 \<Rightarrow> u64 \<Rightarrow> u64" where "set_mcause_exception_code64 \<equiv> bf_set 0 63"
abbreviation (input) mcause_interrupt64 :: "u64 \<Rightarrow> u64" where "mcause_interrupt64 \<equiv> bf_get 63 1"
abbreviation (input) set_mcause_interrupt64 :: "u64 \<Rightarrow> u64 \<Rightarrow> u64" where "set_mcause_interrupt64 \<equiv> bf_set 63 1"

text \<open>\<open>struct csr_mcounteren\<close>\<close>

abbreviation (input) mcounteren_CY64 :: "u64 \<Rightarrow> u64" where "mcounteren_CY64 \<equiv> bf_get 0 1"
abbreviation (input) mcounteren_TM64 :: "u64 \<Rightarrow> u64" where "mcounteren_TM64 \<equiv> bf_get 1 1"
abbreviation (input) mcounteren_IR64 :: "u64 \<Rightarrow> u64" where "mcounteren_IR64 \<equiv> bf_get 2 1"

text \<open>\<open>struct csr_mcountinhibit\<close>\<close>

abbreviation (input) mcountinhibit_CY64 :: "u64 \<Rightarrow> u64" where "mcountinhibit_CY64 \<equiv> bf_get 0 1"
abbreviation (input) mcountinhibit_IR64 :: "u64 \<Rightarrow> u64" where "mcountinhibit_IR64 \<equiv> bf_get 2 1"

text \<open>\<open>struct csr_pmpaddr\<close>\<close>

abbreviation (input) pmpaddr_address64 :: "u64 \<Rightarrow> u64" where "pmpaddr_address64 \<equiv> bf_get 0 54"

text \<open>\<open>struct csr_satp\<close>\<close>

abbreviation (input) satp_ppn64 :: "u64 \<Rightarrow> u64" where "satp_ppn64 \<equiv> bf_get 0 44"
abbreviation (input) set_satp_ppn64 :: "u64 \<Rightarrow> u64 \<Rightarrow> u64" where "set_satp_ppn64 \<equiv> bf_set 0 44"
abbreviation (input) satp_asid64 :: "u64 \<Rightarrow> u64" where "satp_asid64 \<equiv> bf_get 44 16"
abbreviation (input) set_satp_asid64 :: "u64 \<Rightarrow> u64 \<Rightarrow> u64" where "set_satp_asid64 \<equiv> bf_set 44 16"
abbreviation (input) satp_mode64 :: "u64 \<Rightarrow> u64" where "satp_mode64 \<equiv> bf_get 60 4"
abbreviation (input) set_satp_mode64 :: "u64 \<Rightarrow> u64 \<Rightarrow> u64" where "set_satp_mode64 \<equiv> bf_set 60 4"

text \<open>\<open>struct csr_fcsr\<close>\<close>

abbreviation (input) fcsr_fflags64 :: "u64 \<Rightarrow> u64" where "fcsr_fflags64 \<equiv> bf_get 0 5"
abbreviation (input) set_fcsr_fflags64 :: "u64 \<Rightarrow> u64 \<Rightarrow> u64" where "set_fcsr_fflags64 \<equiv> bf_set 0 5"
abbreviation (input) fcsr_frm64 :: "u64 \<Rightarrow> u64" where "fcsr_frm64 \<equiv> bf_get 5 3"
abbreviation (input) set_fcsr_frm64 :: "u64 \<Rightarrow> u64 \<Rightarrow> u64" where "set_fcsr_frm64 \<equiv> bf_set 5 3"
abbreviation (input) fcsr_NX64 :: "u64 \<Rightarrow> u64" where "fcsr_NX64 \<equiv> bf_get 0 1"
abbreviation (input) set_fcsr_NX64 :: "u64 \<Rightarrow> u64 \<Rightarrow> u64" where "set_fcsr_NX64 \<equiv> bf_set 0 1"
abbreviation (input) fcsr_UF64 :: "u64 \<Rightarrow> u64" where "fcsr_UF64 \<equiv> bf_get 1 1"
abbreviation (input) set_fcsr_UF64 :: "u64 \<Rightarrow> u64 \<Rightarrow> u64" where "set_fcsr_UF64 \<equiv> bf_set 1 1"
abbreviation (input) fcsr_OF64 :: "u64 \<Rightarrow> u64" where "fcsr_OF64 \<equiv> bf_get 2 1"
abbreviation (input) set_fcsr_OF64 :: "u64 \<Rightarrow> u64 \<Rightarrow> u64" where "set_fcsr_OF64 \<equiv> bf_set 2 1"
abbreviation (input) fcsr_DZ64 :: "u64 \<Rightarrow> u64" where "fcsr_DZ64 \<equiv> bf_get 3 1"
abbreviation (input) set_fcsr_DZ64 :: "u64 \<Rightarrow> u64 \<Rightarrow> u64" where "set_fcsr_DZ64 \<equiv> bf_set 3 1"
abbreviation (input) fcsr_NV64 :: "u64 \<Rightarrow> u64" where "fcsr_NV64 \<equiv> bf_get 4 1"
abbreviation (input) set_fcsr_NV64 :: "u64 \<Rightarrow> u64 \<Rightarrow> u64" where "set_fcsr_NV64 \<equiv> bf_set 4 1"

section \<open>Masks\<close>

abbreviation (input) MIE_MASK64 :: u64 where "MIE_MASK64 \<equiv> 0b101110111011"
abbreviation (input) SIE_MASK64 :: u64 where "SIE_MASK64 \<equiv> 0b001100110011"
abbreviation (input) UIE_MASK64 :: u64 where "UIE_MASK64 \<equiv> 0b000100010001"
abbreviation (input) MIP_WRITE_MASK64 :: u64 where "MIP_WRITE_MASK64 \<equiv> 0b001100110011"
abbreviation (input) MIP_READ_MASK64 :: u64 where "MIP_READ_MASK64 \<equiv> MIE_MASK64"
abbreviation (input) SIP_MASK64 :: u64 where "SIP_MASK64 \<equiv> 0b11"
abbreviation (input) UIP_MASK64 :: u64 where "UIP_MASK64 \<equiv> 0b1"
abbreviation (input) MEDELEG_MASK64 :: u64 where "MEDELEG_MASK64 \<equiv> 0b1011101111111111"
abbreviation (input) MIDELEG_MASK64 :: u64 where "MIDELEG_MASK64 \<equiv> MIE_MASK64"
abbreviation (input) MTVEC_MASK64 :: u64 where "MTVEC_MASK64 \<equiv> NOT 2"
abbreviation (input) MCOUNTEREN_MASK64 :: u64 where "MCOUNTEREN_MASK64 \<equiv> 0b111"
abbreviation (input) MCOUNTINHIBIT_MASK64 :: u64 where "MCOUNTINHIBIT_MASK64 \<equiv> 0b101"
abbreviation (input) SEDELEG_MASK64 :: u64 where "SEDELEG_MASK64 \<equiv> 0b1011000111111111"
abbreviation (input) SIDELEG_MASK64 :: u64 where "SIDELEG_MASK64 \<equiv> MIDELEG_MASK64"
abbreviation (input) MSTATUS_WRITE_MASK64 :: u64 where "MSTATUS_WRITE_MASK64 \<equiv> 0b1000000000000000000000000000000000000000011111111111100110111011"
abbreviation (input) MSTATUS_READ_MASK64 :: u64 where "MSTATUS_READ_MASK64 \<equiv> 0b1000000000000000000000000000111100000000011111111111100110111011"
abbreviation (input) SSTATUS_WRITE_MASK64 :: u64 where "SSTATUS_WRITE_MASK64 \<equiv> 0b1000000000000000000000000000000000000000000011011110000100110011"
abbreviation (input) SSTATUS_READ_MASK64 :: u64 where "SSTATUS_READ_MASK64 \<equiv> 0b1000000000000000000000000000001100000000000011011110000100110011"
abbreviation (input) USTATUS_MASK64 :: u64 where "USTATUS_MASK64 \<equiv> 0b0000000000000000000000000000000000000000000000000000000000010001"
abbreviation (input) PMPADDR_MASK64 :: u64 where "PMPADDR_MASK64 \<equiv> 0b0000000000111111111111111111111111111111111111111111111111111111"
abbreviation (input) SATP_MASK64 :: u64 where "SATP_MASK64 \<equiv> 0b1111000000000000000011111111111111111111111111111111111111111111"
abbreviation (input) SATP_MODE64 :: u64 where "SATP_MODE64 \<equiv> 0b1111000000000000000000000000000000000000000000000000000000000000"
abbreviation (input) FCSR_MASK64 :: u64 where "FCSR_MASK64 \<equiv> 0b11111111"

definition ANY_HPMCOUNTER_RV64 :: "u32 \<Rightarrow> bool" where
  "ANY_HPMCOUNTER_RV64 addr \<longleftrightarrow>
     (HPMCOUNTER3_ADDR \<le> addr \<and> addr \<le> HPMCOUNTER31_ADDR) \<or>
     (MHPMCOUNTER3_ADDR \<le> addr \<and> addr \<le> MHPMCOUNTER31_ADDR) \<or>
     (MHPMEVENT3_ADDR \<le> addr \<and> addr \<le> MHPMEVENT31_ADDR)"

section \<open>Operations on single registers\<close>

definition has_C_extension64 :: "u64 \<Rightarrow> bool" where
  "has_C_extension64 misa_reg \<longleftrightarrow> misa_extensions64 misa_reg AND ucast MISA_C \<noteq> 0"

definition has_user_mode_extension64 :: "u64 \<Rightarrow> bool" where
  "has_user_mode_extension64 misa_reg \<longleftrightarrow> misa_extensions64 misa_reg AND ucast MISA_U \<noteq> 0"

definition has_supervisor_mode_extension64 :: "u64 \<Rightarrow> bool" where
  "has_supervisor_mode_extension64 misa_reg \<longleftrightarrow> misa_extensions64 misa_reg AND ucast MISA_S \<noteq> 0"

definition misa_init64 :: u64 where
  "misa_init64 = set_misa_mxl64 2 (set_misa_extensions64 (ucast (MISA_I OR MISA_M OR MISA_A OR MISA_F OR
     MISA_D OR MISA_C OR MISA_N OR MISA_U OR MISA_S)) 0)"

definition mstatus_init64 :: u64 where
  "mstatus_init64 = set_mstatus_uxl64 2 (set_mstatus_sxl64 2 0)"

definition get_base_address64 :: "u64 \<Rightarrow> u64" where
  "get_base_address64 mtvec_reg = push_bit 2 (mtvec_base64 mtvec_reg)"

definition mtvec_checked_write64 :: "u64 \<Rightarrow> u64" where
  "mtvec_checked_write64 val = (if 1 \<le> mtvec_mode64 val then set_mtvec_mode64 0 val else val)"

text \<open>\<open>csr_pmpaddr::get_address\<close> returns an \<open>unsigned\<close>.\<close>

definition pmpaddr_get_address :: "u64 \<Rightarrow> u32" where
  "pmpaddr_get_address r = ucast (push_bit 2 (pmpaddr_address64 r))"

text \<open>\<open>1 << bitpos\<close> is an \<open>int\<close>, which the conjunction extends by its sign.\<close>

definition is_bitset64 :: "u64 \<Rightarrow> u32 \<Rightarrow> bool" where
  "is_bitset64 csr_reg bitpos \<longleftrightarrow> csr_reg AND scast (push_bit (unat bitpos) (1 :: u32)) \<noteq> 0"

section \<open>The register table\<close>

record csr_table64 =
  cycle64 :: u64
  time64 :: u64
  instret64 :: u64
  mvendorid64 :: u64
  marchid64 :: u64
  mimpid64 :: u64
  mhartid64 :: u64
  mstatus64 :: u64
  misa64 :: u64
  medeleg64 :: u64
  mideleg64 :: u64
  mie64 :: u64
  mtvec64 :: u64
  mcounteren64 :: u64
  mcountinhibit64 :: u64
  mscratch64 :: u64
  mepc64 :: u64
  mcause64 :: u64
  mtval64 :: u64
  mip64 :: u64
  pmpaddr64 :: "u64 list"
  pmpcfg64 :: "u64 list"
  sedeleg64 :: u64
  sideleg64 :: u64
  stvec64 :: u64
  scounteren64 :: u64
  sscratch64 :: u64
  sepc64 :: u64
  scause64 :: u64
  stval64 :: u64
  satp64 :: u64
  utvec64 :: u64
  uscratch64 :: u64
  uepc64 :: u64
  ucause64 :: u64
  utval64 :: u64
  fcsr64 :: u64

definition csr_table_init64 :: csr_table64 where
  "csr_table_init64 = \<lparr>
    cycle64 = 0, time64 = 0, instret64 = 0, mvendorid64 = 0, marchid64 = 0, mimpid64 = 0,
     mhartid64 = 0, mstatus64 = mstatus_init64, misa64 = misa_init64, medeleg64 = 0,
     mideleg64 = 0, mie64 = 0, mtvec64 = 0, mcounteren64 = 0, mcountinhibit64 = 0,
     mscratch64 = 0, mepc64 = 0, mcause64 = 0, mtval64 = 0, mip64 = 0,
     pmpaddr64 = replicate 16 0, pmpcfg64 = replicate 2 0, sedeleg64 = 0, sideleg64 = 0,
     stvec64 = 0, scounteren64 = 0, sscratch64 = 0, sepc64 = 0, scause64 = 0, stval64 = 0,
     satp64 = 0, utvec64 = 0, uscratch64 = 0, uepc64 = 0, ucause64 = 0, utval64 = 0,
     fcsr64 = 0\<rparr>"

type_synonym csr_ptr64 = "(csr_table64 \<Rightarrow> u64) \<times> (u64 \<Rightarrow> csr_table64 \<Rightarrow> csr_table64)"

definition ptr_cycle64 :: csr_ptr64 where
  "ptr_cycle64 = (cycle64, \<lambda>v t. t\<lparr>cycle64 := v\<rparr>)"

definition ptr_time64 :: csr_ptr64 where
  "ptr_time64 = (time64, \<lambda>v t. t\<lparr>time64 := v\<rparr>)"

definition ptr_instret64 :: csr_ptr64 where
  "ptr_instret64 = (instret64, \<lambda>v t. t\<lparr>instret64 := v\<rparr>)"

definition ptr_mvendorid64 :: csr_ptr64 where
  "ptr_mvendorid64 = (mvendorid64, \<lambda>v t. t\<lparr>mvendorid64 := v\<rparr>)"

definition ptr_marchid64 :: csr_ptr64 where
  "ptr_marchid64 = (marchid64, \<lambda>v t. t\<lparr>marchid64 := v\<rparr>)"

definition ptr_mimpid64 :: csr_ptr64 where
  "ptr_mimpid64 = (mimpid64, \<lambda>v t. t\<lparr>mimpid64 := v\<rparr>)"

definition ptr_mhartid64 :: csr_ptr64 where
  "ptr_mhartid64 = (mhartid64, \<lambda>v t. t\<lparr>mhartid64 := v\<rparr>)"

definition ptr_mstatus64 :: csr_ptr64 where
  "ptr_mstatus64 = (mstatus64, \<lambda>v t. t\<lparr>mstatus64 := v\<rparr>)"

definition ptr_misa64 :: csr_ptr64 where
  "ptr_misa64 = (misa64, \<lambda>v t. t\<lparr>misa64 := v\<rparr>)"

definition ptr_medeleg64 :: csr_ptr64 where
  "ptr_medeleg64 = (medeleg64, \<lambda>v t. t\<lparr>medeleg64 := v\<rparr>)"

definition ptr_mideleg64 :: csr_ptr64 where
  "ptr_mideleg64 = (mideleg64, \<lambda>v t. t\<lparr>mideleg64 := v\<rparr>)"

definition ptr_mie64 :: csr_ptr64 where
  "ptr_mie64 = (mie64, \<lambda>v t. t\<lparr>mie64 := v\<rparr>)"

definition ptr_mtvec64 :: csr_ptr64 where
  "ptr_mtvec64 = (mtvec64, \<lambda>v t. t\<lparr>mtvec64 := v\<rparr>)"

definition ptr_mcounteren64 :: csr_ptr64 where
  "ptr_mcounteren64 = (mcounteren64, \<lambda>v t. t\<lparr>mcounteren64 := v\<rparr>)"

definition ptr_mcountinhibit64 :: csr_ptr64 where
  "ptr_mcountinhibit64 = (mcountinhibit64, \<lambda>v t. t\<lparr>mcountinhibit64 := v\<rparr>)"

definition ptr_mscratch64 :: csr_ptr64 where
  "ptr_mscratch64 = (mscratch64, \<lambda>v t. t\<lparr>mscratch64 := v\<rparr>)"

definition ptr_mepc64 :: csr_ptr64 where
  "ptr_mepc64 = (mepc64, \<lambda>v t. t\<lparr>mepc64 := v\<rparr>)"

definition ptr_mcause64 :: csr_ptr64 where
  "ptr_mcause64 = (mcause64, \<lambda>v t. t\<lparr>mcause64 := v\<rparr>)"

definition ptr_mtval64 :: csr_ptr64 where
  "ptr_mtval64 = (mtval64, \<lambda>v t. t\<lparr>mtval64 := v\<rparr>)"

definition ptr_mip64 :: csr_ptr64 where
  "ptr_mip64 = (mip64, \<lambda>v t. t\<lparr>mip64 := v\<rparr>)"

definition ptr_pmpaddr64 :: "nat \<Rightarrow> csr_ptr64 option" where
  "ptr_pmpaddr64 i = (if i < 16 then Some (\<lambda>t. pmpaddr64 t ! i, \<lambda>v t. t\<lparr>pmpaddr64 := (pmpaddr64 t)[i := v]\<rparr>) else None)"

definition ptr_pmpcfg64 :: "nat \<Rightarrow> csr_ptr64 option" where
  "ptr_pmpcfg64 i = (if i < 2 then Some (\<lambda>t. pmpcfg64 t ! i, \<lambda>v t. t\<lparr>pmpcfg64 := (pmpcfg64 t)[i := v]\<rparr>) else None)"

definition ptr_sedeleg64 :: csr_ptr64 where
  "ptr_sedeleg64 = (sedeleg64, \<lambda>v t. t\<lparr>sedeleg64 := v\<rparr>)"

definition ptr_sideleg64 :: csr_ptr64 where
  "ptr_sideleg64 = (sideleg64, \<lambda>v t. t\<lparr>sideleg64 := v\<rparr>)"

definition ptr_stvec64 :: csr_ptr64 where
  "ptr_stvec64 = (stvec64, \<lambda>v t. t\<lparr>stvec64 := v\<rparr>)"

definition ptr_scounteren64 :: csr_ptr64 where
  "ptr_scounteren64 = (scounteren64, \<lambda>v t. t\<lparr>scounteren64 := v\<rparr>)"

definition ptr_sscratch64 :: csr_ptr64 where
  "ptr_sscratch64 = (sscratch64, \<lambda>v t. t\<lparr>sscratch64 := v\<rparr>)"

definition ptr_sepc64 :: csr_ptr64 where
  "ptr_sepc64 = (sepc64, \<lambda>v t. t\<lparr>sepc64 := v\<rparr>)"

definition ptr_scause64 :: csr_ptr64 where
  "ptr_scause64 = (scause64, \<lambda>v t. t\<lparr>scause64 := v\<rparr>)"

definition ptr_stval64 :: csr_ptr64 where
  "ptr_stval64 = (stval64, \<lambda>v t. t\<lparr>stval64 := v\<rparr>)"

definition ptr_satp64 :: csr_ptr64 where
  "ptr_satp64 = (satp64, \<lambda>v t. t\<lparr>satp64 := v\<rparr>)"

definition ptr_utvec64 :: csr_ptr64 where
  "ptr_utvec64 = (utvec64, \<lambda>v t. t\<lparr>utvec64 := v\<rparr>)"

definition ptr_uscratch64 :: csr_ptr64 where
  "ptr_uscratch64 = (uscratch64, \<lambda>v t. t\<lparr>uscratch64 := v\<rparr>)"

definition ptr_uepc64 :: csr_ptr64 where
  "ptr_uepc64 = (uepc64, \<lambda>v t. t\<lparr>uepc64 := v\<rparr>)"

definition ptr_ucause64 :: csr_ptr64 where
  "ptr_ucause64 = (ucause64, \<lambda>v t. t\<lparr>ucause64 := v\<rparr>)"

definition ptr_utval64 :: csr_ptr64 where
  "ptr_utval64 = (utval64, \<lambda>v t. t\<lparr>utval64 := v\<rparr>)"

definition ptr_fcsr64 :: csr_ptr64 where
  "ptr_fcsr64 = (fcsr64, \<lambda>v t. t\<lparr>fcsr64 := v\<rparr>)"

definition register_mapping64 :: "(u32 \<times> csr_ptr64 option) list" where
  "register_mapping64 =
     [(CYCLE_ADDR, Some ptr_cycle64),
      (TIME_ADDR, Some ptr_time64),
      (INSTRET_ADDR, Some ptr_instret64),
      (MCYCLE_ADDR, Some ptr_cycle64),
      (MTIME_ADDR, Some ptr_time64),
      (MINSTRET_ADDR, Some ptr_instret64),
      (MVENDORID_ADDR, Some ptr_mvendorid64),
      (MARCHID_ADDR, Some ptr_marchid64),
      (MIMPID_ADDR, Some ptr_mimpid64),
      (MHARTID_ADDR, Some ptr_mhartid64),
      (MSTATUS_ADDR, Some ptr_mstatus64),
      (MISA_ADDR, Some ptr_misa64),
      (MEDELEG_ADDR, Some ptr_medeleg64),
      (MIDELEG_ADDR, Some ptr_mideleg64),
      (MIE_ADDR, Some ptr_mie64),
      (MTVEC_ADDR, Some ptr_mtvec64),
      (MCOUNTEREN_ADDR, Some ptr_mcounteren64),
      (MCOUNTINHIBIT_ADDR, Some ptr_mcountinhibit64),
      (MSCRATCH_ADDR, Some ptr_mscratch64),
      (MEPC_ADDR, Some ptr_mepc64),
      (MCAUSE_ADDR, Some ptr_mcause64),
      (MTVAL_ADDR, Some ptr_mtval64),
      (MIP_ADDR, Some ptr_mip64)] @
     map (\<lambda>i. (PMPADDR0_ADDR + of_nat i, ptr_pmpaddr64 i)) [0..<16] @
     map (\<lambda>i. (PMPCFG0_ADDR + of_nat i, ptr_pmpcfg64 i)) [0..<4] @
     [(SEDELEG_ADDR, Some ptr_sedeleg64),
      (SIDELEG_ADDR, Some ptr_sideleg64),
      (STVEC_ADDR, Some ptr_stvec64),
      (SCOUNTEREN_ADDR, Some ptr_scounteren64),
      (SSCRATCH_ADDR, Some ptr_sscratch64),
      (SEPC_ADDR, Some ptr_sepc64),
      (SCAUSE_ADDR, Some ptr_scause64),
      (STVAL_ADDR, Some ptr_stval64),
      (SATP_ADDR, Some ptr_satp64),
      (UTVEC_ADDR, Some ptr_utvec64),
      (USCRATCH_ADDR, Some ptr_uscratch64),
      (UEPC_ADDR, Some ptr_uepc64),
      (UCAUSE_ADDR, Some ptr_ucause64),
      (UTVAL_ADDR, Some ptr_utval64),
      (FCSR_ADDR, Some ptr_fcsr64)]"

definition is_valid_csr64_addr :: "u32 \<Rightarrow> bool" where
  "is_valid_csr64_addr addr \<longleftrightarrow> map_of register_mapping64 addr \<noteq> None"

definition default_write64 :: "u32 \<Rightarrow> u64 \<Rightarrow> csr_table64 \<Rightarrow> sim_error + csr_table64" where
  "default_write64 addr value t = (case map_of register_mapping64 addr of
     None \<Rightarrow> Inl RuntimeError
   | Some None \<Rightarrow> Inl OutOfRange
   | Some (Some p) \<Rightarrow> Inr (snd p value t))"

definition default_read64 :: "u32 \<Rightarrow> csr_table64 \<Rightarrow> sim_error + u64" where
  "default_read64 addr t = (case map_of register_mapping64 addr of
     None \<Rightarrow> Inl RuntimeError
   | Some None \<Rightarrow> Inl OutOfRange
   | Some (Some p) \<Rightarrow> Inr (fst p t))"

section \<open>Register cells\<close>

definition csr_wf64 :: "csr_table64 \<Rightarrow> bool" where
  "csr_wf64 t \<longleftrightarrow> length (pmpaddr64 t) = 16 \<and> length (pmpcfg64 t) = 2"

lemma csr_wf_init64: "csr_wf64 csr_table_init64"
  by (simp add: csr_wf64_def csr_table_init64_def)

definition csr_cell64 :: "csr_ptr64 \<Rightarrow> bool" where
  "csr_cell64 p \<longleftrightarrow> (\<forall>t v. csr_wf64 t \<longrightarrow> fst p (snd p v t) = v \<and> csr_wf64 (snd p v t))"

lemmas ptr_defs64 =
  ptr_cycle64_def ptr_time64_def ptr_instret64_def ptr_mvendorid64_def ptr_marchid64_def
  ptr_mimpid64_def ptr_mhartid64_def ptr_mstatus64_def ptr_misa64_def ptr_medeleg64_def
  ptr_mideleg64_def ptr_mie64_def ptr_mtvec64_def ptr_mcounteren64_def ptr_mcountinhibit64_def
  ptr_mscratch64_def ptr_mepc64_def ptr_mcause64_def ptr_mtval64_def ptr_mip64_def
  ptr_sedeleg64_def ptr_sideleg64_def ptr_stvec64_def ptr_scounteren64_def ptr_sscratch64_def
  ptr_sepc64_def ptr_scause64_def ptr_stval64_def ptr_satp64_def ptr_utvec64_def
  ptr_uscratch64_def ptr_uepc64_def ptr_ucause64_def ptr_utval64_def ptr_fcsr64_def
  ptr_pmpaddr64_def ptr_pmpcfg64_def

lemma csr_cells64:
  "csr_cell64 ptr_cycle64" "csr_cell64 ptr_time64" "csr_cell64 ptr_instret64"
  "csr_cell64 ptr_mvendorid64" "csr_cell64 ptr_marchid64" "csr_cell64 ptr_mimpid64"
  "csr_cell64 ptr_mhartid64" "csr_cell64 ptr_mstatus64" "csr_cell64 ptr_misa64"
  "csr_cell64 ptr_medeleg64" "csr_cell64 ptr_mideleg64" "csr_cell64 ptr_mie64"
  "csr_cell64 ptr_mtvec64" "csr_cell64 ptr_mcounteren64" "csr_cell64 ptr_mcountinhibit64"
  "csr_cell64 ptr_mscratch64" "csr_cell64 ptr_mepc64" "csr_cell64 ptr_mcause64"
  "csr_cell64 ptr_mtval64" "csr_cell64 ptr_mip64" "csr_cell64 ptr_sedeleg64"
  "csr_cell64 ptr_sideleg64" "csr_cell64 ptr_stvec64" "csr_cell64 ptr_scounteren64"
  "csr_cell64 ptr_sscratch64" "csr_cell64 ptr_sepc64" "csr_cell64 ptr_scause64"
  "csr_cell64 ptr_stval64" "csr_cell64 ptr_satp64" "csr_cell64 ptr_utvec64"
  "csr_cell64 ptr_uscratch64" "csr_cell64 ptr_uepc64" "csr_cell64 ptr_ucause64"
  "csr_cell64 ptr_utval64" "csr_cell64 ptr_fcsr64"
  by (simp_all add: csr_cell64_def csr_wf64_def ptr_defs64)

lemma csr_cells_pmp64:
  "ptr_pmpaddr64 i = Some p \<Longrightarrow> csr_cell64 p"
  "ptr_pmpcfg64 i = Some p \<Longrightarrow> csr_cell64 p"
  by (auto simp: csr_cell64_def csr_wf64_def ptr_pmpaddr64_def ptr_pmpcfg64_def split: if_splits)

lemma register_mapping_cells64: "(a, Some p) \<in> set register_mapping64 \<Longrightarrow> csr_cell64 p"
  unfolding register_mapping64_def set_append set_map Un_iff
  by (auto simp: csr_cells64 dest: csr_cells_pmp64 [OF sym])

lemma map_of_register_mapping64: "map_of register_mapping64 a = Some (Some p) \<Longrightarrow> csr_cell64 p"
  by (metis map_of_SomeD register_mapping_cells64)

text \<open>The addresses whose pointer stays inside the table.\<close>

definition csr_in_bounds64 :: "u32 \<Rightarrow> bool" where
  "csr_in_bounds64 addr \<longleftrightarrow> (\<exists>p. map_of register_mapping64 addr = Some (Some p))"

interpretation csr_file64: register_file csr_in_bounds64 default_read64 default_write64 csr_wf64
proof
  show "csr_in_bounds64 a \<longleftrightarrow> (\<exists>v. default_read64 a s = Inr v)" for a s
    by (auto simp: csr_in_bounds64_def default_read64_def split: option.split)
  show "csr_in_bounds64 a \<longleftrightarrow> (\<exists>s'. default_write64 a v s = Inr s')" for a v s
    by (auto simp: csr_in_bounds64_def default_write64_def split: option.split)
  show "csr_wf64 s \<Longrightarrow> default_write64 a v s = Inr s' \<Longrightarrow> csr_wf64 s'" for a v s s'
    using map_of_register_mapping64
    by (auto simp: default_write64_def csr_cell64_def split: option.splits)
  show "csr_wf64 s \<Longrightarrow> default_write64 a v s = Inr s' \<Longrightarrow> default_read64 a s' = Inr v" for a v s s'
    using map_of_register_mapping64
    by (auto simp: default_write64_def default_read64_def csr_cell64_def split: option.splits)
qed

end
