(* ===== verification/Core64.thy ===== *)
theory Core64
  imports Core Csr64
begin

text \<open>
  The state of an RV64 hart (\<open>rv64/iss.h\<close>, with the memory interface and MMU attached to it), what it
  shares with the platform, and the register file and small member functions of \<open>rv64::ISS\<close>. Names
  of the namespace \<open>rv64\<close> carry the suffix 64; the parts that are common to both cores in the source
  (the bus lock, TLM targets, the MMU's TLB, softfloat) are those of \<open>Core\<close>.
\<close>

unbundle bit_operations_syntax

section \<open>State\<close>

type_synonym 'd shared64 = "'d world \<times> u64"

record 'd ISS64 =
  regs64 :: "u64 list"
  fp_regs64 :: FpRegs
  pc64 :: u64
  last_pc64 :: u64
  shall_exit64 :: bool
  ignore_wfi64 :: bool
  csrs64 :: csr_table64
  prv64 :: PrivilegeLevel
  lr_sc_counter64 :: int
  instr64 :: u32
  op64 :: Mapping
  status64 :: CoreExecStatus
  breakpoints64 :: "u64 set"
  debug_mode64 :: bool
  cycle_counter64 :: nat
  quantum_keeper64 :: nat
  softfloat_roundingMode64 :: u32
  softfloat_exceptionFlags64 :: u32
  instr_mem64 :: instr_memory
  lr_addr64 :: u64
  dmi_ranges64 :: "MemoryDMI list"
  mmu64 :: MMU
  world64 :: "'d world"

section \<open>Code outside the sources\<close>

text \<open>The conversions between floating-point values and 64-bit integers, which only RV64 uses.\<close>

record softfloat64 = softfloat +
  f32_to_i64 :: "u32 \<Rightarrow> u32 \<Rightarrow> u64 \<times> u32"
  f32_to_ui64 :: "u32 \<Rightarrow> u32 \<Rightarrow> u64 \<times> u32"
  i64_to_f32 :: "u32 \<Rightarrow> u64 \<Rightarrow> u32 \<times> u32"
  ui64_to_f32 :: "u32 \<Rightarrow> u64 \<Rightarrow> u32 \<times> u32"
  f64_to_i64 :: "u32 \<Rightarrow> u64 \<Rightarrow> u64 \<times> u32"
  f64_to_ui64 :: "u32 \<Rightarrow> u64 \<Rightarrow> u64 \<times> u32"
  i64_to_f64 :: "u32 \<Rightarrow> u64 \<Rightarrow> u64 \<times> u32"
  ui64_to_f64 :: "u32 \<Rightarrow> u64 \<Rightarrow> u64 \<times> u32"

record 'd env64 =
  sf64 :: softfloat64
  wait_lock_event64 :: "'d shared64 \<Rightarrow> 'd shared64 option"
  wait_wfi_event64 :: "'d shared64 \<Rightarrow> 'd shared64 option"
  isock64 :: "'d shared64 tlm_target"
  update_and_get_mtime64 :: "'d shared64 \<Rightarrow> u64 \<times> 'd shared64"
  need_sync64 :: "nat \<Rightarrow> 'd shared64 \<Rightarrow> bool"
  sync64 :: "nat \<Rightarrow> 'd shared64 \<Rightarrow> 'd shared64"
  sys64 :: "('d ISS64, unit) act option"

definition get_shared64 :: "'d ISS64 \<Rightarrow> 'd shared64" where
  "get_shared64 s = (world64 s, mip64 (csrs64 s))"

definition put_shared64 :: "'d shared64 \<Rightarrow> 'd ISS64 \<Rightarrow> 'd ISS64" where
  "put_shared64 w s = s\<lparr>world64 := fst w, csrs64 := (csrs64 s)\<lparr>mip64 := snd w\<rparr>\<rparr>"

abbreviation on_shared64 :: "('d shared64, 'a) act \<Rightarrow> ('d ISS64, 'a) act" where
  "on_shared64 \<equiv> zoomM get_shared64 put_shared64"

abbreviation shared_lock64 :: "'d shared64 \<Rightarrow> BusLock" where
  "shared_lock64 w \<equiv> bus_lock (fst w)"

definition put_shared_lock64 :: "BusLock \<Rightarrow> 'd shared64 \<Rightarrow> 'd shared64" where
  "put_shared_lock64 l w = ((fst w)\<lparr>bus_lock := l\<rparr>, snd w)"

section \<open>The register file\<close>

definition RegFile_init64 :: "u64 list" where
  "RegFile_init64 = replicate 32 0"

definition RegFile_write64 :: "u64 \<Rightarrow> u64 \<Rightarrow> u64 list \<Rightarrow> sim_error + u64 list" where
  "RegFile_write64 index value rs =
     (if index \<le> 31 \<and> index \<noteq> 0 then Inr (rs[unat index := value]) else Inl AssertionFailed)"

definition RegFile_read64 :: "u64 \<Rightarrow> u64 list \<Rightarrow> sim_error + u64" where
  "RegFile_read64 index rs = (if index > 31 then Inl OutOfRange else Inr (rs ! unat index))"

text \<open>\<open>operator[]\<close>: the index is always a register number of an instruction.\<close>

definition reg64 :: "u32 \<Rightarrow> 'd ISS64 \<Rightarrow> u64" where
  "reg64 idx s = regs64 s ! unat idx"

definition set_reg64 :: "u32 \<Rightarrow> u64 \<Rightarrow> 'd ISS64 \<Rightarrow> 'd ISS64" where
  "set_reg64 idx v s = s\<lparr>regs64 := (regs64 s)[unat idx := v]\<rparr>"

definition reg_shamt64 :: "u32 \<Rightarrow> 'd ISS64 \<Rightarrow> nat" where
  "reg_shamt64 idx s = unat (take_bit 6 (reg64 idx s))"

definition reg_shamt_w64 :: "u32 \<Rightarrow> 'd ISS64 \<Rightarrow> nat" where
  "reg_shamt_w64 idx s = unat (take_bit 5 (reg64 idx s))"

section \<open>Construction and the syscall and debug interfaces\<close>

definition instr_cycles64 :: "Mapping \<Rightarrow> nat" where
  "instr_cycles64 m = (case m of
     RV32I x \<Rightarrow> if x \<in> {LB, LBU, LH, LHU, LW, SB, SH, SW} then 4 * cycle_time else cycle_time
   | RV32M x \<Rightarrow> 8 * cycle_time
   | _ \<Rightarrow> cycle_time)"

definition ISS_init64 :: "u64 \<Rightarrow> instr_memory \<Rightarrow> MemoryDMI list \<Rightarrow> MMU \<Rightarrow> 'd world \<Rightarrow> 'd ISS64" where
  "ISS_init64 hart_id im ds m w =
     \<lparr>regs64 = RegFile_init64, fp_regs64 = replicate 32 0, pc64 = 0, last_pc64 = 0,
      shall_exit64 = False, ignore_wfi64 = False, csrs64 = csr_table_init64\<lparr>mhartid64 := hart_id\<rparr>,
      prv64 = MachineMode, lr_sc_counter64 = 0, instr64 = 0, op64 = UNDEF,
      status64 = Runnable, breakpoints64 = {}, debug_mode64 = False, cycle_counter64 = 0,
      quantum_keeper64 = 0, softfloat_roundingMode64 = 0, softfloat_exceptionFlags64 = 0,
      instr_mem64 = im, lr_addr64 = 0, dmi_ranges64 = ds, mmu64 = m, world64 = w\<rparr>"

definition init64 :: "u64 \<Rightarrow> u64 \<Rightarrow> 'd ISS64 \<Rightarrow> 'd ISS64" where
  "init64 entrypoint sp s = (set_reg64 reg_sp sp s)\<lparr>pc64 := entrypoint\<rparr>"

definition sys_exit64 :: "'d ISS64 \<Rightarrow> 'd ISS64" where
  "sys_exit64 s = s\<lparr>shall_exit64 := True\<rparr>"

definition read_register64 :: "u32 \<Rightarrow> ('d ISS64, u64) act" where
  "read_register64 idx s = (case RegFile_read64 (ucast idx) (regs64 s) of
     Inl e \<Rightarrow> (Fail e, s)
   | Inr v \<Rightarrow> (Ok v, s))"

definition write_register64 :: "u32 \<Rightarrow> u64 \<Rightarrow> ('d ISS64, unit) act" where
  "write_register64 idx value s = (case RegFile_write64 (ucast idx) value (regs64 s) of
     Inl e \<Rightarrow> (Fail e, s)
   | Inr rs \<Rightarrow> (Ok (), s\<lparr>regs64 := rs\<rparr>))"

definition get_progam_counter64 :: "'d ISS64 \<Rightarrow> u64" where
  "get_progam_counter64 s = pc64 s"

definition block_on_wfi64 :: "bool \<Rightarrow> 'd ISS64 \<Rightarrow> 'd ISS64" where
  "block_on_wfi64 block s = s\<lparr>ignore_wfi64 := \<not> block\<rparr>"

definition get_status64 :: "'d ISS64 \<Rightarrow> CoreExecStatus" where
  "get_status64 s = status64 s"

definition set_status64 :: "CoreExecStatus \<Rightarrow> 'd ISS64 \<Rightarrow> 'd ISS64" where
  "set_status64 st s = s\<lparr>status64 := st\<rparr>"

definition enable_debug64 :: "'d ISS64 \<Rightarrow> 'd ISS64" where
  "enable_debug64 s = s\<lparr>debug_mode64 := True\<rparr>"

definition insert_breakpoint64 :: "u64 \<Rightarrow> 'd ISS64 \<Rightarrow> 'd ISS64" where
  "insert_breakpoint64 addr s = s\<lparr>breakpoints64 := insert addr (breakpoints64 s)\<rparr>"

definition remove_breakpoint64 :: "u64 \<Rightarrow> 'd ISS64 \<Rightarrow> 'd ISS64" where
  "remove_breakpoint64 addr s = s\<lparr>breakpoints64 := breakpoints64 s - {addr}\<rparr>"

definition get_hart_id64 :: "'d ISS64 \<Rightarrow> u64" where
  "get_hart_id64 s = mhartid64 (csrs64 s)"

definition get_registers64 :: "'d ISS64 \<Rightarrow> u64 list" where
  "get_registers64 s = regs64 s"

definition m_mode64 :: "'d ISS64 \<Rightarrow> bool" where
  "m_mode64 s \<longleftrightarrow> prv64 s = MachineMode"

definition s_mode64 :: "'d ISS64 \<Rightarrow> bool" where
  "s_mode64 s \<longleftrightarrow> prv64 s = SupervisorMode"

definition u_mode64 :: "'d ISS64 \<Rightarrow> bool" where
  "u_mode64 s \<longleftrightarrow> prv64 s = UserMode"

definition pc_alignment_mask64 :: "'d ISS64 \<Rightarrow> u64" where
  "pc_alignment_mask64 s = (if has_C_extension64 (misa64 (csrs64 s)) then NOT 0x1 else NOT 0x3)"

definition RAISE_ILLEGAL_INSTRUCTION64 :: "('d ISS64, 'a) act" where
  "RAISE_ILLEGAL_INSTRUCTION64 = bindM (getsM instr64) (\<lambda>i. raise_trap EXC_ILLEGAL_INSTR (ucast i))"

definition trap_check_pc_alignment64 :: "('d ISS64, unit) act" where
  "trap_check_pc_alignment64 =
     seqM (assertM (\<lambda>s. pc64 s AND 0x1 = 0))
       (whenM (\<lambda>s. pc64 s AND 0x3 \<noteq> 0 \<and> \<not> has_C_extension64 (misa64 (csrs64 s)))
         (bindM (getsM pc64) (\<lambda>p. raise_trap EXC_INSTR_ADDR_MISALIGNED p)))"

definition trap_check_addr_alignment64 :: "u64 \<Rightarrow> bool \<Rightarrow> u64 \<Rightarrow> ('d ISS64, unit) act" where
  "trap_check_addr_alignment64 Alignment isLoad addr =
     (if addr mod Alignment \<noteq> 0 then
        raise_trap (if isLoad then EXC_LOAD_ADDR_MISALIGNED else EXC_STORE_AMO_ADDR_MISALIGNED) addr
      else ret ())"

section \<open>Facts\<close>

definition hart_wf64 :: "'d ISS64 \<Rightarrow> bool" where
  "hart_wf64 s \<longleftrightarrow> length (regs64 s) = 32 \<and> length (fp_regs64 s) = 32 \<and> csr_wf64 (csrs64 s)"

lemma hart_wf_init64: "hart_wf64 (ISS_init64 h im ds m w)"
  using csr_wf_init64 by (simp add: hart_wf64_def ISS_init64_def RegFile_init64_def csr_wf64_def)

lemma hart_wf_set_reg64 [simp]: "hart_wf64 (set_reg64 i v s) = hart_wf64 s"
  by (simp add: hart_wf64_def set_reg64_def)

lemma reg_set_reg64:
  "length (regs64 s) = 32 \<Longrightarrow> unat i < 32 \<Longrightarrow>
     reg64 j (set_reg64 i v s) = (if j = i then v else reg64 j s)"
  by (auto simp: reg64_def set_reg64_def nth_list_update word_unat_eq_iff)

lemma set_reg_fields64 [simp]:
  "fp_regs64 (set_reg64 i v s) = fp_regs64 s" "pc64 (set_reg64 i v s) = pc64 s"
  "last_pc64 (set_reg64 i v s) = last_pc64 s" "csrs64 (set_reg64 i v s) = csrs64 s"
  "prv64 (set_reg64 i v s) = prv64 s" "world64 (set_reg64 i v s) = world64 s"
  "instr64 (set_reg64 i v s) = instr64 s" "op64 (set_reg64 i v s) = op64 s"
  "mmu64 (set_reg64 i v s) = mmu64 s" "shall_exit64 (set_reg64 i v s) = shall_exit64 s"
  "lr_sc_counter64 (set_reg64 i v s) = lr_sc_counter64 s" "status64 (set_reg64 i v s) = status64 s"
  "length (regs64 (set_reg64 i v s)) = length (regs64 s)"
  by (simp_all add: set_reg64_def)

lemma put_shared_fields64 [simp]:
  "regs64 (put_shared64 w s) = regs64 s" "fp_regs64 (put_shared64 w s) = fp_regs64 s"
  "pc64 (put_shared64 w s) = pc64 s" "last_pc64 (put_shared64 w s) = last_pc64 s"
  "prv64 (put_shared64 w s) = prv64 s" "instr64 (put_shared64 w s) = instr64 s"
  "op64 (put_shared64 w s) = op64 s" "status64 (put_shared64 w s) = status64 s"
  "mmu64 (put_shared64 w s) = mmu64 s" "shall_exit64 (put_shared64 w s) = shall_exit64 s"
  "lr_sc_counter64 (put_shared64 w s) = lr_sc_counter64 s"
  "world64 (put_shared64 w s) = fst w" "csrs64 (put_shared64 w s) = (csrs64 s)\<lparr>mip64 := snd w\<rparr>"
  by (simp_all add: put_shared64_def)

lemma hart_wf_put_shared64 [simp]: "hart_wf64 (put_shared64 w s) = hart_wf64 s"
  by (simp add: hart_wf64_def csr_wf64_def)

lemma put_get_shared64 [simp]: "put_shared64 (get_shared64 s) s = s"
  by (simp add: put_shared64_def get_shared64_def)

lemma get_put_shared64 [simp]: "get_shared64 (put_shared64 w s) = w"
  by (simp add: put_shared64_def get_shared64_def)

end
