(* ===== verification/RawMem64.thy ===== *)
theory RawMem64
  imports Core64 RawMem
begin

text \<open>
  Accesses to physical memory of the RV64 core, \<open>rv64/mem.h\<close>: the instruction proxy (which requires
  bare mode), \<open>_do_transaction\<close>, \<open>_raw_load_data\<close> and \<open>_raw_store_data\<close>. The bus lock takes an
  \<open>unsigned\<close> hart number, so the 64-bit \<open>mhartid\<close> is truncated.
\<close>

unbundle bit_operations_syntax

definition inc_time64 :: "nat \<Rightarrow> ('d ISS64, unit) act" where
  "inc_time64 d = modifyM (\<lambda>s. s\<lparr>quantum_keeper64 := quantum_keeper64 s + d\<rparr>)"

definition wait_access64 :: "'d env64 \<Rightarrow> ('d ISS64, unit) act" where
  "wait_access64 env = bindM (getsM get_hart_id64) (\<lambda>h.
     on_shared64 (wait_for_access_rights shared_lock64 (wait_lock_event64 env) (ucast h)))"

definition lock_bus64 :: "'d env64 \<Rightarrow> ('d ISS64, unit) act" where
  "lock_bus64 env = bindM (getsM get_hart_id64) (\<lambda>h.
     on_shared64 (lock_act shared_lock64 put_shared_lock64 (wait_lock_event64 env) (ucast h)))"

definition atomic_unlock64 :: "'d ISS64 \<Rightarrow> 'd ISS64" where
  "atomic_unlock64 s = s\<lparr>world64 := (world64 s)\<lparr>bus_lock := unlock (ucast (get_hart_id64 s)) (bus_lock (world64 s))\<rparr>\<rparr>"

definition bus_locked_by_me64 :: "'d ISS64 \<Rightarrow> bool" where
  "bus_locked_by_me64 s \<longleftrightarrow> is_locked_by (ucast (get_hart_id64 s)) (bus_lock (world64 s))"

text \<open>\<open>MemoryDMI::load\<close> and \<open>store\<close> on the host memory of the state.\<close>

definition dmi_load_act64 :: "MemoryDMI \<Rightarrow> nat \<Rightarrow> u64 \<Rightarrow> ('d ISS64, u64) act" where
  "dmi_load_act64 d n addr s = (case dmi_load d n addr (host (world64 s)) of
     Inl e \<Rightarrow> (Fail e, s)
   | Inr bs \<Rightarrow> (Ok (of_bytes bs), s))"

definition dmi_store_act64 :: "MemoryDMI \<Rightarrow> nat \<Rightarrow> u64 \<Rightarrow> u64 \<Rightarrow> ('d ISS64, unit) act" where
  "dmi_store_act64 d n addr value s = (case dmi_store d addr (to_bytes n value) (host (world64 s)) of
     Inl e \<Rightarrow> (Fail e, s)
   | Inr h \<Rightarrow> (Ok (), s\<lparr>world64 := (world64 s)\<lparr>host := h\<rparr>\<rparr>))"

definition proxy_load_instr64 :: "MemoryDMI \<Rightarrow> u64 \<Rightarrow> ('d ISS64, u64) act" where
  "proxy_load_instr64 d addr =
     seqM (assertM (\<lambda>s. satp_mode64 (satp64 (csrs64 s)) = 0))
       (seqM (inc_time64 20000) (dmi_load_act64 d 4 addr))"

definition do_transaction64 ::
    "'d env64 \<Rightarrow> tlm_command \<Rightarrow> u64 \<Rightarrow> u8 list \<Rightarrow> ('d ISS64, u8 list) act" where
  "do_transaction64 env cmd addr data =
     bindM (getsM quantum_keeper64) (\<lambda>local_delay.
     bindM (on_shared64 (isock64 env \<lparr>command = cmd, address = addr, data_ptr = data,
              response_status = TLM_OK_RESPONSE\<rparr> local_delay)) (\<lambda>(tr, local_delay').
     seqM (assertM (\<lambda>s. quantum_keeper64 s \<le> local_delay'))
       (seqM (modifyM (\<lambda>s. s\<lparr>quantum_keeper64 := local_delay'\<rparr>))
         (if is_response_error tr then
            (if cmd = TLM_READ_COMMAND then raise_trap EXC_LOAD_PAGE_FAULT addr
             else if cmd = TLM_WRITE_COMMAND then raise_trap EXC_STORE_AMO_PAGE_FAULT addr
             else failM RuntimeError)
          else ret (data_ptr tr)))))"

definition raw_load_data64 :: "'d env64 \<Rightarrow> nat \<Rightarrow> u64 \<Rightarrow> ('d ISS64, u64) act" where
  "raw_load_data64 env n addr =
     seqM (wait_access64 env)
       (bindM (getsM dmi_ranges64) (\<lambda>ds.
          case find (\<lambda>e. dmi_contains e addr) ds of
            Some e \<Rightarrow> seqM (inc_time64 40000) (dmi_load_act64 e n addr)
          | None \<Rightarrow> bindM (do_transaction64 env TLM_READ_COMMAND addr (replicate n 0))
                     (\<lambda>bs. ret (of_bytes (take n bs)))))"

text \<open>A store goes to every direct mapping that contains the address.\<close>

primrec dmi_store_all64 :: "nat \<Rightarrow> u64 \<Rightarrow> u64 \<Rightarrow> MemoryDMI list \<Rightarrow> ('d ISS64, bool) act" where
  "dmi_store_all64 n addr value [] = ret False"
| "dmi_store_all64 n addr value (e # ds) =
     (if dmi_contains e addr then
        seqM (inc_time64 40000)
          (seqM (dmi_store_act64 e n addr value)
            (bindM (dmi_store_all64 n addr value ds) (\<lambda>_. ret True)))
      else dmi_store_all64 n addr value ds)"

definition raw_store_data64 :: "'d env64 \<Rightarrow> nat \<Rightarrow> u64 \<Rightarrow> u64 \<Rightarrow> ('d ISS64, unit) act" where
  "raw_store_data64 env n addr value =
     seqM (wait_access64 env)
       (bindM (getsM dmi_ranges64) (\<lambda>ds.
        bindM (dmi_store_all64 n addr value ds) (\<lambda>done.
          seqM (if done then ret ()
                else bindM (do_transaction64 env TLM_WRITE_COMMAND addr (to_bytes n value)) (\<lambda>_. ret ()))
            (modifyM atomic_unlock64))))"

section \<open>Facts\<close>

lemma atomic_unlock_fields64 [simp]:
  "regs64 (atomic_unlock64 s) = regs64 s" "fp_regs64 (atomic_unlock64 s) = fp_regs64 s"
  "pc64 (atomic_unlock64 s) = pc64 s" "last_pc64 (atomic_unlock64 s) = last_pc64 s"
  "csrs64 (atomic_unlock64 s) = csrs64 s" "prv64 (atomic_unlock64 s) = prv64 s"
  "lr_sc_counter64 (atomic_unlock64 s) = lr_sc_counter64 s" "instr64 (atomic_unlock64 s) = instr64 s"
  "op64 (atomic_unlock64 s) = op64 s" "status64 (atomic_unlock64 s) = status64 s"
  "mmu64 (atomic_unlock64 s) = mmu64 s" "dmi_ranges64 (atomic_unlock64 s) = dmi_ranges64 s"
  "lr_addr64 (atomic_unlock64 s) = lr_addr64 s" "shall_exit64 (atomic_unlock64 s) = shall_exit64 s"
  "host (world64 (atomic_unlock64 s)) = host (world64 s)"
  "devs (world64 (atomic_unlock64 s)) = devs (world64 s)"
  by (simp_all add: atomic_unlock64_def)

lemma atomic_unlock_unlocked64 [simp]: "\<not> bus_locked_by_me64 (atomic_unlock64 s)"
  by (simp add: bus_locked_by_me64_def atomic_unlock64_def get_hart_id64_def)

text \<open>
  The part of a hart that no memory access changes: everything but the shared state, the local
  time, the TLB and the reservation.
\<close>

definition hart_view64 :: "'d ISS64 \<Rightarrow> _" where
  "hart_view64 s = (regs64 s, fp_regs64 s, pc64 s, last_pc64 s, (csrs64 s)\<lparr>mip64 := 0\<rparr>, prv64 s, lr_sc_counter64 s,
     instr64 s, op64 s, status64 s, shall_exit64 s, dmi_ranges64 s, ignore_wfi64 s, breakpoints64 s, debug_mode64 s,
     instr_mem64 s, cycle_counter64 s, softfloat_roundingMode64 s,
     softfloat_exceptionFlags64 s)"

lemma hart_view_wf64: "hart_view64 s' = hart_view64 s \<Longrightarrow> hart_wf64 s' = hart_wf64 s"
proof -
  assume *: "hart_view64 s' = hart_view64 s"
  then have "(csrs64 s')\<lparr>mip64 := 0\<rparr> = (csrs64 s)\<lparr>mip64 := 0\<rparr>"
    by (simp add: hart_view64_def)
  from this [THEN arg_cong, of pmpaddr64] this [THEN arg_cong, of pmpcfg64]
  have "pmpaddr64 (csrs64 s') = pmpaddr64 (csrs64 s)" "pmpcfg64 (csrs64 s') = pmpcfg64 (csrs64 s)"
    by simp_all
  with * show ?thesis by (simp add: hart_view64_def hart_wf64_def csr_wf64_def)
qed

lemma keeps_hart_view_wf64: "keeps hart_view64 m \<Longrightarrow> preserves hart_wf64 m"
  unfolding keeps_def preserves_def using hart_view_wf64 by blast

lemma hart_view_simps64 [simp]:
  "hart_view64 (put_shared64 w s) = hart_view64 s"
  "hart_view64 (atomic_unlock64 s) = hart_view64 s"
  "hart_view64 (s\<lparr>quantum_keeper64 := q\<rparr>) = hart_view64 s"
  "hart_view64 (s\<lparr>world64 := w'\<rparr>) = hart_view64 s"
  "hart_view64 (s\<lparr>mmu64 := m\<rparr>) = hart_view64 s"
  "hart_view64 (s\<lparr>lr_addr64 := a\<rparr>) = hart_view64 s"
  by (simp_all add: hart_view64_def put_shared64_def atomic_unlock64_def)

lemma hart_view_projs64:
  assumes "hart_view64 s' = hart_view64 s"
  shows "regs64 s' = regs64 s" "fp_regs64 s' = fp_regs64 s" "pc64 s' = pc64 s" "last_pc64 s' = last_pc64 s"
    "prv64 s' = prv64 s" "lr_sc_counter64 s' = lr_sc_counter64 s" "instr64 s' = instr64 s" "op64 s' = op64 s"
    "status64 s' = status64 s" "shall_exit64 s' = shall_exit64 s" "dmi_ranges64 s' = dmi_ranges64 s"
    "misa64 (csrs64 s') = misa64 (csrs64 s)" "mhartid64 (csrs64 s') = mhartid64 (csrs64 s)"
    "mstatus64 (csrs64 s') = mstatus64 (csrs64 s)" "satp64 (csrs64 s') = satp64 (csrs64 s)"
    "get_hart_id64 s' = get_hart_id64 s"
proof -
  have c: "(csrs64 s')\<lparr>mip64 := 0\<rparr> = (csrs64 s)\<lparr>mip64 := 0\<rparr>"
    using assms by (simp add: hart_view64_def)
  show "misa64 (csrs64 s') = misa64 (csrs64 s)" "mhartid64 (csrs64 s') = mhartid64 (csrs64 s)"
    "mstatus64 (csrs64 s') = mstatus64 (csrs64 s)" "satp64 (csrs64 s') = satp64 (csrs64 s)"
    "get_hart_id64 s' = get_hart_id64 s"
    using c [THEN arg_cong, of misa64] c [THEN arg_cong, of mhartid64]
      c [THEN arg_cong, of mstatus64] c [THEN arg_cong, of satp64]
    by (simp_all add: get_hart_id64_def)
qed (use assms in \<open>simp_all add: hart_view64_def\<close>)

lemma keeps_view_on_shared64 [keeps_intros]: "keeps hart_view64 (on_shared64 m)"
  by (rule keeps_zoom) simp

lemma raw_keeps_view64 [keeps_intros]:
  "keeps hart_view64 (inc_time64 d)"
  "keeps hart_view64 (wait_access64 env)"
  "keeps hart_view64 (lock_bus64 env)"
  "keeps hart_view64 (modifyM atomic_unlock64)"
  unfolding inc_time64_def wait_access64_def lock_bus64_def by (intro keeps_intros; simp)+

lemma dmi_keeps_view64 [keeps_intros]:
  "keeps hart_view64 (dmi_load_act64 d n addr)"
  "keeps hart_view64 (dmi_store_act64 d n addr v)"
  by (simp_all add: keeps_def dmi_load_act64_def dmi_store_act64_def split: sum.split)

lemma do_transaction_keeps_view64 [keeps_intros]: "keeps hart_view64 (do_transaction64 env cmd addr bs)"
  unfolding do_transaction64_def by (intro keeps_intros; simp)

lemma proxy_keeps_view64 [keeps_intros]: "keeps hart_view64 (proxy_load_instr64 d addr)"
  unfolding proxy_load_instr64_def by (intro keeps_intros)

lemma raw_load_keeps_view64 [keeps_intros]: "keeps hart_view64 (raw_load_data64 env n addr)"
  unfolding raw_load_data64_def by (intro keeps_intros)

lemma dmi_store_all_keeps_view64 [keeps_intros]: "keeps hart_view64 (dmi_store_all64 n addr v ds)"
proof (induction ds)
  case (Cons d ds)
  then show ?case unfolding dmi_store_all64.simps by (intro keeps_intros)
qed (simp only: dmi_store_all64.simps keeps_basic)

lemma raw_store_keeps_view64 [keeps_intros]: "keeps hart_view64 (raw_store_data64 env n addr v)"
  unfolding raw_store_data64_def by (intro keeps_intros)

section \<open>Accesses through a direct mapping\<close>

text \<open>
  What a load or store does when the address lies in a direct mapping and the bus is not locked by
  another hart, as pure functions on the mappings and the host memory.
\<close>

definition has_access64 :: "'d ISS64 \<Rightarrow> bool" where
  "has_access64 s \<longleftrightarrow> \<not> is_locked (bus_lock (world64 s)) \<or> bus_locked_by_me64 s"

lemma wait_access_granted64: "has_access64 s \<Longrightarrow> wait_access64 env s = (Ok (), s)"
  by (simp add: wait_access64_def has_access64_def bus_locked_by_me64_def wait_for_access_rights_def
      zoomM_def whenM_def) (auto simp: get_shared64_def put_shared64_def)

lemma wait_access_bind64: "has_access64 s \<Longrightarrow> bindM (wait_access64 env) f s = f () s"
  by (simp add: bindM_def wait_access_granted64)

lemma raw_load_data_dmi64:
  assumes "has_access64 s" and "phys_load (dmi_ranges64 s) (host (world64 s)) n addr = Some v"
  shows "raw_load_data64 env n addr s = (Ok v, s\<lparr>quantum_keeper64 := quantum_keeper64 s + 40000\<rparr>)"
proof -
  from assms(2) obtain e bs where e: "find (\<lambda>e. dmi_contains e addr) (dmi_ranges64 s) = Some e"
      "dmi_load e n addr (host (world64 s)) = Inr bs" "v = of_bytes bs"
    by (auto simp: phys_load_def split: option.splits sum.splits)
  then show ?thesis
    by (simp add: raw_load_data64_def seqM_def wait_access_bind64 [OF assms(1)]
        inc_time64_def dmi_load_act64_def)
qed

text \<open>
  With a single mapping a store is the store of that mapping, and it always ends a reservation.
\<close>

lemma raw_store_data_dmi64:
  assumes "has_access64 s" and "dmi_ranges64 s = [d]" and "dmi_contains d addr"
    and "dmi_store d addr (to_bytes n v) (host (world64 s)) = Inr h"
  shows "raw_store_data64 env n addr v s =
    (Ok (), atomic_unlock64 (s\<lparr>quantum_keeper64 := quantum_keeper64 s + 40000,
       world64 := (world64 s)\<lparr>host := h\<rparr>\<rparr>))"
  using assms(2-)
  by (simp add: raw_store_data64_def seqM_def wait_access_bind64 [OF assms(1)])
    (simp add: bindM_def inc_time64_def dmi_store_act64_def)

lemma has_access_time64 [simp]: "has_access64 (s\<lparr>quantum_keeper64 := q\<rparr>) = has_access64 s"
  by (simp add: has_access64_def bus_locked_by_me64_def get_hart_id64_def)

text \<open>A successful store leaves the bus unlocked by this hart, however it was done.\<close>

lemma raw_store_unlocks64:
  "raw_store_data64 env n addr v s = (Ok (), s') \<Longrightarrow> \<not> bus_locked_by_me64 s'"
  unfolding raw_store_data64_def seqM_def
  by (auto elim!: bindM_OkE)


end
