(* ===== verification/Mmu64.thy ===== *)
theory Mmu64
  imports RawMem64 Mmu
begin

text \<open>
  \<open>core/common/mmu.h\<close>, instantiated for the RV64 hart as in \<open>rv64/mmu.h\<close>: 64-bit virtual addresses,
  three or four levels of 64-bit page table entries (Sv39 and Sv48), and the TLB. Page table
  entries, faults, the TLB itself and the specification of a walk are those of \<open>Mmu\<close>.
\<close>

unbundle bit_operations_syntax

section \<open>The page table walk\<close>

definition decode_vm_info64 :: "PrivilegeLevel \<Rightarrow> ('d ISS64, vm_info) act" where
  "decode_vm_info64 p =
     seqM (assertM (\<lambda>_. p \<le> SupervisorMode))
       (bindM (getsM (\<lambda>s. satp64 (csrs64 s))) (\<lambda>r.
          let base = push_bit PGSHIFT (satp_ppn64 r); mode = (ucast (satp_mode64 r) :: u32) in
          if mode = SATP_MODE_SV32 then ret \<lparr>levels = 2, idxbits = 10, ptesize = 4, ptbase = base\<rparr>
          else if mode = SATP_MODE_SV39 then ret \<lparr>levels = 3, idxbits = 9, ptesize = 8, ptbase = base\<rparr>
          else if mode = SATP_MODE_SV48 then ret \<lparr>levels = 4, idxbits = 9, ptesize = 8, ptbase = base\<rparr>
          else if mode = SATP_MODE_SV57 then ret \<lparr>levels = 5, idxbits = 9, ptesize = 8, ptbase = base\<rparr>
          else if mode = SATP_MODE_SV64 then ret \<lparr>levels = 6, idxbits = 9, ptesize = 8, ptbase = base\<rparr>
          else failM RuntimeError))"

abbreviation (input) xlen64 :: nat where "xlen64 \<equiv> 64"

definition check_vaddr_extension64 :: "u64 \<Rightarrow> vm_info \<Rightarrow> bool" where
  "check_vaddr_extension64 vaddr vm =
     (let highbit = idxbits vm * levels vm + PGSHIFT - 1;
          ext_mask = push_bit (xlen64 - highbit) 1 - 1;
          bits = drop_bit highbit vaddr AND ext_mask
      in bits = 0 \<or> bits = ext_mask)"

definition mmu_load_pte64_64 :: "'d env64 \<Rightarrow> u64 \<Rightarrow> ('d ISS64, u64) act" where
  "mmu_load_pte64_64 env addr = raw_load_data64 env 8 addr"

definition mmu_load_pte32_64 :: "'d env64 \<Rightarrow> u64 \<Rightarrow> ('d ISS64, u64) act" where
  "mmu_load_pte32_64 env addr = raw_load_data64 env 4 addr"

definition mmu_store_pte32_64 :: "'d env64 \<Rightarrow> u64 \<Rightarrow> u64 \<Rightarrow> ('d ISS64, unit) act" where
  "mmu_store_pte32_64 env addr value = raw_store_data64 env 4 addr value"

text \<open>
  The loop over the levels, from the highest to 0: the number of levels left, minus one, is the
  loop variable \<open>i\<close>. Leaving the loop (\<open>break\<close>, or no level left) raises the page fault.
\<close>

primrec walk_loop64 ::
    "'d env64 \<Rightarrow> u64 \<Rightarrow> MemoryAccessType \<Rightarrow> bool \<Rightarrow> bool \<Rightarrow> bool \<Rightarrow> vm_info \<Rightarrow> nat \<Rightarrow> u64
       \<Rightarrow> ('d ISS64, u64) act" where
  "walk_loop64 env vaddr type smode sumb mxr vm 0 base = page_fault type vaddr"
| "walk_loop64 env vaddr type smode sumb mxr vm (Suc i) base =
     (let ptshift = i * idxbits vm;
          vpn_field = drop_bit (PGSHIFT + ptshift) vaddr AND (push_bit (idxbits vm) 1 - 1);
          pte_paddr = base + vpn_field * of_nat (ptesize vm)
      in bindM (if ptesize vm = 4 then mmu_load_pte32_64 env pte_paddr else mmu_load_pte64_64 env pte_paddr)
      (\<lambda>pte. let ppn = drop_bit PTE_PPN_SHIFT pte in
       if \<not> pte_V pte \<or> (\<not> pte_R pte \<and> pte_W pte) then page_fault type vaddr
       else if \<not> pte_R pte \<and> \<not> pte_X pte then
         walk_loop64 env vaddr type smode sumb mxr vm i (push_bit PGSHIFT ppn)
       else if type = FETCH \<and> \<not> pte_X pte then page_fault type vaddr
       else if type = LOAD \<and> \<not> pte_R pte \<and> \<not> (mxr \<and> pte_X pte) then page_fault type vaddr
       else if type = STORE \<and> \<not> (pte_R pte \<and> pte_W pte) then page_fault type vaddr
       else if (if pte_U pte then smode \<and> (type = FETCH \<or> \<not> sumb) else \<not> smode) then
         page_fault type vaddr
       else if ppn AND (push_bit ptshift 1 - 1) \<noteq> 0 then page_fault type vaddr
       else
         (let ad = PTE_A OR (if type = STORE then PTE_D else 0);
              pmask = push_bit ptshift 1 - 1;
              vpn = drop_bit PGSHIFT vaddr;
              pgoff = vaddr AND PGMASK;
              paddr = push_bit PGSHIFT ((ppn AND NOT pmask) OR (vpn AND pmask)) OR pgoff
          in if pte AND ad \<noteq> ad then
               bindM (getsM (\<lambda>s. page_fault_on_AD (mmu64 s))) (\<lambda>fault_on_AD.
                 if fault_on_AD then page_fault type vaddr
                 else seqM (mmu_store_pte32_64 env pte_paddr (pte OR ad)) (ret paddr))
             else ret paddr)))"

definition walk64 ::
    "'d env64 \<Rightarrow> u64 \<Rightarrow> MemoryAccessType \<Rightarrow> PrivilegeLevel \<Rightarrow> ('d ISS64, u64) act" where
  "walk64 env vaddr type mode =
     bindM (getsM (\<lambda>s. mstatus64 (csrs64 s))) (\<lambda>st.
     bindM (decode_vm_info64 mode) (\<lambda>vm.
       walk_loop64 env vaddr type (mode = SupervisorMode) (mstatus_sum64 st \<noteq> 0) (mstatus_mxr64 st \<noteq> 0) vm
         (if check_vaddr_extension64 vaddr vm then levels vm else 0) (ptbase vm)))"

section \<open>Translation with the TLB\<close>

definition tlb_lookup64 :: "PrivilegeLevel \<Rightarrow> MemoryAccessType \<Rightarrow> u64 \<Rightarrow> 'd ISS64 \<Rightarrow> tlb_entry_t" where
  "tlb_lookup64 mode type idx s = tlb (mmu64 s) mode type idx"

definition set_tlb_entry64 :: "PrivilegeLevel \<Rightarrow> MemoryAccessType \<Rightarrow> u64 \<Rightarrow> tlb_entry_t \<Rightarrow> 'd ISS64 \<Rightarrow> 'd ISS64" where
  "set_tlb_entry64 mode type idx e s = s\<lparr>mmu64 := (mmu64 s)\<lparr>tlb :=
     (\<lambda>md t i. if md = mode \<and> t = type \<and> i = idx then e else tlb (mmu64 s) md t i)\<rparr>\<rparr>"

text \<open>The privilege the access is made with: \<open>mstatus.mprv\<close> applies to loads and stores.\<close>

definition access_mode64 :: "MemoryAccessType \<Rightarrow> 'd ISS64 \<Rightarrow> PrivilegeLevel" where
  "access_mode64 type s =
     (if type \<noteq> FETCH \<and> mstatus_mprv64 (mstatus64 (csrs64 s)) \<noteq> 0 then ucast (mstatus_mpp64 (mstatus64 (csrs64 s))) else prv64 s)"

definition translate_virtual_to_physical_addr64 ::
    "'d env64 \<Rightarrow> u64 \<Rightarrow> MemoryAccessType \<Rightarrow> ('d ISS64, u64) act" where
  "translate_virtual_to_physical_addr64 env vaddr type =
     bindM (getsM (\<lambda>s. ucast (satp_mode64 (satp64 (csrs64 s))))) (\<lambda>sm.
     if sm = SATP_MODE_BARE then ret vaddr
     else bindM (getsM (access_mode64 type)) (\<lambda>mode.
       if mode = MachineMode then ret vaddr
       else
         seqM (inc_time64 30000)
           (seqM (assertM (\<lambda>_. mode = 0 \<or> mode = 1))
             (let vpn = drop_bit PGSHIFT vaddr; idx = vpn mod 256 in
              bindM (getsM (tlb_lookup64 mode type idx)) (\<lambda>x.
                if tlb_vpn x = vpn then ret (tlb_ppn x OR (vaddr AND PGMASK))
                else bindM (walk64 env vaddr type mode) (\<lambda>paddr.
                  seqM (modifyM (set_tlb_entry64 mode type idx
                          \<lparr>tlb_ppn = tlb_frame paddr, tlb_vpn = vpn\<rparr>))
                    (ret paddr)))))))"

section \<open>Frame facts\<close>

lemma mmu_mem_keeps_view64 [keeps_intros]:
  "keeps hart_view64 (mmu_load_pte32_64 env a)" "keeps hart_view64 (mmu_load_pte64_64 env a)"
  "keeps hart_view64 (mmu_store_pte32_64 env a v)"
  unfolding mmu_load_pte32_64_def mmu_load_pte64_64_def mmu_store_pte32_64_def by (intro keeps_intros)+

lemma walk_loop_keeps_view64 [keeps_intros]:
  "keeps hart_view64 (walk_loop64 env vaddr type sm sumb mxr vm n base)"
proof (induction n arbitrary: base)
  case 0
  show ?case unfolding walk_loop64.simps by (rule keeps_intros)
next
  case (Suc n)
  show ?case unfolding walk_loop64.simps by (intro keeps_intros Suc)
qed

lemma decode_vm_info_keeps64 [keeps_intros]: "keeps f (decode_vm_info64 p)"
  unfolding decode_vm_info64_def by (intro keeps_intros)

lemma walk_keeps_view64 [keeps_intros]: "keeps hart_view64 (walk64 env vaddr type mode)"
  unfolding walk64_def by (intro keeps_intros)

lemma hart_view_set_tlb64 [simp]: "hart_view64 (set_tlb_entry64 mode type idx e s) = hart_view64 s"
  by (simp add: set_tlb_entry64_def)

lemma translate_keeps_view64 [keeps_intros]:
  "keeps hart_view64 (translate_virtual_to_physical_addr64 env vaddr type)"
  unfolding translate_virtual_to_physical_addr64_def by (intro keeps_intros; simp)

end
