(* ===== verification/MemIf64.thy ===== *)
theory MemIf64
  imports Mmu64
begin

text \<open>
  The virtual-address side of \<open>CombinedMemoryInterface\<close> (\<open>rv64/mem.h\<close>): loads and stores of every
  width with their sign or zero extension to 64 bits, the atomic accesses of words and doublewords
  with the bus lock, and instruction fetch.
\<close>

unbundle bit_operations_syntax

definition v2p64 :: "'d env64 \<Rightarrow> u64 \<Rightarrow> MemoryAccessType \<Rightarrow> ('d ISS64, u64) act" where
  "v2p64 env vaddr type = translate_virtual_to_physical_addr64 env vaddr type"

definition load_data64 :: "'d env64 \<Rightarrow> nat \<Rightarrow> u64 \<Rightarrow> ('d ISS64, u64) act" where
  "load_data64 env n addr = bindM (v2p64 env addr LOAD) (raw_load_data64 env n)"

definition store_data64 :: "'d env64 \<Rightarrow> nat \<Rightarrow> u64 \<Rightarrow> u64 \<Rightarrow> ('d ISS64, unit) act" where
  "store_data64 env n addr value = bindM (v2p64 env addr STORE) (\<lambda>a. raw_store_data64 env n a value)"

definition flush_tlb64 :: "('d ISS64, unit) act" where
  "flush_tlb64 = modifyM (\<lambda>s. s\<lparr>mmu64 := flush_mmu (mmu64 s)\<rparr>)"

definition load_instr64 :: "'d env64 \<Rightarrow> u64 \<Rightarrow> ('d ISS64, u32) act" where
  "load_instr64 env addr = bindM (getsM instr_mem64) (\<lambda>im. case im of
     InstrMemoryProxy d \<Rightarrow> bindM (proxy_load_instr64 d addr) (\<lambda>v. ret (ucast v))
   | CombinedMemory \<Rightarrow>
       bindM (v2p64 env addr FETCH) (\<lambda>a. bindM (raw_load_data64 env 4 a) (\<lambda>v. ret (ucast v))))"

definition load_double64 :: "'d env64 \<Rightarrow> u64 \<Rightarrow> ('d ISS64, u64) act" where
  "load_double64 env addr = load_data64 env 8 addr"

definition load_word64 :: "'d env64 \<Rightarrow> u64 \<Rightarrow> ('d ISS64, u64) act" where
  "load_word64 env addr = bindM (load_data64 env 4 addr) (\<lambda>v. ret (scast (ucast v :: u32)))"

definition load_half64 :: "'d env64 \<Rightarrow> u64 \<Rightarrow> ('d ISS64, u64) act" where
  "load_half64 env addr = bindM (load_data64 env 2 addr) (\<lambda>v. ret (scast (ucast v :: u16)))"

definition load_byte64 :: "'d env64 \<Rightarrow> u64 \<Rightarrow> ('d ISS64, u64) act" where
  "load_byte64 env addr = bindM (load_data64 env 1 addr) (\<lambda>v. ret (scast (ucast v :: u8)))"

definition load_uword64 :: "'d env64 \<Rightarrow> u64 \<Rightarrow> ('d ISS64, u64) act" where
  "load_uword64 env addr = bindM (load_data64 env 4 addr) (\<lambda>v. ret (ucast (ucast v :: u32)))"

definition load_uhalf64 :: "'d env64 \<Rightarrow> u64 \<Rightarrow> ('d ISS64, u64) act" where
  "load_uhalf64 env addr = bindM (load_data64 env 2 addr) (\<lambda>v. ret (ucast (ucast v :: u16)))"

definition load_ubyte64 :: "'d env64 \<Rightarrow> u64 \<Rightarrow> ('d ISS64, u64) act" where
  "load_ubyte64 env addr = bindM (load_data64 env 1 addr) (\<lambda>v. ret (ucast (ucast v :: u8)))"

definition store_double64 :: "'d env64 \<Rightarrow> u64 \<Rightarrow> u64 \<Rightarrow> ('d ISS64, unit) act" where
  "store_double64 env addr value = store_data64 env 8 addr value"

definition store_word64 :: "'d env64 \<Rightarrow> u64 \<Rightarrow> u32 \<Rightarrow> ('d ISS64, unit) act" where
  "store_word64 env addr value = store_data64 env 4 addr (ucast value)"

definition store_half64 :: "'d env64 \<Rightarrow> u64 \<Rightarrow> u16 \<Rightarrow> ('d ISS64, unit) act" where
  "store_half64 env addr value = store_data64 env 2 addr (ucast value)"

definition store_byte64 :: "'d env64 \<Rightarrow> u64 \<Rightarrow> u8 \<Rightarrow> ('d ISS64, unit) act" where
  "store_byte64 env addr value = store_data64 env 1 addr (ucast value)"

text \<open>
  The template functions \<open>_atomic_load_data\<close>, \<open>_atomic_store_data\<close>, \<open>_atomic_load_reserved_data\<close> and
  \<open>_atomic_store_conditional_data\<close>; the size of \<open>T\<close> is an argument.
\<close>

definition atomic_load_data64 :: "'d env64 \<Rightarrow> nat \<Rightarrow> u64 \<Rightarrow> ('d ISS64, u64) act" where
  "atomic_load_data64 env n addr = seqM (lock_bus64 env) (load_data64 env n addr)"

definition atomic_store_data64 :: "'d env64 \<Rightarrow> nat \<Rightarrow> u64 \<Rightarrow> u64 \<Rightarrow> ('d ISS64, unit) act" where
  "atomic_store_data64 env n addr value =
     seqM (assertM bus_locked_by_me64) (store_data64 env n addr value)"

definition atomic_load_reserved_data64 :: "'d env64 \<Rightarrow> nat \<Rightarrow> u64 \<Rightarrow> ('d ISS64, u64) act" where
  "atomic_load_reserved_data64 env n addr =
     seqM (lock_bus64 env) (seqM (modifyM (\<lambda>s. s\<lparr>lr_addr64 := addr\<rparr>)) (load_data64 env n addr))"

definition atomic_store_conditional_data64 ::
    "'d env64 \<Rightarrow> nat \<Rightarrow> u64 \<Rightarrow> u64 \<Rightarrow> ('d ISS64, bool) act" where
  "atomic_store_conditional_data64 env n addr value =
     bindM (getsM bus_locked_by_me64) (\<lambda>l.
       if l then
         bindM (getsM lr_addr64) (\<lambda>la.
           if addr = la then seqM (store_data64 env n addr value) (ret True)
           else seqM (modifyM atomic_unlock64) (ret False))
       else ret False)"

definition atomic_load_word64 :: "'d env64 \<Rightarrow> u64 \<Rightarrow> ('d ISS64, u64) act" where
  "atomic_load_word64 env addr =
     bindM (atomic_load_data64 env 4 addr) (\<lambda>v. ret (scast (ucast v :: u32)))"

definition atomic_load_reserved_word64 :: "'d env64 \<Rightarrow> u64 \<Rightarrow> ('d ISS64, u64) act" where
  "atomic_load_reserved_word64 env addr =
     bindM (atomic_load_reserved_data64 env 4 addr) (\<lambda>v. ret (scast (ucast v :: u32)))"

definition atomic_store_word64 :: "'d env64 \<Rightarrow> u64 \<Rightarrow> u32 \<Rightarrow> ('d ISS64, unit) act" where
  "atomic_store_word64 env addr value = atomic_store_data64 env 4 addr (ucast value)"

definition atomic_store_conditional_word64 :: "'d env64 \<Rightarrow> u64 \<Rightarrow> u32 \<Rightarrow> ('d ISS64, bool) act" where
  "atomic_store_conditional_word64 env addr value = atomic_store_conditional_data64 env 4 addr (ucast value)"

definition atomic_load_double64 :: "'d env64 \<Rightarrow> u64 \<Rightarrow> ('d ISS64, u64) act" where
  "atomic_load_double64 env addr = atomic_load_data64 env 8 addr"

definition atomic_load_reserved_double64 :: "'d env64 \<Rightarrow> u64 \<Rightarrow> ('d ISS64, u64) act" where
  "atomic_load_reserved_double64 env addr = atomic_load_reserved_data64 env 8 addr"

definition atomic_store_double64 :: "'d env64 \<Rightarrow> u64 \<Rightarrow> u64 \<Rightarrow> ('d ISS64, unit) act" where
  "atomic_store_double64 env addr value = atomic_store_data64 env 8 addr value"

definition atomic_store_conditional_double64 :: "'d env64 \<Rightarrow> u64 \<Rightarrow> u64 \<Rightarrow> ('d ISS64, bool) act" where
  "atomic_store_conditional_double64 env addr value = atomic_store_conditional_data64 env 8 addr value"

section \<open>Frame facts\<close>

lemma v2p_keeps_view64 [keeps_intros]: "keeps hart_view64 (v2p64 env vaddr type)"
  unfolding v2p64_def by (intro keeps_intros)

lemma data_keeps_view64 [keeps_intros]:
  "keeps hart_view64 (load_data64 env n addr)" "keeps hart_view64 (store_data64 env n addr v)"
  unfolding load_data64_def store_data64_def by (intro keeps_intros)+

lemma load_keeps_view64 [keeps_intros]:
  "keeps hart_view64 (load_double64 env addr)" "keeps hart_view64 (load_word64 env addr)"
  "keeps hart_view64 (load_half64 env addr)" "keeps hart_view64 (load_byte64 env addr)"
  "keeps hart_view64 (load_uword64 env addr)" "keeps hart_view64 (load_uhalf64 env addr)" "keeps hart_view64 (load_ubyte64 env addr)"
  unfolding load_double64_def load_word64_def load_half64_def load_byte64_def load_uword64_def load_uhalf64_def load_ubyte64_def
  by (intro keeps_intros)+

lemma store_keeps_view64 [keeps_intros]:
  "keeps hart_view64 (store_double64 env addr v8)" "keeps hart_view64 (store_word64 env addr v4)"
  "keeps hart_view64 (store_half64 env addr v2)" "keeps hart_view64 (store_byte64 env addr v1)"
  unfolding store_double64_def store_word64_def store_half64_def store_byte64_def
  by (intro keeps_intros)+

lemma flush_tlb_keeps_view64 [keeps_intros]: "keeps hart_view64 flush_tlb64"
  unfolding flush_tlb64_def by (intro keeps_intros; simp)

lemma load_instr_keeps_view64 [keeps_intros]: "keeps hart_view64 (load_instr64 env addr)"
proof -
  have "keeps hart_view64 (case im of
      InstrMemoryProxy d \<Rightarrow> bindM (proxy_load_instr64 d addr) (\<lambda>v. ret (ucast v :: u32))
    | CombinedMemory \<Rightarrow>
       bindM (v2p64 env addr FETCH) (\<lambda>a. bindM (raw_load_data64 env 4 a) (\<lambda>v. ret (ucast v))))" for im
    by (cases im; simp only: instr_memory.case; intro keeps_intros)
  then show ?thesis unfolding load_instr64_def by (intro keeps_intros)
qed

lemma atomic_data_keeps_view64 [keeps_intros]:
  "keeps hart_view64 (atomic_load_data64 env n addr)" "keeps hart_view64 (atomic_store_data64 env n addr v)"
  "keeps hart_view64 (atomic_load_reserved_data64 env n addr)"
  "keeps hart_view64 (atomic_store_conditional_data64 env n addr v)"
  unfolding atomic_load_data64_def atomic_store_data64_def atomic_load_reserved_data64_def
    atomic_store_conditional_data64_def
  by (intro keeps_intros; simp)+

lemma atomic_keeps_view64 [keeps_intros]:
  "keeps hart_view64 (atomic_load_word64 env addr)" "keeps hart_view64 (atomic_store_word64 env addr v4)"
  "keeps hart_view64 (atomic_load_reserved_word64 env addr)"
  "keeps hart_view64 (atomic_store_conditional_word64 env addr v4)"
  "keeps hart_view64 (atomic_load_double64 env addr)" "keeps hart_view64 (atomic_store_double64 env addr v8)"
  "keeps hart_view64 (atomic_load_reserved_double64 env addr)"
  "keeps hart_view64 (atomic_store_conditional_double64 env addr v8)"
  unfolding atomic_load_word64_def atomic_store_word64_def atomic_load_reserved_word64_def
    atomic_store_conditional_word64_def atomic_load_double64_def atomic_store_double64_def
    atomic_load_reserved_double64_def atomic_store_conditional_double64_def
  by (intro keeps_intros)+

section \<open>Loads and stores without translation\<close>

text \<open>
  A hart with \<open>satp\<close> in bare mode, or in machine mode, uses the address as it is.
\<close>

definition untranslated64 :: "MemoryAccessType \<Rightarrow> 'd ISS64 \<Rightarrow> bool" where
  "untranslated64 type s \<longleftrightarrow>
     satp_mode64 (satp64 (csrs64 s)) = 0 \<or> access_mode64 type s = MachineMode"

lemma v2p_untranslated64: "untranslated64 type s \<Longrightarrow> v2p64 env vaddr type s = (Ok vaddr, s)"
  by (auto simp: untranslated64_def v2p64_def translate_virtual_to_physical_addr64_def split: option.split)

lemma load_data_untranslated64:
  "untranslated64 LOAD s \<Longrightarrow> load_data64 env n addr s = raw_load_data64 env n addr s"
  by (simp add: load_data64_def bindM_def v2p_untranslated64)

lemma store_data_untranslated64:
  "untranslated64 STORE s \<Longrightarrow> store_data64 env n addr v s = raw_store_data64 env n addr v s"
  by (simp add: store_data64_def bindM_def v2p_untranslated64)

end
