(* ===== verification/Iss64_Trap.thy ===== *)
theory Iss64_Trap
  imports MemIf64
begin

text \<open>
  Traps and interrupts of the RV64 hart (\<open>rv64/iss.cpp\<close>): the interrupt lines, the selection of a
  pending interrupt, the trap causes, entering and leaving a trap handler. The trap value is kept
  at its 64 bits.
\<close>

unbundle bit_operations_syntax

definition upd_csrs64 :: "(csr_table64 \<Rightarrow> csr_table64) \<Rightarrow> 'd ISS64 \<Rightarrow> 'd ISS64" where
  "upd_csrs64 f s = s\<lparr>csrs64 := f (csrs64 s)\<rparr>"

definition release_lr_sc_reservation64 :: "'d ISS64 \<Rightarrow> 'd ISS64" where
  "release_lr_sc_reservation64 s = atomic_unlock64 (s\<lparr>lr_sc_counter64 := 0\<rparr>)"

section \<open>Interrupt lines\<close>

text \<open>Each also notifies \<open>wfi_event\<close> (except the clearing of an external interrupt).\<close>

definition set_external64 :: "bool \<Rightarrow> PrivilegeLevel \<Rightarrow> u64 \<Rightarrow> u64" where
  "set_external64 b level r =
     (if level = UserMode then set_mip_ueip64 (if b then 1 else 0) r
      else if level = SupervisorMode then set_mip_seip64 (if b then 1 else 0) r
      else if level = MachineMode then set_mip_meip64 (if b then 1 else 0) r
      else r)"

definition trigger_external_interrupt64 :: "PrivilegeLevel \<Rightarrow> 'd ISS64 \<Rightarrow> 'd ISS64" where
  "trigger_external_interrupt64 level = upd_csrs64 (\<lambda>c. c\<lparr>mip64 := set_external64 True level (mip64 c)\<rparr>)"

definition clear_external_interrupt64 :: "PrivilegeLevel \<Rightarrow> 'd ISS64 \<Rightarrow> 'd ISS64" where
  "clear_external_interrupt64 level = upd_csrs64 (\<lambda>c. c\<lparr>mip64 := set_external64 False level (mip64 c)\<rparr>)"

definition trigger_timer_interrupt64 :: "bool \<Rightarrow> 'd ISS64 \<Rightarrow> 'd ISS64" where
  "trigger_timer_interrupt64 st = upd_csrs64 (\<lambda>c. c\<lparr>mip64 := set_mip_mtip64 (if st then 1 else 0) (mip64 c)\<rparr>)"

definition trigger_software_interrupt64 :: "bool \<Rightarrow> 'd ISS64 \<Rightarrow> 'd ISS64" where
  "trigger_software_interrupt64 st = upd_csrs64 (\<lambda>c. c\<lparr>mip64 := set_mip_msip64 (if st then 1 else 0) (mip64 c)\<rparr>)"

section \<open>Pending interrupts\<close>

record PendingInterrupts64 =
  target_mode64 :: PrivilegeLevel
  pending64 :: u64

definition compute_pending_interrupts64 :: "'d ISS64 \<Rightarrow> PendingInterrupts64" where
  "compute_pending_interrupts64 s =
     (let c = csrs64 s; pend = mie64 c AND mip64 c in
      if pend = 0 then \<lparr>target_mode64 = NoneMode, pending64 = 0\<rparr>
      else let m_pending = pend AND NOT (mideleg64 c) in
      if m_pending \<noteq> 0 \<and> (prv64 s < MachineMode \<or> (prv64 s = MachineMode \<and> mstatus_mie64 (mstatus64 c) \<noteq> 0))
      then \<lparr>target_mode64 = MachineMode, pending64 = m_pending\<rparr>
      else let pend = pend AND mideleg64 c; s_pending = pend AND NOT (sideleg64 c) in
      if s_pending \<noteq> 0 \<and> (prv64 s < SupervisorMode \<or> (prv64 s = SupervisorMode \<and> mstatus_sie64 (mstatus64 c) \<noteq> 0))
      then \<lparr>target_mode64 = SupervisorMode, pending64 = s_pending\<rparr>
      else let u_pending = pend AND sideleg64 c in
      if u_pending \<noteq> 0 \<and> (prv64 s = UserMode \<and> mstatus_uie64 (mstatus64 c) \<noteq> 0)
      then \<lparr>target_mode64 = UserMode, pending64 = u_pending\<rparr>
      else \<lparr>target_mode64 = NoneMode, pending64 = 0\<rparr>)"

definition has_pending_enabled_interrupts64 :: "'d ISS64 \<Rightarrow> bool" where
  "has_pending_enabled_interrupts64 s \<longleftrightarrow> target_mode64 (compute_pending_interrupts64 s) \<noteq> NoneMode"

definition has_local_pending_enabled_interrupts64 :: "'d ISS64 \<Rightarrow> bool" where
  "has_local_pending_enabled_interrupts64 s \<longleftrightarrow> mie64 (csrs64 s) AND mip64 (csrs64 s) \<noteq> 0"

text \<open>The code of the most important pending interrupt; \<open>None\<close> makes \<open>prepare_interrupt\<close> throw.\<close>

definition interrupt_code64 :: "u64 \<Rightarrow> ExceptionCode option" where
  "interrupt_code64 x =
     (if mip_meip64 x \<noteq> 0 then Some EXC_M_EXTERNAL_INTERRUPT
      else if mip_msip64 x \<noteq> 0 then Some EXC_M_SOFTWARE_INTERRUPT
      else if mip_mtip64 x \<noteq> 0 then Some EXC_M_TIMER_INTERRUPT
      else if mip_seip64 x \<noteq> 0 then Some EXC_S_EXTERNAL_INTERRUPT
      else if mip_ssip64 x \<noteq> 0 then Some EXC_S_SOFTWARE_INTERRUPT
      else if mip_stip64 x \<noteq> 0 then Some EXC_S_TIMER_INTERRUPT
      else if mip_ueip64 x \<noteq> 0 then Some EXC_U_EXTERNAL_INTERRUPT
      else if mip_usip64 x \<noteq> 0 then Some EXC_U_SOFTWARE_INTERRUPT
      else if mip_utip64 x \<noteq> 0 then Some EXC_U_TIMER_INTERRUPT
      else None)"

definition prepare_interrupt64 :: "PendingInterrupts64 \<Rightarrow> ('d ISS64, unit) act" where
  "prepare_interrupt64 e = (case interrupt_code64 (pending64 e) of
     None \<Rightarrow> failM RuntimeError
   | Some exc \<Rightarrow>
       if target_mode64 e = MachineMode then modifyM (upd_csrs64 (\<lambda>c.
         c\<lparr>mcause64 := set_mcause_interrupt64 1 (set_mcause_exception_code64 (ucast exc) (mcause64 c))\<rparr>))
       else if target_mode64 e = SupervisorMode then modifyM (upd_csrs64 (\<lambda>c.
         c\<lparr>scause64 := set_mcause_interrupt64 1 (set_mcause_exception_code64 (ucast exc) (scause64 c))\<rparr>))
       else if target_mode64 e = UserMode then modifyM (upd_csrs64 (\<lambda>c.
         c\<lparr>ucause64 := set_mcause_interrupt64 1 (set_mcause_exception_code64 (ucast exc) (ucause64 c))\<rparr>))
       else failM RuntimeError)"

section \<open>Traps\<close>

definition trap_cause64 :: "ExceptionCode \<Rightarrow> u64 \<Rightarrow> u64" where
  "trap_cause64 reason r = set_mcause_exception_code64 (ucast reason) (set_mcause_interrupt64 0 r)"

text \<open>\<open>exc_bit\<close> is an \<open>unsigned\<close>, extended with zeros where it meets the delegation registers.\<close>

definition prepare_trap64 :: "ExceptionCode \<Rightarrow> u64 \<Rightarrow> ('d ISS64, PrivilegeLevel) act" where
  "prepare_trap64 reason tval =
     seqM (modifyM (\<lambda>s. s\<lparr>pc64 := last_pc64 s\<rparr>))
     (bindM (getsM (\<lambda>s. (prv64 s, medeleg64 (csrs64 s), sedeleg64 (csrs64 s)))) (\<lambda>(p, mdel, sdel).
       let exc_bit = ucast (push_bit (unat reason) 1 :: u32) in
       if p = MachineMode \<or> exc_bit AND mdel = 0 then
         seqM (modifyM (upd_csrs64 (\<lambda>c. c\<lparr>mcause64 := trap_cause64 reason (mcause64 c), mtval64 := tval\<rparr>)))
           (ret MachineMode)
       else if p = SupervisorMode \<or> exc_bit AND sdel = 0 then
         seqM (modifyM (upd_csrs64 (\<lambda>c. c\<lparr>scause64 := trap_cause64 reason (scause64 c), stval64 := tval\<rparr>)))
           (ret SupervisorMode)
       else
         seqM (assertM (\<lambda>_. p = UserMode \<and> exc_bit AND mdel \<noteq> 0 \<and> exc_bit AND sdel \<noteq> 0))
           (seqM (modifyM (upd_csrs64 (\<lambda>c. c\<lparr>ucause64 := trap_cause64 reason (ucause64 c), utval64 := tval\<rparr>)))
             (ret UserMode))))"

text \<open>The address of the handler: vectored for interrupts when the trap vector asks for it.\<close>

definition handler_pc64 :: "u64 \<Rightarrow> u64 \<Rightarrow> u64" where
  "handler_pc64 tvec cause =
     (if mcause_interrupt64 cause \<noteq> 0 \<and> mtvec_mode64 tvec = ucast mtvec_Vectored
      then get_base_address64 tvec + 4 * mcause_exception_code64 cause
      else get_base_address64 tvec)"

definition enter_m64 :: "PrivilegeLevel \<Rightarrow> 'd ISS64 \<Rightarrow> 'd ISS64" where
  "enter_m64 pp s =
     (let c = csrs64 s;
          st1 = set_mstatus_mpie64 (mstatus_mie64 (mstatus64 c)) (mstatus64 c);
          st2 = set_mstatus_mie64 0 st1;
          st3 = set_mstatus_mpp64 (ucast pp) st2
      in s\<lparr>csrs64 := c\<lparr>mepc64 := pc64 s, mstatus64 := st3\<rparr>, pc64 := handler_pc64 (mtvec64 c) (mcause64 c)\<rparr>)"

definition enter_s64 :: "PrivilegeLevel \<Rightarrow> 'd ISS64 \<Rightarrow> 'd ISS64" where
  "enter_s64 pp s =
     (let c = csrs64 s;
          st1 = set_mstatus_spie64 (mstatus_sie64 (mstatus64 c)) (mstatus64 c);
          st2 = set_mstatus_sie64 0 st1;
          st3 = set_mstatus_spp64 (ucast pp) st2
      in s\<lparr>csrs64 := c\<lparr>sepc64 := pc64 s, mstatus64 := st3\<rparr>, pc64 := handler_pc64 (stvec64 c) (scause64 c)\<rparr>)"

definition enter_u64 :: "'d ISS64 \<Rightarrow> 'd ISS64" where
  "enter_u64 s =
     (let c = csrs64 s;
          st1 = set_mstatus_upie64 (mstatus_uie64 (mstatus64 c)) (mstatus64 c);
          st2 = set_mstatus_uie64 0 st1
      in s\<lparr>csrs64 := c\<lparr>uepc64 := pc64 s, mstatus64 := st2\<rparr>, pc64 := handler_pc64 (utvec64 c) (ucause64 c)\<rparr>)"

definition switch_to_trap_handler64 :: "PrivilegeLevel \<Rightarrow> ('d ISS64, unit) act" where
  "switch_to_trap_handler64 target =
     seqM (modifyM release_lr_sc_reservation64)
     (bindM (getsM prv64) (\<lambda>pp.
      seqM (modifyM (\<lambda>s. s\<lparr>prv64 := target\<rparr>))
       (if target = MachineMode then modifyM (enter_m64 pp)
        else if target = SupervisorMode then
          seqM (assertM (\<lambda>s. prv64 s = SupervisorMode \<or> prv64 s = UserMode)) (modifyM (enter_s64 pp))
        else if target = UserMode then
          seqM (assertM (\<lambda>s. prv64 s = UserMode)) (modifyM enter_u64)
        else failM RuntimeError)))"

definition return_from_trap_handler64 :: "PrivilegeLevel \<Rightarrow> ('d ISS64, unit) act" where
  "return_from_trap_handler64 return_mode =
     (if return_mode = MachineMode then modifyM (\<lambda>s.
        let c = csrs64 s; st = mstatus64 c;
            st1 = set_mstatus_mie64 (mstatus_mpie64 st) st;
            st2 = set_mstatus_mpie64 1 st1;
            st3 = set_mstatus_mpp64 (ucast (if has_user_mode_extension64 (misa64 c) then UserMode else MachineMode)) st2
        in s\<lparr>prv64 := ucast (mstatus_mpp64 st), csrs64 := c\<lparr>mstatus64 := st3\<rparr>, pc64 := mepc64 c\<rparr>)
      else if return_mode = SupervisorMode then modifyM (\<lambda>s.
        let c = csrs64 s; st = mstatus64 c;
            st1 = set_mstatus_sie64 (mstatus_spie64 st) st;
            st2 = set_mstatus_spie64 1 st1;
            st3 = set_mstatus_spp64 (ucast (if has_user_mode_extension64 (misa64 c) then UserMode else SupervisorMode)) st2
        in s\<lparr>prv64 := ucast (mstatus_spp64 st), csrs64 := c\<lparr>mstatus64 := st3\<rparr>, pc64 := sepc64 c\<rparr>)
      else if return_mode = UserMode then modifyM (\<lambda>s.
        let c = csrs64 s; st = mstatus64 c;
            st1 = set_mstatus_uie64 (mstatus_upie64 st) st;
            st2 = set_mstatus_upie64 1 st1
        in s\<lparr>prv64 := UserMode, csrs64 := c\<lparr>mstatus64 := st2\<rparr>, pc64 := uepc64 c\<rparr>)
      else failM RuntimeError)"

end
