(* ===== verification/Iss64_Csr.thy ===== *)
theory Iss64_Csr
  imports Iss64_Trap Iss_Csr
begin

text \<open>
  CSR accesses of the RV64 hart (\<open>rv64/iss.cpp\<close>): the access checks of \<open>rv64/iss.h\<close>, \<open>get_csr_value\<close>
  and \<open>set_csr_value\<close>. There are no upper halves of counters and no debug registers; \<open>mstatus\<close> and
  \<open>sstatus\<close> are read and written through different masks, and a write to \<open>satp\<close> keeps the old mode
  when the new one is not supported.
\<close>

unbundle bit_operations_syntax

section \<open>Access checks\<close>

definition compute_and_get_current_cycles64 :: "('d ISS64, u64) act" where
  "compute_and_get_current_cycles64 =
     seqM (assertM (\<lambda>s. cycle_counter64 s mod cycle_time = 0))
       (getsM (\<lambda>s. of_nat (cycle_counter64 s div cycle_time)))"

definition is_invalid_csr_access64 :: "u32 \<Rightarrow> bool \<Rightarrow> 'd ISS64 \<Rightarrow> bool" where
  "is_invalid_csr_access64 csr_addr is_write s =
     (let csr_prv = drop_bit 8 (0x300 AND csr_addr);
          csr_readonly = (drop_bit 10 (0xC00 AND csr_addr) = 3)
      in (is_write \<and> csr_readonly) \<or> prv64 s < csr_prv)"

definition validate_csr_counter_read_access_rights64 :: "u32 \<Rightarrow> ('d ISS64, unit) act" where
  "validate_csr_counter_read_access_rights64 addr =
     (if addr \<ge> 0xC00 \<and> addr \<le> 0xC1F then
        (let cnt = addr AND 0x1F in
         seqM (whenM (\<lambda>s. s_mode64 s \<and> \<not> is_bitset64 (mcounteren64 (csrs64 s)) cnt) RAISE_ILLEGAL_INSTRUCTION64)
           (whenM (\<lambda>s. u_mode64 s \<and> (\<not> is_bitset64 (mcounteren64 (csrs64 s)) cnt \<or> \<not> is_bitset64 (scounteren64 (csrs64 s)) cnt))
             RAISE_ILLEGAL_INSTRUCTION64))
      else ret ())"

section \<open>Reading\<close>

text \<open>The registers that are views of another register through a mask.\<close>

definition read_view64 :: "u32 \<Rightarrow> csr_table64 \<Rightarrow> u64 option" where
  "read_view64 addr c =
     (if addr = MSTATUS_ADDR then Some (mstatus64 c AND MSTATUS_READ_MASK64)
      else if addr = SSTATUS_ADDR then Some (mstatus64 c AND SSTATUS_READ_MASK64)
      else if addr = USTATUS_ADDR then Some (mstatus64 c AND USTATUS_MASK64)
      else if addr = MIP_ADDR then Some (mip64 c AND MIP_READ_MASK64)
      else if addr = SIP_ADDR then Some (mip64 c AND SIP_MASK64)
      else if addr = UIP_ADDR then Some (mip64 c AND UIP_MASK64)
      else if addr = MIE_ADDR then Some (mie64 c AND MIE_MASK64)
      else if addr = SIE_ADDR then Some (mie64 c AND SIE_MASK64)
      else if addr = UIE_ADDR then Some (mie64 c AND UIE_MASK64)
      else if addr = FCSR_ADDR then Some (fcsr64 c AND FCSR_MASK64)
      else if addr = FFLAGS_ADDR then Some (fcsr_fflags64 (fcsr64 c))
      else if addr = FRM_ADDR then Some (fcsr_frm64 (fcsr64 c))
      else None)"

definition read_time64 :: "'d env64 \<Rightarrow> ('d ISS64, unit) act" where
  "read_time64 env = (\<lambda>s. case update_and_get_mtime64 env (get_shared64 s) of
     (mtime, w) \<Rightarrow> (Ok (), upd_csrs64 (\<lambda>c. c\<lparr>time64 := mtime\<rparr>) (put_shared64 w s)))"

definition read_cycle64 :: "('d ISS64, unit) act" where
  "read_cycle64 = bindM compute_and_get_current_cycles64
     (\<lambda>n. modifyM (upd_csrs64 (\<lambda>c. c\<lparr>cycle64 := n\<rparr>)))"

definition read_table64 :: "u32 \<Rightarrow> ('d ISS64, u64) act" where
  "read_table64 addr =
     (if \<not> is_valid_csr64_addr addr then RAISE_ILLEGAL_INSTRUCTION64
      else (\<lambda>s. case default_read64 addr (csrs64 s) of Inl e \<Rightarrow> (Fail e, s) | Inr v \<Rightarrow> (Ok v, s)))"

definition get_csr_value64 :: "'d env64 \<Rightarrow> u32 \<Rightarrow> ('d ISS64, u64) act" where
  "get_csr_value64 env addr =
     seqM (validate_csr_counter_read_access_rights64 addr)
     (if addr = TIME_ADDR \<or> addr = MTIME_ADDR then
        seqM (read_time64 env) (getsM (\<lambda>s. time64 (csrs64 s)))
      else if addr = MCYCLE_ADDR then seqM read_cycle64 (getsM (\<lambda>s. cycle64 (csrs64 s)))
      else if addr = MINSTRET_ADDR then getsM (\<lambda>s. instret64 (csrs64 s))
      else if ANY_HPMCOUNTER_RV64 addr then ret 0
      else if addr = SATP_ADDR then
        seqM (whenM (\<lambda>s. mstatus_tvm64 (mstatus64 (csrs64 s)) \<noteq> 0) RAISE_ILLEGAL_INSTRUCTION64)
          (read_table64 addr)
      else bindM (getsM (\<lambda>s. read_view64 addr (csrs64 s))) (\<lambda>r. case r of
        Some v \<Rightarrow> ret v
      | None \<Rightarrow> read_table64 addr))"

section \<open>Writing\<close>

text \<open>\<open>write(x, mask)\<close> replaces the bits of \<open>x\<close> selected by the mask.\<close>

definition masked_write64 :: "u64 \<Rightarrow> u64 \<Rightarrow> u64 \<Rightarrow> u64" where
  "masked_write64 msk value x = (x AND NOT msk) OR (value AND msk)"

definition write_view64 :: "u64 \<Rightarrow> u32 \<Rightarrow> u64 \<Rightarrow> csr_table64 \<Rightarrow> csr_table64 option" where
  "write_view64 pc_mask addr value c =
     (if addr = MTVEC_ADDR then Some (c\<lparr>mtvec64 := masked_write64 MTVEC_MASK64 value (mtvec64 c)\<rparr>)
      else if addr = STVEC_ADDR then Some (c\<lparr>stvec64 := masked_write64 MTVEC_MASK64 value (stvec64 c)\<rparr>)
      else if addr = UTVEC_ADDR then Some (c\<lparr>utvec64 := masked_write64 MTVEC_MASK64 value (utvec64 c)\<rparr>)
      else if addr = MEPC_ADDR then Some (c\<lparr>mepc64 := masked_write64 pc_mask value (mepc64 c)\<rparr>)
      else if addr = SEPC_ADDR then Some (c\<lparr>sepc64 := masked_write64 pc_mask value (sepc64 c)\<rparr>)
      else if addr = UEPC_ADDR then Some (c\<lparr>uepc64 := masked_write64 pc_mask value (uepc64 c)\<rparr>)
      else if addr = MSTATUS_ADDR then Some (c\<lparr>mstatus64 := masked_write64 MSTATUS_WRITE_MASK64 value (mstatus64 c)\<rparr>)
      else if addr = SSTATUS_ADDR then Some (c\<lparr>mstatus64 := masked_write64 SSTATUS_WRITE_MASK64 value (mstatus64 c)\<rparr>)
      else if addr = USTATUS_ADDR then Some (c\<lparr>mstatus64 := masked_write64 USTATUS_MASK64 value (mstatus64 c)\<rparr>)
      else if addr = MIP_ADDR then Some (c\<lparr>mip64 := masked_write64 MIP_WRITE_MASK64 value (mip64 c)\<rparr>)
      else if addr = SIP_ADDR then Some (c\<lparr>mip64 := masked_write64 SIP_MASK64 value (mip64 c)\<rparr>)
      else if addr = UIP_ADDR then Some (c\<lparr>mip64 := masked_write64 UIP_MASK64 value (mip64 c)\<rparr>)
      else if addr = MIE_ADDR then Some (c\<lparr>mie64 := masked_write64 MIE_MASK64 value (mie64 c)\<rparr>)
      else if addr = SIE_ADDR then Some (c\<lparr>mie64 := masked_write64 SIE_MASK64 value (mie64 c)\<rparr>)
      else if addr = UIE_ADDR then Some (c\<lparr>mie64 := masked_write64 UIE_MASK64 value (mie64 c)\<rparr>)
      else if addr = MIDELEG_ADDR then Some (c\<lparr>mideleg64 := masked_write64 MIDELEG_MASK64 value (mideleg64 c)\<rparr>)
      else if addr = MEDELEG_ADDR then Some (c\<lparr>medeleg64 := masked_write64 MEDELEG_MASK64 value (medeleg64 c)\<rparr>)
      else if addr = SIDELEG_ADDR then Some (c\<lparr>sideleg64 := masked_write64 SIDELEG_MASK64 value (sideleg64 c)\<rparr>)
      else if addr = SEDELEG_ADDR then Some (c\<lparr>sedeleg64 := masked_write64 SEDELEG_MASK64 value (sedeleg64 c)\<rparr>)
      else if addr = MCOUNTEREN_ADDR then
        Some (c\<lparr>mcounteren64 := masked_write64 MCOUNTEREN_MASK64 value (mcounteren64 c)\<rparr>)
      else if addr = SCOUNTEREN_ADDR then
        Some (c\<lparr>scounteren64 := masked_write64 MCOUNTEREN_MASK64 value (scounteren64 c)\<rparr>)
      else if addr = MCOUNTINHIBIT_ADDR then
        Some (c\<lparr>mcountinhibit64 := masked_write64 MCOUNTINHIBIT_MASK64 value (mcountinhibit64 c)\<rparr>)
      else if addr = FCSR_ADDR then Some (c\<lparr>fcsr64 := masked_write64 FCSR_MASK64 value (fcsr64 c)\<rparr>)
      else if addr = FFLAGS_ADDR then Some (c\<lparr>fcsr64 := set_fcsr_fflags64 value (fcsr64 c)\<rparr>)
      else if addr = FRM_ADDR then Some (c\<lparr>fcsr64 := set_fcsr_frm64 value (fcsr64 c)\<rparr>)
      else None)"

definition write_table64 :: "u32 \<Rightarrow> u64 \<Rightarrow> ('d ISS64, unit) act" where
  "write_table64 addr value =
     (if \<not> is_valid_csr64_addr addr then RAISE_ILLEGAL_INSTRUCTION64
      else (\<lambda>s. case default_write64 addr value (csrs64 s) of
        Inl e \<Rightarrow> (Fail e, s)
      | Inr c \<Rightarrow> (Ok (), s\<lparr>csrs64 := c\<rparr>)))"

text \<open>The field \<open>mode\<close> of the written register is checked, and restored when it is not supported.\<close>

definition satp_write64 :: "u64 \<Rightarrow> u64 \<Rightarrow> u64" where
  "satp_write64 value old =
     (let new = masked_write64 SATP_MASK64 value old
      in if satp_mode64 new \<noteq> ucast SATP_MODE_BARE \<and> satp_mode64 new \<noteq> ucast SATP_MODE_SV39 \<and>
            satp_mode64 new \<noteq> ucast SATP_MODE_SV48
         then set_satp_mode64 (satp_mode64 old) new else new)"

definition set_csr_value64 :: "u32 \<Rightarrow> u64 \<Rightarrow> ('d ISS64, unit) act" where
  "set_csr_value64 addr value =
     (if addr = MISA_ADDR \<or> ANY_HPMCOUNTER_RV64 addr then ret ()
      else if addr = SATP_ADDR then
        seqM (whenM (\<lambda>s. mstatus_tvm64 (mstatus64 (csrs64 s)) \<noteq> 0) RAISE_ILLEGAL_INSTRUCTION64)
          (modifyM (upd_csrs64 (\<lambda>c. c\<lparr>satp64 := satp_write64 value (satp64 c)\<rparr>)))
      else bindM (getsM (\<lambda>s. write_view64 (pc_alignment_mask64 s) addr value (csrs64 s))) (\<lambda>r. case r of
        Some c \<Rightarrow> modifyM (\<lambda>s. s\<lparr>csrs64 := c\<rparr>)
      | None \<Rightarrow> write_table64 addr value))"

section \<open>Facts\<close>

lemma masked_write_read64: "masked_write64 msk v x AND msk = v AND msk"
  by (rule bit_word_eqI) (auto simp: masked_write64_def bit_simps)

lemma masked_write_keeps64: "msk AND m = 0 \<Longrightarrow> masked_write64 msk v x AND m = x AND m"
proof -
  assume *: "msk AND m = 0"
  have "bit (masked_write64 msk v x AND m) n = bit (x AND m) n" for n
  proof -
    have "\<not> (bit msk n \<and> bit m n)"
      using * by (metis bit_and_iff bit_0_eq bot_apply bot_bool_def)
    then show ?thesis by (auto simp: masked_write64_def bit_simps dest: bit_imp_le_length)
  qed
  then show ?thesis by (intro bit_word_eqI) blast
qed

lemma csr_wf_update64 [simp]:
  "csr_wf64 (c\<lparr>time64 := t\<rparr>) = csr_wf64 c" "csr_wf64 (c\<lparr>cycle64 := t\<rparr>) = csr_wf64 c"
  "csr_wf64 (c\<lparr>instret64 := t\<rparr>) = csr_wf64 c"
  "csr_wf64 (c\<lparr>mstatus64 := v\<rparr>) = csr_wf64 c" "csr_wf64 (c\<lparr>mip64 := v\<rparr>) = csr_wf64 c"
  "csr_wf64 (c\<lparr>mie64 := v\<rparr>) = csr_wf64 c" "csr_wf64 (c\<lparr>mtvec64 := v\<rparr>) = csr_wf64 c"
  "csr_wf64 (c\<lparr>stvec64 := v\<rparr>) = csr_wf64 c" "csr_wf64 (c\<lparr>utvec64 := v\<rparr>) = csr_wf64 c"
  "csr_wf64 (c\<lparr>mepc64 := v\<rparr>) = csr_wf64 c" "csr_wf64 (c\<lparr>sepc64 := v\<rparr>) = csr_wf64 c"
  "csr_wf64 (c\<lparr>uepc64 := v\<rparr>) = csr_wf64 c" "csr_wf64 (c\<lparr>mcause64 := v\<rparr>) = csr_wf64 c"
  "csr_wf64 (c\<lparr>scause64 := v\<rparr>) = csr_wf64 c" "csr_wf64 (c\<lparr>ucause64 := v\<rparr>) = csr_wf64 c"
  "csr_wf64 (c\<lparr>mtval64 := v\<rparr>) = csr_wf64 c" "csr_wf64 (c\<lparr>stval64 := v\<rparr>) = csr_wf64 c"
  "csr_wf64 (c\<lparr>utval64 := v\<rparr>) = csr_wf64 c" "csr_wf64 (c\<lparr>medeleg64 := v\<rparr>) = csr_wf64 c"
  "csr_wf64 (c\<lparr>mideleg64 := v\<rparr>) = csr_wf64 c" "csr_wf64 (c\<lparr>sedeleg64 := v\<rparr>) = csr_wf64 c"
  "csr_wf64 (c\<lparr>sideleg64 := v\<rparr>) = csr_wf64 c" "csr_wf64 (c\<lparr>mcounteren64 := v\<rparr>) = csr_wf64 c"
  "csr_wf64 (c\<lparr>scounteren64 := v\<rparr>) = csr_wf64 c" "csr_wf64 (c\<lparr>mcountinhibit64 := v\<rparr>) = csr_wf64 c"
  "csr_wf64 (c\<lparr>fcsr64 := v\<rparr>) = csr_wf64 c" "csr_wf64 (c\<lparr>satp64 := v\<rparr>) = csr_wf64 c"
  by (simp_all add: csr_wf64_def)

lemma write_view_wf64: "csr_wf64 c \<Longrightarrow> write_view64 m addr v c = Some c' \<Longrightarrow> csr_wf64 c'"
  by (auto simp: write_view64_def split: if_splits)

end
