(* ===== verification/Iss64_Exec.thy ===== *)
theory Iss64_Exec
  imports Iss64_Csr "HOL-Library.Signed_Division"
begin

text \<open>
  \<open>ISS::exec_step\<close> of \<open>rv64/iss.cpp\<close>: fetch, decode, and the execution of every instruction of the
  RV64 decoder, by instruction group, with the floating-point helpers and the two \<open>execute_amo\<close>
  functions of \<open>rv64/iss.h\<close>. Registers are 64-bit words; the immediates of \<open>Instruction\<close> are \<open>int32_t\<close>
  and are sign-extended where they meet a register. Unlike RV32, no instruction checks \<open>misa\<close>.
\<close>

unbundle bit_operations_syntax

section \<open>Operands\<close>

definition RD_64 :: "'d ISS64 \<Rightarrow> u32" where "RD_64 s = instr_rd (instr64 s)"
definition RS1_64 :: "'d ISS64 \<Rightarrow> u32" where "RS1_64 s = instr_rs1 (instr64 s)"
definition RS2_64 :: "'d ISS64 \<Rightarrow> u32" where "RS2_64 s = instr_rs2 (instr64 s)"
definition RS3_64 :: "'d ISS64 \<Rightarrow> u32" where "RS3_64 s = instr_rs3 (instr64 s)"

abbreviation x_rs1_64 :: "'d ISS64 \<Rightarrow> u64" where "x_rs1_64 s \<equiv> reg64 (RS1_64 s) s"
abbreviation x_rs2_64 :: "'d ISS64 \<Rightarrow> u64" where "x_rs2_64 s \<equiv> reg64 (RS2_64 s) s"

definition set_rd64 :: "u64 \<Rightarrow> 'd ISS64 \<Rightarrow> 'd ISS64" where
  "set_rd64 v s = set_reg64 (RD_64 s) v s"

definition put_rd64 :: "u64 \<Rightarrow> ('d ISS64, unit) act" where
  "put_rd64 v = modifyM (set_rd64 v)"

text \<open>The immediates, extended to the width of a register.\<close>

abbreviation I_imm64 :: "'d ISS64 \<Rightarrow> u64" where "I_imm64 s \<equiv> scast (instr_I_imm (instr64 s))"
abbreviation S_imm64 :: "'d ISS64 \<Rightarrow> u64" where "S_imm64 s \<equiv> scast (instr_S_imm (instr64 s))"
abbreviation B_imm64 :: "'d ISS64 \<Rightarrow> u64" where "B_imm64 s \<equiv> scast (instr_B_imm (instr64 s))"
abbreviation U_imm64 :: "'d ISS64 \<Rightarrow> u64" where "U_imm64 s \<equiv> scast (instr_U_imm (instr64 s))"
abbreviation J_imm64 :: "'d ISS64 \<Rightarrow> u64" where "J_imm64 s \<equiv> scast (instr_J_imm (instr64 s))"

section \<open>RV32I\<close>

text \<open>The result of the register-register and register-immediate instructions.\<close>

definition alu_result64 :: "rv32i \<Rightarrow> 'd ISS64 \<Rightarrow> u64" where
  "alu_result64 x s = (case x of
     ADDI \<Rightarrow> x_rs1_64 s + I_imm64 s
   | SLTI \<Rightarrow> of_bool (sint (x_rs1_64 s) < sint (I_imm64 s))
   | SLTIU \<Rightarrow> of_bool (x_rs1_64 s < I_imm64 s)
   | XORI \<Rightarrow> x_rs1_64 s XOR I_imm64 s
   | ORI \<Rightarrow> x_rs1_64 s OR I_imm64 s
   | ANDI \<Rightarrow> x_rs1_64 s AND I_imm64 s
   | ADD \<Rightarrow> x_rs1_64 s + x_rs2_64 s
   | SUB \<Rightarrow> x_rs1_64 s - x_rs2_64 s
   | SLL \<Rightarrow> push_bit (reg_shamt64 (RS2_64 s) s) (x_rs1_64 s)
   | SLT \<Rightarrow> of_bool (sint (x_rs1_64 s) < sint (x_rs2_64 s))
   | SLTU \<Rightarrow> of_bool (x_rs1_64 s < x_rs2_64 s)
   | SRL \<Rightarrow> drop_bit (reg_shamt64 (RS2_64 s) s) (x_rs1_64 s)
   | SRA \<Rightarrow> signed_drop_bit (reg_shamt64 (RS2_64 s) s) (x_rs1_64 s)
   | XOR_op \<Rightarrow> x_rs1_64 s XOR x_rs2_64 s
   | OR_op \<Rightarrow> x_rs1_64 s OR x_rs2_64 s
   | AND_op \<Rightarrow> x_rs1_64 s AND x_rs2_64 s
   | SLLI \<Rightarrow> push_bit (unat (instr_shamt (instr64 s))) (x_rs1_64 s)
   | SRLI \<Rightarrow> drop_bit (unat (instr_shamt (instr64 s))) (x_rs1_64 s)
   | SRAI \<Rightarrow> signed_drop_bit (unat (instr_shamt (instr64 s))) (x_rs1_64 s)
   | LUI \<Rightarrow> U_imm64 s
   | AUIPC \<Rightarrow> last_pc64 s + U_imm64 s
   | _ \<Rightarrow> 0)"

definition exec_alu64 :: "rv32i \<Rightarrow> ('d ISS64, unit) act" where
  "exec_alu64 x = bindM (getsM (alu_result64 x)) put_rd64"

definition exec_jump64 :: "('d ISS64 \<Rightarrow> u64) \<Rightarrow> ('d ISS64, unit) act" where
  "exec_jump64 target = bindM (getsM pc64) (\<lambda>link.
     seqs [modifyM (\<lambda>s. s\<lparr>pc64 := target s\<rparr>), trap_check_pc_alignment64, put_rd64 link])"

definition exec_branch64 :: "('d ISS64 \<Rightarrow> bool) \<Rightarrow> ('d ISS64, unit) act" where
  "exec_branch64 taken = whenM taken
     (seqs [modifyM (\<lambda>s. s\<lparr>pc64 := last_pc64 s + B_imm64 s\<rparr>), trap_check_pc_alignment64])"

definition load_addr64 :: "'d ISS64 \<Rightarrow> u64" where
  "load_addr64 s = x_rs1_64 s + I_imm64 s"

definition store_addr64 :: "'d ISS64 \<Rightarrow> u64" where
  "store_addr64 s = x_rs1_64 s + S_imm64 s"

definition exec_load64 :: "u64 \<Rightarrow> (u64 \<Rightarrow> ('d ISS64, u64) act) \<Rightarrow> ('d ISS64, unit) act" where
  "exec_load64 al ld = bindM (getsM load_addr64) (\<lambda>addr.
     seqM (trap_check_addr_alignment64 al True addr) (bindM (ld addr) put_rd64))"

definition exec_store64 :: "u64 \<Rightarrow> (u64 \<Rightarrow> u64 \<Rightarrow> ('d ISS64, unit) act) \<Rightarrow> ('d ISS64, unit) act" where
  "exec_store64 al st = bindM (getsM store_addr64) (\<lambda>addr.
     seqM (trap_check_addr_alignment64 al False addr) (bindM (getsM x_rs2_64) (st addr)))"

definition exec_ecall64 :: "'d env64 \<Rightarrow> ('d ISS64, unit) act" where
  "exec_ecall64 env = (case sys64 env of
     Some emulate \<Rightarrow> emulate
   | None \<Rightarrow> bindM (getsM (\<lambda>s. (prv64 s, last_pc64 s))) (\<lambda>(p, lpc).
       if p = MachineMode then raise_trap EXC_ECALL_M_MODE lpc
       else if p = SupervisorMode then raise_trap EXC_ECALL_S_MODE lpc
       else if p = UserMode then raise_trap EXC_ECALL_U_MODE lpc
       else failM RuntimeError))"

definition exec_rv32i64 :: "'d env64 \<Rightarrow> rv32i \<Rightarrow> ('d ISS64, unit) act" where
  "exec_rv32i64 env x = (case x of
     JAL \<Rightarrow> exec_jump64 (\<lambda>s. last_pc64 s + J_imm64 s)
   | JALR \<Rightarrow> exec_jump64 (\<lambda>s. (x_rs1_64 s + I_imm64 s) AND NOT 1)
   | SB \<Rightarrow> exec_store64 1 (\<lambda>a v. store_byte64 env a (ucast v))
   | SH \<Rightarrow> exec_store64 2 (\<lambda>a v. store_half64 env a (ucast v))
   | SW \<Rightarrow> exec_store64 4 (\<lambda>a v. store_word64 env a (ucast v))
   | LB \<Rightarrow> exec_load64 1 (load_byte64 env)
   | LH \<Rightarrow> exec_load64 2 (load_half64 env)
   | LW \<Rightarrow> exec_load64 4 (load_word64 env)
   | LBU \<Rightarrow> exec_load64 1 (load_ubyte64 env)
   | LHU \<Rightarrow> exec_load64 2 (load_uhalf64 env)
   | BEQ \<Rightarrow> exec_branch64 (\<lambda>s. x_rs1_64 s = x_rs2_64 s)
   | BNE \<Rightarrow> exec_branch64 (\<lambda>s. x_rs1_64 s \<noteq> x_rs2_64 s)
   | BLT \<Rightarrow> exec_branch64 (\<lambda>s. sint (x_rs1_64 s) < sint (x_rs2_64 s))
   | BGE \<Rightarrow> exec_branch64 (\<lambda>s. sint (x_rs1_64 s) \<ge> sint (x_rs2_64 s))
   | BLTU \<Rightarrow> exec_branch64 (\<lambda>s. x_rs1_64 s < x_rs2_64 s)
   | BGEU \<Rightarrow> exec_branch64 (\<lambda>s. x_rs1_64 s \<ge> x_rs2_64 s)
   | FENCE \<Rightarrow> ret ()
   | ECALL \<Rightarrow> exec_ecall64 env
   | EBREAK \<Rightarrow> modifyM (\<lambda>s. s\<lparr>status64 := HitBreakpoint\<rparr>)
   | _ \<Rightarrow> exec_alu64 x)"

section \<open>RV64I\<close>

text \<open>
  The instructions on words compute on the low halves of the registers and sign-extend the 32-bit
  result. (Overflow of the \<open>int32_t\<close> additions is left to the compiler; it wraps around.)
\<close>

definition alu_word_result :: "rv64i \<Rightarrow> 'd ISS64 \<Rightarrow> u32" where
  "alu_word_result x s = (let a = ucast (x_rs1_64 s); b = ucast (x_rs2_64 s) in case x of
     ADDIW \<Rightarrow> a + instr_I_imm (instr64 s)
   | SLLIW \<Rightarrow> push_bit (unat (instr_shamt_w (instr64 s))) a
   | SRLIW \<Rightarrow> drop_bit (unat (instr_shamt_w (instr64 s))) a
   | SRAIW \<Rightarrow> signed_drop_bit (unat (instr_shamt_w (instr64 s))) a
   | ADDW \<Rightarrow> a + b
   | SUBW \<Rightarrow> a - b
   | SLLW \<Rightarrow> push_bit (reg_shamt_w64 (RS2_64 s) s) a
   | SRLW \<Rightarrow> drop_bit (reg_shamt_w64 (RS2_64 s) s) a
   | SRAW \<Rightarrow> signed_drop_bit (reg_shamt_w64 (RS2_64 s) s) a
   | _ \<Rightarrow> 0)"

definition exec_rv64i :: "'d env64 \<Rightarrow> rv64i \<Rightarrow> ('d ISS64, unit) act" where
  "exec_rv64i env x = (case x of
     LWU \<Rightarrow> exec_load64 4 (load_uword64 env)
   | LD \<Rightarrow> exec_load64 8 (load_double64 env)
   | SD \<Rightarrow> exec_store64 8 (store_double64 env)
   | _ \<Rightarrow> bindM (getsM (alu_word_result x)) (\<lambda>r. put_rd64 (scast r)))"

section \<open>CSR instructions\<close>

definition csr_guard64 :: "bool \<Rightarrow> (u32 \<Rightarrow> ('d ISS64, unit) act) \<Rightarrow> ('d ISS64, unit) act" where
  "csr_guard64 write body = bindM (getsM (\<lambda>s. instr_csr (instr64 s))) (\<lambda>addr.
     bindM (getsM (is_invalid_csr_access64 addr write)) (\<lambda>bad.
       if bad then RAISE_ILLEGAL_INSTRUCTION64 else body addr))"

definition exec_csr_write64 :: "'d env64 \<Rightarrow> u64 \<Rightarrow> ('d ISS64, unit) act" where
  "exec_csr_write64 env v = csr_guard64 True (\<lambda>addr.
     bindM (getsM RD_64) (\<lambda>d.
       seqM (if d \<noteq> 0 then bindM (get_csr_value64 env addr) put_rd64 else ret ())
         (set_csr_value64 addr v)))"

definition exec_csr_modify64 :: "'d env64 \<Rightarrow> bool \<Rightarrow> (u64 \<Rightarrow> u64) \<Rightarrow> ('d ISS64, unit) act" where
  "exec_csr_modify64 env write f = csr_guard64 write (\<lambda>addr.
     bindM (get_csr_value64 env addr) (\<lambda>csr_val.
     bindM (getsM RD_64) (\<lambda>d.
       seqM (if d \<noteq> 0 then put_rd64 csr_val else ret ())
         (if write then set_csr_value64 addr (f csr_val) else ret ()))))"

text \<open>
  \<open>zimm\<close> is a \<open>uint32_t\<close>: its complement in \<open>CSRRCI\<close> has 32 bits and is extended with zeros when it meets
  the 64-bit value of the register.
\<close>

definition exec_zicsr64 :: "'d env64 \<Rightarrow> zicsr \<Rightarrow> ('d ISS64, unit) act" where
  "exec_zicsr64 env x = bindM (getsM (\<lambda>s. (RS1_64 s, x_rs1_64 s, instr_zimm (instr64 s)))) (\<lambda>(rs1, rs1_val, zimm).
     case x of
       CSRRW \<Rightarrow> exec_csr_write64 env rs1_val
     | CSRRS \<Rightarrow> exec_csr_modify64 env (rs1 \<noteq> 0) (\<lambda>v. v OR rs1_val)
     | CSRRC \<Rightarrow> exec_csr_modify64 env (rs1 \<noteq> 0) (\<lambda>v. v AND NOT rs1_val)
     | CSRRWI \<Rightarrow> exec_csr_write64 env (ucast zimm)
     | CSRRSI \<Rightarrow> exec_csr_modify64 env (zimm \<noteq> 0) (\<lambda>v. v OR ucast zimm)
     | CSRRCI \<Rightarrow> exec_csr_modify64 env (zimm \<noteq> 0) (\<lambda>v. v AND ucast (NOT zimm)))"

section \<open>RV32M and RV64M\<close>

abbreviation (input) REG_MIN64 :: u64 where "REG_MIN64 \<equiv> 0x8000000000000000"
abbreviation (input) REG32_MIN :: u32 where "REG32_MIN \<equiv> 0x80000000"

definition muldiv_result64 :: "rv32m \<Rightarrow> u64 \<Rightarrow> u64 \<Rightarrow> u64" where
  "muldiv_result64 x a b = (case x of
     MUL \<Rightarrow> ucast (scast a * scast b :: 128 word)
   | MULH \<Rightarrow> ucast (signed_drop_bit 64 (scast a * scast b :: 128 word))
   | MULHU \<Rightarrow> ucast (signed_drop_bit 64 (ucast a * ucast b :: 128 word))
   | MULHSU \<Rightarrow> ucast (signed_drop_bit 64 (scast a * ucast b :: 128 word))
   | DIV \<Rightarrow> if b = 0 then - 1 else if a = REG_MIN64 \<and> b = - 1 then a else word_of_int (sint a sdiv sint b)
   | DIVU \<Rightarrow> if b = 0 then - 1 else a div b
   | REM \<Rightarrow> if b = 0 then a else if a = REG_MIN64 \<and> b = - 1 then 0 else word_of_int (sint a smod sint b)
   | REMU \<Rightarrow> if b = 0 then a else a mod b)"

definition exec_rv32m64 :: "rv32m \<Rightarrow> ('d ISS64, unit) act" where
  "exec_rv32m64 x = bindM (getsM (\<lambda>s. muldiv_result64 x (x_rs1_64 s) (x_rs2_64 s))) put_rd64"

text \<open>\<open>MULW\<close> multiplies the 64-bit registers and truncates; the divisions read their operands as \<open>int32_t\<close>.\<close>

definition muldiv_word_result :: "rv64m \<Rightarrow> u64 \<Rightarrow> u64 \<Rightarrow> u32" where
  "muldiv_word_result x ra rb = (let a = ucast ra; b = ucast rb in case x of
     MULW \<Rightarrow> ucast (ra * rb)
   | DIVW \<Rightarrow> if b = 0 then - 1 else if a = REG32_MIN \<and> b = - 1 then a else word_of_int (sint a sdiv sint b)
   | DIVUW \<Rightarrow> if b = 0 then - 1 else a div b
   | REMW \<Rightarrow> if b = 0 then a else if a = REG32_MIN \<and> b = - 1 then 0 else word_of_int (sint a smod sint b)
   | REMUW \<Rightarrow> if b = 0 then a else a mod b)"

definition exec_rv64m :: "rv64m \<Rightarrow> ('d ISS64, unit) act" where
  "exec_rv64m x = bindM (getsM (\<lambda>s. muldiv_word_result x (x_rs1_64 s) (x_rs2_64 s))) (\<lambda>r. put_rd64 (scast r))"

section \<open>RV32A and RV64A\<close>

definition amo_convert_trap64 :: "('d ISS64, 'a) act \<Rightarrow> ('d ISS64, 'a) act" where
  "amo_convert_trap64 m s = (case m s of
     (Trap e v, s') \<Rightarrow> (Trap (if e = EXC_LOAD_ACCESS_FAULT then EXC_STORE_AMO_ACCESS_FAULT else e) v, s')
   | r \<Rightarrow> r)"

definition execute_amo_w :: "'d env64 \<Rightarrow> (u32 \<Rightarrow> u32 \<Rightarrow> u32) \<Rightarrow> ('d ISS64, unit) act" where
  "execute_amo_w env operation = bindM (getsM x_rs1_64) (\<lambda>addr.
     seqM (trap_check_addr_alignment64 4 False addr)
       (bindM (amo_convert_trap64 (atomic_load_word64 env addr)) (\<lambda>v.
        let data = ucast v in
        bindM (getsM (\<lambda>s. operation data (ucast (x_rs2_64 s)))) (\<lambda>val.
          seqM (atomic_store_word64 env addr val) (put_rd64 (scast data))))))"

definition execute_amo_d :: "'d env64 \<Rightarrow> (u64 \<Rightarrow> u64 \<Rightarrow> u64) \<Rightarrow> ('d ISS64, unit) act" where
  "execute_amo_d env operation = bindM (getsM x_rs1_64) (\<lambda>addr.
     seqM (trap_check_addr_alignment64 8 False addr)
       (bindM (amo_convert_trap64 (atomic_load_double64 env addr)) (\<lambda>data.
        bindM (getsM (\<lambda>s. operation data (x_rs2_64 s))) (\<lambda>val.
          seqM (atomic_store_double64 env addr val) (put_rd64 data)))))"

definition amo_operation_w :: "rv32a \<Rightarrow> u32 \<Rightarrow> u32 \<Rightarrow> u32" where
  "amo_operation_w x a b = (case x of
     AMOSWAP_W \<Rightarrow> b
   | AMOADD_W \<Rightarrow> a + b
   | AMOXOR_W \<Rightarrow> a XOR b
   | AMOAND_W \<Rightarrow> a AND b
   | AMOOR_W \<Rightarrow> a OR b
   | AMOMIN_W \<Rightarrow> if sint b < sint a then b else a
   | AMOMINU_W \<Rightarrow> if b < a then b else a
   | AMOMAX_W \<Rightarrow> if sint a < sint b then b else a
   | AMOMAXU_W \<Rightarrow> if a < b then b else a
   | _ \<Rightarrow> 0)"

definition amo_operation_d :: "rv64a \<Rightarrow> u64 \<Rightarrow> u64 \<Rightarrow> u64" where
  "amo_operation_d x a b = (case x of
     AMOSWAP_D \<Rightarrow> b
   | AMOADD_D \<Rightarrow> a + b
   | AMOXOR_D \<Rightarrow> a XOR b
   | AMOAND_D \<Rightarrow> a AND b
   | AMOOR_D \<Rightarrow> a OR b
   | AMOMIN_D \<Rightarrow> if sint b < sint a then b else a
   | AMOMINU_D \<Rightarrow> if b < a then b else a
   | AMOMAX_D \<Rightarrow> if sint a < sint b then b else a
   | AMOMAXU_D \<Rightarrow> if a < b then b else a
   | _ \<Rightarrow> 0)"

text \<open>The two widths of \<open>LR\<close> and \<open>SC\<close>: alignment and the memory operation are arguments.\<close>

definition exec_lr64 :: "u64 \<Rightarrow> (u64 \<Rightarrow> ('d ISS64, u64) act) \<Rightarrow> ('d ISS64, unit) act" where
  "exec_lr64 al ld = bindM (getsM x_rs1_64) (\<lambda>addr.
     seqM (trap_check_addr_alignment64 al True addr)
       (seqM (bindM (ld addr) put_rd64)
         (modifyM (\<lambda>s. if lr_sc_counter64 s = 0 then s\<lparr>lr_sc_counter64 := 17\<rparr> else s))))"

definition exec_sc64 :: "u64 \<Rightarrow> (u64 \<Rightarrow> u64 \<Rightarrow> ('d ISS64, bool) act) \<Rightarrow> ('d ISS64, unit) act" where
  "exec_sc64 al st = bindM (getsM x_rs1_64) (\<lambda>addr.
     seqM (trap_check_addr_alignment64 al False addr)
       (bindM (getsM x_rs2_64) (\<lambda>val.
         seqM (put_rd64 1)
           (seqM (bindM (st addr val) (\<lambda>ok. put_rd64 (if ok then 0 else 1)))
             (modifyM (\<lambda>s. s\<lparr>lr_sc_counter64 := 0\<rparr>))))))"

definition exec_rv32a64 :: "'d env64 \<Rightarrow> rv32a \<Rightarrow> ('d ISS64, unit) act" where
  "exec_rv32a64 env x =
     (if x = LR_W then exec_lr64 4 (atomic_load_reserved_word64 env)
      else if x = SC_W then exec_sc64 4 (\<lambda>a v. atomic_store_conditional_word64 env a (ucast v))
      else execute_amo_w env (amo_operation_w x))"

definition exec_rv64a :: "'d env64 \<Rightarrow> rv64a \<Rightarrow> ('d ISS64, unit) act" where
  "exec_rv64a env x =
     (if x = LR_D then exec_lr64 8 (atomic_load_reserved_double64 env)
      else if x = SC_D then exec_sc64 8 (atomic_store_conditional_double64 env)
      else execute_amo_d env (amo_operation_d x))"

section \<open>Floating-point helpers\<close>

definition fp_set_dirty64 :: "'d ISS64 \<Rightarrow> 'd ISS64" where
  "fp_set_dirty64 = upd_csrs64 (\<lambda>c. c\<lparr>mstatus64 := set_mstatus_fs64 (ucast FS_DIRTY) (set_mstatus_sd64 1 (mstatus64 c))\<rparr>)"

definition fp_update_exception_flags64 :: "'d ISS64 \<Rightarrow> 'd ISS64" where
  "fp_update_exception_flags64 s =
     (if softfloat_exceptionFlags64 s \<noteq> 0 then
        (upd_csrs64 (\<lambda>c. c\<lparr>fcsr64 := set_fcsr_fflags64 (fcsr_fflags64 (fcsr64 c) OR ucast (softfloat_exceptionFlags64 s)) (fcsr64 c)\<rparr>)
          (fp_set_dirty64 s))\<lparr>softfloat_exceptionFlags64 := 0\<rparr>
      else s)"

definition fp_finish_instr64 :: "'d ISS64 \<Rightarrow> 'd ISS64" where
  "fp_finish_instr64 s = fp_update_exception_flags64 (fp_set_dirty64 s)"

definition fp_require_not_off64 :: "('d ISS64, unit) act" where
  "fp_require_not_off64 = whenM (\<lambda>s. mstatus_fs64 (mstatus64 (csrs64 s)) = ucast FS_OFF) RAISE_ILLEGAL_INSTRUCTION64"

definition fp_prepare_instr64 :: "('d ISS64, unit) act" where
  "fp_prepare_instr64 = seqM (assertM (\<lambda>s. softfloat_exceptionFlags64 s = 0)) fp_require_not_off64"

definition fp_setup_rm64 :: "('d ISS64, unit) act" where
  "fp_setup_rm64 = bindM (getsM (\<lambda>s. (instr_frm (instr64 s), ucast (fcsr_frm64 (fcsr64 (csrs64 s)))))) (\<lambda>(f, dyn).
     let r = (if f = FRM_DYN then dyn else f) in
     if r \<ge> FRM_RMM then RAISE_ILLEGAL_INSTRUCTION64
     else modifyM (\<lambda>s. s\<lparr>softfloat_roundingMode64 := r\<rparr>))"

text \<open>A call of softfloat: the flags it raises are added to the global ones.\<close>

definition call_sf64 :: "('d ISS64 \<Rightarrow> 'a \<times> u32) \<Rightarrow> ('d ISS64, 'a) act" where
  "call_sf64 f s = (case f s of
     (r, flags) \<Rightarrow> (Ok r, s\<lparr>softfloat_exceptionFlags64 := softfloat_exceptionFlags64 s OR flags\<rparr>))"

abbreviation rm64 :: "'d ISS64 \<Rightarrow> u32" where "rm64 s \<equiv> softfloat_roundingMode64 s"
abbreviation f32_1_64 :: "'d ISS64 \<Rightarrow> u32" where "f32_1_64 s \<equiv> fp_f32 (RS1_64 s) (fp_regs64 s)"
abbreviation f32_2_64 :: "'d ISS64 \<Rightarrow> u32" where "f32_2_64 s \<equiv> fp_f32 (RS2_64 s) (fp_regs64 s)"
abbreviation f32_3_64 :: "'d ISS64 \<Rightarrow> u32" where "f32_3_64 s \<equiv> fp_f32 (RS3_64 s) (fp_regs64 s)"
abbreviation f64_1_64 :: "'d ISS64 \<Rightarrow> u64" where "f64_1_64 s \<equiv> fp_f64 (RS1_64 s) (fp_regs64 s)"
abbreviation f64_2_64 :: "'d ISS64 \<Rightarrow> u64" where "f64_2_64 s \<equiv> fp_f64 (RS2_64 s) (fp_regs64 s)"
abbreviation f64_3_64 :: "'d ISS64 \<Rightarrow> u64" where "f64_3_64 s \<equiv> fp_f64 (RS3_64 s) (fp_regs64 s)"

definition put_f32_64 :: "u32 \<Rightarrow> ('d ISS64, unit) act" where
  "put_f32_64 v = modifyM (\<lambda>s. s\<lparr>fp_regs64 := fp_write32 (RD_64 s) v (fp_regs64 s)\<rparr>)"

definition put_f64_64 :: "u64 \<Rightarrow> ('d ISS64, unit) act" where
  "put_f64_64 v = modifyM (\<lambda>s. s\<lparr>fp_regs64 := fp_write64 (RD_64 s) v (fp_regs64 s)\<rparr>)"

text \<open>
  The shapes of the floating-point instructions: with rounding, comparisons, and sign injections
  and moves (which do not touch the exception flags).
\<close>

definition fp_rounding64 :: "('d ISS64 \<Rightarrow> 'a \<times> u32) \<Rightarrow> ('a \<Rightarrow> ('d ISS64, unit) act) \<Rightarrow> ('d ISS64, unit) act" where
  "fp_rounding64 f put = seqs [fp_prepare_instr64, fp_setup_rm64,
     bindM (call_sf64 f) put, modifyM fp_finish_instr64]"

definition fp_compare64 :: "('d ISS64 \<Rightarrow> bool \<times> u32) \<Rightarrow> ('d ISS64, unit) act" where
  "fp_compare64 f = seqs [fp_prepare_instr64,
     bindM (call_sf64 f) (\<lambda>b. put_rd64 (of_bool b)), modifyM fp_update_exception_flags64]"

definition fp_move64 :: "('d ISS64 \<Rightarrow> 'a) \<Rightarrow> ('a \<Rightarrow> ('d ISS64, unit) act) \<Rightarrow> ('d ISS64, unit) act" where
  "fp_move64 f put = seqs [fp_prepare_instr64, bindM (getsM f) put, modifyM fp_set_dirty64]"

definition fp_to_int64 :: "('d ISS64 \<Rightarrow> u64) \<Rightarrow> ('d ISS64, unit) act" where
  "fp_to_int64 f = seqs [fp_prepare_instr64, bindM (getsM f) put_rd64]"

text \<open>
  \<open>FMIN\<close> and \<open>FMAX\<close>: \<open>first_wins a b\<close> is \<open>a < b\<close>, or they compare equal and \<open>a\<close> is negative; the
  second comparison is only made when the first one is false.
\<close>

definition first_wins64 :: "('a \<Rightarrow> 'a \<Rightarrow> bool \<times> u32) \<Rightarrow> ('a \<Rightarrow> 'a \<Rightarrow> bool \<times> u32) \<Rightarrow> ('a \<Rightarrow> bool) \<Rightarrow>
    'a \<Rightarrow> 'a \<Rightarrow> ('d ISS64, bool) act" where
  "first_wins64 lt eq neg a b = bindM (call_sf64 (\<lambda>_. lt a b)) (\<lambda>l.
     if l then ret True else bindM (call_sf64 (\<lambda>_. eq a b)) (\<lambda>e. ret (e \<and> neg a)))"

definition exec_fmin_s64 :: "'d env64 \<Rightarrow> bool \<Rightarrow> ('d ISS64, unit) act" where
  "exec_fmin_s64 env is_max = seqs [fp_prepare_instr64,
     bindM (getsM (\<lambda>s. (f32_1_64 s, f32_2_64 s))) (\<lambda>(a, b).
       bindM (if is_max then first_wins64 (f32_lt_quiet (sf64 env)) (f32_eq (sf64 env)) f32_isNegative b a
              else first_wins64 (f32_lt_quiet (sf64 env)) (f32_eq (sf64 env)) f32_isNegative a b) (\<lambda>rs1_wins.
         if f32_isNaN a \<and> f32_isNaN b then put_f32_64 f32_defaultNaN
         else if rs1_wins then put_f32_64 a else put_f32_64 b)),
     modifyM fp_finish_instr64]"

definition exec_fmin_d64 :: "'d env64 \<Rightarrow> bool \<Rightarrow> ('d ISS64, unit) act" where
  "exec_fmin_d64 env is_max = seqs [fp_prepare_instr64,
     bindM (getsM (\<lambda>s. (f64_1_64 s, f64_2_64 s))) (\<lambda>(a, b).
       bindM (if is_max then first_wins64 (f64_lt_quiet (sf64 env)) (f64_eq (sf64 env)) f64_isNegative b a
              else first_wins64 (f64_lt_quiet (sf64 env)) (f64_eq (sf64 env)) f64_isNegative a b) (\<lambda>rs1_wins.
         if f64_isNaN a \<and> f64_isNaN b then put_f64_64 f64_defaultNaN
         else if rs1_wins then put_f64_64 a else put_f64_64 b)),
     modifyM fp_finish_instr64]"

section \<open>RV32F\<close>

definition exec_flw64 :: "'d env64 \<Rightarrow> ('d ISS64, unit) act" where
  "exec_flw64 env = bindM (getsM load_addr64) (\<lambda>addr.
     seqM (trap_check_addr_alignment64 4 True addr) (bindM (load_uword64 env addr) (\<lambda>v. put_f32_64 (ucast v))))"

definition exec_fsw64 :: "'d env64 \<Rightarrow> ('d ISS64, unit) act" where
  "exec_fsw64 env = bindM (getsM store_addr64) (\<lambda>addr.
     seqM (trap_check_addr_alignment64 4 False addr)
       (bindM (getsM (\<lambda>s. fp_u32 (RS2_64 s) (fp_regs64 s))) (store_word64 env addr)))"

definition exec_rv32f64 :: "'d env64 \<Rightarrow> rv32f \<Rightarrow> ('d ISS64, unit) act" where
  "exec_rv32f64 env x = (let e = sf64 env in case x of
     FLW \<Rightarrow> exec_flw64 env
   | FSW \<Rightarrow> exec_fsw64 env
   | FADD_S \<Rightarrow> fp_rounding64 (\<lambda>s. f32_add e (rm64 s) (f32_1_64 s) (f32_2_64 s)) put_f32_64
   | FSUB_S \<Rightarrow> fp_rounding64 (\<lambda>s. f32_sub e (rm64 s) (f32_1_64 s) (f32_2_64 s)) put_f32_64
   | FMUL_S \<Rightarrow> fp_rounding64 (\<lambda>s. f32_mul e (rm64 s) (f32_1_64 s) (f32_2_64 s)) put_f32_64
   | FDIV_S \<Rightarrow> fp_rounding64 (\<lambda>s. f32_div e (rm64 s) (f32_1_64 s) (f32_2_64 s)) put_f32_64
   | FSQRT_S \<Rightarrow> fp_rounding64 (\<lambda>s. f32_sqrt e (rm64 s) (f32_1_64 s)) put_f32_64
   | FMIN_S \<Rightarrow> exec_fmin_s64 env False
   | FMAX_S \<Rightarrow> exec_fmin_s64 env True
   | FMADD_S \<Rightarrow> fp_rounding64 (\<lambda>s. f32_mulAdd e (rm64 s) (f32_1_64 s) (f32_2_64 s) (f32_3_64 s)) put_f32_64
   | FMSUB_S \<Rightarrow> fp_rounding64 (\<lambda>s. f32_mulAdd e (rm64 s) (f32_1_64 s) (f32_2_64 s) (f32_neg (f32_3_64 s))) put_f32_64
   | FNMADD_S \<Rightarrow>
       fp_rounding64 (\<lambda>s. f32_mulAdd e (rm64 s) (f32_neg (f32_1_64 s)) (f32_2_64 s) (f32_neg (f32_3_64 s))) put_f32_64
   | FNMSUB_S \<Rightarrow> fp_rounding64 (\<lambda>s. f32_mulAdd e (rm64 s) (f32_neg (f32_1_64 s)) (f32_2_64 s) (f32_3_64 s)) put_f32_64
   | FCVT_W_S \<Rightarrow> fp_rounding64 (\<lambda>s. f32_to_i32 e (rm64 s) (f32_1_64 s)) (\<lambda>r. put_rd64 (scast r))
   | FCVT_WU_S \<Rightarrow> fp_rounding64 (\<lambda>s. f32_to_ui32 e (rm64 s) (f32_1_64 s)) (\<lambda>r. put_rd64 (scast r))
   | FCVT_S_W \<Rightarrow> fp_rounding64 (\<lambda>s. i32_to_f32 e (rm64 s) (ucast (x_rs1_64 s))) put_f32_64
   | FCVT_S_WU \<Rightarrow> fp_rounding64 (\<lambda>s. ui32_to_f32 e (rm64 s) (ucast (x_rs1_64 s))) put_f32_64
   | FSGNJ_S \<Rightarrow>
       fp_move64 (\<lambda>s. (f32_1_64 s AND NOT F32_SIGN_BIT) OR (f32_2_64 s AND F32_SIGN_BIT)) put_f32_64
   | FSGNJN_S \<Rightarrow>
       fp_move64 (\<lambda>s. (f32_1_64 s AND NOT F32_SIGN_BIT) OR (NOT (f32_2_64 s) AND F32_SIGN_BIT)) put_f32_64
   | FSGNJX_S \<Rightarrow> fp_move64 (\<lambda>s. f32_1_64 s XOR (f32_2_64 s AND F32_SIGN_BIT)) put_f32_64
   | FMV_W_X \<Rightarrow> fp_move64 (\<lambda>s. ucast (x_rs1_64 s)) put_f32_64
   | FMV_X_W \<Rightarrow> fp_to_int64 (\<lambda>s. scast (fp_u32 (RS1_64 s) (fp_regs64 s)))
   | FEQ_S \<Rightarrow> fp_compare64 (\<lambda>s. f32_eq e (f32_1_64 s) (f32_2_64 s))
   | FLT_S \<Rightarrow> fp_compare64 (\<lambda>s. f32_lt e (f32_1_64 s) (f32_2_64 s))
   | FLE_S \<Rightarrow> fp_compare64 (\<lambda>s. f32_le e (f32_1_64 s) (f32_2_64 s))
   | FCLASS_S \<Rightarrow> fp_to_int64 (\<lambda>s. scast (f32_classify e (f32_1_64 s))))"

section \<open>RV32D\<close>

definition exec_fld64 :: "'d env64 \<Rightarrow> ('d ISS64, unit) act" where
  "exec_fld64 env = bindM (getsM load_addr64) (\<lambda>addr.
     seqM (trap_check_addr_alignment64 8 True addr) (bindM (load_double64 env addr) put_f64_64))"

definition exec_fsd64 :: "'d env64 \<Rightarrow> ('d ISS64, unit) act" where
  "exec_fsd64 env = bindM (getsM store_addr64) (\<lambda>addr.
     seqM (trap_check_addr_alignment64 8 False addr) (bindM (getsM f64_2_64) (store_double64 env addr)))"

definition exec_rv32d64 :: "'d env64 \<Rightarrow> rv32d \<Rightarrow> ('d ISS64, unit) act" where
  "exec_rv32d64 env x = (let e = sf64 env in case x of
     FLD \<Rightarrow> exec_fld64 env
   | FSD \<Rightarrow> exec_fsd64 env
   | FADD_D \<Rightarrow> fp_rounding64 (\<lambda>s. f64_add e (rm64 s) (f64_1_64 s) (f64_2_64 s)) put_f64_64
   | FSUB_D \<Rightarrow> fp_rounding64 (\<lambda>s. f64_sub e (rm64 s) (f64_1_64 s) (f64_2_64 s)) put_f64_64
   | FMUL_D \<Rightarrow> fp_rounding64 (\<lambda>s. f64_mul e (rm64 s) (f64_1_64 s) (f64_2_64 s)) put_f64_64
   | FDIV_D \<Rightarrow> fp_rounding64 (\<lambda>s. f64_div e (rm64 s) (f64_1_64 s) (f64_2_64 s)) put_f64_64
   | FSQRT_D \<Rightarrow> fp_rounding64 (\<lambda>s. f64_sqrt e (rm64 s) (f64_1_64 s)) put_f64_64
   | FMIN_D \<Rightarrow> exec_fmin_d64 env False
   | FMAX_D \<Rightarrow> exec_fmin_d64 env True
   | FMADD_D \<Rightarrow> fp_rounding64 (\<lambda>s. f64_mulAdd e (rm64 s) (f64_1_64 s) (f64_2_64 s) (f64_3_64 s)) put_f64_64
   | FMSUB_D \<Rightarrow> fp_rounding64 (\<lambda>s. f64_mulAdd e (rm64 s) (f64_1_64 s) (f64_2_64 s) (f64_neg (f64_3_64 s))) put_f64_64
   | FNMADD_D \<Rightarrow>
       fp_rounding64 (\<lambda>s. f64_mulAdd e (rm64 s) (f64_neg (f64_1_64 s)) (f64_2_64 s) (f64_neg (f64_3_64 s))) put_f64_64
   | FNMSUB_D \<Rightarrow> fp_rounding64 (\<lambda>s. f64_mulAdd e (rm64 s) (f64_neg (f64_1_64 s)) (f64_2_64 s) (f64_3_64 s)) put_f64_64
   | FSGNJ_D \<Rightarrow>
       fp_move64 (\<lambda>s. (f64_1_64 s AND NOT F64_SIGN_BIT) OR (f64_2_64 s AND F64_SIGN_BIT)) put_f64_64
   | FSGNJN_D \<Rightarrow>
       fp_move64 (\<lambda>s. (f64_1_64 s AND NOT F64_SIGN_BIT) OR (NOT (f64_2_64 s) AND F64_SIGN_BIT)) put_f64_64
   | FSGNJX_D \<Rightarrow> fp_move64 (\<lambda>s. f64_1_64 s XOR (f64_2_64 s AND F64_SIGN_BIT)) put_f64_64
   | FCVT_S_D \<Rightarrow> fp_rounding64 (\<lambda>s. f64_to_f32 e (rm64 s) (f64_1_64 s)) put_f32_64
   | FCVT_D_S \<Rightarrow> fp_rounding64 (\<lambda>s. f32_to_f64 e (rm64 s) (f32_1_64 s)) put_f64_64
   | FEQ_D \<Rightarrow> fp_compare64 (\<lambda>s. f64_eq e (f64_1_64 s) (f64_2_64 s))
   | FLT_D \<Rightarrow> fp_compare64 (\<lambda>s. f64_lt e (f64_1_64 s) (f64_2_64 s))
   | FLE_D \<Rightarrow> fp_compare64 (\<lambda>s. f64_le e (f64_1_64 s) (f64_2_64 s))
   | FCLASS_D \<Rightarrow> fp_to_int64 (\<lambda>s. ucast (f64_classify e (f64_1_64 s)))
   | FCVT_W_D \<Rightarrow> fp_rounding64 (\<lambda>s. f64_to_i32 e (rm64 s) (f64_1_64 s)) (\<lambda>r. put_rd64 (scast r))
   | FCVT_WU_D \<Rightarrow> fp_rounding64 (\<lambda>s. f64_to_ui32 e (rm64 s) (f64_1_64 s)) (\<lambda>r. put_rd64 (scast r))
   | FCVT_D_W \<Rightarrow> fp_rounding64 (\<lambda>s. i32_to_f64 e (rm64 s) (ucast (x_rs1_64 s))) put_f64_64
   | FCVT_D_WU \<Rightarrow> fp_rounding64 (\<lambda>s. ui32_to_f64 e (rm64 s) (ucast (x_rs1_64 s))) put_f64_64)"

section \<open>RV64F and RV64D\<close>

definition exec_rv64f :: "'d env64 \<Rightarrow> rv64f \<Rightarrow> ('d ISS64, unit) act" where
  "exec_rv64f env x = (let e = sf64 env in case x of
     FCVT_L_S \<Rightarrow> fp_rounding64 (\<lambda>s. f32_to_i64 e (rm64 s) (f32_1_64 s)) put_rd64
   | FCVT_LU_S \<Rightarrow> fp_rounding64 (\<lambda>s. f32_to_ui64 e (rm64 s) (f32_1_64 s)) put_rd64
   | FCVT_S_L \<Rightarrow> fp_rounding64 (\<lambda>s. i64_to_f32 e (rm64 s) (x_rs1_64 s)) put_f32_64
   | FCVT_S_LU \<Rightarrow> fp_rounding64 (\<lambda>s. ui64_to_f32 e (rm64 s) (x_rs1_64 s)) put_f32_64)"

definition exec_rv64d :: "'d env64 \<Rightarrow> rv64d \<Rightarrow> ('d ISS64, unit) act" where
  "exec_rv64d env x = (let e = sf64 env in case x of
     FCVT_L_D \<Rightarrow> fp_rounding64 (\<lambda>s. f64_to_i64 e (rm64 s) (f64_1_64 s)) put_rd64
   | FCVT_LU_D \<Rightarrow> fp_rounding64 (\<lambda>s. f64_to_ui64 e (rm64 s) (f64_1_64 s)) put_rd64
   | FCVT_D_L \<Rightarrow> fp_rounding64 (\<lambda>s. i64_to_f64 e (rm64 s) (x_rs1_64 s)) put_f64_64
   | FCVT_D_LU \<Rightarrow> fp_rounding64 (\<lambda>s. ui64_to_f64 e (rm64 s) (x_rs1_64 s)) put_f64_64
   | FMV_D_X \<Rightarrow> fp_move64 x_rs1_64 put_f64_64
   | FMV_X_D \<Rightarrow> fp_to_int64 f64_1_64)"

section \<open>Privileged instructions\<close>

definition exec_wfi64 :: "'d env64 \<Rightarrow> ('d ISS64, unit) act" where
  "exec_wfi64 env = seqs [modifyM release_lr_sc_reservation64,
     whenM (\<lambda>s. s_mode64 s \<and> mstatus_tw64 (mstatus64 (csrs64 s)) \<noteq> 0) RAISE_ILLEGAL_INSTRUCTION64,
     whenM (\<lambda>s. u_mode64 s \<and> has_supervisor_mode_extension64 (misa64 (csrs64 s))) RAISE_ILLEGAL_INSTRUCTION64,
     whenM (\<lambda>s. \<not> ignore_wfi64 s \<and> \<not> has_local_pending_enabled_interrupts64 s)
       (\<lambda>s. case wait_wfi_event64 env (get_shared64 s) of
          None \<Rightarrow> (Blocked, s)
        | Some w \<Rightarrow> (Ok (), put_shared64 w s))]"

definition exec_priv64 :: "'d env64 \<Rightarrow> rvpriv \<Rightarrow> ('d ISS64, unit) act" where
  "exec_priv64 env x = (case x of
     WFI \<Rightarrow> exec_wfi64 env
   | SFENCE_VMA \<Rightarrow>
       seqM (whenM (\<lambda>s. s_mode64 s \<and> mstatus_tvm64 (mstatus64 (csrs64 s)) \<noteq> 0) RAISE_ILLEGAL_INSTRUCTION64) flush_tlb64
   | URET \<Rightarrow>
       seqM (whenM (\<lambda>s. \<not> has_user_mode_extension64 (misa64 (csrs64 s))) RAISE_ILLEGAL_INSTRUCTION64)
         (return_from_trap_handler64 UserMode)
   | SRET \<Rightarrow>
       seqM (whenM (\<lambda>s. \<not> has_supervisor_mode_extension64 (misa64 (csrs64 s)) \<or>
               (s_mode64 s \<and> mstatus_tsr64 (mstatus64 (csrs64 s)) \<noteq> 0)) RAISE_ILLEGAL_INSTRUCTION64)
         (return_from_trap_handler64 SupervisorMode)
   | MRET \<Rightarrow> return_from_trap_handler64 MachineMode)"

section \<open>The step\<close>

definition exec_op64 :: "'d env64 \<Rightarrow> Mapping \<Rightarrow> ('d ISS64, unit) act" where
  "exec_op64 env m = (case m of
     UNDEF \<Rightarrow> RAISE_ILLEGAL_INSTRUCTION64
   | RV32I x \<Rightarrow> exec_rv32i64 env x
   | ZIFENCEI x \<Rightarrow> ret ()
   | ZICSR x \<Rightarrow> exec_zicsr64 env x
   | RV32M x \<Rightarrow> exec_rv32m64 x
   | RV32A x \<Rightarrow> exec_rv32a64 env x
   | RV32F x \<Rightarrow> exec_rv32f64 env x
   | RV32D x \<Rightarrow> exec_rv32d64 env x
   | PRIV x \<Rightarrow> exec_priv64 env x
   | RV64I x \<Rightarrow> exec_rv64i env x
   | RV64M x \<Rightarrow> exec_rv64m x
   | RV64A x \<Rightarrow> exec_rv64a env x
   | RV64F x \<Rightarrow> exec_rv64f env x
   | RV64D x \<Rightarrow> exec_rv64d env x)"

text \<open>A trap during the fetch clears the current instruction before it is thrown on.\<close>

definition fetch64 :: "'d env64 \<Rightarrow> ('d ISS64, unit) act" where
  "fetch64 env s = (case load_instr64 env (pc64 s) s of
     (Ok mem_word, s') \<Rightarrow> (Ok (), s'\<lparr>instr64 := mem_word\<rparr>)
   | (Trap e v, s') \<Rightarrow> (Trap e v, s'\<lparr>op64 := UNDEF, instr64 := 0\<rparr>)
   | (Fail e, s') \<Rightarrow> (Fail e, s')
   | (Blocked, s') \<Rightarrow> (Blocked, s'))"

definition decode_step64 :: "('d ISS64, unit) act" where
  "decode_step64 = bindM (getsM instr64) (\<lambda>w.
     if instr_is_compressed w then
       (case decode_and_expand_compressed RV64 w of
          Inl e \<Rightarrow> failM e
        | Inr (m, w') \<Rightarrow>
            modifyM (\<lambda>s. s\<lparr>op64 := m, instr64 := w', pc64 := pc64 s + 2\<rparr>))
     else modifyM (\<lambda>s. s\<lparr>op64 := decode_normal RV64 w, pc64 := pc64 s + 4\<rparr>))"

definition exec_step64 :: "'d env64 \<Rightarrow> ('d ISS64, unit) act" where
  "exec_step64 env =
     seqs [assertM (\<lambda>s. pc64 s AND NOT (pc_alignment_mask64 s) = 0), fetch64 env, decode_step64,
       bindM (getsM op64) (exec_op64 env)]"

end
