(* ===== verification/Iss64_Run.thy ===== *)
theory Iss64_Run
  imports Iss64_Exec
begin

text \<open>
  The run loop of the RV64 hart (\<open>rv64/iss.cpp\<close>): \<open>performance_and_sync_update\<close>, \<open>run_step\<close> and
  \<open>run\<close>, and \<open>DirectCoreRunner\<close> of \<open>rv64/iss.h\<close>.
\<close>

unbundle bit_operations_syntax

definition sync_act64 :: "'d env64 \<Rightarrow> 'd ISS64 \<Rightarrow> 'd ISS64" where
  "sync_act64 env s = (put_shared64 (sync64 env (quantum_keeper64 s) (get_shared64 s)) s)\<lparr>quantum_keeper64 := 0\<rparr>"

definition performance_and_sync_update64 :: "'d env64 \<Rightarrow> Mapping \<Rightarrow> ('d ISS64, unit) act" where
  "performance_and_sync_update64 env executed_op = seqs
     [modifyM (\<lambda>s. if mcountinhibit_IR64 (mcountinhibit64 (csrs64 s)) = 0
        then upd_csrs64 (\<lambda>c. c\<lparr>instret64 := instret64 c + 1\<rparr>) s else s),
      whenM (\<lambda>s. lr_sc_counter64 s \<noteq> 0)
        (seqs [modifyM (\<lambda>s. s\<lparr>lr_sc_counter64 := lr_sc_counter64 s - 1\<rparr>),
          assertM (\<lambda>s. lr_sc_counter64 s \<ge> 0),
          modifyM (\<lambda>s. if lr_sc_counter64 s = 0 then release_lr_sc_reservation64 s else s)]),
      modifyM (\<lambda>s. if mcountinhibit_CY64 (mcountinhibit64 (csrs64 s)) = 0
        then s\<lparr>cycle_counter64 := cycle_counter64 s + instr_cycles64 executed_op\<rparr> else s),
      inc_time64 (instr_cycles64 executed_op),
      whenM (\<lambda>s. need_sync64 env (quantum_keeper64 s) (get_shared64 s) \<and> lr_sc_counter64 s = 0)
        (modifyM (sync_act64 env))]"

text \<open>The body of the \<open>try\<close> block of \<open>run_step\<close>, and the handler of a \<open>SimulationTrap\<close>.\<close>

definition take_interrupt64 :: "('d ISS64, unit) act" where
  "take_interrupt64 = bindM (getsM compute_pending_interrupts64) (\<lambda>x.
     if target_mode64 x \<noteq> NoneMode then
       seqM (prepare_interrupt64 x) (switch_to_trap_handler64 (target_mode64 x))
     else ret ())"

definition catch_trap64 :: "('d ISS64, unit) act \<Rightarrow> ('d ISS64, unit) act" where
  "catch_trap64 m s = (case m s of
     (Trap e v, s') \<Rightarrow> bindM (prepare_trap64 e v) switch_to_trap_handler64 s'
   | r \<Rightarrow> r)"

definition run_step_body64 :: "'d env64 \<Rightarrow> ('d ISS64, unit) act" where
  "run_step_body64 env = seqs
     [modifyM (\<lambda>s. s\<lparr>last_pc64 := pc64 s\<rparr>),
      catch_trap64 (seqM (exec_step64 env) take_interrupt64),
      modifyM (\<lambda>s. s\<lparr>regs64 := (regs64 s)[0 := 0]\<rparr>),
      modifyM (\<lambda>s. if shall_exit64 s then s\<lparr>status64 := Terminated\<rparr> else s),
      bindM (getsM op64) (performance_and_sync_update64 env)]"

definition run_step64 :: "'d env64 \<Rightarrow> ('d ISS64, unit) act" where
  "run_step64 env = seqM (assertM (\<lambda>s. reg64 0 s = 0))
     (bindM (getsM (\<lambda>s. debug_mode64 s \<and> pc64 s \<in> breakpoints64 s)) (\<lambda>hit.
       if hit then modifyM (\<lambda>s. s\<lparr>status64 := HitBreakpoint\<rparr>) else run_step_body64 env))"

text \<open>
  The \<open>do ... while\<close> loop of \<open>run\<close>. It ends when a breakpoint is hit or the program exits; \<open>None\<close>
  is a run that does not end.
\<close>

partial_function (option) run_loop64 :: "'d env64 \<Rightarrow> 'd ISS64 \<Rightarrow> (unit outcome \<times> 'd ISS64) option" where
  "run_loop64 env s = (case run_step64 env s of
     (Ok x, s') \<Rightarrow> if status64 s' = Runnable then run_loop64 env s' else Some (Ok x, s')
   | (Trap e v, s') \<Rightarrow> Some (Trap e v, s')
   | (Fail e, s') \<Rightarrow> Some (Fail e, s')
   | (Blocked, s') \<Rightarrow> Some (Blocked, s'))"

definition run64 :: "'d env64 \<Rightarrow> 'd ISS64 \<Rightarrow> (unit outcome \<times> 'd ISS64) option" where
  "run64 env s = (case run_loop64 env s of
     None \<Rightarrow> None
   | Some r \<Rightarrow> Some (bindM (\<lambda>_. r) (\<lambda>_. modifyM (sync_act64 env)) s))"

text \<open>\<open>DirectCoreRunner::run\<close>\<close>

definition DirectCoreRunner_run64 :: "'d env64 \<Rightarrow> 'd ISS64 \<Rightarrow> (unit outcome \<times> 'd ISS64) option" where
  "DirectCoreRunner_run64 env s = (case run64 env s of
     None \<Rightarrow> None
   | Some r \<Rightarrow> Some (bindM (\<lambda>_. r) (\<lambda>_. seqs [
       (\<lambda>s. if status64 s = HitBreakpoint then (Fail RuntimeError, s) else (Ok (), s)),
       assertM (\<lambda>s. status64 s = Terminated)]) s))"

end
