(* ===== verification/Iss64_Inv.thy ===== *)
theory Iss64_Inv
  imports Iss64_Run
begin

text \<open>
  The invariant of the RV64 hart, proved for every operation and composed to \<open>run_step\<close>: the sizes of
  the register files, an even program counter, and the fields of the CSRs that are hardwired or
  legalised by \<open>set_csr_value\<close>.
\<close>

unbundle bit_operations_syntax

section \<open>The invariant\<close>

text \<open>
  \<open>mstatus.uxl\<close> and \<open>sxl\<close> keep the value of the constructor, \<open>misa\<close> that of \<open>init\<close>, \<open>satp.mode\<close> is one the
  MMU knows, and the exception program counters are even.
\<close>

definition csr_inv64 :: "csr_table64 \<Rightarrow> bool" where
  "csr_inv64 c \<longleftrightarrow> csr_wf64 c \<and> misa64 c = misa_init64 \<and> bf_get 32 4 (mstatus64 c) = 0xA \<and>
     satp_mode64 (satp64 c) \<in> {0, 8, 9} \<and> even (mepc64 c) \<and> even (sepc64 c) \<and> even (uepc64 c)"

definition hart_inv64 :: "'d ISS64 \<Rightarrow> bool" where
  "hart_inv64 s \<longleftrightarrow> length (regs64 s) = 32 \<and> length (fp_regs64 s) = 32 \<and>
     even (pc64 s) \<and> even (last_pc64 s) \<and> csr_inv64 (csrs64 s)"

lemma hart_inv_init64: "even entry \<Longrightarrow> hart_inv64 (init64 entry sp (ISS_init64 h im ds m w))"
proof -
  have "bf_get 32 4 mstatus_init64 = 0xA" "bf_get 60 4 (0 :: u64) = 0"
    by (simp_all add: mstatus_init64_def bf_get_def bf_set_def mask_eq_exp_minus_1 take_bit_eq_mod
        push_bit_eq_mult drop_bit_eq_div)
  then show "even entry \<Longrightarrow> ?thesis"
    by (simp add: hart_inv64_def csr_inv64_def init64_def ISS_init64_def set_reg64_def RegFile_init64_def
        csr_table_init64_def csr_wf64_def)
qed

section \<open>Updates of the CSRs\<close>

lemma bf_get_masked_write64:
  "bf_get lo w msk = 0 \<Longrightarrow> bf_get lo w (masked_write64 msk v x) = bf_get lo w x"
proof -
  assume *: "bf_get lo w msk = 0"
  have "\<not> (n < w \<and> bit msk (lo + n))" for n
    using * [THEN arg_cong, of "\<lambda>u. bit u n"] by (simp add: bit_bf_get)
  then show ?thesis
    by (intro bit_word_eqI) (auto simp: bit_bf_get masked_write64_def bit_simps dest: bit_imp_le_length)
qed

lemma even_masked_write64: "even msk \<Longrightarrow> even (masked_write64 msk v x) = even x"
  by (simp add: masked_write64_def even_or_iff even_and_iff)

lemma satp_write_mode64:
  "satp_mode64 old \<in> {0, 8, 9} \<Longrightarrow> satp_mode64 (satp_write64 v old) \<in> {0, 8, 9}"
  by (auto simp: satp_write64_def Let_def bf_simps)

lemma csr_inv_updates64 [simp]:
  "csr_inv64 (c\<lparr>mip64 := v\<rparr>) = csr_inv64 c" "csr_inv64 (c\<lparr>time64 := v\<rparr>) = csr_inv64 c"
  "csr_inv64 (c\<lparr>cycle64 := v\<rparr>) = csr_inv64 c" "csr_inv64 (c\<lparr>instret64 := v\<rparr>) = csr_inv64 c"
  "csr_inv64 (c\<lparr>fcsr64 := v\<rparr>) = csr_inv64 c" "csr_inv64 (c\<lparr>mcause64 := v\<rparr>) = csr_inv64 c"
  "csr_inv64 (c\<lparr>scause64 := v\<rparr>) = csr_inv64 c" "csr_inv64 (c\<lparr>ucause64 := v\<rparr>) = csr_inv64 c"
  "csr_inv64 (c\<lparr>mtval64 := v\<rparr>) = csr_inv64 c" "csr_inv64 (c\<lparr>stval64 := v\<rparr>) = csr_inv64 c"
  "csr_inv64 (c\<lparr>utval64 := v\<rparr>) = csr_inv64 c"
  by (simp_all add: csr_inv64_def csr_wf64_def)

lemma csr_inv_mstatus64:
  "bf_get 32 4 v = bf_get 32 4 (mstatus64 c) \<Longrightarrow> csr_inv64 (c\<lparr>mstatus64 := v\<rparr>) = csr_inv64 c"
  by (simp add: csr_inv64_def csr_wf64_def)

lemma csr_inv_epc64:
  "csr_inv64 c \<Longrightarrow> even v \<Longrightarrow> csr_inv64 (c\<lparr>mepc64 := v\<rparr>)"
  "csr_inv64 c \<Longrightarrow> even v \<Longrightarrow> csr_inv64 (c\<lparr>sepc64 := v\<rparr>)"
  "csr_inv64 c \<Longrightarrow> even v \<Longrightarrow> csr_inv64 (c\<lparr>uepc64 := v\<rparr>)"
  by (simp_all add: csr_inv64_def csr_wf64_def)

lemma write_view_inv64:
  assumes "csr_inv64 c" and "even pm" and "write_view64 pm addr v c = Some c'"
  shows "csr_inv64 c'"
proof -
  have m: "bf_get 32 4 (MSTATUS_WRITE_MASK64) = 0" "bf_get 32 4 (SSTATUS_WRITE_MASK64) = 0"
    "bf_get 32 4 (USTATUS_MASK64) = 0"
    by (simp_all add: bf_get_def take_bit_eq_mod drop_bit_eq_div)
  have w: "csr_wf64 c'" using assms(1,3) write_view_wf64 by (auto simp: csr_inv64_def)
  show ?thesis
    using assms w
    by (auto simp: write_view64_def csr_inv64_def even_masked_write64 m bf_get_masked_write64
        split: if_splits)
qed

text \<open>Through the table, only the entries of these registers change them.\<close>

lemma register_mapping_other64:
  assumes "(a, Some p) \<in> set register_mapping64"
  shows "a \<noteq> MISA_ADDR \<Longrightarrow> misa64 (snd p v t) = misa64 t"
    and "a \<noteq> MSTATUS_ADDR \<Longrightarrow> mstatus64 (snd p v t) = mstatus64 t"
    and "a \<noteq> SATP_ADDR \<Longrightarrow> satp64 (snd p v t) = satp64 t"
    and "a \<noteq> MEPC_ADDR \<Longrightarrow> mepc64 (snd p v t) = mepc64 t"
    and "a \<noteq> SEPC_ADDR \<Longrightarrow> sepc64 (snd p v t) = sepc64 t"
    and "a \<noteq> UEPC_ADDR \<Longrightarrow> uepc64 (snd p v t) = uepc64 t"
  using assms unfolding register_mapping64_def
  by (auto simp: ptr_defs64 split: if_splits)

lemma write_table_csr_inv64:
  assumes "csr_inv64 t" and "default_write64 a v t = Inr t'"
    and "a \<notin> {MISA_ADDR, MSTATUS_ADDR, SATP_ADDR, MEPC_ADDR, SEPC_ADDR, UEPC_ADDR}"
  shows "csr_inv64 t'"
proof -
  from assms(2) obtain p where p: "map_of register_mapping64 a = Some (Some p)" "t' = snd p v t"
    by (auto simp: default_write64_def split: option.splits)
  note o = register_mapping_other64 [OF map_of_SomeD [OF p(1)]]
  have "csr_wf64 t'" using csr_file64.wr_inv [OF _ assms(2)] assms(1) by (simp add: csr_inv64_def)
  with assms(1,3) o p(2) show ?thesis by (simp add: csr_inv64_def)
qed

section \<open>The operations keep the invariant\<close>

lemma hart_inv_updates64 [simp]:
  "hart_inv64 (s\<lparr>prv64 := x\<rparr>) = hart_inv64 s" "hart_inv64 (s\<lparr>lr_sc_counter64 := i\<rparr>) = hart_inv64 s"
  "hart_inv64 (s\<lparr>instr64 := y\<rparr>) = hart_inv64 s" "hart_inv64 (s\<lparr>op64 := m\<rparr>) = hart_inv64 s"
  "hart_inv64 (s\<lparr>status64 := st\<rparr>) = hart_inv64 s" "hart_inv64 (s\<lparr>quantum_keeper64 := q\<rparr>) = hart_inv64 s"
  "hart_inv64 (s\<lparr>cycle_counter64 := q\<rparr>) = hart_inv64 s"
  "hart_inv64 (s\<lparr>softfloat_roundingMode64 := x\<rparr>) = hart_inv64 s"
  "hart_inv64 (s\<lparr>softfloat_exceptionFlags64 := x\<rparr>) = hart_inv64 s"
  "hart_inv64 (s\<lparr>regs64 := (regs64 s)[j := v]\<rparr>) = hart_inv64 s"
  "hart_inv64 (s\<lparr>fp_regs64 := fp_write64 k w (fp_regs64 s)\<rparr>) = hart_inv64 s"
  "hart_inv64 (s\<lparr>fp_regs64 := fp_write32 k z (fp_regs64 s)\<rparr>) = hart_inv64 s"
  "hart_inv64 (set_reg64 r v s) = hart_inv64 s" "hart_inv64 (set_rd64 v s) = hart_inv64 s"
  "hart_inv64 (atomic_unlock64 s) = hart_inv64 s" "hart_inv64 (put_shared64 sw s) = hart_inv64 s"
  by (simp_all add: hart_inv64_def set_reg64_def set_rd64_def fp_write32_def)

lemma hart_inv_pc64: "hart_inv64 s \<Longrightarrow> even v \<Longrightarrow> hart_inv64 (s\<lparr>pc64 := v\<rparr>)"
  by (simp add: hart_inv64_def)

lemma hart_inv_undo64: "hart_inv64 s \<Longrightarrow> hart_inv64 (s\<lparr>pc64 := last_pc64 s\<rparr>)"
  by (simp add: hart_inv64_def)

lemma hart_inv_upd_csrs64 [simp]:
  "(\<And>c. csr_inv64 (f c) = csr_inv64 c) \<Longrightarrow> hart_inv64 (upd_csrs64 f s) = hart_inv64 s"
  by (simp add: hart_inv64_def upd_csrs64_def)

lemma hart_inv_helpers64 [simp]:
  "hart_inv64 (release_lr_sc_reservation64 s) = hart_inv64 s"
  "hart_inv64 (fp_set_dirty64 s) = hart_inv64 s"
  "hart_inv64 (fp_update_exception_flags64 s) = hart_inv64 s"
  "hart_inv64 (fp_finish_instr64 s) = hart_inv64 s"
  "hart_inv64 (sync_act64 env s) = hart_inv64 s"
  by (simp_all add: release_lr_sc_reservation64_def fp_set_dirty64_def fp_update_exception_flags64_def
      fp_finish_instr64_def sync_act64_def csr_inv_mstatus64 bf_simps)

text \<open>A memory access changes nothing the invariant depends on.\<close>

lemma hart_inv_view64: "hart_view64 s' = hart_view64 s \<Longrightarrow> hart_inv64 s' = hart_inv64 s"
proof -
  assume *: "hart_view64 s' = hart_view64 s"
  then have "(csrs64 s')\<lparr>mip64 := 0\<rparr> = (csrs64 s)\<lparr>mip64 := 0\<rparr>" by (simp add: hart_view64_def)
  then have "csr_inv64 (csrs64 s') = csr_inv64 (csrs64 s)"
    using csr_inv_updates64(1) by metis
  with * show ?thesis by (simp add: hart_view64_def hart_inv64_def)
qed

lemma view_keeps_inv64: "keeps hart_view64 m \<Longrightarrow> preserves hart_inv64 m"
  unfolding keeps_def preserves_def using hart_inv_view64 by blast

lemma preserves_case_prod64 [preserves_intros]:
  "(\<And>a b. preserves I (g a b)) \<Longrightarrow> preserves I (case p of (a, b) \<Rightarrow> g a b)"
  by (cases p) simp

lemma preserves_option64 [preserves_intros]:
  "preserves I m \<Longrightarrow> (\<And>x. preserves I (g x)) \<Longrightarrow> preserves I (case o' of None \<Rightarrow> m | Some x \<Rightarrow> g x)"
  by (cases o') simp_all

lemma traps_inv64 [preserves_intros]:
  "preserves I RAISE_ILLEGAL_INSTRUCTION64" "preserves I trap_check_pc_alignment64"
  "preserves I (trap_check_addr_alignment64 al ld addr)"
  "preserves I fp_require_not_off64" "preserves I fp_prepare_instr64"
  unfolding RAISE_ILLEGAL_INSTRUCTION64_def trap_check_pc_alignment64_def
    trap_check_addr_alignment64_def fp_require_not_off64_def fp_prepare_instr64_def
  by (intro preserves_intros)+

lemma convert_inv64: "preserves I m \<Longrightarrow> preserves I (amo_convert_trap64 m)"
  by (auto simp: preserves_def amo_convert_trap64_def split: prod.split outcome.split)

lemma puts_inv64 [preserves_intros]:
  "preserves hart_inv64 (put_rd64 v)" "preserves hart_inv64 (put_f32_64 z)"
  "preserves hart_inv64 (put_f64_64 w)" "preserves hart_inv64 fp_setup_rm64"
  unfolding put_rd64_def put_f32_64_def put_f64_64_def fp_setup_rm64_def
  by (intro preserves_intros; simp)+

lemma call_sf_inv64 [preserves_intros]: "preserves hart_inv64 (call_sf64 f)"
  by (auto simp: preserves_def call_sf64_def split: prod.split)

lemma fp_finish_inv64 [preserves_intros]:
  "preserves hart_inv64 (modifyM fp_finish_instr64)" "preserves hart_inv64 (modifyM fp_set_dirty64)"
  "preserves hart_inv64 (modifyM fp_update_exception_flags64)"
  by (intro preserves_intros; simp)+

lemma accesses_inv64 [preserves_intros]:
  "preserves hart_inv64 (load_double64 env a)" "preserves hart_inv64 (load_word64 env a)"
  "preserves hart_inv64 (load_half64 env a)" "preserves hart_inv64 (load_byte64 env a)"
  "preserves hart_inv64 (load_uword64 env a)" "preserves hart_inv64 (load_uhalf64 env a)"
  "preserves hart_inv64 (load_ubyte64 env a)" "preserves hart_inv64 (store_double64 env a v8)"
  "preserves hart_inv64 (store_word64 env a v4)" "preserves hart_inv64 (store_half64 env a v2)"
  "preserves hart_inv64 (store_byte64 env a v1)" "preserves hart_inv64 flush_tlb64"
  by (intro view_keeps_inv64 keeps_intros)+

lemma atomics_inv64 [preserves_intros]:
  "preserves hart_inv64 (atomic_load_word64 env a)" "preserves hart_inv64 (atomic_store_word64 env a v4)"
  "preserves hart_inv64 (atomic_load_reserved_word64 env a)"
  "preserves hart_inv64 (atomic_store_conditional_word64 env a v4)"
  "preserves hart_inv64 (atomic_load_double64 env a)" "preserves hart_inv64 (atomic_store_double64 env a v8)"
  "preserves hart_inv64 (atomic_load_reserved_double64 env a)"
  "preserves hart_inv64 (atomic_store_conditional_double64 env a v8)"
  by (intro view_keeps_inv64 keeps_intros)+

text \<open>CSR accesses: a write keeps the hardwired and legalised fields.\<close>

lemma even_pc_mask64: "even (pc_alignment_mask64 s)"
  by (simp add: pc_alignment_mask64_def)

lemma get_csr_inv64 [preserves_intros]: "preserves hart_inv64 (get_csr_value64 env r)"
proof -
  have t: "preserves hart_inv64 (read_time64 env)"
    by (auto simp: preserves_def read_time64_def split: prod.split)
  have c: "preserves hart_inv64 read_cycle64"
    unfolding read_cycle64_def compute_and_get_current_cycles64_def by (intro preserves_intros) simp
  have r: "preserves hart_inv64 (read_table64 r)"
    unfolding read_table64_def by (intro preserves_intros) (simp add: preserves_def split: sum.split)
  show ?thesis
    unfolding get_csr_value64_def validate_csr_counter_read_access_rights64_def
    by (intro preserves_intros t c r)
qed

lemma set_csr_inv64 [preserves_intros]:
  "preserves hart_inv64 (set_csr_value64 r v :: ('d ISS64, unit) act)"
proof (cases "r = MISA_ADDR \<or> r = SATP_ADDR")
  case True
  have "hart_inv64 s \<Longrightarrow> hart_inv64 (upd_csrs64 (\<lambda>c. c\<lparr>satp64 := satp_write64 v (satp64 c)\<rparr>) s)" for s
    using satp_write_mode64 [of "satp64 (csrs64 s)" v]
    by (simp add: hart_inv64_def csr_inv64_def upd_csrs64_def csr_wf64_def)
  with True show ?thesis
    unfolding set_csr_value64_def by (auto intro!: preserves_intros)
next
  case False
  have view: "preserves hart_inv64 (bindM (getsM (\<lambda>s :: 'd ISS64. write_view64 (pc_alignment_mask64 s) r v (csrs64 s)))
      (\<lambda>x. case x of Some c \<Rightarrow> modifyM (\<lambda>s. s\<lparr>csrs64 := c\<rparr>) | None \<Rightarrow> write_table64 r v))"
  proof (unfold preserves_def, intro allI impI)
    fix s :: "'d ISS64"
    assume s: "hart_inv64 s"
    show "hart_inv64 (snd (bindM (getsM (\<lambda>s. write_view64 (pc_alignment_mask64 s) r v (csrs64 s)))
      (\<lambda>x. case x of Some c \<Rightarrow> modifyM (\<lambda>s. s\<lparr>csrs64 := c\<rparr>) | None \<Rightarrow> write_table64 r v) s))"
    proof (cases "write_view64 (pc_alignment_mask64 s) r v (csrs64 s)")
      case None
      then have "r \<notin> {MSTATUS_ADDR, MEPC_ADDR, SEPC_ADDR, UEPC_ADDR}"
        by (auto simp: write_view64_def)
      with False have *: "r \<notin> {MISA_ADDR, MSTATUS_ADDR, SATP_ADDR, MEPC_ADDR, SEPC_ADDR, UEPC_ADDR}"
        by blast
      have "hart_inv64 (snd (write_table64 r v s))"
        using s write_table_csr_inv64 [OF _ _ *, of "csrs64 s" v]
        by (auto simp: write_table64_def hart_inv64_def RAISE_ILLEGAL_INSTRUCTION64_def split: sum.split)
      with None show ?thesis by simp
    next
      case (Some c)
      with s write_view_inv64 [OF _ even_pc_mask64 Some] show ?thesis
        by (simp add: hart_inv64_def)
    qed
  qed
  show ?thesis using False unfolding set_csr_value64_def by (auto intro!: preserves_intros view)
qed

lemma zicsr_inv64: "preserves hart_inv64 (exec_zicsr64 env x)"
proof -
  have "preserves hart_inv64 (exec_csr_write64 env v)" "preserves hart_inv64 (exec_csr_modify64 env b f)" for v b f
    unfolding exec_csr_write64_def exec_csr_modify64_def csr_guard64_def by (intro preserves_intros)+
  then show ?thesis
    unfolding exec_zicsr64_def by (cases x; simp only: zicsr.case; intro preserves_intros; blast)
qed

text \<open>Jumps go to even addresses: the immediates of jumps and branches are even.\<close>

lemma even_scast: "\<not> bit w 0 \<Longrightarrow> even (scast (w :: u32) :: u64)"
proof -
  assume "\<not> bit w 0"
  then have "\<not> bit (scast w :: u64) 0" unfolding bit_signed_iff by (simp add: min_def)
  then show ?thesis by (simp only: bit_0 not_not)
qed

lemma even_imms64: "even (B_imm64 s)" "even (J_imm64 s)"
  by (simp_all add: even_scast instr_B_imm_even instr_J_imm_even)

lemma jump_inv64:
  assumes "\<And>s. hart_inv64 s \<Longrightarrow> even (f s)"
  shows "preserves hart_inv64 (exec_jump64 f)"
  unfolding exec_jump64_def by (intro preserves_intros hart_inv_pc64 assms)

lemma branch_inv64: "preserves hart_inv64 (exec_branch64 c)"
  unfolding exec_branch64_def
  by (intro preserves_intros hart_inv_pc64) (simp_all add: hart_inv64_def even_imms64)

lemma load_store_inv64:
  "(\<And>a. preserves hart_inv64 (ld a)) \<Longrightarrow> preserves hart_inv64 (exec_load64 al ld)"
  "(\<And>a v. preserves hart_inv64 (st a v)) \<Longrightarrow> preserves hart_inv64 (exec_store64 al st)"
  unfolding exec_load64_def exec_store64_def by (intro preserves_intros; assumption?)+

text \<open>What is required of a syscall emulator, if there is one.\<close>

definition sys_keeps64 :: "('d ISS64 \<Rightarrow> bool) \<Rightarrow> 'd env64 \<Rightarrow> bool" where
  "sys_keeps64 I env \<longleftrightarrow> (\<forall>m. sys64 env = Some m \<longrightarrow> preserves I m)"

lemma ecall_inv64: "sys_keeps64 I env \<Longrightarrow> preserves I (exec_ecall64 env)"
  unfolding exec_ecall64_def sys_keeps64_def
  by (cases "sys64 env") (auto intro!: preserves_intros)

lemma rv32i_inv64:
  assumes "sys_keeps64 hart_inv64 env"
  shows "preserves hart_inv64 (exec_rv32i64 env x)"
proof -
  have alu: "preserves hart_inv64 (exec_alu64 y)" for y
    unfolding exec_alu64_def by (intro preserves_intros)
  have stat: "preserves hart_inv64 (modifyM (\<lambda>s. s\<lparr>status64 := HitBreakpoint\<rparr>))"
    by (intro preserves_intros) simp
  have jal: "preserves hart_inv64 (exec_jump64 (\<lambda>s. last_pc64 s + J_imm64 s))"
    by (rule jump_inv64) (simp add: hart_inv64_def even_imms64)
  have jalr: "preserves hart_inv64 (exec_jump64 (\<lambda>s. (x_rs1_64 s + I_imm64 s) AND NOT 1))"
    by (rule jump_inv64) (simp add: even_and_iff)
  show ?thesis
    unfolding exec_rv32i64_def
    by (cases x; simp only: rv32i.case;
        intro alu jal jalr branch_inv64 load_store_inv64 stat ecall_inv64 [OF assms] preserves_intros)
qed

lemma rv64i_inv64: "preserves hart_inv64 (exec_rv64i env x)"
  unfolding exec_rv64i_def
  by (cases x; simp only: rv64i.case; intro load_store_inv64 preserves_intros)

lemma rvm_inv64: "preserves hart_inv64 (exec_rv32m64 x)" "preserves hart_inv64 (exec_rv64m y)"
  unfolding exec_rv32m64_def exec_rv64m_def by (intro preserves_intros)+

lemma rva_inv64: "preserves hart_inv64 (exec_rv32a64 env x)" "preserves hart_inv64 (exec_rv64a env y)"
proof -
  have lr: "(\<And>a. preserves hart_inv64 (ld a)) \<Longrightarrow> preserves hart_inv64 (exec_lr64 al ld)" for al ld
    unfolding exec_lr64_def by (intro preserves_intros) simp_all
  have sc: "(\<And>a v. preserves hart_inv64 (st a v)) \<Longrightarrow> preserves hart_inv64 (exec_sc64 al st)" for al st
    unfolding exec_sc64_def by (intro preserves_intros) simp_all
  have amo: "preserves hart_inv64 (execute_amo_w env f)" "preserves hart_inv64 (execute_amo_d env g)" for f g
    unfolding execute_amo_w_def execute_amo_d_def by (intro preserves_intros convert_inv64)+
  show "preserves hart_inv64 (exec_rv32a64 env x)" "preserves hart_inv64 (exec_rv64a env y)"
    unfolding exec_rv32a64_def exec_rv64a_def by (intro preserves_intros lr sc amo)+
qed

lemma fp_shapes_inv64:
  "(\<And>v. preserves hart_inv64 (put v)) \<Longrightarrow> preserves hart_inv64 (fp_rounding64 f put)"
  "preserves hart_inv64 (fp_compare64 g)"
  "(\<And>v. preserves hart_inv64 (put' v)) \<Longrightarrow> preserves hart_inv64 (fp_move64 h put')"
  "preserves hart_inv64 (fp_to_int64 k)"
  "preserves hart_inv64 (first_wins64 lt eq neg a b)"
  unfolding fp_rounding64_def fp_compare64_def fp_move64_def fp_to_int64_def first_wins64_def
  by (intro preserves_intros; assumption?)+

lemma fmin_inv64: "preserves hart_inv64 (exec_fmin_s64 env b)" "preserves hart_inv64 (exec_fmin_d64 env b)"
  unfolding exec_fmin_s64_def exec_fmin_d64_def by (intro preserves_intros fp_shapes_inv64)+

lemma fp_memory_inv64:
  "preserves hart_inv64 (exec_flw64 env)" "preserves hart_inv64 (exec_fsw64 env)"
  "preserves hart_inv64 (exec_fld64 env)" "preserves hart_inv64 (exec_fsd64 env)"
  unfolding exec_flw64_def exec_fsw64_def exec_fld64_def exec_fsd64_def by (intro preserves_intros)+

lemma rvf_inv64: "preserves hart_inv64 (exec_rv32f64 env x)"
  unfolding exec_rv32f64_def Let_def
  by (cases x; simp only: rv32f.case; intro fp_shapes_inv64 fmin_inv64 fp_memory_inv64 preserves_intros)

lemma rvd_inv64: "preserves hart_inv64 (exec_rv32d64 env x)"
  unfolding exec_rv32d64_def Let_def
  by (cases x; simp only: rv32d.case; intro fp_shapes_inv64 fmin_inv64 fp_memory_inv64 preserves_intros)

lemma rv64f_inv64: "preserves hart_inv64 (exec_rv64f env x)"
  unfolding exec_rv64f_def Let_def
  by (cases x; simp only: rv64f.case; intro fp_shapes_inv64 preserves_intros)

lemma rv64d_inv64: "preserves hart_inv64 (exec_rv64d env x)"
  unfolding exec_rv64d_def Let_def
  by (cases x; simp only: rv64d.case; intro fp_shapes_inv64 preserves_intros)

text \<open>Trap handlers start at a multiple of four, and return to an even address.\<close>

lemma even_handler64: "even (handler_pc64 tvec cause)"
  by (simp add: handler_pc64_def get_base_address64_def push_bit_eq_mult)

lemma enter_inv64:
  "hart_inv64 s \<Longrightarrow> hart_inv64 (enter_m64 pp s)" "hart_inv64 s \<Longrightarrow> hart_inv64 (enter_s64 pp s)"
  "hart_inv64 s \<Longrightarrow> hart_inv64 (enter_u64 s)"
  by (simp_all add: hart_inv64_def enter_m64_def enter_s64_def enter_u64_def Let_def even_handler64
      csr_inv_mstatus64 csr_inv_epc64 bf_simps)

lemma switch_inv64: "preserves hart_inv64 (switch_to_trap_handler64 p)"
  unfolding switch_to_trap_handler64_def by (intro preserves_intros enter_inv64) simp_all

lemma return_inv64: "preserves hart_inv64 (return_from_trap_handler64 p)"
proof -
  have r: "hart_inv64 s \<Longrightarrow> bf_get 32 4 st = bf_get 32 4 (mstatus64 (csrs64 s)) \<Longrightarrow>
      v \<in> {mepc64 (csrs64 s), sepc64 (csrs64 s), uepc64 (csrs64 s)} \<Longrightarrow>
      hart_inv64 (s\<lparr>prv64 := q, csrs64 := (csrs64 s)\<lparr>mstatus64 := st\<rparr>, pc64 := v\<rparr>)" for s q st v
    by (auto simp: hart_inv64_def csr_inv64_def csr_wf64_def)
  show ?thesis
    unfolding return_from_trap_handler64_def Let_def by (intro preserves_intros r; simp add: bf_simps)
qed

lemma prepare_inv64:
  "preserves hart_inv64 (prepare_trap64 e v)" "preserves hart_inv64 (prepare_interrupt64 i)"
  unfolding prepare_trap64_def prepare_interrupt64_def Let_def
  by (intro preserves_intros; simp add: hart_inv_undo64)+

lemma wfi_inv64: "preserves hart_inv64 (exec_wfi64 env)"
proof -
  have "preserves hart_inv64 (\<lambda>s. case wait_wfi_event64 env (get_shared64 s) of
      None \<Rightarrow> (Blocked, s) | Some w \<Rightarrow> (Ok (), put_shared64 w s))"
    by (simp add: preserves_def split: option.split)
  then show ?thesis unfolding exec_wfi64_def by (intro preserves_intros) simp_all
qed

lemma priv_inv64: "preserves hart_inv64 (exec_priv64 env x)"
  unfolding exec_priv64_def
  by (cases x; simp only: rvpriv.case; intro preserves_intros wfi_inv64 return_inv64)

section \<open>The step\<close>

lemma exec_op_inv64:
  assumes "sys_keeps64 hart_inv64 env"
  shows "preserves hart_inv64 (exec_op64 env m)"
  unfolding exec_op64_def
  by (cases m; simp only: Mapping.case;
      intro rv32i_inv64 [OF assms] rv64i_inv64 zicsr_inv64 rvm_inv64 rva_inv64 rvf_inv64 rvd_inv64
        rv64f_inv64 rv64d_inv64 priv_inv64 preserves_intros)

lemma fetch_inv64: "preserves hart_inv64 (fetch64 env)"
proof -
  have "hart_inv64 s \<Longrightarrow> hart_inv64 (snd (load_instr64 env (pc64 s) s))" for s
    using view_keeps_inv64 [OF load_instr_keeps_view64, of env "pc64 s"] by (simp add: preserves_def)
  then show ?thesis
    by (auto simp: preserves_def fetch64_def split: prod.split outcome.split) (metis snd_conv)+
qed

lemma decode_inv64: "preserves hart_inv64 decode_step64"
proof -
  have "hart_inv64 s \<Longrightarrow> hart_inv64 (s\<lparr>op64 := m, instr64 := w, pc64 := pc64 s + 2\<rparr>)"
    "hart_inv64 s \<Longrightarrow> hart_inv64 (s\<lparr>op64 := m, pc64 := pc64 s + 4\<rparr>)" for s m w
    by (simp_all add: hart_inv64_def)
  then show ?thesis
    unfolding decode_step64_def
    by (intro preserves_bind [OF preserves_gets]) (auto split: sum.split intro!: preserves_intros)
qed

lemma exec_step_inv64:
  "sys_keeps64 hart_inv64 env \<Longrightarrow> preserves hart_inv64 (exec_step64 env)"
  unfolding exec_step64_def by (intro preserves_intros fetch_inv64 decode_inv64 exec_op_inv64)

lemma perf_inv64: "preserves hart_inv64 (performance_and_sync_update64 env m)"
  unfolding performance_and_sync_update64_def inc_time64_def by (intro preserves_intros) simp_all

lemma take_interrupt_inv64: "preserves hart_inv64 take_interrupt64"
  unfolding take_interrupt64_def by (intro preserves_intros prepare_inv64 switch_inv64)

lemma catch_inv64:
  fixes m :: "('d ISS64, unit) act"
  assumes "preserves hart_inv64 m"
  shows "preserves hart_inv64 (catch_trap64 m)"
proof -
  have h: "preserves hart_inv64 (bindM (prepare_trap64 e v) switch_to_trap_handler64 :: ('d ISS64, unit) act)" for e v
    by (intro preserves_intros prepare_inv64 switch_inv64)
  show ?thesis
    unfolding preserves_def
  proof (intro allI impI)
    fix s :: "'d ISS64"
    assume s: "hart_inv64 s"
    obtain r s1 where m: "m s = (r, s1)" by (cases "m s")
    with assms s have s1: "hart_inv64 s1" by (auto dest: preservesD)
    show "hart_inv64 (snd (catch_trap64 m s))"
    proof (cases r)
      case (Trap e v)
      with h [of e v] s1 m show ?thesis by (simp add: catch_trap64_def preserves_def)
    qed (use m s1 in \<open>simp_all add: catch_trap64_def\<close>)
  qed
qed

lemma run_step_inv64:
  assumes "sys_keeps64 hart_inv64 env"
  shows "preserves hart_inv64 (run_step64 env)"
proof -
  have "hart_inv64 s \<Longrightarrow> hart_inv64 (s\<lparr>last_pc64 := pc64 s\<rparr>)" for s by (simp add: hart_inv64_def)
  then show ?thesis
    unfolding run_step64_def run_step_body64_def
    by (intro preserves_intros catch_inv64 exec_step_inv64 [OF assms] take_interrupt_inv64 perf_inv64)
      simp_all
qed

end
