(* ===== verification/Iss64_Step.thy ===== *)
theory Iss64_Step
  imports Iss64_Inv
begin

text \<open>
  Whole steps of the RV64 hart (\<open>ISS::run_step\<close> of \<open>rv64/iss.cpp\<close>): the fetch from directly mapped
  memory composed with decoding, execution, the interrupt check and the counters.
\<close>

unbundle bit_operations_syntax

section \<open>A step from directly mapped memory\<close>

text \<open>
  The hart is about to execute the instruction word \<open>w\<close>: no breakpoint, the fetch needs no
  translation and goes to a direct mapping, and the bus is free.
\<close>

definition fetches64 :: "u32 \<Rightarrow> 'd ISS64 \<Rightarrow> bool" where
  "fetches64 w s \<longleftrightarrow> instr_mem64 s = CombinedMemory \<and> untranslated64 FETCH s \<and> has_access64 s \<and>
     phys_load (dmi_ranges64 s) (host (world64 s)) 4 (pc64 s) = Some (ucast w) \<and>
     pc64 s AND NOT (pc_alignment_mask64 s) = 0 \<and> reg64 0 s = 0 \<and> \<not> (debug_mode64 s \<and> pc64 s \<in> breakpoints64 s)"

text \<open>The state in which the operation of the fetched instruction is executed.\<close>

definition fetched64 :: "u32 \<Rightarrow> 'd ISS64 \<Rightarrow> 'd ISS64" where
  "fetched64 w s = s\<lparr>last_pc64 := pc64 s, quantum_keeper64 := quantum_keeper64 s + 40000, instr64 := w,
     op64 := decode_normal RV64 w, pc64 := pc64 s + 4\<rparr>"

lemma fetches_last_pc64 [simp]: "fetches64 w (s\<lparr>last_pc64 := x\<rparr>) = fetches64 w s"
  by (simp add: fetches64_def untranslated64_def access_mode64_def has_access64_def bus_locked_by_me64_def
      get_hart_id64_def reg64_def pc_alignment_mask64_def)

lemma exec_step_fetched64:
  assumes "fetches64 w s" and "\<not> instr_is_compressed w"
  shows "exec_step64 env (s\<lparr>last_pc64 := pc64 s\<rparr>) = exec_op64 env (decode_normal RV64 w) (fetched64 w s)"
proof -
  let ?s = "s\<lparr>last_pc64 := pc64 s\<rparr>"
  have f: "fetches64 w ?s" using assms(1) by simp
  then have "load_instr64 env (pc64 ?s) ?s =
      (Ok w, ?s\<lparr>quantum_keeper64 := quantum_keeper64 s + 40000\<rparr>)"
    using raw_load_data_dmi64 [of ?s 4 "pc64 s" "ucast w" env]
    by (simp add: fetches64_def load_instr64_def bindM_def v2p_untranslated64 ucast_down_up)
  then have "fetch64 env ?s = (Ok (), ?s\<lparr>quantum_keeper64 := quantum_keeper64 s + 40000, instr64 := w\<rparr>)"
    by (simp add: fetch64_def)
  moreover have "pc64 ?s AND NOT (pc_alignment_mask64 ?s) = 0" using f by (simp add: fetches64_def)
  ultimately show ?thesis
    using assms(2)
    by (simp add: exec_step64_def seqM_assert_apply)
      (simp add: seqM_apply decode_step64_def fetched64_def)
qed

text \<open>What is left of \<open>run_step\<close> after an operation that returned, when no interrupt is pending.\<close>

definition finished64 :: "'d ISS64 \<Rightarrow> 'd ISS64" where
  "finished64 s = (let s1 = s\<lparr>regs64 := (regs64 s)[0 := 0]\<rparr>
     in if shall_exit64 s1 then s1\<lparr>status64 := Terminated\<rparr> else s1)"

lemma run_step_body_eq64:
  "run_step_body64 env s = bindM (catch_trap64 (seqM (exec_step64 env) take_interrupt64))
     (\<lambda>_ s1. performance_and_sync_update64 env (op64 s1) (finished64 s1)) (s\<lparr>last_pc64 := pc64 s\<rparr>)"
proof -
  let ?k = "seqs [modifyM (\<lambda>s. s\<lparr>regs64 := (regs64 s)[0 := 0]\<rparr>),
      modifyM (\<lambda>s. if shall_exit64 s then s\<lparr>status64 := Terminated\<rparr> else s),
      bindM (getsM op64) (performance_and_sync_update64 env)]"
  have "?k s1 = performance_and_sync_update64 env (op64 s1) (finished64 s1)" for s1
    by (simp add: finished64_def Let_def)
  then have "?k = (\<lambda>s1. performance_and_sync_update64 env (op64 s1) (finished64 s1))" by (rule ext)
  then show ?thesis
    unfolding run_step_body64_def seqs.simps(2) seqM_modify_apply seqM_def by simp
qed

lemma run_step_fetched64:
  assumes "fetches64 w s" and "\<not> instr_is_compressed w"
    and "exec_op64 env (decode_normal RV64 w) (fetched64 w s) = (Ok (), s1)" and "mie64 (csrs64 s1) AND mip64 (csrs64 s1) = 0"
  shows "run_step64 env s = performance_and_sync_update64 env (op64 s1) (finished64 s1)"
proof -
  have "take_interrupt64 s1 = (Ok (), s1)"
    using assms(4) by (simp add: take_interrupt64_def compute_pending_interrupts64_def Let_def)
  then have "catch_trap64 (seqM (exec_step64 env) take_interrupt64) (s\<lparr>last_pc64 := pc64 s\<rparr>) = (Ok (), s1)"
    using assms(3) exec_step_fetched64 [OF assms(1,2), of env]
    by (simp add: catch_trap64_def seqM_apply)
  then show ?thesis
    using assms(1)
    by (auto simp: run_step64_def run_step_body64_def fetches64_def seqM_assert_apply seqM_apply
        finished64_def Let_def)
qed

section \<open>The counters\<close>

text \<open>What \<open>performance_and_sync_update\<close> leaves alone.\<close>

definition exec_view64 :: "'d ISS64 \<Rightarrow> _" where
  "exec_view64 s = (regs64 s, fp_regs64 s, pc64 s, last_pc64 s, prv64 s, instr64 s, op64 s, status64 s, shall_exit64 s,
     mmu64 s, lr_addr64 s, softfloat_exceptionFlags64 s, satp64 (csrs64 s))"

lemma perf_keeps_exec64: "keeps exec_view64 (performance_and_sync_update64 env m)"
  unfolding performance_and_sync_update64_def inc_time64_def
  by (intro keeps_intros)
    (simp_all add: exec_view64_def upd_csrs64_def release_lr_sc_reservation64_def sync_act64_def
      atomic_unlock64_def put_shared64_def)

text \<open>The update as a function on states: the counters, the reservation, the time and the sync.\<close>

definition count_instr64 :: "'d ISS64 \<Rightarrow> 'd ISS64" where
  "count_instr64 s = (if mcountinhibit_IR64 (mcountinhibit64 (csrs64 s)) = 0
     then upd_csrs64 (\<lambda>c. c\<lparr>instret64 := instret64 c + 1\<rparr>) s else s)"

definition tick_reservation64 :: "'d ISS64 \<Rightarrow> 'd ISS64" where
  "tick_reservation64 s = (if lr_sc_counter64 s = 0 then s
     else if lr_sc_counter64 s = 1 then release_lr_sc_reservation64 s
     else s\<lparr>lr_sc_counter64 := lr_sc_counter64 s - 1\<rparr>)"

definition tick_time64 :: "'d env64 \<Rightarrow> Mapping \<Rightarrow> 'd ISS64 \<Rightarrow> 'd ISS64" where
  "tick_time64 env m s =
     (let s1 = (if mcountinhibit_CY64 (mcountinhibit64 (csrs64 s)) = 0
                then s\<lparr>cycle_counter64 := cycle_counter64 s + instr_cycles64 m\<rparr> else s);
          s2 = s1\<lparr>quantum_keeper64 := quantum_keeper64 s1 + instr_cycles64 m\<rparr>
      in if need_sync64 env (quantum_keeper64 s2) (get_shared64 s2) \<and> lr_sc_counter64 s2 = 0 then sync_act64 env s2 else s2)"

lemma perf_eq64:
  assumes "0 \<le> lr_sc_counter64 s"
  shows "performance_and_sync_update64 env m s = (Ok (), tick_time64 env m (tick_reservation64 (count_instr64 s)))"
proof -
  have c: "lr_sc_counter64 (count_instr64 s) = lr_sc_counter64 s"
    by (simp add: count_instr64_def upd_csrs64_def)
  have r: "whenM (\<lambda>s. lr_sc_counter64 s \<noteq> 0)
      (seqs [modifyM (\<lambda>s. s\<lparr>lr_sc_counter64 := lr_sc_counter64 s - 1\<rparr>), assertM (\<lambda>s. lr_sc_counter64 s \<ge> 0),
        modifyM (\<lambda>s. if lr_sc_counter64 s = 0 then release_lr_sc_reservation64 s else s)]) t
      = (Ok (), tick_reservation64 t)" if "0 \<le> lr_sc_counter64 t" for t :: "'a ISS64"
    using that by (simp add: whenM_def seqM_assert_apply tick_reservation64_def release_lr_sc_reservation64_def)
  let ?tail = "seqs [modifyM (\<lambda>s. if mcountinhibit_CY64 (mcountinhibit64 (csrs64 s)) = 0
        then s\<lparr>cycle_counter64 := cycle_counter64 s + instr_cycles64 m\<rparr> else s),
      inc_time64 (instr_cycles64 m),
      whenM (\<lambda>s. need_sync64 env (quantum_keeper64 s) (get_shared64 s) \<and> lr_sc_counter64 s = 0)
        (modifyM (sync_act64 env))]"
  have t: "?tail u = (Ok (), tick_time64 env m u)" for u
    by (simp add: tick_time64_def Let_def inc_time64_def whenM_def)
  have "performance_and_sync_update64 env m s = seqM (whenM (\<lambda>s. lr_sc_counter64 s \<noteq> 0)
      (seqs [modifyM (\<lambda>s. s\<lparr>lr_sc_counter64 := lr_sc_counter64 s - 1\<rparr>), assertM (\<lambda>s. lr_sc_counter64 s \<ge> 0),
        modifyM (\<lambda>s. if lr_sc_counter64 s = 0 then release_lr_sc_reservation64 s else s)])) ?tail
      (count_instr64 s)"
    unfolding performance_and_sync_update64_def count_instr64_def Let_def
    by (simp only: seqs.simps(2) seqM_modify_apply)
  also have "\<dots> = ?tail (tick_reservation64 (count_instr64 s))"
    using r [of "count_instr64 s"] assms c by (simp only: seqM_apply(1))
  finally show ?thesis by (simp only: t)
qed

lemma exec_view_projs64:
  assumes "exec_view64 s' = exec_view64 s"
  shows "regs64 s' = regs64 s" "fp_regs64 s' = fp_regs64 s" "pc64 s' = pc64 s" "prv64 s' = prv64 s" "op64 s' = op64 s"
    "status64 s' = status64 s" "mmu64 s' = mmu64 s" "lr_addr64 s' = lr_addr64 s" "satp64 (csrs64 s') = satp64 (csrs64 s)"
  using assms by (simp_all add: exec_view64_def)

lemma finished_fields64 [simp]:
  "regs64 (finished64 s) = (regs64 s)[0 := 0]" "pc64 (finished64 s) = pc64 s" "prv64 (finished64 s) = prv64 s"
  "lr_sc_counter64 (finished64 s) = lr_sc_counter64 s"
  "op64 (finished64 s) = op64 s" "csrs64 (finished64 s) = csrs64 s" "world64 (finished64 s) = world64 s"
  by (simp_all add: finished64_def Let_def)

lemma fetched_fields64 [simp]:
  "regs64 (fetched64 w s) = regs64 s" "pc64 (fetched64 w s) = pc64 s + 4" "last_pc64 (fetched64 w s) = pc64 s"
  "instr64 (fetched64 w s) = w" "csrs64 (fetched64 w s) = csrs64 s" "prv64 (fetched64 w s) = prv64 s"
  "lr_sc_counter64 (fetched64 w s) = lr_sc_counter64 s" "world64 (fetched64 w s) = world64 s"
  "op64 (fetched64 w s) = decode_normal RV64 w"
  "dmi_ranges64 (fetched64 w s) = dmi_ranges64 s" "mmu64 (fetched64 w s) = mmu64 s"
  by (simp_all add: fetched64_def)

text \<open>An operation that returns without an interrupt pending completes the step.\<close>

lemma run_step_completes64:
  assumes "fetches64 w s" and "\<not> instr_is_compressed w"
    and "exec_op64 env (decode_normal RV64 w) (fetched64 w s) = (Ok (), s1)" and "mie64 (csrs64 s1) AND mip64 (csrs64 s1) = 0"
    and "0 \<le> lr_sc_counter64 s1"
  obtains s' where "run_step64 env s = (Ok (), s')" "exec_view64 s' = exec_view64 (finished64 s1)"
proof -
  let ?s = "tick_time64 env (op64 s1) (tick_reservation64 (count_instr64 (finished64 s1)))"
  have p: "performance_and_sync_update64 env (op64 s1) (finished64 s1) = (Ok (), ?s)"
    using perf_eq64 [of "finished64 s1" env "op64 s1"] assms(5) by simp
  have "run_step64 env s = (Ok (), ?s)" using run_step_fetched64 [OF assms(1-4)] p by simp
  moreover have "exec_view64 ?s = exec_view64 (finished64 s1)" by (rule keepsD [OF perf_keeps_exec64 p])
  ultimately show ?thesis by (intro that [of ?s]) simp_all
qed

text \<open>An instruction that only writes its destination register.\<close>

lemma run_step_writes_rd64:
  assumes "fetches64 w s" and "\<not> instr_is_compressed w" and "hart_wf64 s"
    and "exec_op64 env (decode_normal RV64 w) (fetched64 w s) = (Ok (), set_rd64 v (fetched64 w s))"
    and "mie64 (csrs64 s) AND mip64 (csrs64 s) = 0" and "0 \<le> lr_sc_counter64 s"
  obtains s' where "run_step64 env s = (Ok (), s')" "pc64 s' = pc64 s + 4" "prv64 s' = prv64 s"
    "\<And>j. reg64 j s' = (if j = 0 then 0 else if j = instr_rd w then v else reg64 j s)"
proof -
  let ?s1 = "set_rd64 v (fetched64 w s)"
  have i: "mie64 (csrs64 ?s1) AND mip64 (csrs64 ?s1) = 0" "0 \<le> lr_sc_counter64 ?s1"
    using assms(5,6) by (simp_all add: set_rd64_def)
  obtain s' where s': "run_step64 env s = (Ok (), s')" "exec_view64 s' = exec_view64 (finished64 ?s1)"
    by (rule run_step_completes64 [OF assms(1,2,4) i])
  have len: "length (regs64 s) = 32" using assms(3) by (simp add: hart_wf64_def)
  have r: "regs64 s' = (regs64 s)[unat (instr_rd w) := v, 0 := 0]"
    using exec_view_projs64(1) [OF s'(2)] by (simp add: set_rd64_def set_reg64_def RD_64_def)
  have "reg64 j s' = (if j = 0 then 0 else if j = instr_rd w then v else reg64 j s)" for j
  proof (cases "j = 0")
    case False
    then have "unat j \<noteq> 0" by (simp add: unat_eq_zero)
    then show ?thesis
      using False instr_reg_bounds(1) [of w] len
      by (cases "j = instr_rd w") (simp_all add: reg64_def r word_unat_eq_iff)
  qed (use len in \<open>simp add: reg64_def r\<close>)
  then show ?thesis
    using s' exec_view_projs64 [OF s'(2)] by (intro that [of s']) (simp_all add: set_rd64_def)
qed

end
