(* ===== verification/Iss64_Props.thy ===== *)
theory Iss64_Props
  imports Iss64_Step Example
begin

text \<open>
  Properties of the RV64 hart: what holds in every reachable state, the instructions on words, traps
  with 64-bit values, and the CSR accesses that do not behave like their RV32 counterparts.
\<close>

unbundle bit_operations_syntax

section \<open>A small RV64 platform\<close>

definition sf_example64 :: softfloat64 where
  "sf_example64 = softfloat.extend sf_example
     (softfloat64.fields (\<lambda>_ _. (0, 0)) (\<lambda>_ _. (0, 0)) (\<lambda>_ _. (0, 0)) (\<lambda>_ _. (0, 0))
       (\<lambda>_ _. (0, 0)) (\<lambda>_ _. (0, 0)) (\<lambda>_ _. (0, 0)) (\<lambda>_ _. (0, 0)))"

definition env_example64 :: "unit env64" where
  "env_example64 =
     \<lparr>sf64 = sf_example64, wait_lock_event64 = (\<lambda>_. None), wait_wfi_event64 = (\<lambda>_. None),
      isock64 = (\<lambda>tr d. ret (tr\<lparr>response_status := TLM_ADDRESS_ERROR_RESPONSE\<rparr>, d)),
      update_and_get_mtime64 = (\<lambda>w. (0, w)), need_sync64 = (\<lambda>_ _. False), sync64 = (\<lambda>_ w. w),
      sys64 = None\<rparr>"

definition hart_at64 :: "u64 \<Rightarrow> u32 list \<Rightarrow> unit ISS64" where
  "hart_at64 sp ws = init64 0x80000000 sp (ISS_init64 0 CombinedMemory [dmi_example]
     (MMU_init False) \<lparr>bus_lock = BusLock_init, host = host_example ws, devs = ()\<rparr>)"

abbreviation hart_example64 :: "u32 list \<Rightarrow> unit ISS64" where
  "hart_example64 \<equiv> hart_at64 0x80000040"

lemmas hart_example_defs64 = hart_at64_def init64_def ISS_init64_def set_reg64_def
  RegFile_init64_def BusLock_init_def

lemma hart_example_fields64 [simp]:
  "pc64 (hart_at64 sp ws) = 0x80000000" "instr_mem64 (hart_at64 sp ws) = CombinedMemory"
  "dmi_ranges64 (hart_at64 sp ws) = [dmi_example]"
  "host (world64 (hart_at64 sp ws)) = host_example ws" "prv64 (hart_at64 sp ws) = MachineMode"
  "bus_lock (world64 (hart_at64 sp ws)) = BusLock_init" "debug_mode64 (hart_at64 sp ws) = False"
  "lr_sc_counter64 (hart_at64 sp ws) = 0" "csrs64 (hart_at64 sp ws) = csr_table_init64"
  by (simp_all add: hart_at64_def init64_def ISS_init64_def set_reg64_def)
    (simp add: csr_table_init64_def)

lemma hart_example_inv64: "hart_inv64 (hart_at64 sp ws)"
  unfolding hart_at64_def by (rule hart_inv_init64) simp

lemma misa_C64: "has_C_extension64 misa_init64"
  by (simp add: has_C_extension64_def misa_init64_def bf_get_def bf_set_def take_bit_eq_mod
      mask_eq_exp_minus_1 push_bit_eq_mult)

lemma fetches_example64:
  assumes "phys_load [dmi_example] (host_example ws) 4 0x80000000 = Some (ucast w)"
  shows "fetches64 w (hart_at64 sp ws)"
  using assms
  by (simp add: fetches64_def untranslated64_def access_mode64_def has_access64_def BusLock_init_def
      is_locked_def pc_alignment_mask64_def csr_table_init64_def misa_C64 reg64_def and_one_eq)
    (simp add: hart_example_defs64)

lemma sys_example64: "sys_keeps64 I env_example64"
  by (simp add: sys_keeps64_def env_example64_def)

section \<open>Reachable states\<close>

text \<open>
  The steps of the hart in any interleaving with the interrupt controllers, which set and clear its
  interrupt lines.
\<close>

inductive reachable64 :: "'d env64 \<Rightarrow> 'd ISS64 \<Rightarrow> 'd ISS64 \<Rightarrow> bool" for env s0 where
  start64: "reachable64 env s0 s0"
| step64: "reachable64 env s0 s \<Longrightarrow> run_step64 env s = (Ok (), s') \<Longrightarrow> reachable64 env s0 s'"
| trigger_ext64: "reachable64 env s0 s \<Longrightarrow> reachable64 env s0 (trigger_external_interrupt64 l s)"
| clear_ext64: "reachable64 env s0 s \<Longrightarrow> reachable64 env s0 (clear_external_interrupt64 l s)"
| timer64: "reachable64 env s0 s \<Longrightarrow> reachable64 env s0 (trigger_timer_interrupt64 b s)"
| software64: "reachable64 env s0 s \<Longrightarrow> reachable64 env s0 (trigger_software_interrupt64 b s)"

lemmas interrupt_line_defs64 = trigger_external_interrupt64_def clear_external_interrupt64_def
  trigger_timer_interrupt64_def trigger_software_interrupt64_def

lemma reachable_inv64:
  assumes "reachable64 env s0 s" and "sys_keeps64 hart_inv64 env" and "hart_inv64 s0"
  shows "hart_inv64 s"
  using assms(1)
  by induction
    (auto simp: assms(3) interrupt_line_defs64 dest: preservesD [OF run_step_inv64 [OF assms(2)]])

lemma run_step_zero64:
  assumes "run_step64 env s = (Ok x, s')" and "length (regs64 s') = 32"
  shows "reg64 0 s' = 0"
proof -
  from assms(1) consider "reg64 0 s = 0" "s' = s\<lparr>status64 := HitBreakpoint\<rparr>"
    | "run_step_body64 env s = (Ok x, s')"
    by (auto simp: run_step64_def seqM_def assertM_def split: if_splits elim!: bindM_OkE)
  then show ?thesis
  proof cases
    case 2
    then obtain s1 where p: "performance_and_sync_update64 env (op64 s1) (finished64 s1) = (Ok x, s')"
      unfolding run_step_body_eq64 by (elim bindM_OkE)
    have "regs64 s' = (regs64 s1)[0 := 0]"
      using exec_view_projs64(1) [OF keepsD [OF perf_keeps_exec64 p]] by simp
    with assms(2) show ?thesis by (simp add: reg64_def)
  qed (simp add: reg64_def)
qed

lemma reachable_zero64:
  assumes "reachable64 env s0 s" and "sys_keeps64 hart_inv64 env" and "hart_inv64 s0" and "reg64 0 s0 = 0"
  shows "reg64 0 s = 0"
  using assms(1)
proof induction
  case (step64 s s')
  from reachable64.step64 [OF step64.hyps] have "hart_inv64 s'" by (rule reachable_inv64 [OF _ assms(2,3)])
  then show ?case using run_step_zero64 [OF step64.hyps(2)] by (simp add: hart_inv64_def)
qed (use assms(4) in \<open>simp_all add: reg64_def interrupt_line_defs64 upd_csrs64_def\<close>)

lemma init_zero64: "reg64 0 (init64 entry sp (ISS_init64 h im ds m w)) = 0"
  by (simp add: init64_def ISS_init64_def RegFile_init64_def reg64_def set_reg64_def)

text \<open>
  C30. In every state of the RV64 hart reachable from reset at an even entry point: the zero register
  holds zero and the program counter passes the alignment check of \<open>exec_step\<close>, so neither
  assertion at the start of a step can fail; \<open>mstatus\<close> announces 64-bit supervisor and user modes;
  and \<open>satp\<close> is in bare, Sv39 or Sv48 mode whatever was written to it.
\<close>

theorem rv64_reachable_state:
  assumes "reachable64 env (init64 entry sp (ISS_init64 h im ds m w)) s" and "even entry"
    and "sys_keeps64 hart_inv64 env"
  shows "reg64 0 s = 0 \<and> pc64 s AND NOT (pc_alignment_mask64 s) = 0 \<and>
    mstatus_uxl64 (mstatus64 (csrs64 s)) = 2 \<and> mstatus_sxl64 (mstatus64 (csrs64 s)) = 2 \<and>
    satp_mode64 (satp64 (csrs64 s)) \<in> {0, 8, 9}"
proof -
  from reachable_inv64 [OF assms(1,3) hart_inv_init64 [OF assms(2)]] have inv: "hart_inv64 s" .
  then have i: "even (pc64 s)" "misa64 (csrs64 s) = misa_init64" "bf_get 32 4 (mstatus64 (csrs64 s)) = 0xA"
    "satp_mode64 (satp64 (csrs64 s)) \<in> {0, 8, 9}"
    by (simp_all add: hart_inv64_def csr_inv64_def)
  have f: "bf_get 32 2 r = bf_get 0 2 (bf_get 32 4 r)" "bf_get 34 2 r = bf_get 2 2 (bf_get 32 4 r)" for r :: u64
    by (rule bit_word_eqI; auto simp: bit_bf_get ac_simps)+
  have "bf_get 0 2 (0xA :: u64) = 2" "bf_get 2 2 (0xA :: u64) = 2"
    by (simp_all add: bf_get_def take_bit_eq_mod drop_bit_eq_div)
  moreover have "pc64 s AND NOT (pc_alignment_mask64 s) = 0"
    using i(1,2) by (simp add: pc_alignment_mask64_def misa_C64 and_one_eq even_iff_mod_2_eq_zero)
  moreover have "reg64 0 s = 0"
    by (rule reachable_zero64 [OF assms(1,3) hart_inv_init64 [OF assms(2)] init_zero64])
  ultimately show ?thesis using i by (simp add: f)
qed

text \<open>A step of the example: \<open>csrrw x0, satp, sp\<close> turns Sv39 translation on.\<close>

lemma decode_satp64:
  "decode_normal RV64 0x18011073 = ZICSR CSRRW" "\<not> instr_is_compressed 0x18011073"
  "instr_rd 0x18011073 = 0" "instr_rs1 0x18011073 = 2" "instr_csr 0x18011073 = SATP_ADDR"
  by code_simp+

lemma satp_step_example64:
  "\<exists>s. run_step64 env_example64 (hart_at64 0x8000000000000000 [0x18011073]) = (Ok (), s) \<and>
     satp64 (csrs64 s) = 0x8000000000000000"
proof -
  let ?s = "hart_at64 0x8000000000000000 [0x18011073]"
  let ?s1 = "upd_csrs64 (\<lambda>c. c\<lparr>satp64 := satp_write64 0x8000000000000000 (satp64 c)\<rparr>) (fetched64 0x18011073 ?s)"
  have f: "fetches64 0x18011073 ?s" by (rule fetches_example64) code_simp
  have t: "mstatus_tvm64 mstatus_init64 = 0" "satp_write64 0x8000000000000000 0 = 0x8000000000000000"
    by code_simp+
  have z: "reg64 2 ?s = 0x8000000000000000"
    by (simp add: reg64_def hart_example_defs64)
  have "exec_op64 env_example64 (decode_normal RV64 0x18011073) (fetched64 0x18011073 ?s) = (Ok (), ?s1)"
    using z t
    by (simp add: decode_satp64 exec_op64_def exec_zicsr64_def exec_csr_write64_def csr_guard64_def
        is_invalid_csr_access64_def set_csr_value64_def whenM_def RD_64_def RS1_64_def reg64_def
        seqM_apply bindM_apply csr_table_init64_def ANY_HPMCOUNTER_RV64_def)
  from run_step_completes64 [OF f decode_satp64(2) this]
  obtain s where s: "run_step64 env_example64 ?s = (Ok (), s)" "exec_view64 s = exec_view64 (finished64 ?s1)"
    by (auto simp: csr_table_init64_def upd_csrs64_def)
  from exec_view_projs64 [OF s(2)] show ?thesis
    by (intro exI [of _ s]) (simp add: s(1) t(2) upd_csrs64_def csr_table_init64_def)
qed

theorem rv64_reachable_state_witness:
  "\<exists>s. reachable64 env_example64 (hart_at64 0x8000000000000000 [0x18011073]) s \<and>
     reg64 0 s = 0 \<and> satp_mode64 (satp64 (csrs64 s)) = 8"
proof -
  from satp_step_example64 obtain s where s: "run_step64 env_example64 (hart_at64 0x8000000000000000 [0x18011073]) = (Ok (), s)"
      "satp64 (csrs64 s) = 0x8000000000000000" by blast
  have r: "reachable64 env_example64 (hart_at64 0x8000000000000000 [0x18011073]) s"
    by (rule reachable64.step64 [OF reachable64.start64 s(1)])
  have "reg64 0 s = 0"
    using rv64_reachable_state [OF r [unfolded hart_at64_def] _ sys_example64] by simp
  moreover have "satp_mode64 0x8000000000000000 = 8" by code_simp
  ultimately show ?thesis using r s(2) by auto
qed

text \<open>
  When a reachable RV64 hart translates an address for supervisor or user mode, the page table
  walk finds a table of three or four levels of 64-bit entries: \<open>decode_vm_info\<close> never throws.
\<close>

theorem rv64_walk_supported:
  assumes "reachable64 env (init64 entry sp (ISS_init64 h im ds m w)) s" and "even entry"
    and "sys_keeps64 hart_inv64 env" and "satp_mode64 (satp64 (csrs64 s)) \<noteq> 0" and "p \<le> SupervisorMode"
  shows "\<exists>vm. decode_vm_info64 p s = (Ok vm, s) \<and> levels vm \<in> {3, 4} \<and> idxbits vm = 9 \<and> ptesize vm = 8"
proof -
  from reachable_inv64 [OF assms(1,3) hart_inv_init64 [OF assms(2)]]
  have "satp_mode64 (satp64 (csrs64 s)) \<in> {0, 8, 9}" by (simp add: hart_inv64_def csr_inv64_def)
  with assms(4,5) show ?thesis by (auto simp: decode_vm_info64_def seqM_assert_apply Let_def)
qed

theorem rv64_walk_supported_witness:
  "\<exists>s vm. reachable64 env_example64 (hart_at64 0x8000000000000000 [0x18011073]) s \<and>
     decode_vm_info64 SupervisorMode s = (Ok vm, s) \<and> ptesize vm = 8"
proof -
  from satp_step_example64 obtain s where s: "run_step64 env_example64 (hart_at64 0x8000000000000000 [0x18011073]) = (Ok (), s)"
      "satp64 (csrs64 s) = 0x8000000000000000" by blast
  have r: "reachable64 env_example64 (hart_at64 0x8000000000000000 [0x18011073]) s"
    by (rule reachable64.step64 [OF reachable64.start64 s(1)])
  have "satp_mode64 0x8000000000000000 = 8" by code_simp
  with s(2) have "satp_mode64 (satp64 (csrs64 s)) \<noteq> 0" by simp
  from rv64_walk_supported [OF r [unfolded hart_at64_def] _ sys_example64 this, of SupervisorMode] r
  show ?thesis by auto
qed

section \<open>Instructions on words\<close>

definition word_ops :: "rv64i list" where
  "word_ops = [ADDIW, SLLIW, SRLIW, SRAIW, ADDW, SUBW, SLLW, SRLW, SRAW]"

text \<open>
  The reference on the integers: the operation on the values of the registers (\<open>b\<close> is the second
  register or the immediate, \<open>n\<close> the shift amount), before it is wrapped to 32 bits.
\<close>

definition word_spec :: "rv64i \<Rightarrow> int \<Rightarrow> int \<Rightarrow> nat \<Rightarrow> int" where
  "word_spec x a b n =
     (if x \<in> {ADDIW, ADDW} then a + b
      else if x = SUBW then a - b
      else if x \<in> {SLLIW, SLLW} then a * 2 ^ n
      else if x \<in> {SRLIW, SRLW} then a mod 2 ^ 32 div 2 ^ n
      else signed_take_bit 31 a div 2 ^ n)"

definition word_operand :: "rv64i \<Rightarrow> 'd ISS64 \<Rightarrow> int" where
  "word_operand x s = (if x = ADDIW then sint (instr_I_imm (instr64 s)) else sint (x_rs2_64 s))"

definition word_shamt :: "rv64i \<Rightarrow> 'd ISS64 \<Rightarrow> nat" where
  "word_shamt x s = (if x \<in> {SLLIW, SRLIW, SRAIW} then unat (instr_shamt_w (instr64 s))
     else unat (x_rs2_64 s) mod 32)"

lemma ucast_sint: "(ucast (a :: u64) :: u32) = word_of_int (sint a)"
  by (rule bit_word_eqI) (auto simp: bit_simps bit_word_of_int_iff bit_sint_iff)

lemma sint_scast_up: "sint (scast (a :: u32) :: u64) = sint a"
proof -
  have "- (2 ^ 63) \<le> sint a" "sint a < 2 ^ 63" using sint_ge [of a] sint_lt [of a] by simp_all
  then show ?thesis by (simp add: signed_scast_eq signed_take_bit_int_eq_self)
qed

lemma push_ucast_sint: "push_bit n (ucast (a :: u64) :: u32) = word_of_int (sint a * 2 ^ n)"
  unfolding push_bit_eq_mult ucast_sint by simp

lemma drop_ucast_sint: "drop_bit n (ucast (a :: u64) :: u32) = word_of_int (sint a mod 2 ^ 32 div 2 ^ n)"
  unfolding take_bit_eq_mod [symmetric] drop_bit_eq_div [symmetric]
  by (rule bit_word_eqI) (auto simp: bit_simps bit_word_of_int_iff bit_sint_iff)

lemma signed_drop_ucast_sint:
  "signed_drop_bit n (ucast (a :: u64) :: u32) = word_of_int (signed_take_bit 31 (sint a) div 2 ^ n)"
  unfolding drop_bit_eq_div [symmetric]
proof (rule bit_word_eqI)
  fix m
  assume "m < LENGTH(32)"
  then show "bit (signed_drop_bit n (ucast a :: u32)) m =
      bit (word_of_int (drop_bit n (signed_take_bit 31 (sint a))) :: u32) m"
    by (cases "n + m = 31")
      (auto simp: bit_simps bit_word_of_int_iff bit_sint_iff bit_signed_drop_bit_iff min_def)
qed

lemma word_result_int:
  assumes "x \<in> set word_ops"
  shows "alu_word_result x s =
    word_of_int (word_spec x (sint (x_rs1_64 s)) (word_operand x s) (word_shamt x s))"
proof -
  have sh: "reg_shamt_w64 (RS2_64 s) s = unat (x_rs2_64 s) mod 32"
    by (simp add: reg_shamt_w64_def take_bit_eq_mod unat_mod)
  have add: "ucast a + instr_I_imm v = (word_of_int (sint a + sint (instr_I_imm v)) :: u32)"
    "ucast a + ucast b = (word_of_int (sint a + sint b) :: u32)"
    "ucast a - ucast b = (word_of_int (sint a - sint b) :: u32)" for a b :: u64 and v
    unfolding ucast_sint wi_hom_add [symmetric] wi_hom_sub [symmetric] by simp_all
  show ?thesis
    using assms
    by (auto simp: word_ops_def alu_word_result_def word_spec_def word_operand_def word_shamt_def Let_def
        push_ucast_sint drop_ucast_sint signed_drop_ucast_sint sh add)
qed

lemma exec_word_op:
  "x \<in> set word_ops \<Longrightarrow>
     exec_op64 env (RV64I x) s = (Ok (), set_rd64 (scast (alu_word_result x s)) s)"
  by (auto simp: word_ops_def exec_op64_def exec_rv64i_def put_rd64_def)

text \<open>
  C31. A step that executes one of the RV64I instructions on words leaves in the destination register
  the value of the operation on the integers, wrapped to 32 bits and sign-extended to 64; it
  keeps the other registers and goes on to the next instruction.
\<close>

theorem rv64_step_word:
  assumes "fetches64 w s" and "\<not> instr_is_compressed w" and "hart_wf64 s"
    and "decode_normal RV64 w = RV64I x" and "x \<in> set word_ops"
    and "mie64 (csrs64 s) AND mip64 (csrs64 s) = 0" and "0 \<le> lr_sc_counter64 s"
  shows "\<exists>s'. run_step64 env s = (Ok (), s') \<and> pc64 s' = pc64 s + 4 \<and> reg64 0 s' = 0 \<and>
    (instr_rd w = 0 \<or> sint (reg64 (instr_rd w) s') =
       signed_take_bit 31 (word_spec x (sint (reg64 (instr_rs1 w) s))
         (word_operand x (fetched64 w s)) (word_shamt x (fetched64 w s)))) \<and>
    (\<forall>j. j = 0 \<or> j = instr_rd w \<or> reg64 j s' = reg64 j s)"
proof -
  let ?f = "fetched64 w s"
  have e: "exec_op64 env (decode_normal RV64 w) ?f = (Ok (), set_rd64 (scast (alu_word_result x ?f)) ?f)"
    using assms(4,5) by (simp add: exec_word_op)
  obtain s' where s': "run_step64 env s = (Ok (), s')" "pc64 s' = pc64 s + 4"
      "\<And>j. reg64 j s' = (if j = 0 then 0 else if j = instr_rd w then scast (alu_word_result x ?f) else reg64 j s)"
    using run_step_writes_rd64 [OF assms(1-3) e assms(6,7)] by blast
  have "sint (scast (alu_word_result x ?f) :: u64) = sint (alu_word_result x ?f)"
    by (rule sint_scast_up)
  also have "\<dots> = signed_take_bit 31 (word_spec x (sint (reg64 (instr_rs1 w) s)) (word_operand x ?f) (word_shamt x ?f))"
    unfolding word_result_int [OF assms(5)] by (simp add: signed_of_int RS1_64_def reg64_def)
  finally show ?thesis using s' by auto
qed

lemma decode_addiw64:
  "decode_normal RV64 0x0011009b = RV64I ADDIW" "\<not> instr_is_compressed 0x0011009b"
  "instr_rd 0x0011009b = 1" "instr_rs1 0x0011009b = 2" "instr_I_imm 0x0011009b = 1"
  by code_simp+

theorem rv64_step_word_witness:
  "\<exists>s'. run_step64 env_example64 (hart_at64 0x7fffffff [0x0011009b]) = (Ok (), s') \<and>
     sint (reg64 1 s') = - 0x80000000 \<and> pc64 s' = 0x80000004"
proof -
  let ?s = "hart_at64 0x7fffffff [0x0011009b]"
  have f: "fetches64 0x0011009b ?s" by (rule fetches_example64) code_simp
  have z: "reg64 2 ?s = 0x7fffffff" by (simp add: reg64_def hart_example_defs64)
  have w: "hart_wf64 ?s" using hart_example_inv64 unfolding hart_inv64_def csr_inv64_def hart_wf64_def by blast
  have "word_spec ADDIW (sint (0x7fffffff :: u64)) (sint (1 :: u32)) n = 0x80000000" for n
    by (simp add: word_spec_def)
  moreover have "signed_take_bit 31 (0x80000000 :: int) = - 0x80000000" by code_simp
  ultimately show ?thesis
    using rv64_step_word [OF f decode_addiw64(2) w decode_addiw64(1), of env_example64]
    by (auto simp: word_ops_def word_operand_def decode_addiw64 z csr_table_init64_def)
qed

section \<open>Traps\<close>

lemma switch_fields64 [simp]:
  "lr_sc_counter64 (upd_csrs64 f s) = lr_sc_counter64 s" "world64 (upd_csrs64 f s) = world64 s"
  "prv64 (upd_csrs64 f s) = prv64 s" "pc64 (upd_csrs64 f s) = pc64 s" "csrs64 (upd_csrs64 f s) = f (csrs64 s)"
  "regs64 (upd_csrs64 f s) = regs64 s" "last_pc64 (upd_csrs64 f s) = last_pc64 s"
  by (simp_all add: upd_csrs64_def)

lemma release_fields64 [simp]:
  "prv64 (release_lr_sc_reservation64 s) = prv64 s" "pc64 (release_lr_sc_reservation64 s) = pc64 s"
  "csrs64 (release_lr_sc_reservation64 s) = csrs64 s" "lr_sc_counter64 (release_lr_sc_reservation64 s) = 0"
  "regs64 (release_lr_sc_reservation64 s) = regs64 s" "last_pc64 (release_lr_sc_reservation64 s) = last_pc64 s"
  by (simp_all add: release_lr_sc_reservation64_def)

lemma released64 [simp]: "\<not> bus_locked_by_me64 (release_lr_sc_reservation64 s)"
  by (simp add: release_lr_sc_reservation64_def)

text \<open>The state in which the handler of a mode starts.\<close>

definition handler_state64 :: "PrivilegeLevel \<Rightarrow> 'd ISS64 \<Rightarrow> 'd ISS64" where
  "handler_state64 m s = (let r = (release_lr_sc_reservation64 s)\<lparr>prv64 := m\<rparr> in
     if m = MachineMode then enter_m64 (prv64 s) r else if m = SupervisorMode then enter_s64 (prv64 s) r else enter_u64 r)"

lemma switch_eq64:
  "m = MachineMode \<or> m = SupervisorMode \<or> m = UserMode \<Longrightarrow>
     switch_to_trap_handler64 m s = (Ok (), handler_state64 m s)"
  by (auto simp: switch_to_trap_handler64_def handler_state64_def Let_def seqM_assert_apply)

lemma handler_locks64:
  "bus_locked_by_me64 (handler_state64 m s) = False" "lr_sc_counter64 (handler_state64 m s) = 0"
  "prv64 (handler_state64 m s) = m" "regs64 (handler_state64 m s) = regs64 s"
proof -
  have "bus_locked_by_me64 (s\<lparr>csrs64 := c, pc64 := p\<rparr>) = bus_locked_by_me64 s" if "mhartid64 c = mhartid64 (csrs64 s)"
    for s :: "'a ISS64" and c p using that by (simp add: bus_locked_by_me64_def get_hart_id64_def)
  moreover have "bus_locked_by_me64 (s\<lparr>prv64 := p\<rparr>) = bus_locked_by_me64 s" for s :: "'a ISS64" and p
    by (simp add: bus_locked_by_me64_def get_hart_id64_def)
  ultimately show "bus_locked_by_me64 (handler_state64 m s) = False"
    by (simp add: handler_state64_def enter_m64_def enter_s64_def enter_u64_def Let_def)
qed (simp_all add: handler_state64_def enter_m64_def enter_s64_def enter_u64_def Let_def)

definition trap_target64 :: "ExceptionCode \<Rightarrow> 'd ISS64 \<Rightarrow> PrivilegeLevel" where
  "trap_target64 e s =
     (if prv64 s = MachineMode \<or> \<not> bit (medeleg64 (csrs64 s)) (unat e) then MachineMode
      else if prv64 s = SupervisorMode \<or> \<not> bit (sedeleg64 (csrs64 s)) (unat e) then SupervisorMode
      else UserMode)"

definition handler_csrs64 :: "PrivilegeLevel \<Rightarrow> csr_table64 \<Rightarrow> u64 \<times> u64 \<times> u64" where
  "handler_csrs64 m c =
     (if m = MachineMode then (mepc64 c, mcause64 c, mtval64 c)
      else if m = SupervisorMode then (sepc64 c, scause64 c, stval64 c)
      else (uepc64 c, ucause64 c, utval64 c))"

definition handler_tvec64 :: "PrivilegeLevel \<Rightarrow> csr_table64 \<Rightarrow> u64" where
  "handler_tvec64 m c =
     (if m = MachineMode then mtvec64 c else if m = SupervisorMode then stvec64 c else utvec64 c)"

lemma exc_bit64:
  "n < 32 \<Longrightarrow> ucast (2 ^ n :: u32) AND w = 0 \<longleftrightarrow> \<not> bit (w :: u64) n"
proof -
  assume "n < 32"
  then have "(ucast (push_bit n 1 :: u32) :: u64) = push_bit n 1"
    by (intro bit_word_eqI) (auto simp: bit_simps)
  then show ?thesis by (simp add: bit_iff_and_push_bit_not_eq_0 and.commute)
qed

lemma trap_cause_eq64: "trap_cause64 e r = ucast e"
  unfolding trap_cause64_def
  by (rule bit_word_eqI) (auto simp: bit_bf_set bit_simps dest: bit_imp_le_length)

definition prepared64 :: "ExceptionCode \<Rightarrow> u64 \<Rightarrow> 'd ISS64 \<Rightarrow> 'd ISS64" where
  "prepared64 e v s = (let m = trap_target64 e s in upd_csrs64 (\<lambda>c.
     if m = MachineMode then c\<lparr>mcause64 := ucast e, mtval64 := v\<rparr>
     else if m = SupervisorMode then c\<lparr>scause64 := ucast e, stval64 := v\<rparr>
     else c\<lparr>ucause64 := ucast e, utval64 := v\<rparr>) (s\<lparr>pc64 := last_pc64 s\<rparr>))"

lemma prepare_trap_eq64:
  assumes "prv64 s = MachineMode \<or> prv64 s = SupervisorMode \<or> prv64 s = UserMode" and "e < 32"
  shows "prepare_trap64 e v s = (Ok (trap_target64 e s), prepared64 e v s)"
proof -
  have "unat e < 32" using assms(2) by (simp add: word_less_nat_alt)
  then show ?thesis
    using assms(1)
    by (auto simp: prepare_trap64_def exc_bit64 trap_target64_def prepared64_def trap_cause_eq64 Let_def
        seqM_assert_apply)
qed

text \<open>
  C32. An exception of an RV64 instruction is handled in the least privileged mode it is delegated to,
  but never in one with less privilege than the current mode. The handler finds the address of
  the instruction, the cause and the whole 64-bit trap value in the CSRs of its mode, it starts
  at the base address of the mode's trap vector, and the bus is released. No trap value is
  refused.
\<close>

theorem rv64_trap_entry:
  assumes "prv64 s = MachineMode \<or> prv64 s = SupervisorMode \<or> prv64 s = UserMode" and "e < 32"
  shows "\<exists>s'. bindM (prepare_trap64 e v) switch_to_trap_handler64 s = (Ok (), s') \<and>
    prv64 s' = trap_target64 e s \<and> prv64 s \<le> prv64 s' \<and>
    handler_csrs64 (prv64 s') (csrs64 s') = (last_pc64 s, ucast e, v) \<and>
    pc64 s' = get_base_address64 (handler_tvec64 (prv64 s') (csrs64 s)) \<and>
    lr_sc_counter64 s' = 0 \<and> \<not> bus_locked_by_me64 s'"
proof -
  let ?m = "trap_target64 e s" and ?s = "handler_state64 (trap_target64 e s) (prepared64 e v s)"
  have m: "?m = MachineMode \<or> ?m = SupervisorMode \<or> ?m = UserMode" by (simp add: trap_target64_def)
  have "bindM (prepare_trap64 e v) switch_to_trap_handler64 s = (Ok (), ?s)"
    using prepare_trap_eq64 [OF assms] switch_eq64 [OF m] by (simp add: bindM_def)
  moreover have "prv64 s \<le> ?m" using assms(1) by (auto simp: trap_target64_def)
  moreover have "handler_csrs64 ?m (csrs64 ?s) = (last_pc64 s, ucast e, v)"
    using m by (auto simp: handler_csrs64_def handler_state64_def prepared64_def Let_def enter_m64_def
        enter_s64_def enter_u64_def)
  moreover have "\<not> bit (ucast e :: u64) 63" by (auto simp: bit_simps dest: bit_imp_le_length)
  then have "bf_get 63 1 (ucast e :: u64) = 0"
    by (intro bit_word_eqI) (auto simp: bit_bf_get)
  then have "pc64 ?s = get_base_address64 (handler_tvec64 ?m (csrs64 s))"
    using m by (auto simp: handler_tvec64_def handler_state64_def prepared64_def Let_def enter_m64_def
        enter_s64_def enter_u64_def handler_pc64_def)
  ultimately show ?thesis by (intro exI [of _ ?s]) (simp add: handler_locks64)
qed

theorem rv64_trap_entry_witness:
  "\<exists>s'. bindM (prepare_trap64 EXC_LOAD_PAGE_FAULT 0xffffffc000000000) switch_to_trap_handler64 (hart_example64 [])
      = (Ok (), s') \<and> prv64 s' = MachineMode \<and> mtval64 (csrs64 s') = 0xffffffc000000000"
  using rv64_trap_entry [where s = "hart_example64 []" and e = EXC_LOAD_PAGE_FAULT and v = "0xffffffc000000000"]
  by (auto simp: trap_target64_def handler_csrs64_def)

section \<open>CSR accesses\<close>

lemma mscratch_table64:
  "is_valid_csr64_addr MSCRATCH_ADDR" "default_read64 MSCRATCH_ADDR c = Inr (mscratch64 c)"
  "default_write64 MSCRATCH_ADDR v c = Inr (c\<lparr>mscratch64 := v\<rparr>)"
  by (simp_all add: is_valid_csr64_addr_def default_read64_def default_write64_def register_mapping64_def
      ptr_mscratch64_def)

text \<open>
  \<open>CSRRCI\<close> on RV64 clears more than the bits of its immediate: the complement of the 32-bit
  immediate is extended with zeros, so the upper half of the register is lost. Shown for
  \<open>mscratch\<close>, which the instruction can write in full.
\<close>

theorem rv64_csrrci_clears_upper_half:
  assumes "prv64 s = MachineMode" and "instr_csr (instr64 s) = MSCRATCH_ADDR"
    and "instr_zimm (instr64 s) \<noteq> 0" and "instr_rd (instr64 s) = 0"
  shows "\<exists>s'. exec_zicsr64 env CSRRCI s = (Ok (), s') \<and>
    mscratch64 (csrs64 s') = mscratch64 (csrs64 s) AND ucast (NOT (instr_zimm (instr64 s))) \<and>
    drop_bit 32 (mscratch64 (csrs64 s')) = 0"
proof -
  have "drop_bit 32 (a AND ucast (z :: u32)) = 0" for a :: u64 and z
    by (rule bit_word_eqI) (auto simp: bit_simps dest: bit_imp_le_length)
  then show ?thesis
    using assms
    by (simp add: exec_zicsr64_def exec_csr_modify64_def csr_guard64_def is_invalid_csr_access64_def
        get_csr_value64_def validate_csr_counter_read_access_rights64_def ANY_HPMCOUNTER_RV64_def
        read_view64_def read_table64_def mscratch_table64 set_csr_value64_def write_view64_def
        write_table64_def RD_64_def seqM_apply bindM_apply)
qed

lemma decode_csrrci64:
  "instr_csr 0x3400f073 = MSCRATCH_ADDR" "instr_zimm 0x3400f073 = 1" "instr_rd 0x3400f073 = 0"
  by code_simp+

theorem rv64_csrrci_clears_upper_half_witness:
  "\<exists>s'. exec_zicsr64 env_example64 CSRRCI (upd_csrs64 (\<lambda>c. c\<lparr>mscratch64 := 0xffffffff00000003\<rparr>)
       ((hart_example64 [])\<lparr>instr64 := 0x3400f073\<rparr>)) = (Ok (), s') \<and> mscratch64 (csrs64 s') = 2"
proof -
  have "0xffffffff00000003 AND ucast (NOT (1 :: u32)) = (2 :: u64)" by code_simp
  then show ?thesis
  using rv64_csrrci_clears_upper_half [of "upd_csrs64 (\<lambda>c. c\<lparr>mscratch64 := 0xffffffff00000003\<rparr>)
       ((hart_example64 [])\<lparr>instr64 := 0x3400f073\<rparr>)" env_example64]
  by (auto simp: decode_csrrci64 upd_csrs64_def)
qed

text \<open>
  The table of RV64 has pointers to four registers \<open>pmpcfg\<close>, but the array holds two: reading or
  writing \<open>pmpcfg2\<close> or \<open>pmpcfg3\<close> passes the validity check and accesses memory past the array.
\<close>

theorem rv64_pmpcfg_out_of_bounds:
  "is_valid_csr64_addr PMPCFG2_ADDR \<and> is_valid_csr64_addr PMPCFG3_ADDR \<and>
   get_csr_value64 env PMPCFG2_ADDR s = (Fail OutOfRange, s) \<and>
   get_csr_value64 env PMPCFG3_ADDR s = (Fail OutOfRange, s) \<and>
   set_csr_value64 PMPCFG2_ADDR v s = (Fail OutOfRange, s) \<and>
   set_csr_value64 PMPCFG3_ADDR v s = (Fail OutOfRange, s)"
proof -
  have t: "map_of register_mapping64 PMPCFG2_ADDR = Some None" "map_of register_mapping64 PMPCFG3_ADDR = Some None"
    by (simp_all add: register_mapping64_def ptr_pmpcfg64_def upt_conv_Cons map_add_def)
  show ?thesis
    by (simp add: t is_valid_csr64_addr_def get_csr_value64_def set_csr_value64_def read_table64_def write_table64_def
        default_read64_def default_write64_def validate_csr_counter_read_access_rights64_def
        ANY_HPMCOUNTER_RV64_def read_view64_def write_view64_def seqM_apply bindM_apply)
qed

end
