(* ===== verification/CStruct.thy ===== *)
theory CStruct
  imports Bus
begin

text \<open>
  C structures in an array of bytes, and computations that may fail: the layout of a structure is the
  list of its members with their sizes, which the compiler places one after the other when each
  lies at a multiple of its alignment. Also the numeric casts and the hexadecimal output that several
  components use.
\<close>

unbundle bit_operations_syntax

section \<open>Structures\<close>

type_synonym struct = "(string \<times> nat) list"

definition sizeof :: "struct \<Rightarrow> nat" where
  "sizeof st = sum_list (map snd st)"

fun field_at :: "nat \<Rightarrow> struct \<Rightarrow> string \<Rightarrow> (nat \<times> nat) option" where
  "field_at off [] name = None"
| "field_at off ((f, n) # st) name = (if f = name then Some (off, n) else field_at (off + n) st name)"

text \<open>Storing a value to a member of the structure at offset \<open>p\<close>, little-endian.\<close>

definition put_member :: "struct \<Rightarrow> nat \<Rightarrow> string \<Rightarrow> u64 \<Rightarrow> u8 list \<Rightarrow> u8 list option" where
  "put_member st p name v mem = (case field_at 0 st name of
     None \<Rightarrow> None
   | Some (off, n) \<Rightarrow> array_write (p + off) (to_bytes n v) mem)"

section \<open>Computations that may fail\<close>

definition bindE :: "sim_error + 'a \<Rightarrow> ('a \<Rightarrow> sim_error + 'b) \<Rightarrow> sim_error + 'b" where
  "bindE m f = (case m of Inl e \<Rightarrow> Inl e | Inr x \<Rightarrow> f x)"

lemma bindE_simps [simp]: "bindE (Inl e) f = Inl e" "bindE (Inr x) f = f x"
  by (simp_all add: bindE_def)

lemma bindE_Inr_iff: "bindE m f = Inr y \<longleftrightarrow> (\<exists>x. m = Inr x \<and> f x = Inr y)"
  by (cases m) simp_all

definition liftE :: "sim_error + 'a \<Rightarrow> ('s, 'a) act" where
  "liftE m = (case m of Inl e \<Rightarrow> failM e | Inr x \<Rightarrow> ret x)"

lemma liftE_simps [simp]: "liftE (Inl e) = failM e" "liftE (Inr x) = ret x"
  by (simp_all add: liftE_def)

lemma field_at_size: "field_at off st name = Some (o', n) \<Longrightarrow> (name, n) \<in> set st"
  by (induction off st name rule: field_at.induct) (auto split: if_splits)

lemma unat_ucast_up:
  "LENGTH('a) \<le> LENGTH('b) \<Longrightarrow> unat (ucast (x :: 'a::len word) :: 'b::len word) = unat x"
proof -
  assume "LENGTH('a) \<le> LENGTH('b)"
  then have "(2::nat) ^ LENGTH('a) \<le> 2 ^ LENGTH('b)" by (intro power_increasing) simp_all
  with unsigned_less [of x] have "unat x < 2 ^ LENGTH('b)" by (rule less_le_trans)
  then show ?thesis by (simp add: unsigned_ucast_eq take_bit_nat_eq_self)
qed

section \<open>Numeric casts\<close>

text \<open>
  \<open>boost::lexical_cast\<close> between integers throws when the value does not fit: to \<open>int\<close> from an unsigned
  and from a signed 64-bit integer.
\<close>

definition lexical_cast_int :: "u64 \<Rightarrow> sim_error + u32" where
  "lexical_cast_int v = (if v \<le> 0x7FFFFFFF then Inr (ucast v) else Inl BadLexicalCast)"

definition lexical_cast_sint :: "u64 \<Rightarrow> sim_error + u32" where
  "lexical_cast_sint v =
     (if - 0x80000000 \<le> sint v \<and> sint v \<le> 0x7FFFFFFF then Inr (ucast v) else Inl BadLexicalCast)"

section \<open>Hexadecimal numbers\<close>

text \<open>The last \<open>k\<close> digits of a number, with leading zeros.\<close>

definition hex_digit :: "nat \<Rightarrow> char" where
  "hex_digit n = char_of (if n < 10 then 48 + n else 87 + n)"

definition hex_digits :: "nat \<Rightarrow> nat \<Rightarrow> string" where
  "hex_digits k v = map (\<lambda>i. hex_digit (v div 16 ^ (k - 1 - i) mod 16)) [0..<k]"

text \<open>The value of a digit of a base up to 36; the value of other characters is no digit.\<close>

definition digit_value :: "char \<Rightarrow> nat" where
  "digit_value c = (let n = of_char c in
     if 48 \<le> n \<and> n \<le> 57 then n - 48
     else if 97 \<le> n \<and> n \<le> 122 then n - 87
     else if 65 \<le> n \<and> n \<le> 90 then n - 55
     else 36)"

definition is_digit :: "nat \<Rightarrow> char \<Rightarrow> bool" where
  "is_digit base c \<longleftrightarrow> digit_value c < base"

end
