(* ===== verification/Elf.thy ===== *)
theory Elf
  imports CStruct
begin

text \<open>
  The ELF loader: \<open>core/common/elf_loader.h\<close>, instantiated by \<open>core/rv32/elf_loader.h\<close> and
  \<open>core/rv64/elf_loader.h\<close>. The mapped file is the list of its bytes; a pointer into it is an
  offset, and reading beyond its end an access out of range. The structures of the file format are
  the lists of their fields with their sizes. Every field lies at a multiple of its size, so the
  compiler adds no padding (\<open>elf_no_padding\<close>).
\<close>

unbundle bit_operations_syntax

section \<open>Structures\<close>

definition Elf32_Ehdr :: struct where
  "Elf32_Ehdr = [(''e_ident'', 16), (''e_type'', 2), (''e_machine'', 2), (''e_version'', 4), (''e_entry'', 4),
     (''e_phoff'', 4), (''e_shoff'', 4), (''e_flags'', 4), (''e_ehsize'', 2), (''e_phentsize'', 2),
     (''e_phnum'', 2), (''e_shentsize'', 2), (''e_shnum'', 2), (''e_shstrndx'', 2)]"

definition Elf32_Phdr :: struct where
  "Elf32_Phdr = [(''p_type'', 4), (''p_offset'', 4), (''p_vaddr'', 4), (''p_paddr'', 4), (''p_filesz'', 4),
     (''p_memsz'', 4), (''p_flags'', 4), (''p_align'', 4)]"

definition Elf32_Shdr :: struct where
  "Elf32_Shdr = [(''sh_name'', 4), (''sh_type'', 4), (''sh_flags'', 4), (''sh_addr'', 4), (''sh_offset'', 4),
     (''sh_size'', 4), (''sh_link'', 4), (''sh_info'', 4), (''sh_addralign'', 4), (''sh_entsize'', 4)]"

definition Elf32_Sym :: struct where
  "Elf32_Sym = [(''st_name'', 4), (''st_value'', 4), (''st_size'', 4), (''st_info'', 1), (''st_other'', 1),
     (''st_shndx'', 2)]"

definition Elf64_Ehdr :: struct where
  "Elf64_Ehdr = [(''e_ident'', 16), (''e_type'', 2), (''e_machine'', 2), (''e_version'', 4), (''e_entry'', 8),
     (''e_phoff'', 8), (''e_shoff'', 8), (''e_flags'', 4), (''e_ehsize'', 2), (''e_phentsize'', 2),
     (''e_phnum'', 2), (''e_shentsize'', 2), (''e_shnum'', 2), (''e_shstrndx'', 2)]"

definition Elf64_Phdr :: struct where
  "Elf64_Phdr = [(''p_type'', 4), (''p_flags'', 4), (''p_offset'', 8), (''p_vaddr'', 8), (''p_paddr'', 8),
     (''p_filesz'', 8), (''p_memsz'', 8), (''p_align'', 8)]"

definition Elf64_Shdr :: struct where
  "Elf64_Shdr = [(''sh_name'', 4), (''sh_type'', 4), (''sh_flags'', 8), (''sh_addr'', 8), (''sh_offset'', 8),
     (''sh_size'', 8), (''sh_link'', 4), (''sh_info'', 4), (''sh_addralign'', 8), (''sh_entsize'', 8)]"

definition Elf64_Sym :: struct where
  "Elf64_Sym = [(''st_name'', 4), (''st_info'', 1), (''st_other'', 1), (''st_shndx'', 2), (''st_value'', 8),
     (''st_size'', 8)]"

text \<open>The template parameter of the loader. (\<open>addr_t\<close> is the word type of its functions.)\<close>

record elf_types =
  Elf_Ehdr :: struct
  Elf_Phdr :: struct
  Elf_Shdr :: struct
  Elf_Sym :: struct

definition Elf32Types :: elf_types where
  "Elf32Types = \<lparr>Elf_Ehdr = Elf32_Ehdr, Elf_Phdr = Elf32_Phdr, Elf_Shdr = Elf32_Shdr, Elf_Sym = Elf32_Sym\<rparr>"

definition Elf64Types :: elf_types where
  "Elf64Types = \<lparr>Elf_Ehdr = Elf64_Ehdr, Elf_Phdr = Elf64_Phdr, Elf_Shdr = Elf64_Shdr, Elf_Sym = Elf64_Sym\<rparr>"

definition PT_LOAD :: u64 where
  "PT_LOAD = 1"

section \<open>Reading the file\<close>

text \<open>The member \<open>name\<close> of the structure at offset \<open>p\<close> of the file, as a little-endian number.\<close>

definition elf_field :: "struct \<Rightarrow> string \<Rightarrow> nat \<Rightarrow> u8 list \<Rightarrow> sim_error + u64" where
  "elf_field st name p file = (case field_at 0 st name of
     None \<Rightarrow> Inl OutOfRange
   | Some (off, n) \<Rightarrow> (case array_read (p + off) n file of
       None \<Rightarrow> Inl OutOfRange
     | Some bs \<Rightarrow> Inr (of_bytes bs)))"

text \<open>The structure number \<open>i\<close> of a table: \<open>elf.data() + off + entsize * i\<close>.\<close>

definition table_entry :: "u64 \<Rightarrow> u64 \<Rightarrow> nat \<Rightarrow> nat" where
  "table_entry off entsize i = unat off + unat entsize * i"

definition hdr :: "elf_types \<Rightarrow> string \<Rightarrow> u8 list \<Rightarrow> sim_error + u64" where
  "hdr T name = elf_field (Elf_Ehdr T) name 0"

section \<open>Segments\<close>

text \<open>Whether \<open>get_load_sections\<close> keeps the program header at \<open>p\<close>.\<close>

definition is_load_section :: "elf_types \<Rightarrow> u8 list \<Rightarrow> nat \<Rightarrow> sim_error + bool" where
  "is_load_section T file p =
     bindE (elf_field (Elf_Phdr T) ''p_type'' p file) (\<lambda>t.
     if t \<noteq> PT_LOAD then Inr False
     else bindE (elf_field (Elf_Phdr T) ''p_filesz'' p file) (\<lambda>fsz.
       if fsz \<noteq> 0 then Inr True
       else bindE (elf_field (Elf_Phdr T) ''p_memsz'' p file) (\<lambda>msz. Inr (msz \<noteq> 0))))"

fun load_sections_from :: "elf_types \<Rightarrow> u8 list \<Rightarrow> nat list \<Rightarrow> sim_error + nat list" where
  "load_sections_from T file [] = Inr []"
| "load_sections_from T file (p # ps) =
     bindE (is_load_section T file p) (\<lambda>b.
     bindE (load_sections_from T file ps) (\<lambda>qs. Inr (if b then p # qs else qs)))"

definition get_load_sections :: "elf_types \<Rightarrow> u8 list \<Rightarrow> sim_error + nat list" where
  "get_load_sections T file =
     bindE (hdr T ''e_phnum'' file) (\<lambda>n.
     bindE (hdr T ''e_phoff'' file) (\<lambda>off.
     bindE (hdr T ''e_phentsize'' file) (\<lambda>sz.
       load_sections_from T file (map (table_entry off sz) [0..<unat n]))))"

text \<open>
  The target of the loader, \<open>load_if\<close> of \<open>core/common/load_if.h\<close>. A source outside the file is an
  access out of range.
\<close>

record 's load_if =
  if_load_data :: "u8 list \<Rightarrow> u64 \<Rightarrow> ('s, unit) act"
  if_load_zero :: "u64 \<Rightarrow> nat \<Rightarrow> ('s, unit) act"

definition load_segment ::
    "elf_types \<Rightarrow> u8 list \<Rightarrow> 's load_if \<Rightarrow> 'a::len word \<Rightarrow> 'a word \<Rightarrow> bool \<Rightarrow> nat \<Rightarrow> ('s, unit) act" where
  "load_segment T file target msize offset use_vaddr p =
     bindM (liftE (elf_field (Elf_Phdr T) (if use_vaddr then ''p_vaddr'' else ''p_paddr'') p file)) (\<lambda>a.
     let addr = ucast a :: 'a word in
     if \<not> (addr \<ge> offset \<and> addr < offset + msize) then ret ()
     else if addr < offset then failM LoadExecutable
     else bindM (liftE (elf_field (Elf_Phdr T) ''p_memsz'' p file)) (\<lambda>msz.
     if addr + ucast msz \<ge> offset + msize then failM LoadExecutable
     else bindM (liftE (elf_field (Elf_Phdr T) ''p_offset'' p file)) (\<lambda>off.
     bindM (liftE (elf_field (Elf_Phdr T) ''p_filesz'' p file)) (\<lambda>fsz.
     let idx = addr - offset; idx' = idx + ucast fsz; rest = ucast msz - ucast fsz :: 'a word in
     case array_read (unat off) (unat fsz) file of
       None \<Rightarrow> failM OutOfRange
     | Some src \<Rightarrow> seqs
         [if_load_data target src (ucast idx), assertM (\<lambda>_. msz \<ge> fsz),
          if_load_zero target (ucast idx') (unat rest)]))))"

definition load_executable_image ::
    "elf_types \<Rightarrow> u8 list \<Rightarrow> 's load_if \<Rightarrow> 'a::len word \<Rightarrow> 'a word \<Rightarrow> bool \<Rightarrow> ('s, unit) act" where
  "load_executable_image T file target msize offset use_vaddr =
     bindM (liftE (get_load_sections T file)) (\<lambda>ps.
       seqs (map (load_segment T file target msize offset use_vaddr) ps))"

definition get_memory_end :: "elf_types \<Rightarrow> u8 list \<Rightarrow> sim_error + 'a::len word" where
  "get_memory_end T file =
     bindE (hdr T ''e_phnum'' file) (\<lambda>n.
     bindE (hdr T ''e_phoff'' file) (\<lambda>off.
     bindE (hdr T ''e_phentsize'' file) (\<lambda>sz.
     let a = int (unat off) + int (unat sz) * (int (unat n) - 1) in
     if a < 0 then Inl OutOfRange
     else bindE (elf_field (Elf_Phdr T) ''p_vaddr'' (nat a) file) (\<lambda>va.
       bindE (elf_field (Elf_Phdr T) ''p_memsz'' (nat a) file) (\<lambda>msz. Inr (ucast va + ucast msz))))))"

definition get_heap_addr :: "elf_types \<Rightarrow> u8 list \<Rightarrow> sim_error + 'a::len word" where
  "get_heap_addr T file = bindE (get_memory_end T file) (\<lambda>s. Inr (s + s mod 8))"

definition get_entrypoint :: "elf_types \<Rightarrow> u8 list \<Rightarrow> sim_error + 'a::len word" where
  "get_entrypoint T file = bindE (hdr T ''e_entry'' file) (\<lambda>e. Inr (ucast e))"

section \<open>Sections and symbols\<close>

text \<open>\<open>!strcmp(elf.data() + p, name)\<close>, for a name that ends with the zero byte.\<close>

fun strcmp_eq :: "u8 list \<Rightarrow> nat \<Rightarrow> u8 list \<Rightarrow> sim_error + bool" where
  "strcmp_eq file p [] = Inr True"
| "strcmp_eq file p (c # cs) =
     (if p < length file then
        (if file ! p = c then (if c = 0 then Inr True else strcmp_eq file (p + 1) cs) else Inr False)
      else Inl OutOfRange)"

definition c_string :: "string \<Rightarrow> u8 list" where
  "c_string s = map (\<lambda>c. of_nat (of_char c)) s @ [0]"

fun find_entry :: "('i \<Rightarrow> sim_error + bool) \<Rightarrow> 'i list \<Rightarrow> sim_error + 'i" where
  "find_entry test [] = Inl RuntimeError"
| "find_entry test (i # is) = bindE (test i) (\<lambda>b. if b then Inr i else find_entry test is)"

definition get_section_string_table :: "elf_types \<Rightarrow> u8 list \<Rightarrow> sim_error + nat" where
  "get_section_string_table T file =
     bindE (hdr T ''e_shoff'' file) (\<lambda>off.
     if off = 0 then Inl AssertionFailed
     else bindE (hdr T ''e_shentsize'' file) (\<lambda>sz.
       bindE (hdr T ''e_shstrndx'' file) (\<lambda>i.
       bindE (elf_field (Elf_Shdr T) ''sh_offset'' (table_entry off sz (unat i)) file) (\<lambda>start. Inr (unat start)))))"

definition section_named :: "elf_types \<Rightarrow> u8 list \<Rightarrow> nat \<Rightarrow> string \<Rightarrow> nat \<Rightarrow> sim_error + bool" where
  "section_named T file strings section_name s =
     bindE (elf_field (Elf_Shdr T) ''sh_name'' s file) (\<lambda>n. strcmp_eq file (strings + unat n) (c_string section_name))"

definition get_section :: "elf_types \<Rightarrow> u8 list \<Rightarrow> string \<Rightarrow> sim_error + nat" where
  "get_section T file section_name =
     bindE (hdr T ''e_shoff'' file) (\<lambda>off.
     if off = 0 then Inl RuntimeError
     else bindE (get_section_string_table T file) (\<lambda>strings.
       bindE (hdr T ''e_shnum'' file) (\<lambda>n.
       bindE (hdr T ''e_shentsize'' file) (\<lambda>sz.
       find_entry (section_named T file strings section_name) (map (table_entry off sz) [0..<unat n])))))"

definition get_symbol_string_table :: "elf_types \<Rightarrow> u8 list \<Rightarrow> sim_error + nat" where
  "get_symbol_string_table T file =
     bindE (get_section T file ''.strtab'') (\<lambda>s.
     bindE (elf_field (Elf_Shdr T) ''sh_offset'' s file) (\<lambda>off. Inr (unat off)))"

definition symbol_named :: "elf_types \<Rightarrow> u8 list \<Rightarrow> nat \<Rightarrow> string \<Rightarrow> nat \<Rightarrow> sim_error + bool" where
  "symbol_named T file strings symbol_name p =
     bindE (elf_field (Elf_Sym T) ''st_name'' p file) (\<lambda>n. strcmp_eq file (strings + unat n) (c_string symbol_name))"

definition get_symbol :: "elf_types \<Rightarrow> u8 list \<Rightarrow> string \<Rightarrow> sim_error + nat" where
  "get_symbol T file symbol_name =
     bindE (get_section T file ''.symtab'') (\<lambda>s.
     bindE (get_symbol_string_table T file) (\<lambda>strings.
     bindE (elf_field (Elf_Shdr T) ''sh_size'' s file) (\<lambda>ssize.
     if unat ssize mod sizeof (Elf_Sym T) \<noteq> 0 then Inl AssertionFailed
     else bindE (elf_field (Elf_Shdr T) ''sh_offset'' s file) (\<lambda>off.
       find_entry (symbol_named T file strings symbol_name)
         (map (\<lambda>i. unat off + i * sizeof (Elf_Sym T)) [0..<unat ssize div sizeof (Elf_Sym T)])))))"

definition symbol_value :: "elf_types \<Rightarrow> u8 list \<Rightarrow> string \<Rightarrow> sim_error + 'a::len word" where
  "symbol_value T file name =
     bindE (get_symbol T file name) (\<lambda>p. bindE (elf_field (Elf_Sym T) ''st_value'' p file) (\<lambda>v. Inr (ucast v)))"

definition get_begin_signature_address :: "elf_types \<Rightarrow> u8 list \<Rightarrow> sim_error + 'a::len word" where
  "get_begin_signature_address T file = symbol_value T file ''begin_signature''"

definition get_end_signature_address :: "elf_types \<Rightarrow> u8 list \<Rightarrow> sim_error + 'a::len word" where
  "get_end_signature_address T file = symbol_value T file ''end_signature''"

definition get_to_host_address :: "elf_types \<Rightarrow> u8 list \<Rightarrow> sim_error + 'a::len word" where
  "get_to_host_address T file = symbol_value T file ''tohost''"

section \<open>Layout of the structures\<close>

fun aligned_from :: "nat \<Rightarrow> struct \<Rightarrow> bool" where
  "aligned_from off [] = True"
| "aligned_from off ((f, n) # st) = ((f = ''e_ident'' \<or> n dvd off) \<and> aligned_from (off + n) st)"

lemma elf_no_padding:
  "\<forall>st \<in> {Elf32_Ehdr, Elf32_Phdr, Elf32_Shdr, Elf32_Sym, Elf64_Ehdr, Elf64_Phdr, Elf64_Shdr, Elf64_Sym}.
     aligned_from 0 st"
  by code_simp

lemma elf_sizes:
  "sizeof Elf32_Ehdr = 52" "sizeof Elf32_Phdr = 32" "sizeof Elf32_Shdr = 40" "sizeof Elf32_Sym = 16"
  "sizeof Elf64_Ehdr = 64" "sizeof Elf64_Phdr = 56" "sizeof Elf64_Shdr = 64" "sizeof Elf64_Sym = 24"
  by code_simp+

end
