(* ===== verification/Elf_Props.thy ===== *)
theory Elf_Props
  imports Elf RegMap
begin

text \<open>
  What the ELF loader leaves in memory: after \<open>load_executable_image\<close> every byte holds the value of
  the last segment that covers it, and the bytes that no segment covers are unchanged.
\<close>

unbundle bit_operations_syntax

section \<open>The target of the loader\<close>

text \<open>
  What the loader relies on (\<open>core/common/load_if.h\<close>): data that fit into the target are stored at
  their address.
\<close>

locale load_target =
  fixes target :: "'s load_if" and contents :: "'s \<Rightarrow> u8 list" and good :: "'s \<Rightarrow> bool"
  assumes load_data_fits: "good s \<Longrightarrow> unat a + length src \<le> length (contents s) \<Longrightarrow>
      \<exists>s'. if_load_data target src a s = (Ok (), s') \<and> good s' \<and>
        array_write (unat a) src (contents s) = Some (contents s')"
    and load_zero_fits: "good s \<Longrightarrow> unat a + n \<le> length (contents s) \<Longrightarrow>
      \<exists>s'. if_load_zero target a n s = (Ok (), s') \<and> good s' \<and>
        array_write (unat a) (replicate n 0) (contents s) = Some (contents s')"
begin

lemma load_data_zero:
  assumes "good s" and "unat a + length src + n \<le> length (contents s)" and "unat b = unat a + length src"
  shows "\<exists>s'. seqs [if_load_data target src a, assertM (\<lambda>_. True), if_load_zero target b n] s = (Ok (), s') \<and>
    good s' \<and> length (contents s') = length (contents s) \<and>
    (\<forall>i < length (contents s). contents s' ! i =
      (if unat a \<le> i \<and> i < unat a + length src + n
       then if i - unat a < length src then src ! (i - unat a) else 0 else contents s ! i))"
proof -
  obtain s1 where s1: "if_load_data target src a s = (Ok (), s1)" "good s1"
      "array_write (unat a) src (contents s) = Some (contents s1)"
    using load_data_fits [of s a src] assms(1,2) by auto
  have l1: "length (contents s1) = length (contents s)" by (rule array_write_length [OF s1(3)])
  obtain s2 where s2: "if_load_zero target b n s1 = (Ok (), s2)" "good s2"
      "array_write (unat b) (replicate n 0) (contents s1) = Some (contents s2)"
    using load_zero_fits [of s1 b n] s1(2) l1 assms(2,3) by auto
  have l2: "length (contents s2) = length (contents s)"
    using array_write_length [OF s2(3)] l1 by simp
  have "contents s2 ! i =
      (if unat a \<le> i \<and> i < unat a + length src + n
       then if i - unat a < length src then src ! (i - unat a) else 0 else contents s ! i)"
    if "i < length (contents s)" for i
    using array_write_nth [OF s2(3), of i] array_write_nth [OF s1(3) that] that l1 assms(3)
    by (auto simp: nth_replicate)
  then show ?thesis
    using s1(1) s2(1,2) l2 by (intro exI [of _ s2]) (simp add: seqM_apply assertM_def)
qed

end

text \<open>\<open>SimpleMemory\<close> as the target of the loader.\<close>

definition memory_target :: "SimpleMemory load_if" where
  "memory_target = \<lparr>if_load_data = memory_load_data, if_load_zero = memory_load_zero\<rparr>"

lemma memory_load_fits:
  assumes "memory_wf m" and "unat a + length src \<le> length (mem_data m)"
  shows "\<exists>m'. memory_load_data src a m = (Ok (), m') \<and> memory_wf m' \<and>
    array_write (unat a) src (mem_data m) = Some (mem_data m')"
proof -
  have l: "length (mem_data m) = unat (mem_size m)" using assms(1) by (simp add: memory_wf_def)
  have b: "unat (mem_size m) < 2 ^ 32" using unsigned_less [of "mem_size m"] by simp
  have "unat (a + of_nat (length src)) = unat a + length src"
    using assms(2) l b by (simp add: unat_word_ariths unat_of_nat)
  then have "a + of_nat (length src) \<le> ucast (mem_size m)"
    using assms(2) l by (simp add: word_le_nat_alt unat_ucast_up)
  moreover obtain d where d: "array_write (unat a) src (mem_data m) = Some d"
    using assms(2) by (simp add: array_write_def)
  ultimately have "memory_load_data src a m = (Ok (), m\<lparr>mem_data := d\<rparr>)"
    by (simp add: memory_load_data_def)
  then show ?thesis using d l array_write_length [OF d] by (simp add: memory_wf_def)
qed

interpretation simple_memory: load_target memory_target mem_data memory_wf
proof
  show "memory_wf m \<Longrightarrow> unat a + length src \<le> length (mem_data m) \<Longrightarrow>
      \<exists>m'. if_load_data memory_target src a m = (Ok (), m') \<and> memory_wf m' \<and>
        array_write (unat a) src (mem_data m) = Some (mem_data m')" for m a src
    using memory_load_fits by (simp add: memory_target_def)
  show "memory_wf m \<Longrightarrow> unat a + n \<le> length (mem_data m) \<Longrightarrow>
      \<exists>m'. if_load_zero memory_target a n m = (Ok (), m') \<and> memory_wf m' \<and>
        array_write (unat a) (replicate n 0) (mem_data m) = Some (mem_data m')" for m a n
    using memory_load_fits [of m a "replicate n 0"] by (simp add: memory_target_def memory_load_zero_def)
qed

section \<open>The image of the segments\<close>

record segment =
  seg_addr :: nat
  seg_offset :: nat
  seg_filesz :: nat
  seg_memsz :: nat

definition read_segment :: "elf_types \<Rightarrow> u8 list \<Rightarrow> bool \<Rightarrow> nat \<Rightarrow> sim_error + segment" where
  "read_segment T file uv p =
     bindE (elf_field (Elf_Phdr T) (if uv then ''p_vaddr'' else ''p_paddr'') p file) (\<lambda>a.
     bindE (elf_field (Elf_Phdr T) ''p_memsz'' p file) (\<lambda>msz.
     bindE (elf_field (Elf_Phdr T) ''p_offset'' p file) (\<lambda>off.
     bindE (elf_field (Elf_Phdr T) ''p_filesz'' p file) (\<lambda>fsz.
       Inr \<lparr>seg_addr = unat a, seg_offset = unat off, seg_filesz = unat fsz, seg_memsz = unat msz\<rparr>))))"

text \<open>The segments that start in the memory of the given size at the given offset.\<close>

fun image_segments :: "elf_types \<Rightarrow> u8 list \<Rightarrow> bool \<Rightarrow> nat \<Rightarrow> nat \<Rightarrow> nat list \<Rightarrow> sim_error + segment list" where
  "image_segments T file uv msize offset [] = Inr []"
| "image_segments T file uv msize offset (p # ps) =
     bindE (elf_field (Elf_Phdr T) (if uv then ''p_vaddr'' else ''p_paddr'') p file) (\<lambda>a.
       if offset \<le> unat a \<and> unat a < offset + msize
       then bindE (read_segment T file uv p) (\<lambda>g.
         bindE (image_segments T file uv msize offset ps) (\<lambda>gs. Inr (g # gs)))
       else image_segments T file uv msize offset ps)"

definition segment_fits :: "u8 list \<Rightarrow> nat \<Rightarrow> nat \<Rightarrow> segment \<Rightarrow> bool" where
  "segment_fits file msize offset g \<longleftrightarrow> seg_filesz g \<le> seg_memsz g \<and>
     seg_addr g + seg_memsz g < offset + msize \<and> seg_offset g + seg_filesz g \<le> length file"

definition seg_byte :: "u8 list \<Rightarrow> nat \<Rightarrow> u8 \<Rightarrow> segment \<Rightarrow> u8" where
  "seg_byte file a b g =
     (if seg_addr g \<le> a \<and> a < seg_addr g + seg_memsz g
      then if a - seg_addr g < seg_filesz g then file ! (seg_offset g + (a - seg_addr g)) else 0
      else b)"

text \<open>The byte at address \<open>a\<close> after the segments were loaded over the byte \<open>b\<close>.\<close>

definition image_byte :: "u8 list \<Rightarrow> segment list \<Rightarrow> nat \<Rightarrow> u8 \<Rightarrow> u8" where
  "image_byte file gs a b = foldl (seg_byte file a) b gs"

text \<open>The fields of the program headers fit into \<open>addr_t\<close>.\<close>

definition phdr_width :: "elf_types \<Rightarrow> nat \<Rightarrow> bool" where
  "phdr_width T w \<longleftrightarrow> (\<forall>x \<in> set (Elf_Phdr T). 8 * snd x \<le> w)"

lemma of_bytes_less: "unat (of_bytes bs) < 2 ^ (8 * length bs)"
proof (cases "length bs < 8")
  case True
  have "unat (take_bit (8 * length bs) (of_bytes bs)) < 2 ^ (8 * length bs)"
    by (simp add: unsigned_take_bit_eq take_bit_nat_less_exp)
  then show ?thesis by (simp add: of_bytes_bound)
next
  case False
  then have "(2::nat) ^ 64 \<le> 2 ^ (8 * length bs)" by (intro power_increasing) simp_all
  moreover have "unat (of_bytes bs) < 2 ^ 64" by (rule less_le_trans [OF unsigned_less]) simp
  ultimately show ?thesis by (rule less_le_trans [rotated])
qed

lemma elf_field_width:
  assumes "elf_field (Elf_Phdr T) name p file = Inr v" and "phdr_width T w"
  shows "unat v < 2 ^ w"
proof -
  from assms(1) obtain off n bs where f: "field_at 0 (Elf_Phdr T) name = Some (off, n)"
      "array_read (p + off) n file = Some bs" "v = of_bytes bs"
    by (auto simp: elf_field_def split: option.splits)
  have "length bs = n" using f(2) by (rule host_array.rd_length)
  moreover have "8 * n \<le> w"
    using field_at_size [OF f(1)] assms(2) by (auto simp: phdr_width_def)
  ultimately have "(2::nat) ^ (8 * length bs) \<le> 2 ^ w" by (intro power_increasing) simp_all
  then show ?thesis using less_le_trans [OF of_bytes_less [of bs]] f(3) by blast
qed

lemma phdr_widths: "phdr_width Elf32Types 32" "phdr_width Elf64Types 64"
  by code_simp+

text \<open>One segment: it is skipped or stored.\<close>

context load_target
begin

lemma load_segment_eq:
  fixes msize offset :: "'a::len word"
  assumes g: "read_segment T file uv p = Inr g"
    and w: "phdr_width T LENGTH('a)" "LENGTH('a) \<le> 64" "unat offset + unat msize < 2 ^ LENGTH('a)"
    and s: "good s" "length (contents s) = unat msize"
    and f: "unat offset \<le> seg_addr g" "segment_fits file (unat msize) (unat offset) g"
  shows "\<exists>s'. load_segment T file target msize offset uv p s = (Ok (), s') \<and> good s' \<and>
    length (contents s') = unat msize \<and>
    (\<forall>i < unat msize. contents s' ! i = seg_byte file (unat offset + i) (contents s ! i) g)"
proof -
  from g obtain a msz off fsz where m:
      "elf_field (Elf_Phdr T) (if uv then ''p_vaddr'' else ''p_paddr'') p file = Inr a"
      "elf_field (Elf_Phdr T) ''p_memsz'' p file = Inr msz" "elf_field (Elf_Phdr T) ''p_offset'' p file = Inr off"
      "elf_field (Elf_Phdr T) ''p_filesz'' p file = Inr fsz"
      "g = \<lparr>seg_addr = unat a, seg_offset = unat off, seg_filesz = unat fsz, seg_memsz = unat msz\<rparr>"
    by (auto simp: read_segment_def bindE_Inr_iff)
  have le: "unat fsz \<le> unat msz" "unat a + unat msz < unat offset + unat msize"
      "unat off + unat fsz \<le> length file" "unat offset \<le> unat a"
    using f m(5) by (simp_all add: segment_fits_def)
  let ?addr = "ucast a :: 'a word" and ?m = "ucast msz :: 'a word" and ?f = "ucast fsz :: 'a word"
  have u: "unat ?addr = unat a" "unat ?m = unat msz" "unat ?f = unat fsz"
    using elf_field_width [OF m(1) w(1)] elf_field_width [OF m(2) w(1)] elf_field_width [OF m(4) w(1)]
    by (simp_all add: unsigned_ucast_eq take_bit_nat_eq_self)
  have os: "unat (offset + msize) = unat offset + unat msize" using w(3) by (simp add: unat_word_ariths)
  have am: "unat (?addr + ?m) = unat a + unat msz" using u le w(3) by (simp add: unat_word_ariths)
  have idx: "unat (?addr - offset) = unat a - unat offset"
    using le(4) u by (subst unat_sub) (simp_all add: word_le_nat_alt)
  have idx': "unat (?addr - offset + ?f) = unat a - unat offset + unat fsz"
    using idx u le w(3) by (simp add: unat_word_ariths)
  have rest: "unat (?m - ?f) = unat msz - unat fsz"
    using le(1) u by (subst unat_sub) (simp_all add: word_le_nat_alt)
  have up: "unat (ucast x :: u64) = unat x" for x :: "'a word"
    using w(2) by (simp add: unat_ucast_up)
  obtain src where src: "array_read (unat off) (unat fsz) file = Some src" "length src = unat fsz"
      "\<And>j. j < unat fsz \<Longrightarrow> src ! j = file ! (unat off + j)"
    using le(3) by (simp add: array_read_def)
  have g0: "?addr \<ge> offset \<and> ?addr < offset + msize" "\<not> ?addr < offset" "\<not> ?addr + ?m \<ge> offset + msize"
    using le u os am by (auto simp: word_le_nat_alt word_less_nat_alt)
  have "msz \<ge> fsz" using le(1) by (simp add: word_le_nat_alt)
  then have "load_segment T file target msize offset uv p s =
      seqs [if_load_data target src (ucast (?addr - offset)), assertM (\<lambda>_. True),
        if_load_zero target (ucast (?addr - offset + ?f)) (unat (?m - ?f))] s"
    using m(1-4) g0 src(1) by (simp add: load_segment_def Let_def)
  moreover have fit: "unat (ucast (?addr - offset) :: u64) + length src + unat (?m - ?f) \<le> length (contents s)"
    using le s(2) src(2) by (simp add: up idx rest)
  have "unat (ucast (?addr - offset + ?f) :: u64) = unat (ucast (?addr - offset) :: u64) + length src"
    using src(2) by (simp add: up idx idx')
  note ld = load_data_zero [OF s(1) fit this, unfolded up idx rest src(2) s(2)]
  from ld obtain s' where "seqs [if_load_data target src (ucast (?addr - offset)), assertM (\<lambda>_. True),
        if_load_zero target (ucast (?addr - offset + ?f)) (unat msz - unat fsz)] s = (Ok (), s')"
      "good s'" "length (contents s') = unat msize"
      "\<And>i. i < unat msize \<Longrightarrow> contents s' ! i =
        (if unat a - unat offset \<le> i \<and> i < unat a - unat offset + unat fsz + (unat msz - unat fsz)
         then if i - (unat a - unat offset) < unat fsz then src ! (i - (unat a - unat offset)) else 0
         else contents s ! i)"
    by blast
  moreover have "unat offset + i - unat a = i - (unat a - unat offset)" for i using le(4) by simp
  ultimately show ?thesis
    using le src(3) m(5) by (intro exI [of _ s']) (auto simp: seg_byte_def rest)
qed

lemma load_segment_skip:
  fixes msize offset :: "'a::len word"
  assumes "elf_field (Elf_Phdr T) (if uv then ''p_vaddr'' else ''p_paddr'') p file = Inr a"
    and "phdr_width T LENGTH('a)" "unat offset + unat msize < 2 ^ LENGTH('a)"
    and "\<not> (unat offset \<le> unat a \<and> unat a < unat offset + unat msize)"
  shows "load_segment T file target msize offset uv p s = (Ok (), s)"
proof -
  have "unat (ucast a :: 'a word) = unat a"
    using elf_field_width [OF assms(1,2)] by (simp add: unsigned_ucast_eq take_bit_nat_eq_self)
  moreover have "unat (offset + msize) = unat offset + unat msize"
    using assms(3) by (simp add: unat_word_ariths)
  ultimately have "\<not> (ucast a \<ge> offset \<and> ucast a < offset + msize)"
    using assms(4) by (simp add: word_le_nat_alt word_less_nat_alt)
  then show ?thesis using assms(1) by (simp add: load_segment_def Let_def)
qed

lemma load_segments:
  fixes msize offset :: "'a::len word"
  assumes w: "phdr_width T LENGTH('a)" "LENGTH('a) \<le> 64" "unat offset + unat msize < 2 ^ LENGTH('a)"
  shows "image_segments T file uv (unat msize) (unat offset) ps = Inr gs \<Longrightarrow>
    (\<forall>g \<in> set gs. segment_fits file (unat msize) (unat offset) g) \<Longrightarrow>
    good s \<Longrightarrow> length (contents s) = unat msize \<Longrightarrow>
    \<exists>s'. seqs (map (load_segment T file target msize offset uv) ps) s = (Ok (), s') \<and> good s' \<and>
      length (contents s') = unat msize \<and>
      (\<forall>i < unat msize. contents s' ! i = image_byte file gs (unat offset + i) (contents s ! i))"
proof (induction ps arbitrary: gs s)
  case Nil
  then show ?case by (simp add: image_byte_def)
next
  case (Cons p ps)
  from Cons.prems(1) obtain a where
      a: "elf_field (Elf_Phdr T) (if uv then ''p_vaddr'' else ''p_paddr'') p file = Inr a"
    by (auto simp: bindE_Inr_iff)
  show ?case
  proof (cases "unat offset \<le> unat a \<and> unat a < unat offset + unat msize")
    case True
    with Cons.prems(1) a obtain g gs' where g: "read_segment T file uv p = Inr g"
        "image_segments T file uv (unat msize) (unat offset) ps = Inr gs'" "gs = g # gs'"
      by (auto simp: bindE_Inr_iff)
    have "seg_addr g = unat a" using g(1) a by (auto simp: read_segment_def bindE_Inr_iff)
    then obtain s1 where s1: "load_segment T file target msize offset uv p s = (Ok (), s1)" "good s1"
        "length (contents s1) = unat msize"
        "\<forall>i < unat msize. contents s1 ! i = seg_byte file (unat offset + i) (contents s ! i) g"
      using load_segment_eq [OF g(1) w Cons.prems(3,4)] True Cons.prems(2) g(3) by auto
    from Cons.IH [OF g(2) _ s1(2,3)] Cons.prems(2) g(3) obtain s' where
        "seqs (map (load_segment T file target msize offset uv) ps) s1 = (Ok (), s')" "good s'"
        "length (contents s') = unat msize"
        "\<forall>i < unat msize. contents s' ! i = image_byte file gs' (unat offset + i) (contents s1 ! i)"
      by auto
    then show ?thesis using s1(1,4) g(3) by (auto simp: seqM_apply image_byte_def)
  next
    case False
    with Cons.prems(1) a have "image_segments T file uv (unat msize) (unat offset) ps = Inr gs" by simp
    with Cons.IH [OF this] Cons.prems(2-4) load_segment_skip [OF a w(1,3) False, of s]
    show ?thesis by (simp add: seqM_apply)
  qed
qed

lemma load_image:
  fixes msize offset :: "'a::len word"
  assumes "phdr_width T LENGTH('a)" "LENGTH('a) \<le> 64" "unat offset + unat msize < 2 ^ LENGTH('a)"
    and "get_load_sections T file = Inr ps"
    and "image_segments T file uv (unat msize) (unat offset) ps = Inr gs"
    and "\<forall>g \<in> set gs. segment_fits file (unat msize) (unat offset) g"
    and "good s" "length (contents s) = unat msize"
  shows "\<exists>s'. load_executable_image T file target msize offset uv s = (Ok (), s') \<and> good s' \<and>
      length (contents s') = unat msize \<and>
      (\<forall>i < unat msize. contents s' ! i = image_byte file gs (unat offset + i) (contents s ! i))"
  using load_segments [OF assms(1-3,5-8)] assms(4) by (simp add: load_executable_image_def)

end

section \<open>Properties\<close>

lemma image_segments_start:
  "image_segments T file uv n offset ps = Inr gs \<Longrightarrow> g \<in> set gs \<Longrightarrow> offset \<le> seg_addr g"
  by (induction ps arbitrary: gs) (auto simp: bindE_Inr_iff read_segment_def split: if_splits)

text \<open>The last segment that covers a byte decides it; with disjoint segments that is the only one.\<close>

lemma image_byte_outside:
  assumes "\<And>g. g \<in> set gs \<Longrightarrow> \<not> (seg_addr g \<le> a \<and> a < seg_addr g + seg_memsz g)"
  shows "image_byte file gs a b = b"
  using assms by (induction gs arbitrary: b) (auto simp: image_byte_def seg_byte_def)

lemma image_byte_append:
  "image_byte file (gs @ hs) a b = image_byte file hs a (image_byte file gs a b)"
  by (simp add: image_byte_def)

definition disjoint_segments :: "segment \<Rightarrow> segment \<Rightarrow> bool" where
  "disjoint_segments g h \<longleftrightarrow> seg_addr g + seg_memsz g \<le> seg_addr h \<or> seg_addr h + seg_memsz h \<le> seg_addr g"

lemma image_byte_inside:
  assumes "sorted_wrt disjoint_segments gs" and "g \<in> set gs" and "j < seg_memsz g"
  shows "image_byte file gs (seg_addr g + j) b = (if j < seg_filesz g then file ! (seg_offset g + j) else 0)"
proof -
  from assms(2) obtain xs ys where gs: "gs = xs @ g # ys" by (auto dest: split_list)
  have "image_byte file ys (seg_addr g + j) c = c" for c
    using assms(1,3) unfolding gs
    by (intro image_byte_outside) (auto simp: sorted_wrt_append disjoint_segments_def)
  then show ?thesis
    unfolding gs image_byte_append using assms(3) by (simp add: image_byte_def seg_byte_def)
qed

text \<open>
  C18. Loading an ELF file into a memory, when every segment that starts in the memory fits and the
  segments do not overlap: the loader returns, each segment lies at its address, its bytes from the
  file followed by zeros, and all other bytes of the memory are as before.
\<close>

theorem elf_image_loaded:
  fixes m :: SimpleMemory and offset :: u32
  assumes "memory_wf m" and "unat offset + unat (mem_size m) < 2 ^ 32"
    and "get_load_sections Elf32Types file = Inr ps"
    and "image_segments Elf32Types file uv (unat (mem_size m)) (unat offset) ps = Inr gs"
    and "\<forall>g \<in> set gs. segment_fits file (unat (mem_size m)) (unat offset) g"
    and "sorted_wrt disjoint_segments gs"
  shows "\<exists>m'. load_executable_image Elf32Types file memory_target (mem_size m) offset uv m = (Ok (), m') \<and>
    (\<forall>g \<in> set gs. \<forall>j < seg_memsz g. mem_data m' ! (seg_addr g + j - unat offset) =
       (if j < seg_filesz g then file ! (seg_offset g + j) else 0)) \<and>
    (\<forall>i < unat (mem_size m). (\<forall>g \<in> set gs. \<not> (seg_addr g \<le> unat offset + i \<and> unat offset + i < seg_addr g + seg_memsz g)) \<longrightarrow>
       mem_data m' ! i = mem_data m ! i)"
proof -
  have len: "length (mem_data m) = unat (mem_size m)" using assms(1) by (simp add: memory_wf_def)
  have w: "phdr_width Elf32Types LENGTH(32)" "LENGTH(32) \<le> 64" by (simp_all add: phdr_widths)
  obtain m' where m': "load_executable_image Elf32Types file memory_target (mem_size m) offset uv m = (Ok (), m')"
      "\<And>i. i < unat (mem_size m) \<Longrightarrow> mem_data m' ! i = image_byte file gs (unat offset + i) (mem_data m ! i)"
    using simple_memory.load_image [OF w _ assms(3-5,1) len] assms(2) by auto
  have "mem_data m' ! (seg_addr g + j - unat offset) = (if j < seg_filesz g then file ! (seg_offset g + j) else 0)"
    if g: "g \<in> set gs" "j < seg_memsz g" for g j
  proof -
    have "unat offset \<le> seg_addr g" "seg_addr g + seg_memsz g < unat offset + unat (mem_size m)"
      using image_segments_start [OF assms(4) g(1)] assms(5) g(1) by (auto simp: segment_fits_def)
    then show ?thesis using m'(2) [of "seg_addr g + j - unat offset"] image_byte_inside [OF assms(6) g] g(2)
      by (simp add: less_diff_conv2)
  qed
  moreover have "mem_data m' ! i = mem_data m ! i"
    if "i < unat (mem_size m)" "\<forall>g \<in> set gs. \<not> (seg_addr g \<le> unat offset + i \<and> unat offset + i < seg_addr g + seg_memsz g)" for i
    using m'(2) [OF that(1)] image_byte_outside [of gs "unat offset + i"] that(2) by simp
  ultimately show ?thesis using m'(1) by blast
qed

text \<open>The same for the 64-bit loader.\<close>

lemma elf64_image_loaded:
  fixes m :: SimpleMemory and offset :: u64
  assumes "memory_wf m" and "unat offset + unat (mem_size m) < 2 ^ 64"
    and "get_load_sections Elf64Types file = Inr ps"
    and "image_segments Elf64Types file uv (unat (mem_size m)) (unat offset) ps = Inr gs"
    and "\<forall>g \<in> set gs. segment_fits file (unat (mem_size m)) (unat offset) g"
  shows "\<exists>m'. load_executable_image Elf64Types file memory_target (ucast (mem_size m)) offset uv m = (Ok (), m') \<and>
    (\<forall>i < unat (mem_size m). mem_data m' ! i = image_byte file gs (unat offset + i) (mem_data m ! i))"
proof -
  have w: "phdr_width Elf64Types LENGTH(64)" "LENGTH(64) \<le> 64" by (simp_all add: phdr_widths)
  have u: "unat (ucast (mem_size m) :: u64) = unat (mem_size m)" by (simp add: unat_ucast_up)
  have "length (mem_data m) = unat (ucast (mem_size m) :: u64)" using assms(1) u by (simp add: memory_wf_def)
  moreover have "unat offset + unat (ucast (mem_size m) :: u64) < 2 ^ LENGTH(64)" using assms(2) u by simp
  ultimately show ?thesis
    using simple_memory.load_image [OF w _ assms(3) assms(4,5) [folded u] assms(1)] unfolding u by blast
qed

text \<open>A small file: one segment of a word (\<open>addi x1, x0, 5\<close>) and four bytes of zeros at \<open>0x80000000\<close>.\<close>

definition elf_example :: "u8 list" where
  "elf_example = [
     0, 0, 0, 0, 0, 0, 0, 0, 0, 0, 0, 0, 0, 0, 0, 0, 2, 0, 243, 0, 1, 0, 0, 0, 0, 0, 0, 128, 52, 0,
     0, 0, 0, 0, 0, 0, 0, 0, 0, 0, 52, 0, 32, 0, 1, 0, 40, 0, 0, 0, 0, 0, 1, 0, 0, 0, 84, 0, 0, 0,
     0, 0, 0, 128, 0, 0, 0, 128, 4, 0, 0, 0, 8, 0, 0, 0, 5, 0, 0, 0, 4, 0, 0, 0, 147, 0, 80, 0]"

lemma elf_example_header:
  "hdr Elf32Types ''e_phnum'' elf_example = Inr 1" "hdr Elf32Types ''e_phoff'' elf_example = Inr 52"
  "hdr Elf32Types ''e_phentsize'' elf_example = Inr 32" "hdr Elf32Types ''e_entry'' elf_example = Inr 0x80000000"
  by code_simp+

lemma elf_example_fields:
  "elf_field (Elf_Phdr Elf32Types) ''p_type'' 52 elf_example = Inr 1"
  "elf_field (Elf_Phdr Elf32Types) ''p_offset'' 52 elf_example = Inr 84"
  "elf_field (Elf_Phdr Elf32Types) ''p_vaddr'' 52 elf_example = Inr 0x80000000"
  "elf_field (Elf_Phdr Elf32Types) ''p_filesz'' 52 elf_example = Inr 4"
  "elf_field (Elf_Phdr Elf32Types) ''p_memsz'' 52 elf_example = Inr 8"
  by code_simp+

lemma elf_example_segments:
  "get_load_sections Elf32Types elf_example = Inr [52]"
  "image_segments Elf32Types elf_example True 64 0x80000000 [52] =
     Inr [\<lparr>seg_addr = 0x80000000, seg_offset = 84, seg_filesz = 4, seg_memsz = 8\<rparr>]"
  "length elf_example = 88" "take 4 (drop 84 elf_example) = [0x93, 0, 0x50, 0]"
  by (simp add: get_load_sections_def elf_example_header elf_example_fields table_entry_def is_load_section_def
      PT_LOAD_def)
    (simp add: read_segment_def elf_example_fields, simp_all add: elf_example_def)

theorem elf_image_loaded_witness:
  "\<exists>m'. load_executable_image Elf32Types elf_example memory_target (64 :: u32) 0x80000000 True
      (SimpleMemory_init 64 False) = (Ok (), m') \<and> mem_data m' ! 0 = 0x93 \<and> mem_data m' ! 4 = 0"
proof -
  let ?m = "SimpleMemory_init 64 False" and ?g = "\<lparr>seg_addr = 0x80000000, seg_offset = 84, seg_filesz = 4, seg_memsz = 8\<rparr>"
  have m: "mem_size ?m = 64" by (simp add: SimpleMemory_init_def)
  have i: "image_segments Elf32Types elf_example True (unat (mem_size ?m)) (unat (0x80000000 :: u32)) [52] = Inr [?g]"
    using elf_example_segments(2) by (simp add: m del: image_segments.simps)
  have f: "\<forall>g \<in> set [?g]. segment_fits elf_example (unat (mem_size ?m)) (unat (0x80000000 :: u32)) g"
    by (simp add: m segment_fits_def elf_example_segments(3))
  have "unat (0x80000000 :: u32) + unat (mem_size ?m) < 2 ^ 32" "sorted_wrt disjoint_segments [?g]"
    by (simp_all add: m)
  from elf_image_loaded [OF memory_init_wf this(1) elf_example_segments(1) i f this(2)] obtain m' where
    m': "load_executable_image Elf32Types elf_example memory_target (64 :: u32) 0x80000000 True ?m = (Ok (), m')"
      "\<forall>g \<in> set [?g]. \<forall>j < seg_memsz g. mem_data m' ! (seg_addr g + j - unat (0x80000000 :: u32)) =
         (if j < seg_filesz g then elf_example ! (seg_offset g + j) else 0)"
    unfolding m by blast
  have b: "mem_data m' ! j = (if j < 4 then elf_example ! (84 + j) else 0)" if "j < 8" for j
    using m'(2) [rule_format, of ?g j] that by simp
  from b [of 0] b [of 4] have "mem_data m' ! 0 = 0x93" "mem_data m' ! 4 = 0"
    by (simp_all add: elf_example_def)
  with m'(1) show ?thesis by blast
qed

text \<open>
  \<open>get_heap_addr\<close> promises the first address after the image that is a multiple of eight, but adds
  the remainder instead of what is missing to eight: the result is a multiple of eight exactly when
  the end of the image is a multiple of four.
\<close>

theorem elf_heap_misaligned:
  assumes "get_memory_end T file = Inr (s :: u32)"
  shows "\<exists>h. get_heap_addr T file = Inr (h :: u32) \<and> (8 dvd unat h \<longleftrightarrow> 4 dvd unat s)"
proof -
  have "unat (s + s mod 8) mod 8 = (unat s + unat s mod 8) mod 8"
    by (simp add: unat_word_ariths mod_mod_cancel)
  also have "\<dots> = 2 * unat s mod 8" by (simp add: mod_simps mult_2)
  finally have "8 dvd unat (s + s mod 8) \<longleftrightarrow> 8 dvd 2 * unat s" by (simp add: dvd_eq_mod_eq_0)
  also have "\<dots> \<longleftrightarrow> 4 dvd unat s" by presburger
  finally show ?thesis using assms by (simp add: get_heap_addr_def)
qed

theorem elf_heap_misaligned_witness:
  "get_memory_end Elf32Types elf_example = Inr (0x80000008 :: u32) \<and>
   (\<exists>h. get_heap_addr Elf32Types elf_example = Inr (h :: u32) \<and> 8 dvd unat h)"
proof -
  have e: "get_memory_end Elf32Types elf_example = Inr (0x80000008 :: u32)"
    by (simp add: get_memory_end_def elf_example_header elf_example_fields)
  with elf_heap_misaligned [OF e] show ?thesis by auto
qed

section \<open>Symbols\<close>

lemma find_entry_first:
  assumes "find_entry test xs = Inr i"
  shows "\<exists>ys zs. xs = ys @ i # zs \<and> test i = Inr True \<and> (\<forall>y \<in> set ys. test y = Inr False)"
  using assms
proof (induction xs)
  case (Cons x xs)
  then obtain b where b: "test x = Inr b" by (auto simp: bindE_Inr_iff)
  show ?case
  proof (cases b)
    case True
    with Cons.prems b have "x = i" "test i = Inr True" by auto
    then show ?thesis by (intro exI [of _ "[]"] exI [of _ xs]) simp
  next
    case False
    with Cons b obtain ys zs where "xs = ys @ i # zs" "test i = Inr True" "\<forall>y \<in> set ys. test y = Inr False"
      by auto
    with b False show ?thesis by (intro exI [of _ "x # ys"] exI [of _ zs]) simp
  qed
qed simp

lemma strcmp_eq_sound:
  assumes "strcmp_eq file p (cs @ [0]) = Inr True" and "0 \<notin> set cs"
  shows "array_read p (length cs + 1) file = Some (cs @ [0])"
  using assms
proof (induction cs arbitrary: p)
  case Nil
  then show ?case by (auto simp: array_read_def take_Suc_conv_app_nth split: if_splits)
next
  case (Cons c cs)
  then have c: "p < length file" "file ! p = c" "strcmp_eq file (p + 1) (cs @ [0]) = Inr True"
    by (auto split: if_splits)
  with Cons.IH [of "p + 1"] Cons.prems(2) show ?case
    by (auto simp: array_read_def Cons_nth_drop_Suc [symmetric] split: if_splits)
qed

end
