(* ===== verification/Syscall.thy ===== *)
theory Syscall
  imports CStruct Core Core64
begin

text \<open>
  System call emulation: \<open>core/rv32/syscall.h\<close>, \<open>syscall.cpp\<close> and their RV64 variants. The functions of
  the host's operating system are a parameter: from the arguments and the state of the host to
  the result. A guest pointer is an offset into the array of the guest memory.
\<close>

unbundle bit_operations_syntax

section \<open>The operating system of the host\<close>

record host_stat =
  hs_dev :: u64
  hs_ino :: u64
  hs_mode :: u64
  hs_nlink :: u64
  hs_uid :: u64
  hs_gid :: u64
  hs_rdev :: u64
  hs_size :: u64
  hs_blksize :: u64
  hs_blocks :: u64
  hs_atim :: "u64 \<times> u64"
  hs_mtim :: "u64 \<times> u64"
  hs_ctim :: "u64 \<times> u64"

text \<open>File descriptors and results of type \<open>int\<close> are 32-bit words, \<open>ssize_t\<close> and \<open>off_t\<close> 64-bit words.\<close>

record 'h host_os =
  os_fstat :: "u32 \<Rightarrow> 'h \<Rightarrow> (u32 \<times> host_stat) \<times> 'h"
  os_gettimeofday :: "'h \<Rightarrow> (u32 \<times> u64 \<times> u64) \<times> 'h"
  os_time :: "'h \<Rightarrow> u64 \<times> 'h"
  os_write :: "u32 \<Rightarrow> u8 list \<Rightarrow> 'h \<Rightarrow> u64 \<times> 'h"
  os_read :: "u32 \<Rightarrow> u64 \<Rightarrow> 'h \<Rightarrow> (u64 \<times> u8 list) \<times> 'h"
  os_lseek :: "u32 \<Rightarrow> u64 \<Rightarrow> u32 \<Rightarrow> 'h \<Rightarrow> u64 \<times> 'h"
  os_open :: "u8 list \<Rightarrow> u32 \<Rightarrow> u32 \<Rightarrow> 'h \<Rightarrow> u32 \<times> 'h"
  os_close :: "u32 \<Rightarrow> 'h \<Rightarrow> u32 \<times> 'h"
  O_RDONLY :: u32
  O_WRONLY :: u32
  O_RDWR :: u32
  O_APPEND :: u32
  O_CREAT :: u32
  O_TRUNC :: u32

section \<open>The state of the handler\<close>

record SyscallHandler =
  mem_attached :: bool
  mem_offset :: u64
  hp :: u64
  exit_requested :: bool
  shall_break :: bool
  start_heap :: u64
  max_heap :: u64
  cores :: "u64 list"

definition SyscallHandler_init :: SyscallHandler where
  "SyscallHandler_init = \<lparr>mem_attached = False, mem_offset = 0, hp = 0, exit_requested = False, shall_break = False,
     start_heap = 0, max_heap = 0, cores = []\<rparr>"

definition sys_init :: "u64 \<Rightarrow> u64 \<Rightarrow> SyscallHandler \<Rightarrow> SyscallHandler" where
  "sys_init mem_start_address heap_pointer_address h =
     h\<lparr>mem_attached := True, mem_offset := mem_start_address, hp := heap_pointer_address,
       start_heap := heap_pointer_address, max_heap := heap_pointer_address\<rparr>"

definition register_core :: "u64 \<Rightarrow> SyscallHandler \<Rightarrow> sim_error + SyscallHandler" where
  "register_core hart_id h =
     (if hart_id \<in> set (cores h) then Inl AssertionFailed else Inr (h\<lparr>cores := hart_id # cores h\<rparr>))"

definition get_max_heap_memory_consumption :: "SyscallHandler \<Rightarrow> u64" where
  "get_max_heap_memory_consumption h = max_heap h - start_heap h"

record 'h sys_state =
  handler :: SyscallHandler
  guest :: "u8 list"
  os_state :: 'h

type_synonym ('h, 'a) sys_act = "('h sys_state, 'a) act"

definition call_os :: "('h \<Rightarrow> 'a \<times> 'h) \<Rightarrow> ('h, 'a) sys_act" where
  "call_os f s = (case f (os_state s) of (x, h) \<Rightarrow> (Ok x, s\<lparr>os_state := h\<rparr>))"

definition guest_address_to_host_pointer :: "u64 \<Rightarrow> ('h, nat) sys_act" where
  "guest_address_to_host_pointer addr =
     seqM (assertM (\<lambda>s. mem_attached (handler s))) (getsM (\<lambda>s. unat (addr - mem_offset (handler s))))"

definition read_guest :: "nat \<Rightarrow> nat \<Rightarrow> ('h, u8 list) sys_act" where
  "read_guest p n s = (case array_read p n (guest s) of
     None \<Rightarrow> (Fail OutOfRange, s)
   | Some bs \<Rightarrow> (Ok bs, s))"

definition write_guest :: "nat \<Rightarrow> u8 list \<Rightarrow> ('h, unit) sys_act" where
  "write_guest p bs s = (case array_write p bs (guest s) of
     None \<Rightarrow> (Fail OutOfRange, s)
   | Some g \<Rightarrow> (Ok (), s\<lparr>guest := g\<rparr>))"

definition put_guest_member :: "struct \<Rightarrow> nat \<Rightarrow> string \<times> u64 \<Rightarrow> ('h, unit) sys_act" where
  "put_guest_member st p = (\<lambda>(name, v) s. case put_member st p name v (guest s) of
     None \<Rightarrow> (Fail OutOfRange, s)
   | Some g \<Rightarrow> (Ok (), s\<lparr>guest := g\<rparr>))"

section \<open>Structures of the guest\<close>

definition rv32_timeval :: struct where
  "rv32_timeval = [(''tv_sec'', 4), (''tv_usec'', 4)]"

definition rv32_timespec :: "string \<Rightarrow> struct" where
  "rv32_timespec name = [(name @ ''.tv_sec'', 4), (name @ ''.tv_nsec'', 4)]"

definition rv32_stat :: struct where
  "rv32_stat = [(''st_dev'', 8), (''st_ino'', 8), (''st_mode'', 4), (''st_nlink'', 4), (''st_uid'', 4),
     (''st_gid'', 4), (''st_rdev'', 8), (''__pad1'', 8), (''st_size'', 8), (''st_blksize'', 4), (''__pad2'', 4),
     (''st_blocks'', 8)] @ rv32_timespec ''st_atim'' @ rv32_timespec ''st_mtim'' @ rv32_timespec ''st_ctim'' @
     [(''__glibc_reserved'', 8)]"

definition rv64_timeval :: struct where
  "rv64_timeval = [(''tv_sec'', 8), (''tv_usec'', 8)]"

definition rv64_timespec :: "string \<Rightarrow> struct" where
  "rv64_timespec name = [(name @ ''.tv_sec'', 8), (name @ ''.tv_nsec'', 8)]"

definition rv64_stat :: struct where
  "rv64_stat = [(''st_dev'', 8), (''st_ino'', 8), (''st_mode'', 4), (''st_nlink'', 4), (''st_uid'', 4),
     (''st_gid'', 4), (''st_rdev'', 8), (''__pad1'', 8), (''st_size'', 8), (''st_blksize'', 4), (''__pad2'', 4),
     (''st_blocks'', 8)] @ rv64_timespec ''st_atim'' @ rv64_timespec ''st_mtim'' @ rv64_timespec ''st_ctim'' @
     [(''__glibc_reserved'', 8)]"

section \<open>The system calls\<close>

text \<open>
  The functions that \<open>rv32/syscall.cpp\<close> and \<open>rv64/syscall.cpp\<close> have in common are written once; where the
  structures of the guest differ, they are a parameter.
\<close>

definition copy_timespec :: "string \<Rightarrow> u64 \<times> u64 \<Rightarrow> (string \<times> u64) list" where
  "copy_timespec dst src = [(dst @ ''.tv_sec'', fst src), (dst @ ''.tv_nsec'', snd src)]"

definition sys_fstat :: "struct \<Rightarrow> 'h host_os \<Rightarrow> u32 \<Rightarrow> u64 \<Rightarrow> ('h, u32) sys_act" where
  "sys_fstat rv_stat os fd s_addr =
     bindM (call_os (os_fstat os fd)) (\<lambda>(ans, x).
     seqM (if ans = 0 then
       bindM (guest_address_to_host_pointer s_addr) (\<lambda>p.
         seqs (map (put_guest_member rv_stat p)
           ([(''st_dev'', hs_dev x), (''st_ino'', hs_ino x), (''st_mode'', hs_mode x), (''st_nlink'', hs_nlink x),
             (''st_uid'', hs_uid x), (''st_gid'', hs_gid x), (''st_rdev'', hs_rdev x), (''st_size'', hs_size x),
             (''st_blksize'', hs_blksize x), (''st_blocks'', hs_blocks x)] @
            copy_timespec ''st_atim'' (hs_atim x) @ copy_timespec ''st_mtim'' (hs_mtim x) @
            copy_timespec ''st_ctim'' (hs_ctim x))))
       else ret ())
     (ret ans))"

definition sys_gettimeofday :: "struct \<Rightarrow> 'h host_os \<Rightarrow> u64 \<Rightarrow> u64 \<Rightarrow> ('h, u32) sys_act" where
  "sys_gettimeofday rv_timeval os tp tzp =
     seqM (assertM (\<lambda>_. tzp = 0))
     (bindM (call_os (os_gettimeofday os)) (\<lambda>(ans, sec, usec).
      bindM (guest_address_to_host_pointer tp) (\<lambda>p.
      seqM (seqs [put_guest_member rv_timeval p (''tv_sec'', sec), put_guest_member rv_timeval p (''tv_usec'', usec)])
        (ret ans))))"

text \<open>\<open>rv32_time_t\<close> has 32 bits, \<open>rv64_time_t\<close> 64; both results are cast to \<open>int\<close>.\<close>

definition sys_time :: "'h host_os \<Rightarrow> u64 \<Rightarrow> ('h, u32) sys_act" where
  "sys_time os tloc =
     bindM (call_os (os_time os)) (\<lambda>host_ans.
     bindM (liftE (lexical_cast_sint host_ans)) (\<lambda>guest_ans.
     seqM (if tloc \<noteq> 0 then bindM (guest_address_to_host_pointer tloc) (\<lambda>p. write_guest p (to_bytes 4 (ucast guest_ans)))
           else ret ())
       (ret guest_ans)))"

definition sys_time64 :: "'h host_os \<Rightarrow> u64 \<Rightarrow> ('h, u32) sys_act" where
  "sys_time64 os tloc =
     bindM (call_os (os_time os)) (\<lambda>host_ans.
     seqM (if tloc \<noteq> 0 then bindM (guest_address_to_host_pointer tloc) (\<lambda>p. write_guest p (to_bytes 8 host_ans))
           else ret ())
       (liftE (lexical_cast_sint host_ans)))"

abbreviation (input) rv_sc_RDONLY :: u32 where "rv_sc_RDONLY \<equiv> 0x0000"
abbreviation (input) rv_sc_WRONLY :: u32 where "rv_sc_WRONLY \<equiv> 0x0001"
abbreviation (input) rv_sc_RDWR :: u32 where "rv_sc_RDWR \<equiv> 0x0002"
abbreviation (input) rv_sc_APPEND :: u32 where "rv_sc_APPEND \<equiv> 0x0008"
abbreviation (input) rv_sc_CREAT :: u32 where "rv_sc_CREAT \<equiv> 0x0200"
abbreviation (input) rv_sc_TRUNC :: u32 where "rv_sc_TRUNC \<equiv> 0x0400"

definition translate_flag :: "u32 \<Rightarrow> u32 \<Rightarrow> u32 \<Rightarrow> u32" where
  "translate_flag flags bit_mask host_flag = (if flags AND bit_mask \<noteq> 0 then host_flag else 0)"

definition translateRVFlagsToHost :: "'h host_os \<Rightarrow> u32 \<Rightarrow> sim_error + u32" where
  "translateRVFlagsToHost os flags =
     (let r = translate_flag flags rv_sc_RDONLY (O_RDONLY os) OR translate_flag flags rv_sc_WRONLY (O_WRONLY os) OR
        translate_flag flags rv_sc_RDWR (O_RDWR os) OR translate_flag flags rv_sc_APPEND (O_APPEND os) OR
        translate_flag flags rv_sc_CREAT (O_CREAT os) OR translate_flag flags rv_sc_TRUNC (O_TRUNC os)
      in if r = 0 \<and> flags \<noteq> 0 then Inl RuntimeError else Inr r)"

definition sys_brk :: "u64 \<Rightarrow> ('h, u32) sys_act" where
  "sys_brk addr =
     (if addr = 0 then bindM (getsM (\<lambda>s. hp (handler s))) (\<lambda>n. liftE (lexical_cast_int n))
      else seqM (modifyM (\<lambda>s. s\<lparr>handler := (handler s)\<lparr>hp := addr,
          max_heap := if addr > max_heap (handler s) then addr else max_heap (handler s)\<rparr>\<rparr>))
        (liftE (lexical_cast_int addr)))"

definition sys_write :: "'h host_os \<Rightarrow> u32 \<Rightarrow> u64 \<Rightarrow> u64 \<Rightarrow> ('h, u32) sys_act" where
  "sys_write os fd buf count =
     bindM (guest_address_to_host_pointer buf) (\<lambda>p.
     bindM (read_guest p (unat count)) (\<lambda>bs.
     bindM (call_os (os_write os fd bs)) (\<lambda>ans.
     seqM (assertM (\<lambda>_. 0 \<le> sint ans)) (ret (ucast ans)))))"

definition sys_read :: "'h host_os \<Rightarrow> u32 \<Rightarrow> u64 \<Rightarrow> u64 \<Rightarrow> ('h, u32) sys_act" where
  "sys_read os fd buf count =
     bindM (guest_address_to_host_pointer buf) (\<lambda>p.
     bindM (call_os (os_read os fd count)) (\<lambda>(ans, bs).
     seqM (write_guest p bs) (seqM (assertM (\<lambda>_. 0 \<le> sint ans)) (ret (ucast ans)))))"

definition sys_lseek :: "'h host_os \<Rightarrow> u32 \<Rightarrow> u64 \<Rightarrow> u32 \<Rightarrow> ('h, u32) sys_act" where
  "sys_lseek os fd offset whence = bindM (call_os (os_lseek os fd offset whence)) (\<lambda>ans. ret (ucast ans))"

definition guest_string :: "nat \<Rightarrow> ('h, u8 list) sys_act" where
  "guest_string p s = (if 0 \<in> set (drop p (guest s)) then (Ok (takeWhile (\<lambda>b. b \<noteq> 0) (drop p (guest s))), s)
     else (Fail OutOfRange, s))"

definition sys_open :: "'h host_os \<Rightarrow> u64 \<Rightarrow> u32 \<Rightarrow> u32 \<Rightarrow> ('h, u32) sys_act" where
  "sys_open os pathname flags mode =
     bindM (guest_address_to_host_pointer pathname) (\<lambda>p.
     bindM (liftE (translateRVFlagsToHost os flags)) (\<lambda>fl.
     bindM (guest_string p) (\<lambda>path. call_os (os_open os path fl mode))))"

definition sys_close :: "'h host_os \<Rightarrow> u32 \<Rightarrow> ('h, u32) sys_act" where
  "sys_close os fd = (if fd = 1 \<or> fd = 0 \<or> fd = 2 then ret 0 else call_os (os_close os fd))"

abbreviation (input) SYS_exit :: u64 where "SYS_exit \<equiv> 93"
abbreviation (input) SYS_read :: u64 where "SYS_read \<equiv> 63"
abbreviation (input) SYS_write :: u64 where "SYS_write \<equiv> 64"
abbreviation (input) SYS_open :: u64 where "SYS_open \<equiv> 1024"
abbreviation (input) SYS_close :: u64 where "SYS_close \<equiv> 57"
abbreviation (input) SYS_lseek :: u64 where "SYS_lseek \<equiv> 62"
abbreviation (input) SYS_brk :: u64 where "SYS_brk \<equiv> 214"
abbreviation (input) SYS_fstat :: u64 where "SYS_fstat \<equiv> 80"
abbreviation (input) SYS_time :: u64 where "SYS_time \<equiv> 1062"
abbreviation (input) SYS_gettimeofday :: u64 where "SYS_gettimeofday \<equiv> 169"
abbreviation (input) SYS_host_error :: u64 where "SYS_host_error \<equiv> 1"
abbreviation (input) SYS_host_test_pass :: u64 where "SYS_host_test_pass \<equiv> 2"
abbreviation (input) SYS_host_test_fail :: u64 where "SYS_host_test_fail \<equiv> 3"

definition request_exit :: "('h, u32) sys_act" where
  "request_exit = seqM (modifyM (\<lambda>s. s\<lparr>handler := (handler s)\<lparr>exit_requested := True\<rparr>\<rparr>)) (ret 0)"

definition execute_syscall_n :: "'h host_os \<Rightarrow> u64 \<Rightarrow> u64 \<Rightarrow> u64 \<Rightarrow> u64 \<Rightarrow> ('h, u32) sys_act" where
  "execute_syscall_n os n a0 a1 a2 =
     (if n = SYS_fstat then sys_fstat rv32_stat os (ucast a0) a1
      else if n = SYS_gettimeofday then sys_gettimeofday rv32_timeval os a0 a1
      else if n = SYS_brk then sys_brk a0
      else if n = SYS_time then sys_time os a0
      else if n = SYS_write then sys_write os (ucast a0) a1 a2
      else if n = SYS_read then sys_read os (ucast a0) a1 a2
      else if n = SYS_lseek then sys_lseek os (ucast a0) a1 (ucast a2)
      else if n = SYS_open then sys_open os a0 (ucast a1) (ucast a2)
      else if n = SYS_close then sys_close os (ucast a0)
      else if n = SYS_exit \<or> n = SYS_host_test_pass \<or> n = SYS_host_test_fail then request_exit
      else failM RuntimeError)"

definition execute_syscall_n64 :: "'h host_os \<Rightarrow> u64 \<Rightarrow> u64 \<Rightarrow> u64 \<Rightarrow> u64 \<Rightarrow> ('h, u32) sys_act" where
  "execute_syscall_n64 os n a0 a1 a2 =
     (if n = SYS_fstat then sys_fstat rv64_stat os (ucast a0) a1
      else if n = SYS_gettimeofday then sys_gettimeofday rv64_timeval os a0 a1
      else if n = SYS_brk then sys_brk a0
      else if n = SYS_time then sys_time64 os a0
      else if n = SYS_write then sys_write os (ucast a0) a1 a2
      else if n = SYS_read then sys_read os (ucast a0) a1 a2
      else if n = SYS_lseek then sys_lseek os (ucast a0) a1 (ucast a2)
      else if n = SYS_open then sys_open os a0 (ucast a1) (ucast a2)
      else if n = SYS_close then sys_close os (ucast a0)
      else if n = SYS_exit \<or> n = SYS_host_test_pass \<or> n = SYS_host_test_fail then request_exit
      else failM RuntimeError)"

section \<open>Calls from a hart\<close>

text \<open>
  The handler works on the guest memory, the array \<open>k\<close> of the host; its own state and the state of
  the host's operating system are the devices of the world that the harts share.
\<close>

type_synonym 'h sys_devs = "SyscallHandler \<times> 'h"

definition get_sys :: "nat \<Rightarrow> 'h sys_devs world \<Rightarrow> 'h sys_state" where
  "get_sys k w = \<lparr>handler = fst (devs w), guest = host w k, os_state = snd (devs w)\<rparr>"

definition put_sys :: "nat \<Rightarrow> 'h sys_state \<Rightarrow> 'h sys_devs world \<Rightarrow> 'h sys_devs world" where
  "put_sys k t w = w\<lparr>host := (host w)(k := guest t), devs := (handler t, os_state t)\<rparr>"

abbreviation (input) reg_a0 :: u32 where "reg_a0 \<equiv> 10"
abbreviation (input) reg_a1 :: u32 where "reg_a1 \<equiv> 11"
abbreviation (input) reg_a2 :: u32 where "reg_a2 \<equiv> 12"
abbreviation (input) reg_a3 :: u32 where "reg_a3 \<equiv> 13"

definition on_sys :: "nat \<Rightarrow> ('h, 'a) sys_act \<Rightarrow> ('h sys_devs ISS, 'a) act" where
  "on_sys k = zoomM (\<lambda>s. get_sys k (world s)) (\<lambda>t s. s\<lparr>world := put_sys k t (world s)\<rparr>)"

definition on_sys64 :: "nat \<Rightarrow> ('h, 'a) sys_act \<Rightarrow> ('h sys_devs ISS64, 'a) act" where
  "on_sys64 k = zoomM (\<lambda>s. get_sys k (world64 s)) (\<lambda>t s. s\<lparr>world64 := put_sys k t (world64 s)\<rparr>)"

definition execute_syscall :: "'h host_os \<Rightarrow> nat \<Rightarrow> ('h sys_devs ISS, unit) act" where
  "execute_syscall os k =
     bindM (getsM get_syscall_register_index) (\<lambda>i.
     bindM (read_register i) (\<lambda>n.
     bindM (read_register reg_a3) (\<lambda>a3.
     bindM (read_register reg_a2) (\<lambda>a2.
     bindM (read_register reg_a1) (\<lambda>a1.
     bindM (read_register reg_a0) (\<lambda>a0.
     bindM (on_sys k (execute_syscall_n os n a0 a1 a2)) (\<lambda>ans.
     seqM (write_register reg_a0 (scast ans))
       (whenM (\<lambda>s. exit_requested (fst (devs (world s)))) (modifyM sys_exit)))))))))"

definition execute_syscall64 :: "'h host_os \<Rightarrow> nat \<Rightarrow> ('h sys_devs ISS64, unit) act" where
  "execute_syscall64 os k =
     bindM (read_register64 reg_a7) (\<lambda>n.
     bindM (read_register64 reg_a3) (\<lambda>a3.
     bindM (read_register64 reg_a2) (\<lambda>a2.
     bindM (read_register64 reg_a1) (\<lambda>a1.
     bindM (read_register64 reg_a0) (\<lambda>a0.
     bindM (on_sys64 k (execute_syscall_n64 os n a0 a1 a2)) (\<lambda>ans.
     seqM (write_register64 reg_a0 (scast ans))
       (whenM (\<lambda>s. exit_requested (fst (devs (world64 s)))) (modifyM sys_exit64))))))))"

text \<open>
  \<open>SyscallHandler::transport\<close>: a write of the number of a hart to the handler's register calls it for
  that hart. (\<open>call\<close> runs the system call of a hart in the state of the caller.)
\<close>

definition sys_transport ::
    "('s \<Rightarrow> SyscallHandler) \<Rightarrow> (u64 \<Rightarrow> ('s, unit) act) \<Rightarrow> 's tlm_target" where
  "sys_transport h call tr delay =
     seqM (seqs [assertM (\<lambda>_. address tr mod 4 = 0), assertM (\<lambda>_. length (data_ptr tr) = 4),
         assertM (\<lambda>s. of_bytes (data_ptr tr) \<in> set (cores (h s))), call (of_bytes (data_ptr tr))])
       (ret (tr, delay))"

end
