(* ===== verification/Syscall_Props.thy ===== *)
theory Syscall_Props
  imports Syscall Iss_Reach Iss64_Props
begin

text \<open>
  Properties of the system call emulation: it satisfies what the harts require of it, it moves exactly
  the bytes of a read into the guest memory, and a call that fails ends an RV32 simulation.
\<close>

unbundle bit_operations_syntax

section \<open>The harts keep their invariants\<close>

lemma read_register_keeps: "preserves I (read_register i)" "preserves J (read_register64 i)"
  by (simp_all add: preserves_def read_register_def read_register64_def split: sum.split)

lemma preserves_liftE [preserves_intros]: "preserves I (liftE m)"
  by (cases m) (simp_all add: preserves_def)

lemma write_register_wf: "preserves hart_wf (write_register i v)"
  by (auto simp: preserves_def write_register_def lexical_cast32_def RegFile_write_def hart_wf_def
      bindM_def split: sum.split)

lemma write_register_inv64: "preserves hart_inv64 (write_register64 i v)"
  by (auto simp: preserves_def write_register64_def RegFile_write64_def hart_inv64_def
      split: sum.split)

lemma on_sys_keeps: "preserves hart_wf (on_sys k m)" "preserves hart_inv64 (on_sys64 k m')"
  by (auto simp: preserves_def on_sys_def on_sys64_def zoomM_def hart_wf_def hart_inv64_def split: prod.split)

lemma execute_syscall_wf: "preserves hart_wf (execute_syscall os k)"
  unfolding execute_syscall_def
  by (intro preserves_intros read_register_keeps write_register_wf on_sys_keeps)
    (simp_all add: sys_exit_def hart_wf_def)

lemma execute_syscall_inv64: "preserves hart_inv64 (execute_syscall64 os k)"
  unfolding execute_syscall64_def
  by (intro preserves_intros read_register_keeps write_register_inv64 on_sys_keeps)
    (simp_all add: sys_exit64_def hart_inv64_def)


section \<open>Results\<close>

lemma read_register_eq: "i \<le> 31 \<Longrightarrow> read_register i s = (Ok (ucast (reg i s)), s)"
  by (simp add: read_register_def RegFile_read_def reg_def)

lemma syscall_register_le: "get_syscall_register_index s \<le> 31"
  by (simp add: get_syscall_register_index_def)

text \<open>
  C21. A system call that returns a negative number, as \<open>open\<close>, \<open>close\<close>, \<open>lseek\<close> and \<open>fstat\<close> do when they fail, ends
  the simulation of an RV32 hart with an exception: the result is sign-extended to 64 bits and
  then cast to 32 bits with a check, instead of reaching register \<open>a0\<close>.
\<close>

theorem rv32_failed_syscall_aborts:
  assumes "on_sys k (execute_syscall_n os (ucast (reg (get_syscall_register_index s) s))
      (ucast (reg reg_a0 s)) (ucast (reg reg_a1 s)) (ucast (reg reg_a2 s))) s = (Ok ans, s1)"
    and "sint ans < 0"
  shows "execute_syscall os k s = (Fail BadLexicalCast, s1)"
proof -
  have neg: "sint (scast ans :: u64) < 0" using assms(2) by (simp add: sint_scast_up)
  have "\<not> (scast ans :: u64) < 2 ^ 32"
  proof
    assume "(scast ans :: u64) < 2 ^ 32"
    then have "uint (scast ans :: u64) < 2 ^ 63" by (simp add: word_less_def)
    moreover have "- (2 ^ 63) \<le> uint (scast ans :: u64)" by (rule order_trans [OF _ uint_nonnegative]) simp
    ultimately have "sint (scast ans :: u64) = uint (scast ans :: u64)"
      unfolding sint_uint by (simp add: signed_take_bit_int_eq_self)
    with neg show False by simp
  qed
  then show ?thesis
    using assms(1) syscall_register_le [of s]
    by (simp add: execute_syscall_def read_register_eq bindM_apply seqM_apply write_register_def lexical_cast32_def)
qed

text \<open>A host whose calls fail, and whose files hold the byte \<open>7\<close>.\<close>

definition os_example :: "unit host_os" where
  "os_example = \<lparr>os_fstat = (\<lambda>_ h. ((- 1, undefined), h)), os_gettimeofday = (\<lambda>h. ((0, 0, 0), h)),
     os_time = (\<lambda>h. (0, h)), os_write = (\<lambda>_ bs h. (of_nat (length bs), h)),
     os_read = (\<lambda>_ n h. ((1, [7]), h)), os_lseek = (\<lambda>_ _ _ h. (- 1, h)), os_open = (\<lambda>_ _ _ h. (- 1, h)),
     os_close = (\<lambda>_ h. (- 1, h)), O_RDONLY = 0, O_WRONLY = 1, O_RDWR = 2, O_APPEND = 1024, O_CREAT = 64, O_TRUNC = 512\<rparr>"

definition hart_sys :: "unit sys_devs ISS" where
  "hart_sys = set_reg reg_a7 57 (set_reg reg_a0 5 (init 0x80000000 0x80000040 (ISS_init 0 False CombinedMemory [dmi_example]
     None \<lparr>bus_lock = BusLock_init, host = host_example [], devs = (sys_init 0x80000000 0x80000020 SyscallHandler_init, ())\<rparr>)))"

lemma hart_sys_regs:
  "get_syscall_register_index hart_sys = reg_a7" "reg reg_a7 hart_sys = 57" "reg reg_a0 hart_sys = 5"
proof -
  have "misa (csrs hart_sys) = misa_init"
    by (simp add: hart_sys_def init_def ISS_init_def set_reg_def csr_table_init_def)
  moreover have "\<not> has_E_base_isa misa_init"
    by (simp add: misa_init_value has_E_base_isa_def bf_get_def take_bit_eq_mod)
  ultimately show "get_syscall_register_index hart_sys = reg_a7" by (simp add: get_syscall_register_index_def)
qed (simp_all add: hart_sys_def init_def ISS_init_def set_reg_def reg_def RegFile_init_def)

theorem rv32_failed_syscall_aborts_witness:
  "\<exists>s1. execute_syscall os_example 0 hart_sys = (Fail BadLexicalCast, s1)"
proof -
  have "\<exists>s1. on_sys 0 (execute_syscall_n os_example 57 5 a1 a2) hart_sys = (Ok (- 1), s1)" for a1 a2
    by (simp add: execute_syscall_n_def sys_close_def call_os_def os_example_def on_sys_def zoomM_def)
  then obtain s1 where "on_sys 0 (execute_syscall_n os_example (ucast (reg (get_syscall_register_index hart_sys) hart_sys))
      (ucast (reg reg_a0 hart_sys)) (ucast (reg reg_a1 hart_sys)) (ucast (reg reg_a2 hart_sys))) hart_sys = (Ok (- 1), s1)"
    by (auto simp: hart_sys_regs)
  from rv32_failed_syscall_aborts [OF this] show ?thesis by auto
qed

section \<open>Memory and heap\<close>

lemma call_os_apply:
  "call_os f s = (Ok (fst (f (os_state s))), s\<lparr>os_state := snd (f (os_state s))\<rparr>)"
  by (simp add: call_os_def split_beta)

text \<open>
  C20. \<open>read\<close> puts the bytes it gets from the host at the address of the guest's buffer and changes no
  other byte of the guest memory; \<open>write\<close> hands the host exactly the bytes of the buffer. So what
  was read from one file can be written to another unchanged.
\<close>

theorem syscall_read_write:
  assumes "mem_attached (handler s)" and "unat (buf - mem_offset (handler s)) + length bs \<le> length (guest s)"
    and "os_read os fd count (os_state s) = ((of_nat (length bs), bs), h)" and "length bs < 2 ^ 31"
    and "0 \<le> sint (fst (os_write os fd' bs h))"
  shows "\<exists>s1 s2. sys_read os fd buf count s = (Ok (of_nat (length bs)), s1) \<and>
    sys_write os fd' buf (of_nat (length bs)) s1 = (Ok (ucast (fst (os_write os fd' bs h))), s2) \<and>
    guest s2 = guest s1 \<and> os_state s2 = snd (os_write os fd' bs h) \<and>
    (\<forall>i < length (guest s). i < unat (buf - mem_offset (handler s)) \<or>
        unat (buf - mem_offset (handler s)) + length bs \<le> i \<or>
        guest s1 ! i = bs ! (i - unat (buf - mem_offset (handler s)))) \<and>
    (\<forall>i < length (guest s). unat (buf - mem_offset (handler s)) \<le> i \<and> i < unat (buf - mem_offset (handler s)) + length bs \<or>
        guest s1 ! i = guest s ! i)"
proof -
  let ?p = "unat (buf - mem_offset (handler s))"
  obtain g where g: "array_write ?p bs (guest s) = Some g" using assms(2) by (simp add: array_write_def)
  let ?s1 = "s\<lparr>os_state := h, guest := g\<rparr>"
  let ?s2 = "?s1\<lparr>os_state := snd (os_write os fd' bs h)\<rparr>"
  have n: "unat (of_nat (length bs) :: u64) = length bs" using assms(4) by (simp add: unat_of_nat)
  then have "0 \<le> sint (of_nat (length bs) :: u64)" using assms(4)
    by (simp add: sint_uint signed_take_bit_int_eq_self uint_nat)
  moreover have "ucast (of_nat (length bs) :: u64) = (of_nat (length bs) :: u32)"
    by (rule bit_word_eqI) (simp add: bit_simps)
  ultimately have "sys_read os fd buf count s = (Ok (of_nat (length bs)), ?s1)"
    using assms(1,3) g
    by (simp add: sys_read_def guest_address_to_host_pointer_def seqM_assert_apply bindM_apply call_os_apply
        write_guest_def seqM_apply)
  moreover have "array_read ?p (length bs) g = Some bs" by (rule host_array.rd_wr_same [OF g])
  then have "sys_write os fd' buf (of_nat (length bs)) ?s1 = (Ok (ucast (fst (os_write os fd' bs h))), ?s2)"
    using assms(1,5) n
    by (simp add: sys_write_def guest_address_to_host_pointer_def seqM_assert_apply bindM_apply call_os_apply
        read_guest_def)
  ultimately show ?thesis
    using array_write_nth [OF g] by (intro exI [of _ ?s1] exI [of _ ?s2]) auto
qed

theorem syscall_read_write_witness:
  "\<exists>s1 s2. sys_read os_example 0 0x80000003 1 (get_sys 0 (world hart_sys)) = (Ok 1, s1) \<and> guest s1 ! 3 = 7 \<and>
     sys_write os_example 1 0x80000003 1 s1 = (Ok 1, s2) \<and> guest s2 = guest s1"
proof -
  let ?s = "get_sys 0 (world hart_sys)"
  have s: "mem_attached (handler ?s)" "mem_offset (handler ?s) = 0x80000000" "length (guest ?s) = 64"
    by (simp_all add: get_sys_def hart_sys_def sys_init_def init_def ISS_init_def set_reg_def host_example_def)
  have r: "os_read os_example 0 1 (os_state ?s) = ((of_nat (length [7]), [7]), ())" "fst (os_write os_example 1 [7] ()) = 1"
    by (simp_all add: os_example_def)
  from syscall_read_write [of ?s "0x80000003" "[7]" os_example 0 1 "()" 1] s r obtain s1 s2 where
    w: "sys_read os_example 0 0x80000003 1 ?s = (Ok 1, s1)" "sys_write os_example 1 0x80000003 1 s1 = (Ok 1, s2)"
      "guest s2 = guest s1" "\<forall>i < 64. i < 3 \<or> 4 \<le> i \<or> guest s1 ! i = [7] ! (i - 3)"
    by auto
  from w(4) [rule_format, of 3] have "guest s1 ! 3 = 7" by simp
  with w(1-3) show ?thesis by blast
qed

definition brks :: "u64 list \<Rightarrow> ('h, unit) sys_act" where
  "brks as = seqs (map (\<lambda>a. bindM (sys_brk a) (\<lambda>_. ret ())) as)"

lemma sys_brk_eq:
  "a \<noteq> 0 \<Longrightarrow> sys_brk a s = (if a \<le> 0x7FFFFFFF then Ok (ucast a) else Fail BadLexicalCast,
     s\<lparr>handler := (handler s)\<lparr>hp := a, max_heap := max (max_heap (handler s)) a\<rparr>\<rparr>)"
  by (auto simp: sys_brk_def lexical_cast_int_def max_def)

lemma brks_eq:
  assumes "0 \<notin> set as" and "\<forall>a \<in> set as. a \<le> 0x7FFFFFFF"
  shows "brks as s = (Ok (), s\<lparr>handler := (handler s)\<lparr>hp := last (hp (handler s) # as),
    max_heap := fold max as (max_heap (handler s))\<rparr>\<rparr>)"
  using assms
proof (induction as arbitrary: s)
  case (Cons a as)
  then show ?case by (simp add: brks_def sys_brk_eq seqM_apply bindM_apply max.commute)
qed (simp add: brks_def)

text \<open>
  C22. The heap of the guest: after any sequence of successful \<open>brk\<close> calls from \<open>init\<close>, \<open>brk(0)\<close> returns the
  last address that was set, and the recorded consumption reaches from the first to the highest
  address. \<open>brk\<close> succeeds exactly for addresses below two gigabytes; above, its result does not
  fit into \<open>int\<close> and the cast throws.
\<close>

theorem syscall_brk_heap:
  assumes "handler s = sys_init m h0 SyscallHandler_init" and "0 \<notin> set as" and "\<forall>a \<in> set as. a \<le> 0x7FFFFFFF"
  shows "\<exists>s'. brks as s = (Ok (), s') \<and>
    fst (sys_brk 0 s') = (if last (h0 # as) \<le> 0x7FFFFFFF then Ok (ucast (last (h0 # as))) else Fail BadLexicalCast) \<and>
    h0 + get_max_heap_memory_consumption (handler s') = Max (set (h0 # as)) \<and>
    (\<forall>a. a > 0x7FFFFFFF \<longrightarrow> fst (sys_brk a s') = Fail BadLexicalCast)"
proof -
  have "fold max as h0 = Max (set (h0 # as))" by (rule Max.set_eq_fold [symmetric])
  then show ?thesis
    using brks_eq [OF assms(2,3), of s]
    by (auto simp: assms(1) sys_init_def get_max_heap_memory_consumption_def sys_brk_eq)
      (auto simp: sys_brk_def lexical_cast_int_def)
qed

theorem syscall_brk_heap_witness:
  "\<exists>s'. brks [0x2000, 0x1800] (get_sys 0 (world (hart_sys))\<lparr>handler := sys_init 0 0x1000 SyscallHandler_init\<rparr>) = (Ok (), s') \<and>
     fst (sys_brk 0 s') = Ok 0x1800 \<and> 0x1000 + get_max_heap_memory_consumption (handler s') = 0x2000"
  using syscall_brk_heap [of "get_sys 0 (world (hart_sys))\<lparr>handler := sys_init 0 0x1000 SyscallHandler_init\<rparr>" 0 "0x1000"
      "[0x2000, 0x1800]"] by auto

end
