(* ===== verification/Platforms.thy ===== *)
theory Platforms
  imports Elf_Props Syscall Clint Iss_Trap MemIf
begin

text \<open>
  The platforms, \<open>platform/*/*main.cpp\<close>: their options, the address map of the bus and what is connected to
  it, and the state in which the simulation starts. The parser of the command line is code of
  another library; its result, the options with the values of the command line stored in them, is a
  parameter. Members of the option classes that no option changes (the addresses of the devices)
  are constants of the address maps.
\<close>

unbundle bit_operations_syntax

section \<open>Options\<close>

record Options =
  input_program :: string
  intercept_syscalls :: bool
  use_debug_runner :: bool
  debug_port :: u32
  trace_mode :: bool
  tlm_global_quantum :: u32
  use_instr_dmi :: bool
  use_data_dmi :: bool

definition Options_init :: Options where
  "Options_init = \<lparr>input_program = [], intercept_syscalls = False, use_debug_runner = False, debug_port = 5005,
     trace_mode = False, tlm_global_quantum = 10, use_instr_dmi = False, use_data_dmi = False\<rparr>"

text \<open>
  What the parser of the command line gives: an error, a request for help, or the options it stored
  and whether \<open>use-dmi\<close> was among them.
\<close>

datatype 'o command_line = CommandLineError | HelpRequested | Parsed 'o bool

definition Options_parse :: "'a Options_scheme command_line \<Rightarrow> sim_error + 'a Options_scheme" where
  "Options_parse cl = (case cl of
     CommandLineError \<Rightarrow> Inl ProgramExit
   | HelpRequested \<Rightarrow> Inl ProgramExit
   | Parsed opt use_dmi \<Rightarrow> Inr (if use_dmi then opt\<lparr>use_data_dmi := True, use_instr_dmi := True\<rparr> else opt))"

subsection \<open>Numbers on the command line\<close>

text \<open>
  \<open>stoul(s, 0, base)\<close>: white space, a sign, for base 16 a prefix, then digits. Other characters may
  follow. A negative number is negated as an \<open>unsigned long\<close>.
\<close>

definition is_space :: "char \<Rightarrow> bool" where
  "is_space c \<longleftrightarrow> c \<in> {CHR '' '', CHR 0x09, CHR 0x0A, CHR 0x0B, CHR 0x0C, CHR 0x0D}"

definition number_of_digits :: "nat \<Rightarrow> string \<Rightarrow> nat" where
  "number_of_digits base ds = foldl (\<lambda>n c. n * base + digit_value c) 0 ds"

definition skip_sign :: "string \<Rightarrow> bool \<times> string" where
  "skip_sign s = (case s of
     [] \<Rightarrow> (False, [])
   | c # cs \<Rightarrow> if c = CHR ''-'' then (True, cs) else if c = CHR ''+'' then (False, cs) else (False, s))"

definition skip_prefix :: "nat \<Rightarrow> string \<Rightarrow> string" where
  "skip_prefix base s = (case s of
     a # b # c # cs \<Rightarrow>
       if base = 16 \<and> a = CHR ''0'' \<and> (b = CHR ''x'' \<or> b = CHR ''X'') \<and> is_digit 16 c then c # cs else s
   | _ \<Rightarrow> s)"

definition stoul :: "nat \<Rightarrow> string \<Rightarrow> sim_error + u64" where
  "stoul base s = (case skip_sign (dropWhile is_space s) of (neg, s') \<Rightarrow>
     let ds = takeWhile (is_digit base) (skip_prefix base s'); v = number_of_digits base ds in
     if ds = [] then Inl InvalidArgument
     else if v \<ge> 2 ^ 64 then Inl OutOfRange
     else Inr (if neg then - of_nat v else of_nat v))"

definition parse_ulong_option :: "string \<Rightarrow> sim_error + u64" where
  "parse_ulong_option s =
     (let is_hex = (case s of a # b # cs \<Rightarrow> a = CHR ''0'' \<and> (b = CHR ''x'' \<or> b = CHR ''X'') | _ \<Rightarrow> False) in
      case (if is_hex then stoul 16 s else stoul 10 s) of
        Inl e \<Rightarrow> Inl RuntimeError
      | Inr v \<Rightarrow> Inr v)"

record 't OptionValue =
  available :: bool
  option_value :: 't
  option_text :: string

definition finalize :: "(string \<Rightarrow> sim_error + 't) \<Rightarrow> 't OptionValue \<Rightarrow> sim_error + 't OptionValue" where
  "finalize parser v =
     (if option_text v \<noteq> [] then bindE (parser (option_text v)) (\<lambda>x. Inr (v\<lparr>option_value := x, available := True\<rparr>))
      else Inr v)"

subsection \<open>Options of the platforms\<close>

text \<open>All platforms but HiFive have a memory whose place and size are options.\<close>

record MemoryOptions = Options +
  opt_mem_size :: u32
  opt_mem_start :: u32
  opt_mem_end :: u32

definition MemoryOptions_init :: "u32 \<Rightarrow> u32 \<Rightarrow> MemoryOptions" where
  "MemoryOptions_init start_addr msize =
     Options.extend Options_init (MemoryOptions.fields msize start_addr (start_addr + msize - 1))"

definition set_mem_end :: "'a MemoryOptions_scheme \<Rightarrow> 'a MemoryOptions_scheme" where
  "set_mem_end opt = opt\<lparr>opt_mem_end := opt_mem_start opt + opt_mem_size opt - 1\<rparr>"

record TinyOptions = MemoryOptions +
  quiet :: bool
  tiny_E_base_isa :: bool

definition TinyOptions_init :: TinyOptions where
  "TinyOptions_init = MemoryOptions.extend (MemoryOptions_init 0 (1024 * 1024 * 32)) (TinyOptions.fields False False)"

definition tiny_parse :: "TinyOptions command_line \<Rightarrow> sim_error + TinyOptions" where
  "tiny_parse cl = bindE (Options_parse cl) (\<lambda>opt. Inr (set_mem_end opt))"

record TestOptions = MemoryOptions +
  test_signature_file :: string
  isa :: string
  max_test_instrs :: u32
  test_E_base_isa :: bool

definition TestOptions_init :: TestOptions where
  "TestOptions_init = MemoryOptions.extend (MemoryOptions_init 0 (1024 * 1024 * 32))
     (TestOptions.fields [] ''imacfnus'' 1000000 False)"

definition test_parse :: "TestOptions command_line \<Rightarrow> sim_error + TestOptions" where
  "test_parse cl = bindE (Options_parse cl) (\<lambda>opt. Inr (set_mem_end opt))"

record LinuxOptions = MemoryOptions +
  linux_entry_point :: "u64 OptionValue"
  dtb_file :: string
  tun_device :: string

definition LinuxOptions_init :: LinuxOptions where
  "LinuxOptions_init = MemoryOptions.extend (MemoryOptions_init 0x80000000 (1024 * 1024 * 2048))
     (LinuxOptions.fields \<lparr>available = False, option_value = 0, option_text = []\<rparr> [] ''tun0'')"

definition Linux32Options_init :: LinuxOptions where
  "Linux32Options_init = MemoryOptions.extend (MemoryOptions_init 0x80000000 (1024 * 1024 * 1024))
     (LinuxOptions.fields \<lparr>available = False, option_value = 0, option_text = []\<rparr> [] ''tun0'')"

definition linux_parse :: "LinuxOptions command_line \<Rightarrow> sim_error + LinuxOptions" where
  "linux_parse cl =
     bindE (Options_parse cl) (\<lambda>opt.
     bindE (finalize parse_ulong_option (linux_entry_point opt)) (\<lambda>e.
       Inr (set_mem_end (opt\<lparr>linux_entry_point := e\<rparr>))))"

record BasicOptions = MemoryOptions +
  mram_image :: string
  flash_device :: string
  network_device :: string
  basic_signature_file :: string
  mram_size :: u32
  mram_end_addr :: u32
  basic_E_base_isa :: bool
  basic_entry_point :: "u64 OptionValue"

definition BasicOptions_init :: BasicOptions where
  "BasicOptions_init = MemoryOptions.extend (MemoryOptions_init 0 (1024 * 1024 * 32))
     (BasicOptions.fields [] [] [] [] 0x10000000 (0x60000000 + 0x10000000 - 1) False
       \<lparr>available = False, option_value = 0, option_text = []\<rparr>)"

text \<open>The size of \<open>Framebuffer\<close>: two bytes and padding, the parameters and three frames of 800 x 600 pixels.\<close>

definition Display_addressRange :: u32 where
  "Display_addressRange = 2 + 2 + 24 + 3 * (600 * 800 * 2)"

definition Flash_ADDR_SPACE :: u32 where
  "Flash_ADDR_SPACE = 8 + 8 + 512"

definition basic_parse :: "BasicOptions command_line \<Rightarrow> sim_error + BasicOptions" where
  "basic_parse cl =
     bindE (Options_parse cl) (\<lambda>opt.
     bindE (finalize parse_ulong_option (basic_entry_point opt)) (\<lambda>e.
     let opt1 = set_mem_end (opt\<lparr>basic_entry_point := e\<rparr>) in
     if \<not> (opt_mem_end opt1 < 0x02000000 \<or> opt_mem_start opt1 > 0x72000000 + Display_addressRange)
     then Inl AssertionFailed
     else let opt2 = opt1\<lparr>mram_end_addr := 0x60000000 + mram_size opt1 - 1\<rparr> in
     if \<not> mram_end_addr opt2 < 0x70000000 then Inl AssertionFailed
     else Inr opt2))"

record HifiveOptions = Options +
  enable_can :: bool
  hifive_tun_device :: string

definition HifiveOptions_init :: HifiveOptions where
  "HifiveOptions_init = Options.extend Options_init (HifiveOptions.fields False ''tun0'')"

definition hifive_parse :: "HifiveOptions command_line \<Rightarrow> sim_error + HifiveOptions" where
  "hifive_parse = Options_parse"

lemmas options_init_simps = Options_init_def MemoryOptions_init_def TinyOptions_init_def TestOptions_init_def
  LinuxOptions_init_def Linux32Options_init_def BasicOptions_init_def HifiveOptions_init_def
  Options.defs MemoryOptions.defs TinyOptions.defs TestOptions.defs LinuxOptions.defs BasicOptions.defs HifiveOptions.defs

section \<open>Address maps\<close>

text \<open>What the initiator sockets of the bus are bound to, in the order of the ports.\<close>

datatype device = Memory | Clint | Sys | Plic | Term | Sensor | Dma | Sensor2 | Mram | Flash | Ethernet | Display
  | Unreal | Dram | Aon | Prci | Spi0 | Uart0 | MaskROM | Gpio0 | Spi1 | Spi2 | SlipNet | DtbRom | BasicTimerDev

type_synonym bus_map = "(device \<times> PortMapping) list"

definition port :: "u32 \<Rightarrow> u32 \<Rightarrow> PortMapping" where
  "port start_addr end_addr = \<lparr>port_start = ucast start_addr, port_end = ucast end_addr\<rparr>"

definition tiny_ports :: "'a MemoryOptions_scheme \<Rightarrow> bus_map" where
  "tiny_ports opt =
     [(Memory, port (opt_mem_start opt) (opt_mem_end opt)),
      (Clint, port 0x02000000 0x0200ffff),
      (Sys, port 0x02010000 0x020103ff)]"

definition basic_ports :: "BasicOptions \<Rightarrow> bus_map" where
  "basic_ports opt =
     [(Memory, port (opt_mem_start opt) (opt_mem_end opt)),
      (Clint, port 0x02000000 0x0200ffff),
      (Plic, port 0x40000000 0x41000000),
      (Term, port 0x20000000 (0x20000000 + 16)),
      (Sensor, port 0x50000000 0x50001000),
      (Dma, port 0x70000000 0x70001000),
      (Sensor2, port 0x50002000 0x50004000),
      (Mram, port 0x60000000 (mram_end_addr opt)),
      (Flash, port 0x71000000 (0x71000000 + Flash_ADDR_SPACE)),
      (Ethernet, port 0x30000000 (0x30000000 + 1500)),
      (Display, port 0x72000000 (0x72000000 + Display_addressRange)),
      (Sys, port 0x02010000 0x020103ff),
      (Unreal, port 0x73000000 (0x73000000 + 1500))]"

abbreviation (input) hifive_flash_size :: u32 where "hifive_flash_size \<equiv> 1024 * 1024 * 512"
abbreviation (input) hifive_flash_start :: u32 where "hifive_flash_start \<equiv> 0x20000000"
abbreviation (input) hifive_dram_size :: u32 where "hifive_dram_size \<equiv> 1024 * 16"
abbreviation (input) hifive_dram_start :: u32 where "hifive_dram_start \<equiv> 0x80000000"
abbreviation (input) hifive_dram_end :: u32 where "hifive_dram_end \<equiv> hifive_dram_start + hifive_dram_size - 1"

definition hifive_ports :: bus_map where
  "hifive_ports =
     [(Flash, port hifive_flash_start (hifive_flash_start + hifive_flash_size - 1)),
      (Dram, port hifive_dram_start hifive_dram_end),
      (Plic, port 0x0C000000 0x0FFFFFFF),
      (Clint, port 0x02000000 0x0200FFFF),
      (Aon, port 0x10000000 0x10007FFF),
      (Prci, port 0x10008000 0x1000FFFF),
      (Spi0, port 0x10014000 0x10014FFF),
      (Uart0, port 0x10013000 0x10013FFF),
      (MaskROM, port 0x00001000 0x00001FFF),
      (Gpio0, port 0x10012000 0x10012FFF),
      (Sys, port 0x02010000 0x020103ff),
      (Spi1, port 0x10024000 0x10024FFF),
      (Spi2, port 0x10034000 0x10034FFF),
      (SlipNet, port 0x10023000 0x10023FFF)]"

abbreviation (input) dtb_rom_start :: u32 where "dtb_rom_start \<equiv> 0x00001000"
abbreviation (input) dtb_rom_size :: u32 where "dtb_rom_size \<equiv> 0x2000"

definition linux_ports :: "LinuxOptions \<Rightarrow> bus_map" where
  "linux_ports opt =
     [(Memory, port (opt_mem_start opt) (opt_mem_end opt)),
      (Clint, port 0x02000000 0x0200ffff),
      (Sys, port 0x02010000 0x020103ff),
      (DtbRom, port dtb_rom_start (dtb_rom_start + dtb_rom_size - 1)),
      (Uart0, port 0x10010000 0x10010fff),
      (SlipNet, port 0x10011000 0x10011fff),
      (Plic, port 0x0C000000 0x10000000),
      (Prci, port 0x10000000 0x1000FFFF)]"

text \<open>The assertion of the constructor of \<open>PortMapping\<close>.\<close>

definition map_ports :: "bus_map \<Rightarrow> sim_error + bus_map" where
  "map_ports m = (if list_all (\<lambda>(d, p). port_ok p) m then Inr m else Inl AssertionFailed)"

text \<open>The device that answers at an address.\<close>

definition device_at :: "bus_map \<Rightarrow> u64 \<Rightarrow> device option" where
  "device_at m a = (let id = bus_decode (map snd m) a in if id < 0 then None else Some (fst (m ! nat id)))"

section \<open>Construction\<close>

definition rv64_align_address :: "u64 \<Rightarrow> u64" where
  "rv64_align_address addr = addr - addr mod 8"

definition rv32_align_address :: "u32 \<Rightarrow> u32" where
  "rv32_align_address addr = addr - addr mod 4"

text \<open>
  The result of \<open>sc_main\<close> up to \<open>sc_start\<close>: the harts, the address map, the interrupt sources with their
  numbers at the PLIC, the system call handler with the array of its guest memory and whether the
  harts call it on \<open>ECALL\<close>, and whether the harts are run by the debugger.
\<close>

record 'c board =
  board_harts :: "'c list"
  board_ports :: bus_map
  board_irqs :: "(device \<times> u32) list"
  board_sys :: SyscallHandler
  board_guest :: nat
  board_intercepts :: bool
  board_debug :: bool

text \<open>Running the functions of \<open>SimpleMemory\<close>, which raise no traps and do not wait.\<close>

definition run_memory :: "(SimpleMemory, unit) act \<Rightarrow> SimpleMemory \<Rightarrow> sim_error + SimpleMemory" where
  "run_memory f m = (case f m of
     (Ok _, m') \<Rightarrow> Inr m'
   | (Fail e, _) \<Rightarrow> Inl e
   | _ \<Rightarrow> Inl RuntimeError)"

definition load_binary_file :: "u8 list \<Rightarrow> u32 \<Rightarrow> (SimpleMemory, unit) act" where
  "load_binary_file f addr = write_data addr f"

definition boot_memory ::
    "elf_types \<Rightarrow> u8 list \<Rightarrow> 'a::len word \<Rightarrow> bool \<Rightarrow> SimpleMemory \<Rightarrow> sim_error + SimpleMemory" where
  "boot_memory T elf offset use_vaddr m =
     run_memory (load_executable_image T elf memory_target (ucast (mem_size m) :: 'a word) offset use_vaddr) m"

definition map_dmi :: "nat \<Rightarrow> u32 \<Rightarrow> SimpleMemory \<Rightarrow> sim_error + MemoryDMI" where
  "map_dmi k start_addr m = (case create_start_size_mapping k (ucast start_addr) (ucast (mem_size m)) of
     None \<Rightarrow> Inl AssertionFailed
   | Some d \<Rightarrow> Inr d)"

fun register_cores :: "u64 list \<Rightarrow> SyscallHandler \<Rightarrow> sim_error + SyscallHandler" where
  "register_cores [] h = Inr h"
| "register_cores (i # is) h = bindE (register_core i h) (register_cores is)"

text \<open>The arrays of the memories, numbered as the platform creates them.\<close>

definition start_world :: "SimpleMemory list \<Rightarrow> 'd \<Rightarrow> 'd world" where
  "start_world ms d =
     \<lparr>bus_lock = BusLock_init, host = (\<lambda>i. if i < length ms then mem_data (ms ! i) else []), devs = d\<rparr>"

definition instr_if :: "'a Options_scheme \<Rightarrow> MemoryDMI \<Rightarrow> instr_memory" where
  "instr_if opt dmi = (if use_instr_dmi opt then InstrMemoryProxy dmi else CombinedMemory)"

definition data_dmi :: "'a Options_scheme \<Rightarrow> MemoryDMI \<Rightarrow> MemoryDMI list" where
  "data_dmi opt dmi = (if use_data_dmi opt then [dmi] else [])"

subsection \<open>One RV32 hart\<close>

text \<open>\<open>tiny32\<close>: the harts of the small platforms have no PLIC.\<close>

definition tiny32_main :: "TinyOptions \<Rightarrow> u8 list \<Rightarrow> 'd \<Rightarrow> sim_error + 'd ISS board" where
  "tiny32_main opt elf d =
     (let m = SimpleMemory_init (opt_mem_size opt) False in
      bindE (map_dmi 0 (opt_mem_start opt) m) (\<lambda>dmi.
      bindE (boot_memory Elf32Types elf (opt_mem_start opt) True m) (\<lambda>mem.
      bindE (get_entrypoint Elf32Types elf) (\<lambda>entry.
      bindE (get_heap_addr Elf32Types elf) (\<lambda>heap :: u32.
      bindE (register_cores [0] (sys_init (ucast (opt_mem_start opt)) (ucast heap) SyscallHandler_init)) (\<lambda>sysh.
      bindE (map_ports (tiny_ports opt)) (\<lambda>ports.
      Inr \<lparr>board_harts =
             [init entry (rv32_align_address (opt_mem_end opt))
                (ISS_init 0 (tiny_E_base_isa opt) (instr_if opt dmi) (data_dmi opt dmi) (Some (MMU_init False))
                  (start_world [mem] d))],
           board_ports = ports, board_irqs = [], board_sys = sysh, board_guest = 0,
           board_intercepts = intercept_syscalls opt, board_debug = use_debug_runner opt\<rparr>)))))))"

text \<open>\<open>test32\<close>: as \<open>tiny32\<close>, with the instruction set of the option \<open>isa\<close>.\<close>

definition to_upper :: "char \<Rightarrow> char" where
  "to_upper c = (if 97 \<le> (of_char c :: nat) \<and> (of_char c :: nat) \<le> 122 then char_of (of_char c - 32 :: nat) else c)"

definition isa_extensions :: "string \<Rightarrow> u32" where
  "isa_extensions s = (let u = map to_upper s; has = (\<lambda>c x. if c \<in> set u then x else 0) in
     MISA_I OR has CHR ''G'' (MISA_M OR MISA_A OR MISA_F OR MISA_D) OR has CHR ''M'' MISA_M OR has CHR ''A'' MISA_A OR
     has CHR ''C'' MISA_C OR has CHR ''F'' MISA_F OR has CHR ''D'' MISA_D OR has CHR ''N'' MISA_N OR
     has CHR ''U'' MISA_U OR has CHR ''S'' (MISA_S OR MISA_U))"

definition configure_isa :: "string \<Rightarrow> 'd ISS \<Rightarrow> 'd ISS" where
  "configure_isa s h = h\<lparr>csrs := (csrs h)\<lparr>misa := set_misa_extensions (isa_extensions s) (misa (csrs h))\<rparr>\<rparr>"

definition test32_main :: "TestOptions \<Rightarrow> u8 list \<Rightarrow> 'd \<Rightarrow> sim_error + 'd ISS board \<times> nat" where
  "test32_main opt elf d =
     (let m = SimpleMemory_init (opt_mem_size opt) False in
      bindE (map_dmi 0 (opt_mem_start opt) m) (\<lambda>dmi.
      bindE (boot_memory Elf32Types elf (opt_mem_start opt) True m) (\<lambda>mem.
      bindE (get_entrypoint Elf32Types elf) (\<lambda>entry.
      bindE (get_heap_addr Elf32Types elf) (\<lambda>heap :: u32.
      bindE (register_cores [0] (sys_init (ucast (opt_mem_start opt)) (ucast heap) SyscallHandler_init)) (\<lambda>sysh.
      bindE (map_ports (tiny_ports opt)) (\<lambda>ports.
      bindE (get_to_host_address Elf32Types elf) (\<lambda>addr :: u32.
      let to_host = unat (addr - opt_mem_start opt) in
      if to_host mod 8 \<noteq> 0 then Inl AssertionFailed else
      Inr (\<lparr>board_harts =
             [configure_isa (isa opt) (init entry (rv32_align_address (opt_mem_end opt))
                (ISS_init 0 (test_E_base_isa opt) (instr_if opt dmi) (data_dmi opt dmi) (Some (MMU_init False))
                  (start_world [mem] d)))],
           board_ports = ports, board_irqs = [], board_sys = sysh, board_guest = 0,
           board_intercepts = intercept_syscalls opt, board_debug = use_debug_runner opt\<rparr>, to_host)))))))))"

text \<open>
  One round of the thread of \<open>HTIF\<close>: it looks at the word \<open>tohost\<close> of the guest memory, at whose value
  other than zero the hart exits, and stops the simulation after too many instructions.
\<close>

definition HTIF_run_round :: "nat \<Rightarrow> u64 \<Rightarrow> ('d ISS, unit) act" where
  "HTIF_run_round to_host max_instrs =
     bindM (\<lambda>h. case array_read to_host 8 (host (world h) 0) of
         None \<Rightarrow> (Fail OutOfRange, h)
       | Some bs \<Rightarrow> (Ok (of_bytes bs), h)) (\<lambda>x.
     seqM (if x = 1 then modifyM sys_exit else if x \<noteq> 0 then modifyM sys_exit else ret ())
       (bindM (getsM total_num_instr) (\<lambda>n. if n \<ge> max_instrs then failM RuntimeError else ret ())))"

text \<open>The signature of a test: the words between two symbols, in hexadecimal digits.\<close>

fun traverseE :: "('a \<Rightarrow> sim_error + 'b) \<Rightarrow> 'a list \<Rightarrow> sim_error + 'b list" where
  "traverseE f [] = Inr []"
| "traverseE f (x # xs) = bindE (f x) (\<lambda>y. bindE (traverseE f xs) (\<lambda>ys. Inr (y # ys)))"

definition signature_word :: "u8 list \<Rightarrow> nat \<Rightarrow> sim_error + string" where
  "signature_word mem n = (case array_read n 4 mem of
     None \<Rightarrow> Inl OutOfRange
   | Some bs \<Rightarrow> Inr (hex_digits 8 (unat (of_bytes bs)) @ [CHR 0x0A]))"

definition dump_test_signature :: "u32 \<Rightarrow> u8 list \<Rightarrow> u8 list \<Rightarrow> sim_error + string" where
  "dump_test_signature mem_start mem elf =
     bindE (get_begin_signature_address Elf32Types elf) (\<lambda>begin_sig.
     bindE (get_end_signature_address Elf32Types elf) (\<lambda>end_sig.
     if \<not> end_sig \<ge> begin_sig \<or> \<not> begin_sig \<ge> mem_start then Inl AssertionFailed
     else let b = unat (begin_sig - mem_start); e = unat (end_sig - mem_start) in
     if b mod 4 \<noteq> 0 then Inl AssertionFailed
     else bindE (traverseE (signature_word mem) (map (\<lambda>i. b + 4 * i) [0..<(e - b + 3) div 4])) (\<lambda>ls. Inr (concat ls))))"

text \<open>\<open>basic\<close>: its hart has no MMU; a file that cannot be loaded ends the program.\<close>

definition basic_main :: "BasicOptions \<Rightarrow> u8 list \<Rightarrow> 'd \<Rightarrow> sim_error + 'd ISS board" where
  "basic_main opt elf d =
     (let m = SimpleMemory_init (opt_mem_size opt) False in
      bindE (map_dmi 0 (opt_mem_start opt) m) (\<lambda>dmi.
      bindE (get_entrypoint Elf32Types elf) (\<lambda>elf_entry :: u32.
      let entry = (if available (basic_entry_point opt) then option_value (basic_entry_point opt) else ucast elf_entry) in
      bindE (case boot_memory Elf32Types elf (opt_mem_start opt) True m of
          Inl e \<Rightarrow> Inl (if e = LoadExecutable then ProgramExit else e)
        | Inr mem \<Rightarrow> Inr mem) (\<lambda>mem.
      bindE (get_heap_addr Elf32Types elf) (\<lambda>heap :: u32.
      bindE (register_cores [0] (sys_init (ucast (opt_mem_start opt)) (ucast heap) SyscallHandler_init)) (\<lambda>sysh.
      bindE (map_ports (basic_ports opt)) (\<lambda>ports.
      Inr \<lparr>board_harts =
             [init (ucast entry) (rv32_align_address (opt_mem_end opt))
                (ISS_init 0 (basic_E_base_isa opt) (instr_if opt dmi) (data_dmi opt dmi) None (start_world [mem] d))],
           board_ports = ports,
           board_irqs = [(Sensor, 2), (Sensor2, 5), (BasicTimerDev, 3), (Dma, 4), (Ethernet, 7)],
           board_sys = sysh, board_guest = 0,
           board_intercepts = intercept_syscalls opt, board_debug = use_debug_runner opt\<rparr>)))))))"

definition signature_byte :: "u8 list \<Rightarrow> nat \<Rightarrow> sim_error + string" where
  "signature_byte mem n = (if n < length mem then Inr (hex_digits 2 (unat (mem ! n))) else Inl OutOfRange)"

definition basic_signature :: "u32 \<Rightarrow> u8 list \<Rightarrow> u8 list \<Rightarrow> sim_error + string" where
  "basic_signature mem_start mem elf =
     bindE (get_begin_signature_address Elf32Types elf) (\<lambda>begin_sig.
     bindE (get_end_signature_address Elf32Types elf) (\<lambda>end_sig.
     if \<not> end_sig \<ge> begin_sig \<or> \<not> begin_sig \<ge> mem_start then Inl AssertionFailed
     else bindE (traverseE (signature_byte mem) [unat (begin_sig - mem_start)..<unat (end_sig - mem_start)])
       (\<lambda>ls. Inr (concat ls))))"

text \<open>\<open>hifive\<close>: array 0 is the flash, array 1 the memory; only the memory is mapped for data.\<close>

definition hifive_main :: "HifiveOptions \<Rightarrow> u8 list \<Rightarrow> 'd \<Rightarrow> sim_error + 'd ISS board" where
  "hifive_main opt elf d =
     (let dram0 = SimpleMemory_init hifive_dram_size False; flash0 = SimpleMemory_init hifive_flash_size False in
      bindE (map_dmi 1 hifive_dram_start dram0) (\<lambda>dram_dmi.
      bindE (map_dmi 0 hifive_flash_start flash0) (\<lambda>flash_dmi.
      bindE (map_ports hifive_ports) (\<lambda>ports.
      bindE (boot_memory Elf32Types elf hifive_flash_start False flash0) (\<lambda>flash.
      bindE (boot_memory Elf32Types elf hifive_dram_start False dram0) (\<lambda>dram.
      bindE (get_entrypoint Elf32Types elf) (\<lambda>entry.
      bindE (get_heap_addr Elf32Types elf) (\<lambda>heap :: u32.
      bindE (register_cores [0] (sys_init (ucast hifive_dram_start) (ucast heap) SyscallHandler_init)) (\<lambda>sysh.
      Inr \<lparr>board_harts =
             [init entry (rv32_align_address hifive_dram_end)
                (ISS_init 0 False (instr_if opt flash_dmi) (data_dmi opt dram_dmi) None
                  (start_world [flash, dram] d))],
           board_ports = ports, board_irqs = [(Gpio0, 8), (Uart0, 3), (SlipNet, 4)], board_sys = sysh, board_guest = 1,
           board_intercepts = intercept_syscalls opt, board_debug = use_debug_runner opt\<rparr>)))))))))"

subsection \<open>Several harts, and RV64\<close>

text \<open>\<open>tiny32-mc\<close> and \<open>tiny64-mc\<close>: two harts with their own stacks, which never use direct mappings.\<close>

definition tiny32_mc_main :: "TinyOptions \<Rightarrow> u8 list \<Rightarrow> 'd \<Rightarrow> sim_error + 'd ISS board" where
  "tiny32_mc_main opt elf d =
     bindE (map_ports (tiny_ports opt)) (\<lambda>ports.
     bindE (boot_memory Elf32Types elf (opt_mem_start opt) True (SimpleMemory_init (opt_mem_size opt) False)) (\<lambda>mem.
     bindE (get_entrypoint Elf32Types elf) (\<lambda>entry.
     bindE (get_heap_addr Elf32Types elf) (\<lambda>heap :: u32.
     bindE (register_cores [0, 1] (sys_init (ucast (opt_mem_start opt)) (ucast heap) SyscallHandler_init)) (\<lambda>sysh.
     Inr \<lparr>board_harts =
            [init entry (opt_mem_end opt - 3) (ISS_init 0 False CombinedMemory [] None (start_world [mem] d)),
             init entry (opt_mem_end opt - 32767) (ISS_init 1 False CombinedMemory [] None (start_world [mem] d))],
          board_ports = ports, board_irqs = [], board_sys = sysh, board_guest = 0,
          board_intercepts = intercept_syscalls opt, board_debug = use_debug_runner opt\<rparr>)))))"

definition tiny64_mc_main :: "TinyOptions \<Rightarrow> u8 list \<Rightarrow> 'd \<Rightarrow> sim_error + 'd ISS64 board" where
  "tiny64_mc_main opt elf d =
     bindE (map_ports (tiny_ports opt)) (\<lambda>ports.
     bindE (boot_memory Elf64Types elf (ucast (opt_mem_start opt) :: u64) True (SimpleMemory_init (opt_mem_size opt) False)) (\<lambda>mem.
     bindE (get_entrypoint Elf64Types elf) (\<lambda>entry.
     bindE (get_heap_addr Elf64Types elf) (\<lambda>heap.
     bindE (register_cores [0, 1] (sys_init (ucast (opt_mem_start opt)) heap SyscallHandler_init)) (\<lambda>sysh.
     Inr \<lparr>board_harts =
            [init64 entry (ucast (opt_mem_end opt - 3)) (ISS_init64 0 CombinedMemory [] (MMU_init False) (start_world [mem] d)),
             init64 entry (ucast (opt_mem_end opt - 32767)) (ISS_init64 1 CombinedMemory [] (MMU_init False) (start_world [mem] d))],
          board_ports = ports, board_irqs = [], board_sys = sysh, board_guest = 0,
          board_intercepts = intercept_syscalls opt, board_debug = use_debug_runner opt\<rparr>)))))"

definition tiny64_main :: "TinyOptions \<Rightarrow> u8 list \<Rightarrow> 'd \<Rightarrow> sim_error + 'd ISS64 board" where
  "tiny64_main opt elf d =
     (let m = SimpleMemory_init (opt_mem_size opt) False in
      bindE (map_dmi 0 (opt_mem_start opt) m) (\<lambda>dmi.
      bindE (boot_memory Elf64Types elf (ucast (opt_mem_start opt) :: u64) True m) (\<lambda>mem.
      bindE (get_entrypoint Elf64Types elf) (\<lambda>entry.
      bindE (get_heap_addr Elf64Types elf) (\<lambda>heap.
      bindE (register_cores [0] (sys_init (ucast (opt_mem_start opt)) heap SyscallHandler_init)) (\<lambda>sysh.
      bindE (map_ports (tiny_ports opt)) (\<lambda>ports.
      Inr \<lparr>board_harts =
             [init64 entry (rv64_align_address (ucast (opt_mem_end opt)))
                (ISS_init64 0 (instr_if opt dmi) (data_dmi opt dmi) (MMU_init False) (start_world [mem] d))],
           board_ports = ports, board_irqs = [], board_sys = sysh, board_guest = 0,
           board_intercepts = intercept_syscalls opt, board_debug = use_debug_runner opt\<rparr>)))))))"

text \<open>
  \<open>linux\<close> and \<open>linux32\<close>: five harts. The boot loader of the board is emulated: the number of the hart
  and the address of the device tree are in \<open>a0\<close> and \<open>a1\<close>. Only hart 0 waits at \<open>WFI\<close>.
\<close>

definition linux_core :: "LinuxOptions \<Rightarrow> MemoryDMI \<Rightarrow> u64 \<Rightarrow> 'd world \<Rightarrow> nat \<Rightarrow> 'd ISS64" where
  "linux_core opt dmi entry w i =
     (let h = init64 entry (rv64_align_address (ucast (opt_mem_end opt)))
        (ISS_init64 (of_nat i) (instr_if opt dmi) (data_dmi opt dmi) (MMU_init False) w)
      in (set_reg64 reg_a1 (ucast dtb_rom_start) (set_reg64 reg_a0 (of_nat i) h))\<lparr>ignore_wfi64 := (i \<noteq> 0)\<rparr>)"

definition linux_main :: "LinuxOptions \<Rightarrow> u8 list \<Rightarrow> u8 list \<Rightarrow> 'd \<Rightarrow> sim_error + 'd ISS64 board" where
  "linux_main opt elf dtb d =
     (let m = SimpleMemory_init (opt_mem_size opt) False in
      bindE (map_dmi 0 (opt_mem_start opt) m) (\<lambda>dmi.
      bindE (get_entrypoint Elf64Types elf) (\<lambda>elf_entry.
      let entry = (if available (linux_entry_point opt) then option_value (linux_entry_point opt) else elf_entry) in
      bindE (boot_memory Elf64Types elf (ucast (opt_mem_start opt) :: u64) True m) (\<lambda>mem.
      bindE (get_heap_addr Elf64Types elf) (\<lambda>heap.
      bindE (register_cores (map of_nat [0..<5]) (sys_init (ucast (opt_mem_start opt)) heap SyscallHandler_init)) (\<lambda>sysh.
      bindE (map_ports (linux_ports opt)) (\<lambda>ports.
      bindE (run_memory (load_binary_file dtb 0) (SimpleMemory_init dtb_rom_size False)) (\<lambda>dtb_rom.
      Inr \<lparr>board_harts = map (linux_core opt dmi entry (start_world [mem, dtb_rom] d)) [0..<5],
           board_ports = ports, board_irqs = [(Uart0, 3), (SlipNet, 4)], board_sys = sysh, board_guest = 0,
           board_intercepts = intercept_syscalls opt, board_debug = use_debug_runner opt\<rparr>))))))))"

definition linux32_core :: "LinuxOptions \<Rightarrow> MemoryDMI \<Rightarrow> u64 \<Rightarrow> 'd world \<Rightarrow> nat \<Rightarrow> 'd ISS" where
  "linux32_core opt dmi entry w i =
     (let h = init (ucast entry) (ucast (rv64_align_address (ucast (opt_mem_end opt))))
          (ISS_init (of_nat i) False (instr_if opt dmi) (data_dmi opt dmi) (Some (MMU_init False)) w);
        h' = (set_reg reg_a1 dtb_rom_start (set_reg reg_a0 (of_nat i) h))\<lparr>ignore_wfi := (i \<noteq> 0)\<rparr>;
        x = misa (csrs h')
      in h'\<lparr>csrs := (csrs h')\<lparr>misa := set_misa_extensions (misa_extensions x OR MISA_M OR MISA_A OR MISA_F OR MISA_D) x\<rparr>\<rparr>)"

definition linux32_main :: "LinuxOptions \<Rightarrow> u8 list \<Rightarrow> u8 list \<Rightarrow> 'd \<Rightarrow> sim_error + 'd ISS board" where
  "linux32_main opt elf dtb d =
     (let m = SimpleMemory_init (opt_mem_size opt) False in
      bindE (map_dmi 0 (opt_mem_start opt) m) (\<lambda>dmi.
      bindE (get_entrypoint Elf32Types elf) (\<lambda>elf_entry :: u32.
      let entry = (if available (linux_entry_point opt) then option_value (linux_entry_point opt) else ucast elf_entry) in
      bindE (boot_memory Elf32Types elf (opt_mem_start opt) True m) (\<lambda>mem.
      bindE (get_heap_addr Elf32Types elf) (\<lambda>heap :: u32.
      bindE (register_cores (map of_nat [0..<5]) (sys_init (ucast (opt_mem_start opt)) (ucast heap) SyscallHandler_init)) (\<lambda>sysh.
      bindE (map_ports (linux_ports opt)) (\<lambda>ports.
      bindE (run_memory (load_binary_file dtb 0) (SimpleMemory_init dtb_rom_size False)) (\<lambda>dtb_rom.
      Inr \<lparr>board_harts = map (linux32_core opt dmi entry (start_world [mem, dtb_rom] d)) [0..<5],
           board_ports = ports, board_irqs = [(Uart0, 3), (SlipNet, 4)], board_sys = sysh, board_guest = 0,
           board_intercepts = intercept_syscalls opt, board_debug = use_debug_runner opt\<rparr>))))))))"

section \<open>The bus of the small platforms\<close>

text \<open>
  The targets that \<open>test32\<close> binds to its bus, on the state that the hart shares with them: the memory is the
  array 0 of the host, the CLINT is the first component of the devices, and the hart, of which it
  drives two lines, is represented by its \<open>mip\<close>. The target of system calls, which changes the
  registers of the calling hart, is a parameter.
\<close>

definition on_memory :: "nat \<Rightarrow> u32 \<Rightarrow> 'd shared tlm_target" where
  "on_memory k msize tr delay =
     zoomM (\<lambda>(w, p). \<lparr>mem_data = host w k, mem_size = msize, mem_read_only = False\<rparr>)
       (\<lambda>m (w, p). (w\<lparr>host := (host w)(k := mem_data m)\<rparr>, p)) (memory_transport tr delay)"

definition mip_clint_target :: "u32 clint_interrupt_target" where
  "mip_clint_target = \<lparr>trigger_timer = (\<lambda>b. set_mip_mtip (b2w b)), trigger_software = (\<lambda>b. set_mip_msip (b2w b))\<rparr>"

definition on_clint :: "(u32 CLINT \<times> 'r) shared tlm_target" where
  "on_clint tr delay =
     zoomM (\<lambda>(w, p). (fst (devs w))\<lparr>target_harts := [p]\<rparr>)
       (\<lambda>c (w, p). (w\<lparr>devs := (c, snd (devs w))\<rparr>, target_harts c ! 0)) (clint_transport mip_clint_target tr delay)"

definition test32_isock ::
    "'a MemoryOptions_scheme \<Rightarrow> (u32 CLINT \<times> 'r) shared tlm_target \<Rightarrow> (u32 CLINT \<times> 'r) shared tlm_target" where
  "test32_isock opt sys_target =
     bus_transport (map snd (tiny_ports opt)) [on_memory 0 (opt_mem_size opt), on_clint, sys_target]"

end
