(* ===== verification/Platforms_Props.thy ===== *)
theory Platforms_Props
  imports Platforms Clint_Props Iss_Step Mem_Props
begin

text \<open>
  The composition of the platforms: every device answers at its addresses, a direct mapping is
  equivalent to the way over the bus, the hart starts with the first instruction of the loaded
  program, and interrupts of the CLINT reach it over the bus.
\<close>

unbundle bit_operations_syntax

section \<open>Address maps\<close>

definition ports_disjoint :: "PortMapping \<Rightarrow> PortMapping \<Rightarrow> bool" where
  "ports_disjoint p q \<longleftrightarrow> port_end p < port_start q \<or> port_end q < port_start p"

text \<open>Whether the port \<open>p\<close> is disjoint from all earlier ones, and then every port of a map.\<close>

fun exclusive :: "bus_map \<Rightarrow> bool" where
  "exclusive [] = True"
| "exclusive ((d, p) # m) = (list_all (\<lambda>(e, q). ports_disjoint p q) m \<and> exclusive m)"

lemma disjoint_not_both: "ports_disjoint p q \<Longrightarrow> port_contains p a \<Longrightarrow> \<not> port_contains q a"
  by (auto simp: ports_disjoint_def port_contains_def)

lemma device_at_Nil [simp]: "device_at [] a = None"
  by (simp add: device_at_def bus_decode_def Let_def)

lemma bus_decode_from_shift:
  "0 \<le> i \<Longrightarrow> bus_decode_from (i + 1) ps a = (let k = bus_decode_from i ps a in if k < 0 then k else k + 1)"
proof (induction ps arbitrary: i)
  case (Cons p ps)
  then show ?case using Cons.IH [of "i + 1"] by (auto simp: Let_def)
qed simp

lemma device_at_Cons [simp]:
  "device_at ((d, p) # m) a = (if port_contains p a then Some d else device_at m a)"
proof (cases "port_contains p a")
  case False
  have "bus_decode_from 1 (map snd m) a =
      (let k = bus_decode_from 0 (map snd m) a in if k < 0 then k else k + 1)"
    using bus_decode_from_shift [of 0 "map snd m" a] by simp
  with False show ?thesis
    by (auto simp: device_at_def bus_decode_def Let_def nat_add_distrib nth_Cons' split: if_splits)
qed (simp add: device_at_def bus_decode_def Let_def)

lemma exclusive_answers:
  "exclusive m \<Longrightarrow> (d, p) \<in> set m \<Longrightarrow> port_contains p a \<Longrightarrow> device_at m a = Some d"
proof (induction m rule: exclusive.induct)
  case (2 e q m)
  then show ?case using disjoint_not_both [of q p a] by (auto simp: list_all_iff)
qed simp

lemma port_simps [simp]:
  "port_start (port s e) = ucast s" "port_end (port s e) = ucast e"
  by (simp_all add: port_def)

lemma ucast_u32_le: "(ucast (a :: u32) :: u64) \<le> ucast b \<longleftrightarrow> a \<le> b" "(ucast (a :: u32) :: u64) < ucast b \<longleftrightarrow> a < b"
  by (simp_all add: word_le_nat_alt word_less_nat_alt unat_ucast_up)

lemma ports_disjoint_port: "ports_disjoint (port s e) (port s' e') \<longleftrightarrow> e < s' \<or> e' < s"
  by (simp add: ports_disjoint_def ucast_u32_le)

lemma port_ok_port: "port_ok (port s e) \<longleftrightarrow> s \<le> e"
  by (simp add: port_ok_def ucast_u32_le)

lemma port_contains_port: "port_contains (port s e) a \<longleftrightarrow> ucast s \<le> a \<and> a \<le> ucast e"
  by (simp add: port_contains_def)

lemmas port_map_simps = ports_disjoint_port port_ok_port map_ports_def

lemma device_at_append:
  "device_at (m @ m') a = (case device_at m a of Some d \<Rightarrow> Some d | None \<Rightarrow> device_at m' a)"
  by (induction m) auto

lemma exclusive_hifive: "exclusive hifive_ports"
  by (simp add: hifive_ports_def port_map_simps)

lemma exclusive_tiny:
  "opt_mem_end opt < 0x02000000 \<or> 0x020103ff < opt_mem_start opt \<Longrightarrow> exclusive (tiny_ports opt)"
  using less_trans [of "opt_mem_end opt" "0x02000000" "0x02010000"] less_trans [of "0x0200ffff" "0x020103ff" "opt_mem_start opt"]
  by (auto simp: tiny_ports_def port_map_simps)

text \<open>The address map of \<open>linux\<close> with the PLIC ending below the PRCI.\<close>

lemma linux_ports_answer:
  assumes "0x10011fff < opt_mem_start opt" and "(d, p) \<in> set (linux_ports opt)" and "port_contains p a"
  shows "device_at (linux_ports opt) a = Some (if a = 0x10000000 then Plic else d)"
proof -
  let ?m = "(Memory, port (opt_mem_start opt) (opt_mem_end opt)) # (Clint, port 0x02000000 0x0200ffff) #
    (Sys, port 0x02010000 0x020103ff) # (DtbRom, port dtb_rom_start (dtb_rom_start + dtb_rom_size - 1)) #
    (Uart0, port 0x10010000 0x10010fff) # (SlipNet, port 0x10011000 0x10011fff) #
    (Plic, port 0x0C000000 0x0FFFFFFF) # (Prci, port 0x10000000 0x1000FFFF) # []"
  have ne: "\<not> port_contains (port (opt_mem_start opt) (opt_mem_end opt)) 0x10000000"
    using assms(1) by (auto simp: port_contains_port word_le_nat_alt word_less_nat_alt unat_ucast_up)
  have low: "port_contains (port 0x0C000000 0x10000000) a \<longleftrightarrow> port_contains (port 0x0C000000 0x0FFFFFFF) a \<or> a = 0x10000000"
    by (auto simp: port_contains_port word_le_nat_alt word_unat_eq_iff)
  show ?thesis
  proof (cases "a = 0x10000000")
    case True
    then show ?thesis using ne by (simp add: linux_ports_def port_contains_port)
  next
    case False
    then have same: "device_at (linux_ports opt) a = device_at ?m a" by (simp add: linux_ports_def low)
    have "k < opt_mem_start opt" if "k \<le> 0x10011fff" for k
      using that assms(1) by (rule le_less_trans)
    then have ex: "exclusive ?m" by (simp add: port_map_simps)
    have "\<exists>q. (d, q) \<in> set ?m \<and> port_contains q a"
      using assms(2,3) False low by (auto simp: linux_ports_def)
    then obtain q where q: "(d, q) \<in> set ?m" "port_contains q a" by (elim exE conjE)
    have "device_at ?m a = Some d" by (rule exclusive_answers [OF ex q])
    then show ?thesis unfolding same using False by (simp only: if_False)
  qed
qed

text \<open>
  C27. At every address of a device of the platforms \<open>hifive\<close>, \<open>tiny32\<close> and \<open>linux\<close> (with a memory that lies
  apart from the devices) the bus selects that device, with one exception: the port of the PLIC of
  \<open>linux\<close> ends at \<open>0x10000000\<close>, where the PRCI begins, and the PLIC answers there, so the first register
  of the PRCI cannot be reached.
\<close>

theorem devices_answer:
  assumes "port_contains p a"
  shows "((d, p) \<in> set hifive_ports \<longrightarrow> device_at hifive_ports a = Some d) \<and>
    ((d, p) \<in> set (tiny_ports topt) \<and> opt_mem_end topt < 0x02000000 \<longrightarrow> device_at (tiny_ports topt) a = Some d) \<and>
    ((d, p) \<in> set (linux_ports lopt) \<and> 0x10011fff < opt_mem_start lopt \<longrightarrow>
      device_at (linux_ports lopt) a = Some (if a = 0x10000000 then Plic else d))"
  using exclusive_answers [OF exclusive_hifive _ assms, of d] linux_ports_answer [OF _ _ assms, of lopt d]
    exclusive_answers [of "tiny_ports topt", OF exclusive_tiny _ assms, of d]
  by blast

theorem devices_answer_witness:
  "device_at hifive_ports 0x10023004 = Some SlipNet \<and> device_at (tiny_ports TinyOptions_init) 0x02000004 = Some Clint \<and>
   device_at (linux_ports LinuxOptions_init) 0x10000000 = Some Plic \<and>
   device_at (linux_ports LinuxOptions_init) 0x10000004 = Some Prci"
  using devices_answer [of "port 0x10023000 0x10023FFF" "0x10023004" SlipNet]
    devices_answer [of "port 0x02000000 0x0200ffff" "0x02000004" Clint TinyOptions_init]
    devices_answer [of "port 0x10000000 0x1000FFFF" "0x10000000" Prci _ LinuxOptions_init]
    devices_answer [of "port 0x10000000 0x1000FFFF" "0x10000004" Prci _ LinuxOptions_init]
  by (simp add: port_contains_port hifive_ports_def tiny_ports_def linux_ports_def options_init_simps)

lemma basic_parse_Inr:
  assumes "basic_parse cl = Inr opt"
  shows "opt_mem_end opt < 0x02000000 \<or> opt_mem_start opt > 0x72000000 + Display_addressRange"
    and "mram_end_addr opt < 0x70000000" and "opt_mem_end opt = opt_mem_start opt + opt_mem_size opt - 1"
    and "mram_end_addr opt = 0x60000000 + mram_size opt - 1"
  using assms by (auto simp: basic_parse_def bindE_Inr_iff set_mem_end_def Let_def split: if_splits)

text \<open>The ports of \<open>basic\<close> but the last, the one of the \<open>Unreal\<close> device.\<close>

lemma exclusive_basic:
  assumes "basic_parse cl = Inr opt" and "map_ports (basic_ports opt) = Inr m"
  shows "exclusive (butlast (basic_ports opt))"
proof -
  let ?s = "opt_mem_start opt" and ?e = "opt_mem_end opt" and ?r = "mram_end_addr opt"
  have "?e < 0x02000000 \<or> 0x722BF21C < ?s" using basic_parse_Inr(1) [OF assms(1)] by (simp add: Display_addressRange_def)
  then have mem: "?e < j \<or> i < ?s" if "0x02000000 \<le> j" "i \<le> 0x722BF21C" for i j
    using that less_le_trans [of ?e "0x02000000" j] le_less_trans [of i "0x722BF21C" ?s] by blast
  have mram: "?r < j" if "0x70000000 \<le> j" for j
    using that basic_parse_Inr(2) [OF assms(1)] by (rule less_le_trans [rotated])
  then have "?r \<le> 0x722BF21C" by (intro less_imp_le) simp
  then show ?thesis by (simp add: basic_ports_def port_map_simps Display_addressRange_def Flash_ADDR_SPACE_def mem mram)
qed

text \<open>
  Whatever options the platform \<open>basic\<close> accepts, every device but the last answers at its addresses. The
  last, \<open>Unreal\<close>, was forgotten by the assertions on the options: a memory may cover it, and then the
  memory answers.
\<close>

theorem basic_devices_answer:
  assumes "basic_parse cl = Inr opt" and "map_ports (basic_ports opt) = Inr m" and "(d, p) \<in> set m"
    and "port_contains p a"
  shows "device_at m a = Some d \<or> d = Unreal \<and> device_at m a = Some Memory"
proof -
  let ?u = "(Unreal, port 0x73000000 (0x73000000 + 1500))"
  have m: "m = butlast (basic_ports opt) @ [?u]"
    using assms(2) by (auto simp: map_ports_def basic_ports_def split: if_splits)
  note ex = exclusive_basic [OF assms(1,2)]
  show ?thesis
  proof (cases "d = Unreal")
    case False
    with assms(3) m have "(d, p) \<in> set (butlast (basic_ports opt))" by auto
    from exclusive_answers [OF ex this assms(4)] show ?thesis unfolding m device_at_append by simp
  next
    case True
    with assms(3) m have p: "p = port 0x73000000 (0x73000000 + 1500)" by (auto simp: basic_ports_def)
    have mram: "mram_end_addr opt < 0x73000000"
      using basic_parse_Inr(2) [OF assms(1)] by (rule less_trans) simp
    have "device_at (tl (butlast (basic_ports opt))) a = None"
      using assms(4) mram unfolding p
      by (auto simp: basic_ports_def port_contains_port Display_addressRange_def Flash_ADDR_SPACE_def word_le_nat_alt
          word_less_nat_alt unat_ucast_up)
    moreover have "butlast (basic_ports opt) = (Memory, port (opt_mem_start opt) (opt_mem_end opt)) # tl (butlast (basic_ports opt))"
      by (simp add: basic_ports_def)
    ultimately have "device_at (butlast (basic_ports opt)) a \<in> {None, Some Memory}"
      by (metis device_at_Cons insertCI)
    then show ?thesis using True assms(4) p unfolding m device_at_append by auto
  qed
qed

theorem basic_devices_answer_witness:
  "\<exists>opt m. basic_parse (Parsed (BasicOptions_init\<lparr>opt_mem_start := 0x73000000, opt_mem_size := 0x1000\<rparr>) False) = Inr opt \<and>
     map_ports (basic_ports opt) = Inr m \<and> device_at m 0x40000004 = Some Plic"
proof -
  let ?opt = "BasicOptions_init\<lparr>opt_mem_start := 0x73000000, opt_mem_size := 0x1000, opt_mem_end := 0x73000FFF\<rparr>"
  have p: "basic_parse (Parsed (BasicOptions_init\<lparr>opt_mem_start := 0x73000000, opt_mem_size := 0x1000\<rparr>) False) = Inr ?opt"
    by (simp add: basic_parse_def Options_parse_def finalize_def set_mem_end_def options_init_simps Display_addressRange_def)
  have m: "map_ports (basic_ports ?opt) = Inr (basic_ports ?opt)"
    by (simp add: map_ports_def basic_ports_def port_ok_port options_init_simps Display_addressRange_def Flash_ADDR_SPACE_def)
  have "(Plic, port 0x40000000 0x41000000) \<in> set (basic_ports ?opt)" by (simp add: basic_ports_def)
  from basic_devices_answer [OF p m this, of "0x40000004"] p m show ?thesis by (auto simp: port_contains_port)
qed

section \<open>Direct mappings and the bus\<close>

text \<open>The place of the memory in the address space: it does not wrap around.\<close>

definition memory_placed :: "'a MemoryOptions_scheme \<Rightarrow> bool" where
  "memory_placed opt \<longleftrightarrow> 0 < opt_mem_size opt \<and> unat (opt_mem_start opt) + unat (opt_mem_size opt) \<le> 2 ^ 32 \<and>
     opt_mem_end opt = opt_mem_start opt + opt_mem_size opt - 1"

definition in_memory :: "'a MemoryOptions_scheme \<Rightarrow> u64 \<Rightarrow> nat \<Rightarrow> bool" where
  "in_memory opt addr n \<longleftrightarrow> unat (opt_mem_start opt) \<le> unat addr \<and> 0 < n \<and>
     unat addr + n \<le> unat (opt_mem_start opt) + unat (opt_mem_size opt)"

lemma memory_placed_end:
  assumes "memory_placed opt"
  shows "unat (opt_mem_end opt) = unat (opt_mem_start opt) + unat (opt_mem_size opt) - 1"
proof -
  have "0 < unat (opt_mem_size opt)" using assms by (simp add: memory_placed_def word_less_nat_alt)
  then have "unat (opt_mem_size opt - 1) = unat (opt_mem_size opt) - 1" by (simp add: unat_sub word_le_nat_alt Suc_le_eq)
  moreover have "unat (opt_mem_start opt) + (unat (opt_mem_size opt) - 1) < 2 ^ 32"
    using assms \<open>0 < unat (opt_mem_size opt)\<close> by (auto simp: memory_placed_def)
  ultimately show ?thesis
    using assms \<open>0 < unat (opt_mem_size opt)\<close>
    by (simp add: memory_placed_def unat_word_ariths add_diff_eq [symmetric] del: add_diff_eq)
qed

lemma local_address:
  assumes "unat (a :: u64) + n \<le> unat (msize :: u32)" and "0 < n"
  shows "unat (ucast a :: u32) = unat a" and "ucast a < msize" and "ucast a + of_nat n \<le> msize"
proof -
  have b: "unat msize < 2 ^ 32" using unsigned_less [of msize, where 'a = nat] by simp
  with assms(1) have "unat a < 2 ^ 32" by simp
  then show a: "unat (ucast a :: u32) = unat a" by (simp add: unsigned_ucast_eq take_bit_nat_eq_self)
  show "ucast a < msize" using a assms by (simp add: word_less_nat_alt)
  show "ucast a + of_nat n \<le> msize" using a assms b by (simp add: word_le_nat_alt unat_word_ariths unat_of_nat)
qed

lemma on_memory_read:
  assumes "length (host w k) = unat msize" and "unat a + n \<le> unat msize" and "0 < n" and "length bs = n"
  shows "on_memory k msize \<lparr>command = TLM_READ_COMMAND, address = a, data_ptr = bs, response_status = r\<rparr> t (w, p) =
    (Ok (\<lparr>command = TLM_READ_COMMAND, address = a, data_ptr = take n (drop (unat a) (host w k)), response_status = r\<rparr>,
       t + 10000), (w, p))"
  using assms local_address [OF assms(2,3)]
  by (simp add: on_memory_def zoomM_def memory_transport_def memory_transport_dbg_def read_data_def array_read_def Let_def
        seqM_assert_apply bindM_def)

lemma on_memory_write:
  assumes "length (host w k) = unat msize" and "unat a + length bs \<le> unat msize" and "bs \<noteq> []"
  shows "on_memory k msize \<lparr>command = TLM_WRITE_COMMAND, address = a, data_ptr = bs, response_status = r\<rparr> t (w, p) =
    (Ok (\<lparr>command = TLM_WRITE_COMMAND, address = a, data_ptr = bs, response_status = r\<rparr>, t + 10000),
     (w\<lparr>host := (host w)(k := the (array_write (unat a) bs (host w k)))\<rparr>, p))"
  using assms local_address [OF assms(2)]
  by (simp add: on_memory_def zoomM_def memory_transport_def memory_transport_dbg_def write_data_def array_write_def Let_def
        seqM_assert_apply seqM_def bindM_def assertM_def)

text \<open>The bus hands an access to the memory on with the offset from its start.\<close>

lemma in_memory_offset:
  assumes "in_memory opt addr n"
  shows "unat (addr - ucast (opt_mem_start opt)) = unat addr - unat (opt_mem_start opt)"
  using assms by (simp add: in_memory_def unat_sub word_le_nat_alt unat_ucast_up)

lemma test32_isock_memory:
  assumes "memory_placed opt" and "in_memory opt (address tr) n"
  shows "test32_isock opt sysT tr t = on_memory 0 (opt_mem_size opt) (tr\<lparr>address := address tr - ucast (opt_mem_start opt)\<rparr>) t"
proof -
  have "port_contains (port (opt_mem_start opt) (opt_mem_end opt)) (address tr)"
    using assms memory_placed_end [OF assms(1)]
    by (auto simp: in_memory_def port_contains_port word_le_nat_alt unat_ucast_up)
  then show ?thesis by (simp add: test32_isock_def bus_transport_def bus_decode_def tiny_ports_def global_to_local_def)
qed

lemma do_transaction_read:
  assumes "isock env = test32_isock opt sysT" and "memory_placed opt" and "in_memory opt addr n"
    and "length (host (world s) 0) = unat (opt_mem_size opt)"
  shows "do_transaction env TLM_READ_COMMAND addr (replicate n 0) s =
    (Ok (take n (drop (unat addr - unat (opt_mem_start opt)) (host (world s) 0))),
     s\<lparr>quantum_keeper := quantum_keeper s + 10000\<rparr>)"
proof -
  have l: "unat (addr - ucast (opt_mem_start opt)) + n \<le> unat (opt_mem_size opt)" "0 < n"
    using assms(3) in_memory_offset [OF assms(3)] by (auto simp: in_memory_def)
  show ?thesis
    using assms in_memory_offset [OF assms(3)]
      on_memory_read [OF assms(4) l, of "replicate n 0" TLM_OK_RESPONSE "quantum_keeper s" "mip (csrs s)"]
    by (simp add: do_transaction_def test32_isock_memory [OF assms(2), where n = n] seqM_def bindM_def zoomM_def get_shared_def
        put_shared_def is_response_error_def assertM_def)
qed

lemma do_transaction_write:
  assumes "isock env = test32_isock opt sysT" and "memory_placed opt" and "in_memory opt addr (length bs)"
    and "length (host (world s) 0) = unat (opt_mem_size opt)"
  shows "do_transaction env TLM_WRITE_COMMAND addr bs s =
    (Ok bs, s\<lparr>quantum_keeper := quantum_keeper s + 10000, world := (world s)\<lparr>host := (host (world s))(0 :=
       the (array_write (unat addr - unat (opt_mem_start opt)) bs (host (world s) 0)))\<rparr>\<rparr>)"
proof -
  have l: "unat (addr - ucast (opt_mem_start opt)) + length bs \<le> unat (opt_mem_size opt)" "bs \<noteq> []"
    using assms(3) in_memory_offset [OF assms(3)] by (auto simp: in_memory_def)
  show ?thesis
    using assms in_memory_offset [OF assms(3)]
      on_memory_write [OF assms(4) l, of TLM_OK_RESPONSE "quantum_keeper s" "mip (csrs s)"]
    by (simp add: do_transaction_def test32_isock_memory [OF assms(2), where n = "length bs"] seqM_def bindM_def zoomM_def
        get_shared_def put_shared_def is_response_error_def assertM_def)
qed

text \<open>The mapping that the platform creates for its memory.\<close>

lemma map_dmi_memory:
  assumes "memory_placed opt" and "mem_size m = opt_mem_size opt"
  shows "\<exists>d. map_dmi k (opt_mem_start opt) m = Inr d \<and> dmi_mem d = k \<and> dmi_start d = ucast (opt_mem_start opt) \<and>
    unat (dmi_end d) = unat (opt_mem_start opt) + unat (opt_mem_size opt)"
proof -
  have e: "unat (ucast (opt_mem_start opt) + ucast (opt_mem_size opt) :: u64) =
      unat (opt_mem_start opt) + unat (opt_mem_size opt)"
    using assms(1) by (simp add: memory_placed_def unat_word_ariths unat_ucast_up)
  have "0 < unat (opt_mem_size opt)" using assms(1) by (simp add: memory_placed_def word_less_nat_alt)
  with e show ?thesis
    using assms(2) by (simp add: map_dmi_def create_start_size_mapping_def word_less_nat_alt unat_ucast_up)
qed

lemma dmi_offset:
  assumes "map_dmi k (opt_mem_start opt) m = Inr d" and "mem_size m = opt_mem_size opt" and "memory_placed opt"
    and "in_memory opt addr n"
  shows "dmi_contains d addr" and "dmi_mem d = k"
    and "get_mem_ptr_to_global_addr d n addr = Inr (unat addr - unat (opt_mem_start opt))"
proof -
  have d: "dmi_start d = ucast (opt_mem_start opt)" "dmi_mem d = k"
      "unat (dmi_end d) = unat (opt_mem_start opt) + unat (opt_mem_size opt)"
    using map_dmi_memory [OF assms(3,2), of k] assms(1) by auto
  then show c: "dmi_contains d addr" and "dmi_mem d = k"
    using assms(4) by (auto simp: dmi_contains_def in_memory_def word_le_nat_alt word_less_nat_alt unat_ucast_up)
  have "unat (addr + of_nat n) = unat addr + n"
    using assms(3,4) by (simp add: in_memory_def memory_placed_def unat_word_ariths unat_of_nat)
  then show "get_mem_ptr_to_global_addr d n addr = Inr (unat addr - unat (opt_mem_start opt))"
    using c d assms(4) in_memory_offset [OF assms(4)]
    by (simp add: get_mem_ptr_to_global_addr_def in_memory_def word_le_nat_alt)
qed

lemma dmi_store_all_none: "find (\<lambda>e. dmi_contains e a) ds = None \<Longrightarrow> dmi_store_all n a v ds = ret False"
  by (induction ds) (auto split: if_splits)

lemma raw_store_data_bus:
  assumes "has_access s" and "find (\<lambda>e. dmi_contains e addr) (dmi_ranges s) = None"
    and "do_transaction env TLM_WRITE_COMMAND addr (to_bytes n v) s = (Ok bs, s')"
  shows "raw_store_data env n addr v s = (Ok (), atomic_unlock s')"
  using assms(3)
  by (simp add: raw_store_data_def seqM_def wait_access_bind [OF assms(1)] dmi_store_all_none [OF assms(2)])
    (simp add: bindM_def)

text \<open>
  C16. A direct mapping of the memory (\<open>use-data-dmi\<close>) is equivalent to the way over the bus: a load gets the
  same value and a store leaves the same world, for every access that lies in the memory. Only the
  time that the access takes differs.
\<close>

theorem dmi_equivalent_to_bus:
  assumes "isock env = test32_isock opt sysT" and "memory_placed opt" and "in_memory opt addr n"
    and "length (host (world s) 0) = unat (opt_mem_size opt)" and "has_access s"
    and "map_dmi 0 (opt_mem_start opt) m = Inr d" and "mem_size m = opt_mem_size opt"
  shows "\<exists>v w.
    raw_load_data env n addr (s\<lparr>dmi_ranges := [d]\<rparr>) =
      (Ok v, s\<lparr>dmi_ranges := [d], quantum_keeper := quantum_keeper s + 40000\<rparr>) \<and>
    raw_load_data env n addr (s\<lparr>dmi_ranges := []\<rparr>) =
      (Ok v, s\<lparr>dmi_ranges := [], quantum_keeper := quantum_keeper s + 10000\<rparr>) \<and>
    raw_store_data env n addr x (s\<lparr>dmi_ranges := [d]\<rparr>) =
      (Ok (), atomic_unlock (s\<lparr>dmi_ranges := [d], quantum_keeper := quantum_keeper s + 40000, world := w\<rparr>)) \<and>
    raw_store_data env n addr x (s\<lparr>dmi_ranges := []\<rparr>) =
      (Ok (), atomic_unlock (s\<lparr>dmi_ranges := [], quantum_keeper := quantum_keeper s + 10000, world := w\<rparr>))"
proof -
  let ?o = "unat addr - unat (opt_mem_start opt)" and ?h = "host (world s)"
  let ?v = "of_bytes (take n (drop ?o (?h 0)))"
  let ?h' = "?h(0 := the (array_write ?o (to_bytes n x) (?h 0)))"
  have fits: "?o + n \<le> length (?h 0)" using assms(3,4) by (auto simp: in_memory_def)
  note d = dmi_offset [OF assms(6,7,2,3)]
  have acc: "has_access (s\<lparr>dmi_ranges := ds\<rparr>)" for ds
    using assms(5) by (simp add: has_access_def bus_locked_by_me_def get_hart_id_def)
  have "raw_load_data env n addr (s\<lparr>dmi_ranges := [d]\<rparr>) =
      (Ok ?v, s\<lparr>dmi_ranges := [d], quantum_keeper := quantum_keeper s + 40000\<rparr>)"
    using raw_load_data_dmi [OF acc, of "[d]" n addr ?v env] d fits
    by (simp add: phys_load_def dmi_load_def array_read_def)
  moreover have "raw_load_data env n addr (s\<lparr>dmi_ranges := []\<rparr>) =
      (Ok ?v, s\<lparr>dmi_ranges := [], quantum_keeper := quantum_keeper s + 10000\<rparr>)"
    using do_transaction_read [OF assms(1-3), of "s\<lparr>dmi_ranges := []\<rparr>"] assms(4)
    by (simp add: raw_load_data_def seqM_def wait_access_bind [OF acc] bindM_def [of "do_transaction env c a b" for c a b])
  moreover have "raw_store_data env n addr x (s\<lparr>dmi_ranges := [d]\<rparr>) = (Ok (), atomic_unlock
      (s\<lparr>dmi_ranges := [d], quantum_keeper := quantum_keeper s + 40000, world := (world s)\<lparr>host := ?h'\<rparr>\<rparr>))"
    using raw_store_data_dmi [OF acc, of "[d]" d addr n x ?h' env] d fits
    by (simp add: dmi_store_def array_write_def)
  moreover have "raw_store_data env n addr x (s\<lparr>dmi_ranges := []\<rparr>) = (Ok (), atomic_unlock
      (s\<lparr>dmi_ranges := [], quantum_keeper := quantum_keeper s + 10000, world := (world s)\<lparr>host := ?h'\<rparr>\<rparr>))"
    using do_transaction_write [OF assms(1,2), of addr "to_bytes n x" "s\<lparr>dmi_ranges := []\<rparr>"] assms(3,4)
    by (intro raw_store_data_bus [OF acc]) simp_all
  ultimately show ?thesis by blast
qed

section \<open>Interrupts over the bus\<close>

interpretation mip_clint: clint_target mip_clint_target "\<lambda>p. bit p 7" "\<lambda>p. bit p 3"
  by unfold_locales (auto simp: mip_clint_target_def bit_bf_set b2w_def bit_1_iff)

text \<open>The lines that the CLINT drives are those of the hart.\<close>

lemma mip_clint_target_hart:
  "trigger_timer_interrupt b h = h\<lparr>csrs := (csrs h)\<lparr>mip := trigger_timer mip_clint_target b (mip (csrs h))\<rparr>\<rparr>"
  "trigger_software_interrupt b h = h\<lparr>csrs := (csrs h)\<lparr>mip := trigger_software mip_clint_target b (mip (csrs h))\<rparr>\<rparr>"
  by (simp_all add: mip_clint_target_def trigger_timer_interrupt_def trigger_software_interrupt_def upd_csrs_def)

text \<open>The CLINT of the platform with its one hart.\<close>

definition clint_of :: "(u32 CLINT \<times> 'r) ISS \<Rightarrow> u32 CLINT" where
  "clint_of s = (fst (devs (world s)))\<lparr>target_harts := [mip (csrs s)]\<rparr>"

lemma test32_isock_clint:
  assumes "opt_mem_end opt < 0x02000000" and "0x02000000 \<le> address tr" and "address tr \<le> 0x0200ffff"
  shows "test32_isock opt sysT tr t = on_clint (tr\<lparr>address := address tr - 0x02000000\<rparr>) t"
proof -
  have "\<not> port_contains (port (opt_mem_start opt) (opt_mem_end opt)) (address tr)"
    using assms(1,2) by (auto simp: port_contains_port word_le_nat_alt word_less_nat_alt unat_ucast_up)
  moreover have "port_contains (port 0x02000000 0x0200ffff) (address tr)"
    using assms(2,3) by (simp add: port_contains_port)
  ultimately show ?thesis
    by (simp add: test32_isock_def bus_transport_def bus_decode_def tiny_ports_def global_to_local_def)
qed

text \<open>
  C17. A software interrupt on the platform \<open>test32\<close>, from the store instruction to the interrupt check: a store to the
  \<open>msip\<close> register goes over the bus to the CLINT, which keeps the lowest bit and drives the line of the
  hart, so that a hart that enables software interrupts takes one in machine mode.
\<close>

theorem software_interrupt_over_bus:
  assumes "isock env = test32_isock opt sysT" and "opt_mem_end opt < 0x02000000" and "has_access s"
    and "find (\<lambda>e. dmi_contains e 0x02000000) (dmi_ranges s) = None" and "clint_wf (clint_of s)"
  shows "\<exists>s'. raw_store_data env 4 0x02000000 v s = (Ok (), s') \<and>
    elem 4 (regs_msip (clint_of s')) 0 = v AND 1 \<and>
    (bit (mip (csrs s')) 3 \<longleftrightarrow> bit v 0) \<and> bit (mip (csrs s')) 7 = bit (mip (csrs s)) 7 \<and>
    (bit v 0 \<and> bit (mie (csrs s)) 3 \<and> \<not> bit (mideleg (csrs s)) 3 \<and>
       (prv s < MachineMode \<or> (prv s = MachineMode \<and> bit (mstatus (csrs s)) 3)) \<longrightarrow>
     target_mode (compute_pending_interrupts s') = MachineMode \<and> bit (pending (compute_pending_interrupts s')) 3)"
proof -
  let ?tr = "\<lparr>command = TLM_WRITE_COMMAND, address = 0, data_ptr = to_bytes 4 v, response_status = TLM_OK_RESPONSE\<rparr>"
  obtain c where c: "clint_transport mip_clint_target ?tr (quantum_keeper s) (clint_of s) =
      (Ok (?tr, quantum_keeper s + 20000), c)" "elem 4 (regs_msip c) 0 = v AND 1"
      "bit (target_harts c ! 0) 3 = bit v 0" "bit (target_harts c ! 0) 7 = bit (mip (csrs s)) 7"
    using mip_clint.software_interrupt [OF assms(5), of 0 0 ?tr v "quantum_keeper s"] by (auto simp: clint_of_def)
  let ?s = "atomic_unlock (s\<lparr>quantum_keeper := quantum_keeper s + 20000,
    world := (world s)\<lparr>devs := (c, snd (devs (world s)))\<rparr>, csrs := (csrs s)\<lparr>mip := target_harts c ! 0\<rparr>\<rparr>)"
  have "do_transaction env TLM_WRITE_COMMAND 0x02000000 (to_bytes 4 v) s = (Ok (to_bytes 4 v),
      s\<lparr>quantum_keeper := quantum_keeper s + 20000, world := (world s)\<lparr>devs := (c, snd (devs (world s)))\<rparr>,
        csrs := (csrs s)\<lparr>mip := target_harts c ! 0\<rparr>\<rparr>)"
    using c(1) assms(1)
    by (simp add: do_transaction_def test32_isock_clint [OF assms(2)] on_clint_def clint_of_def seqM_def bindM_def zoomM_def
        get_shared_def put_shared_def is_response_error_def assertM_def)
  then have "raw_store_data env 4 0x02000000 v s = (Ok (), ?s)"
    by (rule raw_store_data_bus [OF assms(3,4)])
  then show ?thesis
    using c(2-4) line_pending [of ?s 3] by (intro exI [of _ ?s]) (simp add: clint_of_def)
qed

section \<open>Booting\<close>

lemma map_ports_tiny: "memory_placed opt \<Longrightarrow> map_ports (tiny_ports opt) = Inr (tiny_ports opt)"
  using memory_placed_end [of opt]
  by (auto simp: map_ports_def tiny_ports_def port_ok_port word_le_nat_alt) (auto simp: memory_placed_def word_less_nat_alt)

lemma boot_memory_image:
  fixes offset msize :: u32
  assumes "unat offset + unat msize < 2 ^ 32" and "get_load_sections Elf32Types elf = Inr ps"
    and "image_segments Elf32Types elf uv (unat msize) (unat offset) ps = Inr gs"
    and "\<forall>g \<in> set gs. segment_fits elf (unat msize) (unat offset) g"
  shows "\<exists>m. boot_memory Elf32Types elf offset uv (SimpleMemory_init msize False) = Inr m \<and>
    length (mem_data m) = unat msize \<and> (\<forall>i < unat msize. mem_data m ! i = image_byte elf gs (unat offset + i) 0)"
proof -
  let ?m = "SimpleMemory_init msize False"
  have w: "phdr_width Elf32Types LENGTH(32)" "LENGTH(32) \<le> 64" by (simp_all add: phdr_widths)
  have l: "length (mem_data ?m) = unat msize" by (simp add: SimpleMemory_init_def)
  have "unat offset + unat msize < 2 ^ LENGTH(32)" using assms(1) by simp
  from simple_memory.load_image [OF w this assms(2-4) memory_init_wf [of msize False] l]
  show ?thesis by (auto simp: boot_memory_def run_memory_def SimpleMemory_init_def)
qed

text \<open>The bytes of a word that a direct mapping finds in the array of the memory.\<close>

lemma phys_load_image:
  assumes "dmi_contains d addr" and "dmi_mem d = 0" and "get_mem_ptr_to_global_addr d n addr = Inr o'"
    and "o' + n \<le> length (h 0)" and "\<And>i. i < n \<Longrightarrow> h 0 ! (o' + i) = f i"
  shows "phys_load [d] h n addr = Some (of_bytes (map f [0..<n]))"
proof -
  have "take n (drop o' (h 0)) = map f [0..<n]" using assms(4,5) by (intro nth_equalityI) simp_all
  then show ?thesis using assms(1-4) by (simp add: phys_load_def dmi_load_def array_read_def)
qed

lemma fetches_start:
  assumes "phys_load [d] (host w) 4 (ucast entry) = Some (ucast x)" and "entry AND 0x3 = 0" and "\<not> is_locked (bus_lock w)"
  shows "fetches x (init entry sp (ISS_init k e CombinedMemory [d] m w))"
proof -
  have "entry AND 0x1 = (entry AND 0x3) AND 0x1" by (rule bit_word_eqI) (auto simp: bit_simps)
  then show ?thesis
    using assms
    by (simp add: fetches_def untranslated_def access_mode_def has_access_def pc_alignment_mask_def reg_def init_def
        ISS_init_def set_reg_def RegFile_init_def)
qed


section \<open>Examples\<close>

text \<open>A platform \<open>test32\<close> with 64 bytes of memory.\<close>

definition soc_options :: TestOptions where
  "soc_options = TestOptions_init\<lparr>opt_mem_size := 64, opt_mem_end := 63\<rparr>"

definition soc_hart :: "(u32 CLINT \<times> unit) ISS" where
  "soc_hart = init 0 60 (ISS_init 0 False CombinedMemory [] None
     (start_world [SimpleMemory_init 64 False] (CLINT_init [0] 0, ())))"

definition soc_env :: "(u32 CLINT \<times> unit) env" where
  "soc_env = \<lparr>sf = sf_example, wait_lock_event = (\<lambda>_. None), wait_wfi_event = (\<lambda>_. None),
     isock = test32_isock soc_options (\<lambda>tr d. ret (tr, d)),
     update_and_get_mtime = (\<lambda>w. (0, w)), need_sync = (\<lambda>_ _. False), sync = (\<lambda>_ w. w), sys = None\<rparr>"

lemma soc_facts:
  "isock soc_env = test32_isock soc_options (\<lambda>tr d. ret (tr, d))" "memory_placed soc_options"
  "opt_mem_size soc_options = 64" "opt_mem_start soc_options = 0" "opt_mem_end soc_options = 63"
  "has_access soc_hart" "length (host (world soc_hart) 0) = 64" "dmi_ranges soc_hart = []"
  by (simp_all add: soc_env_def soc_options_def memory_placed_def options_init_simps soc_hart_def init_def ISS_init_def
      has_access_def start_world_def BusLock_init_def is_locked_def SimpleMemory_init_def set_reg_def)

lemma soc_clint: "clint_wf (clint_of soc_hart)"
proof -
  have "clint_of soc_hart = CLINT_init [0] 0"
    by (simp add: clint_of_def soc_hart_def init_def ISS_init_def start_world_def set_reg_def CLINT_init_def csr_table_init_def)
  then show ?thesis using clint_init_wf [of "[0]" 0] by simp
qed

theorem dmi_equivalent_to_bus_witness:
  "\<exists>d v. map_dmi 0 0 (SimpleMemory_init 64 False) = Inr d \<and>
     fst (raw_load_data soc_env 4 8 (soc_hart\<lparr>dmi_ranges := [d]\<rparr>)) = Ok v \<and>
     fst (raw_load_data soc_env 4 8 (soc_hart\<lparr>dmi_ranges := []\<rparr>)) = Ok v"
proof -
  let ?m = "SimpleMemory_init 64 False"
  have ms: "mem_size ?m = opt_mem_size soc_options" by (simp add: SimpleMemory_init_def soc_facts)
  obtain d where d: "map_dmi 0 (opt_mem_start soc_options) ?m = Inr d"
    using map_dmi_memory [OF soc_facts(2) ms, of 0] by blast
  have "in_memory soc_options 8 4" by (simp add: in_memory_def soc_facts)
  from dmi_equivalent_to_bus [OF soc_facts(1,2) this _ soc_facts(6) d ms, of 0] d show ?thesis
    by (auto simp: soc_facts)
qed

theorem software_interrupt_over_bus_witness:
  "\<exists>s'. raw_store_data soc_env 4 0x02000000 1 soc_hart = (Ok (), s') \<and> bit (mip (csrs s')) 3"
  using software_interrupt_over_bus [OF soc_facts(1) _ soc_facts(6) _ soc_clint, of 1] by (auto simp: soc_facts)


end
