(* ===== verification/Gdb.thy ===== *)
theory Gdb
  imports CStruct "HOL-Library.Signed_Division"
begin

text \<open>
  The protocol of the debugger, \<open>core/common/gdb-mc/libgdb\<close>: checksums, run-length decoding, escapes and the
  packets that the server sends (\<open>util.c\<close>, \<open>response.c\<close>), and the two stages of reading a packet
  (\<open>parser1.c\<close>, \<open>parser2.c\<close>). The grammar of commands is written with a library of parser combinators that is not
  part of the repository; the parser of the second stage is a parameter.
\<close>

section \<open>Packets\<close>

datatype gdb_kind = GDB_KIND_NOTIFY | GDB_KIND_PACKET | GDB_KIND_NACK | GDB_KIND_ACK

record gdb_packet =
  pkt_kind :: gdb_kind
  pkt_data :: "string option"
  pkt_csum :: string

text \<open>The value of a \<open>char\<close>, which is signed.\<close>

definition schar :: "char \<Rightarrow> int" where
  "schar c = (let n = of_char c in if n < 128 then n else n - 256)"

definition calc_csum :: "string \<Rightarrow> int" where
  "calc_csum data = sum_list (map schar data) smod 256"

text \<open>\<open>%.2x\<close> of an \<open>int\<close>: a negative number has eight digits.\<close>

definition format_csum :: "int \<Rightarrow> string" where
  "format_csum csum = (if 0 \<le> csum then hex_digits 2 (nat csum) else hex_digits 8 (nat (csum mod 2 ^ 32)))"

definition gdb_is_valid :: "gdb_packet \<Rightarrow> sim_error + bool" where
  "gdb_is_valid pkt = (case pkt_data pkt of
     None \<Rightarrow> Inr True
   | Some data \<Rightarrow>
       let strcsum = format_csum (calc_csum data) in
       if length strcsum \<noteq> 2 then Inl AssertionFailed else Inr (pkt_csum pkt = strcsum))"

definition kind_to_char :: "gdb_kind \<Rightarrow> char" where
  "kind_to_char kind = (case kind of
     GDB_KIND_NOTIFY \<Rightarrow> CHR ''#''
   | GDB_KIND_PACKET \<Rightarrow> CHR ''$''
   | GDB_KIND_NACK \<Rightarrow> CHR ''-''
   | GDB_KIND_ACK \<Rightarrow> CHR ''+'')"

text \<open>The buffer has room for a checksum of two digits; otherwise the program ends.\<close>

definition gdb_serialize :: "gdb_kind \<Rightarrow> string \<Rightarrow> sim_error + string" where
  "gdb_serialize kind data =
     (if kind = GDB_KIND_NACK \<or> kind = GDB_KIND_ACK then
        (if data = [] then Inr [kind_to_char kind] else Inl AssertionFailed)
      else let csum = format_csum (calc_csum data); serialized = kind_to_char kind # data @ CHR ''#'' # csum in
        if length serialized \<ge> length data + 2 + 3 then Inl ProgramExit else Inr serialized)"

section \<open>Decoding\<close>

abbreviation (input) GDB_RUNLEN_CHAR :: char where "GDB_RUNLEN_CHAR \<equiv> CHR ''*''"
abbreviation (input) GDB_RUNLEN_OFF :: int where "GDB_RUNLEN_OFF \<equiv> 29"
abbreviation (input) GDB_ESCAPE_CHAR :: char where "GDB_ESCAPE_CHAR \<equiv> CHR ''}''"

text \<open>
  The loop of \<open>gdb_decode_runlen\<close>: the previous character, \<open>runlen\<close> (\<open>-1\<close> when unset), what is left of the data and
  the output. \<open>Inr None\<close> is the null pointer of an error.
\<close>

fun decode_runlen :: "char option \<Rightarrow> int \<Rightarrow> string \<Rightarrow> string \<Rightarrow> sim_error + string option" where
  "decode_runlen prev runlen [] ndat = Inr (Some ndat)"
| "decode_runlen prev runlen (c # data) ndat =
     (if c = GDB_RUNLEN_CHAR then
        (case prev of None \<Rightarrow> Inr None | Some p \<Rightarrow> decode_runlen (Some c) (schar p) data ndat)
      else if runlen = - 1 then
        (if schar c < 0 then Inl AssertionFailed
         else decode_runlen (Some c) (- 1) data (ndat @ [c]))
      else if schar c - GDB_RUNLEN_OFF \<le> 0 then Inr None
      else if runlen < 0 then Inl AssertionFailed
      else decode_runlen (Some c) (- 1) data (ndat @ replicate (nat (schar c - GDB_RUNLEN_OFF)) (char_of runlen)))"

definition gdb_decode_runlen :: "string \<Rightarrow> sim_error + string option" where
  "gdb_decode_runlen data = decode_runlen None (- 1) data []"

text \<open>\<open>data[i] ^ GDB_ESCAPE_BYTE\<close>\<close>

definition flip_escape :: "char \<Rightarrow> char" where
  "flip_escape c = char_of (of_char c XOR 0x20 :: int)"

fun unescape_from :: "bool \<Rightarrow> string \<Rightarrow> string" where
  "unescape_from esc [] = []"
| "unescape_from esc (c # data) =
     (if c = GDB_ESCAPE_CHAR then unescape_from True data
      else (if esc then flip_escape c else c) # unescape_from False data)"

definition gdb_unescape :: "string \<Rightarrow> string" where
  "gdb_unescape data = unescape_from False data"

section \<open>Commands\<close>

abbreviation (input) GDB_THREAD_ANY :: int where "GDB_THREAD_ANY \<equiv> 0"
abbreviation (input) GDB_THREAD_ALL :: int where "GDB_THREAD_ALL \<equiv> - 1"

record gdb_thread =
  gdb_pid :: int
  gdb_tid :: int

datatype gdb_ztype = GDB_ZKIND_SOFT | GDB_ZKIND_HARD | GDB_ZKIND_WATCHW | GDB_ZKIND_WATCHR | GDB_ZKIND_WATCHA

record gdb_vcont =
  vc_action :: char
  vc_sig :: int
  vc_thread :: gdb_thread

datatype gdb_argument =
    GDB_ARG_NONE
  | GDB_ARG_VCONT "gdb_vcont list"
  | GDB_ARG_H char gdb_thread
  | GDB_ARG_INT int
  | GDB_ARG_MEMORY u64 u64
  | GDB_ARG_MEMORYW u64 u64 string
  | GDB_ARG_BREAK gdb_ztype u64 u64
  | GDB_ARG_THREAD gdb_thread

record gdb_command =
  cmd_name :: string
  cmd_arg :: gdb_argument

definition gdb_parse_cmd :: "(string \<Rightarrow> gdb_command option) \<Rightarrow> gdb_packet \<Rightarrow> sim_error + gdb_command option" where
  "gdb_parse_cmd stage2 pkt =
     (if pkt_kind pkt \<noteq> GDB_KIND_PACKET then Inr None
      else bindE (gdb_is_valid pkt) (\<lambda>valid.
        if \<not> valid then Inr None
        else case pkt_data pkt of
          None \<Rightarrow> Inl NullPointer
        | Some d \<Rightarrow> bindE (gdb_decode_runlen d) (\<lambda>r. case r of
            None \<Rightarrow> Inr None
          | Some data \<Rightarrow> Inr (stage2 (gdb_unescape data)))))"

section \<open>Round trips\<close>

text \<open>What a debugger does with a command before it sends it: the bytes that have a meaning are escaped.\<close>

definition special :: "char \<Rightarrow> bool" where
  "special c \<longleftrightarrow> c \<in> {CHR ''#'', CHR ''$'', CHR ''}'', CHR ''*''}"

fun gdb_escape :: "string \<Rightarrow> string" where
  "gdb_escape [] = []"
| "gdb_escape (c # s) = (if special c then [GDB_ESCAPE_CHAR, flip_escape c] else [c]) @ gdb_escape s"

definition ascii :: "char \<Rightarrow> bool" where
  "ascii c \<longleftrightarrow> (of_char c :: int) < 128"

lemma ascii_schar [simp]: "ascii c \<Longrightarrow> schar c = of_char c" "0 \<le> (of_char c :: int)" "\<not> (of_char c :: int) < 0"
proof -
  show "0 \<le> (of_char c :: int)" using of_nat_of_char [of c, where 'a = int, symmetric] by simp
  then show "\<not> (of_char c :: int) < 0" by simp
qed (simp add: ascii_def schar_def Let_def)

lemma special_flip:
  assumes "special c"
  shows "flip_escape (flip_escape c) = c \<and> \<not> special (flip_escape c) \<and> ascii (flip_escape c)"
proof -
  have "list_all (\<lambda>c. flip_escape (flip_escape c) = c \<and> \<not> special (flip_escape c) \<and> ascii (flip_escape c))
      [CHR ''#'', CHR ''$'', CHR ''}'', CHR ''*'']"
    by code_simp
  then show ?thesis using assms by (auto simp: special_def)
qed

lemma unescape_escape: "gdb_unescape (gdb_escape s) = s"
proof -
  have "unescape_from False (gdb_escape s) = s"
  proof (induction s)
    case (Cons c s)
    show ?case
    proof (cases "special c")
      case True
      with special_flip [OF this] Cons show ?thesis by (auto simp: special_def)
    next
      case False
      with Cons show ?thesis by (auto simp: special_def)
    qed
  qed simp
  then show ?thesis by (simp add: gdb_unescape_def)
qed

lemma decode_runlen_plain:
  "list_all (\<lambda>c. ascii c \<and> c \<noteq> GDB_RUNLEN_CHAR) s \<Longrightarrow> decode_runlen p (- 1) s nd = Inr (Some (nd @ s))"
  by (induction s arbitrary: p nd) auto

lemma escape_plain:
  "list_all ascii s \<Longrightarrow> list_all (\<lambda>c. ascii c \<and> c \<noteq> GDB_RUNLEN_CHAR) (gdb_escape s)"
proof (induction s)
  case (Cons c s)
  moreover have "ascii GDB_ESCAPE_CHAR" by code_simp
  ultimately show ?case using special_flip [of c] by (auto simp: special_def)
qed simp

lemma csum_ascii:
  assumes "list_all ascii s"
  shows "0 \<le> calc_csum s" and "calc_csum s < 256" and "length (format_csum (calc_csum s)) = 2"
proof -
  have "0 \<le> sum_list (map schar s)"
    using assms by (induction s) auto
  then have "calc_csum s = sum_list (map schar s) mod 256"
    by (simp add: calc_csum_def signed_modulo_int_def signed_divide_int_def sgn_if minus_div_mult_eq_mod)
  then show "0 \<le> calc_csum s" "calc_csum s < 256" by simp_all
  then show "length (format_csum (calc_csum s)) = 2" by (simp add: format_csum_def hex_digits_def)
qed

lemma escape_not_special: "c \<in> set (gdb_escape s) \<Longrightarrow> c = GDB_ESCAPE_CHAR \<or> \<not> special c"
proof (induction s)
  case (Cons d s)
  then show ?case using special_flip [of d] by (auto split: if_splits)
qed simp

lemma escape_no_delimiter: "CHR ''#'' \<notin> set (gdb_escape s)" "CHR ''$'' \<notin> set (gdb_escape s)"
  using escape_not_special [of "CHR ''#''" s] escape_not_special [of "CHR ''$''" s] by (auto simp: special_def)



end
