(* ===== verification/GdbServer.thy ===== *)
theory GdbServer
  imports Gdb Iss_Run Iss64_Run
begin

text \<open>
  The debug server, \<open>core/common/gdb-mc\<close>: \<open>gdb_server.cpp\<close>, \<open>handler.cpp\<close>, \<open>gdb_runner.cpp\<close> and
  \<open>register_format.cpp\<close>, with \<open>core/common/debug_memory.cpp\<close>. The thread of the server handles one packet per round; the
  socket is the list of the strings written to it. How the harts run until one of them stops is
  decided by the simulation kernel, a parameter.
\<close>

unbundle bit_operations_syntax

section \<open>Accesses to memory\<close>

type_synonym 'm dbg_target = "tlm_generic_payload \<Rightarrow> ('m, tlm_generic_payload \<times> nat) act"

definition do_dbg_transaction :: "'m dbg_target \<Rightarrow> tlm_command \<Rightarrow> u64 \<Rightarrow> u8 list \<Rightarrow> ('m, u8 list \<times> nat) act" where
  "do_dbg_transaction tdbg cmd addr buf =
     bindM (tdbg \<lparr>command = cmd, address = addr, data_ptr = buf, response_status = TLM_OK_RESPONSE\<rparr>) (\<lambda>(tr, nbytes).
       if is_response_error tr then failM RuntimeError else ret (data_ptr tr, nbytes))"

definition read_memory :: "'m dbg_target \<Rightarrow> u64 \<Rightarrow> nat \<Rightarrow> ('m, string) act" where
  "read_memory tdbg start nbytes =
     bindM (do_dbg_transaction tdbg TLM_READ_COMMAND start (replicate nbytes 0)) (\<lambda>(buf, nbytes_read).
     seqM (assertM (\<lambda>_. nbytes_read = nbytes)) (ret (concat (map (\<lambda>b. hex_digits 2 (unat b)) buf))))"

text \<open>\<open>strtol\<close> of two characters, which the grammar of the packet makes hexadecimal digits.\<close>

definition hex_byte :: "char \<Rightarrow> char \<Rightarrow> u8" where
  "hex_byte a b = of_nat (digit_value a * 16 + digit_value b)"

text \<open>The buffer after the loop over \<open>i\<close> and \<open>j\<close>, which goes on while \<open>i + 1 < nbytes\<close>.\<close>

definition hex_buffer :: "nat \<Rightarrow> string \<Rightarrow> u8 list" where
  "hex_buffer nbytes str =
     map (\<lambda>j. if 2 * j + 1 < nbytes then hex_byte (str ! (2 * j)) (str ! (2 * j + 1)) else 0) [0..<length str div 2]"

definition write_memory :: "'m dbg_target \<Rightarrow> u64 \<Rightarrow> nat \<Rightarrow> string \<Rightarrow> ('m, unit) act" where
  "write_memory tdbg start nbytes str =
     seqs [assertM (\<lambda>_. length str mod 2 = 0), assertM (\<lambda>_. length str div 2 = nbytes),
       bindM (do_dbg_transaction tdbg TLM_WRITE_COMMAND start (hex_buffer nbytes str)) (\<lambda>(buf, nbytes_write).
         assertM (\<lambda>_. nbytes_write = nbytes))]"

section \<open>Numbers in packets\<close>

text \<open>The registers are sent with the least significant byte first.\<close>

definition formatRegister :: "Architecture \<Rightarrow> u64 \<Rightarrow> sim_error + string" where
  "formatRegister arch value = (case arch of
     RV32 \<Rightarrow> Inr (hex_digits 8 (unat (of_bytes (rev (to_bytes 4 value)))))
   | RV64 \<Rightarrow> Inr (hex_digits 16 (unat (of_bytes (rev (to_bytes 8 value)))))
   | RV128 \<Rightarrow> Inl InvalidArgument)"

fun to_string :: "nat \<Rightarrow> string" where
  "to_string n = (if n < 10 then [] else to_string (n div 10)) @ [char_of (48 + n mod 10)]"

declare to_string.simps [simp del]

section \<open>The harts\<close>

text \<open>\<open>debug_target_if\<close> of \<open>core/common/debug.h\<close>.\<close>

record 'h debug_target =
  dt_enable_debug :: "'h \<Rightarrow> 'h"
  dt_get_status :: "'h \<Rightarrow> CoreExecStatus"
  dt_set_status :: "CoreExecStatus \<Rightarrow> 'h \<Rightarrow> 'h"
  dt_block_on_wfi :: "bool \<Rightarrow> 'h \<Rightarrow> 'h"
  dt_insert_breakpoint :: "u64 \<Rightarrow> 'h \<Rightarrow> 'h"
  dt_remove_breakpoint :: "u64 \<Rightarrow> 'h \<Rightarrow> 'h"
  dt_get_architecture :: "'h \<Rightarrow> Architecture"
  dt_get_hart_id :: "'h \<Rightarrow> u64"
  dt_get_progam_counter :: "'h \<Rightarrow> u64"
  dt_get_registers :: "'h \<Rightarrow> u64 list"
  dt_read_register :: "u32 \<Rightarrow> ('h, u64) act"

definition iss_debug_target :: "'d ISS debug_target" where
  "iss_debug_target =
     \<lparr>dt_enable_debug = enable_debug, dt_get_status = get_status, dt_set_status = set_status,
      dt_block_on_wfi = block_on_wfi, dt_insert_breakpoint = insert_breakpoint,
      dt_remove_breakpoint = remove_breakpoint, dt_get_architecture = (\<lambda>_. RV32),
      dt_get_hart_id = (\<lambda>h. ucast (get_hart_id h)), dt_get_progam_counter = get_progam_counter,
      dt_get_registers = get_registers, dt_read_register = read_register\<rparr>"

definition iss_debug_target64 :: "'d ISS64 debug_target" where
  "iss_debug_target64 =
     \<lparr>dt_enable_debug = enable_debug64, dt_get_status = get_status64, dt_set_status = set_status64,
      dt_block_on_wfi = block_on_wfi64, dt_insert_breakpoint = insert_breakpoint64,
      dt_remove_breakpoint = remove_breakpoint64, dt_get_architecture = (\<lambda>_. RV64),
      dt_get_hart_id = get_hart_id64, dt_get_progam_counter = get_progam_counter64,
      dt_get_registers = get_registers64, dt_read_register = read_register64\<rparr>"

text \<open>\<open>GDBServerRunner\<close>: what its constructor does to the hart, and one round of its thread. \<open>None\<close> is a run without end.\<close>

definition GDBServerRunner_init :: "'h debug_target \<Rightarrow> 'h \<Rightarrow> 'h" where
  "GDBServerRunner_init dt h = dt_enable_debug dt h"

definition GDBServerRunner_round :: "'d env \<Rightarrow> bool \<Rightarrow> 'd ISS \<Rightarrow> (unit outcome \<times> 'd ISS) option" where
  "GDBServerRunner_round env single h =
     (if single then Some (seqM (run_step env)
        (modifyM (\<lambda>s. if get_status s = Runnable then set_status HitBreakpoint s else s)) h)
      else run env h)"

definition GDBServerRunner_round64 :: "'d env64 \<Rightarrow> bool \<Rightarrow> 'd ISS64 \<Rightarrow> (unit outcome \<times> 'd ISS64) option" where
  "GDBServerRunner_round64 env single h =
     (if single then Some (seqM (run_step64 env)
        (modifyM (\<lambda>s. if get_status64 s = Runnable then set_status64 HitBreakpoint s else s)) h)
      else run64 env h)"

section \<open>The server\<close>

record ('h, 'm) GDBServer =
  gdb_harts :: "'h list"
  gdb_bus :: 'm
  gdb_prevpkt :: "string option"
  thread_ops :: "char \<rightharpoonup> int"
  single_run :: bool
  gdb_sent :: "string list"

text \<open>
  The environment of the server: the harts and the bus behind the interfaces they are known by, the
  MMUs if there are any, the parser of commands, whether the connection takes what is written to it, and the
  kernel: \<open>wait_any\<close> runs the given harts until the first of them stops, \<open>wait_stop\<close> until the given one has
  stopped.
\<close>

record ('h, 'm) gdb_env =
  gdb_target :: "'h debug_target"
  gdb_tdbg :: "'m dbg_target"
  gdb_v2p :: "(u64 \<Rightarrow> MemoryAccessType \<Rightarrow> ('h, u64) act) option"
  gdb_stage2 :: "string \<Rightarrow> gdb_command option"
  gdb_link :: bool
  wait_any :: "bool \<Rightarrow> nat list \<Rightarrow> 'h list \<times> 'm \<Rightarrow> 'h list \<times> 'm"
  wait_stop :: "nat \<Rightarrow> 'h list \<times> 'm \<Rightarrow> 'h list \<times> 'm"

type_synonym ('h, 'm, 'a) gdb_act = "(('h, 'm) GDBServer, 'a) act"

definition GDBServer_init :: "'h debug_target \<Rightarrow> 'h list \<Rightarrow> nat \<Rightarrow> 'm \<Rightarrow> sim_error + ('h, 'm) GDBServer" where
  "GDBServer_init dt targets n_mmus b =
     (if targets = [] then Inl InvalidArgument
      else if n_mmus > 0 \<and> n_mmus \<noteq> length targets then Inl InvalidArgument
      else Inr \<lparr>gdb_harts = map (dt_block_on_wfi dt False) targets, gdb_bus = b, gdb_prevpkt = None,
        thread_ops = Map.empty, single_run = False, gdb_sent = []\<rparr>)"

definition gdb_arch :: "('h, 'm) gdb_env \<Rightarrow> ('h, 'm) GDBServer \<Rightarrow> Architecture" where
  "gdb_arch env s = dt_get_architecture (gdb_target env) (gdb_harts s ! 0)"

definition on_gdb_hart :: "nat \<Rightarrow> ('h, 'a) act \<Rightarrow> ('h, 'm, 'a) gdb_act" where
  "on_gdb_hart i = zoomM (\<lambda>s. gdb_harts s ! i) (\<lambda>h s. s\<lparr>gdb_harts := (gdb_harts s)[i := h]\<rparr>)"

definition on_gdb_bus :: "('m, 'a) act \<Rightarrow> ('h, 'm, 'a) gdb_act" where
  "on_gdb_bus = zoomM gdb_bus (\<lambda>b s. s\<lparr>gdb_bus := b\<rparr>)"

definition get_threads :: "int \<Rightarrow> nat \<Rightarrow> sim_error + nat list" where
  "get_threads tid n =
     (let t = (if tid = GDB_THREAD_ANY then 1 else tid) in
      if t = GDB_THREAD_ALL then Inr [0..<n]
      else if t < 1 then Inl OutOfRange
      else if nat (t - 1) < n then Inr [nat (t - 1)]
      else Inl OutOfRange)"

definition translate_addr :: "('h, 'm) gdb_env \<Rightarrow> nat \<Rightarrow> u64 \<Rightarrow> MemoryAccessType \<Rightarrow> ('h, 'm, u64) gdb_act" where
  "translate_addr env i addr type = (case gdb_v2p env of
     None \<Rightarrow> ret addr
   | Some tr \<Rightarrow> on_gdb_hart i (tr addr type))"

text \<open>Calling a function for each thread, with the concatenation of the results.\<close>

fun collect :: "(nat \<Rightarrow> ('s, string) act) \<Rightarrow> nat list \<Rightarrow> ('s, string) act" where
  "collect fn [] = ret []"
| "collect fn (i # is) = bindM (fn i) (\<lambda>x. bindM (collect fn is) (\<lambda>y. ret (x @ y)))"

definition exec_thread :: "(nat \<Rightarrow> ('h, 'm, string) gdb_act) \<Rightarrow> char \<Rightarrow> ('h, 'm, string) gdb_act" where
  "exec_thread fn op' =
     bindM (getsM (\<lambda>s. case thread_ops s op' of None \<Rightarrow> GDB_THREAD_ANY | Some t \<Rightarrow> t)) (\<lambda>thread.
     bindM (getsM (\<lambda>s. length (gdb_harts s))) (\<lambda>n.
     bindM (liftE (get_threads thread n)) (\<lambda>threads. collect fn threads)))"

subsection \<open>Sending packets\<close>

definition writeall :: "('h, 'm) gdb_env \<Rightarrow> string \<Rightarrow> ('h, 'm, unit) gdb_act" where
  "writeall env str = (if gdb_link env then modifyM (\<lambda>s. s\<lparr>gdb_sent := gdb_sent s @ [str]\<rparr>) else failM SystemError)"

text \<open>A handler for the exceptions of one kind.\<close>

definition catchE :: "sim_error \<Rightarrow> ('s, 'a) act \<Rightarrow> ('s, 'a) act \<Rightarrow> ('s, 'a) act" where
  "catchE e handler m s = (case m s of
     (Fail e', s') \<Rightarrow> if e' = e then handler s' else (Fail e', s')
   | r \<Rightarrow> r)"

definition gdb_send_packet :: "('h, 'm) gdb_env \<Rightarrow> string \<Rightarrow> gdb_kind \<Rightarrow> ('h, 'm, unit) gdb_act" where
  "gdb_send_packet env data kind =
     bindM (liftE (gdb_serialize kind data)) (\<lambda>serialized.
     catchE SystemError (ret ())
       (seqM (writeall env serialized)
         (if kind \<noteq> GDB_KIND_PACKET then ret () else modifyM (\<lambda>s. s\<lparr>gdb_prevpkt := Some serialized\<rparr>))))"

definition retransmit :: "('h, 'm) gdb_env \<Rightarrow> ('h, 'm, unit) gdb_act" where
  "retransmit env = bindM (getsM gdb_prevpkt) (\<lambda>p. case p of
     None \<Rightarrow> ret ()
   | Some str \<Rightarrow> catchE SystemError (ret ()) (writeall env str))"

abbreviation (input) reply :: "('h, 'm) gdb_env \<Rightarrow> string \<Rightarrow> ('h, 'm, unit) gdb_act" where
  "reply env data \<equiv> gdb_send_packet env data GDB_KIND_PACKET"

subsection \<open>Running harts\<close>

definition run_kernel :: "('h list \<times> 'm \<Rightarrow> 'h list \<times> 'm) \<Rightarrow> ('h, 'm, unit) gdb_act" where
  "run_kernel f = modifyM (\<lambda>s. case f (gdb_harts s, gdb_bus s) of (hs, b) \<Rightarrow> s\<lparr>gdb_harts := hs, gdb_bus := b\<rparr>)"

definition set_hart_status :: "('h, 'm) gdb_env \<Rightarrow> nat \<Rightarrow> CoreExecStatus \<Rightarrow> ('h, 'm, unit) gdb_act" where
  "set_hart_status env i st = on_gdb_hart i (modifyM (dt_set_status (gdb_target env) st))"

definition hart_status :: "('h, 'm) gdb_env \<Rightarrow> ('h, 'm) GDBServer \<Rightarrow> nat \<Rightarrow> CoreExecStatus" where
  "hart_status env s i = dt_get_status (gdb_target env) (gdb_harts s ! i)"

text \<open>The loop that stops all harts that still run, and the statuses it has found.\<close>

fun stop_harts :: "('h, 'm) gdb_env \<Rightarrow> nat list \<Rightarrow> ('h, 'm, CoreExecStatus list) gdb_act" where
  "stop_harts env [] = ret []"
| "stop_harts env (i # is) =
     bindM (getsM (\<lambda>s. hart_status env s i)) (\<lambda>st.
     seqM (if st \<noteq> Runnable then ret ()
           else seqM (set_hart_status env i HitBreakpoint) (run_kernel (wait_stop env i)))
       (bindM (stop_harts env is) (\<lambda>sts. ret (st # sts))))"

definition run_threads :: "('h, 'm) gdb_env \<Rightarrow> nat list \<Rightarrow> bool \<Rightarrow> ('h, 'm, nat list) gdb_act" where
  "run_threads env hartsrun single =
     (if hartsrun = [] then ret hartsrun
      else seqM (modifyM (\<lambda>s. s\<lparr>single_run := single\<rparr>))
        (seqM (run_kernel (wait_any env single hartsrun))
          (bindM (stop_harts env hartsrun) (\<lambda>orig_status.
           seqM (seqs (map (\<lambda>(i, st). set_hart_status env i st) (zip hartsrun orig_status))) (ret hartsrun)))))"

section \<open>Commands\<close>

text \<open>
  A handler reads the member of the union that belongs to its command; a command of another type has not
  set it.
\<close>

definition haltReason :: "('h, 'm) gdb_env \<Rightarrow> ('h, 'm, unit) gdb_act" where
  "haltReason env = reply env ''S05''"

definition getRegisters :: "('h, 'm) gdb_env \<Rightarrow> ('h, 'm, unit) gdb_act" where
  "getRegisters env =
     bindM (exec_thread (\<lambda>i. bindM (getsM (\<lambda>s. (gdb_arch env s, dt_get_registers (gdb_target env) (gdb_harts s ! i)))) (\<lambda>(arch, vs).
         collect (\<lambda>k. liftE (formatRegister arch (vs ! k))) [0..<length vs])) CHR ''g'') (reply env)"

definition setThread :: "('h, 'm) gdb_env \<Rightarrow> gdb_argument \<Rightarrow> ('h, 'm, unit) gdb_act" where
  "setThread env arg = (case arg of
     GDB_ARG_H op' t \<Rightarrow> seqM (modifyM (\<lambda>s. s\<lparr>thread_ops := (thread_ops s)(op' \<mapsto> gdb_tid t)\<rparr>)) (reply env ''OK'')
   | _ \<Rightarrow> failM OutOfRange)"

definition killServer :: "('h, 'm, unit) gdb_act" where
  "killServer = failM ProgramExit"

definition readMemory :: "('h, 'm) gdb_env \<Rightarrow> gdb_argument \<Rightarrow> ('h, 'm, unit) gdb_act" where
  "readMemory env arg = (case arg of
     GDB_ARG_MEMORY addr len \<Rightarrow>
       seqM (assertM (\<lambda>_. len \<le> 0xFFFFFFFF))
         (bindM (catchE RuntimeError (ret None)
            (bindM (exec_thread (\<lambda>i. bindM (translate_addr env i addr LOAD) (\<lambda>a.
                on_gdb_bus (read_memory (gdb_tdbg env) a (unat len)))) CHR ''g'') (\<lambda>x. ret (Some x))))
           (\<lambda>r. case r of None \<Rightarrow> reply env ''E01'' | Some retval \<Rightarrow> reply env retval))
   | _ \<Rightarrow> failM OutOfRange)"

definition writeMemory :: "('h, 'm) gdb_env \<Rightarrow> gdb_argument \<Rightarrow> ('h, 'm, unit) gdb_act" where
  "writeMemory env arg = (case arg of
     GDB_ARG_MEMORYW addr len str \<Rightarrow>
       seqM (assertM (\<lambda>_. len \<le> 0xFFFFFFFF))
         (bindM (catchE RuntimeError (ret False)
            (bindM (exec_thread (\<lambda>i. bindM (translate_addr env i addr STORE) (\<lambda>a.
                seqM (on_gdb_bus (write_memory (gdb_tdbg env) a (unat len) str)) (ret []))) CHR ''g'') (\<lambda>_. ret True)))
           (\<lambda>ok. reply env (if ok then ''OK'' else ''E01'')))
   | _ \<Rightarrow> failM OutOfRange)"

abbreviation (input) GDB_PC_REG :: int where "GDB_PC_REG \<equiv> 32"

definition readRegister :: "('h, 'm) gdb_env \<Rightarrow> gdb_argument \<Rightarrow> ('h, 'm, unit) gdb_act" where
  "readRegister env arg = (case arg of
     GDB_ARG_INT r \<Rightarrow>
       bindM (catchE OutOfRange (ret None)
         (bindM (exec_thread (\<lambda>i.
            bindM (if r = GDB_PC_REG then getsM (\<lambda>s. dt_get_progam_counter (gdb_target env) (gdb_harts s ! i))
                   else on_gdb_hart i (dt_read_register (gdb_target env) (of_int r))) (\<lambda>v.
            bindM (getsM (gdb_arch env)) (\<lambda>arch. liftE (formatRegister arch v)))) CHR ''g'') (\<lambda>x. ret (Some x))))
         (\<lambda>res. case res of None \<Rightarrow> reply env ''E01'' | Some str \<Rightarrow> reply env str)
   | _ \<Rightarrow> failM OutOfRange)"

text \<open>The list of the harts that have not terminated.\<close>

definition thread_list :: "'h debug_target \<Rightarrow> 'h list \<Rightarrow> string" where
  "thread_list dt hs = ''m'' @ concat (map (\<lambda>i.
     if dt_get_status dt (hs ! i) = Terminated then []
     else to_string (unat (dt_get_hart_id dt (hs ! i)) + 1) @ (if i + 1 < length hs then '','' else [])) [0..<length hs])"

definition threadInfo :: "('h, 'm) gdb_env \<Rightarrow> ('h, 'm, unit) gdb_act" where
  "threadInfo env = bindM (getsM (\<lambda>s. thread_list (gdb_target env) (gdb_harts s))) (reply env)"

definition threadInfoEnd :: "('h, 'm) gdb_env \<Rightarrow> ('h, 'm, unit) gdb_act" where
  "threadInfoEnd env = reply env ''l''"

definition qAttached :: "('h, 'm) gdb_env \<Rightarrow> ('h, 'm, unit) gdb_act" where
  "qAttached env = reply env ''0''"

definition qSupported :: "('h, 'm) gdb_env \<Rightarrow> ('h, 'm, unit) gdb_act" where
  "qSupported env = reply env (''vContSupported+;PacketSize='' @ to_string 4096)"

definition isAlive :: "('h, 'm) gdb_env \<Rightarrow> gdb_argument \<Rightarrow> ('h, 'm, unit) gdb_act" where
  "isAlive env arg = (case arg of
     GDB_ARG_THREAD t \<Rightarrow> bindM (getsM (\<lambda>s. length (gdb_harts s))) (\<lambda>n.
       reply env (case get_threads (gdb_tid t) n of Inl _ \<Rightarrow> ''E01'' | Inr _ \<Rightarrow> ''OK''))
   | _ \<Rightarrow> failM OutOfRange)"

text \<open>
  The loop of \<open>vCont\<close> over the harts that ran: the last one that has stopped gives the reason and the thread.
  A hart that has hit a breakpoint is runnable again.
\<close>

fun stop_reply :: "('h, 'm) gdb_env \<Rightarrow> (string \<times> int) option \<Rightarrow> nat list \<Rightarrow> ('h, 'm, (string \<times> int) option) gdb_act" where
  "stop_reply env stop [] = ret stop"
| "stop_reply env stop (i # is) =
     bindM (getsM (\<lambda>s. (hart_status env s i, int (unat (dt_get_hart_id (gdb_target env) (gdb_harts s ! i))) + 1))) (\<lambda>(st, t).
       case st of
         HitBreakpoint \<Rightarrow> seqM (set_hart_status env i Runnable) (stop_reply env (Some (''05'', t)) is)
       | Terminated \<Rightarrow> stop_reply env (Some (''03'', t)) is
       | Runnable \<Rightarrow> stop_reply env stop is)"

text \<open>The loop over the actions; \<open>Inl\<close> is the return after an error reply.\<close>

fun vcont_actions ::
    "('h, 'm) gdb_env \<Rightarrow> nat list \<Rightarrow> (string \<times> int) option \<Rightarrow> gdb_vcont list \<Rightarrow> ('h, 'm, unit + (string \<times> int) option) gdb_act" where
  "vcont_actions env matched stop [] = ret (Inr stop)"
| "vcont_actions env matched stop (vc # vcs) =
     (if vc_action vc \<notin> {CHR ''s'', CHR ''c''} then failM InvalidArgument
      else bindM (getsM (\<lambda>s. get_threads (gdb_tid (vc_thread vc)) (length (gdb_harts s)))) (\<lambda>thr.
        case thr of
          Inl e \<Rightarrow> seqM (reply env ''E01'') (ret (Inl ()))
        | Inr is \<Rightarrow>
            bindM (run_threads env (filter (\<lambda>i. i \<notin> set matched) is) (vc_action vc = CHR ''s'')) (\<lambda>selected.
            bindM (stop_reply env stop selected) (\<lambda>stop'.
              vcont_actions env (if gdb_tid (vc_thread vc) > 0 then is @ matched else matched) stop' vcs))))"

definition vCont :: "('h, 'm) gdb_env \<Rightarrow> gdb_argument \<Rightarrow> ('h, 'm, unit) gdb_act" where
  "vCont env arg = (case arg of
     GDB_ARG_VCONT vcs \<Rightarrow>
       bindM (vcont_actions env [] None vcs) (\<lambda>r. case r of
         Inl _ \<Rightarrow> ret ()
       | Inr None \<Rightarrow> failM AssertionFailed
       | Inr (Some (reason, t)) \<Rightarrow>
           seqs [assertM (\<lambda>_. t \<ge> 1), modifyM (\<lambda>s. s\<lparr>thread_ops := (thread_ops s)(CHR ''g'' \<mapsto> t)\<rparr>),
             reply env (''T'' @ reason @ ''thread:'' @ to_string (nat t) @ '';'')])
   | _ \<Rightarrow> failM OutOfRange)"

definition vContSupported :: "('h, 'm) gdb_env \<Rightarrow> ('h, 'm, unit) gdb_act" where
  "vContSupported env = reply env ''vCont;c;C''"

definition removeBreakpoint :: "('h, 'm) gdb_env \<Rightarrow> gdb_argument \<Rightarrow> ('h, 'm, unit) gdb_act" where
  "removeBreakpoint env arg = (case arg of
     GDB_ARG_BREAK type addr kind \<Rightarrow>
       if type \<noteq> GDB_ZKIND_SOFT then reply env []
       else seqM (modifyM (\<lambda>s. s\<lparr>gdb_harts := map (dt_remove_breakpoint (gdb_target env) addr) (gdb_harts s)\<rparr>))
         (reply env ''OK'')
   | _ \<Rightarrow> failM OutOfRange)"

definition setBreakpoint :: "('h, 'm) gdb_env \<Rightarrow> gdb_argument \<Rightarrow> ('h, 'm, unit) gdb_act" where
  "setBreakpoint env arg = (case arg of
     GDB_ARG_BREAK type addr kind \<Rightarrow>
       if type \<noteq> GDB_ZKIND_SOFT then reply env []
       else seqM (modifyM (\<lambda>s. s\<lparr>gdb_harts := map (dt_insert_breakpoint (gdb_target env) addr) (gdb_harts s)\<rparr>))
         (reply env ''OK'')
   | _ \<Rightarrow> failM OutOfRange)"

definition handlers :: "('h, 'm) gdb_env \<Rightarrow> string \<rightharpoonup> (gdb_argument \<Rightarrow> ('h, 'm, unit) gdb_act)" where
  "handlers env = map_of
     [(''?'', \<lambda>_. haltReason env), (''g'', \<lambda>_. getRegisters env), (''H'', setThread env), (''k'', \<lambda>_. killServer),
      (''m'', readMemory env), (''M'', writeMemory env), (''p'', readRegister env), (''qAttached'', \<lambda>_. qAttached env),
      (''qSupported'', \<lambda>_. qSupported env), (''qfThreadInfo'', \<lambda>_. threadInfo env),
      (''qsThreadInfo'', \<lambda>_. threadInfoEnd env), (''T'', isAlive env), (''vCont'', vCont env),
      (''vCont?'', \<lambda>_. vContSupported env), (''z'', removeBreakpoint env), (''Z'', setBreakpoint env)]"

text \<open>One round of \<open>GDBServer::run\<close>, for the packet at the front of the queue.\<close>

definition gdb_run_round :: "('h, 'm) gdb_env \<Rightarrow> gdb_packet \<Rightarrow> ('h, 'm, unit) gdb_act" where
  "gdb_run_round env pkt =
     (if pkt_kind pkt = GDB_KIND_NACK then retransmit env
      else if pkt_kind pkt = GDB_KIND_ACK then ret ()
      else bindM (liftE (gdb_parse_cmd (gdb_stage2 env) pkt)) (\<lambda>c. case c of
          None \<Rightarrow> gdb_send_packet env [] GDB_KIND_NACK
        | Some cmd \<Rightarrow> seqM (gdb_send_packet env [] GDB_KIND_ACK)
            (case handlers env (cmd_name cmd) of
               None \<Rightarrow> reply env []
             | Some h \<Rightarrow> h (cmd_arg cmd))))"

text \<open>\<open>serve\<close> forgets the last packet when a connection ends.\<close>

definition end_connection :: "('h, 'm) GDBServer \<Rightarrow> ('h, 'm) GDBServer" where
  "end_connection s = s\<lparr>gdb_prevpkt := None\<rparr>"

end
