(* ===== verification/Gdb_Props.thy ===== *)
theory Gdb_Props
  imports GdbServer Iss_Step
begin

text \<open>
  The debug server on the harts: breakpoints stop them, a continued simulation ends with a reply that
  names a hart that has stopped, and what reading and writing memory does.
\<close>

unbundle bit_operations_syntax

section \<open>What the server relies on\<close>

text \<open>
  The laws of \<open>debug_target_if\<close>: a breakpoint is a set of addresses, which the hart may see through a
  conversion to its own width, and the status is a variable of its own.
\<close>

locale debug_target_laws =
  fixes dt :: "'h debug_target" and stops_at :: "'w \<Rightarrow> 'h \<Rightarrow> bool" and conv :: "u64 \<Rightarrow> 'w"
  assumes stops_insert: "stops_at b (dt_insert_breakpoint dt a h) \<longleftrightarrow> b = conv a \<or> stops_at b h"
    and stops_remove: "stops_at b (dt_remove_breakpoint dt a h) \<longleftrightarrow> b \<noteq> conv a \<and> stops_at b h"
    and status_set [simp]: "dt_get_status dt (dt_set_status dt st h) = st"
    and hart_id_set [simp]: "dt_get_hart_id dt (dt_set_status dt st h) = dt_get_hart_id dt h"

interpretation iss_dbg: debug_target_laws iss_debug_target "\<lambda>b h. b \<in> breakpoints h" ucast
  by unfold_locales
    (auto simp: iss_debug_target_def insert_breakpoint_def remove_breakpoint_def get_status_def set_status_def get_hart_id_def)

interpretation iss_dbg64: debug_target_laws iss_debug_target64 "\<lambda>b h. b \<in> breakpoints64 h" "\<lambda>a. a"
  by unfold_locales
    (auto simp: iss_debug_target64_def insert_breakpoint64_def remove_breakpoint64_def get_status64_def set_status64_def
      get_hart_id64_def)

section \<open>Replies\<close>

lemma serialize_ascii:
  "list_all ascii str \<Longrightarrow>
     gdb_serialize GDB_KIND_PACKET str = Inr (CHR ''$'' # str @ CHR ''#'' # format_csum (calc_csum str))"
  using csum_ascii(3) [of str] by (simp add: gdb_serialize_def kind_to_char_def Let_def)

lemma to_string_ascii: "list_all ascii (to_string n)"
proof (induction n rule: less_induct)
  case (less n)
  have "(of_char (char_of (48 + n mod 10) :: char) :: nat) < 128"
    by (simp add: of_char_of take_bit_nat_eq_self)
  then have "ascii (char_of (48 + n mod 10))"
    using of_nat_of_char [of "char_of (48 + n mod 10)", where 'a = int, symmetric] by (simp add: ascii_def)
  then show ?case using less [of "n div 10"] by (subst to_string.simps) simp
qed

definition sent_packet :: "('h, 'm) gdb_env \<Rightarrow> string \<Rightarrow> ('h, 'm) GDBServer \<Rightarrow> ('h, 'm) GDBServer" where
  "sent_packet env str s = (let p = CHR ''$'' # str @ CHR ''#'' # format_csum (calc_csum str) in
     if gdb_link env then s\<lparr>gdb_sent := gdb_sent s @ [p], gdb_prevpkt := Some p\<rparr> else s)"

lemma reply_ascii: "list_all ascii str \<Longrightarrow> reply env str s = (Ok (), sent_packet env str s)"
  by (simp add: gdb_send_packet_def serialize_ascii catchE_def writeall_def sent_packet_def seqM_def bindM_def Let_def)

lemma send_ack:
  "gdb_send_packet env [] GDB_KIND_ACK s = (Ok (), if gdb_link env then s\<lparr>gdb_sent := gdb_sent s @ [''+'']\<rparr> else s)"
  by (simp add: gdb_send_packet_def gdb_serialize_def kind_to_char_def catchE_def writeall_def seqM_def bindM_def)

section \<open>Breakpoints\<close>

text \<open>
  C24. A packet that sets a breakpoint is acknowledged and answered with \<open>OK\<close>, and every hart that runs
  under the debugger stops as soon as it is about to execute the instruction at that address, without
  executing it.
\<close>

theorem gdb_breakpoint_stops:
  assumes "gdb_target env = iss_debug_target" and "pkt_kind pkt = GDB_KIND_PACKET"
    and "gdb_parse_cmd (gdb_stage2 env) pkt =
      Inr (Some \<lparr>cmd_name = ''Z'', cmd_arg = GDB_ARG_BREAK GDB_ZKIND_SOFT addr kind\<rparr>)"
  shows "\<exists>s'. gdb_run_round env pkt s = (Ok (), s') \<and> length (gdb_harts s') = length (gdb_harts s) \<and>
    (gdb_link env \<longrightarrow> gdb_sent s' = gdb_sent s @ [''+'', ''$OK#9a'']) \<and>
    (\<forall>i < length (gdb_harts s). \<forall>henv. let h = gdb_harts s' ! i in
       debug_mode h \<and> pc h = ucast addr \<and> reg 0 h = 0 \<longrightarrow> run_step henv h = (Ok (), h\<lparr>status := HitBreakpoint\<rparr>))"
proof -
  have ok: "list_all ascii ''OK''" "CHR ''$'' # ''OK'' @ CHR ''#'' # format_csum (calc_csum ''OK'') = ''$OK#9a''"
    by code_simp+
  have h: "handlers env ''Z'' = Some (setBreakpoint env)" by (simp add: handlers_def)
  let ?s1 = "if gdb_link env then s\<lparr>gdb_sent := gdb_sent s @ [''+'']\<rparr> else s"
  let ?s2 = "?s1\<lparr>gdb_harts := map (dt_insert_breakpoint iss_debug_target addr) (gdb_harts s)\<rparr>"
  have "gdb_run_round env pkt s = (Ok (), sent_packet env ''OK'' ?s2)"
    using assms h
    by (simp add: gdb_run_round_def seqM_apply send_ack setBreakpoint_def reply_ascii [OF ok(1)])
  moreover have "run_step henv h' = (Ok (), h'\<lparr>status := HitBreakpoint\<rparr>)"
    if "debug_mode h'" "pc h' = ucast addr" "reg 0 h' = 0" "h' = dt_insert_breakpoint iss_debug_target addr h" for henv h h'
  proof -
    have "pc h' \<in> breakpoints h'" using that iss_dbg.stops_insert [of "pc h'" addr h] by simp
    then show ?thesis using that by (simp add: run_step_def seqM_assert_apply)
  qed
  ultimately show ?thesis
    using ok(2) by (intro exI [of _ "sent_packet env ''OK'' ?s2"]) (auto simp: sent_packet_def Let_def)
qed

section \<open>Memory\<close>

lemma hex_buffer_length [simp]: "length (hex_buffer n str) = length str div 2"
  by (simp add: hex_buffer_def)

lemma memory_address:
  assumes "memory_wf m" and "unat a + n \<le> length (mem_data m)" and "0 < n"
  shows "unat (ucast a :: u32) = unat (a :: u64)" and "ucast a < mem_size m" and "ucast a + of_nat n \<le> mem_size m"
proof -
  have l: "length (mem_data m) = unat (mem_size m)" using assms(1) by (simp add: memory_wf_def)
  have b: "unat (mem_size m) < 2 ^ 32" using unsigned_less [of "mem_size m", where 'a = nat] by simp
  with assms(2) l have "unat a < 2 ^ 32" by simp
  then show a: "unat (ucast a :: u32) = unat a" by (simp add: unsigned_ucast_eq take_bit_nat_eq_self)
  show "ucast a < mem_size m" using a l assms by (simp add: word_less_nat_alt)
  show "ucast a + of_nat n \<le> mem_size m" using a l assms b by (simp add: word_le_nat_alt unat_word_ariths unat_of_nat)
qed

text \<open>
  C25. Accesses of the debugger to a memory: reading returns two digits for each byte. Writing stores the bytes of the
  packet in the first half of the range only and zeros in the second, since the loop that converts
  the digits counts them as if they were bytes.
\<close>

theorem gdb_memory_access:
  assumes "memory_wf m" and "unat a + n \<le> length (mem_data m)" and "0 < n" and "length str = 2 * n"
  shows "read_memory memory_transport_dbg a n m =
      (Ok (concat (map (\<lambda>b. hex_digits 2 (unat b)) (take n (drop (unat a) (mem_data m))))), m) \<and>
    (\<exists>m'. write_memory memory_transport_dbg a n str m = (Ok (), m') \<and>
      (\<forall>j < n. mem_data m' ! (unat a + j) =
        (if 2 * j + 1 < n then hex_byte (str ! (2 * j)) (str ! (2 * j + 1)) else 0)))"
proof -
  note u = memory_address [OF assms(1-3)]
  have "read_memory memory_transport_dbg a n m =
      (Ok (concat (map (\<lambda>b. hex_digits 2 (unat b)) (take n (drop (unat a) (mem_data m))))), m)"
    using u assms(2)
    by (simp add: read_memory_def do_dbg_transaction_def memory_transport_dbg_def read_data_def array_read_def Let_def
        seqM_assert_apply is_response_error_def bindM_def seqM_def assertM_def)
  moreover obtain xs where xs: "array_write (unat a) (hex_buffer n str) (mem_data m) = Some xs"
    using assms(2,4) by (simp add: array_write_def)
  have "write_memory memory_transport_dbg a n str m = (Ok (), m\<lparr>mem_data := xs\<rparr>)"
    using u assms(2,4) xs
    by (simp add: write_memory_def do_dbg_transaction_def memory_transport_dbg_def write_data_def Let_def
        seqM_assert_apply is_response_error_def) (simp add: seqM_def bindM_def assertM_def is_response_error_def write_data_def)
  moreover have "xs ! (unat a + j) = (if 2 * j + 1 < n then hex_byte (str ! (2 * j)) (str ! (2 * j + 1)) else 0)"
    if "j < n" for j
    using array_write_nth [OF xs, of "unat a + j"] that assms(2,4) by (simp add: hex_buffer_def)
  ultimately show ?thesis by (intro conjI exI [of _ "m\<lparr>mem_data := xs\<rparr>"]) simp_all
qed

section \<open>Continuing\<close>

text \<open>
  What the server relies on of the simulation kernel: waiting for the first stop event ends when one of the harts
  has stopped, and a hart that has stopped does not change its status by itself.
\<close>

definition kernel_waits :: "('h, 'm) gdb_env \<Rightarrow> bool" where
  "kernel_waits env \<longleftrightarrow> (let st = dt_get_status (gdb_target env) in
     (\<forall>single is hs b hs' b'. wait_any env single is (hs, b) = (hs', b') \<longrightarrow>
        length hs' = length hs \<and>
        (is \<noteq> [] \<and> (\<forall>i \<in> set is. i < length hs) \<longrightarrow> (\<exists>i \<in> set is. st (hs' ! i) \<noteq> Runnable))) \<and>
     (\<forall>i hs b hs' b'. wait_stop env i (hs, b) = (hs', b') \<longrightarrow>
        length hs' = length hs \<and> (\<forall>j < length hs. st (hs ! j) \<noteq> Runnable \<longrightarrow> st (hs' ! j) = st (hs ! j))))"

lemma kernel_any:
  "kernel_waits env \<Longrightarrow> wait_any env single is (hs, b) = (hs', b') \<Longrightarrow>
     length hs' = length hs \<and> (is \<noteq> [] \<and> (\<forall>i \<in> set is. i < length hs) \<longrightarrow>
       (\<exists>i \<in> set is. dt_get_status (gdb_target env) (hs' ! i) \<noteq> Runnable))"
  unfolding kernel_waits_def Let_def by blast

lemma kernel_stop:
  "kernel_waits env \<Longrightarrow> wait_stop env i (hs, b) = (hs', b') \<Longrightarrow> length hs' = length hs \<and>
     (\<forall>j < length hs. dt_get_status (gdb_target env) (hs ! j) \<noteq> Runnable \<longrightarrow>
        dt_get_status (gdb_target env) (hs' ! j) = dt_get_status (gdb_target env) (hs ! j))"
  unfolding kernel_waits_def Let_def by blast

text \<open>The part of the server that running harts does not change.\<close>

definition server_view :: "('h, 'm) GDBServer \<Rightarrow> _" where
  "server_view s = (length (gdb_harts s), thread_ops s, gdb_sent s, gdb_prevpkt s)"

text \<open>The threads that have stopped, as the replies name them.\<close>

definition hart_thread :: "('h, 'm) gdb_env \<Rightarrow> ('h, 'm) GDBServer \<Rightarrow> nat \<Rightarrow> int" where
  "hart_thread env s i = int (unat (dt_get_hart_id (gdb_target env) (gdb_harts s ! i))) + 1"

definition stopped_thread :: "('h, 'm) gdb_env \<Rightarrow> ('h, 'm) GDBServer \<Rightarrow> nat \<Rightarrow> string \<times> int \<Rightarrow> bool" where
  "stopped_thread env s i r \<longleftrightarrow>
     (hart_status env s i = HitBreakpoint \<and> fst r = ''05'' \<or> hart_status env s i = Terminated \<and> fst r = ''03'') \<and>
     snd r = hart_thread env s i"

context debug_target_laws
begin

lemma set_hart_status_eq:
  "gdb_target env = dt \<Longrightarrow>
     set_hart_status env i st s = (Ok (), s\<lparr>gdb_harts := (gdb_harts s)[i := dt_set_status dt st (gdb_harts s ! i)]\<rparr>)"
  by (simp add: set_hart_status_def on_gdb_hart_def zoomM_def)

lemma hart_status_set:
  assumes "gdb_target env = dt" and "i < length (gdb_harts s)"
  shows "hart_status env (s\<lparr>gdb_harts := (gdb_harts s)[i := dt_set_status dt st (gdb_harts s ! i)]\<rparr>) j =
    (if j = i then st else hart_status env s j)"
  using assms by (auto simp: hart_status_def nth_list_update)

lemma stop_harts_spec:
  assumes "gdb_target env = dt" and "kernel_waits env" and "\<forall>i \<in> set is. i < length (gdb_harts s)"
  shows "\<exists>sts s'. stop_harts env is s = (Ok sts, s') \<and> server_view s' = server_view s \<and> length sts = length is \<and>
    (\<forall>k < length is. hart_status env s (is ! k) \<noteq> Runnable \<longrightarrow> sts ! k = hart_status env s (is ! k))"
  using assms(3)
proof (induction "is" arbitrary: s)
  case (Cons i "is")
  let ?st = "hart_status env s i"
  obtain s1 where s1: "(if ?st \<noteq> Runnable then ret ()
      else seqM (set_hart_status env i HitBreakpoint) (run_kernel (wait_stop env i))) s = (Ok (), s1)"
      "server_view s1 = server_view s"
      "\<And>j. j < length (gdb_harts s) \<Longrightarrow> hart_status env s j \<noteq> Runnable \<Longrightarrow> hart_status env s1 j = hart_status env s j"
  proof (cases "?st = Runnable")
    case True
    let ?s = "s\<lparr>gdb_harts := (gdb_harts s)[i := dt_set_status dt HitBreakpoint (gdb_harts s ! i)]\<rparr>"
    obtain hs b where k: "wait_stop env i (gdb_harts ?s, gdb_bus ?s) = (hs, b)" by fastforce
    have l: "length hs = length (gdb_harts s)"
      and st: "\<And>j. j < length (gdb_harts s) \<Longrightarrow> hart_status env ?s j \<noteq> Runnable \<Longrightarrow> dt_get_status dt (hs ! j) = hart_status env ?s j"
      using kernel_stop [OF assms(2) k] assms(1) by (simp_all add: hart_status_def)
    show thesis
    proof (rule that [of "?s\<lparr>gdb_harts := hs, gdb_bus := b\<rparr>"])
      show "(if ?st \<noteq> Runnable then ret () else seqM (set_hart_status env i HitBreakpoint) (run_kernel (wait_stop env i))) s =
          (Ok (), ?s\<lparr>gdb_harts := hs, gdb_bus := b\<rparr>)"
        using True k by (simp add: seqM_apply set_hart_status_eq [OF assms(1)] run_kernel_def)
      fix j assume j: "j < length (gdb_harts s)" "hart_status env s j \<noteq> Runnable"
      then have "j \<noteq> i" using True by auto
      then show "hart_status env (?s\<lparr>gdb_harts := hs, gdb_bus := b\<rparr>) j = hart_status env s j"
        using st [OF j(1)] j(2) hart_status_set [OF assms(1), of i s HitBreakpoint j] Cons.prems assms(1)
        by (simp add: hart_status_def)
    qed (simp add: server_view_def l)
  next
    case False
    then show thesis by (intro that [of s]) simp_all
  qed
  have len: "length (gdb_harts s1) = length (gdb_harts s)" using s1(2) by (simp add: server_view_def)
  with Cons.prems have "\<forall>i \<in> set is. i < length (gdb_harts s1)" by simp
  from Cons.IH [OF this] obtain sts s2 where s2: "stop_harts env is s1 = (Ok sts, s2)" "server_view s2 = server_view s1"
      "length sts = length is"
      "\<forall>k < length is. hart_status env s1 (is ! k) \<noteq> Runnable \<longrightarrow> sts ! k = hart_status env s1 (is ! k)" by blast
  have "\<forall>k < length (i # is). hart_status env s ((i # is) ! k) \<noteq> Runnable \<longrightarrow> (?st # sts) ! k = hart_status env s ((i # is) ! k)"
  proof (intro allI impI)
    fix k assume k: "k < length (i # is)" "hart_status env s ((i # is) ! k) \<noteq> Runnable"
    then show "(?st # sts) ! k = hart_status env s ((i # is) ! k)"
    proof (cases k)
      case (Suc k')
      then have "is ! k' < length (gdb_harts s)" using k(1) Cons.prems by simp
      then show ?thesis using s1(3) [of "is ! k'"] s2(4) k Suc by simp
    qed simp
  qed
  moreover have "stop_harts env (i # is) s = (Ok (?st # sts), s2)"
    using s1(1) s2(1) by (simp add: seqM_def bindM_def)
  ultimately show ?case using s1(2) s2(2,3) by auto
qed simp

lemma restore_status:
  assumes "gdb_target env = dt" and "distinct (map fst ps)" and "\<forall>p \<in> set ps. fst p < length (gdb_harts s)"
  shows "\<exists>s'. seqs (map (\<lambda>(i, st). set_hart_status env i st) ps) s = (Ok (), s') \<and> server_view s' = server_view s \<and>
    (\<forall>p \<in> set ps. hart_status env s' (fst p) = snd p) \<and> (\<forall>j. j \<notin> fst ` set ps \<longrightarrow> hart_status env s' j = hart_status env s j)"
  using assms(2,3)
proof (induction ps arbitrary: s)
  case (Cons p ps)
  obtain i st where p: "p = (i, st)" by fastforce
  let ?s = "s\<lparr>gdb_harts := (gdb_harts s)[i := dt_set_status dt st (gdb_harts s ! i)]\<rparr>"
  have i: "i < length (gdb_harts s)" and ps: "distinct (map fst ps)" "\<forall>p \<in> set ps. fst p < length (gdb_harts ?s)"
    using Cons.prems p by auto
  from Cons.IH [OF ps] obtain s' where s': "seqs (map (\<lambda>(i, st). set_hart_status env i st) ps) ?s = (Ok (), s')"
      "server_view s' = server_view ?s" "\<forall>p \<in> set ps. hart_status env s' (fst p) = snd p"
      "\<forall>j. j \<notin> fst ` set ps \<longrightarrow> hart_status env s' j = hart_status env ?s j" by blast
  have "i \<notin> fst ` set ps" using Cons.prems(1) p by simp
  moreover have "seqs (map (\<lambda>(i, st). set_hart_status env i st) (p # ps)) s = (Ok (), s')"
    using s'(1) set_hart_status_eq [OF assms(1), of i st s] by (simp add: p seqM_apply)
  ultimately show ?case
    using s'(2-4) p hart_status_set [OF assms(1) i, of st] by (intro exI [of _ s']) (simp add: server_view_def)
qed simp

lemma stop_reply_spec:
  assumes "gdb_target env = dt" and "distinct is" and "\<forall>i \<in> set is. i < length (gdb_harts s)"
  shows "\<exists>r s'. stop_reply env stop is s = (Ok r, s') \<and> server_view s' = server_view s \<and>
    (\<forall>j. hart_status env s' j =
      (if j \<in> set is \<and> hart_status env s j = HitBreakpoint then Runnable else hart_status env s j)) \<and>
    (\<forall>j. hart_thread env s' j = hart_thread env s j) \<and>
    (if \<forall>i \<in> set is. hart_status env s i = Runnable then r = stop
     else \<exists>i \<in> set is. \<exists>x. r = Some x \<and> stopped_thread env s i x)"
  using assms(2,3)
proof (induction "is" arbitrary: s stop)
  case (Cons i "is")
  define s1 where "s1 = (if hart_status env s i = HitBreakpoint
    then s\<lparr>gdb_harts := (gdb_harts s)[i := dt_set_status dt Runnable (gdb_harts s ! i)]\<rparr> else s)"
  define stop1 where "stop1 = (case hart_status env s i of
    HitBreakpoint \<Rightarrow> Some (''05'', hart_thread env s i) | Terminated \<Rightarrow> Some (''03'', hart_thread env s i) | Runnable \<Rightarrow> stop)"
  have step: "stop_reply env stop (i # is) s = stop_reply env stop1 is s1"
    using assms(1) set_hart_status_eq [OF assms(1), of i Runnable s]
    by (simp add: s1_def stop1_def bindM_def seqM_def hart_status_def hart_thread_def split: CoreExecStatus.split)
  have i: "i < length (gdb_harts s)" and ni: "i \<notin> set is" using Cons.prems by simp_all
  have st: "\<And>j. hart_status env s1 j = (if j = i \<and> hart_status env s i = HitBreakpoint then Runnable else hart_status env s j)"
    using hart_status_set [OF assms(1) i, of Runnable] by (auto simp: s1_def)
  have th: "\<And>j. hart_thread env s1 j = hart_thread env s j"
    using i assms(1) by (simp add: s1_def hart_thread_def nth_list_update)
  have view: "server_view s1 = server_view s" by (simp add: s1_def server_view_def)
  have same: "hart_status env s1 j = hart_status env s j" "stopped_thread env s1 j x \<longleftrightarrow> stopped_thread env s j x"
    if "j \<in> set is" for j x
    using st [of j] th [of j] that ni by (auto simp: stopped_thread_def)
  have "distinct is" "\<forall>i \<in> set is. i < length (gdb_harts s1)"
    using Cons.prems by (simp_all add: s1_def)
  from Cons.IH [OF this, of stop1] obtain r s' where r: "stop_reply env stop1 is s1 = (Ok r, s')" "server_view s' = server_view s1"
      "\<And>j. hart_status env s' j =
        (if j \<in> set is \<and> hart_status env s1 j = HitBreakpoint then Runnable else hart_status env s1 j)"
      "\<And>j. hart_thread env s' j = hart_thread env s1 j"
      "if \<forall>i \<in> set is. hart_status env s1 i = Runnable then r = stop1
       else \<exists>i \<in> set is. \<exists>x. r = Some x \<and> stopped_thread env s1 i x" by blast
  have "if \<forall>j \<in> set (i # is). hart_status env s j = Runnable then r = stop
      else \<exists>j \<in> set (i # is). \<exists>x. r = Some x \<and> stopped_thread env s j x"
  proof (cases "\<forall>j \<in> set is. hart_status env s j = Runnable")
    case True
    then have "r = stop1" using r(5) same(1) by simp
    then show ?thesis using True
      by (cases "hart_status env s i") (auto simp: stop1_def stopped_thread_def)
  next
    case False
    then have "\<not> (\<forall>j \<in> set is. hart_status env s1 j = Runnable)" using same(1) by simp
    then obtain j x where "j \<in> set is" "r = Some x" "stopped_thread env s1 j x" using r(5) by metis
    then show ?thesis using same(2) False by auto
  qed
  moreover have "hart_status env s' j =
      (if j \<in> set (i # is) \<and> hart_status env s j = HitBreakpoint then Runnable else hart_status env s j)" for j
    using r(3) [of j] st [of j] ni by auto
  ultimately show ?case using r(1,2,4) step view th by auto
qed simp

lemma run_threads_spec:
  assumes "gdb_target env = dt" and "kernel_waits env" and "distinct is" and "is \<noteq> []"
    and "\<forall>i \<in> set is. i < length (gdb_harts s)"
  shows "\<exists>s'. run_threads env is single s = (Ok is, s') \<and> server_view s' = server_view s \<and>
    (\<exists>i \<in> set is. hart_status env s' i \<noteq> Runnable)"
proof -
  let ?s = "s\<lparr>single_run := single\<rparr>"
  obtain hs b where k: "wait_any env single is (gdb_harts ?s, gdb_bus ?s) = (hs, b)" by fastforce
  let ?s1 = "?s\<lparr>gdb_harts := hs, gdb_bus := b\<rparr>"
  have len: "length hs = length (gdb_harts s)" using kernel_any [OF assms(2) k] by simp
  obtain i where i: "i \<in> set is" "hart_status env ?s1 i \<noteq> Runnable"
    using kernel_any [OF assms(2) k] assms(4,5) by (auto simp: hart_status_def)
  have "\<forall>i \<in> set is. i < length (gdb_harts ?s1)" using assms(5) len by simp
  from stop_harts_spec [OF assms(1,2) this] obtain sts s2 where s2: "stop_harts env is ?s1 = (Ok sts, s2)"
      "server_view s2 = server_view ?s1" "length sts = length is"
      "\<forall>k < length is. hart_status env ?s1 (is ! k) \<noteq> Runnable \<longrightarrow> sts ! k = hart_status env ?s1 (is ! k)" by blast
  have "distinct (map fst (zip is sts))" "\<forall>p \<in> set (zip is sts). fst p < length (gdb_harts s2)"
    using assms(3,5) s2(2,3) len by (auto simp: server_view_def dest: set_zip_leftD)
  from restore_status [OF assms(1) this] obtain s3 where
    s3: "seqs (map (\<lambda>(i, st). set_hart_status env i st) (zip is sts)) s2 = (Ok (), s3)" "server_view s3 = server_view s2"
      "\<forall>p \<in> set (zip is sts). hart_status env s3 (fst p) = snd p" by blast
  obtain k where ik: "k < length is" "is ! k = i" using i(1) by (auto simp: in_set_conv_nth)
  then have "(i, sts ! k) \<in> set (zip is sts)" using s2(3) by (auto simp: set_zip)
  then have "hart_status env s3 i = sts ! k" using s3(3) by fastforce
  also have "\<dots> \<noteq> Runnable" using s2(4) ik i(2) by simp
  finally have "hart_status env s3 i \<noteq> Runnable" .
  moreover have "run_threads env is single s = (Ok is, s3)"
    using assms(4) k s2(1) s3(1) by (simp add: run_threads_def seqM_apply run_kernel_def bindM_def)
  ultimately show ?thesis using i(1) s2(2) s3(2) len by (auto simp: server_view_def)
qed

text \<open>One action for all harts, \<open>c\<close> or \<open>s\<close>.\<close>

lemma vcont_all:
  assumes "gdb_target env = dt" and "kernel_waits env" and "gdb_harts s \<noteq> []"
    and "vc_action vc \<in> {CHR ''c'', CHR ''s''}" and "gdb_tid (vc_thread vc) = GDB_THREAD_ALL"
  shows "\<exists>reason i s'. vcont_actions env [] None [vc] s = (Ok (Inr (Some (reason, hart_thread env s' i))), s') \<and>
    server_view s' = server_view s \<and> i < length (gdb_harts s) \<and>
    (\<forall>j < length (gdb_harts s). hart_status env s' j \<noteq> HitBreakpoint) \<and>
    (reason = ''05'' \<and> hart_status env s' i = Runnable \<or> reason = ''03'' \<and> hart_status env s' i = Terminated)"
proof -
  let ?is = "[0..<length (gdb_harts s)]"
  have "distinct ?is" "?is \<noteq> []" "\<forall>i \<in> set ?is. i < length (gdb_harts s)" using assms(3) by simp_all
  from run_threads_spec [OF assms(1,2) this] obtain s1 i where
    s1: "run_threads env ?is (vc_action vc = CHR ''s'') s = (Ok ?is, s1)" "server_view s1 = server_view s"
      "i \<in> set ?is" "hart_status env s1 i \<noteq> Runnable" by blast
  have "\<forall>i \<in> set ?is. i < length (gdb_harts s1)" using s1(2) by (simp add: server_view_def)
  from stop_reply_spec [OF assms(1) distinct_upt this, of None] obtain r s2 where
    s2: "stop_reply env None ?is s1 = (Ok r, s2)" "server_view s2 = server_view s1"
      "\<And>j. hart_status env s2 j =
        (if j \<in> set ?is \<and> hart_status env s1 j = HitBreakpoint then Runnable else hart_status env s1 j)"
      "\<And>j. hart_thread env s2 j = hart_thread env s1 j"
      "if \<forall>i \<in> set ?is. hart_status env s1 i = Runnable then r = None
       else \<exists>i \<in> set ?is. \<exists>x. r = Some x \<and> stopped_thread env s1 i x" by blast
  then obtain j reason where j: "j \<in> set ?is" "r = Some (reason, hart_thread env s1 j)"
      "stopped_thread env s1 j (reason, hart_thread env s1 j)"
    using s1(3,4) by (fastforce simp: stopped_thread_def split: if_split_asm)
  have "vcont_actions env [] None [vc] s = (Ok (Inr r), s2)"
    using assms(4,5) s1(1) s2(1) by (auto simp: get_threads_def bindM_def)
  then show ?thesis
    using j s1(2) s2(2-4) by (intro exI [of _ reason] exI [of _ j] exI [of _ s2]) (auto simp: stopped_thread_def)
qed

end

lemma unat_widen: "unat (ucast (w :: u32) :: u64) = unat w"
proof -
  have "unat w < 2 ^ 64" using unsigned_less [of w, where 'a = nat] by simp
  then show ?thesis by (simp add: unsigned_ucast_eq take_bit_nat_eq_self)
qed


section \<open>Witnesses\<close>

text \<open>A hart that stops at once, on a memory of 64 bytes.\<close>

definition gdb_env_example :: "gdb_command \<Rightarrow> (unit ISS, SimpleMemory) gdb_env" where
  "gdb_env_example cmd =
     \<lparr>gdb_target = iss_debug_target, gdb_tdbg = memory_transport_dbg, gdb_v2p = None, gdb_stage2 = (\<lambda>_. Some cmd),
      gdb_link = True, wait_any = (\<lambda>_ _ (hs, b). (map (set_status HitBreakpoint) hs, b)), wait_stop = (\<lambda>_ x. x)\<rparr>"

definition gdb_example :: "(unit ISS, SimpleMemory) GDBServer" where
  "gdb_example =
     \<lparr>gdb_harts = [enable_debug (hart_example [])], gdb_bus = SimpleMemory_init 64 False, gdb_prevpkt = None,
      thread_ops = Map.empty, single_run = False, gdb_sent = []\<rparr>"

definition pkt_example :: "string \<Rightarrow> gdb_packet" where
  "pkt_example str =
     \<lparr>pkt_kind = GDB_KIND_PACKET, pkt_data = Some str, pkt_csum = format_csum (calc_csum str)\<rparr>"

lemma kernel_example: "kernel_waits (gdb_env_example cmd)"
  by (auto simp: kernel_waits_def gdb_env_example_def iss_debug_target_def get_status_def set_status_def neq_Nil_conv Let_def)

lemma parse_example:
  "gdb_parse_cmd (gdb_stage2 (gdb_env_example cmd)) (pkt_example ''Z0,80000000,4'') = Inr (Some cmd)"
  "gdb_parse_cmd (gdb_stage2 (gdb_env_example cmd)) (pkt_example ''vCont;c:-1'') = Inr (Some cmd)"
proof -
  have "gdb_is_valid (pkt_example ''Z0,80000000,4'') = Inr True" "gdb_is_valid (pkt_example ''vCont;c:-1'') = Inr True"
    "gdb_decode_runlen ''Z0,80000000,4'' = Inr (Some ''Z0,80000000,4'')"
    "gdb_decode_runlen ''vCont;c:-1'' = Inr (Some ''vCont;c:-1'')"
    by code_simp+
  then show "gdb_parse_cmd (gdb_stage2 (gdb_env_example cmd)) (pkt_example ''Z0,80000000,4'') = Inr (Some cmd)"
    and "gdb_parse_cmd (gdb_stage2 (gdb_env_example cmd)) (pkt_example ''vCont;c:-1'') = Inr (Some cmd)"
    by (simp_all add: gdb_parse_cmd_def gdb_env_example_def pkt_example_def gdb_unescape_def)
qed

theorem gdb_breakpoint_stops_witness:
  "\<exists>s'. gdb_run_round
      (gdb_env_example \<lparr>cmd_name = ''Z'', cmd_arg = GDB_ARG_BREAK GDB_ZKIND_SOFT 0x80000000 4\<rparr>)
      (pkt_example ''Z0,80000000,4'') gdb_example = (Ok (), s') \<and> length (gdb_harts s') = 1 \<and>
    gdb_sent s' = [''+'', ''$OK#9a'']"
proof -
  let ?env = "gdb_env_example \<lparr>cmd_name = ''Z'', cmd_arg = GDB_ARG_BREAK GDB_ZKIND_SOFT 0x80000000 4\<rparr>"
  have "gdb_target ?env = iss_debug_target" "gdb_link ?env" "pkt_kind (pkt_example ''Z0,80000000,4'') = GDB_KIND_PACKET"
    "length (gdb_harts gdb_example) = 1" "gdb_sent gdb_example = []"
    by (simp_all add: gdb_env_example_def gdb_example_def pkt_example_def)
  note e = this
  from gdb_breakpoint_stops [OF e(1) e(3) parse_example(1), of gdb_example] show ?thesis using e by auto
qed

theorem gdb_memory_access_witness:
  "read_memory memory_transport_dbg 4 2 (SimpleMemory_init 64 False) = (Ok ''0000'', SimpleMemory_init 64 False) \<and>
   (\<exists>m'. write_memory memory_transport_dbg 4 2 ''abcd'' (SimpleMemory_init 64 False) = (Ok (), m') \<and>
     mem_data m' ! 4 = 0xab \<and> mem_data m' ! 5 = 0)"
proof -
  have a: "unat (4 :: u64) + 2 \<le> length (mem_data (SimpleMemory_init 64 False))" by (simp add: SimpleMemory_init_def)
  have d: "concat (map (\<lambda>b. hex_digits 2 (unat b)) (take 2 (drop (unat (4 :: u64)) (mem_data (SimpleMemory_init 64 False))))) = ''0000''"
    and h: "hex_byte CHR ''a'' CHR ''b'' = 0xab"
    by code_simp+
  note t = gdb_memory_access [OF memory_init_wf a, of "''abcd''"]
  then obtain m' where "write_memory memory_transport_dbg 4 2 ''abcd'' (SimpleMemory_init 64 False) = (Ok (), m')"
      "\<forall>j < 2. mem_data m' ! (unat (4 :: u64) + j) =
        (if 2 * j + 1 < 2 then hex_byte (''abcd'' ! (2 * j)) (''abcd'' ! (2 * j + 1)) else 0)" by auto
  moreover from this(2) have "mem_data m' ! 4 = 0xab" "mem_data m' ! 5 = 0"
    using h by (auto dest: spec [of _ 0] spec [of _ 1])
  ultimately show ?thesis using t d by simp
qed


end
