(* ===== verification/Spec2Isabelle.thy ===== *)
theory Spec2Isabelle
  imports Iss_Lock Exec_Props Mem_Props Mmu_Props Bus_Props Clint_Props Plic_Props PeriphBasic Slip PeriphHifive PeriphSmall Flash Iss64_Props Elf_Props
    Syscall_Props Platforms_Props Gdb_Props
begin

text \<open>
  A verification library for the RISC-V virtual prototype (\<open>src/vp/src\<close>): an instruction set
  simulator with its memory interface, MMU, interrupt controllers and peripherals, composed with
  SystemC TLM sockets.

  \<^bold>\<open>The program.\<close> A platform (\<open>platform/*/*_main.cpp\<close>) connects harts (\<open>core/rv32/iss.cpp\<close>,
  \<open>core/rv64/iss.cpp\<close>) through a memory interface (\<open>core/rv32/mem.h\<close>), which translates
  addresses (\<open>core/common/mmu.h\<close>), uses direct memory where it can (\<open>core/common/dmi.h\<close>) and the bus
  (\<open>platform/common/bus.h\<close>) otherwise, to memories and peripherals. Interrupts come from the core-local controller
  (\<open>clint.h\<close>, \<open>real_clint.cpp\<close>) and a platform controller (\<open>fe310_plic.h\<close>, \<open>fu540_plic.cpp\<close>), which call the hart
  through the interfaces of \<open>irq_if.h\<close>. Peripherals build their register files from \<open>util/memory_map.h\<close> or
  \<open>util/tlm_map.h\<close>.

  \<^bold>\<open>Conventions.\<close> Machine integers are words of their width, so that arithmetic wraps as in the code;
  classes are records, their methods state-passing functions of the type \<open>('s, 'a) act\<close> of \<open>Prelude\<close>,
  whose outcome is a value, a RISC-V trap (\<open>SimulationTrap\<close>) or an error: a failed assertion, a C++
  exception, an access outside an array of the host. Loops over bounded ranges are folds or
  recursions over lists; the page table walk recurses on its level and the copy loops on the bytes
  left, with termination proofs. The one loop that may run for ever, waiting for the bus lock, is a
  partial function whose \<open>None\<close> is not returning. SystemC threads are modelled one round at a time,
  from the event they wait for to the next wait, and the threads of the UART as steps of a relation
  that interleaves them. Code outside the repository (softfloat, SystemC, boost, the host's files and sockets) is a parameter: the
  arithmetic of softfloat, the emulation of system calls, the delay and the other participants on the
  bus are fields of an environment record, the functions of the operating system a record of their own.

  \<^bold>\<open>Theories.\<close>
  \<^item> \<open>Prelude\<close>: words and bit fields, the outcome monad, the calculus of what an action keeps
    (\<open>keeps\<close>, \<open>preserves\<close>, \<open>returns\<close> with the collections \<open>keeps_intros\<close>, \<open>preserves_intros\<close>).
  \<^item> \<open>Instr\<close>, \<open>Encoding\<close>, \<open>Decoder\<close>, \<open>Compressed\<close>: \<open>core/common/instr.h\<close> and \<open>instr.cpp\<close>. The switch tree of
    \<open>decode_normal\<close> decides the table of masks and encodings; the expansion of a compressed instruction
    decodes to the reported operation and has its operands.
  \<^item> \<open>Csr\<close>, \<open>Fp\<close>, \<open>Core\<close>: \<open>core/rv32/csr.h\<close>, \<open>core/common/fp.h\<close> and the state of a hart of \<open>core/rv32/iss.h\<close>.
  \<^item> \<open>Bus\<close>, \<open>RawMem\<close>, \<open>Mmu\<close>, \<open>MemIf\<close>: \<open>bus.h\<close>, \<open>bus_lock_if.h\<close>, \<open>memory.h\<close>, \<open>dmi.h\<close>, \<open>mmu.h\<close> and \<open>core/rv32/mem.h\<close>. \<open>Example\<close> holds the
    concrete platform on which the witnesses run.
  \<^item> \<open>Iss_Trap\<close>, \<open>Iss_Csr\<close>, \<open>Iss_Exec\<close>, \<open>Iss_Run\<close>: \<open>core/rv32/iss.cpp\<close>, from traps and interrupts over the
    instructions to \<open>run_step\<close> and \<open>run\<close>.
  \<^item> \<open>Iss_Inv\<close>, \<open>Iss_Config\<close>, \<open>Iss_Step\<close>, \<open>Iss_Reach\<close>, \<open>Iss_Lock\<close>: the invariant of a hart, what instructions
    leave alone, the effect of whole steps, and what holds in every state reachable from reset.
  \<^item> \<open>Exec_Props\<close>, \<open>Mem_Props\<close>, \<open>Mmu_Props\<close>, \<open>Bus_Props\<close>: CSR accesses, multiplication and division; stores and
    loads, AMO and LR/SC; translation refines a specification of the walk; exclusion and progress of the bus lock.
  \<^item> \<open>Csr64\<close>, \<open>Core64\<close>, \<open>RawMem64\<close>, \<open>Mmu64\<close>, \<open>MemIf64\<close>, \<open>Iss64_Trap\<close>, \<open>Iss64_Csr\<close>, \<open>Iss64_Exec\<close>, \<open>Iss64_Run\<close>: the same
    for \<open>core/rv64\<close>. A name of the namespace \<open>rv64\<close> that RV32 has too carries the suffix \<open>64\<close>; decoder, bus,
    TLB and floating-point registers are shared.
  \<^item> \<open>Iss64_Inv\<close>, \<open>Iss64_Step\<close>, \<open>Iss64_Props\<close>: the invariant of the RV64 hart and its reachable states
    (aligned program counter, 64-bit modes, supported \<open>satp\<close>), whole steps of the instructions on words,
    traps with 64-bit values, and two CSR accesses that go wrong.
  \<^item> \<open>RegMap\<close>, \<open>TlmMap\<close>, \<open>IrqIf\<close>: register ranges with callbacks and views, register banks and routers, the
    interrupt interfaces. Their locales (\<open>range_member\<close>, \<open>range_invariant\<close>, \<open>register_file\<close>, \<open>clint_target\<close>,
    \<open>external_target\<close>) are interpreted by every peripheral and by the hart.
  \<^item> \<open>Clint\<close>, \<open>RealClint\<close>, \<open>Clint_Props\<close>: both CLINTs, and that timer and software interrupts reach the hart.
  \<^item> \<open>PlicSel\<close>, \<open>PlicFE310\<close>, \<open>PlicFU540\<close>, \<open>Plic_Props\<close>: both PLICs, selection by priority, claim and completion.
  \<^item> \<open>Uart\<close>, \<open>Slip\<close>: \<open>abstract_uart.cpp\<close> with its threads, \<open>uart.cpp\<close>, \<open>slip.cpp\<close>.
  \<^item> \<open>PeriphBasic\<close>, \<open>PeriphHifive\<close>, \<open>PeriphSmall\<close>: DMA, sensors, timer; PRCI, AON, SPI, GPIO; mask ROM, 16550,
    terminal, random source, persistent memory. \<open>Flash\<close>: the block buffer of \<open>flash.h\<close> refines an unbuffered disk.
  \<^item> \<open>CStruct\<close>, \<open>Elf\<close>, \<open>Elf_Props\<close>: \<open>elf_loader.h\<close> of both widths. The locale \<open>load_target\<close>, interpreted by \<open>SimpleMemory\<close>,
    is what the loader needs of \<open>load_if.h\<close>; the loaded memory is the image of the segments.
  \<^item> \<open>Syscall\<close>, \<open>Syscall_Props\<close>: \<open>syscall.cpp\<close> and \<open>syscall.h\<close> of both widths, with the operating system of the host
    as a parameter. The emulation meets what the theories of the harts require of their parameter \<open>sys\<close>.
  \<^item> \<open>Platforms\<close>, \<open>Platforms_Props\<close>: the options, address maps and construction of the nine platforms. Every
    device answers at its addresses (with the exceptions that the theorems name), direct mappings are
    equivalent to the bus, the hart starts with the loaded program, and interrupts of the CLINT reach
    it over the bus.
  \<^item> \<open>Gdb\<close>, \<open>GdbServer\<close>, \<open>Gdb_Props\<close>: the debug server of \<open>core/common/gdb-mc\<close> and \<open>debug_memory.cpp\<close>: packets,
    every handler of \<open>handler.cpp\<close>, running and stopping the harts. The locale \<open>debug_target_laws\<close> is what the
    server needs of \<open>debug_target_if\<close>, interpreted by the harts of both widths. The grammar of the commands
    and the simulation kernel are parameters; \<open>kernel_waits\<close> is what the server relies on when it lets harts run.

  \<^bold>\<open>Bounds.\<close> A page table walk has at most as many levels as the mode (two for Sv32, three for Sv39, four for Sv48). A reservation is
  held for at most sixteen further steps. Witnesses run on one or two harts with small memories; no
  theorem bounds the size of memory, the number of harts or of steps.

  \<^bold>\<open>Not modelled.\<close> Printing and tracing, the parser of the command line (boost), the grammars of the packets for the debugger (the combinator library mpc), sockets and threads of the host, display, Ethernet, CAN and OLED devices
  (host sockets and windows), the programs under \<open>src/env\<close> and the patched SystemC kernel under
  \<open>src/vp/dependencies\<close>.
\<close>

end
